(* ===== verification/Prelude.thy ===== *)
theory Prelude
  imports Main "HOL-Library.Word" "HOL-Library.Sublist" "HOL-Library.AList"
begin

text \<open>
  Shared ground of the development: the result type of the fallible Rust functions, the
  operations of the Rust standard library on strings and hash maps that the code uses, and the
  generic facts about them that the component theories share.

  A Rust \<open>String\<close> or \<open>&str\<close> is its sequence of UTF-8 bytes, a \<open>string\<close> here (a list of
  8-bit \<open>char\<close>s), so \<open>len()\<close> is \<^const>\<open>length\<close> and byte indices are list indices. The
  case conversions and the white space tests act on the ASCII range, which is what the
  \<open>ascii\<close> functions of Rust do and what its Unicode functions do on ASCII text.
  A \<open>HashMap\<close> is a partial function. \<open>Ok\<close> and \<open>Err\<close> are the two injections of a sum.
\<close>

named_theorems str_simps \<open>rewrite rules of the string functions\<close>
named_theorems loop_simps \<open>one-step unfoldings of the loops of the model\<close>

text \<open>The non-ASCII characters of the code's messages, as their UTF-8 bytes.\<close>

abbreviation em_dash :: string where
  "em_dash \<equiv> [CHR 0xE2, CHR 0x80, CHR 0x94]"

abbreviation right_arrow :: string where
  "right_arrow \<equiv> [CHR 0xE2, CHR 0x86, CHR 0x92]"

subsection \<open>Results\<close>

abbreviation Ok :: "'a \<Rightarrow> 'e + 'a" where "Ok \<equiv> Inr"
abbreviation Err :: "'e \<Rightarrow> 'e + 'a" where "Err \<equiv> Inl"

fun is_ok :: "'e + 'a \<Rightarrow> bool" where
  "is_ok (Inl _) = False"
| "is_ok (Inr _) = True"

text \<open>The \<open>?\<close> operator of Rust on a result.\<close>

fun and_then :: "'e + 'a \<Rightarrow> ('a \<Rightarrow> 'e + 'b) \<Rightarrow> 'e + 'b" where
  "and_then (Inl e) f = Inl e"
| "and_then (Inr a) f = f a"

lemma and_then_Ok_iff: "and_then r f = Inr b \<longleftrightarrow> (\<exists>a. r = Inr a \<and> f a = Inr b)"
  by (cases r) auto

lemma and_then_Err_iff:
  "and_then r f = Inl e \<longleftrightarrow> r = Inl e \<or> (\<exists>a. r = Inr a \<and> f a = Inl e)"
  by (cases r) auto

subsection \<open>Characters\<close>

abbreviation quote_char :: char where "quote_char \<equiv> CHR 0x22"
abbreviation newline :: char where "newline \<equiv> CHR 0x0A"
abbreviation tab_char :: char where "tab_char \<equiv> CHR 0x09"

text \<open>\<open>u8::is_ascii_digit\<close>, \<open>to_ascii_lowercase\<close>, \<open>to_ascii_uppercase\<close>, and the ASCII part
  of \<open>char::is_whitespace\<close>.\<close>

definition is_digit_char :: "char \<Rightarrow> bool" where
  "is_digit_char c \<longleftrightarrow> 48 \<le> (of_char c :: nat) \<and> (of_char c :: nat) \<le> 57"

definition is_upper_char :: "char \<Rightarrow> bool" where
  "is_upper_char c \<longleftrightarrow> 65 \<le> (of_char c :: nat) \<and> (of_char c :: nat) \<le> 90"

definition is_lower_char :: "char \<Rightarrow> bool" where
  "is_lower_char c \<longleftrightarrow> 97 \<le> (of_char c :: nat) \<and> (of_char c :: nat) \<le> 122"

definition is_space_char :: "char \<Rightarrow> bool" where
  "is_space_char c \<longleftrightarrow> (of_char c :: nat) = 32 \<or> (9 \<le> (of_char c :: nat) \<and> (of_char c :: nat) \<le> 13)"

definition to_lower_char :: "char \<Rightarrow> char" where
  "to_lower_char c = (if is_upper_char c then char_of ((of_char c :: nat) + 32) else c)"

definition to_upper_char :: "char \<Rightarrow> char" where
  "to_upper_char c = (if is_lower_char c then char_of ((of_char c :: nat) - 32) else c)"

text \<open>A UTF-8 continuation byte; a byte index is a character boundary when it does not point
  at one (\<open>str::is_char_boundary\<close>).\<close>

definition is_cont_byte :: "char \<Rightarrow> bool" where
  "is_cont_byte c \<longleftrightarrow> 128 \<le> (of_char c :: nat) \<and> (of_char c :: nat) < 192"

definition is_char_boundary :: "string \<Rightarrow> nat \<Rightarrow> bool" where
  "is_char_boundary s i \<longleftrightarrow>
     i = 0 \<or> i = length s \<or> (i < length s \<and> \<not> is_cont_byte (s ! i))"

subsection \<open>Strings\<close>

definition to_lowercase :: "string \<Rightarrow> string" where
  "to_lowercase s = map to_lower_char s"

definition to_uppercase :: "string \<Rightarrow> string" where
  "to_uppercase s = map to_upper_char s"

definition eq_ignore_ascii_case :: "string \<Rightarrow> string \<Rightarrow> bool" where
  "eq_ignore_ascii_case a b \<longleftrightarrow> to_lowercase a = to_lowercase b"

fun starts_with :: "string \<Rightarrow> string \<Rightarrow> bool" where
  "starts_with s [] = True"
| "starts_with [] (p # ps) = False"
| "starts_with (c # s) (p # ps) = (c = p \<and> starts_with s ps)"

definition ends_with :: "string \<Rightarrow> string \<Rightarrow> bool" where
  "ends_with s p = starts_with (rev s) (rev p)"

definition strip_prefix :: "string \<Rightarrow> string \<Rightarrow> string option" where
  "strip_prefix s p = (if starts_with s p then Some (drop (length p) s) else None)"

definition strip_suffix :: "string \<Rightarrow> string \<Rightarrow> string option" where
  "strip_suffix s p = (if ends_with s p then Some (take (length s - length p) s) else None)"

fun contains_str :: "string \<Rightarrow> string \<Rightarrow> bool" where
  "contains_str [] p = (p = [])"
| "contains_str (c # s) p = (starts_with (c # s) p \<or> contains_str s p)"

text \<open>\<open>str::find\<close> of a pattern and of a character: the first byte index of a match.\<close>

fun find_str :: "string \<Rightarrow> string \<Rightarrow> nat option" where
  "find_str [] p = (if p = [] then Some 0 else None)"
| "find_str (c # s) p =
     (if starts_with (c # s) p then Some 0 else map_option Suc (find_str s p))"

fun find_char :: "string \<Rightarrow> char \<Rightarrow> nat option" where
  "find_char [] d = None"
| "find_char (c # s) d = (if c = d then Some 0 else map_option Suc (find_char s d))"

definition trim_start :: "string \<Rightarrow> string" where
  "trim_start s = dropWhile is_space_char s"

definition trim_end :: "string \<Rightarrow> string" where
  "trim_end s = rev (dropWhile is_space_char (rev s))"

definition trim :: "string \<Rightarrow> string" where
  "trim s = trim_end (trim_start s)"

text \<open>\<open>trim_matches\<close>, \<open>trim_start_matches\<close>, \<open>trim_end_matches\<close> of one character.\<close>

definition trim_start_char :: "char \<Rightarrow> string \<Rightarrow> string" where
  "trim_start_char d s = dropWhile (\<lambda>c. c = d) s"

definition trim_end_char :: "char \<Rightarrow> string \<Rightarrow> string" where
  "trim_end_char d s = rev (dropWhile (\<lambda>c. c = d) (rev s))"

definition trim_char :: "char \<Rightarrow> string \<Rightarrow> string" where
  "trim_char d s = trim_end_char d (trim_start_char d s)"

text \<open>\<open>trim_start_matches\<close> of a string: its repeated occurrences at the start.\<close>

function trim_start_str :: "string \<Rightarrow> string \<Rightarrow> string" where
  "trim_start_str p s =
     (if p \<noteq> [] \<and> starts_with s p \<and> s \<noteq> [] then trim_start_str p (drop (length p) s) else s)"
  by pat_completeness auto
termination
  by (relation "measure (\<lambda>(p, s). length s)") auto

declare trim_start_str.simps [simp del]

text \<open>\<open>str::split\<close> on a character: always at least one piece.\<close>

fun split_char :: "char \<Rightarrow> string \<Rightarrow> string list" where
  "split_char d [] = [[]]"
| "split_char d (c # s) =
     (if c = d then [] # split_char d s
      else (case split_char d s of [] \<Rightarrow> [[c]] | w # ws \<Rightarrow> (c # w) # ws))"

definition split_once :: "char \<Rightarrow> string \<Rightarrow> (string \<times> string) option" where
  "split_once d s =
     (case find_char s d of None \<Rightarrow> None | Some i \<Rightarrow> Some (take i s, drop (Suc i) s))"

text \<open>\<open>split_whitespace\<close>: the maximal runs of non-space characters.\<close>

fun split_ws_aux :: "string \<Rightarrow> string \<Rightarrow> string list" where
  "split_ws_aux cur [] = (if cur = [] then [] else [rev cur])"
| "split_ws_aux cur (c # s) =
     (if is_space_char c
      then (if cur = [] then split_ws_aux [] s else rev cur # split_ws_aux [] s)
      else split_ws_aux (c # cur) s)"

definition split_whitespace :: "string \<Rightarrow> string list" where
  "split_whitespace s = split_ws_aux [] s"

fun join :: "string \<Rightarrow> string list \<Rightarrow> string" where
  "join sep [] = []"
| "join sep [w] = w"
| "join sep (w # ws) = w @ sep @ join sep ws"

text \<open>\<open>str::lines\<close>: split at line feeds, a final line feed ends no empty line, and a carriage
  return before the line feed is dropped.\<close>

definition strip_cr :: "string \<Rightarrow> string" where
  "strip_cr s = (if s \<noteq> [] \<and> last s = CHR 0x0D then butlast s else s)"

definition lines_of :: "string \<Rightarrow> string list" where
  "lines_of s =
     (let ws = split_char newline s
      in if last ws = [] then map strip_cr (butlast ws)
         else map strip_cr (butlast ws) @ [last ws])"

text \<open>\<open>matches(p).count()\<close> and \<open>replace\<close>: non-overlapping occurrences from the left. The
  pattern is not empty at any call of the model.\<close>

function count_matches :: "string \<Rightarrow> string \<Rightarrow> nat" where
  "count_matches [] p = 0"
| "count_matches (c # s) p =
     (if p \<noteq> [] \<and> starts_with (c # s) p
      then Suc (count_matches (drop (length p) (c # s)) p) else count_matches s p)"
  by pat_completeness auto
termination
  by (relation "measure (\<lambda>(s, p). length s)") auto

function replace_all :: "string \<Rightarrow> string \<Rightarrow> string \<Rightarrow> string" where
  "replace_all [] p r = []"
| "replace_all (c # s) p r =
     (if p \<noteq> [] \<and> starts_with (c # s) p
      then r @ replace_all (drop (length p) (c # s)) p r
      else c # replace_all s p r)"
  by pat_completeness auto
termination
  by (relation "measure (\<lambda>(s, p, r). length s)") auto

text \<open>Decimal rendering of a natural number and of an integer.\<close>

function show_nat :: "nat \<Rightarrow> string" where
  "show_nat n =
     (if n < 10 then [char_of (48 + n)] else show_nat (n div 10) @ [char_of (48 + n mod 10)])"
  by pat_completeness auto
termination
  by (relation "measure id") auto

declare show_nat.simps [simp del]

definition show_int :: "int \<Rightarrow> string" where
  "show_int i = (if i < 0 then ''-'' @ show_nat (nat (- i)) else show_nat (nat i))"

text \<open>\<open>str::parse\<close> to an unsigned integer with the given exclusive bound and to \<open>i32\<close>: an optional
  sign, at least one digit, no overflow.\<close>

fun digits_value :: "nat \<Rightarrow> string \<Rightarrow> nat option" where
  "digits_value acc [] = Some acc"
| "digits_value acc (c # s) =
     (if is_digit_char c then digits_value (10 * acc + ((of_char c :: nat) - 48)) s else None)"

definition parse_nat :: "string \<Rightarrow> nat option" where
  "parse_nat s =
     (let ds = (if starts_with s ''+'' then drop 1 s else s) in
      if ds = [] then None else digits_value 0 ds)"

definition parse_unsigned :: "nat \<Rightarrow> string \<Rightarrow> nat option" where
  "parse_unsigned bound s =
     (case parse_nat s of Some n \<Rightarrow> if n < bound then Some n else None | None \<Rightarrow> None)"

definition parse_i32 :: "string \<Rightarrow> int option" where
  "parse_i32 s =
     (if starts_with s ''-'' then
        (if starts_with (drop 1 s) ''+'' then None
         else (case parse_nat (drop 1 s) of
                 Some n \<Rightarrow> if n \<le> 2 ^ 31 then Some (- int n) else None
               | None \<Rightarrow> None))
      else (case parse_nat s of
              Some n \<Rightarrow> if n < 2 ^ 31 then Some (int n) else None
            | None \<Rightarrow> None))"

subsection \<open>\<open>filter_map\<close>\<close>

lemma set_List_map_filter [simp]:
  "set (List.map_filter f xs) = {y. \<exists>x\<in>set xs. f x = Some y}"
  by (force simp: List.map_filter_def)

lemma map_filter_Cons:
  "List.map_filter f (x # xs) = (case f x of None \<Rightarrow> [] | Some y \<Rightarrow> [y]) @ List.map_filter f xs"
  by (simp add: List.map_filter_def split: option.splits)

subsection \<open>Laws of the string functions\<close>

lemma starts_with_iff: "starts_with s p \<longleftrightarrow> prefix p s"
  by (induction s p rule: starts_with.induct) auto

lemma starts_with_append [str_simps]: "starts_with (p @ s) p"
  by (simp add: starts_with_iff)

lemma ends_with_iff: "ends_with s p \<longleftrightarrow> suffix p s"
  by (simp add: ends_with_def starts_with_iff suffix_to_prefix)

lemma strip_prefix_append [str_simps]: "strip_prefix (p @ s) p = Some s"
  by (simp add: strip_prefix_def str_simps)

lemma strip_suffix_append [str_simps]: "strip_suffix (s @ p) p = Some s"
  by (simp add: strip_suffix_def ends_with_iff suffix_def)

lemma strip_prefix_Some: "strip_prefix s p = Some t \<longleftrightarrow> s = p @ t"
  by (auto simp: strip_prefix_def starts_with_iff prefix_def)

lemma strip_suffix_Some: "strip_suffix s p = Some t \<longleftrightarrow> s = t @ p"
  by (auto simp: strip_suffix_def ends_with_iff suffix_def)

lemma contains_str_iff: "contains_str s p \<longleftrightarrow> (\<exists>a b. s = a @ p @ b)"
proof (induction s)
  case (Cons c s)
  show ?case
  proof
    assume "contains_str (c # s) p"
    then consider "prefix p (c # s)" | "contains_str s p" by (auto simp: starts_with_iff)
    then show "\<exists>a b. c # s = a @ p @ b"
    proof cases
      case 1
      then show ?thesis by (metis append_Nil prefix_def)
    next
      case 2
      with Cons show ?thesis by (metis append_Cons)
    qed
  next
    assume "\<exists>a b. c # s = a @ p @ b"
    then obtain a b where ab: "c # s = a @ p @ b" by blast
    show "contains_str (c # s) p"
    proof (cases a)
      case Nil
      with ab have "starts_with (c # s) p" by (simp add: starts_with_iff prefix_def)
      then show ?thesis by simp
    next
      case (Cons d a')
      with ab Cons.IH show ?thesis by auto
    qed
  qed
qed auto

lemma map_filter_Nil [simp]: "List.map_filter f [] = []"
  by (simp add: List.map_filter_def)

lemma map_filter_append: "List.map_filter f (xs @ ys) = List.map_filter f xs @ List.map_filter f ys"
  by (simp add: List.map_filter_def)

lemma map_filter_rev: "List.map_filter f (rev xs) = rev (List.map_filter f xs)"
  by (simp add: List.map_filter_def rev_map rev_filter)

lemma map_filter_cong:
  "(\<And>x. x \<in> set xs \<Longrightarrow> f x = g x) \<Longrightarrow> List.map_filter f xs = List.map_filter g xs"
  by (induction xs) (auto simp: map_filter_Cons split: option.splits)

lemma map_filter_replicate_Some:
  "f x = Some y \<Longrightarrow> List.map_filter f (replicate n x) = replicate n y"
  by (induction n) (simp_all add: map_filter_Cons)

subsection \<open>Characters of a string\<close>

text \<open>\<open>chars()\<close>: each character as its bytes.\<close>

function utf8_chars :: "string \<Rightarrow> string list" where
  "utf8_chars [] = []"
| "utf8_chars (c # s) = (c # takeWhile is_cont_byte s) # utf8_chars (dropWhile is_cont_byte s)"
  by pat_completeness auto
termination
  by (relation "measure length") (auto simp: le_imp_less_Suc length_dropWhile_le)

text \<open>\<open>&s[a..b]\<close> when it does not panic, and \<open>s.get(a..b).unwrap_or("")\<close>.\<close>

definition slice :: "nat \<Rightarrow> nat \<Rightarrow> string \<Rightarrow> string" where
  "slice a b s = take (b - a) (drop a s)"

definition get_slice :: "nat \<Rightarrow> nat \<Rightarrow> string \<Rightarrow> string" where
  "get_slice a b s =
     (if a \<le> b \<and> b \<le> length s \<and> is_char_boundary s a \<and> is_char_boundary s b
      then slice a b s else [])"

text \<open>The extractive summary shared by the chunker and the document tree: whole characters up to the
  second sentence end or the 280th byte.\<close>

fun take_sentences :: "nat \<Rightarrow> nat \<Rightarrow> string list \<Rightarrow> string" where
  "take_sentences sentences len [] = []"
| "take_sentences sentences len (ch # chs) =
     (let len' = len + length ch;
          sentences' = (if ch = ''.'' \<or> ch = ''!'' \<or> ch = ''?'' then sentences + 1 else sentences)
      in ch @ (if 2 \<le> sentences' \<or> 280 \<le> len' then [] else take_sentences sentences' len' chs))"

subsection \<open>Decimal round trip\<close>

lemma digits_value_append:
  "digits_value acc (s @ t) = Option.bind (digits_value acc s) (\<lambda>n. digits_value n t)"
  by (induction s arbitrary: acc) auto

lemma digit_char:
  assumes "d < 10"
  shows "(of_char (char_of (48 + d)) :: nat) = 48 + d"
  using assms by simp

lemma digits_value_digit:
  assumes "d < 10"
  shows "digits_value acc [char_of (48 + d)] = Some (10 * acc + d)"
  using assms digit_char [OF assms] by (simp add: is_digit_char_def)

lemma digits_value_show_nat: "\<exists>k. \<forall>acc. digits_value acc (show_nat n) = Some (acc * 10 ^ k + n)"
proof (induction n rule: show_nat.induct)
  case (1 n)
  show ?case
  proof (cases "n < 10")
    case True
    then have "\<forall>acc. digits_value acc (show_nat n) = Some (acc * 10 ^ 1 + n)"
      using digits_value_digit [of n] by (simp add: show_nat.simps [of n] mult.commute)
    then show ?thesis by blast
  next
    case False
    then obtain k where k: "\<forall>acc. digits_value acc (show_nat (n div 10)) = Some (acc * 10 ^ k + n div 10)"
      using 1 by blast
    have "digits_value acc (show_nat n) = Some (acc * 10 ^ Suc k + n)" for acc
    proof -
      have "digits_value acc (show_nat n) = Some (10 * (acc * 10 ^ k + n div 10) + n mod 10)"
        using False k digits_value_digit [of "n mod 10"]
        by (simp add: show_nat.simps [of n] digits_value_append)
      also have "10 * (acc * 10 ^ k + n div 10) + n mod 10 = acc * 10 ^ Suc k + n"
        by (simp add: algebra_simps)
      finally show ?thesis .
    qed
    then show ?thesis by blast
  qed
qed

lemma show_nat_inject [simp]: "show_nat m = show_nat n \<longleftrightarrow> m = n"
  using digits_value_show_nat [of m] digits_value_show_nat [of n]
  by (metis add_0 mult_0 option.inject)

lemma show_nat_digits: "list_all is_digit_char (show_nat n)"
proof (induction n rule: show_nat.induct)
  case (1 n)
  then show ?case
    using digit_char [of n] digit_char [of "n mod 10"]
    by (auto simp: show_nat.simps [of n] is_digit_char_def)
qed

lemma show_nat_not_Nil [simp]: "show_nat n \<noteq> []"
  by (simp add: show_nat.simps [of n])

lemma parse_nat_show_nat: "parse_nat (show_nat n) = Some n"
proof -
  have "show_nat n \<noteq> ''+'' @ t" for t
    using show_nat_digits [of n] by (auto simp: is_digit_char_def)
  then have "\<not> starts_with (show_nat n) ''+''"
    by (metis prefix_def starts_with_iff)
  then show ?thesis
    using digits_value_show_nat [of n] by (force simp: parse_nat_def)
qed

lemma find_append:
  "find P (xs @ ys) = (case find P xs of Some x \<Rightarrow> Some x | None \<Rightarrow> find P ys)"
  by (induction xs) auto

subsection \<open>Splitting, joining and trimming; updating association lists\<close>

lemma list_all_alist_update:
  "list_all P al \<Longrightarrow> P (k, v) \<Longrightarrow> list_all P (AList.update k v al)"
  by (induction al) auto

lemma split_char_free: "d \<notin> set w \<Longrightarrow> split_char d w = [w]"
  by (induction w) auto

lemma split_char_append: "d \<notin> set w \<Longrightarrow> split_char d (w @ d # s) = w # split_char d s"
  by (induction w) auto

lemma split_char_join:
  "ws \<noteq> [] \<Longrightarrow> list_all (\<lambda>w. d \<notin> set w) ws \<Longrightarrow> split_char d (join [d] ws) = ws"
  by (induction ws rule: induct_list012) (simp_all add: split_char_free split_char_append)

lemma find_char_append: "d \<notin> set w \<Longrightarrow> find_char (w @ d # s) d = Some (length w)"
  by (induction w) auto

lemma find_char_free: "d \<notin> set w \<Longrightarrow> find_char w d = None"
  by (induction w) auto

lemma split_once_append: "d \<notin> set w \<Longrightarrow> split_once d (w @ d # s) = Some (w, s)"
  by (simp add: split_once_def find_char_append)

lemma dropWhile_free: "d \<notin> set w \<Longrightarrow> dropWhile (\<lambda>c. c = d) (w @ replicate n d) = (if w = [] then [] else w @ replicate n d)"
  by (cases w) auto

lemma trim_quoted: "q \<notin> set w \<Longrightarrow> trim_char q (q # w @ [q]) = w"
  using dropWhile_free [of q w 1] dropWhile_free [of q "rev w" 0]
  by (cases "w = []") (simp_all add: trim_char_def trim_start_char_def trim_end_char_def)

end
