(* ===== verification/Erp_Error.thy ===== *)
theory Erp_Error
  imports Prelude
begin

text \<open>
  The error taxonomy of the ERP client (\<open>crates/oracle-automate-erp/src/error.rs\<close>): the codes
  with their JSON-RPC numbers, the errors, the code of each error, and the classification that
  decides whether a call is retried.
\<close>

datatype erp_error_code =
    EcTimeout | EcDestinationDown | EcPoolExhausted | EcCircuitOpen | EcUpstreamRateLimit
  | EcAuthFailed | EcNotFound | EcTableBufferOverflow | EcInvalidParameter | EcPermissionDenied
  | EcSchemaViolation | EcInternal
  | EcPartialBulk | EcStaleMetadata

fun erp_code_as_i32 :: "erp_error_code \<Rightarrow> int" where
  "erp_code_as_i32 EcTimeout = -32110"
| "erp_code_as_i32 EcDestinationDown = -32120"
| "erp_code_as_i32 EcPoolExhausted = -32130"
| "erp_code_as_i32 EcCircuitOpen = -32140"
| "erp_code_as_i32 EcUpstreamRateLimit = -32150"
| "erp_code_as_i32 EcAuthFailed = -32210"
| "erp_code_as_i32 EcNotFound = -32220"
| "erp_code_as_i32 EcTableBufferOverflow = -32230"
| "erp_code_as_i32 EcInvalidParameter = -32240"
| "erp_code_as_i32 EcPermissionDenied = -32250"
| "erp_code_as_i32 EcSchemaViolation = -32260"
| "erp_code_as_i32 EcInternal = -32299"
| "erp_code_as_i32 EcPartialBulk = -32310"
| "erp_code_as_i32 EcStaleMetadata = -32320"

definition erp_code_is_transient :: "erp_error_code \<Rightarrow> bool" where
  "erp_code_is_transient c \<longleftrightarrow> -32199 \<le> erp_code_as_i32 c \<and> erp_code_as_i32 c \<le> -32100"

datatype erp_error =
    ErpTimeout (timeout_ms_of: nat)
  | ErpDestinationDown string string
  | ErpPoolExhausted nat
  | ErpCircuitOpen (retry_after_ms_of: nat)
  | ErpAuthFailed string
  | ErpNotFound string
  | ErpTableBufferOverflow string nat
  | ErpInvalidParameter string string
  | ErpPermissionDenied string
  | ErpSchemaViolation string
  | ErpPartialBulk string
  | ErpInternal string

text \<open>The messages of the errors (the \<open>#[error]\<close> attributes).\<close>

fun erp_error_text :: "erp_error \<Rightarrow> string" where
  "erp_error_text (ErpTimeout ms) = ''REST operation timeout after '' @ show_nat ms @ '' ms''"
| "erp_error_text (ErpDestinationDown d r) =
     ''SAP destination '' @ [CHR 0x27] @ d @ [CHR 0x27] @ '' unreachable: '' @ r"
| "erp_error_text (ErpPoolExhausted cap) =
     ''connection pool exhausted (cap='' @ show_nat cap @ '')''"
| "erp_error_text (ErpCircuitOpen ms) =
     ''circuit open until ~'' @ show_nat ms @ '' ms from now''"
| "erp_error_text (ErpAuthFailed s) = ''authentication failed: '' @ s"
| "erp_error_text (ErpNotFound s) = ''not found: '' @ s"
| "erp_error_text (ErpTableBufferOverflow t n) =
     ''table buffer overflow for '' @ [CHR 0x27] @ t @ [CHR 0x27] @ '' (max_rows='' @ show_nat n @ '')''"
| "erp_error_text (ErpInvalidParameter n r) =
     ''invalid parameter '' @ [CHR 0x27] @ n @ [CHR 0x27] @ '': '' @ r"
| "erp_error_text (ErpPermissionDenied s) = ''permission denied: '' @ s"
| "erp_error_text (ErpSchemaViolation s) = ''schema violation: '' @ s"
| "erp_error_text (ErpPartialBulk s) = ''partial result: '' @ s"
| "erp_error_text (ErpInternal s) = ''internal: '' @ s"

fun error_code_of :: "erp_error \<Rightarrow> erp_error_code" where
  "error_code_of (ErpTimeout _) = EcTimeout"
| "error_code_of (ErpDestinationDown _ _) = EcDestinationDown"
| "error_code_of (ErpPoolExhausted _) = EcPoolExhausted"
| "error_code_of (ErpCircuitOpen _) = EcCircuitOpen"
| "error_code_of (ErpAuthFailed _) = EcAuthFailed"
| "error_code_of (ErpNotFound _) = EcNotFound"
| "error_code_of (ErpTableBufferOverflow _ _) = EcTableBufferOverflow"
| "error_code_of (ErpInvalidParameter _ _) = EcInvalidParameter"
| "error_code_of (ErpPermissionDenied _) = EcPermissionDenied"
| "error_code_of (ErpSchemaViolation _) = EcSchemaViolation"
| "error_code_of (ErpPartialBulk _) = EcPartialBulk"
| "error_code_of (ErpInternal _) = EcInternal"

definition is_transient :: "erp_error \<Rightarrow> bool" where
  "is_transient e = erp_code_is_transient (error_code_of e)"

type_synonym 'a erp_result = "erp_error + 'a"

lemma erp_code_is_transient_iff [simp]:
  "erp_code_is_transient c \<longleftrightarrow>
     c \<in> {EcTimeout, EcDestinationDown, EcPoolExhausted, EcCircuitOpen, EcUpstreamRateLimit}"
  by (cases c) (simp_all add: erp_code_is_transient_def)

lemma is_transient_simps [simp]:
  "is_transient (ErpTimeout n)"
  "is_transient (ErpDestinationDown d r)"
  "is_transient (ErpPoolExhausted n)"
  "is_transient (ErpCircuitOpen n)"
  "\<not> is_transient (ErpAuthFailed s)"
  "\<not> is_transient (ErpNotFound s)"
  "\<not> is_transient (ErpTableBufferOverflow s n)"
  "\<not> is_transient (ErpInvalidParameter s t)"
  "\<not> is_transient (ErpPermissionDenied s)"
  "\<not> is_transient (ErpSchemaViolation s)"
  "\<not> is_transient (ErpPartialBulk s)"
  "\<not> is_transient (ErpInternal s)"
  by (simp_all add: is_transient_def)

lemma erp_code_as_i32_inject: "erp_code_as_i32 c = erp_code_as_i32 d \<longleftrightarrow> c = d"
  by (cases c; cases d) simp_all

end
