(* ===== verification/Json.thy ===== *)
theory Json
  imports Prelude
begin

text \<open>
  JSON values as \<open>serde_json::Value\<close> presents them. A number is an integer, or the text of any
  other number (its \<open>Display\<close>). An object is a \<open>serde_json::Map\<close>, which without the
  \<open>preserve_order\<close> feature is a \<open>BTreeMap\<close>: an association list kept sorted by the bytes of its
  keys, without duplicates. \<open>obj_of\<close> is what the \<open>json!\<close> macro builds from its entries.
\<close>

datatype json_number = JInt int | JFloat string

datatype json =
    JNull
  | JBool bool
  | JNum json_number
  | JStr string
  | JArr "json list"
  | JObj "(string \<times> json) list"

type_synonym json_map = "(string \<times> json) list"

fun str_less :: "string \<Rightarrow> string \<Rightarrow> bool" where
  "str_less [] [] = False"
| "str_less [] (d # t) = True"
| "str_less (c # s) [] = False"
| "str_less (c # s) (d # t) =
     ((of_char c :: nat) < of_char d \<or> (c = d \<and> str_less s t))"

fun obj_insert :: "string \<Rightarrow> 'v \<Rightarrow> (string \<times> 'v) list \<Rightarrow> (string \<times> 'v) list" where
  "obj_insert k v [] = [(k, v)]"
| "obj_insert k v ((k', v') # m) =
     (if k = k' then (k, v) # m
      else if str_less k k' then (k, v) # (k', v') # m
      else (k', v') # obj_insert k v m)"

definition obj_of :: "(string \<times> 'v) list \<Rightarrow> (string \<times> 'v) list" where
  "obj_of kvs = foldl (\<lambda>m kv. obj_insert (fst kv) (snd kv) m) [] kvs"

definition obj_contains :: "(string \<times> 'v) list \<Rightarrow> string \<Rightarrow> bool" where
  "obj_contains m k = (map_of m k \<noteq> None)"

abbreviation json_obj :: "(string \<times> json) list \<Rightarrow> json" where
  "json_obj kvs \<equiv> JObj (obj_of kvs)"

text \<open>\<open>Value::get(key)\<close>, and the typed views \<open>as_str\<close>, \<open>as_array\<close>, \<open>as_object\<close>, \<open>as_bool\<close>,
  \<open>as_u64\<close>, \<open>as_i64\<close>.\<close>

fun jget :: "json \<Rightarrow> string \<Rightarrow> json option" where
  "jget (JObj m) k = map_of m k"
| "jget _ k = None"

fun as_str :: "json \<Rightarrow> string option" where
  "as_str (JStr s) = Some s"
| "as_str _ = None"

fun as_array :: "json \<Rightarrow> json list option" where
  "as_array (JArr xs) = Some xs"
| "as_array _ = None"

fun as_object :: "json \<Rightarrow> json_map option" where
  "as_object (JObj m) = Some m"
| "as_object _ = None"

fun as_bool :: "json \<Rightarrow> bool option" where
  "as_bool (JBool b) = Some b"
| "as_bool _ = None"

fun as_u64 :: "json \<Rightarrow> nat option" where
  "as_u64 (JNum (JInt i)) = (if 0 \<le> i \<and> i < 2 ^ 64 then Some (nat i) else None)"
| "as_u64 _ = None"

fun as_i64 :: "json \<Rightarrow> int option" where
  "as_i64 (JNum (JInt i)) = (if - (2 ^ 63) \<le> i \<and> i < 2 ^ 63 then Some i else None)"
| "as_i64 _ = None"

fun num_text :: "json_number \<Rightarrow> string" where
  "num_text (JInt i) = show_int i"
| "num_text (JFloat t) = t"

definition get_str :: "json \<Rightarrow> string \<Rightarrow> string option" where
  "get_str v k = Option.bind (jget v k) as_str"

definition get_u64 :: "json \<Rightarrow> string \<Rightarrow> nat option" where
  "get_u64 v k = Option.bind (jget v k) as_u64"

definition get_bool :: "json \<Rightarrow> string \<Rightarrow> bool option" where
  "get_bool v k = Option.bind (jget v k) as_bool"

abbreviation JNat :: "nat \<Rightarrow> json" where "JNat n \<equiv> JNum (JInt (int n))"

text \<open>\<open>Option::unwrap_or\<close>.\<close>

fun unwrap_or :: "'a option \<Rightarrow> 'a \<Rightarrow> 'a" where
  "unwrap_or (Some a) d = a"
| "unwrap_or None d = d"

subsection \<open>The map laws\<close>

lemma str_less_irrefl [simp]: "\<not> str_less s s"
  by (induction s) auto

lemma str_less_trans: "str_less a b \<Longrightarrow> str_less b c \<Longrightarrow> str_less a c"
proof (induction a b arbitrary: c rule: str_less.induct)
  case (4 x s y t)
  then show ?case by (cases c) auto
qed (auto elim: str_less.elims)

lemma of_char_neq_iff: "c \<noteq> d \<Longrightarrow> (of_char c :: nat) \<noteq> of_char (d :: char)"
  by simp

lemma str_less_total: "s \<noteq> t \<Longrightarrow> str_less s t \<or> str_less t s"
proof (induction s t rule: str_less.induct)
  case (4 c s d t)
  then show ?case
    using of_char_neq_iff [of c d] linorder_less_linear [of "of_char c :: nat" "of_char d"]
    by (cases "c = d") auto
qed auto

lemma map_of_obj_insert [simp]: "map_of (obj_insert k v m) = (map_of m)(k \<mapsto> v)"
  by (induction m) auto

lemma keys_obj_insert: "fst ` set (obj_insert k v m) = insert k (fst ` set m)"
  by (induction k v m rule: obj_insert.induct) (simp_all add: insert_commute)

lemma obj_insert_sorted:
  "sorted_wrt str_less (map fst m) \<Longrightarrow> sorted_wrt str_less (map fst (obj_insert k v m))"
proof (induction m)
  case (Cons kv m)
  obtain k' v' where kv: "kv = (k', v')" by force
  show ?case
    using Cons str_less_total [of k k'] keys_obj_insert [of k v m]
    by (auto simp: kv intro: str_less_trans)
qed simp

lemma foldl_obj_insert_map_of:
  "map_of (foldl (\<lambda>m kv. obj_insert (fst kv) (snd kv) m) m kvs) = map_of m ++ map_of (rev kvs)"
  by (induction kvs arbitrary: m) (auto simp: map_add_def fun_eq_iff split: option.splits)

lemma map_of_obj_of: "map_of (obj_of kvs) = map_of (rev kvs)"
  by (simp add: obj_of_def foldl_obj_insert_map_of)

lemma foldl_obj_insert_sorted:
  "sorted_wrt str_less (map fst m) \<Longrightarrow>
     sorted_wrt str_less (map fst (foldl (\<lambda>m kv. obj_insert (fst kv) (snd kv) m) m kvs))"
  by (induction kvs arbitrary: m) (auto simp: obj_insert_sorted)

lemma obj_of_sorted: "sorted_wrt str_less (map fst (obj_of kvs))"
  by (simp add: obj_of_def foldl_obj_insert_sorted)

lemma obj_of_distinct: "distinct (map fst (obj_of kvs))"
proof -
  have "sorted_wrt str_less xs \<Longrightarrow> distinct xs" for xs
    by (induction xs) auto
  then show ?thesis using obj_of_sorted by blast
qed

end
