(* ===== verification/Erp_Types.thy ===== *)
theory Erp_Types
  imports Erp_Error Json
begin

text \<open>
  The data the ERP client trades in (\<open>crates/oracle-automate-erp/src/client.rs\<close>): system
  identity, operation metadata with its parameters and privileges, call requests, tables.
\<close>

record system_info =
  si_sid :: string
  si_client :: string
  si_release :: string
  si_system_role :: string
  si_host :: string
  si_instance :: string
  si_identity :: json

datatype param_direction = Import_Param | Export_Param | Changing_Param | Tables_Param

record erp_parameter =
  ep_name :: string
  ep_direction :: param_direction
  ep_type_token :: string
  ep_optional :: bool
  ep_description :: "string option"
  ep_default_value :: "string option"

record required_privilege =
  rp_privilege :: string
  rp_duty_role :: string
  rp_action :: string

definition priv_run :: "string \<Rightarrow> string \<Rightarrow> required_privilege" where
  "priv_run privilege duty_role =
     \<lparr>rp_privilege = privilege, rp_duty_role = duty_role, rp_action = ''RUN''\<rparr>"

definition priv_view :: "string \<Rightarrow> string \<Rightarrow> required_privilege" where
  "priv_view privilege duty_role =
     \<lparr>rp_privilege = privilege, rp_duty_role = duty_role, rp_action = ''VIEW''\<rparr>"

definition priv_manage :: "string \<Rightarrow> string \<Rightarrow> required_privilege" where
  "priv_manage privilege duty_role =
     \<lparr>rp_privilege = privilege, rp_duty_role = duty_role, rp_action = ''MANAGE''\<rparr>"

record erp_operation_meta =
  om_function :: string
  om_description :: string
  om_function_group :: string
  om_package :: "string option"
  om_parameters :: "erp_parameter list"
  om_deprecated :: bool
  om_read_only :: bool
  om_commit_required :: bool
  om_authorization :: "required_privilege list"
  om_erp_note :: "string option"

text \<open>The score of a search hit is a count cast to \<open>f32\<close>; the count is kept.\<close>

record operation_summary =
  os_function :: string
  os_description :: string
  os_function_group :: string
  os_read_only :: bool
  os_score :: nat

record search_result =
  sr_query :: string
  sr_hits :: "operation_summary list"

record erp_call_request =
  cr_function :: string
  cr_parameters :: json
  cr_timeout_ms :: nat
  cr_require_read_only_safe :: bool

record bulk_metadata =
  bm_language :: string
  bm_functions :: "erp_operation_meta list"
  bm_missing :: "string list"

record table_field =
  tf_name :: string
  tf_data_element :: string
  tf_type_token :: string
  tf_length :: nat
  tf_description :: "string option"
  tf_is_key :: bool

record table_structure =
  ts_table :: string
  ts_description :: string
  ts_fields :: "table_field list"
  ts_key_fields :: "string list"
  ts_authorization_group :: string
  ts_storage_note :: "string option"

record read_table_request =
  rt_table :: string
  rt_fields :: "string list"
  rt_where_conditions :: "string list"
  rt_max_rows :: nat

definition MAX_ROWS_HARD_CAP :: nat where "MAX_ROWS_HARD_CAP = 1000"

type_synonym table_row = json_map

text \<open>One operation of a client on its state \<open>'s\<close>: \<open>call_operation(request, read_only_mode)\<close>.\<close>

type_synonym 's erp_call = "erp_call_request \<Rightarrow> bool \<Rightarrow> 's \<Rightarrow> json erp_result \<times> 's"

end
