(* ===== verification/Erp_Result.thy ===== *)
theory Erp_Result
  imports Erp_Types
begin

text \<open>
  The parser of the FND return stack (\<open>crates/oracle-automate-erp/src/erp_result.rs\<close>): severities,
  messages, the bounded walk that looks for message rows, and the row parser.
\<close>

datatype erp_severity =
    SevSuccess | SevError | SevWarning | SevInfo | SevAbort | SevUnknown char

definition severity_from_char :: "char \<Rightarrow> erp_severity" where
  "severity_from_char c =
     (let u = to_upper_char c in
      if u = CHR ''S'' then SevSuccess
      else if u = CHR ''E'' then SevError
      else if u = CHR ''W'' then SevWarning
      else if u = CHR ''I'' then SevInfo
      else if u = CHR ''A'' then SevAbort
      else SevUnknown u)"

fun severity_is_failure :: "erp_severity \<Rightarrow> bool" where
  "severity_is_failure SevError = True"
| "severity_is_failure SevAbort = True"
| "severity_is_failure (SevUnknown _) = True"
| "severity_is_failure _ = False"

record erp_message =
  em_severity :: erp_severity
  em_class :: string
  em_number :: string
  em_text :: string
  em_parameter :: "string option"
  em_row :: "int option"
  em_field :: "string option"
  em_system :: "string option"

definition message_is_failure :: "erp_message \<Rightarrow> bool" where
  "message_is_failure m = severity_is_failure (em_severity m)"

fun first_str :: "json_map \<Rightarrow> string list \<Rightarrow> string option" where
  "first_str obj [] = None"
| "first_str obj (k # ks) =
     (case map_of obj k of
        Some (JStr s) \<Rightarrow> Some s
      | Some (JNum n) \<Rightarrow> Some (num_text n)
      | _ \<Rightarrow> first_str obj ks)"

text \<open>The heuristic for a row of the return stack.\<close>

definition looks_like_row :: "json_map \<Rightarrow> bool" where
  "looks_like_row m \<longleftrightarrow>
     (obj_contains m ''TYPE'' \<or> obj_contains m ''type'')
     \<and> (obj_contains m ''MESSAGE'' \<or> obj_contains m ''message'')"

function walk :: "json \<Rightarrow> nat \<Rightarrow> json list" where
  "walk v depth =
     (if 8 < depth then []
      else (case v of
              JObj m \<Rightarrow>
                if looks_like_row m then [v]
                else concat (map (\<lambda>x. walk x (depth + 1)) (map snd m))
            | JArr xs \<Rightarrow> concat (map (\<lambda>x. walk x (depth + 1)) xs)
            | _ \<Rightarrow> []))"
  by pat_completeness auto
termination
  by (relation "measure (\<lambda>(v, depth). 9 - depth)") auto

declare walk.simps [simp del]

lemma walk_unfold [loop_simps]:
  "walk JNull depth = []" "walk (JBool b) depth = []" "walk (JNum n) depth = []"
  "walk (JStr s) depth = []"
  "walk (JObj m) depth =
     (if 8 < depth then [] else if looks_like_row m then [JObj m]
      else concat (map (\<lambda>x. walk x (depth + 1)) (map snd m)))"
  "walk (JArr xs) depth =
     (if 8 < depth then [] else concat (map (\<lambda>x. walk x (depth + 1)) xs))"
  by (simp_all add: walk.simps [of "JObj m"] walk.simps [of "JArr xs"] walk.simps [of JNull]
    walk.simps [of "JBool b"] walk.simps [of "JNum n"] walk.simps [of "JStr s"])

definition collect_candidates :: "json \<Rightarrow> json list" where
  "collect_candidates v = walk v 0"

fun parse_one :: "json \<Rightarrow> erp_message option" where
  "parse_one (JObj obj) =
     (let typ = unwrap_or (first_str obj [''TYPE'', ''type'']) [];
          sev = (case typ of c # _ \<Rightarrow> severity_from_char c | [] \<Rightarrow> SevUnknown (CHR '' ''))
      in Some \<lparr>em_severity = sev,
               em_class = unwrap_or (first_str obj [''ID'', ''id'']) [],
               em_number = unwrap_or (first_str obj [''NUMBER'', ''number'']) [],
               em_text = unwrap_or (first_str obj [''MESSAGE'', ''message'']) [],
               em_parameter = first_str obj [''PARAMETER'', ''parameter''],
               em_row = Option.bind (first_str obj [''ROW'', ''row'']) parse_i32,
               em_field = first_str obj [''FIELD'', ''field''],
               em_system = first_str obj [''SYSTEM'', ''system'']\<rparr>)"
| "parse_one _ = None"

definition parse_erp_messages :: "json \<Rightarrow> erp_message list" where
  "parse_erp_messages v = List.map_filter parse_one (collect_candidates v)"

definition has_failure :: "erp_message list \<Rightarrow> bool" where
  "has_failure ms = list_ex message_is_failure ms"

subsection \<open>Where rows are found\<close>

text \<open>The rows of a value: the outermost row-shaped objects, with how many containers enclose
  each.\<close>

inductive row_at :: "json \<Rightarrow> nat \<Rightarrow> json \<Rightarrow> bool" where
  row_here: "looks_like_row m \<Longrightarrow> row_at (JObj m) 0 (JObj m)"
| row_in_obj: "\<not> looks_like_row m \<Longrightarrow> (k, x) \<in> set m \<Longrightarrow> row_at x d r \<Longrightarrow>
     row_at (JObj m) (Suc d) r"
| row_in_arr: "x \<in> set xs \<Longrightarrow> row_at x d r \<Longrightarrow> row_at (JArr xs) (Suc d) r"

inductive_cases row_at_ObjE: "row_at (JObj m) d r"
inductive_cases row_at_ArrE: "row_at (JArr xs) d r"

lemma row_at_is_row: "row_at v d r \<Longrightarrow> \<exists>m. r = JObj m \<and> looks_like_row m"
  by (induction rule: row_at.induct) auto

lemma walk_sound: "r \<in> set (walk v depth) \<Longrightarrow> \<exists>d. d + depth \<le> 8 \<and> row_at v d r"
proof (induction v depth rule: walk.induct)
  case (1 v depth)
  then have depth: "\<not> 8 < depth" by (auto simp: walk.simps [of v depth])
  show ?case
  proof (cases v)
    case (JArr xs)
    with 1(3) depth obtain x where "x \<in> set xs" "r \<in> set (walk x (depth + 1))"
      by (auto simp: loop_simps)
    with 1(1) [OF depth JArr] show ?thesis
      using JArr by (metis add_Suc_shift add.commute plus_1_eq_Suc row_in_arr)
  next
    case (JObj m)
    show ?thesis
    proof (cases "looks_like_row m")
      case True
      with 1(3) depth JObj show ?thesis
        by (auto simp: loop_simps intro!: exI [of _ 0] row_here)
    next
      case False
      with 1(3) depth JObj obtain k x where x: "(k, x) \<in> set m" "r \<in> set (walk x (depth + 1))"
        by (auto simp: loop_simps)
      then have "x \<in> set (map snd m)" by force
      from 1(2) [OF depth JObj False this x(2)] show ?thesis
        using JObj False x(1) by (metis add_Suc_shift add.commute plus_1_eq_Suc row_in_obj)
    qed
  qed (use 1(3) depth in \<open>auto simp: loop_simps\<close>)
qed

lemma walk_complete: "row_at v d r \<Longrightarrow> d + depth \<le> 8 \<Longrightarrow> r \<in> set (walk v depth)"
proof (induction arbitrary: depth rule: row_at.induct)
  case (row_here m)
  then show ?case by (simp add: loop_simps)
next
  case (row_in_obj m k x d r)
  then have "r \<in> set (walk x (depth + 1))" by simp
  with row_in_obj show ?case by (force simp: loop_simps)
next
  case (row_in_arr x xs d r)
  then have "r \<in> set (walk x (depth + 1))" by simp
  with row_in_arr show ?case by (force simp: loop_simps)
qed

lemma collect_candidates_iff:
  "r \<in> set (collect_candidates v) \<longleftrightarrow> (\<exists>d\<le>8. row_at v d r)"
  unfolding collect_candidates_def using walk_sound [of r v 0] walk_complete [of v _ r 0] by force

text \<open>C13. A response has a failure exactly when it holds, under at most eight enclosing containers, a
  row of the return stack whose severity is an error, an abort or unknown; a missing severity
  counts as unknown, so a malformed row is never taken for a success.\<close>

theorem failure_iff_failing_row:
  "has_failure (parse_erp_messages v) \<longleftrightarrow>
     (\<exists>d m msg. d \<le> 8 \<and> row_at v d (JObj m) \<and> parse_one (JObj m) = Some msg
        \<and> (case unwrap_or (first_str m [''TYPE'', ''type'']) [] of
             [] \<Rightarrow> True
           | c # _ \<Rightarrow> to_upper_char c \<notin> {CHR ''S'', CHR ''W'', CHR ''I''}))"
proof -
  have fails: "message_is_failure msg \<longleftrightarrow>
      (case unwrap_or (first_str m [''TYPE'', ''type'']) [] of
         [] \<Rightarrow> True | c # _ \<Rightarrow> to_upper_char c \<notin> {CHR ''S'', CHR ''W'', CHR ''I''})"
    if "parse_one (JObj m) = Some msg" for m msg
    using that
    by (auto simp: message_is_failure_def Let_def severity_from_char_def split: list.splits)
  have "has_failure (parse_erp_messages v) \<longleftrightarrow>
      (\<exists>r msg. r \<in> set (collect_candidates v) \<and> parse_one r = Some msg \<and> message_is_failure msg)"
    by (auto simp: has_failure_def parse_erp_messages_def list_ex_iff set_List_map_filter)
  also have "\<dots> \<longleftrightarrow> (\<exists>d m msg. d \<le> 8 \<and> row_at v d (JObj m) \<and> parse_one (JObj m) = Some msg
       \<and> message_is_failure msg)"
    unfolding collect_candidates_iff using row_at_is_row by blast
  finally show ?thesis using fails by blast
qed

end
