(* ===== verification/Transaction.thy ===== *)
theory Transaction
  imports Erp_Result
begin

text \<open>
  The transactional write of \<open>crates/oracle-automate-erp/src/transaction.rs\<close>: run the write, read
  its return stack, then commit or roll back. The client is any \<open>call_operation\<close> on any state, as
  the code is generic over the \<open>ErpClient\<close> trait. To state which calls reach the backend and in
  which order, the client is wrapped so that it logs every request with its result (\<open>logged\<close>).
\<close>

definition COMMIT_FN :: string where "COMMIT_FN = ''ebs.fnd.transaction.commit''"
definition ROLLBACK_FN :: string where "ROLLBACK_FN = ''ebs.fnd.transaction.rollback''"

definition commit_req :: erp_call_request where
  "commit_req = \<lparr>cr_function = COMMIT_FN, cr_parameters = json_obj [(''WAIT'', JStr ''X'')],
     cr_timeout_ms = 30000, cr_require_read_only_safe = False\<rparr>"

definition rollback_req :: erp_call_request where
  "rollback_req = \<lparr>cr_function = ROLLBACK_FN, cr_parameters = JNull,
     cr_timeout_ms = 30000, cr_require_read_only_safe = False\<rparr>"

definition note_msg :: "erp_severity \<Rightarrow> string \<Rightarrow> erp_message" where
  "note_msg severity txt =
     \<lparr>em_severity = severity, em_class = ''ORAAUTO'', em_number = ''000'', em_text = txt,
      em_parameter = None, em_row = None, em_field = None, em_system = None\<rparr>"

definition do_rollback :: "'s erp_call \<Rightarrow> 's \<Rightarrow> (bool \<times> erp_message list) \<times> 's" where
  "do_rollback call s =
     (case call rollback_req False s of
        (Inr v, s') \<Rightarrow> (let msgs = parse_erp_messages v in ((\<not> has_failure msgs, msgs), s'))
      | (Inl e, s') \<Rightarrow>
          ((False, [note_msg SevWarning (''rollback could not be confirmed: '' @ erp_error_text e)]),
           s'))"

record write_outcome =
  wo_function :: string
  wo_committed :: bool
  wo_rolled_back :: bool
  wo_messages :: "erp_message list"
  wo_result :: json

definition execute_write_bapi ::
  "'s erp_call \<Rightarrow> erp_call_request \<Rightarrow> bool \<Rightarrow> 's \<Rightarrow> write_outcome erp_result \<times> 's" where
  "execute_write_bapi call request read_only_mode s =
     (if read_only_mode then
        (Err (ErpPermissionDenied (''write workflow for '' @ [CHR 0x27] @ cr_function request
            @ [CHR 0x27] @ '' requires write mode (--enable-writes)'')), s)
      else if cr_function request = COMMIT_FN \<or> cr_function request = ROLLBACK_FN then
        (Err (ErpInvalidParameter ''function''
           ''commit/rollback are issued automatically; call the business REST operation instead''), s)
      else
        (let function = cr_function request in
         case call request False s of
           (Inl e, s1) \<Rightarrow> (Err e, s1)
         | (Inr result, s1) \<Rightarrow>
             (let messages = parse_erp_messages result in
              if has_failure messages then
                (case do_rollback call s1 of ((rolled_back, rb_msgs), s2) \<Rightarrow>
                   (Ok \<lparr>wo_function = function, wo_committed = False, wo_rolled_back = rolled_back,
                        wo_messages = messages @ rb_msgs, wo_result = result\<rparr>, s2))
              else if messages = [] then
                (case do_rollback call s1 of ((rolled_back, rb_msgs), s2) \<Rightarrow>
                   (Ok \<lparr>wo_function = function, wo_committed = False, wo_rolled_back = rolled_back,
                        wo_messages = note_msg SevWarning
                          (''REST operation returned no FND return stack; outcome unconfirmed ''
                           @ em_dash @ '' not committed'') # rb_msgs,
                        wo_result = result\<rparr>, s2))
              else
                (case call commit_req False s1 of
                   (Inl e, s2) \<Rightarrow> (Err e, s2)
                 | (Inr commit_result, s2) \<Rightarrow>
                     (let messages' = messages @ parse_erp_messages commit_result in
                      if has_failure messages' then
                        (case do_rollback call s2 of ((rolled_back, rb_msgs), s3) \<Rightarrow>
                           (Ok \<lparr>wo_function = function, wo_committed = False,
                                wo_rolled_back = rolled_back, wo_messages = messages' @ rb_msgs,
                                wo_result = result\<rparr>, s3))
                      else
                        (Ok \<lparr>wo_function = function, wo_committed = True, wo_rolled_back = False,
                             wo_messages = messages', wo_result = result\<rparr>, s2))))))"

subsection \<open>The calls a write makes\<close>

type_synonym call_log = "(erp_call_request \<times> json erp_result) list"

definition logged :: "'s erp_call \<Rightarrow> ('s \<times> call_log) erp_call" where
  "logged call r ro sl =
     (case call r ro (fst sl) of (res, s') \<Rightarrow> (res, (s', snd sl @ [(r, res)])))"

text \<open>The abstract protocol: which logs with which outcome. The result is abstracted to whether the
  write was committed and whether a rollback was confirmed.\<close>

datatype luw_end = Refused | Failed | Committed | Not_Committed bool

definition confirms :: "json erp_result \<Rightarrow> bool" where
  "confirms r = (case r of Inr v \<Rightarrow> \<not> has_failure (parse_erp_messages v) | Inl _ \<Rightarrow> False)"

inductive luw_protocol :: "erp_call_request \<Rightarrow> call_log \<Rightarrow> luw_end \<Rightarrow> bool"
  for req :: erp_call_request where
  luw_refused: "luw_protocol req [] Refused"
| luw_write_error: "luw_protocol req [(req, Err e)] Failed"
| luw_write_unconfirmed:
    "has_failure (parse_erp_messages v) \<or> parse_erp_messages v = [] \<Longrightarrow>
       luw_protocol req [(req, Ok v), (rollback_req, r)] (Not_Committed (confirms r))"
| luw_commit_error:
    "\<not> has_failure (parse_erp_messages v) \<Longrightarrow> parse_erp_messages v \<noteq> [] \<Longrightarrow>
       luw_protocol req [(req, Ok v), (commit_req, Err e)] Failed"
| luw_commit_rejected:
    "\<not> has_failure (parse_erp_messages v) \<Longrightarrow> parse_erp_messages v \<noteq> [] \<Longrightarrow>
     has_failure (parse_erp_messages v2) \<Longrightarrow>
       luw_protocol req [(req, Ok v), (commit_req, Ok v2), (rollback_req, r)]
         (Not_Committed (confirms r))"
| luw_committed:
    "\<not> has_failure (parse_erp_messages v) \<Longrightarrow> parse_erp_messages v \<noteq> [] \<Longrightarrow>
     \<not> has_failure (parse_erp_messages v2) \<Longrightarrow>
       luw_protocol req [(req, Ok v), (commit_req, Ok v2)] Committed"

inductive_cases luw_committedE: "luw_protocol req log Committed"
inductive_cases luw_not_committedE: "luw_protocol req log (Not_Committed b)"
inductive_cases luw_failedE: "luw_protocol req log Failed"
inductive_cases luw_refusedE: "luw_protocol req log Refused"

fun luw_end_of :: "call_log \<Rightarrow> write_outcome erp_result \<Rightarrow> luw_end" where
  "luw_end_of log (Inl _) = (if log = [] then Refused else Failed)"
| "luw_end_of log (Inr out) =
     (if wo_committed out then Committed else Not_Committed (wo_rolled_back out))"

lemma logged_eq:
  "logged call r ro (s, log) = (fst (call r ro s), (snd (call r ro s), log @ [(r, fst (call r ro s))]))"
  by (simp add: logged_def case_prod_beta)

lemma do_rollback_logged:
  "do_rollback (logged call) (s, log) =
     ((confirms (fst (call rollback_req False s)), snd (fst (do_rollback call s))),
      (snd (call rollback_req False s),
       log @ [(rollback_req, fst (call rollback_req False s))]))"
  by (simp add: do_rollback_def logged_eq confirms_def Let_def case_prod_beta split: sum.splits)

lemma has_failure_append: "has_failure (a @ b) \<longleftrightarrow> has_failure a \<or> has_failure b"
  by (simp add: has_failure_def)

lemma has_failure_Nil [simp]: "\<not> has_failure []"
  by (simp add: has_failure_def)

text \<open>The detailed write refines the protocol.\<close>

lemma write_refines_protocol:
  "execute_write_bapi (logged call) req ro (s, []) = (res, (s', log)) \<Longrightarrow>
     luw_protocol req log (luw_end_of log res)"
  unfolding execute_write_bapi_def
  by (auto simp: logged_eq do_rollback_logged has_failure_append Let_def case_prod_beta
      split: if_splits sum.splits intro: luw_protocol.intros)

lemma refused_iff_no_call:
  "execute_write_bapi (logged call) req ro (s, []) = (res, (s', log)) \<Longrightarrow>
     log = [] \<longleftrightarrow> ro \<or> cr_function req \<in> {COMMIT_FN, ROLLBACK_FN}"
  unfolding execute_write_bapi_def
  by (auto simp: logged_eq do_rollback_logged Let_def case_prod_beta split: if_splits sum.splits)

text \<open>C4. A write is reported as committed exactly when it ran, its return stack held at least one
  message and no failure, and the commit that followed it was accepted without a failure: nothing
  is ever committed on faith, and a committed write made exactly these two calls.\<close>

theorem committed_iff_confirmed:
  assumes "execute_write_bapi (logged call) req ro (s, []) = (Ok out, (s', log))"
  shows "wo_committed out \<longleftrightarrow>
    (\<exists>v v2. log = [(req, Ok v), (commit_req, Ok v2)]
       \<and> parse_erp_messages v \<noteq> []
       \<and> \<not> has_failure (parse_erp_messages v @ parse_erp_messages v2))"
proof -
  have p: "luw_protocol req log (luw_end_of log (Ok out))"
    using assms by (rule write_refines_protocol)
  show ?thesis
  proof (cases "wo_committed out")
    case True
    then have "luw_protocol req log Committed" using p by simp
    with True show ?thesis by (auto elim!: luw_committedE simp: has_failure_append)
  next
    case False
    then have "luw_protocol req log (Not_Committed (wo_rolled_back out))" using p by simp
    with False show ?thesis
      by (auto elim!: luw_not_committedE simp: has_failure_append commit_req_def rollback_req_def
          COMMIT_FN_def ROLLBACK_FN_def)
  qed
qed

text \<open>A backend that answers every call with a return stack of one success row.\<close>

definition success_stack :: json where
  "success_stack = JArr [json_obj [(''TYPE'', JStr ''S''), (''MESSAGE'', JStr ''posted'')]]"

lemma parse_success_stack:
  "parse_erp_messages success_stack =
     [\<lparr>em_severity = SevSuccess, em_class = [], em_number = [], em_text = ''posted'',
       em_parameter = None, em_row = None, em_field = None, em_system = None\<rparr>]"
  by (simp add: success_stack_def parse_erp_messages_def collect_candidates_def loop_simps
      obj_of_def looks_like_row_def obj_contains_def map_filter_Cons Let_def severity_from_char_def
      to_upper_char_def is_lower_char_def List.map_filter_def)

definition sample_req :: erp_call_request where
  "sample_req = \<lparr>cr_function = ''ebs.gl.journal.import'', cr_parameters = JNull,
     cr_timeout_ms = 1000, cr_require_read_only_safe = False\<rparr>"

theorem committed_iff_confirmed_witness:
  "\<exists>out log. execute_write_bapi (logged (\<lambda>r ro n. (Ok success_stack, n + 1))) sample_req False (0::nat, [])
     = (Ok out, (2, log)) \<and> wo_committed out"
proof -
  let ?run = "execute_write_bapi (logged (\<lambda>r ro n. (Ok success_stack, n + 1))) sample_req False (0::nat, [])"
  have no_fail: "\<not> has_failure (parse_erp_messages success_stack)"
    by (simp add: parse_success_stack has_failure_def message_is_failure_def)
  obtain out where run: "?run = (Ok out, (2, [(sample_req, Ok success_stack), (commit_req, Ok success_stack)]))"
    by (simp add: execute_write_bapi_def logged_eq has_failure_def message_is_failure_def
        parse_success_stack sample_req_def COMMIT_FN_def ROLLBACK_FN_def Let_def)
  show ?thesis
    using run committed_iff_confirmed [OF run] no_fail by (auto simp: has_failure_append parse_success_stack)
qed

text \<open>C8. A write that returns without being committed ended with a rollback, issued after the failing
  or unconfirmed answer, and it claims to be rolled back exactly when the backend accepted that
  rollback without a failure.\<close>

theorem uncommitted_write_rolled_back:
  assumes "execute_write_bapi (logged call) req ro (s, []) = (Ok out, (s', log))"
    and "\<not> wo_committed out"
  shows "\<exists>v r. log \<noteq> [] \<and> hd log = (req, Ok v) \<and> last log = (rollback_req, r)
     \<and> (wo_rolled_back out \<longleftrightarrow> (\<exists>w. r = Ok w \<and> \<not> has_failure (parse_erp_messages w)))"
proof -
  have "luw_protocol req log (Not_Committed (wo_rolled_back out))"
    using write_refines_protocol [OF assms(1)] assms(2) by simp
  then show ?thesis
    by (auto elim!: luw_not_committedE simp: confirms_def split: sum.splits)
qed

theorem uncommitted_write_rolled_back_witness:
  "\<exists>out log. execute_write_bapi (logged (\<lambda>r ro n. (Ok JNull, n + 1))) sample_req False (0::nat, [])
     = (Ok out, (2, log)) \<and> \<not> wo_committed out \<and> last log = (rollback_req, Ok JNull)"
proof -
  have empty: "parse_erp_messages JNull = []"
    by (simp add: parse_erp_messages_def collect_candidates_def loop_simps List.map_filter_def)
  let ?run = "execute_write_bapi (logged (\<lambda>r ro n. (Ok JNull, n + 1))) sample_req False (0::nat, [])"
  obtain out where run: "?run = (Ok out, (2, [(sample_req, Ok JNull), (rollback_req, Ok JNull)]))"
      "\<not> wo_committed out"
    by (simp add: execute_write_bapi_def logged_eq do_rollback_logged empty Let_def
        sample_req_def COMMIT_FN_def ROLLBACK_FN_def)
  from uncommitted_write_rolled_back [OF this] run show ?thesis by auto
qed

text \<open>The error results of a write: a refused write (read-only mode, or a direct commit or rollback)
  reaches no backend; otherwise the error is that of the write itself, after that one call, or that
  of the commit, after which nothing more is called: an open transaction whose commit call fails is
  left without a rollback.\<close>

lemma write_error_calls:
  assumes "execute_write_bapi (logged call) req ro (s, []) = (Err e, (s', log))"
  shows "(log = [] \<longleftrightarrow> ro \<or> cr_function req \<in> {COMMIT_FN, ROLLBACK_FN})
     \<and> (log = [] \<or> log = [(req, Err e)] \<or> (\<exists>v. log = [(req, Ok v), (commit_req, Err e)]))"
proof -
  have "snd (last log) = Err e" if "log \<noteq> []"
    using assms that unfolding execute_write_bapi_def
    by (auto simp: logged_eq do_rollback_logged Let_def case_prod_beta split: if_splits sum.splits)
  moreover have "luw_protocol req log (luw_end_of log (Err e :: write_outcome erp_result))"
    using assms by (rule write_refines_protocol)
  ultimately have "log = [] \<or> log = [(req, Err e)] \<or> (\<exists>v. log = [(req, Ok v), (commit_req, Err e)])"
    by (cases "log = []") (auto elim!: luw_failedE)
  then show ?thesis using refused_iff_no_call [OF assms] by blast
qed

lemma write_error_calls_witness:
  "\<exists>v log. execute_write_bapi
       (logged (\<lambda>r ro n. (if r = commit_req then Err (ErpTimeout 30000) else Ok success_stack, n + 1)))
       sample_req False (0::nat, []) = (Err (ErpTimeout 30000), (2, log))
     \<and> log = [(sample_req, Ok v), (commit_req, Err (ErpTimeout 30000))]"
proof -
  have no_fail: "\<not> has_failure (parse_erp_messages success_stack)"
    by (simp add: parse_success_stack has_failure_def message_is_failure_def)
  have neq: "sample_req \<noteq> commit_req"
    by (simp add: sample_req_def commit_req_def COMMIT_FN_def)
  have run: "execute_write_bapi
       (logged (\<lambda>r ro n. (if r = commit_req then Err (ErpTimeout 30000) else Ok success_stack, n + 1)))
       sample_req False (0::nat, [])
     = (Err (ErpTimeout 30000),
        (2, [(sample_req, Ok success_stack), (commit_req, Err (ErpTimeout 30000))]))"
    using no_fail neq
    by (simp add: execute_write_bapi_def logged_eq parse_success_stack Let_def)
       (simp add: sample_req_def COMMIT_FN_def ROLLBACK_FN_def)
  from write_error_calls [OF run] run show ?thesis by auto
qed

end
