(* ===== verification/Retry.thy ===== *)
theory Retry
  imports Erp_Error
begin

text \<open>
  Retry with exponential backoff (\<open>retry_with_backoff\<close> of
  \<open>crates/oracle-automate-erp/src/retry.rs\<close>). The retried closure is a function of its own state
  (it is an \<open>FnMut\<close>), the sleeps are recorded in the order they happen, and a \<open>Duration\<close> is its
  number of nanoseconds. The product of the delay with the \<open>f32\<close> multiplier, cast back to \<open>u64\<close>, is
  a function of the policy: the properties hold whatever it computes.
\<close>

definition as_millis :: "nat \<Rightarrow> nat" where
  "as_millis d = d div 1000000"

definition from_millis :: "nat \<Rightarrow> nat" where
  "from_millis ms = ms * 1000000"

record backoff_policy =
  max_attempts :: nat
  initial_delay :: nat
  scale_millis :: "nat \<Rightarrow> nat"
  max_delay :: nat

text \<open>\<open>impl Default for BackoffPolicy\<close>: three attempts, 100 ms doubling up to 2 s.\<close>

definition default_policy :: backoff_policy where
  "default_policy = \<lparr>max_attempts = 3, initial_delay = from_millis 100,
     scale_millis = (\<lambda>ms. 2 * ms), max_delay = from_millis 2000\<rparr>"

text \<open>What a run leaves behind: the result, the closure's state, how often the closure was
  called, and the delays slept.\<close>

record ('a, 's) retry_run =
  run_result :: "'a erp_result"
  run_state :: 's
  run_calls :: nat
  run_sleeps :: "nat list"

definition next_delay :: "backoff_policy \<Rightarrow> nat \<Rightarrow> nat" where
  "next_delay p delay = min (from_millis (scale_millis p (as_millis delay))) (max_delay p)"

text \<open>The loop, entered with \<open>attempt\<close> calls already made and the delay to sleep next.\<close>

function retry_loop ::
  "backoff_policy \<Rightarrow> ('s \<Rightarrow> 'a erp_result \<times> 's) \<Rightarrow> nat \<Rightarrow> nat \<Rightarrow> nat list \<Rightarrow> 's
     \<Rightarrow> ('a, 's) retry_run" where
  "retry_loop p f attempt delay slept s =
     (let attempt' = attempt + 1 in
      case f s of
        (Inr v, s') \<Rightarrow>
          \<lparr>run_result = Ok v, run_state = s', run_calls = attempt', run_sleeps = slept\<rparr>
      | (Inl e, s') \<Rightarrow>
          if \<not> is_transient e then
            \<lparr>run_result = Err e, run_state = s', run_calls = attempt', run_sleeps = slept\<rparr>
          else if max_attempts p \<le> attempt' then
            \<lparr>run_result = Err e, run_state = s', run_calls = attempt', run_sleeps = slept\<rparr>
          else retry_loop p f attempt' (next_delay p delay) (slept @ [delay]) s')"
  by pat_completeness auto
termination
  by (relation "measure (\<lambda>(p, f, attempt, delay, slept, s). max_attempts p - attempt)") auto

declare retry_loop.simps [simp del]

definition retry_with_backoff ::
  "backoff_policy \<Rightarrow> ('s \<Rightarrow> 'a erp_result \<times> 's) \<Rightarrow> 's \<Rightarrow> ('a, 's) retry_run" where
  "retry_with_backoff p f s = retry_loop p f 0 (initial_delay p) [] s"

subsection \<open>The specification: the first outcome that settles the call\<close>

text \<open>The outcome of the \<open>n\<close>-th call when every earlier call is made (counted from 0), and the
  closure's state before it.\<close>

fun state_before :: "('s \<Rightarrow> 'a erp_result \<times> 's) \<Rightarrow> 's \<Rightarrow> nat \<Rightarrow> 's" where
  "state_before f s 0 = s"
| "state_before f s (Suc n) = snd (f (state_before f s n))"

definition outcome :: "('s \<Rightarrow> 'a erp_result \<times> 's) \<Rightarrow> 's \<Rightarrow> nat \<Rightarrow> 'a erp_result" where
  "outcome f s n = fst (f (state_before f s n))"

text \<open>An outcome is final when it is a success or a permanent error.\<close>

fun final_outcome :: "'a erp_result \<Rightarrow> bool" where
  "final_outcome (Inr _) = True"
| "final_outcome (Inl e) = (\<not> is_transient e)"

fun delay_before :: "backoff_policy \<Rightarrow> nat \<Rightarrow> nat" where
  "delay_before p 0 = initial_delay p"
| "delay_before p (Suc n) = next_delay p (delay_before p n)"

lemma retry_loop_step:
  "retry_loop p f n delay slept (state_before f s n) =
     (if final_outcome (outcome f s n) \<or> max_attempts p \<le> Suc n
      then \<lparr>run_result = outcome f s n, run_state = state_before f s (Suc n),
            run_calls = Suc n, run_sleeps = slept\<rparr>
      else retry_loop p f (Suc n) (next_delay p delay) (slept @ [delay]) (state_before f s (Suc n)))"
  by (subst retry_loop.simps)
     (auto simp: outcome_def Let_def split: prod.splits sum.splits)

text \<open>The loop unrolled \<open>n\<close> times, while no outcome settles the call.\<close>

lemma retry_loop_unroll:
  assumes "\<And>i. i < n \<Longrightarrow> \<not> final_outcome (outcome f s i)" and "n = 0 \<or> n < max_attempts p"
  shows "retry_with_backoff p f s =
    retry_loop p f n (delay_before p n) (map (delay_before p) [0..<n]) (state_before f s n)"
  using assms
proof (induction n)
  case 0
  then show ?case by (simp add: retry_with_backoff_def)
next
  case (Suc n)
  then have "\<not> final_outcome (outcome f s n)" "\<not> max_attempts p \<le> Suc n" "n = 0 \<or> n < max_attempts p"
    by auto
  then show ?case
    using Suc by (simp add: retry_loop_step)
qed

lemma retry_stops_at:
  assumes "\<And>i. i < n \<Longrightarrow> \<not> final_outcome (outcome f s i)" and "n = 0 \<or> n < max_attempts p"
    and "final_outcome (outcome f s n) \<or> max_attempts p \<le> Suc n"
  shows "retry_with_backoff p f s =
    \<lparr>run_result = outcome f s n, run_state = state_before f s (Suc n), run_calls = Suc n,
     run_sleeps = map (delay_before p) [0..<n]\<rparr>"
proof -
  have "retry_with_backoff p f s =
      retry_loop p f n (delay_before p n) (map (delay_before p) [0..<n]) (state_before f s n)"
    using assms(1,2) by (rule retry_loop_unroll)
  then show ?thesis using assms(3) by (simp add: retry_loop_step)
qed

text \<open>There is always such a last call, and it is within the budget.\<close>

lemma settling_call_exists:
  "\<exists>n. (\<forall>i<n. \<not> final_outcome (outcome f s i)) \<and> (n = 0 \<or> n < max_attempts p)
     \<and> (final_outcome (outcome f s n) \<or> max_attempts p \<le> Suc n)"
proof -
  let ?Q = "\<lambda>n. final_outcome (outcome f s n) \<or> max_attempts p \<le> Suc n"
  have "?Q (max_attempts p)" by simp
  then have Q: "?Q (LEAST n. ?Q n)" by (rule LeastI)
  have below: "\<not> ?Q i" if "i < (LEAST n. ?Q n)" for i
    using that by (rule not_less_Least)
  have "(LEAST n. ?Q n) = 0 \<or> (LEAST n. ?Q n) < max_attempts p"
    using below [of "(LEAST n. ?Q n) - 1"] by (cases "LEAST n. ?Q n") auto
  with Q below show ?thesis by blast
qed

lemma delay_before_le: "delay_before p n \<le> max (initial_delay p) (max_delay p)"
  by (induction n) (simp_all add: next_delay_def)

lemma delay_before_Suc_le: "delay_before p (Suc n) \<le> max_delay p"
  by (simp add: next_delay_def)

text \<open>C27. The retry loop implements its specification: it returns the outcome of the first call
  that succeeds or fails permanently, or of the last call of the budget when all are transient;
  the closure is called exactly that many times, and before each further call the backoff delay
  of that attempt is slept.\<close>

theorem retry_refines_first_final:
  "\<exists>n. retry_with_backoff p f s =
       \<lparr>run_result = outcome f s n, run_state = state_before f s (Suc n), run_calls = Suc n,
        run_sleeps = map (delay_before p) [0..<n]\<rparr>
     \<and> list_all (\<lambda>i. \<not> final_outcome (outcome f s i)) [0..<n]
     \<and> (final_outcome (outcome f s n) \<or> Suc n = max 1 (max_attempts p))
     \<and> Suc n \<le> max 1 (max_attempts p)"
proof -
  obtain n where n: "\<And>i. i < n \<Longrightarrow> \<not> final_outcome (outcome f s i)" "n = 0 \<or> n < max_attempts p"
      "final_outcome (outcome f s n) \<or> max_attempts p \<le> Suc n"
    using settling_call_exists [of f s p] by blast
  from retry_stops_at [OF n] n show ?thesis
    by (intro exI [of _ n]) (auto simp: list_all_iff)
qed

text \<open>No retry waits longer than the larger of the initial delay and the cap, every wait after the
  first is within the cap, and there is one wait fewer than there are calls.\<close>

lemma retry_sleeps_bounded:
  "let r = retry_with_backoff p f s in
     length (run_sleeps r) + 1 = run_calls r
     \<and> list_all (\<lambda>d. d \<le> max (initial_delay p) (max_delay p)) (run_sleeps r)
     \<and> list_all (\<lambda>d. d \<le> max_delay p) (drop 1 (run_sleeps r))"
proof -
  obtain n where n: "\<And>i. i < n \<Longrightarrow> \<not> final_outcome (outcome f s i)" "n = 0 \<or> n < max_attempts p"
      "final_outcome (outcome f s n) \<or> max_attempts p \<le> Suc n"
    using settling_call_exists [of f s p] by blast
  have "delay_before p m \<le> max_delay p" if "0 < m" for m
    using that delay_before_Suc_le [of p "m - 1"] by (cases m) auto
  then show ?thesis
    by (simp add: retry_stops_at [OF n] list_all_iff delay_before_le drop_map del: max_def)
qed

end
