(* ===== verification/Systems.thy ===== *)
theory Systems
  imports Prelude
begin

text \<open>
  Concurrent components as labelled transition systems: a set of start states and a step
  relation, the states they reach, and the interface \<open>invariant_system\<close> through which every
  component states that its invariant holds in all of them.
\<close>

inductive reachable :: "('s \<Rightarrow> bool) \<Rightarrow> ('s \<Rightarrow> 'e \<Rightarrow> 's \<Rightarrow> bool) \<Rightarrow> 's \<Rightarrow> bool"
  for init :: "'s \<Rightarrow> bool" and step :: "'s \<Rightarrow> 'e \<Rightarrow> 's \<Rightarrow> bool" where
  reach_init: "init s \<Longrightarrow> reachable init step s"
| reach_step: "reachable init step s \<Longrightarrow> step s e t \<Longrightarrow> reachable init step t"

text \<open>Runs: the states after each event of a list.\<close>

inductive run :: "('s \<Rightarrow> 'e \<Rightarrow> 's \<Rightarrow> bool) \<Rightarrow> 's \<Rightarrow> 'e list \<Rightarrow> 's \<Rightarrow> bool"
  for step :: "'s \<Rightarrow> 'e \<Rightarrow> 's \<Rightarrow> bool" where
  run_nil: "run step s [] s"
| run_cons: "step s e t \<Longrightarrow> run step t es u \<Longrightarrow> run step s (e # es) u"

inductive_cases run_nilE: "run step s [] t"
inductive_cases run_consE: "run step s (e # es) t"

lemma run_nil_iff [simp]: "run step s [] t \<longleftrightarrow> t = s"
  by (auto intro: run.intros elim: run_nilE)

lemma run_cons_iff: "run step s (e # es) u \<longleftrightarrow> (\<exists>t. step s e t \<and> run step t es u)"
  by (auto intro: run.intros elim: run_consE)

lemma run_append: "run step s (xs @ ys) u \<longleftrightarrow> (\<exists>t. run step s xs t \<and> run step t ys u)"
  by (induction xs arbitrary: s) (auto simp: run_cons_iff)

lemma reachable_run: "reachable init step s \<Longrightarrow> run step s es t \<Longrightarrow> reachable init step t"
  by (induction es arbitrary: s) (auto simp: run_cons_iff intro: reachable.reach_step)

text \<open>Work that some step always reduces while the goal is not reached can be done.\<close>

lemma measure_run:
  assumes "\<And>s. P s \<Longrightarrow> \<not> Q s \<Longrightarrow> \<exists>e t. step s e t \<and> P t \<and> (f t :: nat) < f s" and "P s"
  shows "\<exists>es t. run step s es t \<and> P t \<and> Q t"
  using assms(2)
proof (induction "f s" arbitrary: s rule: less_induct)
  case less
  show ?case
  proof (cases "Q s")
    case False
    then obtain e t where "step s e t" "P t" "f t < f s" using assms(1) less.prems by blast
    then show ?thesis using less.hyps [of t] by (metis run_cons_iff)
  qed (use less.prems in \<open>metis run_nil_iff\<close>)
qed

locale invariant_system =
  fixes init :: "'s \<Rightarrow> bool"
    and step :: "'s \<Rightarrow> 'e \<Rightarrow> 's \<Rightarrow> bool"
    and inv :: "'s \<Rightarrow> bool"
  assumes inv_init: "init s \<Longrightarrow> inv s"
    and inv_step: "inv s \<Longrightarrow> step s e t \<Longrightarrow> inv t"
begin

lemma reachable_inv: "reachable init step s \<Longrightarrow> inv s"
  by (induction rule: reachable.induct) (auto intro: inv_init inv_step)

lemma run_inv: "inv s \<Longrightarrow> run step s es t \<Longrightarrow> inv t"
  by (induction es arbitrary: s) (auto simp: run_cons_iff intro: inv_step)

lemma reachable_step_inv: "reachable init step s \<Longrightarrow> step s e t \<Longrightarrow> inv s \<and> inv t"
  using reachable_inv inv_step by blast

end

end
