(* ===== verification/Circuit_Breaker.thy ===== *)
theory Circuit_Breaker
  imports Retry Systems
begin

text \<open>
  The circuit breaker of \<open>crates/oracle-automate-erp/src/retry.rs\<close>. An \<open>Instant\<close> is a number of
  nanoseconds on the monotonic clock, so \<open>elapsed\<close> is a truncated difference. A call takes the
  breaker's lock twice, once to pass the gate and once to record its result, and other calls may
  run in between: the operations are modelled one critical section at a time (\<open>cb_gate\<close>,
  \<open>cb_record\<close>) and composed both sequentially (\<open>cb_call\<close>) and as the interleavings of any
  number of calls (\<open>cb_step\<close>).
\<close>

datatype circuit_state = Closed | Open | HalfOpen

record breaker =
  cb_threshold :: nat
  cb_open_duration :: nat
  cb_state :: circuit_state
  cb_failures :: nat
  cb_opened_at :: "nat option"

definition cb_new :: "nat \<Rightarrow> nat \<Rightarrow> breaker" where
  "cb_new threshold open_duration =
     \<lparr>cb_threshold = threshold, cb_open_duration = open_duration, cb_state = Closed,
      cb_failures = 0, cb_opened_at = None\<rparr>"

text \<open>\<open>tick\<close>: an open breaker whose time is over becomes half-open.\<close>

definition cb_tick :: "nat \<Rightarrow> breaker \<Rightarrow> breaker" where
  "cb_tick now b =
     (if cb_state b = Open then
        (case cb_opened_at b of
           Some opened \<Rightarrow>
             if cb_open_duration b \<le> now - opened then b\<lparr>cb_state := HalfOpen\<rparr> else b
         | None \<Rightarrow> b)
      else b)"

definition cb_observe :: "nat \<Rightarrow> breaker \<Rightarrow> circuit_state \<times> breaker" where
  "cb_observe now b = (let b' = cb_tick now b in (cb_state b', b'))"

text \<open>The first critical section of \<open>call\<close>; the clock is read again for the remaining time.\<close>

definition cb_gate :: "nat \<Rightarrow> nat \<Rightarrow> breaker \<Rightarrow> unit erp_result \<times> breaker" where
  "cb_gate now now' b =
     (let b' = cb_tick now b in
      if cb_state b' = Open then
        (let remaining = (case cb_opened_at b' of
                            Some t \<Rightarrow> cb_open_duration b' - (now' - t)
                          | None \<Rightarrow> cb_open_duration b')
         in (Err (ErpCircuitOpen (as_millis remaining mod 2 ^ 64)), b'))
      else (Ok (), b'))"

text \<open>The second critical section: record the result of the call.\<close>

fun cb_record :: "nat \<Rightarrow> 'a erp_result \<Rightarrow> breaker \<Rightarrow> breaker" where
  "cb_record now (Inr _) b = b\<lparr>cb_failures := 0, cb_state := Closed, cb_opened_at := None\<rparr>"
| "cb_record now (Inl e) b =
     (if is_transient e then
        (let failures = cb_failures b + 1; b' = b\<lparr>cb_failures := failures\<rparr> in
         if cb_threshold b \<le> failures
         then b'\<lparr>cb_state := Open, cb_opened_at := Some now\<rparr> else b')
      else b)"

text \<open>A call with nothing in between: \<open>now\<close>, \<open>now'\<close> and \<open>fin\<close> are the clock at the gate, at the
  computation of the remaining time and when the result is recorded.\<close>

definition cb_call ::
  "nat \<Rightarrow> nat \<Rightarrow> nat \<Rightarrow> ('s \<Rightarrow> 'a erp_result \<times> 's) \<Rightarrow> breaker \<Rightarrow> 's
     \<Rightarrow> 'a erp_result \<times> breaker \<times> 's" where
  "cb_call now now' fin f b s =
     (case cb_gate now now' b of
        (Inl e, b') \<Rightarrow> (Err e, b', s)
      | (Inr _, b') \<Rightarrow> (case f s of (r, s') \<Rightarrow> (r, cb_record fin r b', s')))"

subsection \<open>Interleaved calls\<close>

text \<open>The system: the breaker, the clock, and how many calls have passed the gate without having
  recorded their result yet.\<close>

record cb_system =
  sys_breaker :: breaker
  sys_now :: nat
  sys_in_flight :: nat

datatype 'a cb_event =
    Time_Passes nat
  | Observe
  | Gate nat
  | Record "'a erp_result"

inductive cb_step :: "cb_system \<Rightarrow> 'a cb_event \<Rightarrow> cb_system \<Rightarrow> bool" where
  time_passes: "cb_step y (Time_Passes d) (y\<lparr>sys_now := sys_now y + d\<rparr>)"
| observe: "cb_step y Observe (y\<lparr>sys_breaker := cb_tick (sys_now y) (sys_breaker y)\<rparr>)"
| gate_rejected: "cb_gate (sys_now y) (sys_now y + d) (sys_breaker y) = (Inl e, b') \<Longrightarrow>
     cb_step y (Gate d) (y\<lparr>sys_breaker := b', sys_now := sys_now y + d\<rparr>)"
| gate_admitted: "cb_gate (sys_now y) (sys_now y + d) (sys_breaker y) = (Inr u, b') \<Longrightarrow>
     cb_step y (Gate d) (y\<lparr>sys_breaker := b', sys_in_flight := sys_in_flight y + 1\<rparr>)"
| record_result: "0 < sys_in_flight y \<Longrightarrow>
     cb_step y (Record r) (y\<lparr>sys_breaker := cb_record (sys_now y) r (sys_breaker y),
                             sys_in_flight := sys_in_flight y - 1\<rparr>)"

inductive_cases cb_stepE: "cb_step y ev z"

fun cb_init :: "cb_system \<Rightarrow> bool" where
  "cb_init y \<longleftrightarrow> (\<exists>thr dur. 0 < thr \<and> sys_breaker y = cb_new thr dur) \<and> sys_in_flight y = 0"

text \<open>Closed exactly while the failures stay below the threshold, and an opening time exactly when
  not closed, never in the future.\<close>

definition breaker_ok :: "nat \<Rightarrow> breaker \<Rightarrow> bool" where
  "breaker_ok now b \<longleftrightarrow> 0 < cb_threshold b
     \<and> (cb_state b = Closed \<longleftrightarrow> cb_failures b < cb_threshold b)
     \<and> (case cb_opened_at b of None \<Rightarrow> cb_state b = Closed
        | Some t \<Rightarrow> cb_state b \<noteq> Closed \<and> t \<le> now)"

definition cb_inv :: "cb_system \<Rightarrow> bool" where
  "cb_inv y \<longleftrightarrow> breaker_ok (sys_now y) (sys_breaker y)"

lemmas cb_defs = cb_tick_def cb_gate_def breaker_ok_def Let_def

lemma breaker_ok_new: "0 < thr \<Longrightarrow> breaker_ok now (cb_new thr dur)"
  by (simp add: breaker_ok_def cb_new_def)

lemma breaker_ok_later: "breaker_ok now b \<Longrightarrow> breaker_ok (now + d) b"
  by (auto simp: breaker_ok_def split: option.splits)

lemma breaker_ok_tick: "breaker_ok now b \<Longrightarrow> breaker_ok now (cb_tick t b)"
  by (auto simp: cb_defs split: option.splits)

lemma snd_cb_gate [simp]: "snd (cb_gate now now' b) = cb_tick now b"
  by (simp add: cb_gate_def Let_def)

lemma cb_gate_ticks: "cb_gate now now' b = (r, b') \<Longrightarrow> b' = cb_tick now b"
  by (drule arg_cong [where f = snd]) simp

lemma breaker_ok_record: "breaker_ok now b \<Longrightarrow> breaker_ok now (cb_record now r b)"
proof (cases r)
  case (Inl e)
  assume "breaker_ok now b"
  with Inl show ?thesis
    by (cases "cb_state b") (auto simp: breaker_ok_def Let_def split: option.splits)
next
  case (Inr v)
  assume "breaker_ok now b"
  with Inr show ?thesis by (simp add: breaker_ok_def)
qed

interpretation cb: invariant_system cb_init cb_step cb_inv
proof unfold_locales
  fix y :: cb_system
  assume "cb_init y"
  then show "cb_inv y" by (auto simp: cb_inv_def breaker_ok_new)
next
  fix y z and ev :: "'a cb_event"
  assume inv: "cb_inv y" and "cb_step y ev z"
  from this(2) show "cb_inv z"
    using inv
    by (cases rule: cb_step.cases)
       (auto simp: cb_inv_def breaker_ok_later breaker_ok_tick breaker_ok_record
          dest!: cb_gate_ticks)
qed



subsection \<open>Failing fast, tripping and recovering\<close>

lemma gate_open:
  "cb_state b = Open \<Longrightarrow> cb_opened_at b = Some t \<Longrightarrow> now - t < cb_open_duration b \<Longrightarrow>
     cb_gate now now' b =
       (Err (ErpCircuitOpen (as_millis (cb_open_duration b - (now' - t)) mod 2 ^ 64)), b)"
  by (simp add: cb_defs)

lemma gate_passes:
  "cb_state b \<noteq> Open \<or> (\<exists>t. cb_opened_at b = Some t \<and> cb_open_duration b \<le> now - t) \<Longrightarrow>
     fst (cb_gate now now' b) = Ok ()"
  by (auto simp: cb_defs)

text \<open>While an open breaker's time is not over the protected operation is not run: its state is
  untouched, the caller gets a circuit-open error (a transient one) announcing no more than the
  configured time, and the breaker does not change.\<close>

lemma open_breaker_fails_fast:
  assumes "cb_state b = Open" and "cb_opened_at b = Some t" and "now - t < cb_open_duration b"
  shows "\<exists>ms \<le> as_millis (cb_open_duration b).
           cb_call now now' fin f b s = (Err (ErpCircuitOpen ms), b, s)"
proof -
  have "as_millis (cb_open_duration b - (now' - t)) mod 2 ^ 64 \<le> as_millis (cb_open_duration b)"
    unfolding as_millis_def
    by (rule order_trans [OF mod_less_eq_dividend]) (simp add: div_le_mono)
  then show ?thesis
    by (simp add: cb_call_def gate_open [OF assms])
qed

lemma open_breaker_fails_fast_witness:
  "\<exists>ms \<le> as_millis 5000000.
     cb_call 3 4 5 (\<lambda>n. (Ok n, n + 1))
       \<lparr>cb_threshold = 1, cb_open_duration = 5000000, cb_state = Open, cb_failures = 1,
        cb_opened_at = Some 2\<rparr> (7::nat)
     = (Err (ErpCircuitOpen ms),
        \<lparr>cb_threshold = 1, cb_open_duration = 5000000, cb_state = Open, cb_failures = 1,
         cb_opened_at = Some 2\<rparr>, 7)"
  using open_breaker_fails_fast
    [where b = "\<lparr>cb_threshold = 1, cb_open_duration = 5000000, cb_state = Open, cb_failures = 1,
          cb_opened_at = Some 2\<rparr>" and t = 2 and now = 3 and now' = 4 and fin = 5
       and f = "\<lambda>n. (Ok n, n + 1)" and s = "7::nat"]
  by simp

text \<open>Calls made one after the other, each with its own clock readings.\<close>

fun cb_calls ::
  "(nat \<times> nat \<times> nat) list \<Rightarrow> ('s \<Rightarrow> 'a erp_result \<times> 's) \<Rightarrow> breaker \<Rightarrow> 's
     \<Rightarrow> 'a erp_result list \<times> breaker \<times> 's" where
  "cb_calls [] f b s = ([], b, s)"
| "cb_calls ((now, now', fin) # ts) f b s =
     (case cb_call now now' fin f b s of (r, b', s') \<Rightarrow>
       (case cb_calls ts f b' s' of (rs, b'', s'') \<Rightarrow> (r # rs, b'', s'')))"

lemma cb_call_closed:
  "cb_state b = Closed \<Longrightarrow>
     cb_call now now' fin f b s = (fst (f s), cb_record fin (fst (f s)) b, snd (f s))"
  by (simp add: cb_call_def cb_defs split: prod.splits)

lemma failing_calls:
  assumes "\<And>s. \<exists>e. fst (f s) = Err e \<and> is_transient e"
    and "cb_state b = Closed" and "cb_failures b + length ts \<le> cb_threshold b"
    and "cb_failures b < cb_threshold b"
  shows "let b' = fst (snd (cb_calls ts f b s)) in
     cb_failures b' = cb_failures b + length ts
     \<and> cb_state b' = (if cb_failures b + length ts = cb_threshold b then Open else Closed)"
  using assms(2-)
proof (induction ts arbitrary: b s)
  case Nil
  then show ?case by simp
next
  case (Cons t ts)
  obtain now now' fin' where t: "t = (now, now', fin')" by (cases t) auto
  obtain e where e: "fst (f s) = Err e" "is_transient e" using assms(1) by blast
  define b1 where "b1 = cb_record fin' (Err e :: 'b erp_result) b"
  have call: "cb_call now now' fin' f b s = (Err e, b1, snd (f s))"
    using Cons.prems(1) e by (simp add: cb_call_closed b1_def)
  show ?case
  proof (cases "cb_failures b + 1 < cb_threshold b")
    case True
    then have "cb_state b1 = Closed" "cb_failures b1 = cb_failures b + 1"
        "cb_threshold b1 = cb_threshold b"
      using Cons.prems e by (simp_all add: b1_def Let_def)
    then show ?thesis
      using Cons.IH [of b1 "snd (f s)"] Cons.prems True
      by (simp add: t call Let_def case_prod_beta)
  next
    case False
    then have last: "ts = []" "cb_failures b + 1 = cb_threshold b"
      using Cons.prems by (cases ts; simp)+
    then show ?thesis
      using Cons.prems e by (simp add: t call b1_def Let_def)
  qed
qed

text \<open>From a new breaker, calls that all fail with transient errors leave it closed until as many
  have failed as the threshold says, and that failure opens it.\<close>

lemma breaker_trips_at_threshold:
  assumes "\<And>s. \<exists>e. fst (f s) = Err e \<and> is_transient e" and "length ts \<le> thr" and "0 < thr"
  shows "cb_state (fst (snd (cb_calls ts f (cb_new thr dur) s)))
       = (if length ts = thr then Open else Closed)"
  using failing_calls [OF assms(1), where b = "cb_new thr dur" and ts = ts and s = s] assms(2,3)
  by (simp add: cb_new_def Let_def)

lemma breaker_trips_at_threshold_witness:
  "cb_state (fst (snd (cb_calls [(0, 0, 1), (2, 2, 3)]
     (\<lambda>n. (Err (ErpTimeout n) :: unit erp_result, n + 1)) (cb_new 2 50) 5))) = Open"
  using breaker_trips_at_threshold
    [where f = "\<lambda>n. (Err (ErpTimeout n) :: unit erp_result, n + 1)"
       and ts = "[(0, 0, 1), (2, 2, 3)]" and thr = 2 and dur = 50 and s = 5]
  by simp

text \<open>An open breaker is not stuck: once its time is over the next call runs the operation, and
  when that succeeds the breaker is closed again with no failures counted; when it fails
  transiently the breaker opens again at that moment.\<close>

lemma breaker_recovers:
  assumes "breaker_ok now b" and "cb_state b = Open" and "cb_opened_at b = Some t"
    and "t + cb_open_duration b \<le> now" and "f s = (r, s')"
  shows "case cb_call now now' fin f b s of (r', b', s'') \<Rightarrow>
     r' = r \<and> s'' = s'
     \<and> (is_ok r \<longrightarrow> b' = b\<lparr>cb_state := Closed, cb_failures := 0, cb_opened_at := None\<rparr>)
     \<and> (\<forall>e. r = Err e \<and> is_transient e \<longrightarrow>
           cb_state b' = Open \<and> cb_opened_at b' = Some fin)"
proof -
  have "cb_tick now b = b\<lparr>cb_state := HalfOpen\<rparr>"
    using assms(2-4) by (simp add: cb_tick_def)
  then have "cb_gate now now' b = (Ok (), b\<lparr>cb_state := HalfOpen\<rparr>)"
    by (simp add: cb_gate_def Let_def)
  then show ?thesis
    using assms(1,2,5)
    by (cases r) (auto simp: cb_call_def Let_def breaker_ok_def)
qed

lemma breaker_recovers_witness:
  "cb_call 60 60 61 (\<lambda>n. (Ok n, n + 1))
     \<lparr>cb_threshold = 1, cb_open_duration = 50, cb_state = Open, cb_failures = 1,
      cb_opened_at = Some 2\<rparr> (7::nat)
   = (Ok 7, \<lparr>cb_threshold = 1, cb_open_duration = 50, cb_state = Closed, cb_failures = 0,
             cb_opened_at = None\<rparr>, 8)"
  using breaker_recovers
    [where now = 60 and now' = 60 and fin = 61 and t = 2 and f = "\<lambda>n. (Ok n, n + 1)"
       and s = "7::nat" and r = "Ok 7" and s' = 8
       and b = "\<lparr>cb_threshold = 1, cb_open_duration = 50, cb_state = Open, cb_failures = 1,
                cb_opened_at = Some 2\<rparr>"]
  by (simp add: breaker_ok_def split: prod.splits)

end
