(* ===== verification/Erp_Catalog.thy ===== *)
theory Erp_Catalog
  imports Erp_Types
begin

text \<open>
  The catalogue the mock client answers from: the fixtures \<open>seed_functions\<close> and \<open>seed_tables\<close> of
  \<open>crates/oracle-automate-erp/src/client.rs\<close>, one definition per operation and per table, and the
  facts that hold of every entry.
\<close>

definition p_opt_desc :: "string \<Rightarrow> string option" where
  "p_opt_desc desc = (if desc = [] then None else Some desc)"

definition p_imp :: "string \<Rightarrow> string \<Rightarrow> bool \<Rightarrow> string \<Rightarrow> erp_parameter" where
  "p_imp name ty opt desc =
     \<lparr>ep_name = name, ep_direction = Import_Param, ep_type_token = ty, ep_optional = opt,
      ep_description = p_opt_desc desc, ep_default_value = None\<rparr>"

definition p_exp :: "string \<Rightarrow> string \<Rightarrow> bool \<Rightarrow> string \<Rightarrow> erp_parameter" where
  "p_exp name ty opt desc =
     \<lparr>ep_name = name, ep_direction = Export_Param, ep_type_token = ty, ep_optional = opt,
      ep_description = p_opt_desc desc, ep_default_value = None\<rparr>"

definition p_tab :: "string \<Rightarrow> string \<Rightarrow> bool \<Rightarrow> string \<Rightarrow> erp_parameter" where
  "p_tab name ty opt desc =
     \<lparr>ep_name = name, ep_direction = Tables_Param, ep_type_token = ty, ep_optional = opt,
      ep_description = p_opt_desc desc, ep_default_value = None\<rparr>"

definition p_imp_default :: "string \<Rightarrow> string \<Rightarrow> string \<Rightarrow> string \<Rightarrow> erp_parameter" where
  "p_imp_default name ty dflt desc =
     \<lparr>ep_name = name, ep_direction = Import_Param, ep_type_token = ty, ep_optional = True,
      ep_description = p_opt_desc desc, ep_default_value = Some dflt\<rparr>"

lemmas param_defs = p_imp_def p_exp_def p_tab_def p_imp_default_def p_opt_desc_def

subsection \<open>The operations\<close>

definition op_server_information :: erp_operation_meta where
  "op_server_information =
    \<lparr>om_function = ''fusion.system.serverInformation'',
     om_description =
       ''Retrieve Fusion environment identity (pod, release, server timezone).'',
     om_function_group = ''REST Framework'', om_package = Some ''FND'',
     om_parameters =
     [p_exp ''SERVER_INFO'' ''STRUCT(ServerInformation)'' False ''Environment identity (pod, release, timezone)''],
     om_deprecated = False, om_read_only = True, om_commit_required = False,
     om_authorization =
       [priv_view ''FND_VIEW_SERVER_INFORMATION_PRIV'' ''Application Diagnostics Viewer''],
     om_erp_note = None\<rparr>"

definition op_items_get :: erp_operation_meta where
  "op_items_get =
    \<lparr>om_function = ''fusion.scm.itemsV2.get'',
     om_description =
       ''Read Product Hub item master detail (item master). Read-only Fusion REST GET.'',
     om_function_group = ''Product Management'', om_package = Some ''EGP'',
     om_parameters =
     [p_imp ''ITEM_NUMBER'' ''VARCHAR2(300)'' False (''Item number '' @ em_dash @ '' VARCHAR2(300) in Fusion''),
      p_imp ''ORGANIZATION_CODE'' ''VARCHAR2(18)'' True ''Inventory organization code (org-specific view)'',
      p_imp_default ''EXPAND'' ''VARCHAR2(240)'' [] ''Child resources to expand (e.g. ItemEFF)'',
      p_exp ''ITEM'' ''STRUCT(itemsV2-item-response)'' False ''Item resource representation (EGP_SYSTEM_ITEMS_B)''],
     om_deprecated = False, om_read_only = True, om_commit_required = False,
     om_authorization =
       [priv_view ''EGP_VIEW_ITEM_PRIV'' ''Product Hub Inquiry''],
     om_erp_note = Some ''Item number is VARCHAR2(300) in Fusion Product Hub (EGP_SYSTEM_ITEMS_B.ITEM_NUMBER)''\<rparr>"

definition op_journal_post :: erp_operation_meta where
  "op_journal_post =
    \<lparr>om_function = ''fusion.gl.journalEntries.post'',
     om_description =
       ''Create and post a GL journal entry synchronously via Fusion REST.'',
     om_function_group = ''Financials/General Ledger'', om_package = Some ''GL'',
     om_parameters =
     [p_imp ''JOURNAL_ENTRY'' ''STRUCT(journalEntries-request)'' False ''Journal header + lines payload'',
      p_imp_default ''POST_TO_LEDGER'' ''VARCHAR2(1)'' ''Y'' ''If Y, post immediately after create'',
      p_exp ''JOURNAL'' ''STRUCT(journalEntries-response)'' False ''Created journal (with JeHeaderId)'',
      p_exp ''X_RETURN_STATUS'' ''VARCHAR2(1)'' False ''FND_API status S/E/U (Fusion REST mirrors via HTTP status + error payload)'',
      p_exp ''X_MSG_COUNT'' ''NUMBER'' True ''Message count'',
      p_tab ''X_MSG_DATA'' ''STRUCT(FND_MSG)'' False ''FND_MSG_PUB message stack''],
     om_deprecated = False, om_read_only = False, om_commit_required = False,
     om_authorization =
       [priv_manage ''GL_CREATE_JOURNAL_PRIV'' ''General Accounting Manager''],
     om_erp_note = Some (''Synchronous Fusion REST write '' @ em_dash @ '' auto-commits per request. Posting lands in GL_JE_LINES (and, for subledger sources, XLA_AE_LINES). Oracle has no single '' @ [CHR 0x27] @ ''universal journal'' @ [CHR 0x27] @ ''.'')\<rparr>"

definition op_journal_import :: erp_operation_meta where
  "op_journal_import =
    \<lparr>om_function = ''fusion.erpintegrations.importBulkData.journalImport'',
     om_description =
       ''Bulk-load journals via FBDI (Journal Import). Stages to GL_INTERFACE then submits the Journal Import job.'',
     om_function_group = ''ERP Integration Service'', om_package = Some ''FUN'',
     om_parameters =
     [p_imp ''DOCUMENT_CONTENT'' ''CLOB(base64)'' False ''Base64 FBDI zip built from the JournalImportTemplate'',
      p_imp ''JOB_NAME'' ''VARCHAR2(240)'' False ''ESS job path/name, e.g. /oracle/apps/ess/financials/.../JournalImportLauncher'',
      p_imp_default ''CALLBACK_URL'' ''VARCHAR2(2000)'' [] ''Optional async completion callback'',
      p_exp ''REQUEST_ID'' ''NUMBER'' False ''ESS request id for status polling'',
      p_exp ''X_RETURN_STATUS'' ''VARCHAR2(1)'' False ''Submission status S/E/U'',
      p_exp ''X_MSG_COUNT'' ''NUMBER'' True ''Message count'',
      p_tab ''X_MSG_DATA'' ''STRUCT(FND_MSG)'' False ''FND_MSG_PUB message stack''],
     om_deprecated = False, om_read_only = False, om_commit_required = True,
     om_authorization =
       [priv_run ''GL_RUN_JOURNAL_IMPORT_PRIV'' ''General Accounting Manager''],
     om_erp_note = Some (''Two-step bulk write: FBDI document '' @ right_arrow @ '' GL_INTERFACE '' @ right_arrow @ '' Journal Import ESS job. Nothing posts until the import job completes '' @ em_dash @ '' this is the interface-then-import two-phase write.'')\<rparr>"

definition op_purchase_order_post :: erp_operation_meta where
  "op_purchase_order_post =
    \<lparr>om_function = ''fusion.po.purchaseOrders.post'',
     om_description =
       ''Create a purchase order via Fusion REST (synchronous).'',
     om_function_group = ''Procurement'', om_package = Some ''PO'',
     om_parameters =
     [p_imp ''PURCHASE_ORDER'' ''STRUCT(purchaseOrders-request)'' False ''PO header + lines + distributions'',
      p_imp_default ''DRAFT'' ''VARCHAR2(1)'' ''N'' ''If Y, create as draft (draftPurchaseOrders)'',
      p_exp ''PURCHASE_ORDER_RESULT'' ''STRUCT(purchaseOrders-response)'' False ''Created PO (with POHeaderId / OrderNumber)'',
      p_exp ''X_RETURN_STATUS'' ''VARCHAR2(1)'' False ''Status S/E/U'',
      p_exp ''X_MSG_COUNT'' ''NUMBER'' True ''Message count'',
      p_tab ''X_MSG_DATA'' ''STRUCT(FND_MSG)'' False ''FND_MSG_PUB message stack''],
     om_deprecated = False, om_read_only = False, om_commit_required = False,
     om_authorization =
       [priv_manage ''PO_MANAGE_PURCHASE_ORDER_PRIV'' ''Procurement Manager''],
     om_erp_note = Some ''Synchronous REST; auto-commits. Charge-account distributions are validated against open GL periods (GL_PERIOD_STATUSES) before approval.''\<rparr>"

definition op_sales_order_post :: erp_operation_meta where
  "op_sales_order_post =
    \<lparr>om_function = ''fusion.doo.salesOrdersForOrderHub.post'',
     om_description =
       ''Import a sales order into Order Management (Order Hub).'',
     om_function_group = ''Order Management'', om_package = Some ''DOO'',
     om_parameters =
     [p_imp ''SALES_ORDER'' ''STRUCT(salesOrdersForOrderHub-request)'' False ''Order header + lines'',
      p_exp ''SALES_ORDER_RESULT'' ''STRUCT(salesOrdersForOrderHub-response)'' False ''Created order (with HeaderId / OrderNumber)'',
      p_exp ''X_RETURN_STATUS'' ''VARCHAR2(1)'' False ''Status S/E/U'',
      p_exp ''X_MSG_COUNT'' ''NUMBER'' True ''Message count'',
      p_tab ''X_MSG_DATA'' ''STRUCT(FND_MSG)'' False ''FND_MSG_PUB message stack''],
     om_deprecated = False, om_read_only = False, om_commit_required = False,
     om_authorization =
       [priv_manage ''DOO_MANAGE_SALES_ORDER_PRIV'' ''Order Entry Specialist''],
     om_erp_note = Some ''Sold-to is a TCA party (BUYING_PARTY_ID).''\<rparr>"

definition op_receipt_post :: erp_operation_meta where
  "op_receipt_post =
    \<lparr>om_function = ''fusion.inv.receivingReceiptRequests.post'',
     om_description =
       ''Create a receiving receipt (goods receipt against a PO).'',
     om_function_group = ''Inventory Management'', om_package = Some ''RCV'',
     om_parameters =
     [p_imp ''RECEIPT_REQUEST'' ''STRUCT(receivingReceiptRequests-request)'' False ''Receipt header + lines'',
      p_exp ''RECEIPT_RESULT'' ''STRUCT(receivingReceiptRequests-response)'' False ''Created receipt'',
      p_exp ''X_RETURN_STATUS'' ''VARCHAR2(1)'' False ''Status S/E/U'',
      p_exp ''X_MSG_COUNT'' ''NUMBER'' True ''Message count'',
      p_tab ''X_MSG_DATA'' ''STRUCT(FND_MSG)'' False ''FND_MSG_PUB message stack''],
     om_deprecated = False, om_read_only = False, om_commit_required = False,
     om_authorization =
       [priv_manage ''RCV_MANAGE_RECEIPT_PRIV'' ''Receiving Agent''],
     om_erp_note = Some ''Receipt creates inventory + accrual accounting events in XLA that later transfer to GL_JE_LINES via Create Accounting.''\<rparr>"

definition op_supplier_patch :: erp_operation_meta where
  "op_supplier_patch =
    \<lparr>om_function = ''fusion.poz.suppliers.patch'',
     om_description =
       ''Update supplier master data (TCA party + supplier profile).'',
     om_function_group = ''Procurement'', om_package = Some ''POZ'',
     om_parameters =
     [p_imp ''SUPPLIER_ID'' ''NUMBER'' False ''SupplierId (TCA-backed)'',
      p_imp ''SUPPLIER_PATCH'' ''STRUCT(suppliers-request)'' False ''Fields to change'',
      p_exp ''SUPPLIER_RESULT'' ''STRUCT(suppliers-response)'' False ''Updated supplier'',
      p_exp ''X_RETURN_STATUS'' ''VARCHAR2(1)'' False ''Status S/E/U'',
      p_exp ''X_MSG_COUNT'' ''NUMBER'' True ''Message count'',
      p_tab ''X_MSG_DATA'' ''STRUCT(FND_MSG)'' False ''FND_MSG_PUB message stack''],
     om_deprecated = False, om_read_only = False, om_commit_required = False,
     om_authorization =
       [priv_manage ''POZ_MANAGE_SUPPLIER_PROFILE_PRIV'' ''Supplier Administrator''],
     om_erp_note = Some ''Suppliers and customers are TCA parties; suppliers and customers are modelled as Oracle Trading Community Architecture parties.''\<rparr>"

definition op_sandbox_publish :: erp_operation_meta where
  "op_sandbox_publish =
    \<lparr>om_function = ''fusion.fnd.sandbox.publish'',
     om_description =
       ''Publish a configuration sandbox to the mainline (change promotion; the transport-release analog).'',
     om_function_group = ''Configuration'', om_package = Some ''FND'',
     om_parameters =
     [p_imp ''SANDBOX_NAME'' ''VARCHAR2(80)'' False ''Sandbox to publish'',
      p_imp_default ''PUBLISH_TARGET'' ''VARCHAR2(30)'' ''MAINLINE'' ''Target: MAINLINE (then promoted to a target pod via config-package export/import)'',
      p_exp ''PUBLISH_RESULT'' ''STRUCT(sandbox-publish-response)'' False ''Publish outcome'',
      p_exp ''X_RETURN_STATUS'' ''VARCHAR2(1)'' False ''Status S/E/U'',
      p_exp ''X_MSG_COUNT'' ''NUMBER'' True ''Message count'',
      p_tab ''X_MSG_DATA'' ''STRUCT(FND_MSG)'' False ''FND_MSG_PUB message stack''],
     om_deprecated = False, om_read_only = False, om_commit_required = False,
     om_authorization =
       [priv_manage ''FND_MANAGE_SANDBOX_PRIV'' ''Application Implementation Consultant''],
     om_erp_note = Some (''Publishing is irreversible against the mainline. Cross-pod promotion uses FSM Configuration Packages (export '' @ right_arrow @ '' import). Guard PROD publishes with a re-typed confirmation.'')\<rparr>"

definition op_bip_run_report :: erp_operation_meta where
  "op_bip_run_report =
    \<lparr>om_function = ''fusion.bip.runReport'',
     om_description =
       ''Run a BI Publisher report to extract tabular data (the a BI Publisher extract analog). Prefer OTBI for ad-hoc analytics.'',
     om_function_group = ''BI Publisher'', om_package = Some ''XDO'',
     om_parameters =
     [p_imp ''REPORT_PATH'' ''VARCHAR2(2000)'' False ''Catalog path, e.g. /Custom/Gaussian Technologies/GL/JournalExtract.xdo'',
      p_imp_default ''PARAMETERS'' ''STRUCT(bip-parameters)'' [] ''Report parameters'',
      p_imp_default ''SIZE_OF_DATA_CHUNK'' ''NUMBER'' ''-1'' ''Chunking for large extracts'',
      p_exp ''REPORT_BYTES'' ''CLOB(base64)'' False ''Report output (XML/CSV)''],
     om_deprecated = False, om_read_only = True, om_commit_required = False,
     om_authorization =
       [priv_run ''FND_RUN_BIP_REPORT_PRIV'' ''BI Administrator''],
     om_erp_note = Some ''BI Publisher is the supported path for bulk tabular extracts from Fusion (no direct table SELECT). Bound the result set; use OTBI subject areas for analytics.''\<rparr>"

definition op_rest_describe :: erp_operation_meta where
  "op_rest_describe =
    \<lparr>om_function = ''fusion.rest.describe'',
     om_description =
       (''Describe a Fusion REST resource'' @ [CHR 0x27] @ ''s attributes/types (the DDIF_FIELDINFO_GET analog).''),
     om_function_group = ''REST Framework'', om_package = Some ''FND'',
     om_parameters =
     [p_imp ''RESOURCE'' ''VARCHAR2(240)'' False ''Resource name, e.g. itemsV2'',
      p_imp_default ''MODE'' ''VARCHAR2(20)'' ''all'' ''describe mode (all / dataOnly)'',
      p_exp ''DESCRIBE'' ''STRUCT(describe-response)'' False ''Attribute + link metadata''],
     om_deprecated = False, om_read_only = True, om_commit_required = False,
     om_authorization =
       [priv_view ''FND_VIEW_REST_DESCRIBE_PRIV'' ''Integration Specialist''],
     om_erp_note = None\<rparr>"

definition op_ebs_commit :: erp_operation_meta where
  "op_ebs_commit =
    \<lparr>om_function = ''ebs.fnd.transaction.commit'',
     om_description =
       ''Commit the current EBS database transaction (FND_API p_commit / COMMIT).'',
     om_function_group = ''EBS Transaction Control'', om_package = Some ''FND'',
     om_parameters =
     [p_imp_default ''WAIT'' ''VARCHAR2(1)'' ''X'' ''If X, commit synchronously'',
      p_exp ''X_RETURN_STATUS'' ''VARCHAR2(1)'' False ''Status S/E/U'',
      p_exp ''X_MSG_COUNT'' ''NUMBER'' True ''Message count'',
      p_tab ''X_MSG_DATA'' ''STRUCT(FND_MSG)'' False ''FND_MSG_PUB message stack''],
     om_deprecated = False, om_read_only = False, om_commit_required = False,
     om_authorization =
       [priv_run ''FND_COMMIT_TRANSACTION_PRIV'' ''Application Developer''],
     om_erp_note = Some ''EBS-only. Fusion REST auto-commits per request; this is the on-prem two-phase finalize.''\<rparr>"

definition op_ebs_rollback :: erp_operation_meta where
  "op_ebs_rollback =
    \<lparr>om_function = ''ebs.fnd.transaction.rollback'',
     om_description =
       ''Roll back the current EBS database transaction (FND_API ROLLBACK).'',
     om_function_group = ''EBS Transaction Control'', om_package = Some ''FND'',
     om_parameters =
     [p_exp ''X_RETURN_STATUS'' ''VARCHAR2(1)'' False ''Status S/E/U'',
      p_exp ''X_MSG_COUNT'' ''NUMBER'' True ''Message count'',
      p_tab ''X_MSG_DATA'' ''STRUCT(FND_MSG)'' False ''FND_MSG_PUB message stack''],
     om_deprecated = False, om_read_only = False, om_commit_required = False,
     om_authorization =
       [priv_run ''FND_ROLLBACK_TRANSACTION_PRIV'' ''Application Developer''],
     om_erp_note = Some ''EBS-only rollback used by the write orchestrator on failure or an unconfirmed outcome.''\<rparr>"

definition seed_functions :: "erp_operation_meta list" where
  "seed_functions =
    [op_server_information,
     op_items_get,
     op_journal_post,
     op_journal_import,
     op_purchase_order_post,
     op_sales_order_post,
     op_receipt_post,
     op_supplier_patch,
     op_sandbox_publish,
     op_bip_run_report,
     op_rest_describe,
     op_ebs_commit,
     op_ebs_rollback]"

lemmas op_defs =
  op_server_information_def
  op_items_get_def
  op_journal_post_def
  op_journal_import_def
  op_purchase_order_post_def
  op_sales_order_post_def
  op_receipt_post_def
  op_supplier_patch_def
  op_sandbox_publish_def
  op_bip_run_report_def
  op_rest_describe_def
  op_ebs_commit_def
  op_ebs_rollback_def

subsection \<open>The tables\<close>

record mock_table =
  mt_structure :: table_structure
  mt_rows :: "json_map list"

definition fld_key :: "string \<Rightarrow> string \<Rightarrow> string \<Rightarrow> nat \<Rightarrow> string \<Rightarrow> table_field" where
  "fld_key name data_element ty len desc =
     \<lparr>tf_name = name, tf_data_element = data_element, tf_type_token = ty, tf_length = len,
      tf_description = Some desc, tf_is_key = True\<rparr>"

definition fld :: "string \<Rightarrow> string \<Rightarrow> string \<Rightarrow> nat \<Rightarrow> string \<Rightarrow> table_field" where
  "fld name data_element ty len desc =
     \<lparr>tf_name = name, tf_data_element = data_element, tf_type_token = ty, tf_length = len,
      tf_description = Some desc, tf_is_key = False\<rparr>"

definition table_row_of :: "(string \<times> string) list \<Rightarrow> json_map" where
  "table_row_of pairs = obj_of (map (\<lambda>(k, v). (k, JStr v)) pairs)"

definition tab_egp_system_items_b :: mock_table where
  "tab_egp_system_items_b =
    \<lparr>mt_structure =
      \<lparr>ts_table = ''EGP_SYSTEM_ITEMS_B'', ts_description = ''Product Hub item master (base)'',
       ts_fields =
       [fld_key ''INVENTORY_ITEM_ID'' ''NUMBER'' ''NUMBER'' 18 ''Item surrogate key'',
        fld_key ''ORGANIZATION_ID'' ''NUMBER'' ''NUMBER'' 18 ''Inventory organization id'',
        fld ''ITEM_NUMBER'' ''VARCHAR2'' ''VARCHAR2'' 300 (''Item number '' @ em_dash @ '' VARCHAR2(300) in Fusion''),
        fld ''ITEM_DESCRIPTION'' ''VARCHAR2'' ''VARCHAR2'' 240 ''Item description'',
        fld ''ITEM_CLASS'' ''VARCHAR2'' ''VARCHAR2'' 80 ''Item class (catalog)'',
        fld ''PRIMARY_UOM_CODE'' ''VARCHAR2'' ''VARCHAR2'' 3 ''Primary unit of measure'',
        fld ''ITEM_STATUS_CODE'' ''VARCHAR2'' ''VARCHAR2'' 10 ''Lifecycle status (Active/Inactive)'',
        fld ''CREATION_DATE'' ''DATE'' ''DATE'' 7 ''Created on'',
        fld ''CREATED_BY'' ''VARCHAR2'' ''VARCHAR2'' 64 ''Created by (user)''],
       ts_key_fields = [''INVENTORY_ITEM_ID'', ''ORGANIZATION_ID''],
       ts_authorization_group = ''EGP_ITEM_DATA'',
       ts_storage_note = None\<rparr>,
     mt_rows =
     [table_row_of
       [(''INVENTORY_ITEM_ID'', ''300100001''),
        (''ORGANIZATION_ID'', ''204''),
        (''ITEM_NUMBER'', ''GT-COMP-GPU-A100''),
        (''ITEM_DESCRIPTION'', ''GPU Compute Module A100''),
        (''ITEM_CLASS'', ''COMPONENT''),
        (''PRIMARY_UOM_CODE'', ''EA''),
        (''ITEM_STATUS_CODE'', ''Active''),
        (''CREATION_DATE'', ''2024-09-01''),
        (''CREATED_BY'', ''GT_DEV'')],
      table_row_of
       [(''INVENTORY_ITEM_ID'', ''300100002''),
        (''ORGANIZATION_ID'', ''204''),
        (''ITEM_NUMBER'', ''GT-FG-EDGE-NODE''),
        (''ITEM_DESCRIPTION'', ''Gaussian Edge Node (finished good)''),
        (''ITEM_CLASS'', ''FINISHED_GOOD''),
        (''PRIMARY_UOM_CODE'', ''EA''),
        (''ITEM_STATUS_CODE'', ''Active''),
        (''CREATION_DATE'', ''2024-09-15''),
        (''CREATED_BY'', ''GT_DEV'')],
      table_row_of
       [(''INVENTORY_ITEM_ID'', ''300100003''),
        (''ORGANIZATION_ID'', ''207''),
        (''ITEM_NUMBER'', ''GT-TRADE-SENSOR-KIT''),
        (''ITEM_DESCRIPTION'', ''IoT Sensor Kit (trade)''),
        (''ITEM_CLASS'', ''TRADE_GOOD''),
        (''PRIMARY_UOM_CODE'', ''EA''),
        (''ITEM_STATUS_CODE'', ''Active''),
        (''CREATION_DATE'', ''2025-10-01''),
        (''CREATED_BY'', ''GT_DEV'')]]\<rparr>"

definition tab_gl_ledgers :: mock_table where
  "tab_gl_ledgers =
    \<lparr>mt_structure =
      \<lparr>ts_table = ''GL_LEDGERS'', ts_description = ''General Ledger ledgers'',
       ts_fields =
       [fld_key ''LEDGER_ID'' ''NUMBER'' ''NUMBER'' 18 ''Ledger surrogate key'',
        fld ''NAME'' ''VARCHAR2'' ''VARCHAR2'' 30 ''Ledger name'',
        fld ''CURRENCY_CODE'' ''VARCHAR2'' ''VARCHAR2'' 15 ''Ledger currency (ISO 4217)'',
        fld ''CHART_OF_ACCOUNTS_ID'' ''NUMBER'' ''NUMBER'' 18 ''Chart of accounts (key flexfield structure)'',
        fld ''PERIOD_SET_NAME'' ''VARCHAR2'' ''VARCHAR2'' 15 ''Accounting calendar'',
        fld ''LEDGER_CATEGORY_CODE'' ''VARCHAR2'' ''VARCHAR2'' 30 ''PRIMARY / SECONDARY / ALC'',
        fld ''LEGAL_ENTITY_ID'' ''NUMBER'' ''NUMBER'' 18 ''Default legal entity (XLE_ENTITY_PROFILES)''],
       ts_key_fields = [''LEDGER_ID''],
       ts_authorization_group = ''GL_LEDGER_DATA'',
       ts_storage_note = Some ''Company-code analog. Company code maps onto Ledger + Legal Entity; data access is scoped by Data Access Set, not a tenant client.''\<rparr>,
     mt_rows =
     [table_row_of
       [(''LEDGER_ID'', ''300100001''),
        (''NAME'', ''Gaussian Technologies Primary Ledger''),
        (''CURRENCY_CODE'', ''IDR''),
        (''CHART_OF_ACCOUNTS_ID'', ''101''),
        (''PERIOD_SET_NAME'', ''GAUSSIAN_FISCAL''),
        (''LEDGER_CATEGORY_CODE'', ''PRIMARY''),
        (''LEGAL_ENTITY_ID'', ''500001'')],
      table_row_of
       [(''LEDGER_ID'', ''300100002''),
        (''NAME'', ''Gaussian Technologies USD Reporting''),
        (''CURRENCY_CODE'', ''USD''),
        (''CHART_OF_ACCOUNTS_ID'', ''101''),
        (''PERIOD_SET_NAME'', ''GAUSSIAN_FISCAL''),
        (''LEDGER_CATEGORY_CODE'', ''ALC''),
        (''LEGAL_ENTITY_ID'', ''500001'')]]\<rparr>"

definition tab_gl_period_statuses :: mock_table where
  "tab_gl_period_statuses =
    \<lparr>mt_structure =
      \<lparr>ts_table = ''GL_PERIOD_STATUSES'', ts_description = ''Accounting period open/close status per ledger + application'',
       ts_fields =
       [fld_key ''LEDGER_ID'' ''NUMBER'' ''NUMBER'' 18 ''Ledger'',
        fld_key ''APPLICATION_ID'' ''NUMBER'' ''NUMBER'' 18 ''Owning application (101 = GL)'',
        fld_key ''PERIOD_NAME'' ''VARCHAR2'' ''VARCHAR2'' 15 ''Period name, e.g. MAR-26'',
        fld ''CLOSING_STATUS'' ''VARCHAR2'' ''VARCHAR2'' 1 ''O=Open, C=Closed, P=Permanently closed, F=Future, N=Never opened'',
        fld ''PERIOD_YEAR'' ''NUMBER'' ''NUMBER'' 15 ''Fiscal year'',
        fld ''PERIOD_NUM'' ''NUMBER'' ''NUMBER'' 15 ''Period number within the year'',
        fld ''START_DATE'' ''DATE'' ''DATE'' 7 ''Period start'',
        fld ''END_DATE'' ''DATE'' ''DATE'' 7 ''Period end''],
       ts_key_fields = [''LEDGER_ID'', ''APPLICATION_ID'', ''PERIOD_NAME''],
       ts_authorization_group = ''GL_PERIOD_DATA'',
       ts_storage_note = Some (''Managed via '' @ [CHR 0x27] @ ''Manage Accounting Periods'' @ [CHR 0x27] @ ''. CLOSING_STATUS drives whether a journal can post '' @ em_dash @ '' the posting-period gate.'')\<rparr>,
     mt_rows =
     [table_row_of
       [(''LEDGER_ID'', ''300100001''),
        (''APPLICATION_ID'', ''101''),
        (''PERIOD_NAME'', ''MAR-26''),
        (''CLOSING_STATUS'', ''C''),
        (''PERIOD_YEAR'', ''2026''),
        (''PERIOD_NUM'', ''3''),
        (''START_DATE'', ''2026-03-01''),
        (''END_DATE'', ''2026-03-31'')],
      table_row_of
       [(''LEDGER_ID'', ''300100001''),
        (''APPLICATION_ID'', ''101''),
        (''PERIOD_NAME'', ''APR-26''),
        (''CLOSING_STATUS'', ''O''),
        (''PERIOD_YEAR'', ''2026''),
        (''PERIOD_NUM'', ''4''),
        (''START_DATE'', ''2026-04-01''),
        (''END_DATE'', ''2026-04-30'')]]\<rparr>"

definition tab_gl_je_lines :: mock_table where
  "tab_gl_je_lines =
    \<lparr>mt_structure =
      \<lparr>ts_table = ''GL_JE_LINES'', ts_description = ''General Ledger journal entry lines'',
       ts_fields =
       [fld_key ''JE_HEADER_ID'' ''NUMBER'' ''NUMBER'' 18 ''Journal header id'',
        fld_key ''JE_LINE_NUM'' ''NUMBER'' ''NUMBER'' 18 ''Journal line number'',
        fld ''LEDGER_ID'' ''NUMBER'' ''NUMBER'' 18 ''Ledger'',
        fld ''CODE_COMBINATION_ID'' ''NUMBER'' ''NUMBER'' 18 ''Account (GL_CODE_COMBINATIONS key flexfield)'',
        fld ''PERIOD_NAME'' ''VARCHAR2'' ''VARCHAR2'' 15 ''Accounting period'',
        fld ''EFFECTIVE_DATE'' ''DATE'' ''DATE'' 7 ''Accounting date'',
        fld ''ENTERED_DR'' ''NUMBER'' ''NUMBER'' 38 ''Entered debit (txn currency)'',
        fld ''ENTERED_CR'' ''NUMBER'' ''NUMBER'' 38 ''Entered credit (txn currency)'',
        fld ''ACCOUNTED_DR'' ''NUMBER'' ''NUMBER'' 38 ''Accounted debit (ledger currency)'',
        fld ''ACCOUNTED_CR'' ''NUMBER'' ''NUMBER'' 38 ''Accounted credit (ledger currency)'',
        fld ''CURRENCY_CODE'' ''VARCHAR2'' ''VARCHAR2'' 15 ''Transaction currency''],
       ts_key_fields = [''JE_HEADER_ID'', ''JE_LINE_NUM''],
       ts_authorization_group = ''GL_JOURNAL_DATA'',
       ts_storage_note = Some (''The GL leg of Oracle'' @ [CHR 0x27] @ ''s accounting backbone (the GL accounting backbone). Oracle has NO single universal journal: GL_JE_LINES holds GL detail while subledger detail lives in XLA_AE_LINES and balances in GL_BALANCES.'')\<rparr>,
     mt_rows =
     [table_row_of
       [(''JE_HEADER_ID'', ''700100123''),
        (''JE_LINE_NUM'', ''1''),
        (''LEDGER_ID'', ''300100001''),
        (''CODE_COMBINATION_ID'', ''12345''),
        (''PERIOD_NAME'', ''MAR-26''),
        (''EFFECTIVE_DATE'', ''2026-03-15''),
        (''ENTERED_DR'', ''22500000''),
        (''ENTERED_CR'', ''0''),
        (''ACCOUNTED_DR'', ''22500000''),
        (''ACCOUNTED_CR'', ''0''),
        (''CURRENCY_CODE'', ''IDR'')],
      table_row_of
       [(''JE_HEADER_ID'', ''700100123''),
        (''JE_LINE_NUM'', ''2''),
        (''LEDGER_ID'', ''300100001''),
        (''CODE_COMBINATION_ID'', ''12399''),
        (''PERIOD_NAME'', ''MAR-26''),
        (''EFFECTIVE_DATE'', ''2026-03-15''),
        (''ENTERED_DR'', ''0''),
        (''ENTERED_CR'', ''22500000''),
        (''ACCOUNTED_DR'', ''0''),
        (''ACCOUNTED_CR'', ''22500000''),
        (''CURRENCY_CODE'', ''IDR'')]]\<rparr>"

definition tab_xla_ae_lines :: mock_table where
  "tab_xla_ae_lines =
    \<lparr>mt_structure =
      \<lparr>ts_table = ''XLA_AE_LINES'', ts_description = ''Subledger Accounting (SLA) accounting entry lines'',
       ts_fields =
       [fld_key ''AE_HEADER_ID'' ''NUMBER'' ''NUMBER'' 18 ''Subledger accounting header id'',
        fld_key ''AE_LINE_NUM'' ''NUMBER'' ''NUMBER'' 18 ''Accounting line number'',
        fld ''LEDGER_ID'' ''NUMBER'' ''NUMBER'' 18 ''Ledger'',
        fld ''CODE_COMBINATION_ID'' ''NUMBER'' ''NUMBER'' 18 ''Account'',
        fld ''ACCOUNTING_CLASS_CODE'' ''VARCHAR2'' ''VARCHAR2'' 30 ''Accounting class (e.g. ITEM_EXPENSE, LIABILITY)'',
        fld ''ENTERED_DR'' ''NUMBER'' ''NUMBER'' 38 ''Entered debit'',
        fld ''ENTERED_CR'' ''NUMBER'' ''NUMBER'' 38 ''Entered credit'',
        fld ''ACCOUNTED_DR'' ''NUMBER'' ''NUMBER'' 38 ''Accounted debit'',
        fld ''ACCOUNTED_CR'' ''NUMBER'' ''NUMBER'' 38 ''Accounted credit'',
        fld ''CURRENCY_CODE'' ''VARCHAR2'' ''VARCHAR2'' 15 ''Currency'',
        fld ''GL_TRANSFER_STATUS_CODE'' ''VARCHAR2'' ''VARCHAR2'' 1 (''Y/N/NT '' @ em_dash @ '' transferred to GL?'')],
       ts_key_fields = [''AE_HEADER_ID'', ''AE_LINE_NUM''],
       ts_authorization_group = ''XLA_JOURNAL_DATA'',
       ts_storage_note = Some (''Subledger detail (AP/AR/Costing/etc.). The '' @ [CHR 0x27] @ ''Create Accounting'' @ [CHR 0x27] @ '' and '' @ [CHR 0x27] @ ''Transfer to GL'' @ [CHR 0x27] @ '' (Transfer Journal Entries to GL) programs roll XLA_AE_LINES up into GL_JE_LINES '' @ em_dash @ '' Oracle'' @ [CHR 0x27] @ ''s two-tier accounting in place of a single universal journal.'')\<rparr>,
     mt_rows =
     [table_row_of
       [(''AE_HEADER_ID'', ''900100050''),
        (''AE_LINE_NUM'', ''1''),
        (''LEDGER_ID'', ''300100001''),
        (''CODE_COMBINATION_ID'', ''12345''),
        (''ACCOUNTING_CLASS_CODE'', ''ITEM_EXPENSE''),
        (''ENTERED_DR'', ''22500000''),
        (''ENTERED_CR'', ''0''),
        (''ACCOUNTED_DR'', ''22500000''),
        (''ACCOUNTED_CR'', ''0''),
        (''CURRENCY_CODE'', ''IDR''),
        (''GL_TRANSFER_STATUS_CODE'', ''Y'')]]\<rparr>"

definition tab_doo_headers_all :: mock_table where
  "tab_doo_headers_all =
    \<lparr>mt_structure =
      \<lparr>ts_table = ''DOO_HEADERS_ALL'', ts_description = ''Order Management: order header'',
       ts_fields =
       [fld_key ''HEADER_ID'' ''NUMBER'' ''NUMBER'' 18 ''Order header id'',
        fld ''ORDER_NUMBER'' ''VARCHAR2'' ''VARCHAR2'' 50 ''Order number'',
        fld ''BUYING_PARTY_ID'' ''NUMBER'' ''NUMBER'' 18 ''Sold-to TCA party'',
        fld ''TRANSACTIONAL_CURR_CODE'' ''VARCHAR2'' ''VARCHAR2'' 15 ''Order currency'',
        fld ''ORDERED_DATE'' ''DATE'' ''DATE'' 7 ''Order date'',
        fld ''STATUS_CODE'' ''VARCHAR2'' ''VARCHAR2'' 30 ''Order status'',
        fld ''BUSINESS_UNIT_ID'' ''NUMBER'' ''NUMBER'' 18 ''Owning business unit'',
        fld ''TOTAL_AMOUNT'' ''NUMBER'' ''NUMBER'' 38 ''Order net amount''],
       ts_key_fields = [''HEADER_ID''],
       ts_authorization_group = ''DOO_ORDER_DATA'',
       ts_storage_note = Some ''Fusion Order Management. Data access is scoped by Business Unit (BUSINESS_UNIT_ID), the Business-Unit scoping model.''\<rparr>,
     mt_rows =
     [table_row_of
       [(''HEADER_ID'', ''400100501''),
        (''ORDER_NUMBER'', ''GT-SO-5001''),
        (''BUYING_PARTY_ID'', ''600100''),
        (''TRANSACTIONAL_CURR_CODE'', ''IDR''),
        (''ORDERED_DATE'', ''2026-01-12''),
        (''STATUS_CODE'', ''OPEN''),
        (''BUSINESS_UNIT_ID'', ''204''),
        (''TOTAL_AMOUNT'', ''187500000'')],
      table_row_of
       [(''HEADER_ID'', ''400100502''),
        (''ORDER_NUMBER'', ''GT-SO-5002''),
        (''BUYING_PARTY_ID'', ''600100''),
        (''TRANSACTIONAL_CURR_CODE'', ''IDR''),
        (''ORDERED_DATE'', ''2026-01-15''),
        (''STATUS_CODE'', ''CLOSED''),
        (''BUSINESS_UNIT_ID'', ''204''),
        (''TOTAL_AMOUNT'', ''134850000'')],
      table_row_of
       [(''HEADER_ID'', ''400100503''),
        (''ORDER_NUMBER'', ''GT-SO-5003''),
        (''BUYING_PARTY_ID'', ''600200''),
        (''TRANSACTIONAL_CURR_CODE'', ''USD''),
        (''ORDERED_DATE'', ''2026-01-20''),
        (''STATUS_CODE'', ''OPEN''),
        (''BUSINESS_UNIT_ID'', ''207''),
        (''TOTAL_AMOUNT'', ''45000'')]]\<rparr>"

definition tab_fnd_sandboxes :: mock_table where
  "tab_fnd_sandboxes =
    \<lparr>mt_structure =
      \<lparr>ts_table = ''FND_SANDBOXES'', ts_description = ''Configuration sandboxes (change-promotion unit; change-promotion unit)'',
       ts_fields =
       [fld_key ''SANDBOX_ID'' ''NUMBER'' ''NUMBER'' 18 ''Sandbox id'',
        fld ''SANDBOX_NAME'' ''VARCHAR2'' ''VARCHAR2'' 80 ''Sandbox name'',
        fld ''STATUS'' ''VARCHAR2'' ''VARCHAR2'' 30 ''ACTIVE / PUBLISHED / DELETED'',
        fld ''CREATED_BY'' ''VARCHAR2'' ''VARCHAR2'' 64 ''Owner'',
        fld ''CREATION_DATE'' ''DATE'' ''DATE'' 7 ''Created on'',
        fld ''PUBLISH_TARGET'' ''VARCHAR2'' ''VARCHAR2'' 30 ''MAINLINE / target pod for config-package promotion''],
       ts_key_fields = [''SANDBOX_ID''],
       ts_authorization_group = ''FND_SANDBOX_DATA'',
       ts_storage_note = Some (''Oracle'' @ [CHR 0x27] @ ''s change-promotion unit. Publishing merges to MAINLINE; cross-pod promotion uses FSM Configuration Packages. This is the change-promotion unit.'')\<rparr>,
     mt_rows =
     [table_row_of
       [(''SANDBOX_ID'', ''800100001''),
        (''SANDBOX_NAME'', ''GT_AR_AUTOINVOICE_FIX''),
        (''STATUS'', ''ACTIVE''),
        (''CREATED_BY'', ''GT_DEV''),
        (''CREATION_DATE'', ''2026-03-18''),
        (''PUBLISH_TARGET'', ''MAINLINE'')]]\<rparr>"

definition seed_tables :: "mock_table list" where
  "seed_tables =
    [tab_egp_system_items_b,
     tab_gl_ledgers,
     tab_gl_period_statuses,
     tab_gl_je_lines,
     tab_xla_ae_lines,
     tab_doo_headers_all,
     tab_fnd_sandboxes]"

lemmas tab_defs =
  tab_egp_system_items_b_def
  tab_gl_ledgers_def
  tab_gl_period_statuses_def
  tab_gl_je_lines_def
  tab_xla_ae_lines_def
  tab_doo_headers_all_def
  tab_fnd_sandboxes_def

subsection \<open>What every entry promises\<close>

definition declares_param :: "param_direction \<Rightarrow> string \<Rightarrow> erp_operation_meta \<Rightarrow> bool" where
  "declares_param d n f = list_ex (\<lambda>p. ep_direction p = d \<and> ep_name p = n) (om_parameters f)"

definition write_contract :: "erp_operation_meta \<Rightarrow> bool" where
  "write_contract f \<longleftrightarrow>
     (om_read_only f
      \<or> (declares_param Export_Param ''X_RETURN_STATUS'' f
         \<and> declares_param Tables_Param ''X_MSG_DATA'' f
         \<and> (om_commit_required f \<longleftrightarrow> om_function_group f = ''ERP Integration Service'')))
     \<and> om_authorization f \<noteq> []
     \<and> list_all (\<lambda>p. rp_privilege p \<noteq> [] \<and> rp_duty_role p \<noteq> []) (om_authorization f)"

definition table_contract :: "mock_table \<Rightarrow> bool" where
  "table_contract t \<longleftrightarrow>
     (case ts_key_fields (mt_structure t) of
        [] \<Rightarrow> False
      | k # _ \<Rightarrow> ends_with k ''_ID''
          \<and> list_ex (\<lambda>f. tf_name f = k \<and> tf_is_key f) (ts_fields (mt_structure t)))
     \<and> list_all (\<lambda>r. length r = length (ts_fields (mt_structure t))
          \<and> list_all (\<lambda>f. obj_contains r (tf_name f)) (ts_fields (mt_structure t))) (mt_rows t)"

text \<open>Every write operation of the catalogue returns the FND contract (a status and a message
  table), only the bulk family needs a later import to persist, every operation names the
  privileges it requires, and no two operations share a name.\<close>

lemma catalog_write_contract:
  "list_all write_contract seed_functions \<and> distinct (map om_function seed_functions)"
  by code_simp

text \<open>Every table of the catalogue is keyed by a declared key column whose name ends in \<open>_ID\<close>, and
  every one of its rows has a value for exactly the declared columns.\<close>

lemma catalog_tables_keyed:
  "list_all table_contract seed_tables
     \<and> distinct (map (\<lambda>t. ts_table (mt_structure t)) seed_tables)"
  by code_simp

end
