(* ===== verification/Erp_Client.thy ===== *)
theory Erp_Client
  imports Erp_Catalog
begin

text \<open>
  The client interface and the offline mock client (\<open>crates/oracle-automate-erp/src/client.rs\<close>):
  the operations of the trait on a state, the contract its callers rely on (\<open>erp_backend\<close>), and
  \<open>MockErpClient\<close>, whose maps are seeded from the catalogue and never change. Acquiring a pool
  permit only delays a call (theory \<open>Pool\<close>), so it does not appear in the results. The rendering
  of a JSON value as text is \<open>serde_json\<close>'s, a parameter (\<open>disp\<close>) of the two operations that use
  it; the iteration order of the hash map, which decides the order of equally ranked search hits,
  is the argument \<open>order\<close> of the search.
\<close>

record mock_client =
  mc_functions :: "string \<rightharpoonup> erp_operation_meta"
  mc_tables :: "string \<rightharpoonup> mock_table"
  mc_identity :: json

definition mock_new :: "json \<Rightarrow> mock_client" where
  "mock_new identity =
     \<lparr>mc_functions = foldl (\<lambda>m f. m(om_function f \<mapsto> f)) Map.empty seed_functions,
      mc_tables = foldl (\<lambda>m t. m(ts_table (mt_structure t) \<mapsto> t)) Map.empty seed_tables,
      mc_identity = identity\<rparr>"

definition mock_system_info :: "mock_client \<Rightarrow> system_info erp_result" where
  "mock_system_info mc = Ok
     \<lparr>si_sid = ''GAUSSIAN-FA-DEV'', si_client = ''GAUSSIAN_PRIMARY_LEDGER'',
      si_release = ''Oracle Fusion Cloud ERP 24D (11.13.24.10.0) (mock)'',
      si_system_role = ''DEV'', si_host = ''gaussian-dev.fa.ocs.oraclecloud.com'',
      si_instance = ''fa-edpb'', si_identity = mc_identity mc\<rparr>"

subsection \<open>Searching operations\<close>

definition search_score :: "string list \<Rightarrow> erp_operation_meta \<Rightarrow> nat" where
  "search_score terms f =
     (let hay = to_lowercase (om_function f) @ '' '' @ to_lowercase (om_description f)
                @ '' '' @ to_lowercase (om_function_group f)
      in sum_list (map (count_matches hay) terms))"

definition summary_of :: "nat \<Rightarrow> erp_operation_meta \<Rightarrow> operation_summary" where
  "summary_of score f =
     \<lparr>os_function = om_function f, os_description = om_description f,
      os_function_group = om_function_group f, os_read_only = om_read_only f, os_score = score\<rparr>"

definition mock_search_operations ::
  "erp_operation_meta list \<Rightarrow> string \<Rightarrow> nat \<Rightarrow> search_result erp_result" where
  "mock_search_operations order query limit =
     (let terms = split_whitespace (to_lowercase query);
          hits = List.map_filter (\<lambda>f.
            let score = search_score terms f in
            if score = 0 then None else Some (summary_of score f)) order;
          sorted = sort_key (\<lambda>h. - int (os_score h)) hits
      in Ok \<lparr>sr_query = query, sr_hits = take (max limit 1) sorted\<rparr>)"

subsection \<open>Metadata\<close>

definition mock_operation_metadata ::
  "mock_client \<Rightarrow> string \<Rightarrow> string \<Rightarrow> erp_operation_meta erp_result" where
  "mock_operation_metadata mc function language =
     (case mc_functions mc function of Some m \<Rightarrow> Ok m | None \<Rightarrow> Err (ErpNotFound function))"

definition mock_bulk_metadata ::
  "mock_client \<Rightarrow> string list \<Rightarrow> string \<Rightarrow> bulk_metadata erp_result" where
  "mock_bulk_metadata mc functions language = Ok
     \<lparr>bm_language = language, bm_functions = List.map_filter (mc_functions mc) functions,
      bm_missing = filter (\<lambda>f. mc_functions mc f = None) functions\<rparr>"

subsection \<open>Calling operations\<close>

text \<open>The first required import parameter that is not given.\<close>

fun missing_param :: "json_map \<Rightarrow> erp_parameter list \<Rightarrow> erp_parameter option" where
  "missing_param args [] = None"
| "missing_param args (p # ps) =
     (if ep_direction p = Import_Param \<and> \<not> ep_optional p \<and> \<not> obj_contains args (ep_name p)
      then Some p else missing_param args ps)"

definition mock_outputs :: "erp_operation_meta \<Rightarrow> json_map \<Rightarrow> json" where
  "mock_outputs meta args =
     JObj (foldl (\<lambda>out p. if ep_direction p = Export_Param
                          then obj_insert (ep_name p)
                                 (JStr (''<mock '' @ ep_type_token p @ ''>'')) out
                          else out) [] (om_parameters meta))"

definition mock_call_operation ::
  "(json \<Rightarrow> string) \<Rightarrow> mock_client \<Rightarrow> erp_call_request \<Rightarrow> bool \<Rightarrow> json erp_result" where
  "mock_call_operation disp mc request read_only_mode =
     (case mc_functions mc (cr_function request) of
        None \<Rightarrow> Err (ErpNotFound (cr_function request))
      | Some meta \<Rightarrow>
          if read_only_mode \<and> \<not> om_read_only meta then
            Err (ErpPermissionDenied (''function '' @ [CHR 0x27] @ cr_function request @ [CHR 0x27]
              @ '' modifies state; not callable in read-only mode''))
          else
            and_then
              (case cr_parameters request of
                 JObj m \<Rightarrow> Ok m
               | JNull \<Rightarrow> Ok []
               | other \<Rightarrow> Err (ErpInvalidParameter ''parameters''
                                 (''expected object, got '' @ disp other)))
              (\<lambda>args.
                 case missing_param args (om_parameters meta) of
                   Some p \<Rightarrow> Err (ErpInvalidParameter (ep_name p)
                                    ''required import parameter missing'')
                 | None \<Rightarrow> Ok (json_obj
                     [(''function'', JStr (cr_function request)),
                      (''executed_on'', JStr ''mock.fa.oraclecloud.com''),
                      (''inputs'', JObj args),
                      (''outputs'', mock_outputs meta args)])))"

subsection \<open>Reading tables\<close>

type_synonym condition = "string \<times> string \<times> string"

definition parse_condition :: "string \<Rightarrow> condition erp_result" where
  "parse_condition s =
     (let trimmed = trim s in
      case find_str (to_uppercase trimmed) '' LIKE '' of
        Some idx \<Rightarrow>
          Ok (trim (take idx trimmed), ''LIKE'',
              trim_char (CHR 0x27) (trim (drop (idx + 6) trimmed)))
      | None \<Rightarrow>
          (case find_char trimmed (CHR ''='') of
             Some idx \<Rightarrow>
               Ok (trim (take idx trimmed), ''='',
                   trim_char (CHR 0x27) (trim (drop (idx + 1) trimmed)))
           | None \<Rightarrow>
               Err (ErpInvalidParameter ''where_conditions''
                 (''unsupported clause '' @ [CHR 0x27] @ s @ [CHR 0x27] @ '' (expected FIELD = ''
                  @ [CHR 0x27] @ ''value'' @ [CHR 0x27] @ '' or FIELD LIKE '' @ [CHR 0x27]
                  @ ''pattern'' @ [CHR 0x27] @ '')''))))"

fun parse_conditions :: "string list \<Rightarrow> condition list erp_result" where
  "parse_conditions [] = Ok []"
| "parse_conditions (s # raw) =
     and_then (parse_condition s) (\<lambda>c. and_then (parse_conditions raw) (\<lambda>cs. Ok (c # cs)))"

text \<open>\<open>sql_like\<close>: the pattern is turned into the text of a regular expression, whose anchors and
  escapes are then removed again, and only the shapes \<open>.*x.*\<close>, \<open>.*x\<close>, \<open>x.*\<close> are interpreted.\<close>

definition like_special :: string where
  "like_special = [CHR 0x5C, CHR ''.'', CHR ''+'', CHR ''?'', CHR ''^'', CHR ''$'', CHR ''{'',
     CHR ''}'', CHR ''('', CHR '')'', CHR ''|'', CHR ''['', CHR '']'']"

definition like_char :: "char \<Rightarrow> string" where
  "like_char c =
     (if c = CHR ''%'' then ''.*''
      else if c = CHR ''_'' then ''.''
      else if c \<in> set like_special then [CHR 0x5C, c]
      else [c])"

definition sql_like :: "string \<Rightarrow> string \<Rightarrow> bool" where
  "sql_like haystack pattern =
     (let h = to_lowercase haystack; p = to_lowercase pattern;
          re = ''^'' @ concat (map like_char p) @ ''$'' in
      if CHR ''%'' \<notin> set p \<and> CHR ''_'' \<notin> set p then h = p
      else
        (let stripped = filter (\<lambda>c. c \<notin> {CHR ''^'', CHR ''$'', CHR 0x5C}) re in
         case strip_prefix stripped ''.*'' of
           Some rest \<Rightarrow> contains_str h (unwrap_or (strip_suffix rest ''.*'') rest)
         | None \<Rightarrow>
             (case strip_suffix stripped ''.*'' of
                Some pre \<Rightarrow> starts_with h pre
              | None \<Rightarrow> h = stripped)))"

text \<open>The first entry of a row whose name matches, ignoring case.\<close>

definition row_entry :: "json_map \<Rightarrow> string \<Rightarrow> (string \<times> json) option" where
  "row_entry row field = find (\<lambda>kv. eq_ignore_ascii_case (fst kv) field) row"

definition match_row ::
  "(json \<Rightarrow> string) \<Rightarrow> json_map \<Rightarrow> string \<Rightarrow> string \<Rightarrow> string \<Rightarrow> bool" where
  "match_row disp row field op value =
     (let actual = (case row_entry row field of
                      Some (_, JStr s) \<Rightarrow> s
                    | Some (_, other) \<Rightarrow> disp other
                    | None \<Rightarrow> []) in
      if op = ''='' then eq_ignore_ascii_case actual value
      else if op = ''LIKE'' then sql_like actual value
      else False)"

definition project_row :: "string list \<Rightarrow> json_map \<Rightarrow> table_row" where
  "project_row projection row = obj_of (List.map_filter (row_entry row) projection)"

text \<open>The scan over the rows, which stops when enough have been collected.\<close>

fun scan_rows ::
  "(json_map \<Rightarrow> bool) \<Rightarrow> (json_map \<Rightarrow> table_row) \<Rightarrow> nat \<Rightarrow> table_row list \<Rightarrow> json_map list
     \<Rightarrow> table_row list" where
  "scan_rows keep proj max_rows rows [] = rows"
| "scan_rows keep proj max_rows rows (row # rest) =
     (if keep row then
        (let rows' = rows @ [proj row] in
         if max_rows \<le> length rows' then rows' else scan_rows keep proj max_rows rows' rest)
      else scan_rows keep proj max_rows rows rest)"

definition unknown_field :: "table_structure \<Rightarrow> string list \<Rightarrow> string option" where
  "unknown_field st cols =
     find (\<lambda>f. \<not> list_ex (\<lambda>tf. eq_ignore_ascii_case (tf_name tf) f) (ts_fields st)) cols"

text \<open>The client column of a table, when its first column is one.\<close>

definition client_field :: "table_structure \<Rightarrow> string option" where
  "client_field st =
     (case ts_fields st of
        [] \<Rightarrow> None
      | f # _ \<Rightarrow>
          if (tf_name f = ''the ledger/BU scope'' \<or> tf_name f = ''RCLNT'')
             \<and> tf_type_token f = ''CLNT''
          then Some (tf_name f) else None)"

definition scope_conditions ::
  "json \<Rightarrow> table_structure \<Rightarrow> condition list \<Rightarrow> condition list" where
  "scope_conditions identity st conditions =
     (case client_field st of
        None \<Rightarrow> conditions
      | Some field \<Rightarrow>
          if list_ex (\<lambda>(f, _, _). eq_ignore_ascii_case f field) conditions then conditions
          else conditions @ [(field, ''='', unwrap_or (get_str identity ''client'') ''100'')])"

definition mock_read_table ::
  "(json \<Rightarrow> string) \<Rightarrow> mock_client \<Rightarrow> read_table_request \<Rightarrow> table_row list erp_result" where
  "mock_read_table disp mc request =
     (if rt_max_rows request = 0 then
        Err (ErpInvalidParameter ''max_rows'' ''must be >= 1'')
      else if MAX_ROWS_HARD_CAP < rt_max_rows request then
        Err (ErpTableBufferOverflow (rt_table request) (rt_max_rows request))
      else
        (case mc_tables mc (rt_table request) of
           None \<Rightarrow> Err (ErpNotFound (rt_table request))
         | Some table \<Rightarrow>
             (let st = mt_structure table in
              and_then
                (if rt_fields request = [] then Ok (map tf_name (ts_fields st))
                 else (case unknown_field st (rt_fields request) of
                         Some f \<Rightarrow> Err (ErpInvalidParameter ''fields''
                           (''unknown field '' @ [CHR 0x27] @ f @ [CHR 0x27]))
                       | None \<Rightarrow> Ok (rt_fields request)))
                (\<lambda>projection.
                   and_then (parse_conditions (rt_where_conditions request)) (\<lambda>raw.
                     let conditions = scope_conditions (mc_identity mc) st raw in
                     Ok (scan_rows
                           (\<lambda>row. list_all (\<lambda>(f, op, v). match_row disp row f op v) conditions)
                           (project_row projection) (rt_max_rows request) [] (mt_rows table)))))))"

definition mock_table_structure :: "mock_client \<Rightarrow> string \<Rightarrow> table_structure erp_result" where
  "mock_table_structure mc table =
     (case mc_tables mc table of
        Some t \<Rightarrow> Ok (mt_structure t) | None \<Rightarrow> Err (ErpNotFound table))"

subsection \<open>The read-only gate and the required parameters\<close>

definition required_given :: "json_map \<Rightarrow> erp_parameter list \<Rightarrow> bool" where
  "required_given args ps = list_all (\<lambda>p. ep_direction p = Import_Param \<and> \<not> ep_optional p
       \<longrightarrow> obj_contains args (ep_name p)) ps"

definition call_allowed :: "mock_client \<Rightarrow> erp_call_request \<Rightarrow> bool \<Rightarrow> bool" where
  "call_allowed mc request ro \<longleftrightarrow>
     (case (mc_functions mc (cr_function request), cr_parameters request) of
        (Some meta, JObj args) \<Rightarrow> (ro \<longrightarrow> om_read_only meta)
          \<and> required_given args (om_parameters meta)
      | (Some meta, JNull) \<Rightarrow> (ro \<longrightarrow> om_read_only meta) \<and> required_given [] (om_parameters meta)
      | _ \<Rightarrow> False)"

lemma missing_param_None:
  "missing_param args ps = None \<longleftrightarrow> required_given args ps"
  by (induction ps) (auto simp: required_given_def)

text \<open>The mock client answers a call exactly when the operation exists, is read-only if the client
  is in read-only mode, the parameters are an object (or null), and every required import
  parameter is among them; otherwise the call is an error.\<close>

lemma mock_call_succeeds_iff:
  "is_ok (mock_call_operation disp mc request ro) = call_allowed mc request ro"
proof (cases "mc_functions mc (cr_function request)")
  case None
  then show ?thesis by (simp add: mock_call_operation_def call_allowed_def)
next
  case (Some meta)
  show ?thesis
  proof (cases "ro \<and> \<not> om_read_only meta")
    case True
    with Some show ?thesis
      by (auto simp: mock_call_operation_def call_allowed_def split: json.splits)
  next
    case False
    with Some show ?thesis
      by (cases "cr_parameters request")
         (auto simp: mock_call_operation_def call_allowed_def simp flip: missing_param_None
           split: option.splits)
  qed
qed

text \<open>No operation that modifies state is callable in read-only mode.\<close>

lemma mock_call_read_only:
  "mock_call_operation disp mc request True = Ok v \<Longrightarrow>
     \<exists>m. mc_functions mc (cr_function request) = Some m \<and> om_read_only m"
  by (auto simp: mock_call_operation_def split: option.splits if_splits)

subsection \<open>Bounded, projected and scoped table reads\<close>

lemma scan_rows_eq:
  "length rows < n \<Longrightarrow>
     scan_rows keep proj n rows rest
       = rows @ take (n - length rows) (map proj (filter keep rest))"
proof (induction rest arbitrary: rows)
  case (Cons row rest)
  have "n - length rows = Suc (n - Suc (length rows))" using Cons.prems by simp
  then show ?case using Cons by (auto simp: Let_def)
qed simp

lemma mock_read_table_Ok:
  assumes "mock_read_table disp mc request = Ok rows"
  obtains table projection raw where
    "mc_tables mc (rt_table request) = Some table"
    "parse_conditions (rt_where_conditions request) = Ok raw"
    "0 < rt_max_rows request" "rt_max_rows request \<le> MAX_ROWS_HARD_CAP"
    "projection = (if rt_fields request = [] then map tf_name (ts_fields (mt_structure table))
                   else rt_fields request)"
    "rows = take (rt_max_rows request) (map (project_row projection)
       (filter (\<lambda>row. list_all (\<lambda>(f, op, v). match_row disp row f op v)
          (scope_conditions (mc_identity mc) (mt_structure table) raw)) (mt_rows table)))"
  using assms
  by (auto simp: mock_read_table_def Let_def and_then_Ok_iff scan_rows_eq
      split: if_splits option.splits)

text \<open>A table read that succeeds returns, in table order, the projections of the rows that satisfy
  every condition, cut off at the requested number, which is between 1 and 1000.\<close>

lemma read_table_is_filtered_prefix:
  assumes "mock_read_table disp mc request = Ok rows"
  shows "length rows \<le> rt_max_rows request \<and> 1 \<le> rt_max_rows request \<and> rt_max_rows request \<le> 1000
    \<and> (\<exists>table projection raw.
         mc_tables mc (rt_table request) = Some table
         \<and> parse_conditions (rt_where_conditions request) = Ok raw
         \<and> rows = take (rt_max_rows request) (map (project_row projection)
              (filter (\<lambda>row. list_all (\<lambda>(f, op, v). match_row disp row f op v)
                 (scope_conditions (mc_identity mc) (mt_structure table) raw)) (mt_rows table))))"
  using assms by (elim mock_read_table_Ok) (auto simp: MAX_ROWS_HARD_CAP_def intro!: exI)

definition scoped_client :: mock_client where
  "scoped_client = \<lparr>mc_functions = Map.empty,
     mc_tables = [''T'' \<mapsto> \<lparr>mt_structure = \<lparr>ts_table = ''T'', ts_description = [],
       ts_fields = [fld_key ''RCLNT'' ''MANDT'' ''CLNT'' 3 [], fld ''V'' ''V'' ''CHAR'' 1 []],
       ts_key_fields = [''RCLNT''], ts_authorization_group = [], ts_storage_note = None\<rparr>,
       mt_rows = [table_row_of [(''RCLNT'', ''100''), (''V'', ''a'')],
                  table_row_of [(''RCLNT'', ''200''), (''V'', ''b'')]]\<rparr>],
     mc_identity = json_obj [(''client'', JStr ''200'')]\<rparr>"

definition scoped_request :: read_table_request where
  "scoped_request = \<lparr>rt_table = ''T'', rt_fields = [''V''], rt_where_conditions = [],
     rt_max_rows = 5\<rparr>"

lemma read_scoped: "mock_read_table (\<lambda>_. []) scoped_client scoped_request = Ok [[(''V'', JStr ''b'')]]"
  by code_simp

lemma read_table_is_filtered_prefix_witness:
  "1 \<le> rt_max_rows scoped_request \<and> length [[(''V'', JStr ''b'')]] \<le> rt_max_rows scoped_request"
  using read_table_is_filtered_prefix [OF read_scoped] by blast

text \<open>Rows of another client are never returned: when a table has a client column and the caller
  gives no condition on it, every returned row is the projection of a row whose client column
  holds the connection's own client (100 when the identity has none).\<close>

lemma read_table_client_scoped:
  assumes "mock_read_table disp mc request = Ok rows"
    and "mc_tables mc (rt_table request) = Some table"
    and "client_field (mt_structure table) = Some field"
    and "parse_conditions (rt_where_conditions request) = Ok raw"
    and "\<not> list_ex (\<lambda>(f, _, _). eq_ignore_ascii_case f field) raw"
  shows "\<exists>projection kept. rows = map (project_row projection) kept
    \<and> list_all (\<lambda>row. row \<in> set (mt_rows table)
        \<and> match_row disp row field ''='' (unwrap_or (get_str (mc_identity mc) ''client'') ''100''))
        kept"
proof -
  let ?own = "unwrap_or (get_str (mc_identity mc) ''client'') ''100''"
  let ?keep = "\<lambda>row. list_all (\<lambda>(f, op, v). match_row disp row f op v)
    (raw @ [(field, ''='', ?own)])"
  obtain projection where
    "rows = take (rt_max_rows request) (map (project_row projection) (filter ?keep (mt_rows table)))"
    using assms by (elim mock_read_table_Ok) (simp add: scope_conditions_def)
  then have "rows = map (project_row projection) (take (rt_max_rows request) (filter ?keep (mt_rows table)))"
    by (simp add: take_map)
  moreover have "list_all (\<lambda>row. row \<in> set (mt_rows table) \<and> match_row disp row field ''='' ?own)
      (take (rt_max_rows request) (filter ?keep (mt_rows table)))"
    by (auto simp: list_all_iff dest: in_set_takeD)
  ultimately show ?thesis by blast
qed

lemma read_table_client_scoped_witness:
  "\<exists>projection kept. [[(''V'', JStr ''b'')]] = map (project_row projection) kept
    \<and> list_all (\<lambda>row. match_row (\<lambda>_. []) row ''RCLNT'' ''='' ''200'') kept"
proof -
  let ?t = "the (mc_tables scoped_client ''T'')"
  have own: "unwrap_or (get_str (mc_identity scoped_client) ''client'') ''100'' = ''200''"
    by code_simp
  have field: "client_field (mt_structure ?t) = Some ''RCLNT''" by code_simp
  have raw: "parse_conditions (rt_where_conditions scoped_request) = Ok []"
    by (simp add: scoped_request_def)
  have tab: "mc_tables scoped_client (rt_table scoped_request) = Some ?t"
    by (simp add: scoped_client_def scoped_request_def)
  from read_table_client_scoped [OF read_scoped tab field raw] own
  have "\<exists>projection kept. [[(''V'', JStr ''b'')]] = map (project_row projection) kept
      \<and> list_all (\<lambda>row. row \<in> set (mt_rows ?t) \<and> match_row (\<lambda>_. []) row ''RCLNT'' ''='' ''200'') kept"
    by simp
  then show ?thesis
    by (elim exE conjE, intro exI conjI) (assumption, simp add: list_all_iff)
qed

subsection \<open>LIKE patterns\<close>

text \<open>SQL's own meaning: a percent sign stands for any characters, an underscore for one.\<close>

fun like_match :: "string \<Rightarrow> string \<Rightarrow> bool" where
  "like_match [] h = (h = [])"
| "like_match (c # p) [] = (c = CHR ''%'' \<and> like_match p [])"
| "like_match (c # p) (x # h) =
     (if c = CHR ''%'' then like_match p (x # h) \<or> like_match (c # p) h
      else if c = CHR ''_'' then like_match p h
      else c = x \<and> like_match p h)"

definition like_ignore_case :: "string \<Rightarrow> string \<Rightarrow> bool" where
  "like_ignore_case haystack pattern = like_match (to_lowercase pattern) (to_lowercase haystack)"

text \<open>Characters with no special treatment.\<close>

definition plain_char :: "char \<Rightarrow> bool" where
  "plain_char c \<longleftrightarrow> c \<notin> {CHR ''%'', CHR ''_'', CHR ''*'', CHR ''^'', CHR ''$'', CHR 0x5C}"

lemma plain_lower: "plain_char c \<Longrightarrow> plain_char (to_lower_char c)"
proof (cases "is_upper_char c")
  case True
  then have "97 \<le> (of_char c :: nat) + 32 \<and> (of_char c :: nat) + 32 \<le> 122"
    by (simp add: is_upper_char_def)
  then have "97 \<le> (of_char (char_of ((of_char c :: nat) + 32)) :: nat)
      \<and> (of_char (char_of ((of_char c :: nat) + 32)) :: nat) \<le> 122"
    by (simp add: of_char_of)
  then have "97 \<le> (of_char (to_lower_char c) :: nat) \<and> (of_char (to_lower_char c) :: nat) \<le> 122"
    using True by (simp add: to_lower_char_def)
  then show ?thesis by (auto simp: plain_char_def)
qed (simp add: to_lower_char_def)

lemma like_match_Nil_percent: "like_match [CHR ''%''] h"
  by (induction h) auto

lemma like_match_plain:
  "list_all plain_char p \<Longrightarrow> like_match (p @ q) h \<longleftrightarrow> (\<exists>t. h = p @ t \<and> like_match q t)"
proof (induction p arbitrary: h)
  case (Cons c p)
  then show ?case by (cases h) (auto simp: plain_char_def)
qed simp

lemma like_match_percent: "like_match (CHR ''%'' # p) h \<longleftrightarrow> (\<exists>a b. h = a @ b \<and> like_match p b)"
proof (induction h)
  case (Cons x h)
  show ?case
  proof
    assume "like_match (CHR ''%'' # p) (x # h)"
    then consider "like_match p (x # h)" | a b where "h = a @ b" "like_match p b"
      using Cons by auto
    then show "\<exists>a b. x # h = a @ b \<and> like_match p b"
      by cases (metis append_Nil, metis append_Cons)
  next
    assume "\<exists>a b. x # h = a @ b \<and> like_match p b"
    then obtain a b where "x # h = a @ b" "like_match p b" by blast
    then show "like_match (CHR ''%'' # p) (x # h)"
      using Cons by (cases a) auto
  qed
qed auto

lemma like_text_plain:
  "list_all plain_char p \<Longrightarrow>
     filter (\<lambda>c. c \<notin> {CHR ''^'', CHR ''$'', CHR 0x5C}) (concat (map like_char p)) = p"
  by (induction p) (auto simp: like_char_def plain_char_def)

lemma plain_no_wildcards: "list_all plain_char p \<Longrightarrow> CHR ''%'' \<notin> set p \<and> CHR ''_'' \<notin> set p"
  by (induction p) (auto simp: plain_char_def)

lemma plain_not_dot_star:
  "list_all plain_char p \<Longrightarrow> p \<noteq> [] \<Longrightarrow> strip_prefix (p @ ''.*'') ''.*'' = None"
  by (cases p; cases "tl p") (auto simp: strip_prefix_def plain_char_def)

lemma lower_append: "to_lowercase (a @ b) = to_lowercase a @ to_lowercase b"
  by (simp add: to_lowercase_def)

lemma lower_percent: "to_lowercase (CHR ''%'' # s) = CHR ''%'' # to_lowercase s"
proof -
  have "to_lower_char (CHR ''%'') = CHR ''%''" by code_simp
  then show ?thesis by (simp add: to_lowercase_def)
qed

lemma lower_Nil: "to_lowercase [] = []"
  by (simp add: to_lowercase_def)

text \<open>For a pattern of plain characters, alone, with a trailing percent sign, or between two of
  them, the matcher has SQL's meaning, ignoring case: equality, prefix and substring.\<close>

lemma sql_like_supported_patterns:
  assumes "list_all plain_char p"
  shows "sql_like h p = like_ignore_case h p
     \<and> sql_like h (p @ ''%'') = like_ignore_case h (p @ ''%'')
     \<and> sql_like h (''%'' @ p @ ''%'') = like_ignore_case h (''%'' @ p @ ''%'')"
proof -
  define q where "q = to_lowercase p"
  have q: "list_all plain_char q"
    using assms by (auto simp: q_def to_lowercase_def list_all_iff plain_lower)
  have eq: "sql_like h p = like_ignore_case h p"
    using like_match_plain [OF q, of "[]"] plain_no_wildcards [OF q]
    by (auto simp: sql_like_def like_ignore_case_def q_def [symmetric])
  have pre: "sql_like h (p @ ''%'') = like_ignore_case h (p @ ''%'')"
  proof (cases "q = []")
    case True
    then show ?thesis
      by (auto simp: sql_like_def like_ignore_case_def lower_append lower_percent lower_Nil q_def [symmetric]
          like_match_Nil_percent like_char_def strip_prefix_def strip_suffix_def ends_with_def
          contains_str_iff Let_def intro: exI [of _ "[]"])
  next
    case False
    then show ?thesis
      using like_text_plain [OF q] plain_not_dot_star [OF q False]
      by (simp add: sql_like_def like_ignore_case_def lower_append lower_percent lower_Nil q_def [symmetric]
          like_match_plain [OF q] like_match_Nil_percent like_char_def strip_suffix_append
          starts_with_iff prefix_def Let_def)
  qed
  have mid: "sql_like h (''%'' @ p @ ''%'') = like_ignore_case h (''%'' @ p @ ''%'')"
    using like_text_plain [OF q] strip_prefix_append [of "''.*''" "q @ ''.*''"]
    by (auto simp: sql_like_def like_ignore_case_def lower_append lower_percent lower_Nil q_def [symmetric]
        like_match_percent like_match_plain [OF q] like_char_def strip_suffix_append
        contains_str_iff Let_def)
  from eq pre mid show ?thesis by blast
qed

lemma sql_like_supported_patterns_witness:
  "sql_like ''GT-SO-5001'' ''gt-so%'' = like_ignore_case ''GT-SO-5001'' ''gt-so%''
     \<and> sql_like ''GT-SO-5001'' ''gt-so%''"
proof -
  have "list_all plain_char ''gt-so''" by code_simp
  from sql_like_supported_patterns [OF this, of "''GT-SO-5001''"]
  have "sql_like ''GT-SO-5001'' ''gt-so%'' = like_ignore_case ''GT-SO-5001'' ''gt-so%''" by simp
  moreover have "sql_like ''GT-SO-5001'' ''gt-so%''" by code_simp
  ultimately show ?thesis by blast
qed

text \<open>The other shapes are approximated: an underscore is compared literally with a full stop, a
  percent sign inside a pattern never matches, and a leading one alone matches any substring.\<close>

lemma sql_like_approximations:
  "like_ignore_case ''AB'' ''A_'' \<and> \<not> sql_like ''AB'' ''A_''
   \<and> like_ignore_case ''AXB'' ''A%B'' \<and> \<not> sql_like ''AXB'' ''A%B''
   \<and> \<not> like_ignore_case ''ABC'' ''%B'' \<and> sql_like ''ABC'' ''%B''"
  by code_simp

subsection \<open>The contract of a client\<close>

text \<open>What the callers of an \<open>ErpClient\<close> rely on: metadata it returns is that of the catalogue, and in
  read-only mode it only answers calls of read-only operations. \<open>ok_state\<close> is the client's own
  invariant.\<close>

locale erp_backend =
  fixes known :: "string \<Rightarrow> erp_operation_meta option"
    and ok_state :: "'s \<Rightarrow> bool"
    and get_meta :: "string \<Rightarrow> string \<Rightarrow> 's \<Rightarrow> erp_operation_meta erp_result \<times> 's"
    and call :: "'s erp_call"
  assumes meta_known: "ok_state s \<Longrightarrow> get_meta f l s = (Inr m, s') \<Longrightarrow> known f = Some m"
    and meta_ok: "ok_state s \<Longrightarrow> get_meta f l s = (res, s') \<Longrightarrow> ok_state s'"
    and call_read_only: "ok_state s \<Longrightarrow> call r True s = (Inr v, s') \<Longrightarrow>
      \<exists>m. known (cr_function r) = Some m \<and> om_read_only m"
    and call_ok: "ok_state s \<Longrightarrow> call r ro s = (res', s') \<Longrightarrow> ok_state s'"

text \<open>A session: requests made one after the other in one mode, with their results.\<close>

fun call_all ::
  "'s erp_call \<Rightarrow> bool \<Rightarrow> erp_call_request list \<Rightarrow> 's
     \<Rightarrow> (erp_call_request \<times> json erp_result) list \<times> 's" where
  "call_all call ro [] s = ([], s)"
| "call_all call ro (r # rs) s =
     (case call r ro s of (res, s1) \<Rightarrow>
       (case call_all call ro rs s1 of (log, s2) \<Rightarrow> ((r, res) # log, s2)))"

definition answered_read_only ::
  "(string \<Rightarrow> erp_operation_meta option) \<Rightarrow> erp_call_request \<times> json erp_result \<Rightarrow> bool" where
  "answered_read_only known = (\<lambda>(r, res).
     case res of Inl _ \<Rightarrow> True
     | Inr _ \<Rightarrow> (case known (cr_function r) of Some m \<Rightarrow> om_read_only m | None \<Rightarrow> False))"

context erp_backend begin

lemma read_only_session:
  "ok_state s \<Longrightarrow> list_all (answered_read_only known) (fst (call_all call True rs s))"
proof (induction rs arbitrary: s)
  case (Cons r rs)
  obtain res s1 where call: "call r True s = (res, s1)" by force
  have "answered_read_only known (r, res)"
    using call_read_only [OF Cons.prems, of r] call
    by (cases res) (fastforce simp: answered_read_only_def)+
  then show ?case
    using Cons.IH [OF call_ok [OF Cons.prems call]] call by (simp add: case_prod_beta)
qed simp

lemma session_ok: "ok_state s \<Longrightarrow> ok_state (snd (call_all call ro rs s))"
proof (induction rs arbitrary: s)
  case (Cons r rs)
  obtain res s1 where call: "call r ro s = (res, s1)" by force
  then show ?case
    using Cons.IH [OF call_ok [OF Cons.prems call]] by (simp add: case_prod_beta)
qed simp

end

text \<open>The mock client does not change its state, which can therefore be anything.\<close>

definition mock_meta ::
  "mock_client \<Rightarrow> string \<Rightarrow> string \<Rightarrow> 's \<Rightarrow> erp_operation_meta erp_result \<times> 's" where
  "mock_meta mc f l s = (mock_operation_metadata mc f l, s)"

definition mock_call :: "(json \<Rightarrow> string) \<Rightarrow> mock_client \<Rightarrow> 's erp_call" where
  "mock_call disp mc r ro s = (mock_call_operation disp mc r ro, s)"

interpretation mock: erp_backend "mc_functions mc" "\<lambda>_. True" "mock_meta mc" "mock_call disp mc"
  for mc disp
  by unfold_locales
    (auto simp: mock_meta_def mock_call_def mock_operation_metadata_def split: option.splits
      dest: mock_call_read_only)

lemma foldl_fun_upd_Some:
  "foldl (\<lambda>m x. m(key x \<mapsto> x)) m xs k = Some v \<Longrightarrow> m k = Some v \<or> v \<in> set xs \<and> key v = k"
proof (induction xs arbitrary: m)
  case (Cons x xs)
  then show ?case using Cons.IH [of "m(key x \<mapsto> x)"] by (auto split: if_splits)
qed simp

lemma mock_new_functions:
  "mc_functions (mock_new identity) f = Some m \<Longrightarrow> m \<in> set seed_functions \<and> om_function m = f"
  by (auto simp: mock_new_def dest!: foldl_fun_upd_Some)

end
