(* ===== verification/Metadata_Cache.thy ===== *)
theory Metadata_Cache
  imports Erp_Client "HOL-Library.AList"
begin

text \<open>
  The metadata cache (\<open>crates/oracle-automate-erp/src/metadata_cache.rs\<close>), a decorator of any
  client. Its hash map is an association list without duplicate keys. The clock is read once for
  every look-up that finds an entry and once for every store; the readings are the function
  \<open>ch_clock\<close> of how many readings came before, so any clock is covered.
\<close>

record 's meta_cache =
  ch_inner :: 's
  ch_ttl :: nat
  ch_entries :: "((string \<times> string) \<times> (erp_operation_meta \<times> nat)) list"
  ch_hits :: nat
  ch_misses :: nat
  ch_evictions :: nat
  ch_clock :: "nat \<Rightarrow> nat"
  ch_readings :: nat

definition cache_new :: "'s \<Rightarrow> nat \<Rightarrow> (nat \<Rightarrow> nat) \<Rightarrow> 's meta_cache" where
  "cache_new inner ttl clock =
     \<lparr>ch_inner = inner, ch_ttl = ttl, ch_entries = [], ch_hits = 0, ch_misses = 0,
      ch_evictions = 0, ch_clock = clock, ch_readings = 0\<rparr>"

definition read_clock :: "'s meta_cache \<Rightarrow> nat \<times> 's meta_cache" where
  "read_clock c = (ch_clock c (ch_readings c), c\<lparr>ch_readings := ch_readings c + 1\<rparr>)"

text \<open>\<open>stats\<close>: hits, misses, evictions and the number of entries.\<close>

definition cache_stats :: "'s meta_cache \<Rightarrow> nat \<times> nat \<times> nat \<times> nat" where
  "cache_stats c = (ch_hits c, ch_misses c, ch_evictions c, length (ch_entries c))"

definition cache_invalidate_all :: "'s meta_cache \<Rightarrow> 's meta_cache" where
  "cache_invalidate_all c =
     c\<lparr>ch_entries := [], ch_evictions := ch_evictions c + length (ch_entries c)\<rparr>"

definition get_fresh ::
  "string \<times> string \<Rightarrow> 's meta_cache \<Rightarrow> erp_operation_meta option \<times> 's meta_cache" where
  "get_fresh key c =
     (case map_of (ch_entries c) key of
        None \<Rightarrow> (None, c)
      | Some (meta, cached_at) \<Rightarrow>
          if ch_ttl c = 0 then (Some meta, c)
          else (case read_clock c of (now, c') \<Rightarrow>
                  if now - cached_at \<le> ch_ttl c then (Some meta, c') else (None, c')))"

definition cache_store ::
  "string \<times> string \<Rightarrow> erp_operation_meta \<Rightarrow> 's meta_cache \<Rightarrow> 's meta_cache" where
  "cache_store key meta c =
     (if ch_ttl c = 0 then c
      else (case read_clock c of (now, c') \<Rightarrow>
              c'\<lparr>ch_entries := AList.update key (meta, now) (ch_entries c')\<rparr>))"

text \<open>The inner client's own operations.\<close>

type_synonym 's inner_meta = "string \<Rightarrow> string \<Rightarrow> 's \<Rightarrow> erp_operation_meta erp_result \<times> 's"
type_synonym 's inner_bulk = "string list \<Rightarrow> string \<Rightarrow> 's \<Rightarrow> bulk_metadata erp_result \<times> 's"

definition cache_operation_metadata ::
  "'s inner_meta \<Rightarrow> string \<Rightarrow> string \<Rightarrow> 's meta_cache
     \<Rightarrow> erp_operation_meta erp_result \<times> 's meta_cache" where
  "cache_operation_metadata inner_meta function language c =
     (let key = (function, language) in
      if ch_ttl c = 0 then
        (let c1 = c\<lparr>ch_misses := ch_misses c + 1\<rparr> in
         case inner_meta function language (ch_inner c1) of
           (res, s') \<Rightarrow> (res, c1\<lparr>ch_inner := s'\<rparr>))
      else
        (case get_fresh key c of
           (Some meta, c1) \<Rightarrow> (Ok meta, c1\<lparr>ch_hits := ch_hits c1 + 1\<rparr>)
         | (None, c1) \<Rightarrow>
             (let c2 = c1\<lparr>ch_misses := ch_misses c1 + 1\<rparr> in
              case inner_meta function language (ch_inner c2) of
                (Inl e, s') \<Rightarrow> (Err e, c2\<lparr>ch_inner := s'\<rparr>)
              | (Inr meta, s') \<Rightarrow> (Ok meta, cache_store key meta (c2\<lparr>ch_inner := s'\<rparr>)))))"

text \<open>The loop that splits the requested functions into cached ones and those to fetch.\<close>

fun split_cached ::
  "string \<Rightarrow> string list \<Rightarrow> 's meta_cache
     \<Rightarrow> erp_operation_meta list \<times> string list \<times> 's meta_cache" where
  "split_cached language [] c = ([], [], c)"
| "split_cached language (f # fs) c =
     (case get_fresh (f, language) c of
        (Some meta, c1) \<Rightarrow>
          (case split_cached language fs c1 of (hits, fetch, c2) \<Rightarrow> (meta # hits, fetch, c2))
      | (None, c1) \<Rightarrow>
          (case split_cached language fs c1 of (hits, fetch, c2) \<Rightarrow> (hits, f # fetch, c2)))"

definition store_all ::
  "string \<Rightarrow> erp_operation_meta list \<Rightarrow> 's meta_cache \<Rightarrow> 's meta_cache" where
  "store_all language metas c =
     foldl (\<lambda>c meta. cache_store (om_function meta, language) meta c) c metas"

definition cache_bulk_metadata ::
  "'s inner_bulk \<Rightarrow> string list \<Rightarrow> string \<Rightarrow> 's meta_cache
     \<Rightarrow> bulk_metadata erp_result \<times> 's meta_cache" where
  "cache_bulk_metadata inner_bulk functions language c =
     (case split_cached language functions c of
        (hits, to_fetch, c1) \<Rightarrow>
          (let c2 = c1\<lparr>ch_hits := ch_hits c1 + length hits,
                       ch_misses := ch_misses c1 + length to_fetch\<rparr> in
           if to_fetch = [] then
             (Ok \<lparr>bm_language = language, bm_functions = hits, bm_missing = []\<rparr>, c2)
           else
             (case inner_bulk to_fetch language (ch_inner c2) of
                (Inl e, s') \<Rightarrow> (Err e, c2\<lparr>ch_inner := s'\<rparr>)
              | (Inr fetched, s') \<Rightarrow>
                  (Ok \<lparr>bm_language = language, bm_functions = hits @ bm_functions fetched,
                       bm_missing = bm_missing fetched\<rparr>,
                   store_all language (bm_functions fetched) (c2\<lparr>ch_inner := s'\<rparr>)))))"

text \<open>The other operations go straight to the inner client.\<close>

definition cache_call :: "'s erp_call \<Rightarrow> ('s meta_cache) erp_call" where
  "cache_call inner_call request ro c =
     (case inner_call request ro (ch_inner c) of (res, s') \<Rightarrow> (res, c\<lparr>ch_inner := s'\<rparr>))"

subsection \<open>The cache keeps the contract of the client it wraps\<close>

definition entries_known :: "(string \<Rightarrow> erp_operation_meta option) \<Rightarrow> 's meta_cache \<Rightarrow> bool" where
  "entries_known known c = list_all (\<lambda>((f, l), (m, t)). known f = Some m) (ch_entries c)"

definition cache_ok ::
  "(string \<Rightarrow> erp_operation_meta option) \<Rightarrow> ('s \<Rightarrow> bool) \<Rightarrow> 's meta_cache \<Rightarrow> bool" where
  "cache_ok known ok_state c \<longleftrightarrow> entries_known known c \<and> ok_state (ch_inner c)"

lemma cache_update_simps [simp]:
  "ch_inner (snd (read_clock c)) = ch_inner c"
  "ch_entries (snd (read_clock c)) = ch_entries c"
  "ch_ttl (snd (read_clock c)) = ch_ttl c"
  by (simp_all add: read_clock_def)

lemma get_fresh_keeps:
  assumes "get_fresh key c = (r, c')"
  shows "ch_inner c' = ch_inner c" "ch_entries c' = ch_entries c" "ch_ttl c' = ch_ttl c"
    "ch_hits c' = ch_hits c" "ch_misses c' = ch_misses c" "ch_evictions c' = ch_evictions c"
  using assms by (auto simp: get_fresh_def read_clock_def split: option.splits if_splits)

lemma get_fresh_known:
  "entries_known known c \<Longrightarrow> get_fresh (f, l) c = (Some m, c') \<Longrightarrow> known f = Some m"
  by (auto simp: get_fresh_def read_clock_def entries_known_def list_all_iff
      split: option.splits if_splits dest!: map_of_SomeD)

lemma entries_known_store:
  "entries_known known c \<Longrightarrow> known (fst key) = Some meta \<Longrightarrow> entries_known known (cache_store key meta c)"
  by (cases key) (simp add: entries_known_def cache_store_def read_clock_def list_all_alist_update)

lemma cache_store_inner [simp]: "ch_inner (cache_store key meta c) = ch_inner c"
  by (simp add: cache_store_def read_clock_def)

context erp_backend begin

lemma cache_meta_known:
  assumes "cache_ok known ok_state c" and "cache_operation_metadata get_meta f l c = (Inr m, c')"
  shows "known f = Some m"
  using assms meta_known
  by (auto simp: cache_operation_metadata_def cache_ok_def Let_def
      split: if_splits prod.splits option.splits sum.splits
      dest: get_fresh_keeps(1) get_fresh_known)

lemma cache_meta_ok:
  assumes "cache_ok known ok_state c" and "cache_operation_metadata get_meta f l c = (res, c')"
  shows "cache_ok known ok_state c'"
proof (cases "ch_ttl c = 0")
  case True
  with assms show ?thesis
    by (auto simp: cache_operation_metadata_def cache_ok_def entries_known_def Let_def
        split: prod.splits dest: meta_ok)
next
  case False
  obtain r c1 where g: "get_fresh (f, l) c = (r, c1)" by force
  note k = get_fresh_keeps [OF g]
  show ?thesis
  proof (cases r)
    case None
    obtain ir s' where i: "get_meta f l (ch_inner c) = (ir, s')" by force
    then have "ok_state s'" using assms(1) by (auto simp: cache_ok_def dest: meta_ok)
    moreover have "known f = Some m" if "ir = Inr m" for m
      using that i assms(1) by (auto simp: cache_ok_def dest: meta_known)
    ultimately show ?thesis
      using assms False g k i None
      by (cases ir)
         (auto simp: cache_operation_metadata_def cache_ok_def Let_def
           intro!: entries_known_store, auto simp: entries_known_def)
  next
    case (Some m)
    with assms False g k show ?thesis
      by (auto simp: cache_operation_metadata_def cache_ok_def entries_known_def Let_def)
  qed
qed

lemma cache_call_read_only:
  assumes "cache_ok known ok_state c" and "cache_call call r True c = (Inr v, c')"
  shows "\<exists>m. known (cr_function r) = Some m \<and> om_read_only m"
  using assms by (auto simp: cache_call_def cache_ok_def split: prod.splits dest: call_read_only)

lemma cache_call_ok:
  assumes "cache_ok known ok_state c" and "cache_call call r ro c = (res, c')"
  shows "cache_ok known ok_state c'"
  using assms
  by (auto simp: cache_call_def cache_ok_def entries_known_def split: prod.splits dest: call_ok)

end

text \<open>So a cache over the mock client is itself a client in the sense of the contract.\<close>

interpretation cached_mock: erp_backend "mc_functions mc" "cache_ok (mc_functions mc) (\<lambda>_. True)"
    "cache_operation_metadata (mock_meta mc)" "cache_call (mock_call disp mc)"
  for mc disp
  by unfold_locales
    (blast intro: mock.cache_meta_known mock.cache_meta_ok mock.cache_call_read_only
       mock.cache_call_ok)+

subsection \<open>Transparency and accounting\<close>

text \<open>A history of the cache's own operations over a client that does not change.\<close>

datatype cache_op = Get_Meta string string | Get_Bulk "string list" string | Invalidate_All

fun cache_apply :: "'s inner_meta \<Rightarrow> 's inner_bulk \<Rightarrow> 's meta_cache \<Rightarrow> cache_op \<Rightarrow> 's meta_cache" where
  "cache_apply im ib c (Get_Meta f l) = snd (cache_operation_metadata im f l c)"
| "cache_apply im ib c (Get_Bulk fs l) = snd (cache_bulk_metadata ib fs l c)"
| "cache_apply im ib c Invalidate_All = cache_invalidate_all c"

fun lookups :: "cache_op \<Rightarrow> nat" where
  "lookups (Get_Meta f l) = 1"
| "lookups (Get_Bulk fs l) = length fs"
| "lookups Invalidate_All = 0"

lemma split_cached_keeps:
  "split_cached l fs c = (hits, fetch, c') \<Longrightarrow>
     ch_inner c' = ch_inner c \<and> ch_entries c' = ch_entries c \<and> ch_ttl c' = ch_ttl c
     \<and> ch_hits c' = ch_hits c \<and> ch_misses c' = ch_misses c
     \<and> length hits + length fetch = length fs"
proof (induction fs arbitrary: c hits fetch c')
  case (Cons f fs)
  obtain r c1 where g: "get_fresh (f, l) c = (r, c1)" by force
  obtain hits' fetch' c2 where s: "split_cached l fs c1 = (hits', fetch', c2)"
    by (cases "split_cached l fs c1") auto
  from Cons.IH [OF s] Cons.prems g s show ?case
    by (cases r) (auto simp: get_fresh_keeps [OF g])
qed simp

lemma cache_store_stats [simp]:
  "ch_hits (cache_store key meta c) = ch_hits c" "ch_misses (cache_store key meta c) = ch_misses c"
  by (simp_all add: cache_store_def read_clock_def)

lemma store_all_stats:
  "ch_hits (store_all l ms c) = ch_hits c \<and> ch_misses (store_all l ms c) = ch_misses c
     \<and> ch_inner (store_all l ms c) = ch_inner c"
  unfolding store_all_def by (induction ms arbitrary: c) auto

lemma cache_apply_stats:
  "ch_hits (cache_apply im ib c op) + ch_misses (cache_apply im ib c op)
     = ch_hits c + ch_misses c + lookups op"
proof (cases op)
  case (Get_Meta f l)
  obtain r c1 where g: "get_fresh (f, l) c = (r, c1)" by force
  show ?thesis
    using Get_Meta g get_fresh_keeps [OF g]
    by (auto simp: cache_operation_metadata_def Let_def split: option.splits prod.splits sum.splits)
next
  case (Get_Bulk fs l)
  obtain hits fetch c1 where s: "split_cached l fs c = (hits, fetch, c1)"
    by (cases "split_cached l fs c") auto
  show ?thesis
    using Get_Bulk s split_cached_keeps [OF s]
    by (auto simp: cache_bulk_metadata_def Let_def store_all_stats split: prod.splits sum.splits)
next
  case Invalidate_All
  then show ?thesis by (simp add: cache_invalidate_all_def)
qed

text \<open>Every look-up is counted exactly once, as a hit or as a miss, whatever the inner client
  answers and whatever the clock says.\<close>

lemma cache_counts_every_lookup:
  "let c = foldl (cache_apply im ib) (cache_new s ttl clock) ops in
     ch_hits c + ch_misses c = sum_list (map lookups ops)"
proof -
  have "ch_hits (foldl (cache_apply im ib) c ops) + ch_misses (foldl (cache_apply im ib) c ops)
      = ch_hits c + ch_misses c + sum_list (map lookups ops)" for c :: "'a meta_cache"
    by (induction ops arbitrary: c) (simp_all add: cache_apply_stats)
  then show ?thesis by (simp add: cache_new_def)
qed

lemma mock_bulk_known:
  assumes "\<And>f m. mc_functions mc f = Some m \<Longrightarrow> om_function m = f"
    and "mock_bulk_metadata mc fs l = Ok b" and "m \<in> set (bm_functions b)"
  shows "mc_functions mc (om_function m) = Some m"
  using assms by (auto simp: mock_bulk_metadata_def)

lemma entries_known_store_all:
  "entries_known known c \<Longrightarrow> (\<And>m. m \<in> set ms \<Longrightarrow> known (om_function m) = Some m) \<Longrightarrow>
     entries_known known (store_all l ms c)"
proof (induction ms arbitrary: c)
  case (Cons m ms)
  have "entries_known known (cache_store (om_function m, l) m c)"
    using Cons.prems by (intro entries_known_store) simp_all
  from Cons.IH [OF this] Cons.prems(2) show ?case by (simp add: store_all_def)
qed (simp add: store_all_def)

definition mock_bulk :: "mock_client \<Rightarrow> 's inner_bulk" where
  "mock_bulk mc fs l s = (mock_bulk_metadata mc fs l, s)"

lemma entries_known_fields:
  "ch_entries c' = ch_entries c \<Longrightarrow> entries_known known c' = entries_known known c"
  by (simp add: entries_known_def)

lemma cache_apply_known:
  assumes "\<And>f m. mc_functions mc f = Some m \<Longrightarrow> om_function m = f"
    and "entries_known (mc_functions mc) c"
  shows "entries_known (mc_functions mc) (cache_apply (mock_meta mc) (mock_bulk mc) c op)"
proof (cases op)
  case (Get_Meta f l)
  have "cache_ok (mc_functions mc) (\<lambda>_. True) c" using assms(2) by (simp add: cache_ok_def)
  from mock.cache_meta_ok [OF this prod.collapse [symmetric], of f l] Get_Meta show ?thesis
    by (simp add: cache_ok_def)
next
  case (Get_Bulk fs l)
  obtain hits fetch c1 where s: "split_cached l fs c = (hits, fetch, c1)"
    by (cases "split_cached l fs c") auto
  have "entries_known (mc_functions mc) c1"
    using assms(2) split_cached_keeps [OF s] entries_known_fields [of c1 c] by simp
  then show ?thesis
    using Get_Bulk s mock_bulk_known [OF assms(1)]
    by (auto simp: cache_bulk_metadata_def mock_bulk_def mock_bulk_metadata_def Let_def
        entries_known_def [of _ "_\<lparr>ch_hits := _\<rparr>"]
        split: sum.splits intro!: entries_known_store_all) (auto simp: entries_known_def)
next
  case Invalidate_All
  then show ?thesis by (simp add: cache_invalidate_all_def entries_known_def)
qed

text \<open>C40. The cache is transparent: over the mock client, after any history of cache operations and
  invalidations, with any time to live and any clock, a metadata request gets exactly the answer
  of the client itself.\<close>

theorem cache_is_transparent:
  "fst (cache_operation_metadata (mock_meta (mock_new identity)) f l
     (foldl (cache_apply (mock_meta (mock_new identity)) (mock_bulk (mock_new identity)))
        (cache_new s ttl clock) ops))
   = mock_operation_metadata (mock_new identity) f l"
proof -
  let ?mc = "mock_new identity"
  have names: "om_function m = f" if "mc_functions ?mc f = Some m" for f m
    using mock_new_functions [OF that] by blast
  have "entries_known (mc_functions ?mc) (foldl (cache_apply (mock_meta ?mc) (mock_bulk ?mc)) c ops)"
    if "entries_known (mc_functions ?mc) c" for c :: "'a meta_cache"
    using that by (induction ops arbitrary: c) (auto intro: cache_apply_known [OF names])
  then have known: "entries_known (mc_functions ?mc)
      (foldl (cache_apply (mock_meta ?mc) (mock_bulk ?mc)) (cache_new s ttl clock) ops)"
    by (simp add: entries_known_def cache_new_def)
  show ?thesis
  proof -
    let ?c = "foldl (cache_apply (mock_meta ?mc) (mock_bulk ?mc)) (cache_new s ttl clock) ops"
    obtain r c1 where g: "get_fresh (f, l) ?c = (r, c1)" by force
    have "mc_functions ?mc f = Some m" if "r = Some m" for m
      using get_fresh_known [OF known] that g by blast
    then show ?thesis
      using g by (cases r)
        (auto simp: cache_operation_metadata_def Let_def mock_meta_def mock_operation_metadata_def
          split: option.splits sum.splits)
  qed
qed

end
