(* ===== verification/Fusion.thy ===== *)
theory Fusion
  imports Metadata_Cache
begin

text \<open>
  The live client over Fusion REST (\<open>crates/oracle-automate-erp/src/fusion.rs\<close>): configuration,
  dispatch of an operation id to an HTTP request, the read-only gate over the catalogue client, and
  the party client. Sending a request is \<open>reqwest\<close>'s, a parameter \<open>send\<close> on the state of the
  outside world; the state of \<open>HttpFusionClient\<close> is that world with the catalogue's state. The
  rendering of a non-string JSON value is the parameter \<open>disp\<close>.
\<close>

datatype http_method = GET | POST | PATCH | DELETE

datatype fusion_auth = Bearer string | Basic string string

fun auth_label :: "fusion_auth \<Rightarrow> string" where
  "auth_label (Bearer _) = ''oauth2''"
| "auth_label (Basic _ _) = ''basic''"

definition auth_debug :: "fusion_auth \<Rightarrow> string" where
  "auth_debug a = ''FusionAuth::'' @ auth_label a"

record fusion_config =
  fx_base_url :: string
  fx_auth :: fusion_auth
  fx_timeout_ms :: nat

definition DEFAULT_FUSION_TIMEOUT_MS :: nat where "DEFAULT_FUSION_TIMEOUT_MS = 30000"

definition REST_BASE :: string where "REST_BASE = ''/fscmRestApi/resources/11.13.18.05''"

definition fusion_config_new :: "string \<Rightarrow> fusion_auth \<Rightarrow> fusion_config" where
  "fusion_config_new base_url auth =
     \<lparr>fx_base_url = trim_end_char (CHR ''/'') base_url, fx_auth = auth,
      fx_timeout_ms = DEFAULT_FUSION_TIMEOUT_MS\<rparr>"

definition fusion_config_from_env :: "(string \<Rightarrow> string option) \<Rightarrow> fusion_config option" where
  "fusion_config_from_env env =
     (case env ''ORACLE_FUSION_BASE_URL'' of
        None \<Rightarrow> None
      | Some base \<Rightarrow>
          (let auth = (if env ''ORACLE_FUSION_AUTH'' = Some ''basic''
                       then Basic (unwrap_or (env ''ORACLE_FUSION_USER'') [])
                                  (unwrap_or (env ''ORACLE_FUSION_PASSWORD'') [])
                       else Bearer (unwrap_or (env ''ORACLE_FUSION_ACCESS_TOKEN'') []));
               cfg = fusion_config_new base auth
           in Some (case Option.bind (env ''ORACLE_FUSION_TIMEOUT_MS'') (parse_unsigned (2 ^ 64)) of
                      Some ms \<Rightarrow> cfg\<lparr>fx_timeout_ms := ms\<rparr>
                    | None \<Rightarrow> cfg)))"

definition fusion_redacted :: "fusion_config \<Rightarrow> json" where
  "fusion_redacted cfg = json_obj
     [(''base_url'', JStr (fx_base_url cfg)), (''auth'', JStr (auth_label (fx_auth cfg))),
      (''timeout_ms'', JNat (fx_timeout_ms cfg))]"

subsection \<open>Requests and responses\<close>

record http_failure =
  hf_timeout :: bool
  hf_connect :: bool
  hf_text :: string

definition map_http_err :: "http_failure \<Rightarrow> erp_error" where
  "map_http_err e =
     (if hf_timeout e \<or> hf_connect e
      then ErpDestinationDown ''oracle-fusion'' (''Fusion REST transport error: '' @ hf_text e)
      else ErpInternal (''Fusion REST error: '' @ hf_text e))"

record http_request =
  hq_method :: http_method
  hq_url :: string
  hq_auth :: fusion_auth
  hq_headers :: "(string \<times> string) list"
  hq_query :: "(string \<times> string) list"
  hq_body :: "json option"

text \<open>The body of a response is its JSON value, or the failure to read one.\<close>

record http_response =
  hp_status :: nat
  hp_body :: "http_failure + json"

type_synonym 'w http_send = "http_request \<Rightarrow> 'w \<Rightarrow> (http_failure + http_response) \<times> 'w"

definition rest_header :: "(string \<times> string) list" where
  "rest_header = [(''REST-Framework-Version'', ''9'')]"

definition fusion_dispatch :: "string \<Rightarrow> http_method \<times> string" where
  "fusion_dispatch op =
     (let pieces = rev (split_char (CHR ''.'') op);
          verb = (case pieces of v # _ \<Rightarrow> v | [] \<Rightarrow> ''get'');
          resource = (case pieces of _ # r # _ \<Rightarrow> r | _ \<Rightarrow> []);
          meth = (if verb = ''post'' then POST
                  else if verb = ''patch'' then PATCH
                  else if verb = ''delete'' then DELETE
                  else GET)
      in (meth, resource))"

definition fusion_system_info ::
  "fusion_config \<Rightarrow> 'w http_send \<Rightarrow> 'w \<Rightarrow> system_info erp_result \<times> 'w" where
  "fusion_system_info cfg send w =
     (case send \<lparr>hq_method = GET, hq_url = fx_base_url cfg @ REST_BASE, hq_auth = fx_auth cfg,
                hq_headers = rest_header, hq_query = [], hq_body = None\<rparr> w of
        (Inl e, w') \<Rightarrow> (Err (map_http_err e), w')
      | (Inr _, w') \<Rightarrow>
          (let host = trim_start_str ''http://'' (trim_start_str ''https://'' (fx_base_url cfg))
           in (Ok \<lparr>si_sid = to_uppercase (hd (split_char (CHR ''.'') host)), si_client = ''LIVE'',
                   si_release = ''Oracle Fusion Cloud ERP (live)'', si_system_role = ''LIVE'',
                   si_host = host, si_instance = ''fa'', si_identity = fusion_redacted cfg\<rparr>, w')))"

text \<open>The gate, with the catalogue's answer for the operation.\<close>

definition fusion_gate :: "string \<Rightarrow> bool \<Rightarrow> erp_operation_meta erp_result \<Rightarrow> unit erp_result" where
  "fusion_gate function read_only_mode answer =
     (case answer of
        Inr meta \<Rightarrow>
          if read_only_mode \<and> \<not> om_read_only meta then
            Err (ErpPermissionDenied (''operation '' @ [CHR 0x27] @ function @ [CHR 0x27]
              @ '' modifies state; not callable in read-only mode''))
          else Ok ()
      | Inl (ErpNotFound x) \<Rightarrow>
          if read_only_mode then
            Err (ErpPermissionDenied (''operation '' @ [CHR 0x27] @ function @ [CHR 0x27]
              @ '' is not in the curated read-only catalogue; refusing in read-only mode''))
          else Ok ()
      | Inl e \<Rightarrow> Err e)"

definition fusion_request :: "fusion_config \<Rightarrow> erp_call_request \<Rightarrow> http_request" where
  "fusion_request cfg request =
     (case fusion_dispatch (cr_function request) of
        (meth, resource) \<Rightarrow>
          \<lparr>hq_method = meth, hq_url = fx_base_url cfg @ REST_BASE @ ''/'' @ resource,
           hq_auth = fx_auth cfg, hq_headers = rest_header, hq_query = [],
           hq_body = (if meth = POST \<or> meth = PATCH then Some (cr_parameters request) else None)\<rparr>)"

definition fusion_call ::
  "fusion_config \<Rightarrow> 'w http_send \<Rightarrow> 's inner_meta \<Rightarrow> ('s \<times> 'w) erp_call" where
  "fusion_call cfg send catalogue_meta request read_only_mode sw =
     (case catalogue_meta (cr_function request) ''EN'' (fst sw) of
        (answer, s') \<Rightarrow>
          (case fusion_gate (cr_function request) read_only_mode answer of
             Inl e \<Rightarrow> (Err e, (s', snd sw))
           | Inr _ \<Rightarrow>
               (case send (fusion_request cfg request) (snd sw) of
                  (Inl e, w') \<Rightarrow> (Err (map_http_err e), (s', w'))
                | (Inr resp, w') \<Rightarrow>
                    (Ok (json_obj
                       [(''function'', JStr (cr_function request)),
                        (''executed_on'', JStr (fx_base_url cfg)),
                        (''http_status'', JNat (hp_status resp)),
                        (''outputs'', case hp_body resp of Inr body \<Rightarrow> body | Inl _ \<Rightarrow> JNull)]),
                     (s', w')))))"

definition fusion_meta :: "'s inner_meta \<Rightarrow> ('s \<times> 'w) inner_meta" where
  "fusion_meta catalogue_meta f l sw =
     (case catalogue_meta f l (fst sw) of (res, s') \<Rightarrow> (res, (s', snd sw)))"

subsection \<open>Parties\<close>

record party =
  pt_id :: string
  pt_name :: string
  pt_type :: string
  pt_number :: "string option"
  pt_status :: "string option"

fun value_to_string :: "(json \<Rightarrow> string) \<Rightarrow> json \<Rightarrow> string" where
  "value_to_string disp (JStr s) = s"
| "value_to_string disp other = disp other"

definition party_from_obj :: "(json \<Rightarrow> string) \<Rightarrow> json \<Rightarrow> party option" where
  "party_from_obj disp obj =
     (let text = (\<lambda>k. map_option (value_to_string disp) (jget obj k)) in
      case (case text ''SupplierId'' of Some i \<Rightarrow> Some i | None \<Rightarrow> text ''PartyId'') of
        None \<Rightarrow> None
      | Some i \<Rightarrow> Some
          \<lparr>pt_id = i,
           pt_name = unwrap_or (case text ''Supplier'' of Some n \<Rightarrow> Some n | None \<Rightarrow> text ''PartyName'') [],
           pt_type = ''supplier'', pt_number = text ''SupplierNumber'', pt_status = text ''Status''\<rparr>)"

definition parse_parties :: "(json \<Rightarrow> string) \<Rightarrow> json \<Rightarrow> party list" where
  "parse_parties disp body =
     (case Option.bind (jget body ''items'') as_array of
        Some arr \<Rightarrow> List.map_filter (party_from_obj disp) arr
      | None \<Rightarrow> [])"

definition party_query :: "string \<Rightarrow> string" where
  "party_query query =
     ''Supplier LIKE '' @ [CHR 0x27] @ ''%'' @ filter (\<lambda>c. c \<noteq> CHR 0x27) query @ ''%'' @ [CHR 0x27]"

definition search_parties ::
  "(json \<Rightarrow> string) \<Rightarrow> fusion_config \<Rightarrow> 'w http_send \<Rightarrow> string \<Rightarrow> nat \<Rightarrow> 'w
     \<Rightarrow> party list erp_result \<times> 'w" where
  "search_parties disp cfg send query top_n w =
     (case send \<lparr>hq_method = GET, hq_url = fx_base_url cfg @ REST_BASE @ ''/suppliers'',
                hq_auth = fx_auth cfg, hq_headers = rest_header,
                hq_query = [(''q'', party_query query), (''limit'', show_nat top_n)],
                hq_body = None\<rparr> w of
        (Inl e, w') \<Rightarrow> (Err (map_http_err e), w')
      | (Inr resp, w') \<Rightarrow>
          (case hp_body resp of
             Inl e \<Rightarrow> (Err (map_http_err e), w')
           | Inr body \<Rightarrow> (Ok (parse_parties disp body), w')))"

definition get_party ::
  "(json \<Rightarrow> string) \<Rightarrow> fusion_config \<Rightarrow> 'w http_send \<Rightarrow> string \<Rightarrow> 'w \<Rightarrow> party erp_result \<times> 'w" where
  "get_party disp cfg send i w =
     (case send \<lparr>hq_method = GET, hq_url = fx_base_url cfg @ REST_BASE @ ''/suppliers/'' @ i,
                hq_auth = fx_auth cfg, hq_headers = rest_header, hq_query = [], hq_body = None\<rparr> w of
        (Inl e, w') \<Rightarrow> (Err (map_http_err e), w')
      | (Inr resp, w') \<Rightarrow>
          if hp_status resp = 404 then (Err (ErpNotFound i), w')
          else (case hp_body resp of
                  Inl e \<Rightarrow> (Err (map_http_err e), w')
                | Inr body \<Rightarrow>
                    (Ok (unwrap_or (party_from_obj disp body)
                       \<lparr>pt_id = i, pt_name = [], pt_type = ''supplier'', pt_number = None,
                        pt_status = None\<rparr>), w')))"

subsection \<open>The live client keeps the contract\<close>

lemma fusion_gate_Ok_read_only:
  "fusion_gate f True answer = Ok u \<Longrightarrow> \<exists>m. answer = Ok m \<and> om_read_only m"
  by (auto simp: fusion_gate_def split: sum.splits if_splits erp_error.splits)

context erp_backend begin

lemma fusion_call_read_only:
  assumes "ok_state (fst sw)" and "fusion_call cfg send get_meta r True sw = (Inr v, sw')"
  shows "\<exists>m. known (cr_function r) = Some m \<and> om_read_only m"
proof -
  obtain answer s' where a: "get_meta (cr_function r) ''EN'' (fst sw) = (answer, s')" by force
  obtain u where "fusion_gate (cr_function r) True answer = Ok u"
    using assms(2) a by (cases "fusion_gate (cr_function r) True answer") (auto simp: fusion_call_def)
  from fusion_gate_Ok_read_only [OF this] a assms(1) show ?thesis
    using meta_known by blast
qed

lemma fusion_call_ok:
  assumes "ok_state (fst sw)" and "fusion_call cfg send get_meta r ro sw = (res, sw')"
  shows "ok_state (fst sw')"
  using assms
  by (auto simp: fusion_call_def split: prod.splits sum.splits dest: meta_ok)

end

text \<open>The stack the server runs in front of a pod: the live client over the cached catalogue.\<close>

interpretation live: erp_backend "mc_functions mc"
    "\<lambda>sw. cache_ok (mc_functions mc) (\<lambda>_. True) (fst sw)"
    "fusion_meta (cache_operation_metadata (mock_meta mc))"
    "fusion_call cfg send (cache_operation_metadata (mock_meta mc))"
  for mc cfg and send :: "'w http_send"
proof unfold_locales
  fix sw :: "'b meta_cache \<times> 'w" and f l m sw'
  assume "cache_ok (mc_functions mc) (\<lambda>_. True) (fst sw)"
    and "fusion_meta (cache_operation_metadata (mock_meta mc)) f l sw = (Inr m, sw')"
  then show "mc_functions mc f = Some m"
    by (auto simp: fusion_meta_def split: prod.splits dest: cached_mock.meta_known)
next
  fix sw :: "'b meta_cache \<times> 'w" and f l res sw'
  assume "cache_ok (mc_functions mc) (\<lambda>_. True) (fst sw)"
    and "fusion_meta (cache_operation_metadata (mock_meta mc)) f l sw = (res, sw')"
  then show "cache_ok (mc_functions mc) (\<lambda>_. True) (fst sw')"
    by (auto simp: fusion_meta_def split: prod.splits dest: cached_mock.meta_ok)
qed (blast intro: cached_mock.fusion_call_read_only cached_mock.fusion_call_ok)+

subsection \<open>What leaves the server in read-only mode\<close>

definition logging_send :: "'w http_send \<Rightarrow> ('w \<times> http_request list) http_send" where
  "logging_send send q wl =
     (case send q (fst wl) of (res, w') \<Rightarrow> (res, (w', snd wl @ [q])))"

lemma catalog_read_only_ops_get:
  "list_all (\<lambda>m. om_read_only m \<longrightarrow> fst (fusion_dispatch (om_function m)) = GET) seed_functions"
  by code_simp

lemma fusion_call_logged:
  assumes "fusion_call cfg (logging_send send) meta r ro (s, (w, log)) = (res, (s', (w', log')))"
  shows "log' = log \<and> \<not> is_ok res
    \<or> log' = log @ [fusion_request cfg r]
       \<and> is_ok (fusion_gate (cr_function r) ro (fst (meta (cr_function r) ''EN'' s)))"
  using assms
  by (auto simp: fusion_call_def logging_send_def split: prod.splits sum.splits)

lemma live_meta_known:
  assumes "cache_ok (mc_functions mc) (\<lambda>_. True) s"
    and "is_ok (fusion_gate f True (fst (cache_operation_metadata (mock_meta mc) f ''EN'' s)))"
  shows "\<exists>m. mc_functions mc f = Some m \<and> om_read_only m"
proof -
  obtain answer s' where a: "cache_operation_metadata (mock_meta mc) f ''EN'' s = (answer, s')"
    by force
  with assms(2) obtain u where "fusion_gate f True answer = Ok u"
    by (cases "fusion_gate f True answer") auto
  from fusion_gate_Ok_read_only [OF this] a assms(1) show ?thesis
    using cached_mock.meta_known by blast
qed

lemma live_session_gets:
  assumes "cache_ok (mc_functions mc) (\<lambda>_. True) s"
    and "mc = mock_new identity"
    and "list_all (\<lambda>q. hq_method q = GET \<and> hq_body q = None) log"
  shows "list_all (\<lambda>q. hq_method q = GET \<and> hq_body q = None)
    (snd (snd (snd (call_all
       (fusion_call cfg (logging_send send) (cache_operation_metadata (mock_meta mc)))
       True rs (s, (w, log))))))"
  using assms
proof (induction rs arbitrary: s w log)
  case (Cons r rs)
  let ?call = "fusion_call cfg (logging_send send) (cache_operation_metadata (mock_meta mc))"
  obtain res s1 w1 log1 where c: "?call r True (s, (w, log)) = (res, (s1, (w1, log1)))"
    by (cases "?call r True (s, (w, log))") auto
  have ok: "cache_ok (mc_functions mc) (\<lambda>_. True) s1"
    using cached_mock.fusion_call_ok [of mc "(s, (w, log))"] Cons.prems(1) c by fastforce
  have "list_all (\<lambda>q. hq_method q = GET \<and> hq_body q = None) log1"
    using fusion_call_logged [OF c]
  proof
    assume "log1 = log @ [fusion_request cfg r]
      \<and> is_ok (fusion_gate (cr_function r) True
          (fst (cache_operation_metadata (mock_meta mc) (cr_function r) ''EN'' s)))"
    then obtain m where log1: "log1 = log @ [fusion_request cfg r]"
      and m: "mc_functions mc (cr_function r) = Some m" "om_read_only m"
      using live_meta_known [OF Cons.prems(1)] by blast
    then have "m \<in> set seed_functions" "om_function m = cr_function r"
      using mock_new_functions Cons.prems(2) by blast+
    then have "fst (fusion_dispatch (cr_function r)) = GET"
      using catalog_read_only_ops_get m(2) by (auto simp: list_all_iff)
    then have "hq_method (fusion_request cfg r) = GET \<and> hq_body (fusion_request cfg r) = None"
      by (simp add: fusion_request_def case_prod_beta)
    then show ?thesis using log1 Cons.prems(3) by simp
  qed (use Cons.prems(3) in simp)
  from Cons.IH [OF ok Cons.prems(2) this] c show ?case
    by (simp add: case_prod_beta)
qed simp

text \<open>In read-only mode the live client, over the cached built-in catalogue, never sends anything
  but \<open>GET\<close> requests without a body to the pod, whatever operations are requested, in whatever
  order, and whatever the pod answers.\<close>

lemma read_only_session_only_gets:
  "list_all (\<lambda>q. hq_method q = GET \<and> hq_body q = None)
    (snd (snd (snd (call_all
       (fusion_call cfg (logging_send send)
          (cache_operation_metadata (mock_meta (mock_new identity))))
       True requests (cache_new s ttl clock, (w, []))))))"
  by (rule live_session_gets [OF _ refl])
    (simp_all add: cache_ok_def entries_known_def cache_new_def)

text \<open>The operations whose ids end in no HTTP verb are sent as \<open>GET\<close> although they modify state: the
  bulk journal import and the transaction commit and rollback of the catalogue.\<close>

lemma write_ops_sent_as_get:
  "map om_function (filter (\<lambda>m. \<not> om_read_only m \<and> fst (fusion_dispatch (om_function m)) = GET)
      seed_functions)
   = [''fusion.erpintegrations.importBulkData.journalImport'', ''fusion.fnd.sandbox.publish'',
      ''ebs.fnd.transaction.commit'', ''ebs.fnd.transaction.rollback'']"
  by code_simp

end
