(* ===== verification/Pool.thy ===== *)
theory Pool
  imports Erp_Error Systems
begin

text \<open>
  The connection pool (\<open>crates/oracle-automate-erp/src/pool.rs\<close>): a counting semaphore with
  \<open>cap\<close> permits. A task that acquires waits until a permit is free and gives it back when the
  permit is dropped; a task that only tries gets an error instead of waiting. The state counts the
  free permits, the permits held and the waiting tasks.
\<close>

record pool =
  pl_cap :: nat
  pl_available :: nat
  pl_held :: nat
  pl_waiting :: nat

definition pool_new :: "nat \<Rightarrow> pool" where
  "pool_new cap = \<lparr>pl_cap = max cap 1, pl_available = max cap 1, pl_held = 0, pl_waiting = 0\<rparr>"

definition take_permit :: "pool \<Rightarrow> pool" where
  "take_permit p = p\<lparr>pl_available := pl_available p - 1, pl_held := pl_held p + 1\<rparr>"

text \<open>The semaphore is never closed, so \<open>acquire\<close> itself has no error: it takes a permit or waits.\<close>

definition pool_acquire :: "pool \<Rightarrow> pool" where
  "pool_acquire p =
     (if 0 < pl_available p then take_permit p else p\<lparr>pl_waiting := pl_waiting p + 1\<rparr>)"

definition pool_try_acquire :: "pool \<Rightarrow> unit erp_result \<times> pool" where
  "pool_try_acquire p =
     (if 0 < pl_available p then (Ok (), take_permit p) else (Err (ErpPoolExhausted (pl_cap p)), p))"

text \<open>Dropping a permit frees it, or hands it to a waiting task.\<close>

definition pool_release :: "pool \<Rightarrow> pool" where
  "pool_release p =
     (if 0 < pl_waiting p then p\<lparr>pl_waiting := pl_waiting p - 1\<rparr>
      else p\<lparr>pl_available := pl_available p + 1, pl_held := pl_held p - 1\<rparr>)"

datatype pool_event = Acquire | Try_Acquire | Release

inductive pool_step :: "pool \<Rightarrow> pool_event \<Rightarrow> pool \<Rightarrow> bool" where
  pool_acquires: "pool_step p Acquire (pool_acquire p)"
| pool_tries: "pool_step p Try_Acquire (snd (pool_try_acquire p))"
| pool_releases: "0 < pl_held p \<Longrightarrow> pool_step p Release (pool_release p)"

inductive_simps pool_step_simps: "pool_step p ev q"

definition pool_init :: "pool \<Rightarrow> bool" where
  "pool_init p \<longleftrightarrow> pl_available p = pl_cap p \<and> pl_held p = 0 \<and> pl_waiting p = 0 \<and> 0 < pl_cap p"

definition pool_inv :: "pool \<Rightarrow> bool" where
  "pool_inv p \<longleftrightarrow> pl_available p + pl_held p = pl_cap p \<and> 0 < pl_cap p
     \<and> (pl_waiting p = 0 \<or> pl_available p = 0)"

lemma pool_new_init: "pool_init (pool_new cap)"
  by (simp add: pool_init_def pool_new_def)

lemma pool_step_cap: "pool_step p ev q \<Longrightarrow> pl_cap q = pl_cap p"
  by (auto simp: pool_step_simps pool_acquire_def pool_try_acquire_def pool_release_def
      take_permit_def)

interpretation pool: invariant_system pool_init pool_step pool_inv
  by unfold_locales
    (auto simp: pool_init_def pool_inv_def pool_step_simps pool_acquire_def pool_try_acquire_def
      pool_release_def take_permit_def split: if_splits)

lemma pool_run_cap: "run pool_step p es q \<Longrightarrow> pl_cap q = pl_cap p"
  by (induction es arbitrary: p) (auto simp: run_cons_iff dest: pool_step_cap)

text \<open>In every interleaving of acquisitions, attempts and releases, never more calls are in flight
  than the pool's size (at least one), no permit is lost or duplicated, and no task waits while a
  permit is free.\<close>

lemma pool_bound_enforced:
  assumes "run pool_step (pool_new cap) es p"
  shows "pl_held p \<le> max cap 1 \<and> pl_held p + pl_available p = max cap 1
     \<and> \<not> (0 < pl_waiting p \<and> 0 < pl_available p)
     \<and> is_ok (fst (pool_try_acquire p)) = (pl_held p < max cap 1)"
proof -
  have "reachable pool_init pool_step p"
    by (rule reachable_run [OF _ assms]) (rule reachable.reach_init, rule pool_new_init)
  then have "pool_inv p" by (rule pool.reachable_inv)
  moreover have "pl_cap p = max cap 1"
    using pool_run_cap [OF assms] by (simp add: pool_new_def)
  ultimately show ?thesis
    by (auto simp: pool_inv_def pool_try_acquire_def)
qed

lemma pool_bound_enforced_witness:
  "\<exists>p. run pool_step (pool_new 1) [Acquire, Acquire] p \<and> pl_held p = 1 \<and> pl_waiting p = 1
     \<and> \<not> is_ok (fst (pool_try_acquire p))"
proof -
  let ?p = "\<lparr>pl_cap = 1, pl_available = 0, pl_held = 1, pl_waiting = 1\<rparr>"
  have run: "run pool_step (pool_new 1) [Acquire, Acquire] ?p"
    by (simp add: run_cons_iff pool_step_simps pool_new_def pool_acquire_def take_permit_def)
  from pool_bound_enforced [OF run] have "\<not> is_ok (fst (pool_try_acquire ?p))" by simp
  with run show ?thesis by (intro exI [of _ ?p]) simp
qed

end
