(* ===== verification/Credentials.thy ===== *)
theory Credentials
  imports Erp_Types
begin

text \<open>
  The layered credential provider (\<open>crates/oracle-automate-erp/src/credentials.rs\<close>). The process
  environment is a partial function, the file system one from paths to contents, and
  \<open>serde_json::from_str\<close> for the file's schema is a parameter that gives the fields or the text of
  its error. The warning about loose file permissions only logs and is not modelled.
\<close>

datatype credential_source =
    Src_Env | Src_Keyring | Src_EncryptedFile | Src_DotEnv | Src_Static | Src_None

fun source_debug :: "credential_source \<Rightarrow> string" where
  "source_debug Src_Env = ''Env''"
| "source_debug Src_Keyring = ''Keyring''"
| "source_debug Src_EncryptedFile = ''EncryptedFile''"
| "source_debug Src_DotEnv = ''DotEnv''"
| "source_debug Src_Static = ''Static''"
| "source_debug Src_None = ''None''"

record credentials =
  cd_base_url :: string
  cd_instance :: string
  cd_client :: string
  cd_user :: string
  cd_password :: string
  cd_language :: string
  cd_proxy_url :: "string option"
  cd_source :: credential_source

fun opt_str :: "string option \<Rightarrow> json" where
  "opt_str None = JNull"
| "opt_str (Some s) = JStr s"

definition credentials_redacted :: "credentials \<Rightarrow> json" where
  "credentials_redacted c = json_obj
     [(''base_url'', JStr (cd_base_url c)), (''instance'', JStr (cd_instance c)),
      (''client'', JStr (cd_client c)), (''user'', JStr (cd_user c)),
      (''language'', JStr (cd_language c)), (''proxy_url'', opt_str (cd_proxy_url c)),
      (''source'', JStr (source_debug (cd_source c))), (''password'', JStr ''***'')]"

text \<open>What the manual \<open>Debug\<close> prints: the fields and their values, in order.\<close>

definition credentials_debug :: "credentials \<Rightarrow> (string \<times> json) list" where
  "credentials_debug c =
     [(''base_url'', JStr (cd_base_url c)), (''instance'', JStr (cd_instance c)),
      (''client'', JStr (cd_client c)), (''user'', JStr (cd_user c)), (''password'', JStr ''***''),
      (''language'', JStr (cd_language c)), (''proxy_url'', opt_str (cd_proxy_url c)),
      (''source'', JStr (source_debug (cd_source c)))]"

type_synonym environment = "string \<Rightarrow> string option"
type_synonym provider = "credentials option erp_result"

subsection \<open>The providers\<close>

definition needed_vars :: "string list" where
  "needed_vars =
     [''ORACLE_FUSION_BASE_URL'', ''ORACLE_FUSION_INSTANCE'', ''ORACLE_FUSION_CLIENT'',
      ''ORACLE_FUSION_USER'', ''ORACLE_FUSION_PASSWORD'']"

text \<open>The \<open>Debug\<close> form of a list of names without characters that need escaping.\<close>

definition debug_names :: "string list \<Rightarrow> string" where
  "debug_names ns =
     ''['' @ join '', '' (map (\<lambda>n. [quote_char] @ n @ [quote_char]) ns) @ '']''"

definition env_fetch :: "environment \<Rightarrow> provider" where
  "env_fetch env =
     (let present = filter (\<lambda>k. env k \<noteq> None) needed_vars in
      if present = [] then Ok None
      else if length present < length needed_vars then
        Err (ErpAuthFailed (''partial SAP env vars: missing ''
          @ debug_names (filter (\<lambda>k. env k = None) needed_vars)))
      else Ok (Some
        \<lparr>cd_base_url = the (env ''ORACLE_FUSION_BASE_URL''),
         cd_instance = the (env ''ORACLE_FUSION_INSTANCE''),
         cd_client = the (env ''ORACLE_FUSION_CLIENT''),
         cd_user = the (env ''ORACLE_FUSION_USER''),
         cd_password = the (env ''ORACLE_FUSION_PASSWORD''),
         cd_language = unwrap_or (env ''ORACLE_FUSION_LANGUAGE'') ''EN'',
         cd_proxy_url = env ''ORACLE_FUSION_PROXY'',
         cd_source = Src_Env\<rparr>))"

definition static_fetch :: "credentials \<Rightarrow> provider" where
  "static_fetch creds = Ok (Some creds)"

text \<open>The path of the file provider, when it is configured.\<close>

definition file_provider_from_env :: "environment \<Rightarrow> string option" where
  "file_provider_from_env env =
     (case env ''ORACLE_AUTOMATE_CREDENTIALS_FILE'' of
        Some s \<Rightarrow> if s \<noteq> [] then Some s else None
      | None \<Rightarrow> None)"

text \<open>The schema of the file: optional fields are \<open>None\<close> when absent.\<close>

record file_creds =
  fc_base_url :: string
  fc_instance :: "string option"
  fc_client :: string
  fc_user :: string
  fc_password :: string
  fc_language :: "string option"
  fc_proxy_url :: "string option"

definition file_fetch ::
  "(string \<Rightarrow> string + file_creds) \<Rightarrow> (string \<Rightarrow> string option) \<Rightarrow> string \<Rightarrow> provider" where
  "file_fetch from_str files path =
     (case files path of
        None \<Rightarrow> Ok None
      | Some raw \<Rightarrow>
          (case from_str raw of
             Inl e \<Rightarrow> Err (ErpAuthFailed (''credentials file '' @ path @ '' is not valid JSON: '' @ e))
           | Inr fc \<Rightarrow> Ok (Some
               \<lparr>cd_base_url = fc_base_url fc, cd_instance = unwrap_or (fc_instance fc) ''00'',
                cd_client = fc_client fc, cd_user = fc_user fc, cd_password = fc_password fc,
                cd_language = unwrap_or (fc_language fc) ''EN'',
                cd_proxy_url = fc_proxy_url fc, cd_source = Src_EncryptedFile\<rparr>)))"

fun layered_fetch :: "provider list \<Rightarrow> provider" where
  "layered_fetch [] = Ok None"
| "layered_fetch (p # ps) =
     (case p of
        Inr (Some c) \<Rightarrow> Ok (Some c)
      | Inr None \<Rightarrow> layered_fetch ps
      | Inl e \<Rightarrow> Err e)"

subsection \<open>The chain\<close>

text \<open>The chain answers with the first provider that is not empty, an error included: an error is
  never skipped in favour of a later provider, and only an all-empty chain has no credentials.\<close>

lemma layered_fetch_first_non_empty:
  "layered_fetch ps = (case find (\<lambda>p. p \<noteq> Ok None) ps of None \<Rightarrow> Ok None | Some p \<Rightarrow> p)"
  by (induction ps rule: layered_fetch.induct) (auto split: sum.splits option.splits)

text \<open>Nothing shown of credentials depends on the password: neither the redacted summary nor the
  debug output changes with it.\<close>

lemma password_never_shown:
  "credentials_redacted (c\<lparr>cd_password := p\<rparr>) = credentials_redacted c
     \<and> credentials_debug (c\<lparr>cd_password := p\<rparr>) = credentials_debug c"
  by (simp add: credentials_redacted_def credentials_debug_def)

lemma env_fetch_partial:
  "list_ex (\<lambda>k. env k \<noteq> None) needed_vars \<Longrightarrow> list_ex (\<lambda>k. env k = None) needed_vars \<Longrightarrow>
     \<exists>msg. env_fetch env = Err (ErpAuthFailed msg)"
  by (auto simp: env_fetch_def needed_vars_def)

end
