(* ===== verification/Memory.thy ===== *)
theory Memory
  imports Json "HOL-Library.AList"
begin

text \<open>
  Working and episodic memory (\<open>crates/oracle-automate-memory/src/lib.rs\<close>). The locks make every
  operation atomic, so the stores are plain values; the two hash maps are association lists
  without duplicate keys, and \<open>created_at_ms\<close> is given by the caller of \<open>entry_new\<close>.
\<close>

datatype memory_tier = Working | Episodic | Semantic | Procedural

record memory_entry =
  me_tier :: memory_tier
  me_key :: string
  me_value :: json
  me_trust_class :: string
  me_tenant :: "string option"
  me_created_at_ms :: nat

definition entry_new :: "memory_tier \<Rightarrow> string \<Rightarrow> json \<Rightarrow> nat \<Rightarrow> memory_entry" where
  "entry_new tier key value now_ms =
     \<lparr>me_tier = tier, me_key = key, me_value = value, me_trust_class = ''unverified'',
      me_tenant = None, me_created_at_ms = now_ms\<rparr>"

definition entry_with_trust :: "string \<Rightarrow> memory_entry \<Rightarrow> memory_entry" where
  "entry_with_trust trust e = e\<lparr>me_trust_class := trust\<rparr>"

definition entry_with_tenant :: "string \<Rightarrow> memory_entry \<Rightarrow> memory_entry" where
  "entry_with_tenant tenant e = e\<lparr>me_tenant := Some tenant\<rparr>"

subsection \<open>Working memory\<close>

record working_memory =
  wm_sessions :: "(string \<times> memory_entry list) list"
  wm_cap :: nat

definition DEFAULT_WORKING_CAP :: nat where "DEFAULT_WORKING_CAP = 64"

definition working_with_capacity :: "nat \<Rightarrow> working_memory" where
  "working_with_capacity cap = \<lparr>wm_sessions = [], wm_cap = max cap 1\<rparr>"

definition working_new :: working_memory where
  "working_new = working_with_capacity DEFAULT_WORKING_CAP"

text \<open>The derived \<open>Default\<close>: every field takes its default, so the capacity is 0.\<close>

definition working_default :: working_memory where
  "working_default = \<lparr>wm_sessions = [], wm_cap = 0\<rparr>"

definition session_queue :: "working_memory \<Rightarrow> string \<Rightarrow> memory_entry list" where
  "session_queue w sid = unwrap_or (map_of (wm_sessions w) sid) []"

definition wm_append :: "string \<Rightarrow> memory_entry \<Rightarrow> working_memory \<Rightarrow> working_memory" where
  "wm_append sid entry w =
     (let q = session_queue w sid;
          q' = (if length q = wm_cap w then tl q else q)
      in w\<lparr>wm_sessions := AList.update sid (q' @ [entry]) (wm_sessions w)\<rparr>)"

definition wm_recent :: "working_memory \<Rightarrow> string \<Rightarrow> nat \<Rightarrow> memory_entry list" where
  "wm_recent w sid limit =
     (case map_of (wm_sessions w) sid of Some q \<Rightarrow> take limit (rev q) | None \<Rightarrow> [])"

definition wm_clear :: "string \<Rightarrow> working_memory \<Rightarrow> working_memory" where
  "wm_clear sid w = w\<lparr>wm_sessions := AList.delete sid (wm_sessions w)\<rparr>"

definition wm_session_count :: "working_memory \<Rightarrow> nat" where
  "wm_session_count w = length (wm_sessions w)"

text \<open>The abstract memory: everything appended to a session since it was last cleared.\<close>

datatype wm_op = Wm_Append string memory_entry | Wm_Clear string

fun wm_apply :: "working_memory \<Rightarrow> wm_op \<Rightarrow> working_memory" where
  "wm_apply w (Wm_Append sid e) = wm_append sid e w"
| "wm_apply w (Wm_Clear sid) = wm_clear sid w"

fun wm_history :: "(string \<Rightarrow> memory_entry list) \<Rightarrow> wm_op \<Rightarrow> (string \<Rightarrow> memory_entry list)" where
  "wm_history h (Wm_Append sid e) = h(sid := h sid @ [e])"
| "wm_history h (Wm_Clear sid) = h(sid := [])"

definition last_n :: "nat \<Rightarrow> 'a list \<Rightarrow> 'a list" where
  "last_n n xs = rev (take n (rev xs))"

lemma last_n_Nil [simp]: "last_n n [] = []"
  by (simp add: last_n_def)

lemma length_last_n: "length (last_n n xs) = min n (length xs)"
  by (simp add: last_n_def min.commute)

lemma last_n_snoc:
  "0 < n \<Longrightarrow> last_n n (xs @ [x])
     = (if length (last_n n xs) = n then tl (last_n n xs) else last_n n xs) @ [x]"
proof -
  assume n: "0 < n"
  then obtain m where m: "n = Suc m" by (cases n) auto
  have drop: "last_n n xs = drop (length xs - n) xs" for n :: nat and xs :: "'a list"
    by (simp add: last_n_def rev_take)
  show ?thesis
  proof (cases "n \<le> length xs")
    case True
    then have "tl (drop (length xs - n) xs) = drop (length xs - m) xs"
      by (simp add: m tl_drop drop_Suc [symmetric] Suc_diff_le [symmetric])
    with True show ?thesis by (simp add: drop m)
  next
    case False
    then show ?thesis by (simp add: drop m)
  qed
qed

lemma recent_queue: "wm_recent w sid limit = take limit (rev (session_queue w sid))"
  by (simp add: wm_recent_def session_queue_def split: option.splits)

lemma session_queue_append:
  "session_queue (wm_append sid e w) sid' =
     (if sid' = sid
      then (if length (session_queue w sid) = wm_cap w then tl (session_queue w sid)
            else session_queue w sid) @ [e]
      else session_queue w sid')"
  by (simp add: session_queue_def wm_append_def Let_def update_conv')

lemma session_queue_clear:
  "session_queue (wm_clear sid w) sid' = (if sid' = sid then [] else session_queue w sid')"
  by (simp add: session_queue_def wm_clear_def delete_conv')

lemma wm_apply_cap [simp]: "wm_cap (wm_apply w op) = wm_cap w"
  by (cases op) (simp_all add: wm_append_def wm_clear_def Let_def)

lemma wm_apply_refines:
  "0 < wm_cap w \<Longrightarrow> (\<And>sid. session_queue w sid = last_n (wm_cap w) (h sid)) \<Longrightarrow>
     session_queue (wm_apply w op) sid = last_n (wm_cap w) (wm_history h op sid)"
  by (cases op) (auto simp: session_queue_append session_queue_clear last_n_snoc)

lemma wm_run_refines:
  "0 < wm_cap w \<Longrightarrow> (\<And>sid. session_queue w sid = last_n (wm_cap w) (h sid)) \<Longrightarrow>
     session_queue (foldl wm_apply w ops) sid = last_n (wm_cap w) (foldl wm_history h ops sid)"
proof (induction ops arbitrary: w h)
  case (Cons op ops)
  have "session_queue (wm_apply w op) sid = last_n (wm_cap (wm_apply w op)) (wm_history h op sid)" for sid
    using wm_apply_refines [OF Cons.prems] by simp
  from Cons.IH [OF _ this] Cons.prems(1) show ?case by simp
qed simp

text \<open>The ring buffer implements the unbounded history of its sessions, cut to the capacity: after
  any appends and clears, in any sessions, asking a session for its recent entries gives the newest
  entries appended to it since it was last cleared, newest first, at most the limit and at most
  the capacity of them.\<close>

lemma working_memory_refines_history:
  "wm_recent (foldl wm_apply (working_with_capacity cap) ops) sid limit
   = take (min limit (max cap 1)) (rev (foldl wm_history (\<lambda>_. []) ops sid))"
proof -
  have "session_queue (foldl wm_apply (working_with_capacity cap) ops) sid
      = last_n (max cap 1) (foldl wm_history (\<lambda>_. []) ops sid)"
    using wm_run_refines [of "working_with_capacity cap" "\<lambda>_. []"]
    by (simp add: working_with_capacity_def session_queue_def last_n_def)
  then show ?thesis by (simp add: recent_queue last_n_def)
qed

text \<open>A memory made by the derived \<open>Default\<close> evicts nothing: its sessions grow without bound.\<close>

lemma default_working_memory_unbounded:
  "session_queue (foldl (\<lambda>w e. wm_append sid e w) working_default entries) sid = entries"
proof -
  have "session_queue (foldl (\<lambda>w e. wm_append sid e w) w entries) sid = session_queue w sid @ entries"
    if "wm_cap w = 0" for w
    using that
  proof (induction entries arbitrary: w)
    case (Cons e entries)
    have "session_queue (wm_append sid e w) sid = session_queue w sid @ [e]"
      using Cons.prems by (simp add: session_queue_append)
    with Cons.IH [of "wm_append sid e w"] Cons.prems show ?case
      by (simp add: wm_append_def Let_def)
  qed simp
  from this [of working_default] show ?thesis
    by (simp add: working_default_def session_queue_def)
qed

subsection \<open>Episodic memory\<close>

record episodic_memory =
  ep_entries :: "memory_entry list"
  ep_by_tag :: "(string \<times> nat list) list"

definition episodic_new :: episodic_memory where
  "episodic_new = \<lparr>ep_entries = [], ep_by_tag = []\<rparr>"

definition push_index ::
  "nat \<Rightarrow> (string \<times> nat list) list \<Rightarrow> string \<Rightarrow> (string \<times> nat list) list" where
  "push_index idx by_tag t = AList.update t (unwrap_or (map_of by_tag t) [] @ [idx]) by_tag"

definition ep_record ::
  "memory_entry \<Rightarrow> string list \<Rightarrow> episodic_memory \<Rightarrow> nat \<times> episodic_memory" where
  "ep_record entry tags m =
     (let entries = ep_entries m @ [entry]; idx = length entries - 1
      in (idx, \<lparr>ep_entries = entries, ep_by_tag = foldl (push_index idx) (ep_by_tag m) tags\<rparr>))"

fun visible_to :: "string option \<Rightarrow> memory_entry \<Rightarrow> bool" where
  "visible_to (Some t) e = (case me_tenant e of Some et \<Rightarrow> t = et | None \<Rightarrow> True)"
| "visible_to None e = True"

definition nth_opt :: "'a list \<Rightarrow> nat \<Rightarrow> 'a option" where
  "nth_opt xs i = (if i < length xs then Some (xs ! i) else None)"

definition ep_lookup ::
  "episodic_memory \<Rightarrow> string \<Rightarrow> string option \<Rightarrow> nat \<Rightarrow> memory_entry list" where
  "ep_lookup m tag tenant limit =
     (let idxs = unwrap_or (map_of (ep_by_tag m) tag) [];
          found = List.map_filter (nth_opt (ep_entries m)) (rev idxs)
      in rev (take limit (filter (visible_to tenant) found)))"

definition ep_total :: "episodic_memory \<Rightarrow> nat" where
  "ep_total m = length (ep_entries m)"

record memory_manager =
  mm_working :: working_memory
  mm_episodic :: episodic_memory

definition manager_new :: memory_manager where
  "manager_new = \<lparr>mm_working = working_new, mm_episodic = episodic_new\<rparr>"

definition assemble ::
  "memory_manager \<Rightarrow> string \<Rightarrow> string option \<Rightarrow> string option \<Rightarrow> memory_entry list" where
  "assemble m sid tag tenant =
     wm_recent (mm_working m) sid 8
     @ (case tag of Some t \<Rightarrow> ep_lookup (mm_episodic m) t tenant 8 | None \<Rightarrow> [])"

text \<open>The specification: the episodes recorded under a tag, oldest first.\<close>

definition episodes_tagged ::
  "string \<Rightarrow> (memory_entry \<times> string list) list \<Rightarrow> memory_entry list" where
  "episodes_tagged tag hist =
     concat (map (\<lambda>(e, ts). replicate (length (filter (\<lambda>t. t = tag) ts)) e) hist)"

definition ep_run :: "(memory_entry \<times> string list) list \<Rightarrow> episodic_memory" where
  "ep_run hist = foldl (\<lambda>m (e, ts). snd (ep_record e ts m)) episodic_new hist"

definition tag_index :: "episodic_memory \<Rightarrow> string \<Rightarrow> nat list" where
  "tag_index m tag = unwrap_or (map_of (ep_by_tag m) tag) []"

lemma push_index_all:
  "unwrap_or (map_of (foldl (push_index idx) bt ts) tag) []
     = unwrap_or (map_of bt tag) [] @ replicate (length (filter (\<lambda>t. t = tag) ts)) idx"
proof (induction ts arbitrary: bt)
  case (Cons t ts)
  then show ?case by (simp add: push_index_def update_conv')
qed simp

lemma ep_run_snoc:
  "ep_run (hist @ [(e, ts)]) = snd (ep_record e ts (ep_run hist))"
  by (simp add: ep_run_def)

lemma ep_run_index:
  "ep_entries (ep_run hist) = map fst hist
   \<and> list_all (\<lambda>i. i < length hist) (tag_index (ep_run hist) tag)
   \<and> List.map_filter (nth_opt (map fst hist)) (tag_index (ep_run hist) tag) = episodes_tagged tag hist"
proof (induction hist rule: rev_induct)
  case Nil
  then show ?case
    by (simp add: ep_run_def episodic_new_def tag_index_def episodes_tagged_def List.map_filter_def)
next
  case (snoc et hist)
  obtain e ts where et: "et = (e, ts)" by force
  let ?n = "length (filter (\<lambda>t. t = tag) ts)"
  have entries: "ep_entries (ep_run (hist @ [et])) = map fst (hist @ [et])"
    using snoc by (simp add: et ep_run_snoc ep_record_def Let_def)
  have index: "tag_index (ep_run (hist @ [et])) tag
      = tag_index (ep_run hist) tag @ replicate ?n (length hist)"
    using snoc by (simp add: et ep_run_snoc ep_record_def Let_def tag_index_def push_index_all)
  have old: "List.map_filter (nth_opt (map fst (hist @ [et]))) (tag_index (ep_run hist) tag)
      = episodes_tagged tag hist"
  proof -
    have "List.map_filter (nth_opt (map fst (hist @ [et]))) (tag_index (ep_run hist) tag)
        = List.map_filter (nth_opt (map fst hist)) (tag_index (ep_run hist) tag)"
      using snoc by (intro map_filter_cong) (auto simp: nth_opt_def nth_append list_all_iff)
    with snoc show ?thesis by simp
  qed
  have new: "List.map_filter (nth_opt (map fst (hist @ [et]))) (replicate ?n (length hist))
      = replicate ?n e"
    by (rule map_filter_replicate_Some) (simp add: nth_opt_def et nth_append)
  have "list_all (\<lambda>i. i < length (hist @ [et])) (tag_index (ep_run (hist @ [et])) tag)"
    using snoc unfolding index by (auto simp: list_all_iff)
  with entries old new show ?case
    unfolding index by (simp add: map_filter_append episodes_tagged_def et)
qed

text \<open>Looking up a tag gives, oldest first, the newest episodes recorded under it that the tenant
  may see, at most the limit: with a tenant given, never an episode of another tenant.\<close>

lemma episodic_lookup_spec:
  "ep_lookup (ep_run hist) tag tenant limit
     = last_n limit (filter (visible_to tenant) (episodes_tagged tag hist))
   \<and> list_all (\<lambda>e. me_tenant e = None \<or> tenant = None \<or> me_tenant e = tenant)
       (ep_lookup (ep_run hist) tag tenant limit)"
proof -
  have eq: "ep_lookup (ep_run hist) tag tenant limit
      = last_n limit (filter (visible_to tenant) (episodes_tagged tag hist))"
    using ep_run_index [of hist tag]
    by (simp add: ep_lookup_def Let_def last_n_def tag_index_def [symmetric] map_filter_rev rev_filter)
  have "list_all (visible_to tenant) (ep_lookup (ep_run hist) tag tenant limit)"
    by (auto simp: eq last_n_def list_all_iff dest: in_set_takeD)
  then have "list_all (\<lambda>e. me_tenant e = None \<or> tenant = None \<or> me_tenant e = tenant)
       (ep_lookup (ep_run hist) tag tenant limit)"
    by (cases tenant) (auto simp: list_all_iff split: option.splits, metis not_None_eq)
  with eq show ?thesis by blast
qed

end
