(* ===== verification/Scheduler.thy ===== *)
theory Scheduler
  imports Json
begin

text \<open>
  The proactive scheduler (\<open>crates/oracle-automate-scheduler/src/lib.rs\<close>): the time to the next
  firing of each cadence, in whole seconds, and the firing of jobs with its statistics. The job
  executor is any function of the job and of the outside state; the clock readings of a firing are
  a function of how many firings came before. Reading \<open>scheduler.toml\<close> is a library's and not
  modelled.
\<close>

datatype schedule =
    Every_N_Seconds nat
  | Every_N_Minutes nat
  | Hourly nat
  | Daily nat nat
  | Weekly nat nat nat
  | Quarterly nat nat nat

record scheduled_job =
  sj_name :: string
  sj_schedule :: schedule
  sj_tool :: string
  sj_arguments :: json
  sj_channel :: "string option"
  sj_enabled :: bool

definition target_second :: "nat \<Rightarrow> nat \<Rightarrow> nat" where
  "target_second hour minute = (hour * 3600 + minute * 60) mod 86400"

text \<open>The weekday of a time, 1 for Monday: the epoch was a Thursday.\<close>

definition weekday_of :: "nat \<Rightarrow> nat" where
  "weekday_of now = (now div 86400 + 3) mod 7 + 1"

fun next_in :: "schedule \<Rightarrow> nat \<Rightarrow> nat" where
  "next_in (Every_N_Seconds secs) now = secs"
| "next_in (Every_N_Minutes mins) now = mins * 60"
| "next_in (Hourly minute) now =
     (let m = min minute 59; now_min = (now div 60) mod 60;
          delta = (if now_min < m then m - now_min else 60 - (now_min - m))
      in delta * 60)"
| "next_in (Daily hour minute) now =
     (let target = target_second hour minute; now_in_day = now mod 86400 in
      if now_in_day < target then target - now_in_day else 86400 - (now_in_day - target))"
| "next_in (Weekly weekday hour minute) now =
     (let now_day = weekday_of now; target = min (max weekday 1) 7;
          target_secs = target_second hour minute; now_in_day = now mod 86400;
          day_offset = (if now_day \<le> target then target - now_day else 7 - (now_day - target));
          day_offset' = (if day_offset = 0 \<and> target_secs \<le> now_in_day then 7 else day_offset)
      in day_offset' * 86400 + (target_secs - now_in_day))"
| "next_in (Quarterly day hour minute) now = 90 * 86400"

subsection \<open>Firing jobs\<close>

record schedule_report =
  sc_job :: string
  sc_fired_at_ms :: nat
  sc_duration_ms :: nat
  sc_ok :: bool
  sc_summary :: string

record scheduler_stats =
  ss_jobs_declared :: nat
  ss_fires :: nat
  ss_errors :: nat
  ss_last :: "schedule_report option"

record scheduler =
  sd_jobs :: "scheduled_job list"
  sd_stats :: scheduler_stats

definition scheduler_new :: "scheduled_job list \<Rightarrow> scheduler" where
  "scheduler_new jobs =
     \<lparr>sd_jobs = jobs,
      sd_stats = \<lparr>ss_jobs_declared = length jobs, ss_fires = 0, ss_errors = 0, ss_last = None\<rparr>\<rparr>"

type_synonym 'x executor = "scheduled_job \<Rightarrow> 'x \<Rightarrow> (string + string) \<times> 'x"

text \<open>The clock: when a firing starts and how long it takes, in milliseconds.\<close>

definition fire_once ::
  "'x executor \<Rightarrow> (nat \<Rightarrow> nat \<times> nat) \<Rightarrow> nat \<Rightarrow> scheduler \<Rightarrow> 'x
     \<Rightarrow> schedule_report option \<times> scheduler \<times> 'x" where
  "fire_once invoke clock idx sched x =
     (if length (sd_jobs sched) \<le> idx then (None, sched, x)
      else
        (let job = sd_jobs sched ! idx in
         if \<not> sj_enabled job then (None, sched, x)
         else
           (case invoke job x of (res, x') \<Rightarrow>
             (let st = sd_stats sched;
                  report = \<lparr>sc_job = sj_name job, sc_fired_at_ms = fst (clock (ss_fires st)),
                            sc_duration_ms = snd (clock (ss_fires st)), sc_ok = is_ok res,
                            sc_summary = (case res of Inr s \<Rightarrow> s | Inl e \<Rightarrow> e)\<rparr>;
                  st' = st\<lparr>ss_fires := ss_fires st + 1,
                           ss_errors := (if is_ok res then ss_errors st else ss_errors st + 1),
                           ss_last := Some report\<rparr>
              in (Some report, sched\<lparr>sd_stats := st'\<rparr>, x')))))"

fun fire_from ::
  "'x executor \<Rightarrow> (nat \<Rightarrow> nat \<times> nat) \<Rightarrow> nat list \<Rightarrow> scheduler \<Rightarrow> 'x
     \<Rightarrow> schedule_report list \<times> scheduler \<times> 'x" where
  "fire_from invoke clock [] sched x = ([], sched, x)"
| "fire_from invoke clock (i # ids) sched x =
     (case fire_once invoke clock i sched x of (r, sched1, x1) \<Rightarrow>
       (case fire_from invoke clock ids sched1 x1 of (rs, sched2, x2) \<Rightarrow>
         ((case r of Some rep \<Rightarrow> rep # rs | None \<Rightarrow> rs), sched2, x2)))"

definition fire_all_now ::
  "'x executor \<Rightarrow> (nat \<Rightarrow> nat \<times> nat) \<Rightarrow> scheduler \<Rightarrow> 'x
     \<Rightarrow> schedule_report list \<times> scheduler \<times> 'x" where
  "fire_all_now invoke clock sched x = fire_from invoke clock [0..<length (sd_jobs sched)] sched x"

subsection \<open>The cadences\<close>

text \<open>The distance to the next time \<open>t\<close> on a clock of period \<open>k\<close> that shows \<open>r\<close>.\<close>

definition clock_gap :: "nat \<Rightarrow> nat \<Rightarrow> nat \<Rightarrow> nat" where
  "clock_gap k t r = (if r < t then t - r else k - (r - t))"

lemma clock_gap:
  assumes "r < k" "t < k"
  shows "0 < clock_gap k t r" "clock_gap k t r \<le> k"
    "r + clock_gap k t r = t \<or> r + clock_gap k t r = t + k"
  using assms by (auto simp: clock_gap_def)

lemma clock_gap_mod:
  assumes "t < k"
  shows "(a + clock_gap k t (a mod k)) mod k = t"
proof -
  have "a mod k < k" using assms by simp
  note gap = clock_gap(3) [OF this assms]
  have "(a + clock_gap k t (a mod k)) mod k = (a mod k + clock_gap k t (a mod k)) mod k"
    by (simp add: mod_add_left_eq)
  also have "\<dots> = t" using gap assms by auto
  finally show ?thesis .
qed

lemma target_second_less: "target_second h m < 86400"
  by (simp add: target_second_def)

text \<open>Daily and hourly jobs: the next firing is strictly in the future, at most one period away,
  and falls on the configured second of the day, respectively on the configured minute of the
  hour (minutes above 59 count as 59).\<close>

lemma daily_hourly_on_time:
  "0 < next_in (Daily h m) now \<and> next_in (Daily h m) now \<le> 86400
   \<and> (now + next_in (Daily h m) now) mod 86400 = target_second h m
   \<and> 0 < next_in (Hourly m) now \<and> next_in (Hourly m) now \<le> 3600
   \<and> ((now + next_in (Hourly m) now) div 60) mod 60 = min m 59"
proof -
  have daily: "next_in (Daily h m) now = clock_gap 86400 (target_second h m) (now mod 86400)"
    by (simp add: Let_def clock_gap_def)
  have hourly: "next_in (Hourly m) now = clock_gap 60 (min m 59) ((now div 60) mod 60) * 60"
    by (simp add: Let_def clock_gap_def)
  have m: "min m 59 < (60::nat)" by (simp add: min_def)
  have "(now + clock_gap 60 (min m 59) ((now div 60) mod 60) * 60) div 60
      = now div 60 + clock_gap 60 (min m 59) ((now div 60) mod 60)"
    by simp
  then have "((now + next_in (Hourly m) now) div 60) mod 60 = min m 59"
    unfolding hourly using clock_gap_mod [OF m, of "now div 60"] by (simp only:)
  moreover have "0 < next_in (Hourly m) now" "next_in (Hourly m) now \<le> 3600"
    unfolding hourly
    using clock_gap(1,2) [OF _ m, of "(now div 60) mod 60"] mult_le_mono1 [of _ 60 60] by simp_all
  moreover have "0 < next_in (Daily h m) now" "next_in (Daily h m) now \<le> 86400"
    "(now + next_in (Daily h m) now) mod 86400 = target_second h m"
    unfolding daily
    using clock_gap(1,2) [OF _ target_second_less, of "now mod 86400"]
      clock_gap_mod [OF target_second_less, of now] by simp_all
  ultimately show ?thesis by blast
qed

lemma week_offset:
  fixes k t :: nat
  assumes "k < 7" "1 \<le> t" "t \<le> 7"
  defines "off \<equiv> (if k + 1 \<le> t then t - (k + 1) else 7 - (k + 1 - t))"
  shows "k + (if off = 0 \<and> late then 7 else off) + 1 = t
       \<or> k + (if off = 0 \<and> late then 7 else off) + 1 = t + 7"
  using assms by auto

text \<open>Weekly jobs fire on the configured weekday, but on time only when the time of day of the
  computation is not later than the configured one: otherwise the firing is at the time of day of
  the computation instead.\<close>

lemma weekly_fires_on_weekday:
  "weekday_of (now + next_in (Weekly wd h m) now) = min (max wd 1) 7
   \<and> (now + next_in (Weekly wd h m) now) mod 86400 = max (target_second h m) (now mod 86400)"
proof -
  define t where "t = min (max wd 1) 7"
  define k where "k = (now div 86400 + 3) mod 7"
  define s where "s = target_second h m - now mod 86400"
  define off where "off = next_in (Weekly wd h m) now div 86400"
  have t: "1 \<le> t" "t \<le> 7" by (simp_all add: t_def)
  have k: "k < 7" by (simp add: k_def)
  have s: "s < 86400" "now mod 86400 + s = max (target_second h m) (now mod 86400)"
    using target_second_less [of h m] by (auto simp: s_def max_def)
  obtain n where n: "next_in (Weekly wd h m) now = n * 86400 + s"
    "k + n + 1 = t \<or> k + n + 1 = t + 7"
  proof -
    let ?off = "(if k + 1 \<le> t then t - (k + 1) else 7 - (k + 1 - t))"
    let ?n = "(if ?off = 0 \<and> target_second h m \<le> now mod 86400 then 7 else ?off)"
    have "next_in (Weekly wd h m) now = ?n * 86400 + s"
      by (simp only: next_in.simps Let_def weekday_of_def k_def s_def t_def)
    then show thesis using week_offset [OF k t] by (rule that)
  qed
  have small: "now mod 86400 + s < 86400"
    using s(2) target_second_less [of h m] by (simp add: max_def)
  have sum: "now + next_in (Weekly wd h m) now = (now mod 86400 + s) + (now div 86400 + n) * 86400"
    unfolding n(1) by (simp add: algebra_simps)
  have day_split: "(x + y * 86400) div 86400 = y" "(x + y * 86400) mod 86400 = x"
    if "x < 86400" for x y :: nat using that by simp_all
  have d: "(now + next_in (Weekly wd h m) now) div 86400 = now div 86400 + n"
    unfolding sum by (rule day_split(1) [OF small])
  have md: "(now + next_in (Weekly wd h m) now) mod 86400 = now mod 86400 + s"
    unfolding sum by (rule day_split(2) [OF small])
  have "(now div 86400 + n + 3) mod 7 = (k + n) mod 7"
    by (metis add.assoc add.commute k_def mod_add_left_eq)
  also have "(k + n) mod 7 = t - 1"
  proof -
    from n(2) t(1) have "k + n = t - 1 \<or> k + n = (t - 1) + 7" by linarith
    moreover have "(t - 1) mod 7 = t - 1" using t by simp
    ultimately show ?thesis by (elim disjE) simp_all
  qed
  finally have "weekday_of (now + next_in (Weekly wd h m) now) = t"
    using t unfolding weekday_of_def d by simp
  then show ?thesis unfolding md s(2) t_def by blast
qed

subsection \<open>Statistics\<close>

text \<open>What the firing of a list of jobs does, without the scheduler: the reports' outcomes.\<close>

fun outcomes :: "'x executor \<Rightarrow> scheduled_job list \<Rightarrow> 'x \<Rightarrow> (string \<times> bool) list \<times> 'x" where
  "outcomes invoke [] x = ([], x)"
| "outcomes invoke (j # js) x =
     (if sj_enabled j then
        (case invoke j x of (res, x1) \<Rightarrow>
          (case outcomes invoke js x1 of (os, x2) \<Rightarrow> ((sj_name j, is_ok res) # os, x2)))
      else outcomes invoke js x)"

lemma fire_once_jobs [simp]: "sd_jobs (fst (snd (fire_once invoke clock i sched x))) = sd_jobs sched"
  by (simp add: fire_once_def Let_def split: prod.splits)

lemma fire_from_outcomes:
  "list_all (\<lambda>i. i < length (sd_jobs sched)) ids \<Longrightarrow>
   fire_from invoke clock ids sched x = (rs, sched', x') \<Longrightarrow>
     map (\<lambda>r. (sc_job r, sc_ok r)) rs = fst (outcomes invoke (map (\<lambda>i. sd_jobs sched ! i) ids) x)
     \<and> x' = snd (outcomes invoke (map (\<lambda>i. sd_jobs sched ! i) ids) x)
     \<and> sd_jobs sched' = sd_jobs sched
     \<and> ss_jobs_declared (sd_stats sched') = ss_jobs_declared (sd_stats sched)
     \<and> ss_fires (sd_stats sched') = ss_fires (sd_stats sched) + length rs
     \<and> ss_errors (sd_stats sched') = ss_errors (sd_stats sched) + length (filter (\<lambda>r. \<not> sc_ok r) rs)
     \<and> ss_last (sd_stats sched') = (if rs = [] then ss_last (sd_stats sched) else Some (last rs))"
proof (induction ids arbitrary: sched x rs sched' x')
  case (Cons i ids)
  obtain r sched1 x1 where f: "fire_once invoke clock i sched x = (r, sched1, x1)"
    by (cases "fire_once invoke clock i sched x") auto
  obtain rs1 where g: "fire_from invoke clock ids sched1 x1 = (rs1, sched', x')"
    and rs: "rs = (case r of Some rep \<Rightarrow> rep # rs1 | None \<Rightarrow> rs1)"
    using Cons.prems(2) f by (auto split: prod.splits)
  have jobs: "sd_jobs sched1 = sd_jobs sched"
    using fire_once_jobs [of invoke clock i sched x] f by simp
  have "list_all (\<lambda>i. i < length (sd_jobs sched1)) ids" using Cons.prems(1) jobs by simp
  note IH = Cons.IH [OF this g]
  have i: "i < length (sd_jobs sched)" using Cons.prems(1) by simp
  show ?case
  proof (cases "sj_enabled (sd_jobs sched ! i)")
    case True
    obtain res y where inv: "invoke (sd_jobs sched ! i) x = (res, y)" by force
    obtain rep where rep: "r = Some rep" "sc_job rep = sj_name (sd_jobs sched ! i)"
        "sc_ok rep = is_ok res"
      using f i True inv by (auto simp: fire_once_def Let_def)
    have "x1 = y" "ss_jobs_declared (sd_stats sched1) = ss_jobs_declared (sd_stats sched)"
        "ss_fires (sd_stats sched1) = ss_fires (sd_stats sched) + 1"
        "ss_errors (sd_stats sched1) = ss_errors (sd_stats sched) + (if is_ok res then 0 else 1)"
        "ss_last (sd_stats sched1) = r"
      using f i True inv by (auto simp: fire_once_def Let_def)
    then show ?thesis
      using IH rs jobs rep True inv by (simp add: case_prod_beta)
  next
    case False
    then have "r = None" "sched1 = sched" "x1 = x" using f i by (auto simp: fire_once_def Let_def)
    then show ?thesis using False IH rs by simp
  qed
qed simp

text \<open>Firing every job runs each enabled job exactly once, in order, through the executor, with one
  report for each, and the statistics count exactly these firings and their failures.\<close>

lemma fire_all_runs_enabled_once:
  "case fire_all_now invoke clock (scheduler_new jobs) x of (rs, sched', x') \<Rightarrow>
     (map (\<lambda>r. (sc_job r, sc_ok r)) rs, x') = outcomes invoke jobs x
     \<and> map sc_job rs = map sj_name (filter sj_enabled jobs)
     \<and> ss_fires (sd_stats sched') = length (filter sj_enabled jobs)
     \<and> ss_errors (sd_stats sched') = length (filter (\<lambda>r. \<not> sc_ok r) rs)"
proof -
  obtain rs sched' x' where run: "fire_all_now invoke clock (scheduler_new jobs) x = (rs, sched', x')"
    by (cases "fire_all_now invoke clock (scheduler_new jobs) x") auto
  have names: "map fst (fst (outcomes invoke js y)) = map sj_name (filter sj_enabled js)" for js y
    by (induction js arbitrary: y) (auto split: prod.splits, metis fst_conv)
  have res: "map (\<lambda>r. (sc_job r, sc_ok r)) rs = fst (outcomes invoke jobs x)
     \<and> x' = snd (outcomes invoke jobs x)
     \<and> ss_fires (sd_stats sched') = length rs
     \<and> ss_errors (sd_stats sched') = length (filter (\<lambda>r. \<not> sc_ok r) rs)"
    using fire_from_outcomes [of "scheduler_new jobs" "[0..<length jobs]" invoke clock x rs sched' x'] run
    by (simp add: fire_all_now_def scheduler_new_def list_all_iff map_nth)
  have "map sc_job rs = map fst (map (\<lambda>r. (sc_job r, sc_ok r)) rs)" by simp
  also have "\<dots> = map sj_name (filter sj_enabled jobs)" using res names by simp
  finally have job_names: "map sc_job rs = map sj_name (filter sj_enabled jobs)" .
  then have "length rs = length (filter sj_enabled jobs)" by (metis length_map)
  with res job_names run show ?thesis by simp
qed

end
