(* ===== verification/Channels.thy ===== *)
theory Channels
  imports Json
begin

text \<open>
  The messaging gateway (\<open>crates/oracle-automate-channels/src/lib.rs\<close>): channel kinds with their
  schemes, the adapters, and the registry that routes a message by the scheme of its address. The
  log of the in-process CLI channel is the state; the other adapters are the skeletons of the
  source and always answer that they are not connected.
\<close>

datatype channel_error = Unknown_Channel string | Adapter_Error string | Not_Connected

datatype channel_kind = Teams | Slack | Telegram | Whatsapp | Email | Cli

fun channel_scheme :: "channel_kind \<Rightarrow> string" where
  "channel_scheme Teams = ''teams''"
| "channel_scheme Slack = ''slack''"
| "channel_scheme Telegram = ''telegram''"
| "channel_scheme Whatsapp = ''whatsapp''"
| "channel_scheme Email = ''email''"
| "channel_scheme Cli = ''cli''"

record incoming_message =
  im_channel :: channel_kind
  im_user_id :: string
  im_conversation_id :: string
  im_text :: string
  im_metadata :: json
  im_received_at_ms :: nat

record outgoing_message =
  og_address :: string
  og_text :: string
  og_rich :: "json option"

definition outgoing_text :: "string \<Rightarrow> string \<Rightarrow> outgoing_message" where
  "outgoing_text address txt = \<lparr>og_address = address, og_text = txt, og_rich = None\<rparr>"

datatype channel_adapter =
    Cli_Channel
  | Teams_Adapter string string
  | Slack_Adapter string string
  | Telegram_Adapter string

fun adapter_kind :: "channel_adapter \<Rightarrow> channel_kind" where
  "adapter_kind Cli_Channel = Cli"
| "adapter_kind (Teams_Adapter _ _) = Teams"
| "adapter_kind (Slack_Adapter _ _) = Slack"
| "adapter_kind (Telegram_Adapter _) = Telegram"

fun adapter_send ::
  "channel_adapter \<Rightarrow> outgoing_message \<Rightarrow> outgoing_message list
     \<Rightarrow> (channel_error + unit) \<times> outgoing_message list" where
  "adapter_send Cli_Channel msg sent = (Ok (), sent @ [msg])"
| "adapter_send (Teams_Adapter _ _) msg sent = (Err Not_Connected, sent)"
| "adapter_send (Slack_Adapter _ _) msg sent = (Err Not_Connected, sent)"
| "adapter_send (Telegram_Adapter _) msg sent = (Err Not_Connected, sent)"

type_synonym channel_registry = "string \<rightharpoonup> channel_adapter"

definition register :: "channel_adapter \<Rightarrow> channel_registry \<Rightarrow> channel_registry" where
  "register adapter reg = reg(channel_scheme (adapter_kind adapter) \<mapsto> adapter)"

definition address_scheme :: "string \<Rightarrow> string" where
  "address_scheme address = hd (split_char (CHR '':'') address)"

definition registry_send ::
  "channel_registry \<Rightarrow> outgoing_message \<Rightarrow> outgoing_message list
     \<Rightarrow> (channel_error + unit) \<times> outgoing_message list" where
  "registry_send reg msg sent =
     (let scheme = address_scheme (og_address msg) in
      case reg scheme of
        None \<Rightarrow> (Err (Unknown_Channel scheme), sent)
      | Some adapter \<Rightarrow> adapter_send adapter msg sent)"

lemma split_char_Cons_neq [str_simps]:
  "d \<notin> set s \<Longrightarrow> split_char d (s @ d # t) = s # split_char d t"
  by (induction s) auto

lemma address_scheme_eq: "CHR '':'' \<notin> set s \<Longrightarrow> address_scheme (s @ '':'' @ conv) = s"
  by (simp add: address_scheme_def str_simps)

lemma scheme_no_colon: "CHR '':'' \<notin> set (channel_scheme k)"
  by (cases k) simp_all

text \<open>A message addressed \<open>scheme:conversation\<close>, whatever the conversation id holds, goes to the
  adapter registered last for that scheme; without one the error names the scheme and nothing is
  sent.\<close>

lemma routing_follows_last_registration:
  "registry_send (foldl (\<lambda>r a. register a r) Map.empty adapters)
      \<lparr>og_address = channel_scheme k @ '':'' @ conv, og_text = t, og_rich = r\<rparr> sent
   = (case find (\<lambda>a. channel_scheme (adapter_kind a) = channel_scheme k) (rev adapters) of
        None \<Rightarrow> (Err (Unknown_Channel (channel_scheme k)), sent)
      | Some a \<Rightarrow>
          adapter_send a \<lparr>og_address = channel_scheme k @ '':'' @ conv, og_text = t, og_rich = r\<rparr> sent)"
proof -
  have "foldl (\<lambda>r a. register a r) m adapters s
      = (case find (\<lambda>a. channel_scheme (adapter_kind a) = s) (rev adapters) of
           None \<Rightarrow> m s | Some a \<Rightarrow> Some a)" for m s
    by (induction adapters rule: rev_induct) (auto simp: register_def)
  then show ?thesis
    by (simp add: registry_send_def address_scheme_eq [OF scheme_no_colon, simplified]
        split: option.splits)
qed

end
