(* ===== verification/Crawl_Policy.thy ===== *)
theory Crawl_Policy
  imports Prelude "HOL-Library.AList" "HOL-Library.Sublist"
begin

text \<open>
  The crawler's politeness (\<open>rate_limit.rs\<close> and \<open>robots.rs\<close> in
  \<open>crates/oracle-automate-ingest/src\<close>). Instants and durations are nanoseconds; the table of hosts
  is a partial function. The groups of a robots file are an association list with distinct keys (the
  code's \<open>HashMap\<close>, in an arbitrary order). The parse of a \<open>Crawl-delay\<close> value (an \<open>f64\<close> of seconds,
  finite and non-negative, rendered in milliseconds) is the parameter \<open>millis\<close>.
\<close>

subsection \<open>The rate limiter\<close>

record bucket_state =
  bs_next_ready :: nat
  bs_interval :: nat

record rate_limiter =
  rl_default_interval :: nat
  rl_state :: "string \<Rightarrow> bucket_state option"

definition rate_limiter_new :: "nat \<Rightarrow> rate_limiter" where
  "rate_limiter_new d = \<lparr>rl_default_interval = d, rl_state = (\<lambda>_. None)\<rparr>"

definition set_interval :: "nat \<Rightarrow> string \<Rightarrow> nat \<Rightarrow> rate_limiter \<Rightarrow> rate_limiter" where
  "set_interval now host interval rl =
     (let entry = (case rl_state rl host of
                     Some e \<Rightarrow> e | None \<Rightarrow> \<lparr>bs_next_ready = now, bs_interval = interval\<rparr>)
      in rl\<lparr>rl_state := (rl_state rl)(host \<mapsto> entry\<lparr>bs_interval := interval\<rparr>)\<rparr>)"

definition acquire_wait :: "nat \<Rightarrow> string \<Rightarrow> rate_limiter \<Rightarrow> rate_limiter \<times> nat" where
  "acquire_wait now host rl =
     (let entry = (case rl_state rl host of
                     Some e \<Rightarrow> e
                   | None \<Rightarrow> \<lparr>bs_next_ready = now, bs_interval = rl_default_interval rl\<rparr>);
          wait = (if bs_next_ready entry \<le> now then 0 else bs_next_ready entry - now);
          base = max (bs_next_ready entry) now
      in (rl\<lparr>rl_state := (rl_state rl)(host \<mapsto> entry\<lparr>bs_next_ready := base + bs_interval entry\<rparr>)\<rparr>,
          wait))"

definition interval_of :: "string \<Rightarrow> rate_limiter \<Rightarrow> nat" where
  "interval_of host rl =
     (case rl_state rl host of Some b \<Rightarrow> bs_interval b | None \<Rightarrow> rl_default_interval rl)"

text \<open>A run of calls in the order the mutex serialises them. Each grant is the host, the instant at
  which the caller may fetch, and the interval then in force.\<close>

datatype rl_call = Acquire nat string | SetInterval nat string nat

fun call_host :: "rl_call \<Rightarrow> string" where
  "call_host (Acquire _ h) = h"
| "call_host (SetInterval _ h _) = h"

fun rl_run :: "rate_limiter \<Rightarrow> rl_call list \<Rightarrow> (string \<times> nat \<times> nat) list" where
  "rl_run rl [] = []"
| "rl_run rl (Acquire now h # cs) =
     (case acquire_wait now h rl of (rl', wait) \<Rightarrow> (h, now + wait, interval_of h rl) # rl_run rl' cs)"
| "rl_run rl (SetInterval now h i # cs) = rl_run (set_interval now h i rl) cs"

definition ready_at :: "string \<Rightarrow> rate_limiter \<Rightarrow> nat" where
  "ready_at h rl = (case rl_state rl h of Some b \<Rightarrow> bs_next_ready b | None \<Rightarrow> 0)"

lemma acquire_wait_start: "now + snd (acquire_wait now h rl) = max (ready_at h rl) now"
  by (auto simp: acquire_wait_def ready_at_def Let_def split: option.splits)

lemma acquire_wait_ready:
  "ready_at h' (fst (acquire_wait now h rl))
     = (if h' = h then max (ready_at h rl) now + interval_of h rl else ready_at h' rl)"
  by (auto simp: acquire_wait_def ready_at_def interval_of_def Let_def split: option.splits)

lemma set_interval_ready: "ready_at h rl \<le> ready_at h (set_interval now h' i rl)"
  by (auto simp: set_interval_def ready_at_def Let_def split: option.splits)

lemma rl_run_after_ready:
  "list_all (\<lambda>(_, start, _). ready_at h rl \<le> start) (filter (\<lambda>g. fst g = h) (rl_run rl cs))"
proof (induction rl cs rule: rl_run.induct)
  case (2 rl now h' cs)
  obtain rl' wait where s: "acquire_wait now h' rl = (rl', wait)" by fastforce
  have "ready_at h rl \<le> ready_at h rl'"
    using acquire_wait_ready [of h now h' rl] s by (auto split: if_splits)
  then have "list_all (\<lambda>(_, start, _). ready_at h rl \<le> start) (filter (\<lambda>g. fst g = h) (rl_run rl' cs))"
    using 2 [OF s [symmetric]] by (auto simp: list_all_iff)
  moreover have "ready_at h' rl \<le> now + wait" using acquire_wait_start [of now h' rl] s by simp
  ultimately show ?case using s by auto
next
  case (3 rl now h' i cs)
  then show ?case using set_interval_ready [of h rl now h' i] by (fastforce simp: list_all_iff)
qed simp

lemma rl_run_spaced:
  "sorted_wrt (\<lambda>(_, s1, i1) (_, s2, _). s1 + i1 \<le> s2) (filter (\<lambda>g. fst g = h) (rl_run rl cs))"
proof (induction rl cs rule: rl_run.induct)
  case (2 rl now h' cs)
  obtain rl' wait where s: "acquire_wait now h' rl = (rl', wait)" by fastforce
  have "ready_at h' rl' = now + wait + interval_of h' rl"
    using acquire_wait_ready [of h' now h' rl] acquire_wait_start [of now h' rl] s by simp
  then show ?case
    using 2 [OF s [symmetric]] rl_run_after_ready [of h' rl' cs] s
    by (auto simp: list_all_iff)
qed simp_all

text \<open>Hosts do not influence one another: only a limiter's entry for the host and its default matter.\<close>

definition same_host :: "string \<Rightarrow> rate_limiter \<Rightarrow> rate_limiter \<Rightarrow> bool" where
  "same_host h r1 r2 \<longleftrightarrow>
     rl_state r1 h = rl_state r2 h \<and> rl_default_interval r1 = rl_default_interval r2"

lemma same_host_acquire:
  "same_host h r1 r2 \<Longrightarrow> snd (acquire_wait now h r1) = snd (acquire_wait now h r2)
     \<and> same_host h (fst (acquire_wait now h r1)) (fst (acquire_wait now h r2))
     \<and> interval_of h r1 = interval_of h r2"
  by (simp add: same_host_def acquire_wait_def interval_of_def Let_def cong: option.case_cong)

lemma same_host_other:
  "h \<noteq> h' \<Longrightarrow> same_host h r1 r2 \<Longrightarrow> same_host h (fst (acquire_wait now h' r1)) r2"
  "h \<noteq> h' \<Longrightarrow> same_host h r1 r2 \<Longrightarrow> same_host h (set_interval now h' i r1) r2"
  by (auto simp: same_host_def acquire_wait_def set_interval_def Let_def)

lemma same_host_set:
  "same_host h r1 r2 \<Longrightarrow> same_host h (set_interval now h i r1) (set_interval now h i r2)"
  by (auto simp: same_host_def set_interval_def Let_def)

lemma rl_run_same_host:
  "same_host h r1 r2 \<Longrightarrow> filter (\<lambda>g. fst g = h) (rl_run r1 cs)
     = rl_run r2 (filter (\<lambda>c. call_host c = h) cs)"
proof (induction cs arbitrary: r1 r2)
  case (Cons c cs)
  show ?case
  proof (cases "call_host c = h")
    case True
    then show ?thesis
      using Cons same_host_acquire [OF Cons.prems] same_host_set [OF Cons.prems]
      by (cases c) (auto simp: case_prod_beta)
  next
    case False
    then show ?thesis
      using Cons.IH [OF same_host_other(1)] Cons.IH [OF same_host_other(2)] Cons.prems
      by (cases c) (auto simp: case_prod_beta)
  qed
qed simp

text \<open>Whatever the calls and the clock readings, two fetches granted for the same host are at least
  the interval in force at the first one apart, and the grants of a host are those of its own calls
  alone: hosts do not delay one another.\<close>

lemma grants_are_spaced_per_host:
  "sorted_wrt (\<lambda>(_, s1, i1) (_, s2, _). s1 + i1 \<le> s2)
     (filter (\<lambda>g. fst g = h) (rl_run (rate_limiter_new d) cs))
   \<and> filter (\<lambda>g. fst g = h) (rl_run (rate_limiter_new d) cs)
     = rl_run (rate_limiter_new d) (filter (\<lambda>c. call_host c = h) cs)"
  using rl_run_spaced [of h "rate_limiter_new d" cs] rl_run_same_host [of h "rate_limiter_new d" "rate_limiter_new d" cs]
  by (simp add: same_host_def)

subsection \<open>Robots files\<close>

datatype decision = Allowed | Disallowed

record robots_group =
  rg_allow :: "string list"
  rg_disallow :: "string list"
  rg_crawl_delay :: "nat option"

type_synonym robots_txt = "(string \<times> robots_group) list"

definition strip_comment :: "string \<Rightarrow> string" where
  "strip_comment l = (case find_char l (CHR ''#'') of Some i \<Rightarrow> take i l | None \<Rightarrow> l)"

definition default_group :: robots_group where
  "default_group = \<lparr>rg_allow = [], rg_disallow = [], rg_crawl_delay = None\<rparr>"

definition apply_rule ::
  "(string \<Rightarrow> nat option) \<Rightarrow> string \<Rightarrow> string \<Rightarrow> robots_group \<Rightarrow> robots_group" where
  "apply_rule millis key value g =
     (if key = ''allow'' \<and> value \<noteq> [] then g\<lparr>rg_allow := rg_allow g @ [value]\<rparr>
      else if key = ''disallow'' \<and> value \<noteq> [] then g\<lparr>rg_disallow := rg_disallow g @ [value]\<rparr>
      else if key = ''crawl-delay'' then
        (case millis value of Some ms \<Rightarrow> g\<lparr>rg_crawl_delay := Some (ms * 1000000)\<rparr> | None \<Rightarrow> g)
      else g)"

text \<open>\<open>groups.entry(agent).or_default()\<close> and the rule applied to it, for each current agent.\<close>

definition add_rule ::
  "(string \<Rightarrow> nat option) \<Rightarrow> string \<Rightarrow> string \<Rightarrow> robots_txt \<Rightarrow> string \<Rightarrow> robots_txt" where
  "add_rule millis key value gs agent =
     AList.update agent (apply_rule millis key value
       (case map_of gs agent of Some g \<Rightarrow> g | None \<Rightarrow> default_group)) gs"

text \<open>The parser's state: the groups, the current agents and whether the last line was a rule.\<close>

type_synonym robots_state = "robots_txt \<times> string list \<times> bool"

definition robots_line :: "(string \<Rightarrow> nat option) \<Rightarrow> robots_state \<Rightarrow> string \<Rightarrow> robots_state" where
  "robots_line millis st raw =
     (case st of (gs, agents, just) \<Rightarrow>
       let l = trim (strip_comment raw) in
       if l = [] then st
       else (case split_once (CHR '':'') l of
         None \<Rightarrow> st
       | Some (k, v) \<Rightarrow>
           let key = to_lowercase (trim k); value = trim v in
           if key = ''user-agent'' then
             (gs, (if just then [] else agents) @ [to_lowercase value], False)
           else if key \<in> {''allow'', ''disallow'', ''crawl-delay''} then
             (foldl (add_rule millis key value) gs agents, agents, True)
           else st))"

definition robots_parse :: "(string \<Rightarrow> nat option) \<Rightarrow> string \<Rightarrow> robots_txt" where
  "robots_parse millis body = fst (foldl (robots_line millis) ([], [], False) (lines_of body))"

text \<open>The longest agent that is a prefix of \<open>ua\<close>, the first of the longest in the iteration order.\<close>

fun best_group ::
  "string \<Rightarrow> (nat \<times> robots_group) option \<Rightarrow> robots_txt \<Rightarrow> (nat \<times> robots_group) option" where
  "best_group ua best [] = best"
| "best_group ua best ((agent, g) # gs) =
     best_group ua
       (if agent = ''*'' then best
        else if starts_with ua agent
              \<and> (case best of Some (len, _) \<Rightarrow> len < length agent | None \<Rightarrow> True)
             then Some (length agent, g) else best) gs"

definition matching_group :: "robots_txt \<Rightarrow> string \<Rightarrow> robots_group option" where
  "matching_group gs user_agent =
     (let ua = to_lowercase user_agent in
      case map_of gs ua of
        Some g \<Rightarrow> Some g
      | None \<Rightarrow> (case best_group ua None gs of Some (_, g) \<Rightarrow> Some g | None \<Rightarrow> map_of gs ''*''))"

definition longest_prefix_match :: "string list option \<Rightarrow> string \<Rightarrow> nat option" where
  "longest_prefix_match rules path =
     (case rules of
        None \<Rightarrow> None
      | Some rs \<Rightarrow> (case map length (filter (starts_with path) rs) of
                     [] \<Rightarrow> None | n # ns \<Rightarrow> Some (foldl max n ns)))"

definition is_allowed :: "robots_txt \<Rightarrow> string \<Rightarrow> string \<Rightarrow> decision" where
  "is_allowed gs user_agent path =
     (let group = matching_group gs user_agent in
      case (longest_prefix_match (map_option rg_allow group) path,
            longest_prefix_match (map_option rg_disallow group) path) of
        (None, None) \<Rightarrow> Allowed
      | (Some _, None) \<Rightarrow> Allowed
      | (None, Some _) \<Rightarrow> Disallowed
      | (Some a, Some d) \<Rightarrow> (if d \<le> a then Allowed else Disallowed))"

definition crawl_delay :: "robots_txt \<Rightarrow> string \<Rightarrow> nat option" where
  "crawl_delay gs user_agent = Option.bind (matching_group gs user_agent) rg_crawl_delay"

text \<open>The rules of the matching group that are prefixes of the path.\<close>

definition matching_rules ::
  "(robots_group \<Rightarrow> string list) \<Rightarrow> robots_txt \<Rightarrow> string \<Rightarrow> string \<Rightarrow> string list" where
  "matching_rules rules gs ua path =
     (case matching_group gs ua of
        None \<Rightarrow> [] | Some g \<Rightarrow> filter (\<lambda>r. prefix r path) (rules g))"

lemma foldl_max: "foldl max (n :: nat) ns = Max (set (n # ns))"
  unfolding Max.set_eq_fold foldl_conv_fold by (rule arg_cong [where f = "\<lambda>h. fold h ns n"])
    (simp add: fun_eq_iff max.commute)

lemma longest_prefix_match_Max:
  "longest_prefix_match (map_option rules (matching_group gs ua)) path =
     (if matching_rules rules gs ua path = [] then None
      else Some (Max (length ` set (matching_rules rules gs ua path))))"
proof (cases "matching_group gs ua")
  case (Some g)
  have eq: "filter (starts_with path) (rules g) = matching_rules rules gs ua path"
    using Some by (simp add: matching_rules_def starts_with_iff [abs_def])
  show ?thesis
    using Some by (cases "matching_rules rules gs ua path")
      (simp_all add: longest_prefix_match_def eq foldl_max)
qed (simp add: longest_prefix_match_def matching_rules_def)

text \<open>A path is disallowed exactly when some disallow rule of the agent's group is a prefix of it
  and longer than every allow rule of the group that is one: the longest match wins and a tie
  allows.\<close>

lemma robots_longest_match_wins:
  "is_allowed gs ua path = Disallowed \<longleftrightarrow>
     list_ex (\<lambda>d. list_all (\<lambda>a. length a < length d) (matching_rules rg_allow gs ua path))
       (matching_rules rg_disallow gs ua path)"
proof -
  define as where "as = matching_rules rg_allow gs ua path"
  define ds where "ds = matching_rules rg_disallow gs ua path"
  have run: "is_allowed gs ua path =
      (case (if as = [] then None else Some (Max (length ` set as)),
             if ds = [] then None else Some (Max (length ` set ds))) of
         (None, None) \<Rightarrow> Allowed
       | (Some _, None) \<Rightarrow> Allowed
       | (None, Some _) \<Rightarrow> Disallowed
       | (Some a, Some d) \<Rightarrow> (if d \<le> a then Allowed else Disallowed))"
    by (simp only: is_allowed_def longest_prefix_match_Max as_def ds_def Let_def)
  have "(\<exists>d\<in>set ds. \<forall>a\<in>set as. length a < length d) \<longleftrightarrow> is_allowed gs ua path = Disallowed"
  proof (cases "as = [] \<or> ds = []")
    case True
    then show ?thesis by (cases ds) (auto simp: run)
  next
    case False
    then have "is_allowed gs ua path = Disallowed \<longleftrightarrow> Max (length ` set as) < Max (length ` set ds)"
      by (simp add: run not_le del: Max_less_iff Max.bounded_iff)
    also have "\<dots> \<longleftrightarrow> (\<exists>d\<in>length ` set ds. Max (length ` set as) < d)"
      using False by (intro Max_gr_iff) simp_all
    also have "\<dots> \<longleftrightarrow> (\<exists>d\<in>set ds. \<forall>a\<in>set as. length a < length d)"
      using False by simp
    finally show ?thesis by simp
  qed
  then show ?thesis by (simp add: as_def ds_def list_all_iff list_ex_iff)
qed

text \<open>The agents other than \<open>*\<close> that are prefixes of a crawler's name.\<close>

abbreviation agents_of :: "string \<Rightarrow> robots_txt \<Rightarrow> string list" where
  "agents_of ua gs \<equiv> filter (\<lambda>a. a \<noteq> ''*'' \<and> prefix a ua) (map fst gs)"

lemma best_group_None: "best_group ua best gs = None \<Longrightarrow> best = None \<and> agents_of ua gs = []"
  by (induction ua best gs rule: best_group.induct) (auto simp: starts_with_iff split: if_splits)

lemma best_group_agent:
  "best_group ua best gs = Some (n, g) \<Longrightarrow>
     best = Some (n, g) \<or> (\<exists>a. (a, g) \<in> set gs \<and> prefix a ua \<and> n = length a)"
proof (induction gs arbitrary: best)
  case (Cons x gs)
  obtain a h where x: "x = (a, h)" by fastforce
  show ?case
  proof (cases "a \<noteq> ''*'' \<and> prefix a ua \<and> (case best of Some (len, _) \<Rightarrow> len < length a | None \<Rightarrow> True)")
    case True
    then have "best_group ua (Some (length a, h)) gs = Some (n, g)"
      using Cons.prems by (simp add: x starts_with_iff)
    then show ?thesis using Cons.IH True x by fastforce
  next
    case False
    then have "best_group ua best gs = Some (n, g)"
      using Cons.prems by (auto simp: x starts_with_iff split: if_splits)
    then show ?thesis using Cons.IH by fastforce
  qed
qed simp

lemma best_group_longest:
  "best_group ua best gs = Some (n, g) \<Longrightarrow>
     (\<forall>a\<in>set (agents_of ua gs). length a \<le> n) \<and> (\<forall>m h. best = Some (m, h) \<longrightarrow> m \<le> n)"
proof (induction gs arbitrary: best)
  case (Cons x gs)
  obtain a h where x: "x = (a, h)" by fastforce
  show ?case
  proof (cases "a \<noteq> ''*'' \<and> prefix a ua \<and> (case best of Some (len, _) \<Rightarrow> len < length a | None \<Rightarrow> True)")
    case True
    then have "best_group ua (Some (length a, h)) gs = Some (n, g)"
      using Cons.prems by (simp add: x starts_with_iff)
    from Cons.IH [OF this] have "length a \<le> n" "\<forall>b\<in>set (agents_of ua gs). length b \<le> n" by auto
    then show ?thesis using True by (auto simp: x)
  next
    case False
    then have rec: "best_group ua best gs = Some (n, g)"
      using Cons.prems by (auto simp: x starts_with_iff split: if_splits)
    moreover have "a = ''*'' \<or> \<not> prefix a ua \<or> (\<exists>m h. best = Some (m, h) \<and> length a \<le> m)"
      using False by (auto split: option.splits)
    moreover note Cons.IH [OF rec]
    ultimately show ?thesis by (auto simp: x)
  qed
qed simp

text \<open>Updating an entry keeps the keys distinct, so a parsed file has one group per agent.\<close>

lemma foldl_add_rule_distinct:
  "distinct (map fst gs) \<Longrightarrow> distinct (map fst (foldl (add_rule millis key value) gs agents))"
  by (induction agents arbitrary: gs) (simp_all add: add_rule_def distinct_update)

lemma robots_line_distinct:
  "distinct (map fst (fst st)) \<Longrightarrow> distinct (map fst (fst (robots_line millis st raw)))"
  by (auto simp: robots_line_def Let_def foldl_add_rule_distinct split: prod.splits option.splits)

lemma robots_parse_distinct: "distinct (map fst (robots_parse millis body))"
proof -
  have "distinct (map fst (fst (foldl (robots_line millis) st ls)))"
    if "distinct (map fst (fst st))" for st ls
    using that by (induction ls arbitrary: st) (simp_all add: robots_line_distinct)
  then show ?thesis by (simp add: robots_parse_def)
qed

lemma matching_group_spec:
  assumes "distinct (map fst gs)"
  shows "case matching_group gs ua of
      None \<Rightarrow> filter (\<lambda>a. a = ''*'' \<or> prefix a (to_lowercase ua)) (map fst gs) = []
    | Some g \<Rightarrow> \<exists>a. map_of gs a = Some g
        \<and> (a = ''*'' \<and> agents_of (to_lowercase ua) gs = []
           \<or> prefix a (to_lowercase ua)
             \<and> list_all (\<lambda>b. length b \<le> length a) (agents_of (to_lowercase ua) gs))"
proof (cases "map_of gs (to_lowercase ua)")
  case (Some g)
  have "list_all (\<lambda>b. length b \<le> length (to_lowercase ua)) (agents_of (to_lowercase ua) gs)"
    by (auto simp: list_all_iff dest: prefix_length_le)
  with Some show ?thesis by (auto simp: matching_group_def)
next
  case exact: None
  show ?thesis
  proof (cases "best_group (to_lowercase ua) None gs")
    case (Some b)
    then obtain n g where b: "best_group (to_lowercase ua) None gs = Some (n, g)" by (cases b) auto
    then obtain a where a: "(a, g) \<in> set gs" "prefix a (to_lowercase ua)" "n = length a"
      using best_group_agent [OF b] by auto
    have "map_of gs a = Some g" using assms a(1) by (rule map_of_is_SomeI)
    then show ?thesis
      using best_group_longest [OF b] a(2,3) b exact by (auto simp: matching_group_def list_all_iff)
  next
    case None
    have none: "agents_of (to_lowercase ua) gs = []" using best_group_None [OF None] by blast
    have mg: "matching_group gs ua = map_of gs ''*''"
      using None exact by (simp add: matching_group_def Let_def)
    show ?thesis
    proof (cases "map_of gs ''*''")
      case None
      then have "''*'' \<notin> set (map fst gs)" by (simp add: map_of_eq_None_iff)
      with none have "filter (\<lambda>a. a = ''*'' \<or> prefix a (to_lowercase ua)) (map fst gs) = []"
        unfolding filter_empty_conv by metis
      then show ?thesis unfolding mg None by simp
    qed (use none mg in auto)
  qed
qed

text \<open>In a parsed file the group chosen for a crawler is the most specific one: its agent is the
  crawler's name, a prefix of it, or \<open>*\<close> when no agent is a prefix; no agent that is a prefix of the
  name is longer; and there is none exactly when no agent is a prefix and no \<open>*\<close> group exists.\<close>

lemma robots_most_specific_group:
  "case matching_group (robots_parse millis body) ua of
      None \<Rightarrow> filter (\<lambda>a. a = ''*'' \<or> prefix a (to_lowercase ua)) (map fst (robots_parse millis body)) = []
    | Some g \<Rightarrow> \<exists>a. map_of (robots_parse millis body) a = Some g
        \<and> (a = ''*'' \<and> agents_of (to_lowercase ua) (robots_parse millis body) = []
           \<or> prefix a (to_lowercase ua)
             \<and> list_all (\<lambda>b. length b \<le> length a)
                 (agents_of (to_lowercase ua) (robots_parse millis body)))"
  by (rule matching_group_spec) (rule robots_parse_distinct)

end
