(* ===== verification/Float_Ops.thy ===== *)
theory Float_Ops
  imports Prelude "HOL-Library.Multiset"
begin

text \<open>
  The \<open>f32\<close> arithmetic of the search code, as a record of the operations it uses: what is proved
  holds for any of them. Rust's \<open>sort_by\<close> with the comparison
  \<open>b.partial_cmp(a).unwrap_or(Equal)\<close> is a stable sort by descending key (\<open>sort_desc\<close>); its order
  laws are stated for a strict weak order, which \<open>f32\<close> without NaN is.
\<close>

record 'f float_ops =
  fl_of_nat :: "nat \<Rightarrow> 'f"
  fl_lit :: "string \<Rightarrow> 'f"
  fl_add :: "'f \<Rightarrow> 'f \<Rightarrow> 'f"
  fl_sub :: "'f \<Rightarrow> 'f \<Rightarrow> 'f"
  fl_mul :: "'f \<Rightarrow> 'f \<Rightarrow> 'f"
  fl_div :: "'f \<Rightarrow> 'f \<Rightarrow> 'f"
  fl_ln :: "'f \<Rightarrow> 'f"
  fl_sqrt :: "'f \<Rightarrow> 'f"
  fl_max :: "'f \<Rightarrow> 'f \<Rightarrow> 'f"
  fl_lt :: "'f \<Rightarrow> 'f \<Rightarrow> bool"
  fl_eq :: "'f \<Rightarrow> 'f \<Rightarrow> bool"

fun insert_desc :: "('f \<Rightarrow> 'f \<Rightarrow> bool) \<Rightarrow> ('a \<Rightarrow> 'f) \<Rightarrow> 'a \<Rightarrow> 'a list \<Rightarrow> 'a list" where
  "insert_desc lt key x [] = [x]"
| "insert_desc lt key x (y # ys) =
     (if lt (key x) (key y) then y # insert_desc lt key x ys else x # y # ys)"

definition sort_desc :: "('f \<Rightarrow> 'f \<Rightarrow> bool) \<Rightarrow> ('a \<Rightarrow> 'f) \<Rightarrow> 'a list \<Rightarrow> 'a list" where
  "sort_desc lt key xs = foldr (insert_desc lt key) xs []"

definition strict_weak :: "('f \<Rightarrow> 'f \<Rightarrow> bool) \<Rightarrow> bool" where
  "strict_weak lt \<longleftrightarrow> (\<forall>a. \<not> lt a a) \<and> (\<forall>a b. lt a b \<longrightarrow> \<not> lt b a)
     \<and> (\<forall>a b c. lt a c \<longrightarrow> lt a b \<or> lt b c)"

lemma mset_insert_desc [simp]: "mset (insert_desc lt key x xs) = add_mset x (mset xs)"
  by (induction xs) auto

lemma mset_sort_desc [simp]: "mset (sort_desc lt key xs) = mset xs"
  unfolding sort_desc_def by (induction xs) auto

lemma set_sort_desc [simp]: "set (sort_desc lt key xs) = set xs"
  by (metis mset_sort_desc set_mset_mset)

lemma length_sort_desc [simp]: "length (sort_desc lt key xs) = length xs"
  by (metis mset_sort_desc size_mset)

lemma set_insert_desc [simp]: "set (insert_desc lt key x xs) = insert x (set xs)"
  by (metis mset_insert_desc set_mset_add_mset_insert set_mset_mset)

abbreviation desc_by :: "('f \<Rightarrow> 'f \<Rightarrow> bool) \<Rightarrow> ('a \<Rightarrow> 'f) \<Rightarrow> 'a list \<Rightarrow> bool" where
  "desc_by lt key xs \<equiv> sorted_wrt (\<lambda>a b. \<not> lt (key a) (key b)) xs"

lemma insert_desc_sorted:
  assumes "strict_weak lt"
  shows "desc_by lt key xs \<Longrightarrow> desc_by lt key (insert_desc lt key x xs)"
proof (induction xs)
  case (Cons y ys)
  show ?case
  proof (cases "lt (key x) (key y)")
    case True
    then show ?thesis using Cons assms by (auto simp: strict_weak_def)
  next
    case False
    then have "\<not> lt (key x) (key z)" if "z \<in> set ys" for z
      using Cons.prems assms that unfolding strict_weak_def by (metis sorted_wrt.simps(2))
    with False Cons.prems show ?thesis by auto
  qed
qed simp

lemma sort_desc_sorted: "strict_weak lt \<Longrightarrow> desc_by lt key (sort_desc lt key xs)"
  unfolding sort_desc_def by (induction xs) (auto intro: insert_desc_sorted)

text \<open>Stability: elements of equal key keep their order.\<close>

lemma insert_desc_filter:
  assumes "strict_weak lt" and "\<And>a b. P a \<Longrightarrow> P b \<Longrightarrow> \<not> lt (key a) (key b)"
  shows "filter P (insert_desc lt key x xs) = (if P x then x # filter P xs else filter P xs)"
proof (induction xs)
  case (Cons y ys)
  then show ?case using assms(2) [of x y] by auto
qed simp

lemma sort_desc_stable:
  assumes "strict_weak lt" and "\<And>a b. P a \<Longrightarrow> P b \<Longrightarrow> \<not> lt (key a) (key b)"
  shows "filter P (sort_desc lt key xs) = filter P xs"
  unfolding sort_desc_def by (induction xs) (auto simp: insert_desc_filter [OF assms])

text \<open>What truncation after the sort leaves out is never better than what it keeps.\<close>

lemma take_sort_desc_best:
  assumes "strict_weak lt" and "x \<in> set (take k (sort_desc lt key xs))"
    and "y \<in> set (drop k (sort_desc lt key xs))"
  shows "\<not> lt (key x) (key y)"
proof -
  let ?s = "sort_desc lt key xs"
  have "desc_by lt key (take k ?s @ drop k ?s)"
    using sort_desc_sorted [OF assms(1)] by simp
  then show ?thesis using assms(2,3) unfolding sorted_wrt_append by blast
qed

end
