(* ===== verification/Kb_Store.thy ===== *)
theory Kb_Store
  imports Json Float_Ops "HOL-Library.AList"
begin

text \<open>
  The knowledge base: documents and chunks (\<open>crates/oracle-automate-kb/src/schema.rs\<close>), the
  in-memory store with its deduplicating upsert and its dense and BM25 searches (\<open>store.rs\<close>). The
  hash maps are association lists without duplicate keys; a search is given the chunks in the
  order the map iterates over them (\<open>vals\<close>). SHA-256 in hexadecimal is the parameter \<open>hash\<close>.
  Tokens are cut at the ASCII range's non-alphanumeric characters.
\<close>

datatype domain = Oracle_Help | Integration | Bpmn | App_Catalog

fun domain_collection :: "domain \<Rightarrow> string" where
  "domain_collection Oracle_Help = ''oracle_help''"
| "domain_collection Integration = ''integration''"
| "domain_collection Bpmn = ''bpmn''"
| "domain_collection App_Catalog = ''app_catalog''"

record document =
  dc_id :: string
  dc_domain :: domain
  dc_uri :: string
  dc_title :: string
  dc_body :: string
  dc_breadcrumbs :: "string list"
  dc_content_hash :: string
  dc_etag :: "string option"
  dc_last_crawled :: "string option"
  dc_metadata :: "(string \<times> string) list"

definition document_new ::
  "(string \<Rightarrow> string) \<Rightarrow> string \<Rightarrow> domain \<Rightarrow> string \<Rightarrow> string \<Rightarrow> string \<Rightarrow> document" where
  "document_new hash i dmn uri title body =
     \<lparr>dc_id = i, dc_domain = dmn, dc_uri = uri, dc_title = title, dc_body = body,
      dc_breadcrumbs = [], dc_content_hash = hash body, dc_etag = None, dc_last_crawled = None,
      dc_metadata = []\<rparr>"

record 'f chunk =
  ck_id :: string
  ck_document_id :: string
  ck_domain :: domain
  ck_ordinal :: nat
  ck_text :: string
  ck_embedding :: "'f list option"
  ck_breadcrumbs :: "string list"
  ck_title :: string
  ck_uri :: string

record upsert_stats =
  us_chunks_written :: nat
  us_chunks_dedup_skipped :: nat
  us_documents_written :: nat

record 'f upsert_batch =
  ub_documents :: "document list"
  ub_chunks :: "'f chunk list"

record 'f search_query =
  sq_text :: string
  sq_embedding :: "'f list option"
  sq_domains :: "domain list"
  sq_top_k :: nat

definition query_text :: "string \<Rightarrow> nat \<Rightarrow> 'f search_query" where
  "query_text txt top_k = \<lparr>sq_text = txt, sq_embedding = None, sq_domains = [], sq_top_k = top_k\<rparr>"

definition with_domain :: "domain \<Rightarrow> 'f search_query \<Rightarrow> 'f search_query" where
  "with_domain d q = q\<lparr>sq_domains := sq_domains q @ [d]\<rparr>"

definition with_embedding :: "'f list \<Rightarrow> 'f search_query \<Rightarrow> 'f search_query" where
  "with_embedding e q = q\<lparr>sq_embedding := Some e\<rparr>"

type_synonym 'f search_hit = "'f chunk \<times> 'f"

record 'f kb =
  kb_documents :: "(string \<times> document) list"
  kb_chunks :: "(string \<times> 'f chunk) list"
  kb_hashes :: "(string \<times> string) list"
  kb_stats :: upsert_stats

definition kb_new :: "'f kb" where
  "kb_new = \<lparr>kb_documents = [], kb_chunks = [], kb_hashes = [],
     kb_stats = \<lparr>us_chunks_written = 0, us_chunks_dedup_skipped = 0, us_documents_written = 0\<rparr>\<rparr>"

definition insert_document :: "document \<Rightarrow> 'f kb \<Rightarrow> 'f kb" where
  "insert_document d k =
     k\<lparr>kb_documents := AList.update (dc_id d) d (kb_documents k),
       kb_stats := (kb_stats k)\<lparr>us_documents_written := us_documents_written (kb_stats k) + 1\<rparr>\<rparr>"

definition insert_chunk :: "(string \<Rightarrow> string) \<Rightarrow> 'f chunk \<Rightarrow> 'f kb \<Rightarrow> 'f kb" where
  "insert_chunk hash c k =
     (let h = hash (ck_text c) in
      if map_of (kb_hashes k) (ck_id c) = Some h then
        k\<lparr>kb_stats := (kb_stats k)
            \<lparr>us_chunks_dedup_skipped := us_chunks_dedup_skipped (kb_stats k) + 1\<rparr>\<rparr>
      else
        k\<lparr>kb_hashes := AList.update (ck_id c) h (kb_hashes k),
          kb_chunks := AList.update (ck_id c) c (kb_chunks k),
          kb_stats := (kb_stats k)\<lparr>us_chunks_written := us_chunks_written (kb_stats k) + 1\<rparr>\<rparr>)"

definition kb_upsert :: "(string \<Rightarrow> string) \<Rightarrow> 'f upsert_batch \<Rightarrow> 'f kb \<Rightarrow> 'f kb" where
  "kb_upsert hash b k =
     foldl (\<lambda>k c. insert_chunk hash c k) (foldl (\<lambda>k d. insert_document d k) k (ub_documents b))
       (ub_chunks b)"

definition kb_get_document :: "'f kb \<Rightarrow> string \<Rightarrow> document option" where
  "kb_get_document k i = map_of (kb_documents k) i"

definition kb_chunk_count :: "'f kb \<Rightarrow> nat" where
  "kb_chunk_count k = length (kb_chunks k)"

subsection \<open>Searching\<close>

fun is_alnum_char :: "char \<Rightarrow> bool" where
  "is_alnum_char c \<longleftrightarrow> is_digit_char c \<or> is_upper_char c \<or> is_lower_char c"

text \<open>The tokeniser; \<open>cur\<close> is the current token, reversed.\<close>

fun tokenize_aux :: "string \<Rightarrow> string \<Rightarrow> string list" where
  "tokenize_aux cur [] = (if 2 \<le> length cur then [rev cur] else [])"
| "tokenize_aux cur (ch # s) =
     (if is_alnum_char ch \<or> ch = CHR ''_'' then tokenize_aux (to_lower_char ch # cur) s
      else if 2 \<le> length cur then rev cur # tokenize_aux [] s
      else tokenize_aux [] s)"

definition tokenize :: "string \<Rightarrow> string list" where
  "tokenize txt = tokenize_aux [] txt"

fun dot_norms ::
  "'f float_ops \<Rightarrow> 'f \<times> 'f \<times> 'f \<Rightarrow> ('f \<times> 'f) list \<Rightarrow> 'f \<times> 'f \<times> 'f" where
  "dot_norms fo acc [] = acc"
| "dot_norms fo (dot, na, nb) ((x, y) # xys) =
     dot_norms fo (fl_add fo dot (fl_mul fo x y), fl_add fo na (fl_mul fo x x),
                   fl_add fo nb (fl_mul fo y y)) xys"

definition cosine :: "'f float_ops \<Rightarrow> 'f list \<Rightarrow> 'f list \<Rightarrow> 'f" where
  "cosine fo a b =
     (let z = fl_of_nat fo 0 in
      case dot_norms fo (z, z, z) (zip a b) of
        (dot, na, nb) \<Rightarrow>
          fl_div fo dot (fl_max fo (fl_mul fo (fl_sqrt fo na) (fl_sqrt fo nb)) (fl_lit fo ''1e-12'')))"

definition wants_domain :: "'f search_query \<Rightarrow> domain \<Rightarrow> bool" where
  "wants_domain q d \<longleftrightarrow> sq_domains q = [] \<or> d \<in> set (sq_domains q)"

definition dense_hits ::
  "'f float_ops \<Rightarrow> 'f chunk list \<Rightarrow> 'f list \<Rightarrow> 'f search_query \<Rightarrow> 'f search_hit list" where
  "dense_hits fo vals qe q =
     List.map_filter (\<lambda>c. case ck_embedding c of
         None \<Rightarrow> None
       | Some ce \<Rightarrow> if length ce \<noteq> length qe then None else Some (c, cosine fo ce qe))
       (filter (\<lambda>c. wants_domain q (ck_domain c)) vals)"

definition dense_search ::
  "'f float_ops \<Rightarrow> 'f chunk list \<Rightarrow> 'f list \<Rightarrow> 'f search_query \<Rightarrow> 'f search_hit list" where
  "dense_search fo vals qe q = take (sq_top_k q) (sort_desc (fl_lt fo) snd (dense_hits fo vals qe q))"

text \<open>The BM25 score of one text: \<open>n\<close> candidates, their average length \<open>avg_dl\<close>, the document
  frequencies \<open>df\<close>, the query terms and the text's tokens.\<close>

definition bm25_score ::
  "'f float_ops \<Rightarrow> 'f \<Rightarrow> 'f \<Rightarrow> nat \<Rightarrow> 'f \<Rightarrow> (string \<Rightarrow> nat) \<Rightarrow> string list \<Rightarrow> string list \<Rightarrow> 'f" where
  "bm25_score fo k1 b n avg_dl df terms toks =
     (let half = fl_lit fo ''0.5''; one = fl_lit fo ''1.0''; dl = fl_of_nat fo (length toks) in
      foldl (\<lambda>score t.
        let f = fl_of_nat fo (length (filter (\<lambda>u. u = t) toks)) in
        if fl_eq fo f (fl_lit fo ''0.0'') then score
        else
          (let df_t = fl_of_nat fo (df t);
               idf = fl_ln fo (fl_add fo (fl_div fo (fl_add fo (fl_sub fo (fl_of_nat fo n) df_t) half)
                                                     (fl_add fo df_t half)) one);
               denom = fl_add fo f (fl_mul fo k1
                         (fl_add fo (fl_sub fo one b) (fl_div fo (fl_mul fo b dl) avg_dl)))
           in fl_add fo score (fl_div fo (fl_mul fo idf (fl_mul fo f (fl_add fo k1 one))) denom)))
        (fl_lit fo ''0.0'') terms)"

definition bm25_search ::
  "'f float_ops \<Rightarrow> 'f chunk list \<Rightarrow> 'f search_query \<Rightarrow> 'f search_hit list" where
  "bm25_search fo vals q =
     (let candidates = filter (\<lambda>c. wants_domain q (ck_domain c)) vals;
          n = length candidates;
          terms = tokenize (sq_text q) in
      if n = 0 then []
      else if terms = [] then []
      else
        (let docs = map (\<lambda>c. tokenize (ck_text c)) candidates;
             avg_dl = fl_div fo (fl_of_nat fo (sum_list (map length docs))) (fl_of_nat fo n) in
         if fl_eq fo avg_dl (fl_lit fo ''0.0'') then []
         else
           (let df = (\<lambda>t. length (filter (\<lambda>d. t \<in> set d) docs));
                hits = filter (\<lambda>h. fl_lt fo (fl_lit fo ''0.0'') (snd h))
                  (map (\<lambda>(c, d). (c, bm25_score fo (fl_lit fo ''1.5'') (fl_lit fo ''0.75'') n avg_dl df terms d))
                     (zip candidates docs))
            in take (sq_top_k q) (sort_desc (fl_lt fo) snd hits))))"

definition kb_search ::
  "'f float_ops \<Rightarrow> 'f chunk list \<Rightarrow> 'f search_query \<Rightarrow> 'f search_hit list" where
  "kb_search fo vals q =
     (case sq_embedding q of Some qe \<Rightarrow> dense_search fo vals qe q | None \<Rightarrow> bm25_search fo vals q)"

definition kb_hybrid_search ::
  "'f float_ops \<Rightarrow> 'f chunk list \<Rightarrow> 'f search_query \<Rightarrow> 'f search_hit list \<times> 'f search_hit list" where
  "kb_hybrid_search fo vals q =
     ((case sq_embedding q of Some qe \<Rightarrow> dense_search fo vals qe q | None \<Rightarrow> []),
      bm25_search fo vals q)"

subsection \<open>What a search returns\<close>

lemma dense_hits_from:
  "(c, s) \<in> set (dense_hits fo vals qe q) \<Longrightarrow> c \<in> set vals \<and> wants_domain q (ck_domain c)"
  by (auto simp: dense_hits_def split: option.splits if_splits)

lemma bm25_search_from:
  "(c, s) \<in> set (bm25_search fo vals q) \<Longrightarrow> c \<in> set vals \<and> wants_domain q (ck_domain c)"
  by (auto simp: bm25_search_def Let_def split: if_splits dest!: in_set_takeD set_zip_leftD)

lemma sort_desc_Nil [simp]: "sort_desc lt key [] = []"
  by (simp add: sort_desc_def)

lemma kb_search_sorted_prefix:
  "\<exists>hs. kb_search fo vals q = take (sq_top_k q) (sort_desc (fl_lt fo) snd hs)"
proof (cases "sq_embedding q")
  case None
  have "\<exists>hs. [] = take (sq_top_k q) (sort_desc (fl_lt fo) snd (hs :: 'a search_hit list))"
    by (rule exI [of _ "[]"]) simp
  with None show ?thesis unfolding kb_search_def bm25_search_def Let_def by (simp split: if_split) blast
next
  case (Some qe)
  then show ?thesis by (auto simp: kb_search_def dense_search_def)
qed

lemma kb_search_from:
  "(c, s) \<in> set (kb_search fo vals q) \<Longrightarrow> c \<in> set vals \<and> wants_domain q (ck_domain c)"
  by (auto simp: kb_search_def dense_search_def split: option.splits
      dest: bm25_search_from dense_hits_from dest!: in_set_takeD)

text \<open>A search returns at most the requested number of hits, only chunks of the store that lie in
  the requested domains, best score first.\<close>

lemma search_hits_sound:
  assumes "strict_weak (fl_lt fo)"
  shows "length (kb_search fo vals q) \<le> sq_top_k q
     \<and> list_all (\<lambda>(c, s). c \<in> set vals \<and> wants_domain q (ck_domain c)) (kb_search fo vals q)
     \<and> desc_by (fl_lt fo) snd (kb_search fo vals q)"
proof -
  obtain hs where hs: "kb_search fo vals q = take (sq_top_k q) (sort_desc (fl_lt fo) snd hs)"
    using kb_search_sorted_prefix [of fo vals q] by blast
  have "desc_by (fl_lt fo) snd (take (sq_top_k q) (sort_desc (fl_lt fo) snd hs))"
    using sort_desc_sorted [OF assms] by (metis append_take_drop_id sorted_wrt_append)
  moreover have "list_all (\<lambda>(c, s). c \<in> set vals \<and> wants_domain q (ck_domain c)) (kb_search fo vals q)"
    using kb_search_from [of _ _ fo vals q] by (auto simp: list_all_iff)
  ultimately show ?thesis unfolding hs by simp
qed

text \<open>A tiny float implementation on integers, enough to run the model.\<close>

definition int_ops :: "int float_ops" where
  "int_ops = \<lparr>fl_of_nat = int, fl_lit = (\<lambda>_. 1), fl_add = (+), fl_sub = (-), fl_mul = (*),
     fl_div = (\<lambda>a b. a), fl_ln = id, fl_sqrt = id, fl_max = max, fl_lt = (<), fl_eq = (=)\<rparr>"

definition sample_chunk :: "string \<Rightarrow> int list \<Rightarrow> int chunk" where
  "sample_chunk i e = \<lparr>ck_id = i, ck_document_id = ''d'', ck_domain = Bpmn, ck_ordinal = 0,
     ck_text = i, ck_embedding = Some e, ck_breadcrumbs = [], ck_title = [], ck_uri = []\<rparr>"

lemma search_hits_sound_witness:
  "kb_search int_ops [sample_chunk ''a'' [0], sample_chunk ''b'' [2]]
      (with_embedding [3] (query_text [] 1)) = [(sample_chunk ''b'' [2], 6)]
   \<and> desc_by (fl_lt int_ops) snd (kb_search int_ops [sample_chunk ''a'' [0], sample_chunk ''b'' [2]]
      (with_embedding [3] (query_text [] 1)))"
proof -
  have "strict_weak (fl_lt int_ops)" by (auto simp: strict_weak_def int_ops_def)
  note sound = search_hits_sound [OF this]
  have "kb_search int_ops [sample_chunk ''a'' [0], sample_chunk ''b'' [2]]
      (with_embedding [3] (query_text [] 1)) = [(sample_chunk ''b'' [2], 6)]"
    by code_simp
  with sound show ?thesis by blast
qed

subsection \<open>What an upsert stores\<close>

text \<open>A store is consistent when the hash kept for a chunk id is that of the stored chunk.\<close>

definition kb_ok :: "(string \<Rightarrow> string) \<Rightarrow> 'f kb \<Rightarrow> bool" where
  "kb_ok hash k \<longleftrightarrow> map_of (kb_hashes k) = map_option (\<lambda>c. hash (ck_text c)) \<circ> map_of (kb_chunks k)"

lemma kb_new_ok: "kb_ok hash kb_new"
  by (simp add: kb_ok_def kb_new_def fun_eq_iff)

lemma insert_chunk_ok: "kb_ok hash k \<Longrightarrow> kb_ok hash (insert_chunk hash c k)"
  by (auto simp: kb_ok_def insert_chunk_def Let_def update_conv' fun_eq_iff)

lemma insert_document_ok: "kb_ok hash k \<Longrightarrow> kb_ok hash (insert_document d k)"
  by (simp add: kb_ok_def insert_document_def)

lemma foldl_invariant: "P k \<Longrightarrow> (\<And>k x. P k \<Longrightarrow> P (f k x)) \<Longrightarrow> P (foldl f k xs)"
  by (induction xs arbitrary: k) auto

lemma kb_upsert_ok: "kb_ok hash k \<Longrightarrow> kb_ok hash (kb_upsert hash b k)"
  unfolding kb_upsert_def
  by (intro foldl_invariant [where P = "kb_ok hash"]) (auto intro: insert_chunk_ok insert_document_ok)

text \<open>The text stored for a chunk id, after an insertion into a consistent store.\<close>

lemma insert_chunk_text:
  assumes "inj hash" and "kb_ok hash k"
  shows "map_option ck_text (map_of (kb_chunks (insert_chunk hash c k)) i)
     = (if i = ck_id c then Some (ck_text c) else map_option ck_text (map_of (kb_chunks k) i))"
proof -
  have same: "map_option ck_text (map_of (kb_chunks k) (ck_id c)) = Some (ck_text c)"
    if "map_of (kb_hashes k) (ck_id c) = Some (hash (ck_text c))"
    using that assms by (auto simp: kb_ok_def dest: injD)
  show ?thesis
  proof (cases "map_of (kb_hashes k) (ck_id c) = Some (hash (ck_text c))")
    case True
    with same [OF True] show ?thesis by (simp add: insert_chunk_def)
  next
    case False
    then show ?thesis by (simp add: insert_chunk_def Let_def update_conv')
  qed
qed

lemma insert_chunks_text:
  assumes "inj hash" and "kb_ok hash k"
  shows "map_option ck_text (map_of (kb_chunks (foldl (\<lambda>k c. insert_chunk hash c k) k cs)) i)
     = (case find (\<lambda>c. ck_id c = i) (rev cs) of
          Some c \<Rightarrow> Some (ck_text c) | None \<Rightarrow> map_option ck_text (map_of (kb_chunks k) i))"
proof (induction cs rule: rev_induct)
  case (snoc c cs)
  have "kb_ok hash (foldl (\<lambda>k c. insert_chunk hash c k) k cs)"
    using assms(2) by (intro foldl_invariant [where P = "kb_ok hash"]) (auto intro: insert_chunk_ok)
  then show ?case
    using snoc by (simp add: insert_chunk_text [OF assms(1)])
qed simp

lemma insert_documents_chunks [simp]:
  "kb_chunks (foldl (\<lambda>k d. insert_document d k) k ds) = kb_chunks k"
  by (induction ds arbitrary: k) (simp_all add: insert_document_def)

lemma insert_chunks_documents [simp]:
  "kb_documents (foldl (\<lambda>k c. insert_chunk hash c k) k cs) = kb_documents k"
  by (induction cs arbitrary: k) (simp_all add: insert_chunk_def Let_def)

lemma insert_documents_lookup:
  "map_of (kb_documents (foldl (\<lambda>k d. insert_document d k) k ds)) i
     = (case find (\<lambda>d. dc_id d = i) (rev ds) of Some d \<Rightarrow> Some d | None \<Rightarrow> map_of (kb_documents k) i)"
  by (induction ds rule: rev_induct) (auto simp: insert_document_def update_conv')

text \<open>An upsert makes the store hold, for every document id, the last document of the batch with
  that id, and for every chunk id, the text of the last chunk of the batch with that id;
  everything else is kept. (Only the text: a chunk whose text is already stored is skipped, with
  its new embedding.)\<close>

lemma upsert_stores_batch:
  assumes "inj hash" and "kb_ok hash k"
  shows "kb_get_document (kb_upsert hash b k) i
       = (case find (\<lambda>d. dc_id d = i) (rev (ub_documents b)) of
            Some d \<Rightarrow> Some d | None \<Rightarrow> kb_get_document k i)
     \<and> map_option ck_text (map_of (kb_chunks (kb_upsert hash b k)) j)
       = (case find (\<lambda>c. ck_id c = j) (rev (ub_chunks b)) of
            Some c \<Rightarrow> Some (ck_text c) | None \<Rightarrow> map_option ck_text (map_of (kb_chunks k) j))"
proof -
  have "kb_ok hash (foldl (\<lambda>k d. insert_document d k) k (ub_documents b))"
    using assms(2) by (intro foldl_invariant [where P = "kb_ok hash"]) (auto intro: insert_document_ok)
  then show ?thesis
    by (simp add: kb_upsert_def kb_get_document_def insert_documents_lookup
        insert_chunks_text [OF assms(1)] split: option.split)
qed

lemma upsert_stores_batch_witness:
  "map_option ck_text (map_of (kb_chunks (kb_upsert (\<lambda>s. s)
     \<lparr>ub_documents = [], ub_chunks = [sample_chunk ''a'' [1]]\<rparr> kb_new)) ''a'') = Some ''a''"
  using upsert_stores_batch [OF inj_on_id2, OF kb_new_ok,
      of "\<lparr>ub_documents = [], ub_chunks = [sample_chunk ''a'' [1]]\<rparr>" "[]" "''a''"]
  by (simp add: sample_chunk_def)

text \<open>Re-ingesting a chunk with unchanged text keeps the stored embedding, whatever the new one is:
  after a change of the embedding model the old vectors stay.\<close>

lemma reingest_keeps_old_embedding:
  assumes "map_of (kb_chunks k) i = Some old" and "kb_ok hash k"
  shows "map_of (kb_chunks (insert_chunk hash (old\<lparr>ck_id := i, ck_embedding := e\<rparr>) k)) i = Some old"
proof -
  have "map_of (kb_hashes k) i = Some (hash (ck_text old))"
    using assms by (simp add: kb_ok_def)
  then show ?thesis using assms(1) by (simp add: insert_chunk_def)
qed

lemma reingest_keeps_old_embedding_witness:
  "map_of (kb_chunks (insert_chunk id ((sample_chunk ''a'' [1])\<lparr>ck_id := ''a'', ck_embedding := Some [9]\<rparr>)
     (insert_chunk id (sample_chunk ''a'' [1]) kb_new))) ''a'' = Some (sample_chunk ''a'' [1])"
proof (rule reingest_keeps_old_embedding)
  show "map_of (kb_chunks (insert_chunk id (sample_chunk ''a'' [1]) kb_new)) ''a''
      = Some (sample_chunk ''a'' [1])"
    by (simp add: insert_chunk_def kb_new_def sample_chunk_def)
  show "kb_ok id (insert_chunk id (sample_chunk ''a'' [1]) kb_new)"
    by (intro insert_chunk_ok kb_new_ok)
qed

end
