(* ===== verification/Doc_Tree.thy ===== *)
theory Doc_Tree
  imports Kb_Store
begin

text \<open>
  The document tree (\<open>crates/oracle-automate-kb/src/doc_tree.rs\<close>): heading detection in two
  dialects, the assembly of the sections into a tree, dotted paths, navigation. The assembly keeps
  a stack of raw pointers to nodes of the tree under construction: a pointer is modelled by the
  address of its node, the indices to follow from the roots, and pushing a node into a vector may
  move the elements of that vector (but not what they own).
\<close>

datatype doc_node =
  DocNode (dn_path: string) (dn_depth: nat) (dn_title: string) (dn_summary: string)
    (dn_start: nat) (dn_end: nat) (dn_tokens: nat) (dn_children: "doc_node list")

record document_tree =
  dt_document_id :: string
  dt_root :: doc_node
  dt_leaf_count :: nat
  dt_max_depth :: nat

definition extract_summary :: "string \<Rightarrow> string" where
  "extract_summary body = trim (take_sentences 0 0 (utf8_chars (trim body)))"

subsection \<open>Headings\<close>

record heading =
  hd_depth :: nat
  hd_title :: string
  hd_marker_start :: nat
  hd_body_start :: nat

text \<open>The line loop: the rest of the body, at offset \<open>i\<close> of \<open>n\<close> bytes.\<close>

function scan_lines ::
  "(string \<Rightarrow> (nat \<times> string) option) \<Rightarrow> nat \<Rightarrow> nat \<Rightarrow> string \<Rightarrow> heading list" where
  "scan_lines parse n i [] = []"
| "scan_lines parse n i (c # s) =
     (let line = takeWhile (\<lambda>c. c \<noteq> newline) (c # s);
          j = i + length line;
          later = scan_lines parse n (j + 1) (drop (length line + 1) (c # s))
      in case parse line of
           Some (depth, title) \<Rightarrow>
             \<lparr>hd_depth = depth, hd_title = title, hd_marker_start = i,
              hd_body_start = min (j + 1) n\<rparr> # later
         | None \<Rightarrow> later)"
  by pat_completeness auto
termination
  by (relation "measure (\<lambda>(parse, n, i, s). length s)") auto

definition parse_atx_line :: "string \<Rightarrow> (nat \<times> string) option" where
  "parse_atx_line line =
     (let trimmed = trim_start line;
          depth = length (takeWhile (\<lambda>c. c = CHR ''#'') trimmed) in
      if depth = 0 \<or> 6 < depth then None
      else
        (let rest = drop depth trimmed in
         if \<not> starts_with rest '' '' \<and> \<not> starts_with rest [tab_char] then None
         else
           (let title = trim (trim_end_char (CHR ''#'') (trim rest)) in
            if title = [] then None else Some (depth, title))))"

text \<open>The leading groups of digits and a full stop: how many, and the rest of the line; \<open>None\<close> when
  digits are not followed by a full stop.\<close>

function numbered_prefix :: "nat \<Rightarrow> string \<Rightarrow> (nat \<times> string) option" where
  "numbered_prefix depth s =
     (let ds = takeWhile is_digit_char s; rest = dropWhile is_digit_char s in
      if ds = [] then Some (depth, s)
      else (case rest of
              c # rest' \<Rightarrow> if c = CHR ''.'' then numbered_prefix (depth + 1) rest' else None
            | [] \<Rightarrow> None))"
  by pat_completeness auto
termination
proof (relation "measure (\<lambda>(depth, s). length s)")
  show "wf (measure (\<lambda>(depth :: nat, s :: string). length s))" by simp
next
  fix depth :: nat and s ds rest c rest' :: string and x
  assume "rest = dropWhile is_digit_char s" "rest = x # rest'"
  then have "length (x # rest') \<le> length s" by (metis length_dropWhile_le)
  then show "((depth + 1, rest'), depth, s) \<in> measure (\<lambda>(depth, s). length s)" by simp
qed

declare numbered_prefix.simps [simp del]

definition parse_numbered :: "string \<Rightarrow> (nat \<times> string) option" where
  "parse_numbered line =
     (case numbered_prefix 0 line of
        None \<Rightarrow> None
      | Some (depth, rest) \<Rightarrow>
          if depth = 0 then None
          else if \<not> starts_with rest '' '' \<and> \<not> starts_with rest [tab_char] then None
          else (let title = trim rest in if title = [] then None else Some (depth, title)))"

definition parse_section_line :: "string \<Rightarrow> (nat \<times> string) option" where
  "parse_section_line line =
     (let trimmed = trim_start line in
      case strip_prefix trimmed ''SECTION:'' of
        Some rest \<Rightarrow> (let title = trim rest in if title \<noteq> [] then Some (1, title) else None)
      | None \<Rightarrow> parse_numbered trimmed)"

definition detect_atx_headings :: "string \<Rightarrow> heading list" where
  "detect_atx_headings body = scan_lines parse_atx_line (length body) 0 body"

definition detect_section_markers :: "string \<Rightarrow> heading list" where
  "detect_section_markers body = scan_lines parse_section_line (length body) 0 body"

definition detect_headings :: "string \<Rightarrow> heading list" where
  "detect_headings body =
     (let md = detect_atx_headings body in
      if md \<noteq> [] then md else detect_section_markers body)"

subsection \<open>Sections\<close>

record section_info =
  sx_depth :: nat
  sx_title :: string
  sx_start :: nat
  sx_body_start :: nat
  sx_end :: nat

text \<open>The windows of two over the headings and the closing sentinel.\<close>

fun prepare :: "heading list \<Rightarrow> section_info list" where
  "prepare (cur # nxt # hs) =
     (if hd_depth cur = 0 then []
      else [\<lparr>sx_depth = hd_depth cur, sx_title = hd_title cur, sx_start = hd_marker_start cur,
             sx_body_start = hd_body_start cur, sx_end = hd_marker_start nxt\<rparr>])
     @ prepare (nxt # hs)"
| "prepare hs = []"

definition sections_of :: "string \<Rightarrow> heading list \<Rightarrow> section_info list" where
  "sections_of body hs =
     prepare (hs @ [\<lparr>hd_depth = 0, hd_title = [], hd_marker_start = length body,
                     hd_body_start = length body\<rparr>])"

definition section_node :: "string \<Rightarrow> section_info \<Rightarrow> doc_node" where
  "section_node body ps =
     (let body_slice = get_slice (sx_body_start ps) (sx_end ps) body in
      DocNode [] (sx_depth ps) (sx_title ps) (extract_summary body_slice) (sx_start ps) (sx_end ps)
        ((length body_slice div 4) mod 2 ^ 32) [])"

subsection \<open>Assembly with the pointer stack\<close>

type_synonym address = "nat list"

fun set_children :: "doc_node \<Rightarrow> doc_node list \<Rightarrow> doc_node" where
  "set_children (DocNode p d t s a e k cs) cs' = DocNode p d t s a e k cs'"

text \<open>Push a node into the roots (\<open>[]\<close>) or into the children of the node at an address.\<close>

fun push_at :: "address \<Rightarrow> doc_node \<Rightarrow> doc_node list \<Rightarrow> doc_node list" where
  "push_at [] node f = f @ [node]"
| "push_at (i # p) node f =
     (if i < length f
      then f[i := set_children (f ! i) (push_at p node (dn_children (f ! i)))] else f)"

text \<open>How many nodes the vector at an address holds: the index the next push gets.\<close>

fun vec_len :: "address \<Rightarrow> doc_node list \<Rightarrow> nat" where
  "vec_len [] f = length f"
| "vec_len (i # p) f = (if i < length f then vec_len p (dn_children (f ! i)) else 0)"

type_synonym pointer_stack = "(nat \<times> address) list"

text \<open>The stack, its top first; entries at least as deep as the section are popped.\<close>

definition pop_stack :: "nat \<Rightarrow> pointer_stack \<Rightarrow> pointer_stack" where
  "pop_stack depth stack = dropWhile (\<lambda>(d, _). depth \<le> d) stack"

definition parent_address :: "pointer_stack \<Rightarrow> address" where
  "parent_address stack = (case stack of (_, p) # _ \<Rightarrow> p | [] \<Rightarrow> [])"

definition add_section ::
  "doc_node \<Rightarrow> doc_node list \<times> pointer_stack \<Rightarrow> doc_node list \<times> pointer_stack" where
  "add_section node fs =
     (case fs of (forest, stack) \<Rightarrow>
       (let stack' = pop_stack (dn_depth node) stack; p = parent_address stack'
        in (push_at p node forest, (dn_depth node, p @ [vec_len p forest]) # stack')))"

definition build_forest :: "doc_node list \<Rightarrow> doc_node list \<times> pointer_stack" where
  "build_forest nodes = foldl (\<lambda>fs n. add_section n fs) ([], []) nodes"

subsection \<open>Paths, counts and navigation\<close>

fun assign_paths :: "string \<Rightarrow> doc_node \<Rightarrow> doc_node"
and assign_children :: "string \<Rightarrow> nat \<Rightarrow> doc_node list \<Rightarrow> doc_node list" where
  "assign_paths path (DocNode p d t s a e k cs) =
     DocNode path d t s a e k (assign_children (path @ ''.'') 1 cs)"
| "assign_children pre i [] = []"
| "assign_children pre i (c # cs) =
     assign_paths (pre @ show_nat i) c # assign_children pre (i + 1) cs"

fun preorder :: "doc_node \<Rightarrow> doc_node list" where
  "preorder (DocNode p d t s a e k cs) = DocNode p d t s a e k cs # concat (map preorder cs)"

fun node_count :: "doc_node \<Rightarrow> nat" where
  "node_count (DocNode p d t s a e k cs) = 1 + sum_list (map node_count cs)"

fun count_leaves :: "doc_node \<Rightarrow> nat" where
  "count_leaves (DocNode p d t s a e k cs) =
     (if cs = [] then 1 else sum_list (map count_leaves cs))"

fun find_node :: "string \<Rightarrow> doc_node \<Rightarrow> doc_node option"
and find_first :: "string \<Rightarrow> doc_node list \<Rightarrow> doc_node option" where
  "find_node path (DocNode p d t s a e k cs) =
     (if p = path then Some (DocNode p d t s a e k cs) else find_first path cs)"
| "find_first path [] = None"
| "find_first path (c # cs) =
     (case find_node path c of Some n \<Rightarrow> Some n | None \<Rightarrow> find_first path cs)"

definition flat_titles :: "document_tree \<Rightarrow> (string \<times> string) list" where
  "flat_titles t =
     map (\<lambda>n. (dn_path n, dn_title n)) (filter (\<lambda>n. dn_path n \<noteq> []) (preorder (dt_root t)))"

definition build_document_tree :: "document \<Rightarrow> document_tree" where
  "build_document_tree doc =
     (let body = dc_body doc; headings = detect_headings body;
          root = (\<lambda>cs. DocNode [] 0 (dc_title doc) (extract_summary body) 0 (length body)
                    ((length body div 4) mod 2 ^ 32) cs) in
      if headings = [] then
        \<lparr>dt_document_id = dc_id doc, dt_root = root [], dt_leaf_count = 1, dt_max_depth = 0\<rparr>
      else
        (let prepared = sections_of body headings;
             roots = fst (build_forest (map (section_node body) prepared));
             full = root (assign_children [] 1 roots)
         in \<lparr>dt_document_id = dc_id doc, dt_root = full,
             dt_leaf_count = max (count_leaves full) 1,
             dt_max_depth = foldl max 0 (map sx_depth prepared)\<rparr>))"

subsection \<open>The right spine\<close>

text \<open>An address on the right spine of a forest, and the depth of the node there.\<close>

fun on_spine :: "address \<Rightarrow> doc_node list \<Rightarrow> bool" where
  "on_spine [] f = True"
| "on_spine (i # p) f = (f \<noteq> [] \<and> i = length f - 1 \<and> on_spine p (dn_children (last f)))"

fun depth_at :: "nat \<Rightarrow> address \<Rightarrow> doc_node list \<Rightarrow> nat" where
  "depth_at d [] f = d"
| "depth_at d (i # p) f = depth_at (dn_depth (last f)) p (dn_children (last f))"

text \<open>Every node lies deeper than its parent.\<close>

fun nested :: "nat \<Rightarrow> doc_node \<Rightarrow> bool" where
  "nested d (DocNode p d' t s a e k cs) = (d < d' \<and> list_all (nested d') cs)"

lemma set_children_simps [simp]:
  "dn_children (set_children n cs) = cs" "dn_depth (set_children n cs) = dn_depth n"
  by (cases n; simp)+

lemma spine_update: "f \<noteq> [] \<Longrightarrow> f[length f - 1 := x] = butlast f @ [x]"
  by (induction f) (auto split: nat.splits)

lemma push_at_spine:
  "on_spine (i # p) f \<Longrightarrow>
     push_at (i # p) node f
       = butlast f @ [set_children (last f) (push_at p node (dn_children (last f)))]"
  using spine_update [of f] by (simp add: last_conv_nth)

lemma preorder_set_children:
  "preorder (set_children n cs) = set_children n cs # concat (map preorder cs)"
  by (cases n) simp

text \<open>What a node says apart from its children.\<close>

definition node_label :: "doc_node \<Rightarrow> nat \<times> string \<times> string \<times> nat \<times> nat \<times> nat" where
  "node_label n = (dn_depth n, dn_title n, dn_summary n, dn_start n, dn_end n, dn_tokens n)"

abbreviation labels :: "doc_node list \<Rightarrow> (nat \<times> string \<times> string \<times> nat \<times> nat \<times> nat) list" where
  "labels f \<equiv> map node_label (concat (map preorder f))"

lemma label_set_children [simp]: "node_label (set_children n cs) = node_label n"
  by (cases n) (simp add: node_label_def)

lemma labels_node: "labels [n] = node_label n # labels (dn_children n)"
  by (cases n) (simp add: node_label_def)

lemma labels_append: "labels (f @ g) = labels f @ labels g"
  by simp

lemma labels_spine: "f \<noteq> [] \<Longrightarrow> labels f = labels (butlast f) @ labels [last f]"
  by (metis append_butlast_last_id labels_append)

lemma labels_push:
  "on_spine p f \<Longrightarrow> dn_children node = [] \<Longrightarrow> labels (push_at p node f) = labels f @ [node_label node]"
proof (induction p arbitrary: f)
  case Nil
  then show ?case using labels_node [of node] by simp
next
  case (Cons i p)
  then have f: "f \<noteq> []" by simp
  have "labels (push_at (i # p) node f)
      = labels (butlast f) @ labels [set_children (last f) (push_at p node (dn_children (last f)))]"
    unfolding push_at_spine [OF Cons.prems(1)] by (rule labels_append)
  also have "\<dots> = labels (butlast f) @ labels [last f] @ [node_label node]"
    using Cons unfolding labels_node by simp
  also have "\<dots> = labels f @ [node_label node]"
    using labels_spine [OF f] by simp
  finally show ?case .
qed

lemma nested_set_children:
  "nested d n \<Longrightarrow> list_all (nested (dn_depth n)) cs \<Longrightarrow> nested d (set_children n cs)"
  by (cases n) simp

lemma nested_push:
  "on_spine p f \<Longrightarrow> list_all (nested d) f \<Longrightarrow> dn_children node = [] \<Longrightarrow>
     depth_at d p f < dn_depth node \<Longrightarrow> list_all (nested d) (push_at p node f)"
proof (induction p arbitrary: f d)
  case Nil
  then show ?case by (cases node) simp
next
  case (Cons i p)
  let ?l = "last f"
  have f: "f \<noteq> []" "on_spine p (dn_children ?l)" using Cons.prems(1) by simp_all
  have l: "nested d ?l" "list_all (nested d) (butlast f)"
    using Cons.prems(2) f(1) by (auto simp: list_all_iff dest: in_set_butlastD)
  have kids: "list_all (nested (dn_depth ?l)) (dn_children ?l)" using l(1) by (cases ?l) simp
  have "list_all (nested (dn_depth ?l)) (push_at p node (dn_children ?l))"
    using Cons.IH [OF f(2) kids Cons.prems(3)] Cons.prems(4) by simp
  then show ?case
    unfolding push_at_spine [OF Cons.prems(1)]
    using l nested_set_children [OF l(1)] by simp
qed

lemma last_push_at: "on_spine (i # p) f \<Longrightarrow>
    last (push_at (i # p) node f) = set_children (last f) (push_at p node (dn_children (last f)))"
  by (simp only: push_at_spine last_snoc)

lemma length_push_at: "p \<noteq> [] \<Longrightarrow> length (push_at p node f) = length f"
  by (cases p) simp_all

lemma spine_after_push:
  "on_spine p f \<Longrightarrow> prefix q p \<Longrightarrow>
     on_spine q (push_at p node f) \<and> depth_at d q (push_at p node f) = depth_at d q f"
proof (induction p arbitrary: f q d)
  case Nil
  then show ?case by simp
next
  case (Cons i p)
  show ?case
  proof (cases q)
    case (Cons j q')
    then have q: "j = i" "prefix q' p" using Cons.prems(2) by simp_all
    have s: "f \<noteq> []" "i = length f - 1" "on_spine p (dn_children (last f))"
      using Cons.prems(1) by simp_all
    have len: "length (push_at (i # p) node f) = length f" by (simp add: length_push_at)
    note last = last_push_at [OF Cons.prems(1), of node]
    from Cons.IH [OF s(3) q(2)] len s(1,2) last show ?thesis
      unfolding Cons q(1) by (simp del: push_at.simps) (metis length_0_conv)
  qed simp
qed

lemma spine_new_node:
  "on_spine p f \<Longrightarrow>
     on_spine (p @ [vec_len p f]) (push_at p node f)
     \<and> depth_at d (p @ [vec_len p f]) (push_at p node f) = dn_depth node"
proof (induction p arbitrary: f d)
  case Nil
  then show ?case by simp
next
  case (Cons i p)
  have s: "f \<noteq> []" "i = length f - 1" "on_spine p (dn_children (last f))"
    using Cons.prems(1) by simp_all
  have len: "length (push_at (i # p) node f) = length f" by (simp add: length_push_at)
  have vec: "vec_len (i # p) f = vec_len p (dn_children (last f))"
    using s(1,2) by (simp add: last_conv_nth)
  from Cons.IH [OF s(3)] len s(1,2) last_push_at [OF Cons.prems(1), of node] show ?case
    unfolding vec by (simp del: push_at.simps vec_len.simps) (metis length_0_conv)
qed

subsection \<open>The pointer stack\<close>

fun stack_ok :: "doc_node list \<Rightarrow> pointer_stack \<Rightarrow> bool" where
  "stack_ok f [] = True"
| "stack_ok f ((d, a) # rest) =
     (a \<noteq> [] \<and> on_spine a f \<and> depth_at 0 a f = d \<and> butlast a = parent_address rest \<and> stack_ok f rest)"

lemma stack_ok_pop: "stack_ok f st \<Longrightarrow> stack_ok f (pop_stack depth st)"
  unfolding pop_stack_def by (induction st) auto

lemma stack_ok_parent: "stack_ok f st \<Longrightarrow> on_spine (parent_address st) f"
  by (cases st) (auto simp: parent_address_def)

lemma stack_ok_spine: "stack_ok f st \<Longrightarrow> (d, a) \<in> set st \<Longrightarrow> on_spine a f"
  by (induction f st rule: stack_ok.induct) auto

lemma stack_ok_prefix: "stack_ok f st \<Longrightarrow> (d, a) \<in> set st \<Longrightarrow> prefix a (parent_address st) \<and> a \<noteq> []"
proof (induction f st rule: stack_ok.induct)
  case (2 f e b rest)
  then show ?case
  proof (cases "(d, a) = (e, b)")
    case False
    then have "prefix a (parent_address rest)" "a \<noteq> []" using 2 by auto
    moreover have "prefix (parent_address rest) b"
      using 2(2) by (metis append_butlast_last_id prefixI stack_ok.simps(2))
    ultimately show ?thesis by (simp add: parent_address_def)
  qed (auto simp: parent_address_def)
qed simp

lemma pop_stack_parent_depth:
  "stack_ok f st \<Longrightarrow> 0 < depth \<Longrightarrow> depth_at 0 (parent_address (pop_stack depth st)) f < depth"
proof (induction st)
  case Nil
  then show ?case by (simp add: pop_stack_def parent_address_def)
next
  case (Cons da st)
  obtain d a where da: "da = (d, a)" by force
  show ?case
  proof (cases "depth \<le> d")
    case True
    with Cons show ?thesis by (simp add: da pop_stack_def)
  next
    case False
    with Cons.prems show ?thesis by (auto simp: da pop_stack_def parent_address_def)
  qed
qed

lemma stack_ok_push:
  "stack_ok f st \<Longrightarrow> prefix (parent_address st) p \<Longrightarrow> on_spine p f \<Longrightarrow> stack_ok (push_at p node f) st"
proof (induction f st rule: stack_ok.induct)
  case (2 f d a rest)
  have "prefix a p" using 2(3) by (simp add: parent_address_def)
  moreover have "prefix (parent_address rest) p"
    using calculation 2(2)
    by (metis append_butlast_last_id prefixI prefix_order.trans stack_ok.simps(2))
  ultimately show ?case
    using 2 spine_after_push [OF 2(4) \<open>prefix a p\<close>, of node 0] by simp
qed simp

definition forest_ok :: "doc_node list \<times> pointer_stack \<Rightarrow> bool" where
  "forest_ok fs \<longleftrightarrow> list_all (nested 0) (fst fs) \<and> stack_ok (fst fs) (snd fs)"

lemma add_section_ok:
  assumes "forest_ok fs" and "dn_children node = []" and "0 < dn_depth node"
  shows "forest_ok (add_section node fs)
    \<and> labels (fst (add_section node fs)) = labels (fst fs) @ [node_label node]"
proof -
  obtain f st where fs: "fs = (f, st)" by force
  let ?st = "pop_stack (dn_depth node) st" and ?p = "parent_address (pop_stack (dn_depth node) st)"
  have st: "stack_ok f ?st" using assms(1) stack_ok_pop by (simp add: forest_ok_def fs)
  have p: "on_spine ?p f" using st by (rule stack_ok_parent)
  have "depth_at 0 ?p f < dn_depth node"
    using pop_stack_parent_depth assms(1,3) by (simp add: forest_ok_def fs)
  then have "list_all (nested 0) (push_at ?p node f)"
    using nested_push [OF p _ assms(2)] assms(1) by (simp add: forest_ok_def fs)
  moreover have "stack_ok (push_at ?p node f) ?st"
    by (rule stack_ok_push [OF st _ p]) simp
  moreover have "labels (push_at ?p node f) = labels f @ [node_label node]"
    by (rule labels_push [OF p assms(2)])
  ultimately show ?thesis
    using spine_new_node [OF p, of node 0]
    by (simp add: add_section_def fs forest_ok_def Let_def)
qed

lemma build_forest_ok:
  "list_all (\<lambda>n. dn_children n = [] \<and> 0 < dn_depth n) nodes \<Longrightarrow>
     forest_ok (build_forest nodes) \<and> labels (fst (build_forest nodes)) = map node_label nodes"
proof (induction nodes rule: rev_induct)
  case Nil
  then show ?case by (simp add: build_forest_def forest_ok_def)
next
  case (snoc n nodes)
  then have "forest_ok (build_forest nodes)" "labels (fst (build_forest nodes)) = map node_label nodes"
    by simp_all
  moreover have "build_forest (nodes @ [n]) = add_section n (build_forest nodes)"
    by (simp add: build_forest_def)
  ultimately show ?case
    using add_section_ok [of "build_forest nodes" n] snoc.prems by simp
qed

subsection \<open>The pointers are valid\<close>

fun valid_address :: "address \<Rightarrow> doc_node list \<Rightarrow> bool" where
  "valid_address [] f = False"
| "valid_address (i # p) f = (i < length f \<and> (p = [] \<or> valid_address p (dn_children (f ! i))))"

lemma spine_valid: "on_spine a f \<Longrightarrow> a \<noteq> [] \<Longrightarrow> valid_address a f"
proof (induction a arbitrary: f)
  case (Cons i p)
  then show ?case by (cases "p = []") (auto simp: last_conv_nth)
qed simp

lemma list_all_take: "list_all P xs \<Longrightarrow> list_all P (take k xs)"
  by (auto simp: list_all_iff dest: in_set_takeD)

lemma prepare_depths: "list_all (\<lambda>s. 0 < sx_depth s) (prepare hs)"
  by (induction hs rule: prepare.induct) auto

lemma section_node_simps [simp]:
  "dn_children (section_node body s) = []" "dn_depth (section_node body s) = sx_depth s"
  "dn_title (section_node body s) = sx_title s" "dn_start (section_node body s) = sx_start s"
  "dn_end (section_node body s) = sx_end s"
  by (simp_all add: section_node_def Let_def)

lemma section_nodes_fresh:
  "list_all (\<lambda>n. dn_children n = [] \<and> 0 < dn_depth n) (map (section_node body) (sections_of body hs))"
  using prepare_depths by (auto simp: sections_of_def list_all_iff)

text \<open>C22. The raw pointers of the tree builder never dangle: whenever a node is pushed, after any number
  of sections and for a section of any depth, every pointer left on the stack is the address of a
  node of the tree, and none points into the vector that the push may reallocate.\<close>

theorem builder_pointers_never_dangle:
  "case build_forest (take k (map (section_node body) (sections_of body hs))) of (forest, stack) \<Rightarrow>
     list_all (\<lambda>(_, a). valid_address a forest \<and> butlast a \<noteq> parent_address (pop_stack depth stack))
       (pop_stack depth stack)"
proof -
  let ?nodes = "take k (map (section_node body) (sections_of body hs))"
  obtain f st where b: "build_forest ?nodes = (f, st)" by force
  have "list_all (\<lambda>n. dn_children n = [] \<and> 0 < dn_depth n) ?nodes"
    by (intro list_all_take section_nodes_fresh)
  then have "stack_ok f st" using build_forest_ok [of ?nodes] b by (simp add: forest_ok_def)
  then have ok: "stack_ok f (pop_stack depth st)" by (rule stack_ok_pop)
  have "valid_address a f \<and> butlast a \<noteq> parent_address (pop_stack depth st)"
    if "(d, a) \<in> set (pop_stack depth st)" for d a
  proof -
    have a: "prefix a (parent_address (pop_stack depth st))" "a \<noteq> []"
      using stack_ok_prefix [OF ok that] by simp_all
    have "on_spine a f" using ok that by (rule stack_ok_spine)
    moreover have "length (butlast a) < length (parent_address (pop_stack depth st))"
      using a prefix_length_le [OF a(1)] by (cases a) auto
    then have "butlast a \<noteq> parent_address (pop_stack depth st)" by (metis less_irrefl)
    ultimately show ?thesis using spine_valid a(2) by blast
  qed
  then show ?thesis by (auto simp: b list_all_iff)
qed

subsection \<open>The tree is the document's table of contents\<close>

lemma scan_lines_depths:
  "(\<And>l d t. parse l = Some (d, t) \<Longrightarrow> 0 < d) \<Longrightarrow> list_all (\<lambda>h. 0 < hd_depth h) (scan_lines parse n i s)"
  by (induction parse n i s rule: scan_lines.induct) (auto simp: Let_def split: option.splits)

lemma parse_atx_depth: "parse_atx_line l = Some (d, t) \<Longrightarrow> 0 < d"
  by (auto simp: parse_atx_line_def Let_def split: if_splits)

lemma parse_section_depth: "parse_section_line l = Some (d, t) \<Longrightarrow> 0 < d"
  by (auto simp: parse_section_line_def parse_numbered_def Let_def split: option.splits if_splits)

lemma detect_headings_depths: "list_all (\<lambda>h. 0 < hd_depth h) (detect_headings body)"
  unfolding detect_headings_def detect_atx_headings_def detect_section_markers_def Let_def
  using scan_lines_depths [of parse_atx_line] scan_lines_depths [of parse_section_line]
    parse_atx_depth parse_section_depth by auto

lemma prepare_headings:
  "list_all (\<lambda>h. 0 < hd_depth h) hs \<Longrightarrow>
     map (\<lambda>s. (sx_depth s, sx_title s, sx_start s)) (prepare (hs @ [s]))
       = map (\<lambda>h. (hd_depth h, hd_title h, hd_marker_start h)) hs"
proof (induction hs)
  case (Cons h hs)
  then show ?case by (cases hs) auto
qed simp

lemma assign_labels:
  "map node_label (preorder (assign_paths path n)) = map node_label (preorder n)"
  "labels (assign_children pre i cs) = labels cs"
  by (induction path n and pre i cs rule: assign_paths_assign_children.induct)
    (simp_all add: node_label_def)

lemma assign_nested:
  "nested d (assign_paths path n) = nested d n"
  "list_all (nested d) (assign_children pre i cs) = list_all (nested d) cs"
  by (induction path n and pre i cs arbitrary: d and d rule: assign_paths_assign_children.induct)
    simp_all

lemma tree_children:
  "dn_children (dt_root (build_document_tree doc))
     = assign_children [] 1 (fst (build_forest (map (section_node (dc_body doc))
         (sections_of (dc_body doc) (detect_headings (dc_body doc))))))"
  by (simp add: build_document_tree_def Let_def sections_of_def build_forest_def)

lemma label_depth_title_start:
  "(dn_depth n, dn_title n, dn_start n)
     = (case node_label n of (d, t, _, a, _, _) \<Rightarrow> (d, t, a))"
  by (simp add: node_label_def)

text \<open>C30. The tree lists every heading of the document exactly once, in source order, with its depth,
  title and offset, and every section lies under a shallower one.\<close>

theorem tree_lists_headings_in_order:
  "let t = dt_root (build_document_tree doc) in
     map (\<lambda>n. (dn_depth n, dn_title n, dn_start n)) (tl (preorder t))
       = map (\<lambda>h. (hd_depth h, hd_title h, hd_marker_start h)) (detect_headings (dc_body doc))
     \<and> list_all (nested (dn_depth t)) (dn_children t)"
proof -
  let ?t = "dt_root (build_document_tree doc)"
  let ?b = "dc_body doc"
  let ?nodes = "map (section_node ?b) (sections_of ?b (detect_headings ?b))"
  have ok: "forest_ok (build_forest ?nodes)" "labels (fst (build_forest ?nodes)) = map node_label ?nodes"
    using build_forest_ok section_nodes_fresh by blast+
  have root: "dn_depth ?t = 0" by (simp add: build_document_tree_def Let_def)
  have tl: "tl (preorder ?t) = concat (map preorder (dn_children ?t))" by (cases ?t) simp
  have "labels (dn_children ?t) = map node_label ?nodes"
    unfolding tree_children using ok(2) by (simp add: assign_labels)
  then have "map (\<lambda>n. (dn_depth n, dn_title n, dn_start n)) (tl (preorder ?t))
      = map (\<lambda>n. (dn_depth n, dn_title n, dn_start n)) ?nodes"
    unfolding tl label_depth_title_start
    by (metis (no_types, lifting) list.map_comp comp_apply map_eq_conv)
  also have "\<dots> = map (\<lambda>s. (sx_depth s, sx_title s, sx_start s)) (sections_of ?b (detect_headings ?b))"
    by simp
  also have "\<dots> = map (\<lambda>h. (hd_depth h, hd_title h, hd_marker_start h)) (detect_headings ?b)"
    unfolding sections_of_def using prepare_headings [OF detect_headings_depths] by blast
  finally have order: "map (\<lambda>n. (dn_depth n, dn_title n, dn_start n)) (tl (preorder ?t))
      = map (\<lambda>h. (hd_depth h, hd_title h, hd_marker_start h)) (detect_headings ?b)" .
  have "list_all (nested 0) (dn_children ?t)"
    unfolding tree_children using ok(1) by (simp add: assign_nested forest_ok_def)
  with order root show ?thesis by (simp add: Let_def)
qed

subsection \<open>Navigation\<close>

lemma find_node_preorder:
  "find_node path t = find (\<lambda>n. dn_path n = path) (preorder t)"
  "find_first path cs = find (\<lambda>n. dn_path n = path) (concat (map preorder cs))"
  by (induction path t and path cs rule: find_node_find_first.induct)
    (auto simp: find_append split: option.splits)

lemma find_distinct:
  "distinct (map f xs) \<Longrightarrow> x \<in> set xs \<Longrightarrow> find (\<lambda>y. f y = f x) xs = Some x"
  by (induction xs) (auto simp: rev_image_eqI)

definition dotted :: "string \<Rightarrow> bool" where
  "dotted r \<longleftrightarrow> r = [] \<or> (\<exists>r'. r = CHR ''.'' # r')"

lemma show_nat_dotted: "dotted r \<Longrightarrow> takeWhile is_digit_char (show_nat j @ r) = show_nat j"
  using show_nat_digits [of j]
  by (auto simp: dotted_def takeWhile_append2 list_all_iff is_digit_char_def)

lemma paths_form:
  "m \<in> set (preorder (assign_paths path n)) \<Longrightarrow> \<exists>r. dn_path m = path @ r \<and> dotted r"
  "m \<in> set (concat (map preorder (assign_children pre i cs))) \<Longrightarrow>
     \<exists>j r. i \<le> j \<and> dn_path m = pre @ show_nat j @ r \<and> dotted r"
proof (induction path n and pre i cs rule: assign_paths_assign_children.induct)
  case (1 path p d t s a e k cs)
  show ?case
  proof (cases "m \<in> set (concat (map preorder (assign_children (path @ ''.'') 1 cs)))")
    case True
    from 1(1) [OF True] show ?thesis by (auto simp: dotted_def)
  next
    case False
    then show ?thesis using 1(2) by (auto simp: dotted_def)
  qed
next
  case (3 pre i c cs)
  show ?case
  proof (cases "m \<in> set (preorder (assign_paths (pre @ show_nat i) c))")
    case True
    from 3(1) [OF this] show ?thesis by auto
  next
    case False
    then have "m \<in> set (concat (map preorder (assign_children pre (i + 1) cs)))"
      using 3(3) by simp
    from 3(2) [OF this] show ?thesis by (meson add_leD1)
  qed
qed simp

lemma distinct_paths:
  "distinct (map dn_path (preorder (assign_paths path n)))"
  "distinct (map dn_path (concat (map preorder (assign_children pre i cs))))"
proof (induction path n and pre i cs rule: assign_paths_assign_children.induct)
  case (1 path p d t s a e k cs)
  have "path \<noteq> dn_path m"
    if "m \<in> set (concat (map preorder (assign_children (path @ ''.'') 1 cs)))" for m
    using paths_form(2) [OF that] by auto
  then show ?case using 1 by (auto simp: image_iff)
next
  case (3 pre i c cs)
  have "dn_path m \<noteq> dn_path m'"
    if m: "m \<in> set (preorder (assign_paths (pre @ show_nat i) c))"
      and m': "m' \<in> set (concat (map preorder (assign_children pre (i + 1) cs)))" for m m'
  proof
    assume eq: "dn_path m = dn_path m'"
    obtain r where r: "dn_path m = pre @ show_nat i @ r" "dotted r"
      using paths_form(1) [OF m] by auto
    obtain j r' where r': "i + 1 \<le> j" "dn_path m' = pre @ show_nat j @ r'" "dotted r'"
      using paths_form(2) [OF m'] by blast
    have "show_nat i @ r = show_nat j @ r'" using eq r(1) r'(2) by simp
    then have "show_nat i = show_nat j" using show_nat_dotted r(2) r'(3) by metis
    with r'(1) show False by simp
  qed
  with 3 show ?case by (auto simp: image_iff)
qed simp

text \<open>Every section can be navigated to by its dotted path: the paths of the tree are distinct, and
  looking a node's path up from the root finds that node.\<close>

lemma every_section_is_reachable_by_path:
  "let t = dt_root (build_document_tree doc) in
     distinct (map dn_path (preorder t))
     \<and> list_all (\<lambda>n. find_node (dn_path n) t = Some n) (preorder t)"
proof -
  let ?t = "dt_root (build_document_tree doc)"
  obtain roots where kids: "dn_children ?t = assign_children [] 1 roots" using tree_children by blast
  have root: "dn_path ?t = []" by (simp add: build_document_tree_def Let_def)
  have pre: "preorder ?t = ?t # concat (map preorder (assign_children [] 1 roots))"
    using kids by (cases ?t) simp
  have "[] \<notin> set (map dn_path (concat (map preorder (assign_children [] 1 roots))))"
    using paths_form(2) [of _ "[]" 1 roots] by fastforce
  then have "distinct (map dn_path (preorder ?t))"
    unfolding pre list.map distinct.simps root using distinct_paths(2) [of "[]" 1 roots] by blast
  moreover from this have "list_all (\<lambda>n. find_node (dn_path n) ?t = Some n) (preorder ?t)"
    by (auto simp: list_all_iff find_node_preorder find_distinct)
  ultimately show ?thesis by (simp add: Let_def)
qed

end
