(* ===== verification/Chunker.thy ===== *)
theory Chunker
  imports Doc_Tree "HOL-Library.Sublist"
begin

text \<open>
  The chunker and the block filter of the ingestion (\<open>chunker.rs\<close> and \<open>fit_markdown.rs\<close> in
  \<open>crates/oracle-automate-ingest/src\<close>). A slice whose start lies after its end panics in Rust: the
  window loop then gives \<open>None\<close>.
\<close>

record chunker_config =
  cc_target_chars :: nat
  cc_overlap_chars :: nat
  cc_contextual_enrichment :: bool

definition default_chunker :: chunker_config where
  "default_chunker = \<lparr>cc_target_chars = 1600, cc_overlap_chars = 200,
     cc_contextual_enrichment = True\<rparr>"

definition is_break :: "char \<Rightarrow> bool" where
  "is_break c \<longleftrightarrow> c = CHR '' '' \<or> c = newline"

fun scan_sentence :: "string \<Rightarrow> nat \<Rightarrow> nat \<Rightarrow> nat option" where
  "scan_sentence b lo i =
     (if lo + 1 < i then
        (if b ! (i - 2) \<in> {CHR ''.'', CHR ''?'', CHR ''!''} \<and> is_break (b ! (i - 1))
         then Some i else scan_sentence b lo (i - 1))
      else None)"

declare scan_sentence.simps [simp del]

definition find_sentence_end :: "string \<Rightarrow> nat \<Rightarrow> nat \<Rightarrow> nat option" where
  "find_sentence_end b lo hi =
     (let hi' = min hi (length b) in scan_sentence b (min lo hi') hi')"

fun scan_space :: "string \<Rightarrow> nat \<Rightarrow> nat \<Rightarrow> nat option" where
  "scan_space b hi i =
     (if 0 < i then
        (if is_break (b ! (i - 1)) then Some i
         else if 200 < hi - (i - 1) then None
         else scan_space b hi (i - 1))
      else None)"

declare scan_space.simps [simp del]

definition find_space :: "string \<Rightarrow> nat \<Rightarrow> nat option" where
  "find_space b hi = (let hi' = min hi (length b) in scan_space b hi' hi')"

text \<open>The next character boundary.\<close>

function next_boundary :: "string \<Rightarrow> nat \<Rightarrow> nat" where
  "next_boundary b i =
     (if i < length b \<and> \<not> is_char_boundary b i then next_boundary b (i + 1) else i)"
  by pat_completeness auto
termination
  by (relation "measure (\<lambda>(b, i). length b - i)") auto

declare next_boundary.simps [simp del]

text \<open>Where the window that starts at \<open>start\<close> ends.\<close>

definition window_end :: "string \<Rightarrow> nat \<Rightarrow> nat \<Rightarrow> nat" where
  "window_end b target start =
     (let n = length b;
          e = min (start + target) n;
          e' = (if e < n then
                  (let lookback = max (e - 200) (start + target div 2) in
                   case find_sentence_end b lookback e of
                     Some boundary \<Rightarrow> boundary
                   | None \<Rightarrow> (case find_space b e of Some space \<Rightarrow> space | None \<Rightarrow> e))
                else e)
      in next_boundary b e')"

definition window_next :: "string \<Rightarrow> nat \<Rightarrow> nat \<Rightarrow> nat \<Rightarrow> nat" where
  "window_next b overlap start e = next_boundary b (start + max (e - start - overlap) 1)"

lemma next_boundary_ge: "i \<le> next_boundary b i"
  by (induction b i rule: next_boundary.induct) (subst next_boundary.simps, auto)

text \<open>The windows, as pairs of byte offsets.\<close>

function windows :: "string \<Rightarrow> nat \<Rightarrow> nat \<Rightarrow> nat \<Rightarrow> (nat \<times> nat) list option" where
  "windows b target overlap start =
     (if start < length b then
        (let e = window_end b target start in
         if e < start then None
         else if length b \<le> e then Some [(start, e)]
         else map_option ((#) (start, e))
                (windows b target overlap (window_next b overlap start e)))
      else Some [])"
  by pat_completeness auto
termination
proof (relation "measure (\<lambda>(b, target, overlap, start). length b - start)")
  fix b :: string and target overlap start e :: nat
  assume "start < length b"
  moreover have "start < window_next b overlap start e"
    using next_boundary_ge [of "start + max (e - start - overlap) 1" b]
    by (simp add: window_next_def)
  ultimately show "((b, target, overlap, window_next b overlap start e), (b, target, overlap, start))
      \<in> measure (\<lambda>(b, target, overlap, start). length b - start)"
    by simp
qed simp

declare windows.simps [simp del]

definition split_text :: "string \<Rightarrow> nat \<Rightarrow> nat \<Rightarrow> string list option" where
  "split_text b target overlap =
     map_option (\<lambda>ws. filter (\<lambda>s. s \<noteq> []) (map (\<lambda>(s, e). trim (slice s e b)) ws))
       (windows b target overlap 0)"

definition document_context :: "document \<Rightarrow> string" where
  "document_context doc =
     (let body = trim (dc_body doc) in
      if body = [] then dc_title doc else trim (take_sentences 0 0 (utf8_chars body)))"

definition chunk_prefix :: "document \<Rightarrow> chunker_config \<Rightarrow> string" where
  "chunk_prefix doc cfg =
     (let breadcrumb = (if dc_breadcrumbs doc = [] then []
                        else join '' > '' (dc_breadcrumbs doc) @ '' > '');
          context = (if cc_contextual_enrichment cfg
                     then ''Context: '' @ document_context doc @ [newline] else [])
      in breadcrumb @ dc_title doc @ (if context = [] then [] else [newline] @ context) @ [newline])"

definition make_chunk :: "document \<Rightarrow> string \<Rightarrow> nat \<Rightarrow> string \<Rightarrow> 'f chunk" where
  "make_chunk doc pre idx seg =
     \<lparr>ck_id = dc_id doc @ ''#chunk-'' @ show_nat idx, ck_document_id = dc_id doc,
      ck_domain = dc_domain doc, ck_ordinal = idx mod 2 ^ 32, ck_text = pre @ seg,
      ck_embedding = None, ck_breadcrumbs = dc_breadcrumbs doc, ck_title = dc_title doc,
      ck_uri = dc_uri doc\<rparr>"

definition chunk_document :: "document \<Rightarrow> chunker_config \<Rightarrow> 'f chunk list option" where
  "chunk_document doc cfg =
     (let body = trim (dc_body doc) in
      if body = [] then Some []
      else map_option (\<lambda>segs. map (\<lambda>(idx, seg). make_chunk doc (chunk_prefix doc cfg) idx seg)
                                 (enumerate 0 segs))
             (split_text body (cc_target_chars cfg) (cc_overlap_chars cfg)))"

subsection \<open>The windows cover the text\<close>

lemma scan_sentence_bounds: "scan_sentence b lo i = Some r \<Longrightarrow> lo + 1 < r \<and> r \<le> i"
  by (induction b lo i rule: scan_sentence.induct)
    (subst (asm) (2) scan_sentence.simps, auto split: if_splits)

lemma find_sentence_end_bounds:
  "find_sentence_end b lo hi = Some r \<Longrightarrow> hi \<le> length b \<Longrightarrow> lo \<le> hi \<Longrightarrow> lo < r \<and> r \<le> hi"
  using scan_sentence_bounds [of b lo hi r] by (simp add: find_sentence_end_def min_absorb1)

lemma scan_space_bounds:
  "scan_space b hi i = Some r \<Longrightarrow> i \<le> hi \<Longrightarrow> hi - i \<le> 200 \<Longrightarrow> r \<le> i \<and> hi - r \<le> 200"
proof (induction b hi i rule: scan_space.induct)
  case (1 b hi i)
  show ?case
    using 1 by (subst (asm) (2) scan_space.simps) (fastforce split: if_splits)
qed

lemma find_space_bounds:
  "find_space b hi = Some r \<Longrightarrow> hi \<le> length b \<Longrightarrow> r \<le> hi \<and> hi - r \<le> 200"
  using scan_space_bounds [of b hi hi r] by (simp add: find_space_def min_absorb1)

lemma next_boundary_le: "i \<le> length b \<Longrightarrow> next_boundary b i \<le> length b"
  by (induction b i rule: next_boundary.induct) (subst next_boundary.simps, auto)

lemma next_boundary_is_boundary: "i \<le> length b \<Longrightarrow> is_char_boundary b (next_boundary b i)"
proof (induction b i rule: next_boundary.induct)
  case (1 b i)
  then show ?case
    by (subst next_boundary.simps) (auto simp: is_char_boundary_def)
qed

lemma next_boundary_least:
  "i \<le> j \<Longrightarrow> j \<le> length b \<Longrightarrow> is_char_boundary b j \<Longrightarrow> next_boundary b i \<le> j"
proof (induction b i rule: next_boundary.induct)
  case (1 b i)
  show ?case
  proof (cases "i < length b \<and> \<not> is_char_boundary b i")
    case True
    then have "i < j" using 1(2,4) by (metis le_neq_implies_less)
    then have "next_boundary b (i + 1) \<le> j" using 1 True by simp
    then show ?thesis using True by (subst next_boundary.simps) simp
  next
    case False
    then have "next_boundary b i = i" by (subst next_boundary.simps) auto
    then show ?thesis using 1(2) by simp
  qed
qed

lemma window_end_bounds:
  assumes "200 < target" and "start < length b"
  shows "start < window_end b target start \<and> window_end b target start \<le> length b
    \<and> is_char_boundary b (window_end b target start)"
proof -
  let ?e = "min (start + target) (length b)"
  let ?lo = "max (?e - 200) (start + target div 2)"
  define e' where "e' = (if ?e < length b then
      (case find_sentence_end b ?lo ?e of Some r \<Rightarrow> r
       | None \<Rightarrow> (case find_space b ?e of Some r \<Rightarrow> r | None \<Rightarrow> ?e)) else ?e)"
  have w: "window_end b target start = next_boundary b e'"
    by (simp add: window_end_def e'_def Let_def)
  have "start < e' \<and> e' \<le> length b"
  proof (cases "?e < length b")
    case True
    then have e: "?e = start + target" by simp
    have lo: "?lo \<le> ?e" using e by simp
    show ?thesis
    proof (cases "find_sentence_end b ?lo ?e")
      case None
      show ?thesis
      proof (cases "find_space b ?e")
        case (Some r)
        have "r \<le> ?e \<and> ?e - r \<le> 200"
          by (rule find_space_bounds [OF Some min.cobounded2])
        then have "start < r" "r \<le> length b" using e assms(1) True by linarith+
        then show ?thesis using True None Some e by (simp add: e'_def)
      qed (use True None e assms in \<open>simp add: e'_def\<close>)
    next
      case (Some r)
      then have "?lo < r \<and> r \<le> ?e" using lo by (intro find_sentence_end_bounds [OF Some min.cobounded2])
      moreover have "start \<le> ?lo" by simp
      ultimately have "start < r" "r \<le> ?e" by linarith+
      then show ?thesis using True Some e by (simp add: e'_def)
    qed
  next
    case False
    then show ?thesis using assms by (auto simp: e'_def min_def)
  qed
  then show ?thesis
    using next_boundary_ge [of e' b] next_boundary_le [of e' b] next_boundary_is_boundary [of e' b]
    by (simp add: w)
qed

lemma window_next_bounds:
  assumes "start < e" and "e \<le> length b" and "is_char_boundary b e"
  shows "start < window_next b overlap start e \<and> window_next b overlap start e \<le> e
    \<and> is_char_boundary b (window_next b overlap start e)"
proof -
  let ?i = "start + max (e - start - overlap) 1"
  have i: "start < ?i" "?i \<le> e" using assms(1) by simp_all
  have "next_boundary b ?i \<le> e" by (rule next_boundary_least [OF i(2) assms(2,3)])
  moreover have "?i \<le> next_boundary b ?i" by (rule next_boundary_ge)
  moreover have "is_char_boundary b (next_boundary b ?i)"
    using i(2) assms(2) by (intro next_boundary_is_boundary) linarith
  ultimately show ?thesis using i(1) by (simp add: window_next_def)
qed

text \<open>A list of windows that covers \<open>[s, n)\<close> without gaps, each advancing, all at character
  boundaries.\<close>

fun covers :: "string \<Rightarrow> nat \<Rightarrow> (nat \<times> nat) list \<Rightarrow> bool" where
  "covers b s [] = (length b \<le> s)"
| "covers b s ((s', e) # ws) =
     (s' = s \<and> s < e \<and> e \<le> length b \<and> is_char_boundary b s \<and> is_char_boundary b e
      \<and> (case ws of [] \<Rightarrow> e = length b
         | (s2, _) # _ \<Rightarrow> s < s2 \<and> s2 \<le> e \<and> covers b s2 ws))"

lemma windows_cover_step:
  assumes "start < length b" and "200 < target" and "is_char_boundary b start"
    and IH: "\<And>s. start < s \<Longrightarrow> s < length b \<Longrightarrow> is_char_boundary b s \<Longrightarrow>
      \<exists>e ws. windows b target overlap s = Some ((s, e) # ws) \<and> covers b s ((s, e) # ws)"
  shows "\<exists>e ws. windows b target overlap start = Some ((start, e) # ws)
      \<and> covers b start ((start, e) # ws)"
proof -
  define e where "e = window_end b target start"
  define s2 where "s2 = window_next b overlap start e"
  have e: "start < e" "e \<le> length b" "is_char_boundary b e"
    using window_end_bounds [OF assms(2,1)] by (simp_all add: e_def)
  have s2: "start < s2" "s2 \<le> e" "is_char_boundary b s2"
    using window_next_bounds [OF e] by (simp_all add: s2_def)
  have w: "windows b target overlap start =
      (if length b \<le> e then Some [(start, e)]
       else map_option ((#) (start, e)) (windows b target overlap s2))"
    using assms(1) e(1) by (subst windows.simps) (simp add: Let_def e_def [symmetric] s2_def [symmetric])
  show ?thesis
  proof (cases "length b \<le> e")
    case True
    then show ?thesis using w e assms(3) by simp
  next
    case False
    then obtain e' ws where "windows b target overlap s2 = Some ((s2, e') # ws)"
        "covers b s2 ((s2, e') # ws)"
      using IH [OF s2(1) _ s2(3)] s2(2) by auto
    then show ?thesis using w False e s2 assms(3) by simp
  qed
qed

lemma windows_cover:
  assumes "200 < target"
  shows "is_char_boundary b start \<Longrightarrow> start < length b \<Longrightarrow>
    \<exists>e ws. windows b target overlap start = Some ((start, e) # ws)
      \<and> covers b start ((start, e) # ws)"
proof (induction "length b - start" arbitrary: start rule: less_induct)
  case less
  show ?case
    by (rule windows_cover_step [OF less.prems(2) assms less.prems(1)])
      (use less in simp)
qed

subsection \<open>Chunking a document\<close>

lemma is_char_boundary_0 [simp]: "is_char_boundary b 0"
  by (simp add: is_char_boundary_def)

text \<open>C29. For a target above 200 bytes the window loop never panics: on a non-empty body it
  returns windows that start at 0, each ending after its start, both ends at character boundaries,
  each next window starting strictly later and not after the end of the previous one (no byte is
  skipped), and the last one ending at the end of the text.\<close>

theorem windows_cover_text:
  assumes "200 < target" and "b \<noteq> []"
  shows "\<exists>e ws. windows b target overlap 0 = Some ((0, e) # ws) \<and> covers b 0 ((0, e) # ws)"
  using assms by (intro windows_cover) simp_all

theorem windows_cover_text_witness:
  "\<exists>e ws. windows ''ab'' 201 200 0 = Some ((0, e) # ws) \<and> covers ''ab'' 0 ((0, e) # ws)"
  by (rule windows_cover_text) simp_all

lemma split_text_total:
  assumes "200 < target"
  shows "\<exists>segs. split_text b target overlap = Some segs"
proof (cases "b = []")
  case True
  then show ?thesis by (simp add: split_text_def windows.simps)
next
  case False
  then show ?thesis
    using windows_cover [OF assms, of b 0 overlap] by (auto simp: split_text_def)
qed

lemma split_text_trimmed:
  "split_text b target overlap = Some segs \<Longrightarrow> s \<in> set segs \<Longrightarrow> s \<noteq> []"
  by (auto simp: split_text_def)

text \<open>Chunking with the default configuration never panics; every chunk belongs to the document,
  carries its title, breadcrumbs and uri, has no embedding, and its text starts with the context
  prefix; the chunk ids are the document id, \<open>#chunk-\<close> and the position, so they are distinct.\<close>

lemma chunk_document_sound:
  "\<exists>cs :: 'f chunk list. chunk_document doc default_chunker = Some cs
     \<and> map ck_id cs = map (\<lambda>i. dc_id doc @ ''#chunk-'' @ show_nat i) [0..<length cs]
     \<and> distinct (map ck_id cs)
     \<and> list_all (\<lambda>c. ck_document_id c = dc_id doc \<and> ck_title c = dc_title doc
          \<and> ck_breadcrumbs c = dc_breadcrumbs doc \<and> ck_uri c = dc_uri doc \<and> ck_embedding c = None
          \<and> starts_with (ck_text c) (chunk_prefix doc default_chunker)) cs"
proof -
  obtain segs where segs: "split_text (trim (dc_body doc)) 1600 200 = Some segs"
    using split_text_total [of 1600 "trim (dc_body doc)" 200] by auto
  define cs :: "'f chunk list" where "cs = (if trim (dc_body doc) = [] then []
      else map (\<lambda>(idx, seg). make_chunk doc (chunk_prefix doc default_chunker) idx seg)
             (enumerate 0 segs))"
  have "chunk_document doc default_chunker = Some cs"
    using segs by (simp add: chunk_document_def default_chunker_def cs_def Let_def)
  moreover have ids: "map ck_id cs = map (\<lambda>i. dc_id doc @ ''#chunk-'' @ show_nat i) [0..<length cs]"
    by (intro nth_equalityI) (auto simp: cs_def make_chunk_def nth_enumerate_eq)
  moreover have "distinct (map ck_id cs)"
    unfolding ids by (auto simp: distinct_map inj_on_def)
  moreover have "list_all (\<lambda>c. ck_document_id c = dc_id doc \<and> ck_title c = dc_title doc
          \<and> ck_breadcrumbs c = dc_breadcrumbs doc \<and> ck_uri c = dc_uri doc \<and> ck_embedding c = None
          \<and> starts_with (ck_text c) (chunk_prefix doc default_chunker)) cs"
    by (auto simp: cs_def make_chunk_def list_all_iff starts_with_iff split: if_splits)
  ultimately show ?thesis by blast
qed

text \<open>With a small target the loop can panic: the backwards search for a space may stop before the
  window's start, and the slice's start then lies after its end.\<close>

lemma small_target_panics:
  "windows ''a bbbb'' 2 0 0 = None \<and> chunk_document
     (document_new id ''d'' Bpmn [] [] ''a bbbb'') \<lparr>cc_target_chars = 2, cc_overlap_chars = 0,
        cc_contextual_enrichment = False\<rparr> = (None :: nat chunk list option)"
proof -
  have "windows ''a bbbb'' 2 0 0 = None" by code_simp
  then show ?thesis
    by (simp add: chunk_document_def document_new_def split_text_def trim_def trim_start_def
        trim_end_def is_space_char_def)
qed

subsection \<open>The block filter\<close>

record 'f fit_config =
  ft_k1 :: 'f
  ft_b :: 'f
  ft_min_score :: 'f
  ft_min_block_chars :: nat
  ft_keep_block_chars :: nat

definition default_fit :: "'f float_ops \<Rightarrow> 'f fit_config" where
  "default_fit fo = \<lparr>ft_k1 = fl_lit fo ''1.5'', ft_b = fl_lit fo ''0.75'', ft_min_score = fl_lit fo ''0.0'',
     ft_min_block_chars = 40, ft_keep_block_chars = 600\<rparr>"

record fit_stats =
  fs_blocks_in :: nat
  fs_blocks_out :: nat
  fs_chars_in :: nat
  fs_chars_out :: nat

definition block_retention :: "'f float_ops \<Rightarrow> fit_stats \<Rightarrow> 'f" where
  "block_retention fo s =
     (if fs_blocks_in s = 0 then fl_lit fo ''1.0''
      else fl_div fo (fl_of_nat fo (fs_blocks_out s)) (fl_of_nat fo (fs_blocks_in s)))"

definition char_retention :: "'f float_ops \<Rightarrow> fit_stats \<Rightarrow> 'f" where
  "char_retention fo s =
     (if fs_chars_in s = 0 then fl_lit fo ''1.0''
      else fl_div fo (fl_of_nat fo (fs_chars_out s)) (fl_of_nat fo (fs_chars_in s)))"

text \<open>The pieces of a text between blank lines (\<open>cur\<close> is the current piece, reversed).\<close>

fun split_blocks :: "string \<Rightarrow> string \<Rightarrow> string list" where
  "split_blocks cur [] = [rev cur]"
| "split_blocks cur [c] = [rev (c # cur)]"
| "split_blocks cur (c # d # s) =
     (if c = newline \<and> d = newline then rev cur # split_blocks [] s
      else split_blocks (c # cur) (d # s))"

definition block_scores ::
  "'f float_ops \<Rightarrow> string list \<Rightarrow> string list \<Rightarrow> 'f \<Rightarrow> 'f \<Rightarrow> 'f list" where
  "block_scores fo blocks terms k1 b =
     (let n = length blocks; zero = fl_lit fo ''0.0'' in
      if n = 0 \<or> terms = [] then replicate n zero
      else
        (let docs = map tokenize blocks;
             avg_dl = fl_div fo (fl_of_nat fo (sum_list (map length docs))) (fl_of_nat fo n) in
         if fl_eq fo avg_dl zero then replicate n zero
         else map (bm25_score fo k1 b n avg_dl (\<lambda>t. length (filter (\<lambda>d. t \<in> set d) docs)) terms) docs))"

definition keep_block :: "'f float_ops \<Rightarrow> 'f fit_config \<Rightarrow> string \<times> 'f \<Rightarrow> bool" where
  "keep_block fo cfg = (\<lambda>(block, score).
     if ft_keep_block_chars cfg \<le> length block then True
     else if length block < ft_min_block_chars cfg then False
     else (fl_lt fo (ft_min_score cfg) score \<or> fl_eq fo score (ft_min_score cfg))
          \<and> fl_lt fo (fl_lit fo ''0.0'') score)"

definition fit_blocks :: "string \<Rightarrow> string list" where
  "fit_blocks body = filter (\<lambda>b. b \<noteq> []) (map trim (split_blocks [] body))"

definition fit_markdown_filter ::
  "'f float_ops \<Rightarrow> string \<Rightarrow> string \<Rightarrow> 'f fit_config \<Rightarrow> string \<times> fit_stats" where
  "fit_markdown_filter fo body topic cfg =
     (let blocks = fit_blocks body in
      if blocks = [] then ([], \<lparr>fs_blocks_in = 0, fs_blocks_out = 0, fs_chars_in = length body, fs_chars_out = 0\<rparr>)
      else
        (let scored = block_scores fo blocks (tokenize topic) (ft_k1 cfg) (ft_b cfg);
             kept = map fst (filter (keep_block fo cfg) (zip blocks scored));
             out = join (newline # [newline]) kept
         in (out, \<lparr>fs_blocks_in = length blocks, fs_blocks_out = length kept,
                  fs_chars_in = length body, fs_chars_out = length out\<rparr>)))"

lemma split_blocks_not_empty: "split_blocks cur s \<noteq> []"
  by (induction cur s rule: split_blocks.induct) simp_all

lemma join_split_blocks: "join (newline # [newline]) (split_blocks cur s) = rev cur @ s"
proof (induction cur s rule: split_blocks.induct)
  case (3 cur c d s)
  show ?case
  proof (cases "c = newline \<and> d = newline")
    case True
    then have "join (newline # [newline]) (split_blocks [] s) = s" using 3 by simp
    moreover obtain w ws where "split_blocks [] s = w # ws"
      using split_blocks_not_empty by (meson neq_Nil_conv)
    ultimately show ?thesis using True by simp
  next
    case False
    then have "split_blocks cur (c # d # s) = split_blocks (c # cur) (d # s)"
      by (subst split_blocks.simps) (rule if_not_P)
    then show ?thesis using 3(2) [OF False] by simp
  qed
qed simp_all

lemma length_join: "length (join sep ws) = sum_list (map length ws) + (length ws - 1) * length sep"
  by (induction sep ws rule: join.induct) (auto simp: algebra_simps)

lemma length_join_subseq:
  assumes "subseq ys xs"
  shows "length (join sep ys) \<le> length (join sep xs)"
proof -
  have "sum_list (map length ys) \<le> sum_list (map length xs)"
    using assms by (induction rule: list_emb.induct) auto
  moreover have "(length ys - 1) * length sep \<le> (length xs - 1) * length sep"
    using list_emb_length [OF assms] by (intro mult_le_mono1 diff_le_mono)
  ultimately show ?thesis unfolding length_join by (rule add_mono)
qed

lemma length_trim_le: "length (trim s) \<le> length s"
  using length_dropWhile_le [of is_space_char "rev (dropWhile is_space_char s)"]
    length_dropWhile_le [of is_space_char s]
  by (simp add: trim_def trim_start_def trim_end_def)

lemma length_join_trim: "length (join sep (map trim xs)) \<le> length (join sep xs)"
proof -
  have "sum_list (map (length \<circ> trim) xs) \<le> sum_list (map length xs)"
    by (intro sum_list_mono) (simp add: length_trim_le)
  then show ?thesis by (simp add: length_join)
qed

lemma subseq_filter_zip: "subseq (map fst (filter P (zip xs ys))) xs"
proof (induction xs ys rule: list_induct2')
  case (4 x xs y ys)
  then show ?case by auto
qed simp_all

lemma length_fit_blocks: "length (join (newline # [newline]) (fit_blocks body)) \<le> length body"
proof -
  let ?sep = "newline # [newline]" and ?ws = "map trim (split_blocks [] body)"
  have "length (join ?sep (fit_blocks body)) \<le> length (join ?sep ?ws)"
    unfolding fit_blocks_def by (rule length_join_subseq) (rule subseq_filter_left)
  also have "\<dots> \<le> length (join ?sep (split_blocks [] body))" by (rule length_join_trim)
  also have "\<dots> = length body" by (simp add: join_split_blocks)
  finally show ?thesis .
qed

lemma length_block_scores [simp]: "length (block_scores fo blocks terms k1 b) = length blocks"
  by (simp add: block_scores_def Let_def)

lemma filter_kept:
  "length xs = length ys \<Longrightarrow> (\<And>x y. P x \<Longrightarrow> Q (x, y)) \<Longrightarrow>
    filter P (map fst (filter Q (zip xs ys))) = filter P xs"
  by (induction xs ys rule: list_induct2) auto

text \<open>The block filter only ever removes text: its output is no longer than the body, the blocks
  kept are blocks of the body in their order, every block as long as the keep limit is kept, and no
  block below both limits is.\<close>

lemma fit_filter_shrinks:
  "\<exists>kept. fst (fit_markdown_filter fo body topic cfg) = join (newline # [newline]) kept
    \<and> subseq kept (fit_blocks body)
    \<and> filter (\<lambda>b. ft_keep_block_chars cfg \<le> length b) kept
      = filter (\<lambda>b. ft_keep_block_chars cfg \<le> length b) (fit_blocks body)
    \<and> list_all (\<lambda>b. ft_min_block_chars cfg \<le> length b \<or> ft_keep_block_chars cfg \<le> length b) kept
    \<and> fs_blocks_out (snd (fit_markdown_filter fo body topic cfg)) = length kept
    \<and> fs_chars_out (snd (fit_markdown_filter fo body topic cfg)) \<le> length body"
proof -
  define kept where "kept = map fst (filter (keep_block fo cfg) (zip (fit_blocks body)
      (block_scores fo (fit_blocks body) (tokenize topic) (ft_k1 cfg) (ft_b cfg))))"
  have run: "fst (fit_markdown_filter fo body topic cfg) = join (newline # [newline]) kept"
      "fs_blocks_out (snd (fit_markdown_filter fo body topic cfg)) = length kept"
      "fs_chars_out (snd (fit_markdown_filter fo body topic cfg))
        = length (join (newline # [newline]) kept)"
    by (simp_all add: fit_markdown_filter_def kept_def Let_def)
  have sub: "subseq kept (fit_blocks body)" unfolding kept_def by (rule subseq_filter_zip)
  have long: "filter (\<lambda>b. ft_keep_block_chars cfg \<le> length b) kept
      = filter (\<lambda>b. ft_keep_block_chars cfg \<le> length b) (fit_blocks body)"
    unfolding kept_def by (rule filter_kept) (simp_all add: keep_block_def)
  have short: "list_all (\<lambda>b. ft_min_block_chars cfg \<le> length b
      \<or> ft_keep_block_chars cfg \<le> length b) kept"
    by (auto simp: kept_def keep_block_def list_all_iff split: if_splits)
  show ?thesis
    using run sub long short length_join_subseq [OF sub, of "newline # [newline]"]
      length_fit_blocks [of body] by (intro exI [of _ kept]) simp
qed

end
