(* ===== verification/Ingest.thy ===== *)
theory Ingest
  imports Chunker
begin

text \<open>
  The embedders and the ingestion pipeline (\<open>embed.rs\<close> and \<open>pipeline.rs\<close> in
  \<open>crates/oracle-automate-ingest/src\<close>) over the in-memory knowledge store. SHA-256 (\<open>sha\<close>, giving the
  digest's bytes), the HTTP client (\<open>post\<close>) and the JSON decoder of the response (\<open>decode\<close>) are
  parameters; \<open>None\<close> is a panic.
\<close>

subsection \<open>Embedding clients\<close>

datatype embedding_error = EmbHttp string | EmbApi string | EmbMalformed string

type_synonym 'f embed_result = "(embedding_error + 'f list list) option"

fun split_non_alnum :: "string \<Rightarrow> string \<Rightarrow> string list" where
  "split_non_alnum cur [] = [rev cur]"
| "split_non_alnum cur (c # s) =
     (if is_alnum_char c then split_non_alnum (c # cur) s else rev cur # split_non_alnum [] s)"

definition tokenise :: "string \<Rightarrow> string list" where
  "tokenise txt = map to_lowercase (filter (\<lambda>t. 2 \<le> length t) (split_non_alnum [] txt))"

definition le_u32 :: "nat list \<Rightarrow> nat" where
  "le_u32 bs = bs ! 0 + 256 * bs ! 1 + 65536 * bs ! 2 + 16777216 * bs ! 3"

definition token_bag_vector ::
  "'f float_ops \<Rightarrow> (string \<Rightarrow> nat list) \<Rightarrow> string \<Rightarrow> nat \<Rightarrow> 'f list option" where
  "token_bag_vector fo sha txt dim =
     (let toks = tokenise txt in
      if dim = 0 \<and> toks \<noteq> [] then None
      else
        (let v = foldl (\<lambda>v tok. let bucket = le_u32 (sha tok) mod dim
                                in v[bucket := fl_add fo (v ! bucket) (fl_lit fo ''1.0'')])
                   (replicate dim (fl_lit fo ''0.0'')) toks;
             norm = fl_max fo (fl_sqrt fo (foldl (\<lambda>s x. fl_add fo s (fl_mul fo x x)) (fl_lit fo ''0.0'') v))
                      (fl_lit fo ''1e-9'')
         in Some (map (\<lambda>x. fl_div fo x norm) v)))"

primrec map_opt :: "('a \<Rightarrow> 'b option) \<Rightarrow> 'a list \<Rightarrow> 'b list option" where
  "map_opt f [] = Some []"
| "map_opt f (x # xs) =
     (case f x of None \<Rightarrow> None | Some y \<Rightarrow> map_option ((#) y) (map_opt f xs))"

definition mock_embed ::
  "'f float_ops \<Rightarrow> (string \<Rightarrow> nat list) \<Rightarrow> nat \<Rightarrow> string list \<Rightarrow> 'f embed_result" where
  "mock_embed fo sha dim texts =
     map_option Ok (map_opt (\<lambda>t. token_bag_vector fo sha t dim) texts)"

record openai_embedder =
  oe_base_url :: string
  oe_model :: string
  oe_api_key :: string
  oe_dim :: nat

definition openai_new :: "string \<Rightarrow> string \<Rightarrow> string \<Rightarrow> nat \<Rightarrow> openai_embedder" where
  "openai_new base_url api_key model dim =
     \<lparr>oe_base_url = trim_end_char (CHR ''/'') base_url, oe_model = model, oe_api_key = api_key,
      oe_dim = dim\<rparr>"

definition openai_from_env :: "(string \<Rightarrow> string option) \<Rightarrow> openai_embedder option" where
  "openai_from_env env =
     (case env ''ORACLE_AUTOMATE_EMBEDDINGS_BASE_URL'' of
        None \<Rightarrow> None
      | Some base_url \<Rightarrow> Some (openai_new base_url
          (case env ''ORACLE_AUTOMATE_EMBEDDINGS_API_KEY'' of Some k \<Rightarrow> k | None \<Rightarrow> [])
          (case env ''ORACLE_AUTOMATE_EMBEDDINGS_MODEL'' of
             Some m \<Rightarrow> m | None \<Rightarrow> ''text-embedding-3-small'')
          (case Option.bind (env ''ORACLE_AUTOMATE_EMBEDDINGS_DIM'') (parse_unsigned (2 ^ 64)) of
             Some d \<Rightarrow> d | None \<Rightarrow> 1536)))"

text \<open>The request as sent: url, bearer token, inputs and model.\<close>

record embed_request =
  er_url :: string
  er_bearer :: string
  er_input :: "string list"
  er_model :: string

definition openai_embed ::
  "(embed_request \<Rightarrow> string + nat \<times> string) \<Rightarrow> (string \<Rightarrow> string + ('f list \<times> nat) list)
    \<Rightarrow> openai_embedder \<Rightarrow> string list \<Rightarrow> 'f embed_result" where
  "openai_embed post decode e texts = Some
     (case post \<lparr>er_url = oe_base_url e @ ''/embeddings'', er_bearer = oe_api_key e,
                 er_input = texts, er_model = oe_model e\<rparr> of
        Err err \<Rightarrow> Err (EmbHttp err)
      | Ok (status, body) \<Rightarrow>
          if status < 200 \<or> 300 \<le> status then Err (EmbApi body)
          else (case decode body of
                  Err err \<Rightarrow> Err (EmbMalformed err)
                | Ok data \<Rightarrow>
                    (let out = map fst data in
                     case find (\<lambda>v. length v \<noteq> oe_dim e) out of
                       Some v \<Rightarrow> Err (EmbMalformed (''expected dim '' @ show_nat (oe_dim e) @ '', got ''
                                        @ show_nat (length v)))
                     | None \<Rightarrow> Ok out)))"

subsection \<open>The pipeline\<close>

datatype pipeline_error = Embedding embedding_error | PipeStore string

record ingestion_report =
  ir_documents :: nat
  ir_chunks :: nat

record pipeline_config =
  pc_chunker :: chunker_config
  pc_batch_size :: nat

definition pipeline_new :: pipeline_config where
  "pipeline_new = \<lparr>pc_chunker = default_chunker, pc_batch_size = 32\<rparr>"

definition with_chunker :: "chunker_config \<Rightarrow> pipeline_config \<Rightarrow> pipeline_config" where
  "with_chunker c p = p\<lparr>pc_chunker := c\<rparr>"

definition with_batch_size :: "nat \<Rightarrow> pipeline_config \<Rightarrow> pipeline_config" where
  "with_batch_size n p = p\<lparr>pc_batch_size := max n 1\<rparr>"

text \<open>\<open>slice::chunks\<close>: consecutive pieces of \<open>n\<close> elements, the last one possibly shorter.\<close>

function chunks_of :: "nat \<Rightarrow> 'a list \<Rightarrow> 'a list list" where
  "chunks_of n xs = (if xs = [] \<or> n = 0 then [] else take n xs # chunks_of n (drop n xs))"
  by pat_completeness auto
termination by (relation "measure (\<lambda>(n, xs). length xs)") auto

declare chunks_of.simps [simp del]

text \<open>The batches in order; the first error stops the run. A batch shorter in vectors than in chunks
  loses the chunks at its end (\<open>zip\<close>).\<close>

fun embed_batches ::
  "(string list \<Rightarrow> 'f embed_result) \<Rightarrow> 'f chunk list list \<Rightarrow> (embedding_error + 'f chunk list) option"
where
  "embed_batches emb [] = Some (Ok [])"
| "embed_batches emb (batch # bs) =
     (case emb (map ck_text batch) of
        None \<Rightarrow> None
      | Some (Err e) \<Rightarrow> Some (Err e)
      | Some (Ok vectors) \<Rightarrow>
          map_option (map_sum id ((@) (map (\<lambda>(c, v). c\<lparr>ck_embedding := Some v\<rparr>) (zip batch vectors))))
            (embed_batches emb bs))"

fun ingest_from ::
  "(string list \<Rightarrow> 'f embed_result) \<Rightarrow> ('f upsert_batch \<Rightarrow> 's \<Rightarrow> (string + unit) \<times> 's)
    \<Rightarrow> pipeline_config \<Rightarrow> ingestion_report \<Rightarrow> document list \<Rightarrow> 's
    \<Rightarrow> ((pipeline_error + ingestion_report) \<times> 's) option" where
  "ingest_from emb up cfg report [] s = Some (Ok report, s)"
| "ingest_from emb up cfg report (doc # docs) s =
     (case chunk_document doc (pc_chunker cfg) of
        None \<Rightarrow> None
      | Some chunks \<Rightarrow>
          if chunks = [] then ingest_from emb up cfg report docs s
          else if pc_batch_size cfg = 0 then None
          else
            (let report' = report\<lparr>ir_documents := ir_documents report + 1,
                                  ir_chunks := ir_chunks report + length chunks\<rparr> in
             case embed_batches emb (chunks_of (pc_batch_size cfg) chunks) of
               None \<Rightarrow> None
             | Some (Err e) \<Rightarrow> Some (Err (Embedding e), s)
             | Some (Ok embedded) \<Rightarrow>
                 (case up \<lparr>ub_documents = [doc], ub_chunks = embedded\<rparr> s of
                    (Err e, s') \<Rightarrow> Some (Err (PipeStore e), s')
                  | (Ok _, s') \<Rightarrow> ingest_from emb up cfg report' docs s')))"

definition ingest ::
  "(string list \<Rightarrow> 'f embed_result) \<Rightarrow> ('f upsert_batch \<Rightarrow> 's \<Rightarrow> (string + unit) \<times> 's)
    \<Rightarrow> pipeline_config \<Rightarrow> document list \<Rightarrow> 's \<Rightarrow> ((pipeline_error + ingestion_report) \<times> 's) option"
where
  "ingest emb up cfg docs s =
     ingest_from emb up cfg \<lparr>ir_documents = 0, ir_chunks = 0\<rparr> docs s"

text \<open>The in-memory store behind the pipeline: its upsert never fails.\<close>

definition kb_upsert_op ::
  "(string \<Rightarrow> string) \<Rightarrow> 'f upsert_batch \<Rightarrow> 'f kb \<Rightarrow> (string + unit) \<times> 'f kb" where
  "kb_upsert_op hash b k = (Ok (), kb_upsert hash b k)"

subsection \<open>What an embedding client promises\<close>

lemma concat_chunks_of: "0 < n \<Longrightarrow> concat (chunks_of n xs) = xs"
proof (induction n xs rule: chunks_of.induct)
  case (1 n xs)
  then show ?case by (subst chunks_of.simps) auto
qed

lemma length_map_opt: "map_opt f xs = Some ys \<Longrightarrow> length ys = length xs"
  by (induction xs arbitrary: ys) (auto split: option.splits)

lemma map_opt_total: "(\<And>x. f x \<noteq> None) \<Longrightarrow> map_opt f xs \<noteq> None"
  by (induction xs) (auto split: option.splits)

lemma map_opt_set: "map_opt f xs = Some ys \<Longrightarrow> y \<in> set ys \<Longrightarrow> \<exists>x\<in>set xs. f x = Some y"
  by (induction xs arbitrary: ys) (auto split: option.splits)

lemma map_sum_Inr:
  assumes "map_sum id g r = Inr y"
  obtains x where "r = Inr x" and "y = g x"
  using assms by (cases r) simp_all

text \<open>The contract the pipeline relies on: one vector per text, in order, of the client's dimension.\<close>

locale embedding_client =
  fixes emb :: "string list \<Rightarrow> 'f embed_result" and dim :: nat
  assumes embed_returns: "emb texts \<noteq> None"
    and one_vector_per_text: "emb texts = Some (Ok vs) \<Longrightarrow> length vs = length texts"
    and vector_dim: "emb texts = Some (Ok vs) \<Longrightarrow> v \<in> set vs \<Longrightarrow> length v = dim"
begin

lemma embed_batches_returns: "embed_batches emb bs \<noteq> None"
  using embed_returns by (induction bs) (auto split: option.splits sum.splits)

text \<open>No chunk is lost, reordered or changed but for its embedding.\<close>

lemma embed_batches_complete:
  "embed_batches emb bs = Some (Ok cs) \<Longrightarrow>
     map (\<lambda>c. c\<lparr>ck_embedding := None\<rparr>) cs = map (\<lambda>c. c\<lparr>ck_embedding := None\<rparr>) (concat bs)
     \<and> list_all (\<lambda>c. map_option length (ck_embedding c) = Some dim) cs"
proof (induction bs arbitrary: cs)
  case (Cons b bs)
  then obtain vs cs' where vs: "emb (map ck_text b) = Some (Ok vs)"
      and rest: "embed_batches emb bs = Some (Ok cs')"
      and cs: "cs = map (\<lambda>(c, v). c\<lparr>ck_embedding := Some v\<rparr>) (zip b vs) @ cs'"
    by (auto split: option.splits sum.splits elim: map_sum_Inr)
  have len: "length vs = length b" using one_vector_per_text [OF vs] by simp
  have "map (\<lambda>c. c\<lparr>ck_embedding := None\<rparr>) (map (\<lambda>(c, v). c\<lparr>ck_embedding := Some v\<rparr>) (zip b vs))
      = map (\<lambda>c. c\<lparr>ck_embedding := None\<rparr>) b"
    using len by (intro nth_equalityI) auto
  moreover have "list_all (\<lambda>c. map_option length (ck_embedding c) = Some dim)
      (map (\<lambda>(c, v). c\<lparr>ck_embedding := Some v\<rparr>) (zip b vs))"
    using vector_dim [OF vs] by (auto simp: list_all_iff dest: set_zip_rightD)
  ultimately show ?case using Cons.IH [OF rest] by (simp add: cs)
qed simp

end

lemma token_bag_vector_length:
  "token_bag_vector fo sha txt dim = Some v \<Longrightarrow> length v = dim"
proof -
  have "length (foldl (\<lambda>v tok. let bucket = le_u32 (sha tok) mod dim
      in v[bucket := fl_add fo (v ! bucket) one]) v toks) = length v" for one v toks
    by (induction toks arbitrary: v) (simp_all add: Let_def)
  then show "token_bag_vector fo sha txt dim = Some v \<Longrightarrow> length v = dim"
    by (auto simp: token_bag_vector_def Let_def split: if_splits)
qed

interpretation mock_client: embedding_client "mock_embed fo sha (Suc d)" "Suc d" for fo sha d
proof
  fix texts
  have "map_opt (\<lambda>t. token_bag_vector fo sha t (Suc d)) texts \<noteq> None"
    by (rule map_opt_total) (simp add: token_bag_vector_def Let_def)
  then show "mock_embed fo sha (Suc d) texts \<noteq> None" by (simp add: mock_embed_def)
next
  fix texts vs
  assume "mock_embed fo sha (Suc d) texts = Some (Ok vs)"
  then show "length vs = length texts" by (auto simp: mock_embed_def dest: length_map_opt)
next
  fix texts vs v
  assume "mock_embed fo sha (Suc d) texts = Some (Ok vs)" and "v \<in> set vs"
  then show "length v = Suc d"
    by (auto simp: mock_embed_def dest!: map_opt_set intro: token_bag_vector_length)
qed

lemma mock_embed_ok: "mock_embed fo sha dim texts \<noteq> Some (Err e)"
  by (simp add: mock_embed_def)

lemma embed_batches_mock_ok:
  "\<exists>cs. embed_batches (mock_embed fo sha (Suc d)) bs = Some (Ok cs)"
proof (induction bs)
  case (Cons b bs)
  obtain vs where "mock_embed fo sha (Suc d) (map ck_text b) = Some (Ok vs)"
    using mock_client.embed_returns [of fo sha d "map ck_text b"] mock_embed_ok
    by (metis option.exhaust sum.exhaust)
  with Cons.IH show ?case by auto
qed simp

lemma chunk_document_default: "\<exists>cs. chunk_document doc default_chunker = Some cs"
  using split_text_total [of 1600 "trim (dc_body doc)" 200]
  by (auto simp: chunk_document_def default_chunker_def Let_def)

text \<open>A chunk as the chunker made it, before its embedding; the chunks of a document; the upserts of a
  run.\<close>

definition unembedded :: "'f chunk \<Rightarrow> 'f chunk" where
  "unembedded c = c\<lparr>ck_embedding := None\<rparr>"

definition default_chunks :: "document \<Rightarrow> 'f chunk list" where
  "default_chunks doc = (case chunk_document doc default_chunker of Some cs \<Rightarrow> cs | None \<Rightarrow> [])"

definition upsert_all ::
  "(string \<Rightarrow> string) \<Rightarrow> (document \<times> 'f chunk list) list \<Rightarrow> 'f kb \<Rightarrow> 'f kb" where
  "upsert_all hash es k =
     foldl (\<lambda>k (d, cs). kb_upsert hash \<lparr>ub_documents = [d], ub_chunks = cs\<rparr> k) k es"

lemma ingest_step:
  assumes "0 < pc_batch_size cfg" and "pc_chunker cfg = default_chunker"
    and "default_chunks doc \<noteq> ([] :: 'f chunk list)"
  shows "\<exists>cs :: 'f chunk list. ingest_from (mock_embed fo sha (Suc d)) (kb_upsert_op hash) cfg r (doc # docs) k
      = ingest_from (mock_embed fo sha (Suc d)) (kb_upsert_op hash) cfg
          (r\<lparr>ir_documents := ir_documents r + 1, ir_chunks := ir_chunks r + length cs\<rparr>) docs
          (kb_upsert hash \<lparr>ub_documents = [doc], ub_chunks = cs\<rparr> k)
      \<and> map unembedded cs = map unembedded (default_chunks doc)
      \<and> list_all (\<lambda>c. map_option length (ck_embedding c) = Some (Suc d)) cs"
proof -
  obtain ch :: "'f chunk list" where ch: "chunk_document doc default_chunker = Some ch"
    using chunk_document_default by blast
  let ?bs = "chunks_of (pc_batch_size cfg) ch"
  obtain cs where cs: "embed_batches (mock_embed fo sha (Suc d)) ?bs = Some (Ok cs)"
    using embed_batches_mock_ok by blast
  have d: "default_chunks doc = ch" by (simp add: default_chunks_def ch)
  have full: "map unembedded cs = map unembedded ch"
      "list_all (\<lambda>c. map_option length (ck_embedding c) = Some (Suc d)) cs"
    using mock_client.embed_batches_complete [OF cs] concat_chunks_of [OF assms(1), of ch]
    by (simp_all add: unembedded_def [abs_def])
  have "length cs = length ch" using full(1) by (metis length_map)
  then show ?thesis
    using full assms ch cs d by (intro exI [of _ cs]) (simp add: kb_upsert_op_def Let_def)
qed

lemma ingest_from_mock:
  assumes "0 < pc_batch_size cfg" and "pc_chunker cfg = default_chunker"
  shows "\<exists>es :: (document \<times> 'f chunk list) list.
      ingest_from (mock_embed fo sha (Suc d)) (kb_upsert_op hash) cfg r docs k
        = Some (Ok \<lparr>ir_documents = ir_documents r + length es,
                    ir_chunks = ir_chunks r + (\<Sum>e\<leftarrow>es. length (snd e))\<rparr>, upsert_all hash es k)
      \<and> map (\<lambda>(doc, cs). (doc, map unembedded cs)) es
        = map (\<lambda>doc. (doc, map unembedded (default_chunks doc)))
            (filter (\<lambda>doc. default_chunks doc \<noteq> ([] :: 'f chunk list)) docs)
      \<and> list_all (\<lambda>(_, cs). list_all (\<lambda>c. map_option length (ck_embedding c) = Some (Suc d)) cs) es"
proof (induction docs arbitrary: r k)
  case Nil
  show ?case by (intro exI [of _ "[]"]) (simp add: upsert_all_def)
next
  case (Cons doc docs)
  show ?case
  proof (cases "default_chunks doc = ([] :: 'f chunk list)")
    case True
    obtain ch :: "'f chunk list" where "chunk_document doc default_chunker = Some ch"
      using chunk_document_default by blast
    with True assms have "ingest_from (mock_embed fo sha (Suc d)) (kb_upsert_op hash) cfg r (doc # docs) k
        = ingest_from (mock_embed fo sha (Suc d)) (kb_upsert_op hash) cfg r docs k"
      by (simp add: default_chunks_def)
    with Cons.IH [of r k] True show ?thesis by simp
  next
    case False
    obtain cs :: "'f chunk list" where cs:
      "ingest_from (mock_embed fo sha (Suc d)) (kb_upsert_op hash) cfg r (doc # docs) k
        = ingest_from (mock_embed fo sha (Suc d)) (kb_upsert_op hash) cfg
            (r\<lparr>ir_documents := ir_documents r + 1, ir_chunks := ir_chunks r + length cs\<rparr>) docs
            (kb_upsert hash \<lparr>ub_documents = [doc], ub_chunks = cs\<rparr> k)"
      "map unembedded cs = map unembedded (default_chunks doc)"
      "list_all (\<lambda>c. map_option length (ck_embedding c) = Some (Suc d)) cs"
      using ingest_step [OF assms False] by blast
    define r' where "r' = r\<lparr>ir_documents := ir_documents r + 1, ir_chunks := ir_chunks r + length cs\<rparr>"
    define k' where "k' = kb_upsert hash \<lparr>ub_documents = [doc], ub_chunks = cs\<rparr> k"
    obtain es :: "(document \<times> 'f chunk list) list" where es:
      "ingest_from (mock_embed fo sha (Suc d)) (kb_upsert_op hash) cfg r' docs k'
        = Some (Ok \<lparr>ir_documents = ir_documents r' + length es,
            ir_chunks = ir_chunks r' + (\<Sum>e\<leftarrow>es. length (snd e))\<rparr>, upsert_all hash es k')"
      "map (\<lambda>(doc, cs). (doc, map unembedded cs)) es
        = map (\<lambda>doc. (doc, map unembedded (default_chunks doc)))
            (filter (\<lambda>doc. default_chunks doc \<noteq> ([] :: 'f chunk list)) docs)"
      "list_all (\<lambda>(_, cs). list_all (\<lambda>c. map_option length (ck_embedding c) = Some (Suc d)) cs) es"
      using Cons.IH [of r' k'] by blast
    have "upsert_all hash ((doc, cs) # es) k = upsert_all hash es k'"
      by (simp add: upsert_all_def k'_def)
    then show ?thesis
      using cs es False by (intro exI [of _ "(doc, cs) # es"]) (simp add: r'_def k'_def add.assoc)
  qed
qed

text \<open>With the mock embedder the ingestion never fails or panics, whatever the batch size asked for:
  it upserts, per document with chunks and in order, that document with exactly the chunks the
  chunker made of it, each with an embedding of the embedder's dimension, and reports exactly those
  documents and chunks.\<close>

lemma ingest_stores_every_chunk:
  "\<exists>es :: (document \<times> 'f chunk list) list.
     ingest (mock_embed fo sha (Suc d)) (kb_upsert_op hash) (with_batch_size n pipeline_new) docs k
       = Some (Ok \<lparr>ir_documents = length es, ir_chunks = (\<Sum>e\<leftarrow>es. length (snd e))\<rparr>,
               upsert_all hash es k)
     \<and> map (\<lambda>(doc, cs). (doc, map unembedded cs)) es
       = map (\<lambda>doc. (doc, map unembedded (default_chunks doc)))
           (filter (\<lambda>doc. default_chunks doc \<noteq> ([] :: 'f chunk list)) docs)
     \<and> list_all (\<lambda>(_, cs). list_all (\<lambda>c. map_option length (ck_embedding c) = Some (Suc d)) cs) es"
  using ingest_from_mock [of "with_batch_size n pipeline_new" fo sha d hash
      "\<lparr>ir_documents = 0, ir_chunks = 0\<rparr>" docs k]
  by (simp add: ingest_def with_batch_size_def pipeline_new_def)

lemma chunk_document_hi:
  "chunk_document (document_new id ''d'' Bpmn [] ''t'' ''hi'') default_chunker
     = Some [make_chunk (document_new id ''d'' Bpmn [] ''t'' ''hi'')
         (chunk_prefix (document_new id ''d'' Bpmn [] ''t'' ''hi'') default_chunker) 0 ''hi'']"
proof -
  have w: "windows ''hi'' 1600 200 0 = Some [(0, 2)]" by code_simp
  have t: "trim ''hi'' = ''hi''" by code_simp
  have "split_text ''hi'' 1600 200 = Some [''hi'']"
    by (simp add: split_text_def w t slice_def)
  then show ?thesis by (simp add: chunk_document_def document_new_def default_chunker_def t Let_def)
qed

text \<open>An embedding service that answers with fewer vectors than texts makes the pipeline lose the
  chunks silently: the OpenAI-compatible client accepts the answer, and the report counts a chunk
  that the store never gets.\<close>

lemma short_answer_loses_chunks:
  "ingest (openai_embed (\<lambda>_. Ok (200, [])) (\<lambda>_. Ok [])
       \<lparr>oe_base_url = [], oe_model = [], oe_api_key = [], oe_dim = 1\<rparr>)
     (kb_upsert_op id) pipeline_new [document_new id ''d'' Bpmn [] ''t'' ''hi''] (kb_new :: nat kb)
   = Some (Ok \<lparr>ir_documents = 1, ir_chunks = 1\<rparr>,
       kb_upsert id \<lparr>ub_documents = [document_new id ''d'' Bpmn [] ''t'' ''hi''], ub_chunks = []\<rparr> kb_new)"
  by (simp add: ingest_def pipeline_new_def chunk_document_hi chunks_of.simps openai_embed_def
      kb_upsert_op_def Let_def)

end
