(* ===== verification/Json_Rpc.thy ===== *)
theory Json_Rpc
  imports Json "HOL-Library.Word"
begin

text \<open>
  The JSON-RPC messages and the error taxonomy of the protocol
  (\<open>crates/mcp-core/src/jsonrpc.rs\<close> and \<open>error.rs\<close>), with the conversions from and to JSON that their
  derived \<open>serde\<close> implementations are: a struct is read from an object by field name, or from an
  array by position; an optional field that is absent or null is \<open>None\<close>; a field that is \<open>None\<close> is
  not written. \<open>i64\<close> and \<open>i32\<close> are words, read as signed numbers.
\<close>

subsection \<open>Reading and writing fields\<close>

definition struct_field :: "json \<Rightarrow> nat \<Rightarrow> string \<Rightarrow> json option" where
  "struct_field v i k =
     (case v of
        JObj m \<Rightarrow> map_of m k
      | JArr xs \<Rightarrow> if i < length xs then Some (xs ! i) else None
      | _ \<Rightarrow> None)"

text \<open>A value that can be read as a struct of \<open>n\<close> fields at all.\<close>

definition struct_like :: "nat \<Rightarrow> json \<Rightarrow> bool" where
  "struct_like n v = (case v of JObj m \<Rightarrow> True | JArr xs \<Rightarrow> length xs \<le> n | _ \<Rightarrow> False)"

definition opt_field :: "(json \<Rightarrow> 'a option) \<Rightarrow> json option \<Rightarrow> 'a option option" where
  "opt_field d x =
     (case x of None \<Rightarrow> Some None | Some JNull \<Rightarrow> Some None | Some v \<Rightarrow> map_option Some (d v))"

text \<open>A defaulted field: absent is the default, but null is not.\<close>

definition default_field :: "'a \<Rightarrow> (json \<Rightarrow> 'a option) \<Rightarrow> json option \<Rightarrow> 'a option" where
  "default_field a d x = (case x of None \<Rightarrow> Some a | Some v \<Rightarrow> d v)"

definition skip_none :: "string \<Rightarrow> ('a \<Rightarrow> json) \<Rightarrow> 'a option \<Rightarrow> (string \<times> json) list" where
  "skip_none k e x = (case x of None \<Rightarrow> [] | Some a \<Rightarrow> [(k, e a)])"

text \<open>Every element of an array, when all of them can be read.\<close>

primrec read_all :: "(json \<Rightarrow> 'a option) \<Rightarrow> json list \<Rightarrow> 'a list option" where
  "read_all d [] = Some []"
| "read_all d (x # xs) =
     Option.bind (d x) (\<lambda>a. Option.bind (read_all d xs) (\<lambda>as. Some (a # as)))"

definition dec_list :: "(json \<Rightarrow> 'a option) \<Rightarrow> json \<Rightarrow> 'a list option" where
  "dec_list d v = Option.bind (as_array v) (read_all d)"

type_synonym i64 = "64 word"
type_synonym i32 = "32 word"

definition dec_i64 :: "json \<Rightarrow> i64 option" where
  "dec_i64 v = (case v of
     JNum (JInt i) \<Rightarrow> if - (2 ^ 63) \<le> i \<and> i < 2 ^ 63 then Some (word_of_int i) else None
   | _ \<Rightarrow> None)"

definition enc_i64 :: "i64 \<Rightarrow> json" where "enc_i64 w = JNum (JInt (sint w))"

definition dec_i32 :: "json \<Rightarrow> i32 option" where
  "dec_i32 v = (case v of
     JNum (JInt i) \<Rightarrow> if - (2 ^ 31) \<le> i \<and> i < 2 ^ 31 then Some (word_of_int i) else None
   | _ \<Rightarrow> None)"

definition enc_i32 :: "i32 \<Rightarrow> json" where "enc_i32 w = JNum (JInt (sint w))"

subsection \<open>Messages\<close>

definition JSONRPC_VERSION :: string where "JSONRPC_VERSION = ''2.0''"

datatype rpc_id = Id_Number i64 | Id_String string | Id_Null

record rpc_request =
  rq_jsonrpc :: string
  rq_id :: rpc_id
  rq_method :: string
  rq_params :: "json option"

record rpc_notification =
  nt_jsonrpc :: string
  nt_method :: string
  nt_params :: "json option"

record error_object =
  eo_code :: i32
  eo_message :: string
  eo_data :: "json option"

record rpc_response =
  rs_jsonrpc :: string
  rs_id :: rpc_id
  rs_result :: "json option"
  rs_error :: "error_object option"

datatype rpc_message =
    Msg_Request rpc_request
  | Msg_Response rpc_response
  | Msg_Notification rpc_notification

definition request_new :: "rpc_id \<Rightarrow> string \<Rightarrow> json option \<Rightarrow> rpc_request" where
  "request_new i meth params =
     \<lparr>rq_jsonrpc = JSONRPC_VERSION, rq_id = i, rq_method = meth, rq_params = params\<rparr>"

definition notification_new :: "string \<Rightarrow> json option \<Rightarrow> rpc_notification" where
  "notification_new meth params =
     \<lparr>nt_jsonrpc = JSONRPC_VERSION, nt_method = meth, nt_params = params\<rparr>"

definition response_success :: "rpc_id \<Rightarrow> json \<Rightarrow> rpc_response" where
  "response_success i result =
     \<lparr>rs_jsonrpc = JSONRPC_VERSION, rs_id = i, rs_result = Some result, rs_error = None\<rparr>"

definition response_failure :: "rpc_id \<Rightarrow> error_object \<Rightarrow> rpc_response" where
  "response_failure i err =
     \<lparr>rs_jsonrpc = JSONRPC_VERSION, rs_id = i, rs_result = None, rs_error = Some err\<rparr>"

definition error_object_new :: "i32 \<Rightarrow> string \<Rightarrow> error_object" where
  "error_object_new code msg = \<lparr>eo_code = code, eo_message = msg, eo_data = None\<rparr>"

definition error_with_data :: "json \<Rightarrow> error_object \<Rightarrow> error_object" where
  "error_with_data data e = e\<lparr>eo_data := Some data\<rparr>"

lemma request_new_simps [simp]:
  "rq_id (request_new i meth params) = i" "rq_method (request_new i meth params) = meth"
  "rq_params (request_new i meth params) = params"
  "(request_new i meth params)\<lparr>rq_params := x\<rparr> = request_new i meth x"
  by (simp_all add: request_new_def)

subsection \<open>To and from JSON\<close>

fun enc_id :: "rpc_id \<Rightarrow> json" where
  "enc_id (Id_Number n) = enc_i64 n"
| "enc_id (Id_String s) = JStr s"
| "enc_id Id_Null = JNull"

definition dec_id :: "json \<Rightarrow> rpc_id option" where
  "dec_id v = (case dec_i64 v of
     Some n \<Rightarrow> Some (Id_Number n)
   | None \<Rightarrow> (case v of JStr s \<Rightarrow> Some (Id_String s) | JNull \<Rightarrow> Some Id_Null | _ \<Rightarrow> None))"

definition enc_request :: "rpc_request \<Rightarrow> json" where
  "enc_request r = json_obj
     ([(''jsonrpc'', JStr (rq_jsonrpc r)), (''id'', enc_id (rq_id r)), (''method'', JStr (rq_method r))]
      @ skip_none ''params'' (\<lambda>v. v) (rq_params r))"

definition dec_request :: "json \<Rightarrow> rpc_request option" where
  "dec_request v =
     (if struct_like 4 v then
        Option.bind (Option.bind (struct_field v 0 ''jsonrpc'') as_str) (\<lambda>ver.
        Option.bind (Option.bind (struct_field v 1 ''id'') dec_id) (\<lambda>i.
        Option.bind (Option.bind (struct_field v 2 ''method'') as_str) (\<lambda>meth.
        Option.bind (opt_field Some (struct_field v 3 ''params'')) (\<lambda>params.
          Some \<lparr>rq_jsonrpc = ver, rq_id = i, rq_method = meth, rq_params = params\<rparr>))))
      else None)"

definition enc_notification :: "rpc_notification \<Rightarrow> json" where
  "enc_notification n = json_obj
     ([(''jsonrpc'', JStr (nt_jsonrpc n)), (''method'', JStr (nt_method n))]
      @ skip_none ''params'' (\<lambda>v. v) (nt_params n))"

definition dec_notification :: "json \<Rightarrow> rpc_notification option" where
  "dec_notification v =
     (if struct_like 3 v then
        Option.bind (Option.bind (struct_field v 0 ''jsonrpc'') as_str) (\<lambda>ver.
        Option.bind (Option.bind (struct_field v 1 ''method'') as_str) (\<lambda>meth.
        Option.bind (opt_field Some (struct_field v 2 ''params'')) (\<lambda>params.
          Some \<lparr>nt_jsonrpc = ver, nt_method = meth, nt_params = params\<rparr>)))
      else None)"

definition enc_error :: "error_object \<Rightarrow> json" where
  "enc_error e = json_obj
     ([(''code'', enc_i32 (eo_code e)), (''message'', JStr (eo_message e))]
      @ skip_none ''data'' (\<lambda>v. v) (eo_data e))"

definition dec_error :: "json \<Rightarrow> error_object option" where
  "dec_error v =
     (if struct_like 3 v then
        Option.bind (Option.bind (struct_field v 0 ''code'') dec_i32) (\<lambda>code.
        Option.bind (Option.bind (struct_field v 1 ''message'') as_str) (\<lambda>msg.
        Option.bind (opt_field Some (struct_field v 2 ''data'')) (\<lambda>data.
          Some \<lparr>eo_code = code, eo_message = msg, eo_data = data\<rparr>)))
      else None)"

definition enc_response :: "rpc_response \<Rightarrow> json" where
  "enc_response r = json_obj
     ([(''jsonrpc'', JStr (rs_jsonrpc r)), (''id'', enc_id (rs_id r))]
      @ skip_none ''result'' (\<lambda>v. v) (rs_result r) @ skip_none ''error'' enc_error (rs_error r))"

definition dec_response :: "json \<Rightarrow> rpc_response option" where
  "dec_response v =
     (if struct_like 4 v then
        Option.bind (Option.bind (struct_field v 0 ''jsonrpc'') as_str) (\<lambda>ver.
        Option.bind (Option.bind (struct_field v 1 ''id'') dec_id) (\<lambda>i.
        Option.bind (opt_field Some (struct_field v 2 ''result'')) (\<lambda>result.
        Option.bind (opt_field dec_error (struct_field v 3 ''error'')) (\<lambda>err.
          Some \<lparr>rs_jsonrpc = ver, rs_id = i, rs_result = result, rs_error = err\<rparr>))))
      else None)"

fun message_to_value :: "rpc_message \<Rightarrow> json" where
  "message_to_value (Msg_Request r) = enc_request r"
| "message_to_value (Msg_Response r) = enc_response r"
| "message_to_value (Msg_Notification n) = enc_notification n"

text \<open>\<open>Message::from_value\<close>: the kind is decided by the presence of \<open>method\<close> and \<open>id\<close>.\<close>

definition message_from_value :: "json \<Rightarrow> rpc_message option" where
  "message_from_value v =
     (let has_method = jget v ''method'' \<noteq> None; has_id = jget v ''id'' \<noteq> None in
      if has_method \<and> has_id then map_option Msg_Request (dec_request v)
      else if has_method then map_option Msg_Notification (dec_notification v)
      else map_option Msg_Response (dec_response v))"

subsection \<open>Error codes\<close>

datatype error_code =
    ParseError | InvalidRequest | MethodNotFound | InvalidParams | InternalError
  | CodeTimeout | ToolBusy | UpstreamUnavailable
  | AccessDenied | SchemaViolation | UnknownTool
  | PartialResult | StaleCache

fun code_as_i32 :: "error_code \<Rightarrow> i32" where
  "code_as_i32 ParseError = - 32700"
| "code_as_i32 InvalidRequest = - 32600"
| "code_as_i32 MethodNotFound = - 32601"
| "code_as_i32 InvalidParams = - 32602"
| "code_as_i32 InternalError = - 32603"
| "code_as_i32 CodeTimeout = - 32100"
| "code_as_i32 ToolBusy = - 32004"
| "code_as_i32 UpstreamUnavailable = - 32101"
| "code_as_i32 AccessDenied = - 32200"
| "code_as_i32 SchemaViolation = - 32201"
| "code_as_i32 UnknownTool = - 32202"
| "code_as_i32 PartialResult = - 32300"
| "code_as_i32 StaleCache = - 32301"

datatype mcp_error =
    McpJson string
  | McpIo string
  | McpProtocol i32 string
  | McpTransportClosed
  | McpTransport string
  | McpInvalidResponse string
  | McpTimeout
  | McpOther string

type_synonym 'a mcp_result = "mcp_error + 'a"

definition protocol_error :: "error_code \<Rightarrow> string \<Rightarrow> mcp_error" where
  "protocol_error code msg = McpProtocol (code_as_i32 code) msg"

fun mcp_error_text :: "mcp_error \<Rightarrow> string" where
  "mcp_error_text (McpJson e) = ''JSON serialisation: '' @ e"
| "mcp_error_text (McpIo e) = ''I/O: '' @ e"
| "mcp_error_text (McpProtocol code msg) =
     ''MCP protocol error ('' @ show_int (sint code) @ ''): '' @ msg"
| "mcp_error_text McpTransportClosed = ''transport closed''"
| "mcp_error_text (McpTransport e) = ''transport error: '' @ e"
| "mcp_error_text (McpInvalidResponse e) = ''invalid response: '' @ e"
| "mcp_error_text McpTimeout = ''call timed out''"
| "mcp_error_text (McpOther e) = e"

subsection \<open>Round trips\<close>

named_theorems codec_simps \<open>unfolding of encoders and decoders\<close>

lemma dec_enc_i64 [simp]: "dec_i64 (enc_i64 w) = Some w"
  using sint_greater_eq [of w] sint_less [of w] by (simp add: dec_i64_def enc_i64_def)

lemma dec_enc_i32 [simp]: "dec_i32 (enc_i32 w) = Some w"
  using sint_greater_eq [of w] sint_less [of w] by (simp add: dec_i32_def enc_i32_def)

lemma dec_enc_id [simp]: "dec_id (enc_id i) = Some i"
  by (cases i) (simp_all add: dec_id_def, simp_all add: dec_i64_def)

lemma struct_field_obj [codec_simps]: "struct_field (json_obj kvs) i k = map_of (rev kvs) k"
  by (simp add: struct_field_def map_of_obj_of)

lemma struct_like_obj [simp]: "struct_like n (JObj m)"
  by (simp add: struct_like_def)

lemmas obj_of_lookup [codec_simps] = map_of_obj_of

text \<open>What a reader makes of an optional value: a written null is read as absent.\<close>

definition null_as_none :: "json option \<Rightarrow> json option" where
  "null_as_none x = (if x = Some JNull then None else x)"

lemma null_as_none_None [simp]: "null_as_none None = None"
  by (simp add: null_as_none_def)

lemma null_as_none_Some: "null_as_none (Some v) = (if v = JNull then None else Some v)"
  by (simp add: null_as_none_def)

lemma opt_field_some [simp]: "opt_field Some x = Some (null_as_none x)"
  by (auto simp: opt_field_def null_as_none_def split: option.splits json.splits)

lemma opt_field_None [simp]: "opt_field d None = Some None"
  by (simp add: opt_field_def)

lemma opt_field_Some: "v \<noteq> JNull \<Longrightarrow> opt_field d (Some v) = map_option Some (d v)"
  by (cases v) (simp_all add: opt_field_def)

lemma opt_field_str [simp]: "opt_field as_str (map_option JStr x) = Some x"
  by (cases x) (simp_all add: opt_field_def)

lemma read_all_str [simp]: "read_all as_str (map JStr xs) = Some xs"
  by (induction xs) simp_all

lemma opt_field_obj [simp]: "opt_field d (Some (JObj m)) = map_option Some (d (JObj m))"
  by (simp add: opt_field_def)

lemma map_of_skip_none [codec_simps]:
  "map_of (skip_none k e x) k' = (if k' = k then map_option e x else None)"
  by (simp add: skip_none_def split: option.splits)

lemma map_of_rev_skip_none [codec_simps]:
  "map_of (rev (skip_none k e x)) k' = (if k' = k then map_option e x else None)"
  by (simp add: skip_none_def split: option.splits)

text \<open>The normal form a message has after a trip over the wire.\<close>

fun normal_message :: "rpc_message \<Rightarrow> rpc_message" where
  "normal_message (Msg_Request r) = Msg_Request (r\<lparr>rq_params := null_as_none (rq_params r)\<rparr>)"
| "normal_message (Msg_Notification n) =
     Msg_Notification (n\<lparr>nt_params := null_as_none (nt_params n)\<rparr>)"
| "normal_message (Msg_Response r) = Msg_Response
     (r\<lparr>rs_result := null_as_none (rs_result r),
        rs_error := map_option (\<lambda>e. e\<lparr>eo_data := null_as_none (eo_data e)\<rparr>) (rs_error r)\<rparr>)"

lemma dec_enc_error [simp]:
  "dec_error (enc_error e) = Some (e\<lparr>eo_data := null_as_none (eo_data e)\<rparr>)"
  by (cases e; cases "eo_data e") (simp_all add: dec_error_def enc_error_def skip_none_def codec_simps)

text \<open>What the users of a type with both conversions rely on: a written value is never null, and it is
  read back, up to a normal form.\<close>

locale codec =
  fixes enc :: "'a \<Rightarrow> json" and dec :: "json \<Rightarrow> 'a option" and normal :: "'a \<Rightarrow> 'a"
  assumes dec_enc: "dec (enc x) = Some (normal x)"
    and enc_not_null: "enc x \<noteq> JNull"
begin

lemma read_all_enc: "read_all dec (map enc xs) = Some (map normal xs)"
  by (induction xs) (simp_all add: dec_enc)

lemma dec_list_enc: "dec_list dec (JArr (map enc xs)) = Some (map normal xs)"
  by (simp add: dec_list_def read_all_enc)

lemma opt_field_enc: "opt_field dec (map_option enc x) = Some (map_option normal x)"
  by (cases x) (simp_all add: opt_field_Some enc_not_null dec_enc)

end

interpretation error_codec:
  codec enc_error dec_error "\<lambda>e. e\<lparr>eo_data := null_as_none (eo_data e)\<rparr>"
  by unfold_locales (simp_all, simp add: enc_error_def)

lemma decode_message [simp]: "message_from_value (message_to_value m) = Some (normal_message m)"
proof (cases m)
  case (Msg_Request r)
  then show ?thesis
    by (cases r; cases "rq_params r")
      (simp_all add: message_from_value_def Let_def enc_request_def dec_request_def skip_none_def codec_simps)
next
  case (Msg_Notification n)
  then show ?thesis
    by (cases n; cases "nt_params n")
      (simp_all add: message_from_value_def Let_def enc_notification_def dec_notification_def skip_none_def
        codec_simps)
next
  case (Msg_Response r)
  have "struct_field (enc_response r) 3 ''error'' = map_option enc_error (rs_error r)"
    by (cases "rs_result r"; cases "rs_error r") (simp_all add: enc_response_def skip_none_def codec_simps)
  moreover have "struct_field (enc_response r) 2 ''result'' = rs_result r"
    by (cases "rs_result r"; cases "rs_error r") (simp_all add: enc_response_def skip_none_def codec_simps)
  moreover have "struct_field (enc_response r) 0 ''jsonrpc'' = Some (JStr (rs_jsonrpc r))"
      "struct_field (enc_response r) 1 ''id'' = Some (enc_id (rs_id r))"
      "struct_like 4 (enc_response r)" "jget (enc_response r) ''method'' = None"
    by (cases "rs_result r"; cases "rs_error r"; simp add: enc_response_def skip_none_def codec_simps)+
  ultimately show ?thesis
    by (cases r) (simp add: Msg_Response message_from_value_def Let_def dec_response_def error_codec.opt_field_enc)
qed

text \<open>C24. The messages survive the wire: reading back what is written for a message gives the message,
  with the same kind, the same id and the same contents, except that an optional value that was
  written as null is read as absent.\<close>

theorem message_roundtrip: "message_from_value (message_to_value m) = Some (normal_message m)"
  by (rule decode_message)

text \<open>The result of a method must not be null: the receiver sees a response with neither a result nor
  an error.\<close>

lemma null_result_is_lost:
  "message_from_value (message_to_value (Msg_Response (response_success i JNull)))
     = Some (Msg_Response \<lparr>rs_jsonrpc = JSONRPC_VERSION, rs_id = i, rs_result = None, rs_error = None\<rparr>)"
  by (simp only: decode_message) (simp add: response_success_def null_as_none_def)

end
