(* ===== verification/Protocol.thy ===== *)
theory Protocol
  imports Json_Rpc
begin

text \<open>
  The protocol's types (\<open>crates/mcp-core/src/protocol.rs\<close>) and their conversions from and to JSON:
  the parameters the client writes and the server reads, and the results the server writes. The
  progress notification, whose numbers are floats, is left out.
\<close>

definition PROTOCOL_VERSION :: string where "PROTOCOL_VERSION = ''2025-06-18''"

definition METHOD_INITIALIZE :: string where "METHOD_INITIALIZE = ''initialize''"
definition METHOD_INITIALIZED :: string where "METHOD_INITIALIZED = ''notifications/initialized''"
definition METHOD_PING :: string where "METHOD_PING = ''ping''"
definition METHOD_TOOLS_LIST :: string where "METHOD_TOOLS_LIST = ''tools/list''"
definition METHOD_TOOLS_CALL :: string where "METHOD_TOOLS_CALL = ''tools/call''"
definition METHOD_RESOURCES_LIST :: string where "METHOD_RESOURCES_LIST = ''resources/list''"
definition METHOD_RESOURCES_READ :: string where "METHOD_RESOURCES_READ = ''resources/read''"
definition METHOD_PROMPTS_LIST :: string where "METHOD_PROMPTS_LIST = ''prompts/list''"
definition METHOD_PROMPTS_GET :: string where "METHOD_PROMPTS_GET = ''prompts/get''"
definition METHOD_ELICITATION_CREATE :: string where
  "METHOD_ELICITATION_CREATE = ''elicitation/create''"
definition METHOD_LOGGING_SET_LEVEL :: string where "METHOD_LOGGING_SET_LEVEL = ''logging/setLevel''"
definition METHOD_COMPLETION_COMPLETE :: string where
  "METHOD_COMPLETION_COMPLETE = ''completion/complete''"

lemmas method_defs =
  METHOD_INITIALIZE_def METHOD_PING_def METHOD_TOOLS_LIST_def METHOD_TOOLS_CALL_def
  METHOD_RESOURCES_LIST_def METHOD_RESOURCES_READ_def METHOD_PROMPTS_LIST_def
  METHOD_PROMPTS_GET_def METHOD_LOGGING_SET_LEVEL_def METHOD_COMPLETION_COMPLETE_def

lemma methods_distinct:
  "distinct [METHOD_COMPLETION_COMPLETE, METHOD_LOGGING_SET_LEVEL, METHOD_PROMPTS_GET, METHOD_PROMPTS_LIST,
     METHOD_RESOURCES_READ, METHOD_RESOURCES_LIST, METHOD_TOOLS_CALL, METHOD_TOOLS_LIST, METHOD_PING,
     METHOD_INITIALIZE]"
  by (simp add: method_defs)

text \<open>No method is one that \<open>handle_method\<close> tests before it.\<close>

lemmas methods_differ = methods_distinct [simplified]

subsection \<open>Reading helpers\<close>

abbreviation str_field :: "json option \<Rightarrow> string option" where
  "str_field x \<equiv> Option.bind x as_str"

text \<open>A unit variant: its name, or an object with the name and null.\<close>

definition enum_tag :: "json \<Rightarrow> string option" where
  "enum_tag v = (case v of JStr s \<Rightarrow> Some s | JObj [(k, JNull)] \<Rightarrow> Some k | _ \<Rightarrow> None)"

text \<open>An internally tagged variant: its tag and what its fields are read from.\<close>

definition tagged :: "json \<Rightarrow> (string \<times> json) option" where
  "tagged v =
     (case v of
        JObj m \<Rightarrow> map_option (\<lambda>t. (t, JObj m)) (str_field (map_of m ''type''))
      | JArr (t # xs) \<Rightarrow> map_option (\<lambda>t. (t, JArr xs)) (as_str t)
      | _ \<Rightarrow> None)"

text \<open>What a flattened map keeps: the entries that no field takes.\<close>

definition flatten_rest :: "string list \<Rightarrow> json_map \<Rightarrow> json_map" where
  "flatten_rest known m = filter (\<lambda>(k, v). k \<notin> set known) m"

subsection \<open>Initialisation\<close>

record implementation =
  ip_name :: string
  ip_version :: string

definition enc_implementation :: "implementation \<Rightarrow> json" where
  "enc_implementation i = json_obj [(''name'', JStr (ip_name i)), (''version'', JStr (ip_version i))]"

definition dec_implementation :: "json \<Rightarrow> implementation option" where
  "dec_implementation v =
     (if struct_like 2 v then
        Option.bind (str_field (struct_field v 0 ''name'')) (\<lambda>n.
        Option.bind (str_field (struct_field v 1 ''version'')) (\<lambda>ver.
          Some \<lparr>ip_name = n, ip_version = ver\<rparr>))
      else None)"

text \<open>The roots capability is its flag \<open>listChanged\<close>.\<close>

definition enc_roots :: "bool \<Rightarrow> json" where
  "enc_roots b = json_obj [(''listChanged'', JBool b)]"

definition dec_roots :: "json \<Rightarrow> bool option" where
  "dec_roots v =
     (if struct_like 1 v then default_field False as_bool (struct_field v 0 ''listChanged'') else None)"

record client_capabilities =
  cl_sampling :: "json option"
  cl_elicitation :: "json option"
  cl_roots :: "bool option"
  cl_extra :: json_map

definition no_client_capabilities :: client_capabilities where
  "no_client_capabilities =
     \<lparr>cl_sampling = None, cl_elicitation = None, cl_roots = None, cl_extra = []\<rparr>"

definition with_elicitation :: "client_capabilities \<Rightarrow> client_capabilities" where
  "with_elicitation c = c\<lparr>cl_elicitation := Some (JObj [])\<rparr>"

definition supports_elicitation :: "client_capabilities \<Rightarrow> bool" where
  "supports_elicitation c \<longleftrightarrow> cl_elicitation c \<noteq> None"

definition enc_client_capabilities :: "client_capabilities \<Rightarrow> json" where
  "enc_client_capabilities c = json_obj
     (skip_none ''sampling'' (\<lambda>v. v) (cl_sampling c)
      @ skip_none ''elicitation'' (\<lambda>v. v) (cl_elicitation c)
      @ skip_none ''roots'' enc_roots (cl_roots c) @ cl_extra c)"

definition dec_client_capabilities :: "json \<Rightarrow> client_capabilities option" where
  "dec_client_capabilities v =
     (case v of
        JObj m \<Rightarrow>
          Option.bind (opt_field Some (map_of m ''sampling'')) (\<lambda>s.
          Option.bind (opt_field Some (map_of m ''elicitation'')) (\<lambda>e.
          Option.bind (opt_field dec_roots (map_of m ''roots'')) (\<lambda>r.
            Some \<lparr>cl_sampling = s, cl_elicitation = e, cl_roots = r,
                  cl_extra = flatten_rest [''sampling'', ''elicitation'', ''roots''] m\<rparr>)))
      | _ \<Rightarrow> None)"

record initialize_params =
  in_protocol_version :: string
  in_capabilities :: client_capabilities
  in_client_info :: implementation

definition enc_initialize_params :: "initialize_params \<Rightarrow> json" where
  "enc_initialize_params p = json_obj
     [(''protocolVersion'', JStr (in_protocol_version p)),
      (''capabilities'', enc_client_capabilities (in_capabilities p)),
      (''clientInfo'', enc_implementation (in_client_info p))]"

definition dec_initialize_params :: "json \<Rightarrow> initialize_params option" where
  "dec_initialize_params v =
     (if struct_like 3 v then
        Option.bind (str_field (struct_field v 0 ''protocolVersion'')) (\<lambda>ver.
        Option.bind (default_field no_client_capabilities dec_client_capabilities
                       (struct_field v 1 ''capabilities'')) (\<lambda>caps.
        Option.bind (Option.bind (struct_field v 2 ''clientInfo'') dec_implementation) (\<lambda>info.
          Some \<lparr>in_protocol_version = ver, in_capabilities = caps, in_client_info = info\<rparr>)))
      else None)"

text \<open>The server's capabilities: the flags of the tools, resources and prompts capabilities.\<close>

record server_capabilities =
  sv_tools :: "bool option"
  sv_resources :: "(bool \<times> bool) option"
  sv_prompts :: "bool option"
  sv_logging :: "json option"
  sv_extra :: json_map

definition enc_server_capabilities :: "server_capabilities \<Rightarrow> json" where
  "enc_server_capabilities c = json_obj
     (skip_none ''tools'' (\<lambda>b. json_obj [(''listChanged'', JBool b)]) (sv_tools c)
      @ skip_none ''resources''
          (\<lambda>(b, s). json_obj [(''listChanged'', JBool b), (''subscribe'', JBool s)]) (sv_resources c)
      @ skip_none ''prompts'' (\<lambda>b. json_obj [(''listChanged'', JBool b)]) (sv_prompts c)
      @ skip_none ''logging'' (\<lambda>v. v) (sv_logging c) @ sv_extra c)"

definition no_server_capabilities :: server_capabilities where
  "no_server_capabilities =
     \<lparr>sv_tools = None, sv_resources = None, sv_prompts = None, sv_logging = None, sv_extra = []\<rparr>"

definition dec_list_changed :: "json \<Rightarrow> bool option" where
  "dec_list_changed v =
     (if struct_like 1 v then default_field False as_bool (struct_field v 0 ''listChanged'') else None)"

definition dec_resources_capability :: "json \<Rightarrow> (bool \<times> bool) option" where
  "dec_resources_capability v =
     (if struct_like 2 v then
        Option.bind (default_field False as_bool (struct_field v 0 ''listChanged'')) (\<lambda>b.
        Option.bind (default_field False as_bool (struct_field v 1 ''subscribe'')) (\<lambda>s. Some (b, s)))
      else None)"

definition dec_server_capabilities :: "json \<Rightarrow> server_capabilities option" where
  "dec_server_capabilities v =
     (case v of
        JObj m \<Rightarrow>
          Option.bind (opt_field dec_list_changed (map_of m ''tools'')) (\<lambda>t.
          Option.bind (opt_field dec_resources_capability (map_of m ''resources'')) (\<lambda>r.
          Option.bind (opt_field dec_list_changed (map_of m ''prompts'')) (\<lambda>p.
          Option.bind (opt_field Some (map_of m ''logging'')) (\<lambda>l.
            Some \<lparr>sv_tools = t, sv_resources = r, sv_prompts = p, sv_logging = l,
                  sv_extra = flatten_rest [''tools'', ''resources'', ''prompts'', ''logging''] m\<rparr>))))
      | _ \<Rightarrow> None)"

record initialize_result =
  ir_protocol_version :: string
  ir_capabilities :: server_capabilities
  ir_server_info :: implementation
  ir_instructions :: "string option"

definition enc_initialize_result :: "initialize_result \<Rightarrow> json" where
  "enc_initialize_result r = json_obj
     ([(''protocolVersion'', JStr (ir_protocol_version r)),
       (''capabilities'', enc_server_capabilities (ir_capabilities r)),
       (''serverInfo'', enc_implementation (ir_server_info r))]
      @ skip_none ''instructions'' JStr (ir_instructions r))"

definition dec_initialize_result :: "json \<Rightarrow> initialize_result option" where
  "dec_initialize_result v =
     (if struct_like 4 v then
        Option.bind (str_field (struct_field v 0 ''protocolVersion'')) (\<lambda>ver.
        Option.bind (default_field no_server_capabilities dec_server_capabilities
                       (struct_field v 1 ''capabilities'')) (\<lambda>caps.
        Option.bind (Option.bind (struct_field v 2 ''serverInfo'') dec_implementation) (\<lambda>info.
        Option.bind (opt_field as_str (struct_field v 3 ''instructions'')) (\<lambda>ins.
          Some \<lparr>ir_protocol_version = ver, ir_capabilities = caps, ir_server_info = info,
                ir_instructions = ins\<rparr>))))
      else None)"

subsection \<open>Tools\<close>

record tool_input_schema =
  sch_type :: string
  sch_properties :: "json option"
  sch_required :: "string list"
  sch_extra :: json_map

definition schema_object :: tool_input_schema where
  "schema_object =
     \<lparr>sch_type = ''object'', sch_properties = Some (JObj []), sch_required = [], sch_extra = []\<rparr>"

definition enc_schema :: "tool_input_schema \<Rightarrow> json" where
  "enc_schema s = json_obj
     ([(''type'', JStr (sch_type s))] @ skip_none ''properties'' (\<lambda>v. v) (sch_properties s)
      @ (if sch_required s = [] then [] else [(''required'', JArr (map JStr (sch_required s)))])
      @ sch_extra s)"

definition dec_schema :: "json \<Rightarrow> tool_input_schema option" where
  "dec_schema v =
     (case v of
        JObj m \<Rightarrow>
          Option.bind (str_field (map_of m ''type'')) (\<lambda>t.
          Option.bind (opt_field Some (map_of m ''properties'')) (\<lambda>p.
          Option.bind (default_field [] (dec_list as_str) (map_of m ''required'')) (\<lambda>r.
            Some \<lparr>sch_type = t, sch_properties = p, sch_required = r,
                  sch_extra = flatten_rest [''type'', ''properties'', ''required''] m\<rparr>)))
      | _ \<Rightarrow> None)"

definition schema_from_value :: "json \<Rightarrow> tool_input_schema" where
  "schema_from_value v = (case dec_schema v of Some s \<Rightarrow> s | None \<Rightarrow> schema_object)"

record mcp_tool =
  tl_name :: string
  tl_description :: "string option"
  tl_input_schema :: tool_input_schema

definition enc_tool :: "mcp_tool \<Rightarrow> json" where
  "enc_tool t = json_obj
     ([(''name'', JStr (tl_name t))] @ skip_none ''description'' JStr (tl_description t)
      @ [(''inputSchema'', enc_schema (tl_input_schema t))])"

definition dec_tool :: "json \<Rightarrow> mcp_tool option" where
  "dec_tool v =
     (if struct_like 3 v then
        Option.bind (str_field (struct_field v 0 ''name'')) (\<lambda>n.
        Option.bind (opt_field as_str (struct_field v 1 ''description'')) (\<lambda>d.
        Option.bind (Option.bind (struct_field v 2 ''inputSchema'') dec_schema) (\<lambda>s.
          Some \<lparr>tl_name = n, tl_description = d, tl_input_schema = s\<rparr>)))
      else None)"

text \<open>A page of a list: the entries under their key, and no cursor.\<close>

definition enc_list_result :: "string \<Rightarrow> json list \<Rightarrow> json" where
  "enc_list_result k xs = json_obj [(k, JArr xs)]"

text \<open>Reading a page gives its entries and the cursor.\<close>

definition dec_list_result :: "string \<Rightarrow> (json \<Rightarrow> 'a option) \<Rightarrow> json \<Rightarrow> ('a list \<times> string option) option" where
  "dec_list_result k dec v =
     (if struct_like 2 v then
        Option.bind (Option.bind (struct_field v 0 k) (dec_list dec)) (\<lambda>xs.
        Option.bind (opt_field as_str (struct_field v 1 ''nextCursor'')) (\<lambda>c. Some (xs, c)))
      else None)"

record call_tool_params =
  cp_name :: string
  cp_arguments :: "json option"

definition enc_call_tool_params :: "call_tool_params \<Rightarrow> json" where
  "enc_call_tool_params p = json_obj
     ([(''name'', JStr (cp_name p))] @ skip_none ''arguments'' (\<lambda>v. v) (cp_arguments p))"

definition dec_call_tool_params :: "json \<Rightarrow> call_tool_params option" where
  "dec_call_tool_params v =
     (if struct_like 2 v then
        Option.bind (str_field (struct_field v 0 ''name'')) (\<lambda>n.
        Option.bind (opt_field Some (struct_field v 1 ''arguments'')) (\<lambda>a.
          Some \<lparr>cp_name = n, cp_arguments = a\<rparr>))
      else None)"

record resource_contents =
  rc_uri :: string
  rc_mime_type :: "string option"
  rc_text :: "string option"
  rc_blob :: "string option"

definition resource_text :: "string \<Rightarrow> string \<Rightarrow> resource_contents" where
  "resource_text uri txt =
     \<lparr>rc_uri = uri, rc_mime_type = Some ''text/plain'', rc_text = Some txt, rc_blob = None\<rparr>"

definition enc_resource_contents :: "resource_contents \<Rightarrow> json" where
  "enc_resource_contents r = json_obj
     ([(''uri'', JStr (rc_uri r))] @ skip_none ''mimeType'' JStr (rc_mime_type r)
      @ skip_none ''text'' JStr (rc_text r) @ skip_none ''blob'' JStr (rc_blob r))"

definition dec_resource_contents :: "json \<Rightarrow> resource_contents option" where
  "dec_resource_contents v =
     (if struct_like 4 v then
        Option.bind (str_field (struct_field v 0 ''uri'')) (\<lambda>u.
        Option.bind (opt_field as_str (struct_field v 1 ''mimeType'')) (\<lambda>m.
        Option.bind (opt_field as_str (struct_field v 2 ''text'')) (\<lambda>t.
        Option.bind (opt_field as_str (struct_field v 3 ''blob'')) (\<lambda>b.
          Some \<lparr>rc_uri = u, rc_mime_type = m, rc_text = t, rc_blob = b\<rparr>))))
      else None)"

datatype tool_content =
    Text_Content string
  | Image_Content string string
  | Resource_Content resource_contents

fun enc_content :: "tool_content \<Rightarrow> json" where
  "enc_content (Text_Content s) = json_obj [(''type'', JStr ''text''), (''text'', JStr s)]"
| "enc_content (Image_Content d m) = json_obj
     [(''type'', JStr ''image''), (''data'', JStr d), (''mimeType'', JStr m)]"
| "enc_content (Resource_Content r) = json_obj
     [(''type'', JStr ''resource''), (''resource'', enc_resource_contents r)]"

definition dec_content :: "json \<Rightarrow> tool_content option" where
  "dec_content v =
     Option.bind (tagged v) (\<lambda>(t, w).
       if t = ''text'' then
         (if struct_like 1 w then map_option Text_Content (str_field (struct_field w 0 ''text''))
          else None)
       else if t = ''image'' then
         (if struct_like 2 w then
            Option.bind (str_field (struct_field w 0 ''data'')) (\<lambda>d.
            Option.bind (str_field (struct_field w 1 ''mimeType'')) (\<lambda>m.
              Some (Image_Content d m)))
          else None)
       else if t = ''resource'' then
         (if struct_like 1 w then
            map_option Resource_Content
              (Option.bind (struct_field w 0 ''resource'') dec_resource_contents)
          else None)
       else None)"

record call_tool_result =
  ct_content :: "tool_content list"
  ct_is_error :: bool

definition tool_text :: "string \<Rightarrow> call_tool_result" where
  "tool_text s = \<lparr>ct_content = [Text_Content s], ct_is_error = False\<rparr>"

definition tool_error :: "string \<Rightarrow> call_tool_result" where
  "tool_error s = \<lparr>ct_content = [Text_Content s], ct_is_error = True\<rparr>"

definition enc_call_tool_result :: "call_tool_result \<Rightarrow> json" where
  "enc_call_tool_result r = json_obj
     [(''content'', JArr (map enc_content (ct_content r))), (''isError'', JBool (ct_is_error r))]"

definition dec_call_tool_result :: "json \<Rightarrow> call_tool_result option" where
  "dec_call_tool_result v =
     (if struct_like 2 v then
        Option.bind (Option.bind (struct_field v 0 ''content'') (dec_list dec_content)) (\<lambda>c.
        Option.bind (default_field False as_bool (struct_field v 1 ''isError'')) (\<lambda>e.
          Some \<lparr>ct_content = c, ct_is_error = e\<rparr>))
      else None)"

subsection \<open>Resources and prompts\<close>

record mcp_resource =
  re_uri :: string
  re_name :: string
  re_description :: "string option"
  re_mime_type :: "string option"

definition enc_resource :: "mcp_resource \<Rightarrow> json" where
  "enc_resource r = json_obj
     ([(''uri'', JStr (re_uri r)), (''name'', JStr (re_name r))]
      @ skip_none ''description'' JStr (re_description r) @ skip_none ''mimeType'' JStr (re_mime_type r))"

definition dec_resource :: "json \<Rightarrow> mcp_resource option" where
  "dec_resource v =
     (if struct_like 4 v then
        Option.bind (str_field (struct_field v 0 ''uri'')) (\<lambda>u.
        Option.bind (str_field (struct_field v 1 ''name'')) (\<lambda>n.
        Option.bind (opt_field as_str (struct_field v 2 ''description'')) (\<lambda>d.
        Option.bind (opt_field as_str (struct_field v 3 ''mimeType'')) (\<lambda>m.
          Some \<lparr>re_uri = u, re_name = n, re_description = d, re_mime_type = m\<rparr>))))
      else None)"

text \<open>The parameters of a read are the uri.\<close>

definition enc_read_params :: "string \<Rightarrow> json" where
  "enc_read_params uri = json_obj [(''uri'', JStr uri)]"

definition dec_read_params :: "json \<Rightarrow> string option" where
  "dec_read_params v =
     (if struct_like 1 v then str_field (struct_field v 0 ''uri'') else None)"

definition enc_read_result :: "resource_contents list \<Rightarrow> json" where
  "enc_read_result cs = json_obj [(''contents'', JArr (map enc_resource_contents cs))]"

definition dec_read_result :: "json \<Rightarrow> resource_contents list option" where
  "dec_read_result v =
     (if struct_like 1 v
      then Option.bind (struct_field v 0 ''contents'') (dec_list dec_resource_contents) else None)"

record prompt_argument =
  pa_name :: string
  pa_description :: "string option"
  pa_required :: bool

definition enc_prompt_argument :: "prompt_argument \<Rightarrow> json" where
  "enc_prompt_argument a = json_obj
     ([(''name'', JStr (pa_name a))] @ skip_none ''description'' JStr (pa_description a)
      @ [(''required'', JBool (pa_required a))])"

definition dec_prompt_argument :: "json \<Rightarrow> prompt_argument option" where
  "dec_prompt_argument v =
     (if struct_like 3 v then
        Option.bind (str_field (struct_field v 0 ''name'')) (\<lambda>n.
        Option.bind (opt_field as_str (struct_field v 1 ''description'')) (\<lambda>d.
        Option.bind (default_field False as_bool (struct_field v 2 ''required'')) (\<lambda>r.
          Some \<lparr>pa_name = n, pa_description = d, pa_required = r\<rparr>)))
      else None)"

record mcp_prompt =
  pr_name :: string
  pr_description :: "string option"
  pr_arguments :: "prompt_argument list"

definition enc_prompt :: "mcp_prompt \<Rightarrow> json" where
  "enc_prompt p = json_obj
     ([(''name'', JStr (pr_name p))] @ skip_none ''description'' JStr (pr_description p)
      @ (if pr_arguments p = [] then []
         else [(''arguments'', JArr (map enc_prompt_argument (pr_arguments p)))]))"

definition dec_prompt :: "json \<Rightarrow> mcp_prompt option" where
  "dec_prompt v =
     (if struct_like 3 v then
        Option.bind (str_field (struct_field v 0 ''name'')) (\<lambda>n.
        Option.bind (opt_field as_str (struct_field v 1 ''description'')) (\<lambda>d.
        Option.bind (default_field [] (dec_list dec_prompt_argument) (struct_field v 2 ''arguments'')) (\<lambda>a.
          Some \<lparr>pr_name = n, pr_description = d, pr_arguments = a\<rparr>)))
      else None)"

record get_prompt_params =
  gp_name :: string
  gp_arguments :: "json option"

definition enc_get_prompt_params :: "get_prompt_params \<Rightarrow> json" where
  "enc_get_prompt_params p = json_obj
     ([(''name'', JStr (gp_name p))] @ skip_none ''arguments'' (\<lambda>v. v) (gp_arguments p))"

definition dec_get_prompt_params :: "json \<Rightarrow> get_prompt_params option" where
  "dec_get_prompt_params v =
     (if struct_like 2 v then
        Option.bind (str_field (struct_field v 0 ''name'')) (\<lambda>n.
        Option.bind (opt_field Some (struct_field v 1 ''arguments'')) (\<lambda>a.
          Some \<lparr>gp_name = n, gp_arguments = a\<rparr>))
      else None)"

datatype role = Role_User | Role_Assistant | Role_System

fun role_name :: "role \<Rightarrow> string" where
  "role_name Role_User = ''user''"
| "role_name Role_Assistant = ''assistant''"
| "role_name Role_System = ''system''"

definition dec_role :: "json \<Rightarrow> role option" where
  "dec_role v =
     Option.bind (enum_tag v) (\<lambda>s. find (\<lambda>r. role_name r = s) [Role_User, Role_Assistant, Role_System])"

record prompt_message =
  pm_role :: role
  pm_content :: tool_content

definition enc_prompt_message :: "prompt_message \<Rightarrow> json" where
  "enc_prompt_message m = json_obj
     [(''role'', JStr (role_name (pm_role m))), (''content'', enc_content (pm_content m))]"

definition dec_prompt_message :: "json \<Rightarrow> prompt_message option" where
  "dec_prompt_message v =
     (if struct_like 2 v then
        Option.bind (Option.bind (struct_field v 0 ''role'') dec_role) (\<lambda>r.
        Option.bind (Option.bind (struct_field v 1 ''content'') dec_content) (\<lambda>c.
          Some \<lparr>pm_role = r, pm_content = c\<rparr>))
      else None)"

record get_prompt_result =
  gr_description :: "string option"
  gr_messages :: "prompt_message list"

definition enc_get_prompt_result :: "get_prompt_result \<Rightarrow> json" where
  "enc_get_prompt_result r = json_obj
     (skip_none ''description'' JStr (gr_description r)
      @ [(''messages'', JArr (map enc_prompt_message (gr_messages r)))])"

definition dec_get_prompt_result :: "json \<Rightarrow> get_prompt_result option" where
  "dec_get_prompt_result v =
     (if struct_like 2 v then
        Option.bind (opt_field as_str (struct_field v 0 ''description'')) (\<lambda>d.
        Option.bind (Option.bind (struct_field v 1 ''messages'') (dec_list dec_prompt_message)) (\<lambda>ms.
          Some \<lparr>gr_description = d, gr_messages = ms\<rparr>))
      else None)"

subsection \<open>Log levels\<close>

datatype log_level =
    Lv_Debug | Lv_Info | Lv_Notice | Lv_Warning | Lv_Error | Lv_Critical | Lv_Alert | Lv_Emergency

fun level_rank :: "log_level \<Rightarrow> nat" where
  "level_rank Lv_Debug = 0"
| "level_rank Lv_Info = 1"
| "level_rank Lv_Notice = 2"
| "level_rank Lv_Warning = 3"
| "level_rank Lv_Error = 4"
| "level_rank Lv_Critical = 5"
| "level_rank Lv_Alert = 6"
| "level_rank Lv_Emergency = 7"

fun level_name :: "log_level \<Rightarrow> string" where
  "level_name Lv_Debug = ''debug''"
| "level_name Lv_Info = ''info''"
| "level_name Lv_Notice = ''notice''"
| "level_name Lv_Warning = ''warning''"
| "level_name Lv_Error = ''error''"
| "level_name Lv_Critical = ''critical''"
| "level_name Lv_Alert = ''alert''"
| "level_name Lv_Emergency = ''emergency''"

definition all_levels :: "log_level list" where
  "all_levels =
     [Lv_Debug, Lv_Info, Lv_Notice, Lv_Warning, Lv_Error, Lv_Critical, Lv_Alert, Lv_Emergency]"

definition dec_level :: "json \<Rightarrow> log_level option" where
  "dec_level v = Option.bind (enum_tag v) (\<lambda>s. find (\<lambda>l. level_name l = s) all_levels)"

definition enc_set_level_params :: "log_level \<Rightarrow> json" where
  "enc_set_level_params l = json_obj [(''level'', JStr (level_name l))]"

definition dec_set_level_params :: "json \<Rightarrow> log_level option" where
  "dec_set_level_params v =
     (if struct_like 1 v then Option.bind (struct_field v 0 ''level'') dec_level else None)"

subsection \<open>Completion\<close>

datatype completion_ref = Ref_Prompt string | Ref_Resource string

fun enc_completion_ref :: "completion_ref \<Rightarrow> json" where
  "enc_completion_ref (Ref_Prompt n) = json_obj [(''type'', JStr ''ref/prompt''), (''name'', JStr n)]"
| "enc_completion_ref (Ref_Resource u) = json_obj [(''type'', JStr ''ref/resource''), (''uri'', JStr u)]"

definition dec_completion_ref :: "json \<Rightarrow> completion_ref option" where
  "dec_completion_ref v =
     Option.bind (tagged v) (\<lambda>(t, w).
       if t = ''ref/prompt'' then
         (if struct_like 1 w then map_option Ref_Prompt (str_field (struct_field w 0 ''name'')) else None)
       else if t = ''ref/resource'' then
         (if struct_like 1 w then map_option Ref_Resource (str_field (struct_field w 0 ''uri'')) else None)
       else None)"

record complete_params =
  cq_reference :: completion_ref
  cq_argument_name :: string
  cq_argument_value :: string

definition enc_complete_params :: "complete_params \<Rightarrow> json" where
  "enc_complete_params p = json_obj
     [(''ref'', enc_completion_ref (cq_reference p)),
      (''argument'', json_obj [(''name'', JStr (cq_argument_name p)),
                             (''value'', JStr (cq_argument_value p))])]"

definition dec_complete_params :: "json \<Rightarrow> complete_params option" where
  "dec_complete_params v =
     (if struct_like 2 v then
        Option.bind (Option.bind (struct_field v 0 ''ref'') dec_completion_ref) (\<lambda>r.
        Option.bind (struct_field v 1 ''argument'') (\<lambda>a.
          if struct_like 2 a then
            Option.bind (str_field (struct_field a 0 ''name'')) (\<lambda>n.
            Option.bind (str_field (struct_field a 1 ''value'')) (\<lambda>x.
              Some \<lparr>cq_reference = r, cq_argument_name = n, cq_argument_value = x\<rparr>))
          else None))
      else None)"

record completion_data =
  cm_values :: "string list"
  cm_total :: "nat option"
  cm_has_more :: "bool option"

definition enc_complete_result :: "completion_data \<Rightarrow> json" where
  "enc_complete_result d = json_obj [(''completion'', json_obj
     ([(''values'', JArr (map JStr (cm_values d)))] @ skip_none ''total'' JNat (cm_total d)
      @ skip_none ''hasMore'' JBool (cm_has_more d)))]"

definition dec_u32 :: "json \<Rightarrow> nat option" where
  "dec_u32 v = (case v of
     JNum (JInt i) \<Rightarrow> if 0 \<le> i \<and> i < 2 ^ 32 then Some (nat i) else None | _ \<Rightarrow> None)"

definition dec_complete_result :: "json \<Rightarrow> completion_data option" where
  "dec_complete_result v =
     (if struct_like 1 v then
        Option.bind (struct_field v 0 ''completion'') (\<lambda>w.
          if struct_like 3 w then
            Option.bind (Option.bind (struct_field w 0 ''values'') (dec_list as_str)) (\<lambda>xs.
            Option.bind (opt_field dec_u32 (struct_field w 1 ''total'')) (\<lambda>t.
            Option.bind (opt_field as_bool (struct_field w 2 ''hasMore'')) (\<lambda>h.
              Some \<lparr>cm_values = xs, cm_total = t, cm_has_more = h\<rparr>)))
          else None)
      else None)"

subsection \<open>Elicitation\<close>

record elicitation_params =
  el_message :: string
  el_schema :: json

definition enc_elicitation_params :: "elicitation_params \<Rightarrow> json" where
  "enc_elicitation_params p = json_obj
     [(''message'', JStr (el_message p)), (''requestedSchema'', el_schema p)]"

definition dec_elicitation_params :: "json \<Rightarrow> elicitation_params option" where
  "dec_elicitation_params v =
     (if struct_like 2 v then
        Option.bind (str_field (struct_field v 0 ''message'')) (\<lambda>m.
        Option.bind (struct_field v 1 ''requestedSchema'') (\<lambda>s.
          Some \<lparr>el_message = m, el_schema = s\<rparr>))
      else None)"

datatype elicitation_action = Act_Accept | Act_Decline | Act_Cancel

fun action_name :: "elicitation_action \<Rightarrow> string" where
  "action_name Act_Accept = ''accept''"
| "action_name Act_Decline = ''decline''"
| "action_name Act_Cancel = ''cancel''"

record elicitation_result =
  ei_action :: elicitation_action
  ei_content :: "json option"

definition enc_elicitation_result :: "elicitation_result \<Rightarrow> json" where
  "enc_elicitation_result r = json_obj
     ([(''action'', JStr (action_name (ei_action r)))] @ skip_none ''content'' (\<lambda>v. v) (ei_content r))"

definition dec_action :: "json \<Rightarrow> elicitation_action option" where
  "dec_action v =
     Option.bind (enum_tag v) (\<lambda>s. find (\<lambda>a. action_name a = s) [Act_Accept, Act_Decline, Act_Cancel])"

definition dec_elicitation_result :: "json \<Rightarrow> elicitation_result option" where
  "dec_elicitation_result v =
     (if struct_like 2 v then
        Option.bind (Option.bind (struct_field v 0 ''action'') dec_action) (\<lambda>a.
        Option.bind (opt_field Some (struct_field v 1 ''content'')) (\<lambda>c.
          Some \<lparr>ei_action = a, ei_content = c\<rparr>))
      else None)"

subsection \<open>Round trips\<close>

lemma dec_enc_implementation [simp]: "dec_implementation (enc_implementation i) = Some i"
  by (cases i) (simp add: enc_implementation_def dec_implementation_def codec_simps)

lemma dec_enc_call_tool_params [simp]:
  "dec_call_tool_params (enc_call_tool_params p)
     = Some (p\<lparr>cp_arguments := null_as_none (cp_arguments p)\<rparr>)"
  by (cases p; cases "cp_arguments p")
    (simp_all add: enc_call_tool_params_def dec_call_tool_params_def skip_none_def codec_simps)

lemma dec_enc_get_prompt_params [simp]:
  "dec_get_prompt_params (enc_get_prompt_params p)
     = Some (p\<lparr>gp_arguments := null_as_none (gp_arguments p)\<rparr>)"
  by (cases p; cases "gp_arguments p")
    (simp_all add: enc_get_prompt_params_def dec_get_prompt_params_def skip_none_def codec_simps)

lemma dec_enc_read_params [simp]: "dec_read_params (enc_read_params u) = Some u"
  by (simp add: enc_read_params_def dec_read_params_def codec_simps)

lemma dec_enc_set_level_params [simp]: "dec_set_level_params (enc_set_level_params l) = Some l"
  by (cases l) (simp_all add: enc_set_level_params_def dec_set_level_params_def dec_level_def
      enum_tag_def all_levels_def codec_simps)

lemma tagged_obj: "tagged (json_obj kvs) = map_option (\<lambda>t. (t, json_obj kvs)) (str_field (map_of (rev kvs) ''type''))"
  by (simp add: tagged_def map_of_obj_of)

lemma dec_enc_completion_ref [simp]: "dec_completion_ref (enc_completion_ref r) = Some r"
  by (cases r) (simp_all add: dec_completion_ref_def tagged_obj codec_simps)

lemma dec_enc_complete_params [simp]: "dec_complete_params (enc_complete_params p) = Some p"
  by (cases p) (simp add: enc_complete_params_def dec_complete_params_def codec_simps)

lemma dec_enc_elicitation_params [simp]: "dec_elicitation_params (enc_elicitation_params p) = Some p"
  by (cases p) (simp add: enc_elicitation_params_def dec_elicitation_params_def codec_simps)

lemma dec_enc_action [simp]: "dec_action (JStr (action_name a)) = Some a"
  by (cases a) (simp_all add: dec_action_def enum_tag_def)

lemma dec_enc_elicitation_result [simp]:
  "dec_elicitation_result (enc_elicitation_result r)
     = Some (r\<lparr>ei_content := null_as_none (ei_content r)\<rparr>)"
  by (cases r; cases "ei_content r")
    (simp_all add: enc_elicitation_result_def dec_elicitation_result_def skip_none_def codec_simps)

lemma dec_enc_resource_contents [simp]: "dec_resource_contents (enc_resource_contents r) = Some r"
proof -
  have "struct_field (enc_resource_contents r) 1 ''mimeType'' = map_option JStr (rc_mime_type r)"
      "struct_field (enc_resource_contents r) 2 ''text'' = map_option JStr (rc_text r)"
      "struct_field (enc_resource_contents r) 3 ''blob'' = map_option JStr (rc_blob r)"
      "struct_field (enc_resource_contents r) 0 ''uri'' = Some (JStr (rc_uri r))"
    by (cases "rc_mime_type r"; cases "rc_text r"; cases "rc_blob r";
        simp add: enc_resource_contents_def skip_none_def codec_simps)+
  then show ?thesis
    by (simp add: dec_resource_contents_def) (simp add: enc_resource_contents_def)
qed

lemma dec_enc_content [simp]: "dec_content (enc_content c) = Some c"
  by (cases c) (simp_all add: dec_content_def tagged_obj codec_simps)

interpretation content_codec: codec enc_content dec_content id
proof
  show "enc_content x \<noteq> JNull" for x by (cases x) simp_all
qed simp

lemma dec_enc_call_tool_result [simp]: "dec_call_tool_result (enc_call_tool_result r) = Some r"
  by (cases r) (simp add: enc_call_tool_result_def dec_call_tool_result_def codec_simps
      content_codec.dec_list_enc default_field_def)

interpretation contents_codec: codec enc_resource_contents dec_resource_contents id
  by unfold_locales (simp, simp add: enc_resource_contents_def)

lemma dec_enc_read_result [simp]: "dec_read_result (enc_read_result cs) = Some cs"
  by (simp add: dec_read_result_def enc_read_result_def codec_simps contents_codec.dec_list_enc)

lemma dec_enc_role [simp]: "dec_role (JStr (role_name r)) = Some r"
  by (cases r) (simp_all add: dec_role_def enum_tag_def)

lemma dec_enc_prompt_message [simp]: "dec_prompt_message (enc_prompt_message m) = Some m"
  by (cases m) (simp add: enc_prompt_message_def dec_prompt_message_def codec_simps)

interpretation prompt_message_codec: codec enc_prompt_message dec_prompt_message id
  by unfold_locales (simp_all, simp add: enc_prompt_message_def)

lemma dec_enc_get_prompt_result [simp]: "dec_get_prompt_result (enc_get_prompt_result r) = Some r"
  by (cases r; cases "gr_description r")
    (simp_all add: enc_get_prompt_result_def dec_get_prompt_result_def skip_none_def codec_simps
      prompt_message_codec.dec_list_enc opt_field_def)

lemma dec_enc_resource [simp]: "dec_resource (enc_resource r) = Some r"
proof -
  have "struct_field (enc_resource r) 2 ''description'' = map_option JStr (re_description r)"
      "struct_field (enc_resource r) 3 ''mimeType'' = map_option JStr (re_mime_type r)"
      "struct_field (enc_resource r) 0 ''uri'' = Some (JStr (re_uri r))"
      "struct_field (enc_resource r) 1 ''name'' = Some (JStr (re_name r))"
    by (cases "re_description r"; cases "re_mime_type r";
        simp add: enc_resource_def skip_none_def codec_simps)+
  then show ?thesis
    by (simp add: dec_resource_def) (simp add: enc_resource_def)
qed

interpretation resource_codec: codec enc_resource dec_resource id
  by unfold_locales (simp_all, simp add: enc_resource_def)

lemma dec_enc_prompt_argument [simp]: "dec_prompt_argument (enc_prompt_argument a) = Some a"
  by (cases a; cases "pa_description a")
    (simp_all add: enc_prompt_argument_def dec_prompt_argument_def skip_none_def codec_simps
      default_field_def opt_field_def)

interpretation prompt_argument_codec: codec enc_prompt_argument dec_prompt_argument id
  by unfold_locales (simp_all, simp add: enc_prompt_argument_def)

lemma dec_enc_prompt [simp]: "dec_prompt (enc_prompt p) = Some p"
  by (cases p; cases "pr_description p")
    (simp_all add: enc_prompt_def dec_prompt_def skip_none_def codec_simps default_field_def
      opt_field_def prompt_argument_codec.dec_list_enc)

interpretation prompt_codec: codec enc_prompt dec_prompt id
  by unfold_locales (simp_all, simp add: enc_prompt_def)

lemma dec_enc_list_result:
  "dec_list dec (JArr xs) = Some ys \<Longrightarrow> k \<noteq> ''nextCursor'' \<Longrightarrow>
     dec_list_result k dec (enc_list_result k xs) = Some (ys, None)"
  by (simp add: dec_list_result_def enc_list_result_def codec_simps)

lemma dec_u32_JNat: "n < 2 ^ 32 \<Longrightarrow> dec_u32 (JNat n) = Some n"
  by (simp add: dec_u32_def)

lemma dec_enc_complete_result:
  assumes "pred_option (\<lambda>n. n < 2 ^ 32) (cm_total d)"
  shows "dec_complete_result (enc_complete_result d) = Some d"
proof -
  have "opt_field dec_u32 (map_option JNat (cm_total d)) = Some (cm_total d)"
    using assms by (cases "cm_total d") (simp_all add: opt_field_def dec_u32_JNat)
  moreover have "opt_field as_bool (map_option JBool (cm_has_more d)) = Some (cm_has_more d)"
    by (cases "cm_has_more d") (simp_all add: opt_field_def)
  ultimately show ?thesis
    by (cases d; cases "cm_total d"; cases "cm_has_more d")
      (simp_all add: dec_complete_result_def enc_complete_result_def skip_none_def codec_simps dec_list_def)
qed


end
