(* ===== verification/Mcp_Server.thy ===== *)
theory Mcp_Server
  imports Protocol "HOL-Library.AList"
begin

text \<open>
  The MCP server (\<open>registry.rs\<close> and \<open>server.rs\<close> in \<open>crates/mcp-server/src\<close>): the builder with its
  exposure policy, the dispatch of a message and the serial loop. A handler is a function on the
  state of the outside world. A registry is an association list with distinct keys, in the order the
  code's \<open>HashMap\<close> iterates. The text of a \<open>serde\<close> error is the parameter \<open>serde_text\<close>, the process
  environment the parameter \<open>env\<close>.
\<close>

subsection \<open>Registries\<close>

datatype tool_exposure = Exp_Read_Only | Exp_Writes

datatype exposure_policy = Read_Only_Only | Expose_All

type_synonym 's tool_handler = "json \<Rightarrow> 's \<Rightarrow> call_tool_result mcp_result \<times> 's"
type_synonym 's resource_handler = "string \<Rightarrow> 's \<Rightarrow> resource_contents list mcp_result \<times> 's"
type_synonym 's prompt_handler = "json option \<Rightarrow> 's \<Rightarrow> get_prompt_result mcp_result \<times> 's"
type_synonym completer = "string \<Rightarrow> string \<Rightarrow> string list"

record 's tool_descriptor =
  td_tool :: mcp_tool
  td_handler :: "'s tool_handler"
  td_exposure :: tool_exposure

definition tool_descriptor_new ::
  "string \<Rightarrow> string option \<Rightarrow> tool_input_schema \<Rightarrow> 's tool_handler \<Rightarrow> 's tool_descriptor" where
  "tool_descriptor_new name desc schema handler =
     \<lparr>td_tool = \<lparr>tl_name = name, tl_description = desc, tl_input_schema = schema\<rparr>,
      td_handler = handler, td_exposure = Exp_Read_Only\<rparr>"

definition with_writes :: "'s tool_descriptor \<Rightarrow> 's tool_descriptor" where
  "with_writes d = d\<lparr>td_exposure := Exp_Writes\<rparr>"

definition is_allowed_by :: "exposure_policy \<Rightarrow> 's tool_descriptor \<Rightarrow> bool" where
  "is_allowed_by policy d =
     (case (policy, td_exposure d) of
        (Read_Only_Only, Exp_Read_Only) \<Rightarrow> True
      | (Read_Only_Only, Exp_Writes) \<Rightarrow> False
      | (Expose_All, _) \<Rightarrow> True)"

record 's resource_descriptor =
  rd_resource :: mcp_resource
  rd_handler :: "'s resource_handler"

record 's prompt_descriptor =
  pd_prompt :: mcp_prompt
  pd_handler :: "'s prompt_handler"

subsection \<open>The builder\<close>

record 's server_builder =
  sb_info :: implementation
  sb_instructions :: "string option"
  sb_tools :: "(string \<times> 's tool_descriptor) list"
  sb_resources :: "(string \<times> 's resource_descriptor) list"
  sb_prompts :: "(string \<times> 's prompt_descriptor) list"
  sb_exposure :: exposure_policy
  sb_completers :: "((string \<times> string) \<times> completer) list"
  sb_log_level :: log_level

definition builder_new :: "string \<Rightarrow> string \<Rightarrow> 's server_builder" where
  "builder_new name version =
     \<lparr>sb_info = \<lparr>ip_name = name, ip_version = version\<rparr>, sb_instructions = None, sb_tools = [],
      sb_resources = [], sb_prompts = [], sb_exposure = Read_Only_Only, sb_completers = [],
      sb_log_level = Lv_Info\<rparr>"

definition add_completer ::
  "string \<Rightarrow> string \<Rightarrow> completer \<Rightarrow> 's server_builder \<Rightarrow> 's server_builder" where
  "add_completer prompt argument f b =
     b\<lparr>sb_completers := AList.update (prompt, argument) f (sb_completers b)\<rparr>"

definition set_initial_level :: "log_level \<Rightarrow> 's server_builder \<Rightarrow> 's server_builder" where
  "set_initial_level l b = b\<lparr>sb_log_level := l\<rparr>"

definition set_exposure :: "exposure_policy \<Rightarrow> 's server_builder \<Rightarrow> 's server_builder" where
  "set_exposure policy b = b\<lparr>sb_exposure := policy\<rparr>"

definition set_instructions :: "string \<Rightarrow> 's server_builder \<Rightarrow> 's server_builder" where
  "set_instructions tx b = b\<lparr>sb_instructions := Some tx\<rparr>"

definition add_tool :: "'s tool_descriptor \<Rightarrow> 's server_builder \<Rightarrow> 's server_builder" where
  "add_tool d b = b\<lparr>sb_tools := AList.update (tl_name (td_tool d)) d (sb_tools b)\<rparr>"

definition add_resource :: "'s resource_descriptor \<Rightarrow> 's server_builder \<Rightarrow> 's server_builder" where
  "add_resource d b = b\<lparr>sb_resources := AList.update (re_uri (rd_resource d)) d (sb_resources b)\<rparr>"

definition add_prompt :: "'s prompt_descriptor \<Rightarrow> 's server_builder \<Rightarrow> 's server_builder" where
  "add_prompt d b = b\<lparr>sb_prompts := AList.update (pr_name (pd_prompt d)) d (sb_prompts b)\<rparr>"

record 's server =
  sx_info :: implementation
  sx_instructions :: "string option"
  sx_tools :: "(string \<times> 's tool_descriptor) list"
  sx_resources :: "(string \<times> 's resource_descriptor) list"
  sx_prompts :: "(string \<times> 's prompt_descriptor) list"
  sx_exposure :: exposure_policy
  sx_completers :: "((string \<times> string) \<times> completer) list"
  sx_log_level :: nat

definition build :: "'s server_builder \<Rightarrow> 's server" where
  "build b =
     \<lparr>sx_info = sb_info b, sx_instructions = sb_instructions b,
      sx_tools = filter (\<lambda>(_, d). is_allowed_by (sb_exposure b) d) (sb_tools b),
      sx_resources = sb_resources b, sx_prompts = sb_prompts b, sx_exposure = sb_exposure b,
      sx_completers = sb_completers b, sx_log_level = level_rank (sb_log_level b)\<rparr>"

definition capabilities :: "(string \<Rightarrow> string option) \<Rightarrow> 's server \<Rightarrow> server_capabilities" where
  "capabilities env srv =
     \<lparr>sv_tools = (if sx_tools srv \<noteq> [] then Some False else None),
      sv_resources = (if sx_resources srv \<noteq> [] then Some (False, False) else None),
      sv_prompts = (if sx_prompts srv \<noteq> [] then Some False else None),
      sv_logging = (if env ''ORACLE_AUTOMATE_DISABLE_LOGGING_CAP'' \<noteq> None then None
                    else Some (JObj [])),
      sv_extra = (if sx_completers srv = [] then [] else [(''completions'', JObj [])])\<rparr>"

definition current_log_level :: "'s server \<Rightarrow> log_level" where
  "current_log_level srv =
     (let n = sx_log_level srv in
      if n = 0 then Lv_Debug else if n = 1 then Lv_Info else if n = 2 then Lv_Notice
      else if n = 3 then Lv_Warning else if n = 4 then Lv_Error else if n = 5 then Lv_Critical
      else if n = 6 then Lv_Alert else Lv_Emergency)"

subsection \<open>Handling a request\<close>

definition parse_params ::
  "(json \<Rightarrow> 'p option) \<Rightarrow> (json \<Rightarrow> string) \<Rightarrow> json option \<Rightarrow> 'p mcp_result" where
  "parse_params dec serde_text params =
     (let value = unwrap_or params (JObj []) in
      case dec value of
        Some p \<Rightarrow> Ok p
      | None \<Rightarrow> Err (protocol_error InvalidParams (''invalid params: '' @ serde_text value)))"

definition select_protocol_version :: "string \<Rightarrow> string" where
  "select_protocol_version client =
     (if client = PROTOCOL_VERSION then client else PROTOCOL_VERSION)"

definition quoted :: "string \<Rightarrow> string" where
  "quoted s = [CHR 0x27] @ s @ [CHR 0x27]"

definition handle_initialize ::
  "(string \<Rightarrow> string option) \<Rightarrow> 's server \<Rightarrow> initialize_params \<Rightarrow> json" where
  "handle_initialize env srv p = enc_initialize_result
     \<lparr>ir_protocol_version = select_protocol_version (in_protocol_version p),
      ir_capabilities = capabilities env srv, ir_server_info = sx_info srv,
      ir_instructions = sx_instructions srv\<rparr>"

definition handle_tools_call :: "'s server \<Rightarrow> call_tool_params \<Rightarrow> 's \<Rightarrow> json mcp_result \<times> 's" where
  "handle_tools_call srv p s =
     (case map_of (sx_tools srv) (cp_name p) of
        None \<Rightarrow> (Err (protocol_error UnknownTool (''unknown tool '' @ quoted (cp_name p))), s)
      | Some d \<Rightarrow>
          (case td_handler d (unwrap_or (cp_arguments p) (JObj [])) s of
             (r, s') \<Rightarrow>
               (Ok (enc_call_tool_result
                  (case r of Ok res \<Rightarrow> res | Err e \<Rightarrow> tool_error (mcp_error_text e))), s')))"

definition handle_resources_read :: "'s server \<Rightarrow> string \<Rightarrow> 's \<Rightarrow> json mcp_result \<times> 's" where
  "handle_resources_read srv uri s =
     (case map_of (sx_resources srv) uri of
        None \<Rightarrow> (Err (protocol_error InvalidParams (''unknown resource '' @ quoted uri)), s)
      | Some d \<Rightarrow> (case rd_handler d uri s of (r, s') \<Rightarrow> (map_sum id enc_read_result r, s')))"

definition handle_prompts_get :: "'s server \<Rightarrow> get_prompt_params \<Rightarrow> 's \<Rightarrow> json mcp_result \<times> 's" where
  "handle_prompts_get srv p s =
     (case map_of (sx_prompts srv) (gp_name p) of
        None \<Rightarrow> (Err (protocol_error InvalidParams (''unknown prompt '' @ quoted (gp_name p))), s)
      | Some d \<Rightarrow>
          (case pd_handler d (gp_arguments p) s of (r, s') \<Rightarrow> (map_sum id enc_get_prompt_result r, s')))"

definition handle_complete :: "'s server \<Rightarrow> complete_params \<Rightarrow> completion_data" where
  "handle_complete srv p =
     (case cq_reference p of
        Ref_Resource uri \<Rightarrow> \<lparr>cm_values = [], cm_total = None, cm_has_more = None\<rparr>
      | Ref_Prompt name \<Rightarrow>
          (let typed = cq_argument_value p;
               values = (case map_of (sx_completers srv) (name, cq_argument_name p) of
                           Some f \<Rightarrow> f typed typed | None \<Rightarrow> []);
               total = length values mod 2 ^ 32;
               truncated = take 100 values
           in \<lparr>cm_values = truncated, cm_total = Some total,
              cm_has_more = Some (length truncated mod 2 ^ 32 < total)\<rparr>))"

text \<open>\<open>handle_method\<close>: the reply, the server (its log level may change) and the world.\<close>

definition handle_method ::
  "(string \<Rightarrow> string option) \<Rightarrow> (json \<Rightarrow> string) \<Rightarrow> 's server \<Rightarrow> rpc_request \<Rightarrow> 's
     \<Rightarrow> json mcp_result \<times> 's server \<times> 's" where
  "handle_method env serde_text srv req s =
     (let m = rq_method req; params = rq_params req;
          keep = (\<lambda>r. (r, srv, s));
          run = (\<lambda>(r, s'). (r, srv, s')) in
      if m = METHOD_INITIALIZE then
        keep (map_sum id (handle_initialize env srv)
                (parse_params dec_initialize_params serde_text params))
      else if m = METHOD_PING then keep (Ok (JObj []))
      else if m = METHOD_TOOLS_LIST then
        keep (Ok (enc_list_result ''tools'' (map (\<lambda>(_, d). enc_tool (td_tool d)) (sx_tools srv))))
      else if m = METHOD_TOOLS_CALL then
        (case parse_params dec_call_tool_params serde_text params of
           Err e \<Rightarrow> keep (Err e) | Ok p \<Rightarrow> run (handle_tools_call srv p s))
      else if m = METHOD_RESOURCES_LIST then
        keep (Ok (enc_list_result ''resources''
                    (map (\<lambda>(_, d). enc_resource (rd_resource d)) (sx_resources srv))))
      else if m = METHOD_RESOURCES_READ then
        (case parse_params dec_read_params serde_text params of
           Err e \<Rightarrow> keep (Err e) | Ok uri \<Rightarrow> run (handle_resources_read srv uri s))
      else if m = METHOD_PROMPTS_LIST then
        keep (Ok (enc_list_result ''prompts''
                    (map (\<lambda>(_, d). enc_prompt (pd_prompt d)) (sx_prompts srv))))
      else if m = METHOD_PROMPTS_GET then
        (case parse_params dec_get_prompt_params serde_text params of
           Err e \<Rightarrow> keep (Err e) | Ok p \<Rightarrow> run (handle_prompts_get srv p s))
      else if m = METHOD_LOGGING_SET_LEVEL then
        (case parse_params dec_set_level_params serde_text params of
           Err e \<Rightarrow> keep (Err e)
         | Ok l \<Rightarrow> (Ok (JObj []), srv\<lparr>sx_log_level := level_rank l\<rparr>, s))
      else if m = METHOD_COMPLETION_COMPLETE then
        keep (map_sum id (\<lambda>p. enc_complete_result (handle_complete srv p))
                (parse_params dec_complete_params serde_text params))
      else keep (Err (protocol_error MethodNotFound (''method '' @ quoted m @ '' not supported''))))"

fun error_object_of :: "mcp_error \<Rightarrow> error_object" where
  "error_object_of (McpProtocol code msg) = error_object_new code msg"
| "error_object_of (McpJson e) = error_object_new (code_as_i32 ParseError) e"
| "error_object_of (McpIo e) = error_object_new (code_as_i32 InternalError) e"
| "error_object_of e = error_object_new (code_as_i32 InternalError) (mcp_error_text e)"

definition dispatch ::
  "(string \<Rightarrow> string option) \<Rightarrow> (json \<Rightarrow> string) \<Rightarrow> 's server \<Rightarrow> rpc_request \<Rightarrow> 's
     \<Rightarrow> rpc_response \<times> 's server \<times> 's" where
  "dispatch env serde_text srv req s =
     (case handle_method env serde_text srv req s of
        (Ok result, w) \<Rightarrow> (response_success (rq_id req) result, w)
      | (Err e, w) \<Rightarrow> (response_failure (rq_id req) (error_object_of e), w))"

definition dispatch_message ::
  "(string \<Rightarrow> string option) \<Rightarrow> (json \<Rightarrow> string) \<Rightarrow> 's server \<Rightarrow> rpc_message \<Rightarrow> 's
     \<Rightarrow> rpc_message option \<times> 's server \<times> 's" where
  "dispatch_message env serde_text srv msg s =
     (case msg of
        Msg_Request req \<Rightarrow>
          (case dispatch env serde_text srv req s of (resp, w) \<Rightarrow> (Some (Msg_Response resp), w))
      | Msg_Notification n \<Rightarrow> (None, srv, s)
      | Msg_Response r \<Rightarrow> (None, srv, s))"

text \<open>\<open>run_single_actor\<close>: the messages received until the end, and the messages sent.\<close>

fun serve ::
  "(string \<Rightarrow> string option) \<Rightarrow> (json \<Rightarrow> string) \<Rightarrow> 's server \<Rightarrow> rpc_message list \<Rightarrow> 's
     \<Rightarrow> rpc_message list \<times> 's server \<times> 's" where
  "serve env serde_text srv [] s = ([], srv, s)"
| "serve env serde_text srv (m # ms) s =
     (case dispatch_message env serde_text srv m s of (out, srv1, s1) \<Rightarrow>
       (case serve env serde_text srv1 ms s1 of (outs, w) \<Rightarrow>
         ((case out of Some r \<Rightarrow> r # outs | None \<Rightarrow> outs), w)))"

subsection \<open>The surface of a server\<close>

lemma handle_tools_list:
  "rq_method req = METHOD_TOOLS_LIST \<Longrightarrow> handle_method env tx srv req s
     = (Ok (enc_list_result ''tools'' (map (\<lambda>(_, d). enc_tool (td_tool d)) (sx_tools srv))), srv, s)"
  by (simp add: handle_method_def Let_def methods_differ)

lemma handle_tools_call:
  "rq_method req = METHOD_TOOLS_CALL \<Longrightarrow> handle_method env tx srv req s
     = (case parse_params dec_call_tool_params tx (rq_params req) of
          Err e \<Rightarrow> (Err e, srv, s)
        | Ok p \<Rightarrow> (case handle_tools_call srv p s of (r, s') \<Rightarrow> (r, srv, s')))"
  by (simp add: handle_method_def Let_def methods_differ)

text \<open>The descriptor that counts for a name: the last one registered, if the policy admits it.\<close>

definition builder_of :: "exposure_policy \<Rightarrow> 's tool_descriptor list \<Rightarrow> 's server_builder \<Rightarrow> 's server_builder" where
  "builder_of policy descs b = set_exposure policy (foldl (\<lambda>b d. add_tool d b) (b\<lparr>sb_tools := []\<rparr>) descs)"

definition visible :: "exposure_policy \<Rightarrow> 's tool_descriptor list \<Rightarrow> string \<Rightarrow> 's tool_descriptor option" where
  "visible policy descs n =
     (case find (\<lambda>d. tl_name (td_tool d) = n) (rev descs) of
        Some d \<Rightarrow> if is_allowed_by policy d then Some d else None
      | None \<Rightarrow> None)"

lemma map_of_filter_value:
  "distinct (map fst kvs) \<Longrightarrow> map_of (filter (\<lambda>(_, d). P d) kvs) n
     = (case map_of kvs n of Some d \<Rightarrow> if P d then Some d else None | None \<Rightarrow> None)"
  by (induction kvs) (auto split: option.splits simp: map_of_eq_None_iff rev_image_eqI dest: map_of_SomeD)

lemma add_tools_distinct:
  "distinct (map fst (sb_tools b)) \<Longrightarrow> distinct (map fst (sb_tools (foldl (\<lambda>b d. add_tool d b) b descs)))"
  by (induction descs arbitrary: b) (simp_all add: add_tool_def distinct_update)

lemma add_tools_lookup:
  "map_of (sb_tools (foldl (\<lambda>b d. add_tool d b) b descs)) n
     = (case find (\<lambda>d. tl_name (td_tool d) = n) (rev descs) of
          Some d \<Rightarrow> Some d | None \<Rightarrow> map_of (sb_tools b) n)"
proof (induction descs arbitrary: b)
  case (Cons d descs)
  then show ?case
    by (auto simp: add_tool_def update_conv' find_append split: option.splits)
qed simp

lemma list_all_update: "list_all P kvs \<Longrightarrow> P (k, v) \<Longrightarrow> list_all P (AList.update k v kvs)"
  by (induction kvs) auto

lemma add_tools_keys:
  "list_all (\<lambda>(k, d). k = tl_name (td_tool d)) (sb_tools b) \<Longrightarrow>
     list_all (\<lambda>(k, d). k = tl_name (td_tool d)) (sb_tools (foldl (\<lambda>b d. add_tool d b) b descs))"
proof (induction descs arbitrary: b)
  case (Cons d descs)
  have "list_all (\<lambda>(k, d). k = tl_name (td_tool d)) (AList.update (tl_name (td_tool d)) d (sb_tools b))"
    using Cons.prems by (rule list_all_update) simp
  then show ?case using Cons.IH [of "add_tool d b"] by (simp add: add_tool_def)
qed simp

text \<open>C9. The surface of a server: the tools it lists are exactly the last registered descriptors that its
  policy admits, each name once, and calling a tool runs the handler of exactly these; any other
  name is answered with the unknown-tool error and runs nothing. A handler's own error comes back as
  a result marked as an error, not as a protocol error.\<close>

theorem tool_surface:
  "\<exists>tools. handle_method env tx (build (builder_of policy descs b))
        (request_new i METHOD_TOOLS_LIST None) s
      = (Ok (enc_list_result ''tools'' (map enc_tool tools)), build (builder_of policy descs b), s)
    \<and> distinct (map tl_name tools)
    \<and> set tools = {td_tool d | d n. visible policy descs n = Some d}
    \<and> handle_method env tx (build (builder_of policy descs b))
        (request_new j METHOD_TOOLS_CALL (Some (enc_call_tool_params \<lparr>cp_name = name, cp_arguments = a\<rparr>))) s
      = (case visible policy descs name of
           None \<Rightarrow> (Err (protocol_error UnknownTool (''unknown tool '' @ quoted name)),
                    build (builder_of policy descs b), s)
         | Some d \<Rightarrow>
             (case td_handler d (unwrap_or (null_as_none a) (JObj [])) s of
                (r, s') \<Rightarrow> (Ok (enc_call_tool_result
                   (case r of Ok res \<Rightarrow> res | Err e \<Rightarrow> tool_error (mcp_error_text e))),
                   build (builder_of policy descs b), s')))"
proof -
  define b0 where "b0 = b\<lparr>sb_tools := []\<rparr>"
  define all where "all = sb_tools (foldl (\<lambda>b d. add_tool d b) b0 descs)"
  let ?srv = "build (builder_of policy descs b)"
  let ?tools = "map (\<lambda>(_, d). td_tool d) (sx_tools ?srv)"
  have tools: "sx_tools ?srv = filter (\<lambda>(_, d). is_allowed_by policy d) all"
    by (simp add: build_def builder_of_def set_exposure_def all_def b0_def)
  have dist: "distinct (map fst all)" unfolding all_def by (rule add_tools_distinct) (simp add: b0_def)
  have keys: "list_all (\<lambda>(k, d). k = tl_name (td_tool d)) all"
    unfolding all_def by (rule add_tools_keys) (simp add: b0_def)
  have lookup: "map_of (sx_tools ?srv) n = visible policy descs n" for n
    unfolding tools using dist
    by (simp add: map_of_filter_value visible_def all_def add_tools_lookup b0_def split: option.split)
  have names: "map tl_name ?tools = map fst (sx_tools ?srv)"
    using keys by (auto simp: tools list_all_iff)
  have dsrv: "distinct (map fst (sx_tools ?srv))"
    unfolding tools using dist by (induction all) (auto simp: rev_image_eqI)
  have "set ?tools = {td_tool d | d n. (n, d) \<in> set (sx_tools ?srv)}" by force
  also have "\<dots> = {td_tool d | d n. visible policy descs n = Some d}"
    using lookup map_of_eq_Some_iff [OF dsrv] by auto
  finally have set: "set ?tools = {td_tool d | d n. visible policy descs n = Some d}" .
  have enc: "map (\<lambda>(_, d). enc_tool (td_tool d)) (sx_tools ?srv) = map enc_tool ?tools" by auto
  have lst: "handle_method env tx ?srv (request_new i METHOD_TOOLS_LIST None) s
      = (Ok (enc_list_result ''tools'' (map enc_tool ?tools)), ?srv, s)"
    by (subst handle_tools_list) (simp_all only: request_new_def rpc_request.simps enc)
  have call: "handle_method env tx ?srv
        (request_new j METHOD_TOOLS_CALL (Some (enc_call_tool_params \<lparr>cp_name = name, cp_arguments = a\<rparr>))) s
      = (case handle_tools_call ?srv \<lparr>cp_name = name, cp_arguments = null_as_none a\<rparr> s of
           (r, s') \<Rightarrow> (r, ?srv, s'))"
    by (subst handle_tools_call) (simp_all add: request_new_def parse_params_def)
  have dn: "distinct (map tl_name ?tools)" unfolding names by (rule dsrv)
  show ?thesis
    by (rule exI [of _ ?tools], intro conjI, rule lst, rule dn, rule set, subst call)
      (simp add: handle_tools_call_def lookup split: option.split prod.split)
qed

definition replace_writes :: "'s tool_handler \<Rightarrow> 's tool_descriptor \<Rightarrow> 's tool_descriptor" where
  "replace_writes h d = (if td_exposure d = Exp_Writes then d\<lparr>td_handler := h\<rparr> else d)"

text \<open>C5. Under the read-only policy no write tool can ever run: whatever the handlers of the write tools
  are, the messages the server sends, its state and the outside world are the same after any
  messages.\<close>

theorem write_handlers_never_run:
  "serve env tx (build (builder_of Read_Only_Only (map (replace_writes h) descs) b)) ms s
     = serve env tx (build (builder_of Read_Only_Only descs b)) ms s"
proof -
  let ?f = "replace_writes h"
  have name: "tl_name (td_tool (?f d)) = tl_name (td_tool d)" for d
    by (simp add: replace_writes_def)
  have upd: "map (\<lambda>(k, d). (k, ?f d)) (AList.update n d kvs) = AList.update n (?f d) (map (\<lambda>(k, d). (k, ?f d)) kvs)"
    for n d kvs by (induction kvs) auto
  have fold: "foldl (\<lambda>b d. add_tool d b) (c\<lparr>sb_tools := map (\<lambda>(k, d). (k, ?f d)) (sb_tools c)\<rparr>) (map ?f descs)
      = (foldl (\<lambda>b d. add_tool d b) c descs)
          \<lparr>sb_tools := map (\<lambda>(k, d). (k, ?f d)) (sb_tools (foldl (\<lambda>b d. add_tool d b) c descs))\<rparr>" for c
  proof (induction descs arbitrary: c)
    case (Cons d descs)
    show ?case using Cons [of "add_tool d c"] by (simp add: add_tool_def upd name)
  qed simp
  have "filter (\<lambda>(_, d). is_allowed_by Read_Only_Only d) (map (\<lambda>(k, d). (k, ?f d)) kvs)
      = filter (\<lambda>(_, d). is_allowed_by Read_Only_Only d) kvs" for kvs
    by (induction kvs) (auto simp: is_allowed_by_def replace_writes_def split: tool_exposure.splits)
  then have "build (builder_of Read_Only_Only (map ?f descs) b) = build (builder_of Read_Only_Only descs b)"
    using fold [of "b\<lparr>sb_tools := []\<rparr>"] by (simp add: build_def builder_of_def set_exposure_def)
  then show ?thesis by simp
qed

fun request_ids :: "rpc_message list \<Rightarrow> rpc_id list" where
  "request_ids [] = []"
| "request_ids (Msg_Request r # ms) = rq_id r # request_ids ms"
| "request_ids (_ # ms) = request_ids ms"

fun well_formed_response :: "rpc_message \<Rightarrow> bool" where
  "well_formed_response (Msg_Response r) \<longleftrightarrow>
     rs_jsonrpc r = JSONRPC_VERSION \<and> (rs_result r = None) = (rs_error r \<noteq> None)"
| "well_formed_response _ = False"

fun response_ids :: "rpc_message list \<Rightarrow> rpc_id list" where
  "response_ids [] = []"
| "response_ids (Msg_Response r # ms) = rs_id r # response_ids ms"
| "response_ids (_ # ms) = response_ids ms"

text \<open>The serial loop answers every request exactly once, in order, with its own id, with either a
  result or an error and never both; notifications and responses are not answered.\<close>

lemma serve_answers_each_request:
  "response_ids (fst (serve env tx srv ms s)) = request_ids ms
   \<and> list_all well_formed_response (fst (serve env tx srv ms s))"
  by (induction env tx srv ms s rule: serve.induct)
    (auto simp: dispatch_message_def dispatch_def response_success_def response_failure_def
      split: rpc_message.splits prod.splits sum.splits)

end
