(* ===== verification/Correlation.thy ===== *)
theory Correlation
  imports Protocol Systems
begin

text \<open>
  Matching responses to requests by id, as both sides do it: the MCP client for its calls
  (\<open>crates/mcp-client/src/lib.rs\<close>) and the server for its elicitations
  (\<open>crates/mcp-server/src/elicit.rs\<close>). A call takes a fresh id, registers a waiter under it, sends
  its request and waits; the reader removes the waiter of a response's id and wakes it. The tasks
  interleave at their awaits, so each of these is a step. The client is the one over split halves
  (\<open>spawn_stdio\<close>), whose reader and writer end on their own. A waiter is a one-shot channel: \<open>co_pending\<close>
  holds the ids whose sender is in the table, \<open>co_mail\<close> the responses sent and not yet received.
  Ids are integers; the counter's wrap-around after \<open>2 ^ 63\<close> calls is not modelled.
\<close>

datatype call_status = Allocated | Registered | Waiting | Answered rpc_response | Closed

record corr =
  co_next :: int
  co_calls :: "int \<Rightarrow> call_status option"
  co_pending :: "int set"
  co_mail :: "int \<Rightarrow> rpc_response option"
  co_outbox_open :: bool
  co_reader_alive :: bool
  co_wire :: "int list"

definition corr_new :: "int \<Rightarrow> corr" where
  "corr_new first =
     \<lparr>co_next = first, co_calls = (\<lambda>_. None), co_pending = {}, co_mail = (\<lambda>_. None),
      co_outbox_open = True, co_reader_alive = True, co_wire = []\<rparr>"

definition id_number :: "rpc_id \<Rightarrow> int option" where
  "id_number i = (case i of Id_Number n \<Rightarrow> Some (sint n) | _ \<Rightarrow> None)"

text \<open>\<open>next_id.fetch_add(1)\<close>; \<open>pending.insert(id, tx)\<close>.\<close>

definition corr_alloc :: "corr \<Rightarrow> int \<times> corr" where
  "corr_alloc c =
     (co_next c, c\<lparr>co_next := co_next c + 1, co_calls := (co_calls c)(co_next c \<mapsto> Allocated)\<rparr>)"

definition corr_register :: "int \<Rightarrow> corr \<Rightarrow> corr" where
  "corr_register i c =
     c\<lparr>co_pending := insert i (co_pending c), co_calls := (co_calls c)(i \<mapsto> Registered)\<rparr>"

text \<open>The two sides differ in what they clean up: when the outbox is closed the elicitation removes its
  waiter and the client's call does not; when its reader ends the client drops every waiter and the
  server drops none.\<close>

datatype side = Client_Side | Server_Side

definition corr_send :: "side \<Rightarrow> int \<Rightarrow> corr \<Rightarrow> corr" where
  "corr_send side i c =
     (if co_outbox_open c then
        c\<lparr>co_wire := co_wire c @ [i], co_calls := (co_calls c)(i \<mapsto> Waiting)\<rparr>
      else
        c\<lparr>co_pending := (if side = Server_Side then co_pending c - {i} else co_pending c),
          co_calls := (co_calls c)(i \<mapsto> Closed)\<rparr>)"

text \<open>A response: the waiter of its id, if any, is removed and gets it. The flag says whether it was
  claimed.\<close>

definition deliver_response :: "rpc_response \<Rightarrow> corr \<Rightarrow> bool \<times> corr" where
  "deliver_response r c =
     (case id_number (rs_id r) of
        None \<Rightarrow> (False, c)
      | Some n \<Rightarrow>
          if n \<in> co_pending c
          then (True, c\<lparr>co_pending := co_pending c - {n}, co_mail := (co_mail c)(n \<mapsto> r)\<rparr>)
          else (False, c))"

text \<open>A waiting call goes on when its response is there, or when its waiter was dropped.\<close>

definition corr_wake :: "int \<Rightarrow> corr \<Rightarrow> corr option" where
  "corr_wake i c =
     (case co_mail c i of
        Some r \<Rightarrow> Some (c\<lparr>co_mail := (co_mail c)(i := None), co_calls := (co_calls c)(i \<mapsto> Answered r)\<rparr>)
      | None \<Rightarrow>
          if i \<in> co_pending c then None
          else Some (c\<lparr>co_calls := (co_calls c)(i \<mapsto> Closed)\<rparr>))"

text \<open>The reader ends (end of input or a failure).\<close>

definition reader_exit :: "side \<Rightarrow> corr \<Rightarrow> corr" where
  "reader_exit side c =
     c\<lparr>co_reader_alive := False,
       co_pending := (case side of Client_Side \<Rightarrow> {} | Server_Side \<Rightarrow> co_pending c)\<rparr>"

datatype corr_event =
    Ev_Alloc
  | Ev_Register int
  | Ev_Send int
  | Ev_Deliver rpc_response
  | Ev_Wake int
  | Ev_Reader_Exit
  | Ev_Writer_Exit

inductive corr_step :: "side \<Rightarrow> corr \<Rightarrow> corr_event \<Rightarrow> corr \<Rightarrow> bool" for side :: side where
  alloc: "corr_step side c Ev_Alloc (snd (corr_alloc c))"
| register: "co_calls c i = Some Allocated \<Longrightarrow> corr_step side c (Ev_Register i) (corr_register i c)"
| send: "co_calls c i = Some Registered \<Longrightarrow> corr_step side c (Ev_Send i) (corr_send side i c)"
| deliver: "co_reader_alive c \<Longrightarrow> corr_step side c (Ev_Deliver r) (snd (deliver_response r c))"
| wake: "co_calls c i = Some Waiting \<Longrightarrow> corr_wake i c = Some c' \<Longrightarrow>
     corr_step side c (Ev_Wake i) c'"
| reader_end: "co_reader_alive c \<Longrightarrow> corr_step side c Ev_Reader_Exit (reader_exit side c)"
| writer_end: "corr_step side c Ev_Writer_Exit (c\<lparr>co_outbox_open := False\<rparr>)"

inductive_cases corr_stepE: "corr_step side c ev c'"

inductive_simps corr_step_simps:
  "corr_step side c Ev_Alloc c'" "corr_step side c (Ev_Register i) c'" "corr_step side c (Ev_Send i) c'"
  "corr_step side c (Ev_Deliver r) c'" "corr_step side c (Ev_Wake i) c'"
  "corr_step side c Ev_Reader_Exit c'"

subsection \<open>The invariant\<close>

text \<open>What holds of the id \<open>i\<close>, by the state of its call.\<close>

fun cell_ok :: "int \<Rightarrow> int \<Rightarrow> call_status option \<Rightarrow> bool \<Rightarrow> rpc_response option \<Rightarrow> bool" where
  "cell_ok i n None pend mail = (\<not> pend \<and> mail = None)"
| "cell_ok i n (Some Allocated) pend mail = (i < n \<and> \<not> pend \<and> mail = None)"
| "cell_ok i n (Some (Answered r)) pend mail =
     (i < n \<and> \<not> pend \<and> mail = None \<and> id_number (rs_id r) = Some i)"
| "cell_ok i n (Some _) pend mail = (i < n \<and> (\<forall>r. mail = Some r \<longrightarrow> \<not> pend \<and> id_number (rs_id r) = Some i))"

definition call_ok :: "corr \<Rightarrow> int \<Rightarrow> bool" where
  "call_ok c i = cell_ok i (co_next c) (co_calls c i) (i \<in> co_pending c) (co_mail c i)"

definition corr_inv :: "corr \<Rightarrow> bool" where
  "corr_inv c \<longleftrightarrow> (\<forall>i. call_ok c i)"

lemmas corr_defs =
  corr_new_def corr_alloc_def corr_register_def corr_send_def deliver_response_def corr_wake_def
  reader_exit_def

lemma corr_invD: "corr_inv c \<Longrightarrow> call_ok c i"
  by (simp add: corr_inv_def)

lemma corr_inv_new: "corr_inv (corr_new first)"
  by (simp add: corr_inv_def call_ok_def corr_defs)

lemma cell_ok_bound: "cell_ok i n (Some s) pend mail \<Longrightarrow> i < n"
  by (cases s) auto

lemma call_ok_fresh: "corr_inv c \<Longrightarrow> co_calls c (co_next c) = None"
  using corr_invD [of c "co_next c"] cell_ok_bound [of "co_next c" "co_next c"]
  unfolding call_ok_def by (cases "co_calls c (co_next c)") auto

lemma cell_ok_mono: "cell_ok i n s pend mail \<Longrightarrow> n \<le> m \<Longrightarrow> cell_ok i m s pend mail"
  by (induction i n s pend mail rule: cell_ok.induct) auto

lemma cell_ok_unwait: "cell_ok i n s pend mail \<Longrightarrow> cell_ok i n s False mail"
  by (induction i n s pend mail rule: cell_ok.induct) auto

lemma cell_ok_mail:
  "cell_ok i n s True mail \<Longrightarrow> id_number (rs_id r) = Some i \<Longrightarrow> cell_ok i n s False (Some r)"
  by (induction i n s True mail rule: cell_ok.induct) auto

lemma cell_ok_mailD: "cell_ok i n s pend (Some r) \<Longrightarrow> id_number (rs_id r) = Some i \<and> \<not> pend"
  by (induction i n s pend "Some r" rule: cell_ok.induct) auto

lemma call_ok_alloc: "corr_inv c \<Longrightarrow> call_ok (snd (corr_alloc c)) i"
  using corr_invD [of c i] call_ok_fresh [of c]
  by (cases "i = co_next c") (auto simp: call_ok_def corr_alloc_def intro: cell_ok_mono)

lemma call_ok_register:
  "corr_inv c \<Longrightarrow> co_calls c j = Some Allocated \<Longrightarrow> call_ok (corr_register j c) i"
  using corr_invD [of c i] by (cases "i = j") (auto simp: call_ok_def corr_register_def)

lemma call_ok_send:
  "corr_inv c \<Longrightarrow> co_calls c j = Some Registered \<Longrightarrow> call_ok (corr_send side j c) i"
  using corr_invD [of c i] by (cases "i = j") (auto simp: call_ok_def corr_send_def)

lemma call_ok_deliver: "corr_inv c \<Longrightarrow> call_ok (snd (deliver_response r c)) i"
  using corr_invD [of c i]
  by (cases "id_number (rs_id r) = Some i")
    (auto simp: call_ok_def deliver_response_def intro: cell_ok_mail split: option.splits)

lemma call_ok_wake:
  "corr_inv c \<Longrightarrow> co_calls c j = Some Waiting \<Longrightarrow> corr_wake j c = Some c' \<Longrightarrow> call_ok c' i"
  using corr_invD [of c i] 
  by (cases "i = j"; cases "co_mail c j")
    (auto simp: call_ok_def corr_wake_def split: if_splits dest: cell_ok_mailD)

lemma call_ok_reader_exit: "corr_inv c \<Longrightarrow> call_ok (reader_exit side c) i"
  using corr_invD [of c i]
  by (cases side) (auto simp: call_ok_def reader_exit_def intro: cell_ok_unwait)

lemma call_ok_writer_exit: "corr_inv c \<Longrightarrow> call_ok (c\<lparr>co_outbox_open := False\<rparr>) i"
  using corr_invD [of c i] by (simp add: call_ok_def)

lemmas call_ok_steps =
  call_ok_alloc call_ok_register call_ok_send call_ok_deliver call_ok_wake call_ok_reader_exit
  call_ok_writer_exit

lemma corr_inv_step: "corr_inv c \<Longrightarrow> corr_step side c ev c' \<Longrightarrow> corr_inv c'"
  unfolding corr_inv_def [of c'] by (erule corr_stepE) (blast intro: call_ok_steps)+

interpretation corr_system: invariant_system "\<lambda>c. c = corr_new first" "corr_step side" corr_inv
  for first side
  by unfold_locales (simp_all add: corr_inv_new corr_inv_step)


subsection \<open>Answers\<close>

text \<open>What a response can be found in: the mail or the result of a call, if it was delivered.\<close>

definition from_deliveries :: "rpc_response set \<Rightarrow> corr \<Rightarrow> bool" where
  "from_deliveries R c \<longleftrightarrow>
     (\<forall>i r. co_mail c i = Some r \<or> co_calls c i = Some (Answered r) \<longrightarrow> r \<in> R)"

fun deliveries :: "corr_event list \<Rightarrow> rpc_response set" where
  "deliveries [] = {}"
| "deliveries (Ev_Deliver r # es) = insert r (deliveries es)"
| "deliveries (_ # es) = deliveries es"

lemma from_deliveries_step:
  "from_deliveries R c \<Longrightarrow> corr_step side c ev c' \<Longrightarrow> from_deliveries (R \<union> deliveries [ev]) c'"
  by (erule corr_stepE)
    (auto simp: from_deliveries_def corr_defs split: option.splits if_splits)

lemma deliveries_cons: "deliveries (ev # es) = deliveries [ev] \<union> deliveries es"
  by (cases ev) auto

lemma from_deliveries_run:
  "run (corr_step side) c es c' \<Longrightarrow> from_deliveries R c \<Longrightarrow> from_deliveries (R \<union> deliveries es) c'"
proof (induction es arbitrary: c R)
  case (Cons ev es)
  then show ?case
    by (auto simp: run_cons_iff deliveries_cons [of ev es] Un_assoc [symmetric]
        intro: from_deliveries_step)
qed simp

text \<open>The ids of the requests written so far: each once, each of an allocated call.\<close>

definition wire_ok :: "int \<Rightarrow> corr \<Rightarrow> bool" where
  "wire_ok first c \<longleftrightarrow> distinct (co_wire c) \<and> first \<le> co_next c
     \<and> (\<forall>i. co_calls c i \<noteq> None \<longrightarrow> first \<le> i)
     \<and> (\<forall>i \<in> set (co_wire c). co_calls c i \<notin> {None, Some Allocated, Some Registered})
     \<and> (\<forall>i r. co_calls c i \<in> {Some Waiting, Some (Answered r)} \<longrightarrow> i \<in> set (co_wire c))"

lemma wire_ok_alloc: "corr_inv c \<Longrightarrow> wire_ok first c \<Longrightarrow> wire_ok first (snd (corr_alloc c))"
  using call_ok_fresh [of c] by (auto simp: wire_ok_def corr_alloc_def)

lemma wire_ok_step:
  "corr_inv c \<Longrightarrow> wire_ok first c \<Longrightarrow> corr_step side c ev c' \<Longrightarrow> wire_ok first c'"
  by (erule corr_stepE, simp add: wire_ok_alloc)
    (auto simp: wire_ok_def corr_defs split: option.splits if_splits)

lemma run_facts:
  "run (corr_step side) c es c' \<Longrightarrow> corr_inv c \<Longrightarrow> wire_ok first c \<Longrightarrow> corr_inv c' \<and> wire_ok first c'"
  by (induction es arbitrary: c) (auto simp: run_cons_iff intro: corr_inv_step wire_ok_step)

lemma new_facts: "corr_inv (corr_new first)" "wire_ok first (corr_new first)"
    "from_deliveries {} (corr_new first)"
  by (simp_all add: corr_inv_new, simp_all add: corr_new_def wire_ok_def from_deliveries_def)

lemma deliveries_mem: "r \<in> deliveries es \<Longrightarrow> Ev_Deliver r \<in> set es"
  by (induction es rule: deliveries.induct) auto

text \<open>C7. An answer is the answer to the question: however the calls interleave, the response a call ends
  with was received, carries the id of this call, and the call's request was sent; no id is ever
  sent twice.\<close>

theorem answers_match:
  assumes "run (corr_step side) (corr_new first) es c" and "co_calls c i = Some (Answered r)"
  shows "id_number (rs_id r) = Some i \<and> Ev_Deliver r \<in> set es \<and> i \<in> set (co_wire c)
    \<and> first \<le> i \<and> i < co_next c \<and> distinct (co_wire c)"
proof -
  have inv: "corr_inv c" "wire_ok first c"
    using run_facts [OF assms(1)] new_facts by blast+
  have "from_deliveries (deliveries es) c"
    using from_deliveries_run [OF assms(1) new_facts(3)] by simp
  then have "r \<in> deliveries es" using assms(2) unfolding from_deliveries_def by blast
  moreover have "id_number (rs_id r) = Some i \<and> i < co_next c"
    using corr_invD [OF inv(1), of i] assms(2) by (simp add: call_ok_def)
  ultimately show ?thesis using inv(2) assms(2) by (auto simp: wire_ok_def deliveries_mem)
qed

definition sample_response :: rpc_response where
  "sample_response = response_success (Id_Number 1) (JObj [])"

lemma answers_match_witness:
  "\<exists>c. run (corr_step Client_Side) (corr_new 1)
         [Ev_Alloc, Ev_Register 1, Ev_Send 1, Ev_Deliver sample_response, Ev_Wake 1] c
       \<and> co_calls c 1 = Some (Answered sample_response) \<and> 1 \<in> set (co_wire c)"
proof -
  have "\<exists>c. run (corr_step Client_Side) (corr_new 1)
         [Ev_Alloc, Ev_Register 1, Ev_Send 1, Ev_Deliver sample_response, Ev_Wake 1] c
       \<and> co_calls c 1 = Some (Answered sample_response)"
    by (simp add: run_cons_iff corr_step_simps corr_defs sample_response_def response_success_def
        id_number_def)
  then show ?thesis using answers_match by blast
qed

subsection \<open>Waiting calls\<close>

text \<open>A waiting call whose waiter is gone can go on, and this stays so until it does.\<close>

lemma released_step:
  assumes "corr_inv c" "co_calls c i = Some Waiting" "i \<notin> co_pending c" "corr_step side c ev c'"
    and "ev \<noteq> Ev_Wake i"
  shows "co_calls c' i = Some Waiting \<and> i \<notin> co_pending c'"
  using assms(4,5,2,3) call_ok_fresh [OF assms(1)]
  by (auto elim!: corr_stepE simp: corr_defs split: option.splits if_splits side.splits)

lemma released_run:
  "run (corr_step side) c es c' \<Longrightarrow> corr_inv c \<Longrightarrow> co_calls c i = Some Waiting \<Longrightarrow> i \<notin> co_pending c \<Longrightarrow>
     Ev_Wake i \<notin> set es \<Longrightarrow> co_calls c' i = Some Waiting \<and> i \<notin> co_pending c'"
proof (induction es arbitrary: c)
  case (Cons ev es)
  then show ?case
    using released_step corr_inv_step by (fastforce simp: run_cons_iff)
qed simp

text \<open>C32. The client leaves no waiting call behind: when its reader ends, every call that waits for a
  response can go on, whatever the other tasks do in between, and it ends with its response or with
  a closed transport.\<close>

theorem no_waiter_left_behind:
  assumes "run (corr_step Client_Side) (corr_new first) es c" and "co_calls c i = Some Waiting"
    and "run (corr_step Client_Side) (reader_exit Client_Side c) later c'" and "Ev_Wake i \<notin> set later"
  shows "\<exists>c''. corr_step Client_Side c' (Ev_Wake i) c''
    \<and> (co_calls c'' i = Some Closed \<or> (\<exists>r. co_calls c'' i = Some (Answered r)))"
proof -
  have "corr_inv (reader_exit Client_Side c)"
    using run_facts [OF assms(1)] new_facts call_ok_reader_exit unfolding corr_inv_def by blast
  then have *: "co_calls c' i = Some Waiting" "i \<notin> co_pending c'"
    using released_run [OF assms(3), of i] assms(2,4) by (simp_all add: reader_exit_def)
  then obtain c'' where "corr_wake i c' = Some c''" "co_calls c'' i = Some Closed
      \<or> (\<exists>r. co_calls c'' i = Some (Answered r))"
    using that by (cases "co_mail c' i") (auto simp: corr_wake_def)
  then show ?thesis using * corr_step.wake by blast
qed

text \<open>A call that waits with its waiter in the table, after the reader has ended, waits for ever.\<close>

definition stranded :: "int \<Rightarrow> corr \<Rightarrow> bool" where
  "stranded i c \<longleftrightarrow> \<not> co_reader_alive c \<and> co_calls c i = Some Waiting \<and> i \<in> co_pending c
     \<and> co_mail c i = None \<and> i < co_next c"

lemma stranded_step: "stranded i c \<Longrightarrow> corr_step side c ev c' \<Longrightarrow> stranded i c'"
  by (erule corr_stepE) (auto simp: stranded_def corr_defs split: option.splits if_splits)

lemma stranded_run: "run (corr_step side) c es c' \<Longrightarrow> stranded i c \<Longrightarrow> stranded i c'"
  by (induction es arbitrary: c) (auto simp: run_cons_iff intro: stranded_step)

definition after_reader :: "side \<Rightarrow> corr \<Rightarrow> corr set" where
  "after_reader side c = {c'. \<exists>es. run (corr_step side) c es c'}"

lemma stranded_after: "stranded i c \<Longrightarrow> after_reader side c \<subseteq> {c'. co_calls c' i = Some Waiting}"
  unfolding after_reader_def using stranded_run by (fastforce simp: stranded_def)

lemma no_waiter_left_behind_witness:
  "\<exists>c c''. run (corr_step Client_Side) (corr_new 1) [Ev_Alloc, Ev_Register 1, Ev_Send 1] c
     \<and> corr_step Client_Side (reader_exit Client_Side c) (Ev_Wake 1) c''"
proof -
  obtain c where c: "run (corr_step Client_Side) (corr_new 1) [Ev_Alloc, Ev_Register 1, Ev_Send 1] c"
      "co_calls c 1 = Some Waiting"
  proof
    show "run (corr_step Client_Side) (corr_new 1) [Ev_Alloc, Ev_Register 1, Ev_Send 1]
        (corr_send Client_Side 1 (corr_register 1 (snd (corr_alloc (corr_new 1)))))"
      by (simp add: run_cons_iff corr_step_simps corr_defs)
  qed (simp add: corr_defs)
  then show ?thesis using no_waiter_left_behind [OF c run.run_nil] by auto
qed

text \<open>Two calls that never return: a client call that registers itself after the client's reader has
  ended, while the writer still takes messages; and an elicitation that waits when the server's
  input ends, since the server drops no waiter.\<close>

lemma calls_stranded_by_shutdown:
  "(\<exists>c. run (corr_step Client_Side) (corr_new 1) [Ev_Alloc, Ev_Reader_Exit, Ev_Register 1, Ev_Send 1] c
      \<and> after_reader Client_Side c \<subseteq> {c'. co_calls c' 1 = Some Waiting})
   \<and> (\<exists>c. run (corr_step Server_Side) (corr_new 1000000)
        [Ev_Alloc, Ev_Register 1000000, Ev_Send 1000000, Ev_Reader_Exit] c
      \<and> after_reader Server_Side c \<subseteq> {c'. co_calls c' 1000000 = Some Waiting})"
proof (rule conjI)
  let ?c = "corr_send Client_Side 1 (corr_register 1 (reader_exit Client_Side (snd (corr_alloc (corr_new 1)))))"
  have "run (corr_step Client_Side) (corr_new 1) [Ev_Alloc, Ev_Reader_Exit, Ev_Register 1, Ev_Send 1] ?c"
    by (simp add: run_cons_iff corr_step_simps corr_defs)
  moreover have "stranded 1 ?c" by (simp add: stranded_def corr_defs)
  ultimately show "\<exists>c. run (corr_step Client_Side) (corr_new 1)
      [Ev_Alloc, Ev_Reader_Exit, Ev_Register 1, Ev_Send 1] c
      \<and> after_reader Client_Side c \<subseteq> {c'. co_calls c' 1 = Some Waiting}"
    using stranded_after by blast
next
  let ?n = "1000000 :: int"
  let ?c = "reader_exit Server_Side (corr_send Server_Side ?n (corr_register ?n (snd (corr_alloc (corr_new ?n)))))"
  have "run (corr_step Server_Side) (corr_new ?n) [Ev_Alloc, Ev_Register ?n, Ev_Send ?n, Ev_Reader_Exit] ?c"
    by (simp add: run_cons_iff corr_step_simps corr_defs)
  moreover have "stranded ?n ?c" by (simp add: stranded_def corr_defs)
  ultimately show "\<exists>c. run (corr_step Server_Side) (corr_new ?n)
      [Ev_Alloc, Ev_Register ?n, Ev_Send ?n, Ev_Reader_Exit] c
      \<and> after_reader Server_Side c \<subseteq> {c'. co_calls c' ?n = Some Waiting}"
    using stranded_after by blast
qed

end
