(* ===== verification/Mcp_Client.thy ===== *)
theory Mcp_Client
  imports Mcp_Server Correlation
begin

text \<open>
  The MCP client's calls (\<open>crates/mcp-client/src/lib.rs\<close>) and the server's elicitation
  (\<open>crates/mcp-server/src/elicit.rs\<close>), over a link: a function that carries a message to the other
  side and brings back the response the call is woken with, or \<open>None\<close> when the channel is closed. How
  responses find their calls is in \<open>Correlation\<close>; here is what the two sides make of them. The
  composition of both sides, with every message written and read, ends the theory.
\<close>

subsection \<open>Calls\<close>

record mcp_client =
  mc_next_id :: i64
  mc_server_info :: "initialize_result option"

definition client_new :: mcp_client where
  "client_new = \<lparr>mc_next_id = 1, mc_server_info = None\<rparr>"

type_synonym 'w link = "rpc_message \<Rightarrow> 'w \<Rightarrow> rpc_response option \<times> 'w"

text \<open>A notification is sent on the outbox; the flag says whether it was open.\<close>

type_synonym 'w outbox = "rpc_message \<Rightarrow> 'w \<Rightarrow> bool \<times> 'w"

definition call_result ::
  "(json \<Rightarrow> 'r option) \<Rightarrow> (json \<Rightarrow> string) \<Rightarrow> rpc_response \<Rightarrow> 'r mcp_result" where
  "call_result dec serde_text r =
     (case rs_error r of
        Some e \<Rightarrow> Err (McpProtocol (eo_code e) (eo_message e))
      | None \<Rightarrow>
          (case rs_result r of
             None \<Rightarrow> Err (protocol_error InvalidRequest ''response missing result'')
           | Some v \<Rightarrow>
               (case dec v of
                  Some a \<Rightarrow> Ok a
                | None \<Rightarrow> Err (McpJson (serde_text v)))))"

definition client_call ::
  "(json \<Rightarrow> 'r option) \<Rightarrow> (json \<Rightarrow> string) \<Rightarrow> 'w link \<Rightarrow> string \<Rightarrow> json option \<Rightarrow> mcp_client \<Rightarrow> 'w
     \<Rightarrow> 'r mcp_result \<times> mcp_client \<times> 'w" where
  "client_call dec serde_text link meth params cl w =
     (let i = mc_next_id cl; cl' = cl\<lparr>mc_next_id := i + 1\<rparr> in
      case link (Msg_Request (request_new (Id_Number i) meth params)) w of
        (None, w') \<Rightarrow> (Err McpTransportClosed, cl', w')
      | (Some r, w') \<Rightarrow> (call_result dec serde_text r, cl', w'))"

definition client_notify :: "'w outbox \<Rightarrow> string \<Rightarrow> json option \<Rightarrow> 'w \<Rightarrow> unit mcp_result \<times> 'w" where
  "client_notify out meth params w =
     (case out (Msg_Notification (notification_new meth params)) w of
        (True, w') \<Rightarrow> (Ok (), w')
      | (False, w') \<Rightarrow> (Err McpTransportClosed, w'))"

text \<open>The handshake: the server's answer is kept only once the notification is out.\<close>

definition client_initialize ::
  "(json \<Rightarrow> string) \<Rightarrow> 'w link \<Rightarrow> 'w outbox \<Rightarrow> implementation \<Rightarrow> client_capabilities \<Rightarrow> mcp_client \<Rightarrow> 'w
     \<Rightarrow> initialize_result mcp_result \<times> mcp_client \<times> 'w" where
  "client_initialize serde_text link out info caps cl w =
     (case client_call dec_initialize_result serde_text link METHOD_INITIALIZE
             (Some (enc_initialize_params
                \<lparr>in_protocol_version = PROTOCOL_VERSION, in_capabilities = caps, in_client_info = info\<rparr>))
             cl w of
        (Err e, cl1, w1) \<Rightarrow> (Err e, cl1, w1)
      | (Ok result, cl1, w1) \<Rightarrow>
          (case client_notify out METHOD_INITIALIZED None w1 of
             (Err e, w2) \<Rightarrow> (Err e, cl1, w2)
           | (Ok _, w2) \<Rightarrow> (Ok result, cl1\<lparr>mc_server_info := Some result\<rparr>, w2)))"

definition list_tools ::
  "(json \<Rightarrow> string) \<Rightarrow> 'w link \<Rightarrow> mcp_client \<Rightarrow> 'w
     \<Rightarrow> (mcp_tool list \<times> string option) mcp_result \<times> mcp_client \<times> 'w" where
  "list_tools serde_text link =
     client_call (dec_list_result ''tools'' dec_tool) serde_text link METHOD_TOOLS_LIST None"

definition call_tool ::
  "(json \<Rightarrow> string) \<Rightarrow> 'w link \<Rightarrow> string \<Rightarrow> json option \<Rightarrow> mcp_client \<Rightarrow> 'w
     \<Rightarrow> call_tool_result mcp_result \<times> mcp_client \<times> 'w" where
  "call_tool serde_text link name arguments =
     client_call dec_call_tool_result serde_text link METHOD_TOOLS_CALL
       (Some (enc_call_tool_params \<lparr>cp_name = name, cp_arguments = arguments\<rparr>))"

definition list_resources ::
  "(json \<Rightarrow> string) \<Rightarrow> 'w link \<Rightarrow> mcp_client \<Rightarrow> 'w
     \<Rightarrow> (mcp_resource list \<times> string option) mcp_result \<times> mcp_client \<times> 'w" where
  "list_resources serde_text link =
     client_call (dec_list_result ''resources'' dec_resource) serde_text link METHOD_RESOURCES_LIST None"

definition read_resource ::
  "(json \<Rightarrow> string) \<Rightarrow> 'w link \<Rightarrow> string \<Rightarrow> mcp_client \<Rightarrow> 'w
     \<Rightarrow> resource_contents list mcp_result \<times> mcp_client \<times> 'w" where
  "read_resource serde_text link uri =
     client_call dec_read_result serde_text link METHOD_RESOURCES_READ (Some (enc_read_params uri))"

definition list_prompts ::
  "(json \<Rightarrow> string) \<Rightarrow> 'w link \<Rightarrow> mcp_client \<Rightarrow> 'w
     \<Rightarrow> (mcp_prompt list \<times> string option) mcp_result \<times> mcp_client \<times> 'w" where
  "list_prompts serde_text link =
     client_call (dec_list_result ''prompts'' dec_prompt) serde_text link METHOD_PROMPTS_LIST None"

definition get_prompt ::
  "(json \<Rightarrow> string) \<Rightarrow> 'w link \<Rightarrow> string \<Rightarrow> json option \<Rightarrow> mcp_client \<Rightarrow> 'w
     \<Rightarrow> get_prompt_result mcp_result \<times> mcp_client \<times> 'w" where
  "get_prompt serde_text link name arguments =
     client_call dec_get_prompt_result serde_text link METHOD_PROMPTS_GET
       (Some (enc_get_prompt_params \<lparr>gp_name = name, gp_arguments = arguments\<rparr>))"

text \<open>Two calls that drop whatever value they are answered with.\<close>

definition call_unit ::
  "(json \<Rightarrow> string) \<Rightarrow> 'w link \<Rightarrow> string \<Rightarrow> json option \<Rightarrow> mcp_client \<Rightarrow> 'w
     \<Rightarrow> unit mcp_result \<times> mcp_client \<times> 'w" where
  "call_unit serde_text link meth params cl w =
     (case client_call Some serde_text link meth params cl w of (r, st) \<Rightarrow> (map_sum id (\<lambda>_. ()) r, st))"

definition set_log_level ::
  "(json \<Rightarrow> string) \<Rightarrow> 'w link \<Rightarrow> log_level \<Rightarrow> mcp_client \<Rightarrow> 'w \<Rightarrow> unit mcp_result \<times> mcp_client \<times> 'w" where
  "set_log_level serde_text link level =
     call_unit serde_text link METHOD_LOGGING_SET_LEVEL (Some (enc_set_level_params level))"

definition client_ping ::
  "(json \<Rightarrow> string) \<Rightarrow> 'w link \<Rightarrow> mcp_client \<Rightarrow> 'w \<Rightarrow> unit mcp_result \<times> mcp_client \<times> 'w" where
  "client_ping serde_text link = call_unit serde_text link METHOD_PING None"

definition complete_prompt_argument ::
  "(json \<Rightarrow> string) \<Rightarrow> 'w link \<Rightarrow> string \<Rightarrow> string \<Rightarrow> string \<Rightarrow> mcp_client \<Rightarrow> 'w
     \<Rightarrow> completion_data mcp_result \<times> mcp_client \<times> 'w" where
  "complete_prompt_argument serde_text link prompt argument typed =
     client_call dec_complete_result serde_text link METHOD_COMPLETION_COMPLETE
       (Some (enc_complete_params
          \<lparr>cq_reference = Ref_Prompt prompt, cq_argument_name = argument, cq_argument_value = typed\<rparr>))"

subsection \<open>Requests of the server\<close>

type_synonym 's delegate = "elicitation_params \<Rightarrow> 's \<Rightarrow> elicitation_result \<times> 's"

definition decline_all :: "'s delegate" where
  "decline_all p s = (\<lparr>ei_action = Act_Decline, ei_content = None\<rparr>, s)"

definition handle_server_request :: "'s delegate \<Rightarrow> rpc_request \<Rightarrow> 's \<Rightarrow> rpc_response \<times> 's" where
  "handle_server_request delegate req s =
     (if rq_method req = METHOD_ELICITATION_CREATE then
        (case Option.bind (rq_params req) dec_elicitation_params of
           None \<Rightarrow>
             (response_failure (rq_id req)
                (error_object_new (code_as_i32 InvalidParams) ''invalid elicitation params''), s)
         | Some p \<Rightarrow>
             (case delegate p s of (result, s') \<Rightarrow>
               (response_success (rq_id req) (enc_elicitation_result result), s')))
      else
        (response_failure (rq_id req)
           (error_object_new (code_as_i32 MethodNotFound)
              (''method '' @ quoted (rq_method req) @ '' not supported by client'')), s))"

subsection \<open>Elicitation\<close>

record elicitation_handle =
  eh_next_id :: i64
  eh_enabled :: bool

definition elicitation_new :: "bool \<Rightarrow> elicitation_handle" where
  "elicitation_new enabled = \<lparr>eh_next_id = 1000000, eh_enabled = enabled\<rparr>"

definition elicitation_disabled :: elicitation_handle where
  "elicitation_disabled = elicitation_new False"

definition parse_response :: "rpc_response \<Rightarrow> elicitation_result" where
  "parse_response r =
     (let cancel = \<lparr>ei_action = Act_Cancel, ei_content = None\<rparr> in
      if rs_error r \<noteq> None then cancel
      else (case rs_result r of
              None \<Rightarrow> cancel
            | Some v \<Rightarrow> (case dec_elicitation_result v of Some res \<Rightarrow> res | None \<Rightarrow> cancel)))"

definition elicit ::
  "'w link \<Rightarrow> string \<Rightarrow> json \<Rightarrow> elicitation_handle \<Rightarrow> 'w
     \<Rightarrow> elicitation_result \<times> elicitation_handle \<times> 'w" where
  "elicit link message schema h w =
     (if \<not> eh_enabled h then (\<lparr>ei_action = Act_Decline, ei_content = None\<rparr>, h, w)
      else
        (let i = eh_next_id h; h' = h\<lparr>eh_next_id := i + 1\<rparr>;
             params = enc_elicitation_params \<lparr>el_message = message, el_schema = schema\<rparr> in
         case link (Msg_Request (request_new (Id_Number i) METHOD_ELICITATION_CREATE (Some params))) w of
           (None, w') \<Rightarrow> (\<lparr>ei_action = Act_Cancel, ei_content = None\<rparr>, h', w')
         | (Some r, w') \<Rightarrow> (parse_response r, h', w')))"

text \<open>The elicitation of a tool: outside a request there is no context, and it declines.\<close>

definition elicit_in ::
  "elicitation_handle option \<Rightarrow> 'w link \<Rightarrow> string \<Rightarrow> json \<Rightarrow> 'w
     \<Rightarrow> elicitation_result \<times> elicitation_handle option \<times> 'w" where
  "elicit_in context link message schema w =
     (case context of
        Some h \<Rightarrow> (case elicit link message schema h w of (r, h', w') \<Rightarrow> (r, Some h', w'))
      | None \<Rightarrow> (\<lparr>ei_action = Act_Decline, ei_content = None\<rparr>, None, w))"

definition object_schema :: "json_map \<Rightarrow> string list \<Rightarrow> json" where
  "object_schema properties required = json_obj
     [(''type'', JStr ''object''), (''properties'', JObj properties),
      (''required'', JArr (map JStr required))]"

subsection \<open>Both sides together\<close>

text \<open>The link from a client to a server: the request is written and read, dispatched, and the response
  written and read.\<close>

definition over_wire :: "rpc_response \<Rightarrow> rpc_response option" where
  "over_wire r =
     (case message_from_value (message_to_value (Msg_Response r)) of
        Some (Msg_Response r') \<Rightarrow> Some r' | _ \<Rightarrow> None)"

definition server_link ::
  "(string \<Rightarrow> string option) \<Rightarrow> (json \<Rightarrow> string) \<Rightarrow> ('s server \<times> 's) link" where
  "server_link env serde_text m = (\<lambda>(srv, s).
     (case message_from_value (message_to_value m) of
        None \<Rightarrow> (None, srv, s)
      | Some m' \<Rightarrow>
          (case dispatch_message env serde_text srv m' s of
             (Some (Msg_Response r), w') \<Rightarrow> (over_wire r, w')
           | (_, w') \<Rightarrow> (None, w'))))"

definition client_link :: "'s delegate \<Rightarrow> 's link" where
  "client_link delegate m s =
     (case message_from_value (message_to_value m) of
        Some (Msg_Request req) \<Rightarrow>
          (case handle_server_request delegate req s of (r, s') \<Rightarrow> (over_wire r, s'))
      | _ \<Rightarrow> (None, s))"

lemma over_wire_success: "over_wire (response_success i v) = Some
    \<lparr>rs_jsonrpc = JSONRPC_VERSION, rs_id = i, rs_result = null_as_none (Some v), rs_error = None\<rparr>"
  by (simp add: over_wire_def del: message_to_value.simps) (simp add: response_success_def)

lemma over_wire_failure: "eo_data e = None \<Longrightarrow> over_wire (response_failure i e) = Some
    \<lparr>rs_jsonrpc = JSONRPC_VERSION, rs_id = i, rs_result = None, rs_error = Some e\<rparr>"
  by (simp add: over_wire_def del: message_to_value.simps) (simp add: response_failure_def)

lemma error_object_of_data [simp]: "eo_data (error_object_of e) = None"
  by (cases e) (simp_all add: error_object_new_def)

text \<open>What a call gets, by what the method does.\<close>

definition as_seen_by_client ::
  "(json \<Rightarrow> 'r option) \<Rightarrow> (json \<Rightarrow> string) \<Rightarrow> json mcp_result \<Rightarrow> 'r mcp_result" where
  "as_seen_by_client dec serde_text r =
     (case r of
        Err e \<Rightarrow> Err (McpProtocol (eo_code (error_object_of e)) (eo_message (error_object_of e)))
      | Ok v \<Rightarrow>
          if v = JNull then Err (protocol_error InvalidRequest ''response missing result'')
          else (case dec v of Some a \<Rightarrow> Ok a | None \<Rightarrow> Err (McpJson (serde_text v))))"

lemma client_call_server:
  "client_call dec tc (server_link env tx) meth params cl (srv, s)
     = (case handle_method env tx srv
               (request_new (Id_Number (mc_next_id cl)) meth (null_as_none params)) s of
          (r, w') \<Rightarrow> (as_seen_by_client dec tc r, cl\<lparr>mc_next_id := mc_next_id cl + 1\<rparr>, w'))"
proof -
  let ?req = "request_new (Id_Number (mc_next_id cl)) meth (null_as_none params)"
  obtain r w' where hm: "handle_method env tx srv ?req s = (r, w')" by (rule prod.exhaust)
  have wire: "message_from_value (message_to_value
      (Msg_Request (request_new (Id_Number (mc_next_id cl)) meth params))) = Some (Msg_Request ?req)"
    by (simp add: request_new_def del: message_to_value.simps)
  have rid: "rq_id ?req = Id_Number (mc_next_id cl)" by (simp add: request_new_def)
  show ?thesis
    by (cases r)
      (simp_all add: client_call_def server_link_def wire dispatch_message_def dispatch_def hm rid
        over_wire_failure over_wire_success as_seen_by_client_def call_result_def null_as_none_Some
        Let_def del: message_to_value.simps)
qed

lemma handle_method_read:
  "handle_method env tx srv (request_new i METHOD_RESOURCES_READ (Some (enc_read_params uri))) s
     = (case handle_resources_read srv uri s of (r, s') \<Rightarrow> (r, srv, s'))"
  by (simp add: handle_method_def Let_def methods_differ parse_params_def)

lemma handle_method_prompt:
  "handle_method env tx srv (request_new i METHOD_PROMPTS_GET (Some (enc_get_prompt_params p))) s
     = (case handle_prompts_get srv (p\<lparr>gp_arguments := null_as_none (gp_arguments p)\<rparr>) s of
          (r, s') \<Rightarrow> (r, srv, s'))"
  by (simp add: handle_method_def Let_def methods_differ parse_params_def)

lemma handle_method_level:
  "handle_method env tx srv (request_new i METHOD_LOGGING_SET_LEVEL (Some (enc_set_level_params l))) s
     = (Ok (JObj []), srv\<lparr>sx_log_level := level_rank l\<rparr>, s)"
  by (simp add: handle_method_def Let_def methods_differ parse_params_def)

lemma handle_method_ping:
  "handle_method env tx srv (request_new i METHOD_PING None) s = (Ok (JObj []), srv, s)"
  by (simp add: handle_method_def Let_def methods_differ)

lemma handle_method_complete:
  "handle_method env tx srv (request_new i METHOD_COMPLETION_COMPLETE (Some (enc_complete_params p))) s
     = (Ok (enc_complete_result (handle_complete srv p)), srv, s)"
  by (simp add: handle_method_def Let_def methods_differ parse_params_def)

lemma handle_method_call:
  "handle_method env tx srv (request_new i METHOD_TOOLS_CALL (Some (enc_call_tool_params p))) s
     = (case handle_tools_call srv (p\<lparr>cp_arguments := null_as_none (cp_arguments p)\<rparr>) s of
          (r, s') \<Rightarrow> (r, srv, s'))"
  by (subst handle_tools_call) (simp_all add: parse_params_def)

lemmas handle_method_typed =
  handle_method_read handle_method_prompt handle_method_level handle_method_ping
  handle_method_complete handle_method_call

lemma enc_not_null [simp]:
  "enc_call_tool_params p \<noteq> JNull" "enc_read_params u \<noteq> JNull" "enc_get_prompt_params g \<noteq> JNull"
  "enc_set_level_params l \<noteq> JNull" "enc_complete_params q \<noteq> JNull" "enc_elicitation_params e \<noteq> JNull"
  "enc_call_tool_result r \<noteq> JNull" "enc_read_result cs \<noteq> JNull" "enc_get_prompt_result gr \<noteq> JNull"
  "enc_complete_result d \<noteq> JNull" "enc_elicitation_result er \<noteq> JNull"
  by (simp_all add: enc_call_tool_params_def enc_read_params_def enc_get_prompt_params_def
      enc_set_level_params_def enc_complete_params_def enc_elicitation_params_def
      enc_call_tool_result_def enc_read_result_def enc_get_prompt_result_def enc_complete_result_def
      enc_elicitation_result_def)

lemma complete_bounded: "pred_option (\<lambda>n. n < 2 ^ 32) (cm_total (handle_complete srv p))"
  by (simp add: handle_complete_def Let_def split: completion_ref.split)

lemma complete_readable:
  "dec_complete_result (enc_complete_result (handle_complete srv p)) = Some (handle_complete srv p)"
  by (rule dec_enc_complete_result) (rule complete_bounded)

abbreviation remote_error :: "mcp_error \<Rightarrow> mcp_error" where
  "remote_error e \<equiv> McpProtocol (eo_code (error_object_of e)) (eo_message (error_object_of e))"

lemma seen_read [simp]:
  "as_seen_by_client dec_read_result tc (map_sum id enc_read_result r) = map_sum remote_error id r"
  by (cases r) (simp_all add: as_seen_by_client_def)

lemma seen_prompt [simp]:
  "as_seen_by_client dec_get_prompt_result tc (map_sum id enc_get_prompt_result r)
     = map_sum remote_error id r"
  by (cases r) (simp_all add: as_seen_by_client_def)

lemma seen_error [simp]: "as_seen_by_client dec tc (Err e) = Err (remote_error e)"
  by (simp add: as_seen_by_client_def)

lemma seen_ok: "v \<noteq> JNull \<Longrightarrow> dec v = Some a \<Longrightarrow> as_seen_by_client dec tc (Ok v) = Ok a"
  by (simp add: as_seen_by_client_def)

lemma call_tool_over_server:
  "call_tool tc (server_link env tx) name a cl (srv, s)
     = (case map_of (sx_tools srv) name of
          None \<Rightarrow> (Err (McpProtocol (- 32202) (''unknown tool '' @ quoted name)),
                   cl\<lparr>mc_next_id := mc_next_id cl + 1\<rparr>, srv, s)
        | Some d \<Rightarrow> (case td_handler d (unwrap_or (null_as_none a) (JObj [])) s of
            (r, s') \<Rightarrow> (Ok (case r of Ok res \<Rightarrow> res | Err e \<Rightarrow> tool_error (mcp_error_text e)),
                       cl\<lparr>mc_next_id := mc_next_id cl + 1\<rparr>, srv, s')))"
  by (simp add: call_tool_def client_call_server null_as_none_Some handle_method_typed seen_ok
      handle_tools_call_def protocol_error_def error_object_new_def split: option.split prod.split)

lemma get_prompt_over_server:
  "get_prompt tc (server_link env tx) prompt a cl (srv, s)
     = (case map_of (sx_prompts srv) prompt of
          None \<Rightarrow> (Err (McpProtocol (- 32602) (''unknown prompt '' @ quoted prompt)),
                   cl\<lparr>mc_next_id := mc_next_id cl + 1\<rparr>, srv, s)
        | Some d \<Rightarrow> (case pd_handler d (null_as_none a) s of
            (r, s') \<Rightarrow> (map_sum remote_error id r, cl\<lparr>mc_next_id := mc_next_id cl + 1\<rparr>, srv, s')))"
  by (simp add: get_prompt_def client_call_server null_as_none_Some handle_method_typed seen_ok
      handle_prompts_get_def protocol_error_def error_object_new_def split: option.split prod.split)

text \<open>C6. Client and server together, over the wire: a client's call of a tool, a resource or a prompt runs
  the registered handler of that name once, with the arguments as given, and returns exactly what it
  returned; a tool's failure comes back as a result marked as an error, and a resource's or a
  prompt's as the protocol error the server makes of it; an unknown name is a protocol error and
  changes nothing; ping, completion and the log level do at the server what they say.\<close>

theorem client_sees_server:
  "call_tool tc (server_link env tx) name a cl (srv, s)
     = (case map_of (sx_tools srv) name of
          None \<Rightarrow> (Err (McpProtocol (- 32202) (''unknown tool '' @ quoted name)),
                   cl\<lparr>mc_next_id := mc_next_id cl + 1\<rparr>, srv, s)
        | Some d \<Rightarrow> (case td_handler d (unwrap_or (null_as_none a) (JObj [])) s of
            (r, s') \<Rightarrow> (Ok (case r of Ok res \<Rightarrow> res | Err e \<Rightarrow> tool_error (mcp_error_text e)),
                       cl\<lparr>mc_next_id := mc_next_id cl + 1\<rparr>, srv, s')))
   \<and> read_resource tc (server_link env tx) uri cl (srv, s)
     = (case map_of (sx_resources srv) uri of
          None \<Rightarrow> (Err (McpProtocol (- 32602) (''unknown resource '' @ quoted uri)),
                   cl\<lparr>mc_next_id := mc_next_id cl + 1\<rparr>, srv, s)
        | Some d \<Rightarrow> (case rd_handler d uri s of
            (r, s') \<Rightarrow> (map_sum remote_error id r, cl\<lparr>mc_next_id := mc_next_id cl + 1\<rparr>, srv, s')))
   \<and> get_prompt tc (server_link env tx) prompt a cl (srv, s)
     = (case map_of (sx_prompts srv) prompt of
          None \<Rightarrow> (Err (McpProtocol (- 32602) (''unknown prompt '' @ quoted prompt)),
                   cl\<lparr>mc_next_id := mc_next_id cl + 1\<rparr>, srv, s)
        | Some d \<Rightarrow> (case pd_handler d (null_as_none a) s of
            (r, s') \<Rightarrow> (map_sum remote_error id r, cl\<lparr>mc_next_id := mc_next_id cl + 1\<rparr>, srv, s')))
   \<and> client_ping tc (server_link env tx) cl (srv, s)
     = (Ok (), cl\<lparr>mc_next_id := mc_next_id cl + 1\<rparr>, srv, s)
   \<and> set_log_level tc (server_link env tx) lvl cl (srv, s)
     = (Ok (), cl\<lparr>mc_next_id := mc_next_id cl + 1\<rparr>, srv\<lparr>sx_log_level := level_rank lvl\<rparr>, s)
   \<and> complete_prompt_argument tc (server_link env tx) prompt arg typed cl (srv, s)
     = (Ok (handle_complete srv
              \<lparr>cq_reference = Ref_Prompt prompt, cq_argument_name = arg, cq_argument_value = typed\<rparr>),
        cl\<lparr>mc_next_id := mc_next_id cl + 1\<rparr>, srv, s)"
proof (intro conjI)
  show "complete_prompt_argument tc (server_link env tx) prompt arg typed cl (srv, s)
     = (Ok (handle_complete srv
              \<lparr>cq_reference = Ref_Prompt prompt, cq_argument_name = arg, cq_argument_value = typed\<rparr>),
        cl\<lparr>mc_next_id := mc_next_id cl + 1\<rparr>, srv, s)"
    by (simp add: complete_prompt_argument_def client_call_server null_as_none_Some
        handle_method_typed seen_ok complete_readable)
qed (simp_all add: call_tool_over_server get_prompt_over_server read_resource_def client_ping_def
      set_log_level_def call_unit_def client_call_server null_as_none_Some handle_method_typed seen_ok
      handle_resources_read_def protocol_error_def error_object_new_def split: option.split prod.split)

text \<open>An elicitation goes round: an enabled handle gets exactly what the client's delegate answered
  for this message and schema, a null content being read as none; with the default delegate it is a
  decline. A disabled handle declines and sends nothing, and a closed channel, an error or an
  unreadable answer is a cancellation.\<close>

lemma elicitation_goes_round:
  "elicit (client_link delegate) msg schema (elicitation_new True) s
     = (case delegate \<lparr>el_message = msg, el_schema = schema\<rparr> s of
          (r, s') \<Rightarrow> (r\<lparr>ei_content := null_as_none (ei_content r)\<rparr>,
                     \<lparr>eh_next_id = 1000001, eh_enabled = True\<rparr>, s'))
   \<and> fst (elicit (client_link decline_all) msg schema (elicitation_new True) s)
     = \<lparr>ei_action = Act_Decline, ei_content = None\<rparr>
   \<and> elicit lk msg schema elicitation_disabled w
     = (\<lparr>ei_action = Act_Decline, ei_content = None\<rparr>, elicitation_disabled, w)
   \<and> fst (elicit (\<lambda>m w. (None, w)) msg schema (elicitation_new True) w)
     = \<lparr>ei_action = Act_Cancel, ei_content = None\<rparr>
   \<and> parse_response (response_failure i err) = \<lparr>ei_action = Act_Cancel, ei_content = None\<rparr>"
proof -
  have round: "elicit (client_link d) msg schema (elicitation_new True) s
     = (case d \<lparr>el_message = msg, el_schema = schema\<rparr> s of
          (r, s') \<Rightarrow> (r\<lparr>ei_content := null_as_none (ei_content r)\<rparr>,
                     \<lparr>eh_next_id = 1000001, eh_enabled = True\<rparr>, s'))" for d
    by (simp add: elicit_def elicitation_new_def client_link_def handle_server_request_def
        null_as_none_Some over_wire_success parse_response_def Let_def del: message_to_value.simps
        split: prod.split)
  show ?thesis
    by (intro conjI, rule round)
      (simp_all add: round decline_all_def,
       simp_all add: elicit_def elicitation_disabled_def elicitation_new_def parse_response_def
         response_failure_def Let_def)
qed

end
