(* ===== verification/Graph_Store.thy ===== *)
theory Graph_Store
  imports Float_Ops "HOL-Library.AList" "HOL-Library.List_Lexorder" "HOL-Library.Char_ord"
begin

text \<open>
  The knowledge graph (\<open>entity.rs\<close> and \<open>store.rs\<close> in \<open>crates/oracle-automate-graph/src\<close>): typed
  entities and weighted edges, with the adjacency lists the graph keeps beside its edge list, the
  free-text search for seed nodes, and the demonstration corpus. The nodes are an association list
  with distinct keys, in the order the code's \<open>HashMap\<close> iterates; an adjacency map is a function
  that gives the empty list for an absent key. Edge weights are of the abstract float type.
\<close>

datatype entity_kind =
    Integration_Node | DataObject_Node | Field_Node | RestOperation_Node | ProcessModel_Node
  | AppCatalogEntry_Node | HelpPage_Node | Concept_Node

fun kind_name :: "entity_kind \<Rightarrow> string" where
  "kind_name Integration_Node = ''Integration''"
| "kind_name DataObject_Node = ''DataObject''"
| "kind_name Field_Node = ''Field''"
| "kind_name RestOperation_Node = ''RestOperation''"
| "kind_name ProcessModel_Node = ''ProcessModel''"
| "kind_name AppCatalogEntry_Node = ''AppCatalogEntry''"
| "kind_name HelpPage_Node = ''HelpPage''"
| "kind_name Concept_Node = ''Concept''"

record entity =
  en_id :: string
  en_kind :: entity_kind
  en_label :: string
  en_description :: "string option"
  en_uri :: "string option"
  en_tags :: "string list"

datatype edge_kind =
    Calls | Implements | Includes | Reads_Table | Writes_Table | References | Contained_In
  | Depends_On | Describes | Related

record 'f edge =
  ed_from :: string
  ed_to :: string
  ed_kind :: edge_kind
  ed_weight :: 'f

type_synonym 'f adjacency = "string \<Rightarrow> (string \<times> edge_kind \<times> 'f) list"

record 'f graph =
  gr_nodes :: "(string \<times> entity) list"
  gr_out :: "'f adjacency"
  gr_in :: "'f adjacency"
  gr_edges :: "'f edge list"

definition graph_new :: "'f graph" where
  "graph_new = \<lparr>gr_nodes = [], gr_out = (\<lambda>_. []), gr_in = (\<lambda>_. []), gr_edges = []\<rparr>"

definition add_entity :: "entity \<Rightarrow> 'f graph \<Rightarrow> 'f graph" where
  "add_entity e g = g\<lparr>gr_nodes := AList.update (en_id e) e (gr_nodes g)\<rparr>"

definition add_edge :: "'f edge \<Rightarrow> 'f graph \<Rightarrow> 'f graph" where
  "add_edge e g =
     g\<lparr>gr_out := (gr_out g)(ed_from e := gr_out g (ed_from e) @ [(ed_to e, ed_kind e, ed_weight e)]),
       gr_in := (gr_in g)(ed_to e := gr_in g (ed_to e) @ [(ed_from e, ed_kind e, ed_weight e)]),
       gr_edges := gr_edges g @ [e]\<rparr>"

definition graph_node :: "'f graph \<Rightarrow> string \<Rightarrow> entity option" where
  "graph_node g v = map_of (gr_nodes g) v"

definition node_ids :: "'f graph \<Rightarrow> string list" where
  "node_ids g = map (\<lambda>(_, e). en_id e) (gr_nodes g)"

definition outbound :: "'f graph \<Rightarrow> string \<Rightarrow> (string \<times> edge_kind \<times> 'f) list" where
  "outbound g v = gr_out g v"

definition inbound :: "'f graph \<Rightarrow> string \<Rightarrow> (string \<times> edge_kind \<times> 'f) list" where
  "inbound g v = gr_in g v"

text \<open>\<open>*map.entry(k).or_insert(0.0) += w\<close>.\<close>

definition bump :: "'f float_ops \<Rightarrow> 'k \<Rightarrow> 'f \<Rightarrow> ('k \<times> 'f) list \<Rightarrow> ('k \<times> 'f) list" where
  "bump fo k w kvs =
     AList.update k
       (fl_add fo (case map_of kvs k of Some s \<Rightarrow> s | None \<Rightarrow> fl_of_nat fo 0) w) kvs"

definition undirected_neighbours :: "'f float_ops \<Rightarrow> 'f graph \<Rightarrow> string \<Rightarrow> (string \<times> 'f) list" where
  "undirected_neighbours fo g v =
     foldl (\<lambda>seen (n, _, w). bump fo n w seen)
       (foldl (\<lambda>seen (n, _, w). bump fo n w seen) [] (outbound g v)) (inbound g v)"

record graph_stats =
  gs_node_count :: nat
  gs_edge_count :: nat
  gs_by_kind :: "(string \<times> nat) list"

definition graph_stats_of :: "'f graph \<Rightarrow> graph_stats" where
  "graph_stats_of g =
     \<lparr>gs_node_count = length (gr_nodes g), gs_edge_count = length (gr_edges g),
      gs_by_kind = foldl (\<lambda>m (_, e).
        let k = kind_name (en_kind e) in
        AList.update k ((case map_of m k of Some n \<Rightarrow> n | None \<Rightarrow> 0) + 1) m) [] (gr_nodes g)\<rparr>"

lemma strict_weak_less: "strict_weak ((<) :: 'a::linorder \<Rightarrow> 'a \<Rightarrow> bool)"
  by (auto simp: strict_weak_def)

subsection \<open>Seeds\<close>

definition query_terms :: "string \<Rightarrow> string list" where
  "query_terms query = filter (\<lambda>t. 2 \<le> length t) (split_whitespace (to_lowercase query))"

definition term_score :: "string list \<Rightarrow> string \<Rightarrow> nat" where
  "term_score terms hay = sum_list (map (count_matches hay) terms)"

definition entity_text :: "entity \<Rightarrow> string" where
  "entity_text e =
     to_lowercase (en_label e) @ '' ''
     @ to_lowercase (case en_description e of Some d \<Rightarrow> d | None \<Rightarrow> [])
     @ '' '' @ to_lowercase (join '' '' (en_tags e))"

definition find_seeds :: "'f graph \<Rightarrow> string \<Rightarrow> nat \<Rightarrow> string list" where
  "find_seeds g query max_seeds =
     (let terms = query_terms query in
      if terms = [] then []
      else map (\<lambda>(_, e). en_id e)
        (take max_seeds (sort_desc (<) fst
          (filter (\<lambda>(score, _). score \<noteq> 0)
            (map (\<lambda>(_, e). (term_score terms (entity_text e), e)) (gr_nodes g))))))"

subsection \<open>The demonstration corpus\<close>

definition seed_entity ::
  "string \<Rightarrow> entity_kind \<Rightarrow> string \<Rightarrow> string \<Rightarrow> string option \<Rightarrow> string list \<Rightarrow> entity" where
  "seed_entity v kind label desc uri tags =
     \<lparr>en_id = v, en_kind = kind, en_label = label, en_description = Some desc, en_uri = uri,
      en_tags = tags\<rparr>"

definition seed_integrations :: "entity list" where
  "seed_integrations =
    [seed_entity ''integration:GT_GL_JOURNAL_IMPORT'' Integration_Node ''GT_GL_JOURNAL_IMPORT''
       ''OIC integration that posts GL journals via FBDI (journalEntries / importBulkData).''
       (Some ''oic-int://KLB/GT_GL_JOURNAL_IMPORT'') [''module:FIN'', ''project:GT_FINANCE_INTEGRATIONS'', ''kind:integration''],
     seed_entity ''integration:GT_PO_RECEIPT_SYNC'' Integration_Node ''GT_PO_RECEIPT_SYNC''
       ''OIC integration that syncs warehouse receipts to Fusion Receiving.''
       (Some ''oic-int://KLB/GT_PO_RECEIPT_SYNC'') [''module:SCM'', ''project:GT_FINANCE_INTEGRATIONS'', ''kind:integration''],
     seed_entity ''integration:GT_INVOICE_HOLD_RULE'' Integration_Node ''GT_INVOICE_HOLD_RULE''
       ''Application Composer Groovy rule that holds high-value AP invoices.''
       (Some ''oic-int://KLB/GT_INVOICE_HOLD_RULE'') [''module:FIN'', ''kind:groovy_script''],
     seed_entity ''integration:GT_FUSION_ERP_REST'' Integration_Node ''GT_FUSION_ERP_REST''
       ''OIC connection to Oracle Fusion Cloud ERP REST.''
       (Some ''oic-int://KLB/GT_FUSION_ERP_REST'') [''kind:connection''],
     seed_entity ''integration:GT_COMPANY_XREF'' Integration_Node ''GT_COMPANY_XREF''
       ''DVM lookup: legacy company code -> Fusion ledger.''
       (Some ''oic-int://KLB/GT_COMPANY_XREF'') [''kind:lookup'']]"

definition seed_rest_operations :: "entity list" where
  "seed_rest_operations =
    [seed_entity ''rest:journalEntries.post'' RestOperation_Node ''fusion.gl.journalEntries.post''
       ''Create and post a GL journal entry via Fusion REST.''
       (Some ''oracle-rest://fusion.gl.journalEntries.post'') [''module:FIN''],
     seed_entity ''rest:receivingReceiptRequests.post'' RestOperation_Node ''fusion.inv.receivingReceiptRequests.post''
       ''Create a receiving receipt (goods receipt against a PO).''
       (Some ''oracle-rest://fusion.inv.receivingReceiptRequests.post'') [''module:SCM''],
     seed_entity ''rest:itemsV2.get'' RestOperation_Node ''fusion.scm.itemsV2.get''
       ''Read Product Hub item master detail.''
       (Some ''oracle-rest://fusion.scm.itemsV2.get'') [''module:SCM''],
     seed_entity ''rest:salesOrdersForOrderHub.post'' RestOperation_Node ''fusion.doo.salesOrdersForOrderHub.post''
       ''Import a sales order into Order Management.''
       (Some ''oracle-rest://fusion.doo.salesOrdersForOrderHub.post'') [''module:SCM'']]"

definition seed_data_objects :: "entity list" where
  "seed_data_objects =
    [seed_entity ''obj:GL_LEDGERS'' DataObject_Node ''GL_LEDGERS''
       ''General Ledger ledgers.''
       (Some ''oracle-object://GL_LEDGERS/structure'') [''module:FIN''],
     seed_entity ''obj:GL_PERIOD_STATUSES'' DataObject_Node ''GL_PERIOD_STATUSES''
       ''Accounting period open/close status.''
       (Some ''oracle-object://GL_PERIOD_STATUSES/structure'') [''module:FIN''],
     seed_entity ''obj:EGP_SYSTEM_ITEMS_B'' DataObject_Node ''EGP_SYSTEM_ITEMS_B''
       ''Product Hub item master.''
       (Some ''oracle-object://EGP_SYSTEM_ITEMS_B/structure'') [''module:SCM''],
     seed_entity ''obj:DOO_HEADERS_ALL'' DataObject_Node ''DOO_HEADERS_ALL''
       ''Order Management order header.''
       (Some ''oracle-object://DOO_HEADERS_ALL/structure'') [''module:SCM''],
     seed_entity ''obj:GL_JE_LINES'' DataObject_Node ''GL_JE_LINES''
       ''GL journal entry lines (accounting backbone).''
       (Some ''oracle-object://GL_JE_LINES/structure'') [''module:FIN''],
     seed_entity ''obj:XLA_AE_LINES'' DataObject_Node ''XLA_AE_LINES''
       ''Subledger Accounting lines.''
       (Some ''oracle-object://XLA_AE_LINES/structure'') [''module:FIN'']]"

definition seed_process_models :: "entity list" where
  "seed_process_models =
    [seed_entity ''proc:P2P-001'' ProcessModel_Node ''Procure-to-Pay (P2P)''
       ''Requisition through receiving, invoice match, and payment.''
       (Some ''process://core/P2P-001'') [''process:p2p''],
     seed_entity ''proc:O2C-002'' ProcessModel_Node ''Order-to-Cash (O2C)''
       ''Order capture through fulfillment, billing, and receipt.''
       (Some ''process://core/O2C-002'') [''process:o2c'']]"

definition seed_app_catalog :: "entity list" where
  "seed_app_catalog =
    [seed_entity ''appcat:FS-12001'' AppCatalogEntry_Node ''Oracle Financials Cloud''
       ''Financials application: general ledger, payables, receivables.''
       (Some ''appcat://FS-12001'') [''lifecycle:active''],
     seed_entity ''appcat:FS-08823'' AppCatalogEntry_Node ''Legacy Billing Engine''
       ''Phase-out billing engine (replaced by Oracle Receivables).''
       (Some ''appcat://FS-08823'') [''lifecycle:phase_out'']]"

definition seed_help_pages :: "entity list" where
  "seed_help_pages =
    [seed_entity ''help:GL/period-close'' HelpPage_Node ''Period-End Close in Oracle General Ledger''
       ''Procedure for GL period-end close.''
       (Some ''oracle-help://GL/period-close'') [''module:FIN''],
     seed_entity ''help:INV/receiving'' HelpPage_Node ''Receiving Receipts''
       ''Procedure for receiving receipts.''
       (Some ''oracle-help://INV/receiving'') [''module:SCM'']]"

definition seed_concepts :: "entity list" where
  "seed_concepts =
    [seed_entity ''concept:period_close'' Concept_Node ''Period Close''
       ''GL period-end close: close subledgers, transfer XLA to GL, revalue, close period.''
       None [''module:FIN''],
     seed_entity ''concept:receiving'' Concept_Node ''Receiving''
       ''Receiving goods against a purchase order; creates accrual accounting events.''
       None [''module:SCM''],
     seed_entity ''concept:journal_entry'' Concept_Node ''Journal Entry''
       ''Accounting entry that posts to GL_JE_LINES (and, from a subledger, XLA_AE_LINES).''
       None [''module:FIN'']]"

definition seed_edges_integrations :: "'f float_ops \<Rightarrow> (string \<times> string \<times> edge_kind \<times> 'f) list" where
  "seed_edges_integrations fo =
    [(''integration:GT_GL_JOURNAL_IMPORT'', ''rest:journalEntries.post'', Calls, fl_of_nat fo 2),
     (''integration:GT_GL_JOURNAL_IMPORT'', ''integration:GT_FUSION_ERP_REST'', Calls, fl_of_nat fo 1),
     (''integration:GT_GL_JOURNAL_IMPORT'', ''integration:GT_COMPANY_XREF'', References, fl_of_nat fo 1),
     (''integration:GT_PO_RECEIPT_SYNC'', ''rest:receivingReceiptRequests.post'', Calls, fl_of_nat fo 1),
     (''integration:GT_PO_RECEIPT_SYNC'', ''integration:GT_FUSION_ERP_REST'', Calls, fl_of_nat fo 1)]"

definition seed_edges_operations :: "'f float_ops \<Rightarrow> (string \<times> string \<times> edge_kind \<times> 'f) list" where
  "seed_edges_operations fo =
    [(''rest:journalEntries.post'', ''obj:GL_LEDGERS'', Reads_Table, fl_of_nat fo 1),
     (''rest:journalEntries.post'', ''obj:GL_PERIOD_STATUSES'', Reads_Table, fl_of_nat fo 1),
     (''rest:journalEntries.post'', ''obj:GL_JE_LINES'', Writes_Table, fl_of_nat fo 1),
     (''rest:journalEntries.post'', ''obj:XLA_AE_LINES'', Writes_Table, fl_of_nat fo 1),
     (''rest:itemsV2.get'', ''obj:EGP_SYSTEM_ITEMS_B'', Reads_Table, fl_of_nat fo 1),
     (''rest:salesOrdersForOrderHub.post'', ''obj:DOO_HEADERS_ALL'', Writes_Table, fl_of_nat fo 1),
     (''rest:receivingReceiptRequests.post'', ''obj:XLA_AE_LINES'', Writes_Table, fl_of_nat fo 1)]"

definition seed_edges_processes :: "'f float_ops \<Rightarrow> (string \<times> string \<times> edge_kind \<times> 'f) list" where
  "seed_edges_processes fo =
    [(''proc:P2P-001'', ''rest:receivingReceiptRequests.post'', Depends_On, fl_of_nat fo 1),
     (''proc:P2P-001'', ''rest:journalEntries.post'', Depends_On, fl_of_nat fo 1),
     (''proc:O2C-002'', ''rest:salesOrdersForOrderHub.post'', Depends_On, fl_of_nat fo 1),
     (''proc:O2C-002'', ''rest:journalEntries.post'', Depends_On, fl_of_nat fo 1)]"

definition seed_edges_apps :: "'f float_ops \<Rightarrow> (string \<times> string \<times> edge_kind \<times> 'f) list" where
  "seed_edges_apps fo =
    [(''appcat:FS-12001'', ''obj:GL_JE_LINES'', Depends_On, fl_of_nat fo 1),
     (''appcat:FS-12001'', ''obj:XLA_AE_LINES'', Depends_On, fl_of_nat fo 1),
     (''appcat:FS-12001'', ''obj:GL_LEDGERS'', Depends_On, fl_of_nat fo 1),
     (''appcat:FS-08823'', ''obj:DOO_HEADERS_ALL'', Depends_On, fl_of_nat fo 1)]"

definition seed_edges_concepts :: "'f float_ops \<Rightarrow> (string \<times> string \<times> edge_kind \<times> 'f) list" where
  "seed_edges_concepts fo =
    [(''concept:period_close'', ''help:GL/period-close'', Describes, fl_of_nat fo 2),
     (''concept:period_close'', ''obj:GL_PERIOD_STATUSES'', Describes, fl_of_nat fo 2),
     (''concept:period_close'', ''obj:GL_JE_LINES'', Describes, fl_lit fo ''1.5''),
     (''concept:period_close'', ''appcat:FS-12001'', Describes, fl_of_nat fo 1),
     (''concept:journal_entry'', ''rest:journalEntries.post'', Describes, fl_of_nat fo 2),
     (''concept:journal_entry'', ''obj:GL_JE_LINES'', Describes, fl_lit fo ''1.5''),
     (''concept:journal_entry'', ''integration:GT_GL_JOURNAL_IMPORT'', Describes, fl_lit fo ''1.5''),
     (''concept:receiving'', ''help:INV/receiving'', Describes, fl_of_nat fo 2),
     (''concept:receiving'', ''rest:receivingReceiptRequests.post'', Describes, fl_of_nat fo 2),
     (''concept:receiving'', ''integration:GT_PO_RECEIPT_SYNC'', Describes, fl_of_nat fo 1)]"

definition seed_edges_help :: "'f float_ops \<Rightarrow> (string \<times> string \<times> edge_kind \<times> 'f) list" where
  "seed_edges_help fo =
    [(''help:GL/period-close'', ''obj:GL_PERIOD_STATUSES'', References, fl_of_nat fo 1),
     (''help:GL/period-close'', ''obj:GL_JE_LINES'', References, fl_of_nat fo 1),
     (''help:INV/receiving'', ''rest:receivingReceiptRequests.post'', References, fl_of_nat fo 1)]"

text \<open>An edge is added once for each triple of ends and kind.\<close>

definition add_unseen ::
  "(string \<times> string \<times> edge_kind \<times> 'f) \<Rightarrow> (string \<times> string \<times> edge_kind) list \<times> 'f graph
     \<Rightarrow> (string \<times> string \<times> edge_kind) list \<times> 'f graph" where
  "add_unseen = (\<lambda>(a, b, k, w) (seen, g).
     if (a, b, k) \<in> set seen then (seen, g)
     else ((a, b, k) # seen, add_edge \<lparr>ed_from = a, ed_to = b, ed_kind = k, ed_weight = w\<rparr> g))"

definition seed_entities :: "entity list" where
  "seed_entities =
     seed_integrations @ seed_rest_operations @ seed_data_objects @ seed_process_models
     @ seed_app_catalog @ seed_help_pages @ seed_concepts"

definition seed_edges :: "'f float_ops \<Rightarrow> (string \<times> string \<times> edge_kind \<times> 'f) list" where
  "seed_edges fo =
     seed_edges_integrations fo @ seed_edges_operations fo @ seed_edges_processes fo
     @ seed_edges_apps fo @ seed_edges_concepts fo @ seed_edges_help fo"

definition seed :: "'f float_ops \<Rightarrow> 'f graph \<Rightarrow> 'f graph" where
  "seed fo g =
     snd (foldl (\<lambda>st e. add_unseen e st) ([], foldl (\<lambda>g e. add_entity e g) g seed_entities)
            (seed_edges fo))"

definition with_demo_corpus :: "'f float_ops \<Rightarrow> 'f graph" where
  "with_demo_corpus fo = seed fo graph_new"

subsection \<open>The adjacency lists mirror the edges\<close>

datatype 'f graph_op = Op_Entity entity | Op_Edge "'f edge"

fun apply_op :: "'f graph \<Rightarrow> 'f graph_op \<Rightarrow> 'f graph" where
  "apply_op g (Op_Entity e) = add_entity e g"
| "apply_op g (Op_Edge e) = add_edge e g"

text \<open>The lists as they follow from the edges alone.\<close>

definition out_of :: "'f edge list \<Rightarrow> 'f adjacency" where
  "out_of es v = map (\<lambda>e. (ed_to e, ed_kind e, ed_weight e)) (filter (\<lambda>e. ed_from e = v) es)"

definition in_of :: "'f edge list \<Rightarrow> 'f adjacency" where
  "in_of es v = map (\<lambda>e. (ed_from e, ed_kind e, ed_weight e)) (filter (\<lambda>e. ed_to e = v) es)"

definition graph_ok :: "'f graph \<Rightarrow> bool" where
  "graph_ok g \<longleftrightarrow> gr_out g = out_of (gr_edges g) \<and> gr_in g = in_of (gr_edges g)
     \<and> distinct (map fst (gr_nodes g)) \<and> list_all (\<lambda>(k, e). k = en_id e) (gr_nodes g)"

lemma graph_new_simps [simp]: "gr_nodes graph_new = []" "gr_edges graph_new = []"
  by (simp_all add: graph_new_def)

lemma graph_ok_new: "graph_ok graph_new"
  by (auto simp: graph_ok_def graph_new_def out_of_def in_of_def)

lemma graph_ok_entity: "graph_ok g \<Longrightarrow> graph_ok (add_entity e g)"
  by (simp add: graph_ok_def add_entity_def distinct_update list_all_alist_update)

lemma graph_ok_edge: "graph_ok g \<Longrightarrow> graph_ok (add_edge e g)"
  by (auto simp: graph_ok_def add_edge_def out_of_def in_of_def fun_eq_iff)

lemma graph_ok_op: "graph_ok g \<Longrightarrow> graph_ok (apply_op g op)"
  by (cases op) (simp_all add: graph_ok_entity graph_ok_edge)

lemma graph_ok_ops: "graph_ok g \<Longrightarrow> graph_ok (foldl apply_op g ops)"
  by (induction ops arbitrary: g) (simp_all add: graph_ok_op)

lemma node_ids_keys: "graph_ok g \<Longrightarrow> node_ids g = map fst (gr_nodes g)"
  by (auto simp: graph_ok_def node_ids_def list_all_iff)

lemma distinct_node_ids: "graph_ok g \<Longrightarrow> distinct (node_ids g)"
  by (simp add: node_ids_keys) (simp add: graph_ok_def)

lemma node_ids_iff: "graph_ok g \<Longrightarrow> v \<in> set (node_ids g) \<longleftrightarrow> graph_node g v \<noteq> None"
  by (simp add: node_ids_keys graph_node_def map_of_eq_None_iff)

lemma node_id_of: "graph_ok g \<Longrightarrow> graph_node g v = Some e \<Longrightarrow> en_id e = v"
  by (auto simp: graph_ok_def graph_node_def list_all_iff dest!: map_of_SomeD)

text \<open>The keys of an accumulated map.\<close>

lemma bump_keys [simp]: "fst ` set (bump fo k w kvs) = insert k (fst ` set kvs)"
  by (simp add: bump_def update_conv' dom_map_of_conv_image_fst [symmetric])

lemma bump_distinct: "distinct (map fst kvs) \<Longrightarrow> distinct (map fst (bump fo k w kvs))"
  by (simp add: bump_def distinct_update)

lemma bumps_keys:
  "fst ` set (foldl (\<lambda>seen (n, _, w). bump fo n w seen) kvs xs) = fst ` set kvs \<union> fst ` set xs"
  by (induction xs arbitrary: kvs) (simp_all add: split_beta)

lemma bumps_distinct:
  "distinct (map fst kvs) \<Longrightarrow> distinct (map fst (foldl (\<lambda>seen (n, _, w). bump fo n w seen) kvs xs))"
  by (induction xs arbitrary: kvs) (auto simp: bump_distinct)

lemma neighbours_keys:
  "fst ` set (undirected_neighbours fo g v) = fst ` set (outbound g v) \<union> fst ` set (inbound g v)"
  by (simp add: undirected_neighbours_def bumps_keys)

lemma neighbours_distinct: "distinct (map fst (undirected_neighbours fo g v))"
  by (simp add: undirected_neighbours_def bumps_distinct)

lemma neighbours_edge:
  "graph_ok g \<Longrightarrow> u \<in> fst ` set (undirected_neighbours fo g v)
     \<longleftrightarrow> (\<exists>e \<in> set (gr_edges g). {ed_from e, ed_to e} = {u, v})"
  by (simp add: neighbours_keys outbound_def inbound_def graph_ok_def out_of_def in_of_def)
    (force simp: doubleton_eq_iff)

fun edges_of :: "'f graph_op list \<Rightarrow> 'f edge list" where
  "edges_of [] = []"
| "edges_of (Op_Edge e # ops) = e # edges_of ops"
| "edges_of (Op_Entity _ # ops) = edges_of ops"

fun entities_of :: "'f graph_op list \<Rightarrow> entity list" where
  "entities_of [] = []"
| "entities_of (Op_Entity e # ops) = e # entities_of ops"
| "entities_of (Op_Edge _ # ops) = entities_of ops"

abbreviation build_graph :: "'f graph_op list \<Rightarrow> 'f graph" where
  "build_graph ops \<equiv> foldl apply_op graph_new ops"

lemma ops_edges: "gr_edges (foldl apply_op g ops) = gr_edges g @ edges_of ops"
  by (induction ops arbitrary: g rule: edges_of.induct) (simp_all add: add_edge_def add_entity_def)

lemma add_edge_node [simp]: "graph_node (add_edge e g) v = graph_node g v"
  by (simp add: add_edge_def graph_node_def)

lemma ops_node:
  "graph_node (foldl apply_op g ops) v
     = (case find (\<lambda>e. en_id e = v) (rev (entities_of ops)) of
          Some e \<Rightarrow> Some e | None \<Rightarrow> graph_node g v)"
proof (induction ops arbitrary: g rule: entities_of.induct)
  case (2 e ops)
  then show ?case
    by (auto simp: add_entity_def graph_node_def update_conv' find_append split: option.splits)
qed (simp_all split: option.split)

lemma ops_nodes:
  "fst ` set (gr_nodes (foldl apply_op g ops)) = fst ` set (gr_nodes g) \<union> en_id ` set (entities_of ops)"
  by (induction ops arbitrary: g rule: entities_of.induct)
    (simp_all add: add_edge_def add_entity_def update_conv' dom_map_of_conv_image_fst [symmetric])

lemma node_count: "graph_ok g \<Longrightarrow> length (gr_nodes g) = card (fst ` set (gr_nodes g))"
  using distinct_card [of "map fst (gr_nodes g)"] by (simp add: graph_ok_def)

text \<open>The adjacency lists a graph keeps are the ones its edge list has: after any sequence of
  insertions, the outgoing and incoming neighbours of a node are its edges in the order they were
  added, every edge is kept, and being a neighbour in the undirected sense is symmetric and means an
  edge in one of the directions. A node inserted twice is the last one inserted, and it counts once.\<close>

lemma adjacency_mirrors_edges:
  "gr_edges (build_graph ops) = edges_of ops
   \<and> outbound (build_graph ops) v = out_of (edges_of ops) v
   \<and> inbound (build_graph ops) v = in_of (edges_of ops) v
   \<and> (u \<in> fst ` set (undirected_neighbours fo (build_graph ops) v))
     = (\<exists>e. e \<in> set (edges_of ops) \<and> {ed_from e, ed_to e} = {u, v})
   \<and> graph_node (build_graph ops) v = find (\<lambda>e. en_id e = v) (rev (entities_of ops))
   \<and> gs_node_count (graph_stats_of (build_graph ops)) = card (en_id ` set (entities_of ops))
   \<and> gs_edge_count (graph_stats_of (build_graph ops)) = length (edges_of ops)"
proof -
  let ?g = "build_graph ops"
  have ok: "graph_ok ?g" by (rule graph_ok_ops [OF graph_ok_new])
  have es: "gr_edges ?g = edges_of ops" by (simp add: ops_edges)
  have node: "graph_node ?g v = find (\<lambda>e. en_id e = v) (rev (entities_of ops))"
    by (simp add: ops_node) (simp add: graph_node_def split: option.split)
  have card: "length (gr_nodes ?g) = card (en_id ` set (entities_of ops))"
    by (simp add: node_count [OF ok] ops_nodes)
  show ?thesis
    using ok neighbours_edge [OF ok, of u fo v]
    by (auto simp: es node card graph_stats_of_def graph_ok_def outbound_def inbound_def)
qed

subsection \<open>The demonstration corpus, evaluated\<close>

lemma update_new: "k \<notin> fst ` set kvs \<Longrightarrow> AList.update k v kvs = kvs @ [(k, v)]"
  by (induction kvs) auto

lemma add_entities_nodes:
  "distinct (map en_id es) \<Longrightarrow> set (map en_id es) \<inter> fst ` set (gr_nodes g) = {} \<Longrightarrow>
     gr_nodes (foldl (\<lambda>g e. add_entity e g) g es) = gr_nodes g @ map (\<lambda>e. (en_id e, e)) es"
  by (induction es arbitrary: g) (auto simp: add_entity_def update_new)

lemma add_entities_edges: "gr_edges (foldl (\<lambda>g e. add_entity e g) g es) = gr_edges g"
  by (induction es arbitrary: g) (simp_all add: add_entity_def)

definition edge_key :: "string \<times> string \<times> edge_kind \<times> 'f \<Rightarrow> string \<times> string \<times> edge_kind" where
  "edge_key = (\<lambda>(a, b, k, w). (a, b, k))"

definition mk_edge :: "string \<times> string \<times> edge_kind \<times> 'f \<Rightarrow> 'f edge" where
  "mk_edge = (\<lambda>(a, b, k, w). \<lparr>ed_from = a, ed_to = b, ed_kind = k, ed_weight = w\<rparr>)"

lemma add_unseen_edges:
  "distinct (map edge_key es) \<Longrightarrow> set (map edge_key es) \<inter> set seen = {} \<Longrightarrow>
     gr_edges (snd (foldl (\<lambda>st e. add_unseen e st) (seen, g) es)) = gr_edges g @ map mk_edge es
   \<and> gr_nodes (snd (foldl (\<lambda>st e. add_unseen e st) (seen, g) es)) = gr_nodes g"
  by (induction es arbitrary: seen g)
    (auto simp: add_unseen_def edge_key_def mk_edge_def add_edge_def)

lemmas seed_defs =
  seed_integrations_def seed_rest_operations_def seed_data_objects_def seed_process_models_def
  seed_app_catalog_def seed_help_pages_def seed_concepts_def

lemmas seed_edge_defs =
  seed_edges_integrations_def seed_edges_operations_def seed_edges_processes_def
  seed_edges_apps_def seed_edges_concepts_def seed_edges_help_def

lemma seed_ids_distinct: "distinct (map en_id seed_entities)"
  by (simp add: seed_entities_def seed_defs seed_entity_def)

lemma seed_edges_distinct: "distinct (map edge_key (seed_edges fo))"
  by (simp add: seed_edges_def seed_edge_defs edge_key_def)

lemma seed_ends:
  "list_all (\<lambda>(a, b, k, w). a \<in> set (map en_id seed_entities) \<and> b \<in> set (map en_id seed_entities))
     (seed_edges fo)"
  by (simp add: seed_edges_def seed_edge_defs seed_entities_def seed_defs seed_entity_def)

lemma demo_nodes: "gr_nodes (with_demo_corpus fo) = map (\<lambda>e. (en_id e, e)) seed_entities"
  and demo_edges: "gr_edges (with_demo_corpus fo) = map mk_edge (seed_edges fo)"
  using add_unseen_edges [OF seed_edges_distinct [of fo], of "[]"]
  by (simp_all add: with_demo_corpus_def seed_def add_entities_edges
      add_entities_nodes [OF seed_ids_distinct])

lemma demo_ids: "node_ids (with_demo_corpus fo) = map en_id seed_entities"
  by (simp add: node_ids_def demo_nodes)

text \<open>The demonstration corpus is closed: it has 24 entities and 33 edges, no entity and no edge
  was given twice, and both ends of every edge are entities of it.\<close>

lemma demo_corpus_closed:
  "gs_node_count (graph_stats_of (with_demo_corpus fo)) = 24
   \<and> gs_edge_count (graph_stats_of (with_demo_corpus fo)) = 33
   \<and> distinct (node_ids (with_demo_corpus fo))
   \<and> list_all (\<lambda>e. ed_from e \<in> set (node_ids (with_demo_corpus fo))
        \<and> ed_to e \<in> set (node_ids (with_demo_corpus fo))) (gr_edges (with_demo_corpus fo))"
proof (intro conjI)
  show "gs_node_count (graph_stats_of (with_demo_corpus fo)) = 24"
    by (simp add: graph_stats_of_def demo_nodes) (simp add: seed_entities_def seed_defs)
  show "gs_edge_count (graph_stats_of (with_demo_corpus fo)) = 33"
    by (simp add: graph_stats_of_def demo_edges) (simp add: seed_edges_def seed_edge_defs)
  show "distinct (node_ids (with_demo_corpus fo))"
    by (simp add: demo_ids seed_ids_distinct)
  show "list_all (\<lambda>e. ed_from e \<in> set (node_ids (with_demo_corpus fo))
        \<and> ed_to e \<in> set (node_ids (with_demo_corpus fo))) (gr_edges (with_demo_corpus fo))"
    using seed_ends [of fo] by (auto simp: demo_ids demo_edges list_all_iff mk_edge_def)
qed

end
