(* ===== verification/Graph_Rank.thy ===== *)
theory Graph_Rank
  imports Complex_Main Graph_Store
begin

text \<open>
  Personalised PageRank over the graph (\<open>crates/oracle-automate-graph/src/ppr.rs\<close>): the power iteration
  from the seeds with restart, the breadth-first distances to the seeds, and the multi-hop search that
  combines both. Vectors are lists indexed by the position of the node. The definitions are for any
  float operations; what holds of the mass is proved for exact arithmetic (\<open>real_ops\<close>).
\<close>

subsection \<open>The walk\<close>

record 'f ppr_config =
  pc_alpha :: 'f
  pc_max_iterations :: nat
  pc_tolerance :: 'f
  pc_max_hops :: nat

definition default_ppr :: "'f float_ops \<Rightarrow> 'f ppr_config" where
  "default_ppr fo =
     \<lparr>pc_alpha = fl_lit fo ''0.15'', pc_max_iterations = 50, pc_tolerance = fl_lit fo ''1e-5'',
      pc_max_hops = 4\<rparr>"

record 'f ppr_hit =
  ph_id :: string
  ph_score :: 'f
  ph_hops :: nat

record 'f ppr_result =
  pq_seeds :: "string list"
  pq_ranked :: "'f ppr_hit list"
  pq_iterations :: nat

type_synonym 'f indexed = "(nat \<times> 'f) list list"

definition index_of :: "string list \<Rightarrow> string \<Rightarrow> nat option" where
  "index_of vs v = map_of (zip vs [0..<length vs]) v"

text \<open>Neighbours that are no nodes of the graph are left out.\<close>

definition indexed_neighbours :: "'f float_ops \<Rightarrow> 'f graph \<Rightarrow> 'f indexed" where
  "indexed_neighbours fo g =
     map (\<lambda>v. List.map_filter (\<lambda>(u, w). map_option (\<lambda>j. (j, w)) (index_of (node_ids g) u))
                (undirected_neighbours fo g v)) (node_ids g)"

definition sum_floats :: "'f float_ops \<Rightarrow> 'f list \<Rightarrow> 'f" where
  "sum_floats fo xs = foldl (fl_add fo) (fl_of_nat fo 0) xs"

definition out_weights :: "'f float_ops \<Rightarrow> 'f indexed \<Rightarrow> 'f list" where
  "out_weights fo nb = map (\<lambda>ns. sum_floats fo (map snd ns)) nb"

definition not_positive :: "'f float_ops \<Rightarrow> 'f \<Rightarrow> bool" where
  "not_positive fo x \<longleftrightarrow> fl_lt fo x (fl_of_nat fo 0) \<or> fl_eq fo x (fl_of_nat fo 0)"

text \<open>\<open>xs[j] += d\<close>.\<close>

definition add_at :: "'f float_ops \<Rightarrow> nat \<Rightarrow> 'f \<Rightarrow> 'f list \<Rightarrow> 'f list" where
  "add_at fo j d xs = xs[j := fl_add fo (xs ! j) d]"

definition restart_rest :: "'f float_ops \<Rightarrow> 'f \<Rightarrow> 'f \<Rightarrow> 'f" where
  "restart_rest fo alpha x = fl_mul fo (fl_sub fo (fl_of_nat fo 1) alpha) x"

definition spread_from ::
  "'f float_ops \<Rightarrow> 'f \<Rightarrow> 'f indexed \<Rightarrow> 'f list \<Rightarrow> 'f list \<Rightarrow> nat \<Rightarrow> 'f list \<Rightarrow> 'f list" where
  "spread_from fo alpha nb ow p i nx =
     (if not_positive fo (ow ! i) \<or> fl_eq fo (p ! i) (fl_of_nat fo 0) then nx
      else foldl (\<lambda>nx (j, w).
             add_at fo j (fl_mul fo (restart_rest fo alpha (p ! i)) (fl_div fo w (ow ! i))) nx)
             nx (nb ! i))"

definition teleport_at ::
  "'f float_ops \<Rightarrow> 'f \<Rightarrow> 'f list \<Rightarrow> 'f list \<Rightarrow> 'f list \<Rightarrow> nat \<Rightarrow> 'f list \<Rightarrow> 'f list" where
  "teleport_at fo alpha ow tele p i nx =
     (let nx1 = add_at fo i (fl_mul fo alpha (tele ! i)) nx in
      if not_positive fo (ow ! i) \<and> fl_lt fo (fl_of_nat fo 0) (p ! i) then
        foldl (\<lambda>nx j. add_at fo j (fl_mul fo (restart_rest fo alpha (p ! i)) (tele ! j)) nx)
          nx1 [0..<length p]
      else nx1)"

definition ppr_step ::
  "'f float_ops \<Rightarrow> 'f \<Rightarrow> 'f indexed \<Rightarrow> 'f list \<Rightarrow> 'f list \<Rightarrow> 'f list \<Rightarrow> 'f list" where
  "ppr_step fo alpha nb ow tele p =
     foldl (\<lambda>nx i. teleport_at fo alpha ow tele p i nx)
       (foldl (\<lambda>nx i. spread_from fo alpha nb ow p i nx)
          (replicate (length p) (fl_of_nat fo 0)) [0..<length p])
       [0..<length p]"

definition fl_abs :: "'f float_ops \<Rightarrow> 'f \<Rightarrow> 'f" where
  "fl_abs fo x = (if fl_lt fo x (fl_of_nat fo 0) then fl_sub fo (fl_of_nat fo 0) x else x)"

definition l1_distance :: "'f float_ops \<Rightarrow> 'f list \<Rightarrow> 'f list \<Rightarrow> 'f" where
  "l1_distance fo p q = sum_floats fo (map2 (\<lambda>a b. fl_abs fo (fl_sub fo a b)) p q)"

fun ppr_iterate ::
  "'f float_ops \<Rightarrow> 'f \<Rightarrow> 'f \<Rightarrow> 'f indexed \<Rightarrow> 'f list \<Rightarrow> 'f list \<Rightarrow> nat \<Rightarrow> nat \<Rightarrow> 'f list
     \<Rightarrow> 'f list \<times> nat" where
  "ppr_iterate fo alpha tol nb ow tele 0 it p = (p, it)"
| "ppr_iterate fo alpha tol nb ow tele (Suc k) it p =
     (let nx = ppr_step fo alpha nb ow tele p in
      if fl_lt fo (l1_distance fo p nx) tol then (nx, it + 1)
      else ppr_iterate fo alpha tol nb ow tele k (it + 1) nx)"

subsection \<open>Distances\<close>

text \<open>\<open>u32::MAX\<close>, the distance of what was not reached.\<close>

definition no_hops :: nat where "no_hops = 2 ^ 32 - 1"

lemma no_hops_pos [simp]: "0 < no_hops" "no_hops \<noteq> 0"
  by (simp_all add: no_hops_def)

definition bfs_visit :: "nat \<Rightarrow> nat list \<times> nat list \<Rightarrow> nat \<Rightarrow> nat list \<times> nat list" where
  "bfs_visit depth st j =
     (case st of (hops, next) \<Rightarrow>
        if hops ! j = no_hops then (hops[j := depth + 1], next @ [j]) else (hops, next))"

definition bfs_layer :: "nat \<Rightarrow> 'f indexed \<Rightarrow> nat list \<Rightarrow> nat list \<Rightarrow> nat list \<times> nat list" where
  "bfs_layer depth nb frontier hops =
     foldl (\<lambda>st i. foldl (\<lambda>st (j, _). bfs_visit depth st j) st (nb ! i)) (hops, []) frontier"

text \<open>The loop, with the hops still allowed.\<close>

fun bfs_loop :: "nat \<Rightarrow> nat \<Rightarrow> 'f indexed \<Rightarrow> nat list \<Rightarrow> nat list \<Rightarrow> nat list" where
  "bfs_loop 0 depth nb frontier hops = hops"
| "bfs_loop (Suc k) depth nb frontier hops =
     (if frontier = [] then hops
      else (case bfs_layer depth nb frontier hops of (hops', next) \<Rightarrow>
             bfs_loop k (depth + 1) nb next hops'))"

definition bfs_hops :: "'f indexed \<Rightarrow> nat list \<Rightarrow> nat \<Rightarrow> nat list" where
  "bfs_hops nb seeds max_hops =
     bfs_loop max_hops 0 nb seeds
       (foldl (\<lambda>hops s. hops[s := 0]) (replicate (length nb) no_hops) seeds)"

subsection \<open>The search\<close>

definition seed_vector :: "'f float_ops \<Rightarrow> nat \<Rightarrow> nat list \<Rightarrow> 'f list" where
  "seed_vector fo n is =
     foldl (\<lambda>p i. p[i := fl_div fo (fl_of_nat fo 1) (fl_of_nat fo (length is))])
       (replicate n (fl_of_nat fo 0)) is"

definition personalised_pagerank ::
  "'f float_ops \<Rightarrow> 'f graph \<Rightarrow> string list \<Rightarrow> 'f ppr_config \<Rightarrow> 'f ppr_result" where
  "personalised_pagerank fo g seeds cfg =
     (if seeds = [] then \<lparr>pq_seeds = [], pq_ranked = [], pq_iterations = 0\<rparr>
      else
        (let ids = node_ids g; n = length ids; nb = indexed_neighbours fo g; ow = out_weights fo nb;
             is = List.map_filter (index_of ids) seeds in
         if is = [] then \<lparr>pq_seeds = seeds, pq_ranked = [], pq_iterations = 0\<rparr>
         else
           (let p = seed_vector fo n is;
                (q, its) = ppr_iterate fo (pc_alpha cfg) (pc_tolerance cfg) nb ow p
                             (pc_max_iterations cfg) 0 p;
                hops = bfs_hops nb is (pc_max_hops cfg)
            in \<lparr>pq_seeds = seeds,
                pq_ranked = sort_desc (fl_lt fo) ph_score
                  (map (\<lambda>i. \<lparr>ph_id = ids ! i, ph_score = q ! i, ph_hops = hops ! i\<rparr>) [0..<n]),
                pq_iterations = its\<rparr>)))"

definition multi_hop_search ::
  "'f float_ops \<Rightarrow> 'f graph \<Rightarrow> string \<Rightarrow> nat \<Rightarrow> 'f ppr_config \<Rightarrow> nat \<Rightarrow> 'f ppr_result" where
  "multi_hop_search fo g query max_seeds cfg top_k =
     (let r = personalised_pagerank fo g (find_seeds g query max_seeds) cfg in
      r\<lparr>pq_ranked := take top_k (filter (\<lambda>h. ph_hops h \<le> pc_max_hops cfg) (pq_ranked r))\<rparr>)"

subsection \<open>Indices\<close>

lemma index_of_nth: "distinct vs \<Longrightarrow> i < length vs \<Longrightarrow> index_of vs (vs ! i) = Some i"
  by (simp add: index_of_def map_of_zip_nth)

lemma index_of_Some: "distinct vs \<Longrightarrow> index_of vs v = Some i \<longleftrightarrow> i < length vs \<and> vs ! i = v"
  using index_of_nth [of vs i] 
  by (auto simp: index_of_def set_zip dest!: map_of_SomeD)

lemma length_indexed [simp]: "length (indexed_neighbours fo g) = length (node_ids g)"
  by (simp add: indexed_neighbours_def)

lemma set_indexed:
  assumes "graph_ok g" and "i < length (node_ids g)"
  shows "set (indexed_neighbours fo g ! i) = {(j, w). j < length (node_ids g)
    \<and> (node_ids g ! j, w) \<in> set (undirected_neighbours fo g (node_ids g ! i))}"
proof -
  have "index_of (node_ids g) u = Some j \<longleftrightarrow> j < length (node_ids g) \<and> node_ids g ! j = u" for u j
    by (rule index_of_Some) (rule distinct_node_ids [OF assms(1)])
  then show ?thesis using assms(2)
    by (auto simp: indexed_neighbours_def intro!: bexI [rotated])
qed

lemma indexed_neighbours_iff:
  assumes "graph_ok g" and "i < length (node_ids g)"
  shows "j \<in> fst ` set (indexed_neighbours fo g ! i)
    \<longleftrightarrow> j < length (node_ids g)
      \<and> node_ids g ! j \<in> fst ` set (undirected_neighbours fo g (node_ids g ! i))"
  by (force simp: set_indexed [OF assms] image_iff)

lemma indexed_bound:
  "graph_ok g \<Longrightarrow> i < length (node_ids g) \<Longrightarrow> (j, w) \<in> set (indexed_neighbours fo g ! i) \<Longrightarrow>
     j < length (node_ids g)"
  by (simp add: set_indexed)

subsection \<open>The distances are shortest distances\<close>

text \<open>The positions within \<open>k\<close> hops of the seeds.\<close>

fun within_idx :: "'f indexed \<Rightarrow> nat list \<Rightarrow> nat \<Rightarrow> nat set" where
  "within_idx nb seeds 0 = set seeds"
| "within_idx nb seeds (Suc k) =
     within_idx nb seeds k \<union> (\<Union>i \<in> within_idx nb seeds k. fst ` set (nb ! i))"

lemma within_mono: "j \<le> k \<Longrightarrow> within_idx nb seeds j \<subseteq> within_idx nb seeds k"
  by (rule lift_Suc_mono_le) auto

lemma within_next:
  "i \<in> within_idx nb seeds m \<Longrightarrow> m < k \<Longrightarrow> fst ` set (nb ! i) \<subseteq> within_idx nb seeds k"
  using within_mono [of "Suc m" k nb seeds] by auto

definition indexed_ok :: "'f indexed \<Rightarrow> bool" where
  "indexed_ok nb \<longleftrightarrow> (\<forall>i < length nb. \<forall>(j, w) \<in> set (nb ! i). j < length nb)"

lemma within_bound:
  "indexed_ok nb \<Longrightarrow> set seeds \<subseteq> {..<length nb} \<Longrightarrow> within_idx nb seeds k \<subseteq> {..<length nb}"
  by (induction k) (force simp: indexed_ok_def)+

lemma visits:
  assumes "d + 1 < no_hops"
  shows "foldl (bfs_visit d) (hops, nx) js = (hops', nx') \<Longrightarrow>
     length hops' = length hops
     \<and> (\<forall>j < length hops. hops' ! j = (if j \<in> set js \<and> hops ! j = no_hops then d + 1 else hops ! j))
     \<and> (set js \<subseteq> {..<length hops} \<longrightarrow> set nx' = set nx \<union> {j \<in> set js. hops ! j = no_hops})"
proof (induction js arbitrary: hops nx)
  case (Cons a js)
  let ?h = "if hops ! a = no_hops then hops[a := d + 1] else hops"
  let ?n = "if hops ! a = no_hops then nx @ [a] else nx"
  have "foldl (bfs_visit d) (?h, ?n) js = (hops', nx')"
    using Cons.prems by (simp add: bfs_visit_def [of d "(hops, nx)" a] split: if_splits)
  note IH = Cons.IH [OF this]
  have len: "length ?h = length hops" by simp
  have h: "?h ! j = (if hops ! a = no_hops \<and> j = a then d + 1 else hops ! j)" if "j < length hops" for j
    using that by (simp add: nth_list_update)
  have IH2: "hops' ! j = (if j \<in> set js \<and> ?h ! j = no_hops then d + 1 else ?h ! j)"
    if "j < length hops" for j using IH that unfolding len by blast
  have "hops' ! j = (if j \<in> set (a # js) \<and> hops ! j = no_hops then d + 1 else hops ! j)"
    if "j < length hops" for j
    using IH2 [OF that] h [OF that] assms by (cases "j = a"; cases "hops ! a = no_hops") simp_all
  moreover have "set nx' = set nx \<union> {j \<in> set (a # js). hops ! j = no_hops}"
    if sub: "set (a # js) \<subseteq> {..<length hops}"
  proof -
    have "set nx' = set ?n \<union> {j \<in> set js. ?h ! j = no_hops}" using IH sub unfolding len by simp
    moreover have "?h ! j = no_hops \<longleftrightarrow> hops ! j = no_hops \<and> (hops ! a = no_hops \<longrightarrow> j \<noteq> a)"
      if "j \<in> set js" for j
    proof -
      have "j < length hops" using sub that by auto
      then show ?thesis using h [of j] assms by auto
    qed
    ultimately show ?thesis by (cases "hops ! a = no_hops") auto
  qed
  ultimately show ?case using IH len by simp
qed simp

lemma layer_visits:
  "bfs_layer d nb frontier hops
     = foldl (bfs_visit d) (hops, []) (concat (map (\<lambda>i. map fst (nb ! i)) frontier))"
proof -
  have inner: "foldl (\<lambda>st (j, _). bfs_visit d st j) st ns = foldl (bfs_visit d) st (map fst ns)"
    for st and ns :: "(nat \<times> 'a) list"
    by (induction ns arbitrary: st) auto
  have "foldl (\<lambda>st i. foldl (bfs_visit d) st (map fst (nb ! i))) st frontier
      = foldl (bfs_visit d) st (concat (map (\<lambda>i. map fst (nb ! i)) frontier))" for st
    by (induction frontier arbitrary: st) simp_all
  then show ?thesis by (simp add: bfs_layer_def inner)
qed

definition bfs_inv :: "'f indexed \<Rightarrow> nat list \<Rightarrow> nat \<Rightarrow> nat list \<Rightarrow> nat list \<Rightarrow> bool" where
  "bfs_inv nb seeds d frontier hops \<longleftrightarrow> length hops = length nb
     \<and> (\<forall>k \<le> d. \<forall>j < length nb. hops ! j \<le> k \<longleftrightarrow> j \<in> within_idx nb seeds k)
     \<and> (\<forall>j < length nb. hops ! j \<le> d \<or> hops ! j = no_hops)
     \<and> set frontier = {j. j < length nb \<and> hops ! j = d}"

lemma frontier_next:
  assumes inv: "bfs_inv nb seeds d frontier hops" and bound: "within_idx nb seeds d \<subseteq> {..<length nb}"
  shows "within_idx nb seeds (Suc d)
    = within_idx nb seeds d \<union> (\<Union>i \<in> set frontier. fst ` set (nb ! i))"
proof -
  have "fst ` set (nb ! i) \<subseteq> within_idx nb seeds d"
    if i: "i \<in> within_idx nb seeds d" and not: "i \<notin> set frontier" for i
  proof -
    have "i < length nb" "hops ! i \<le> d" "hops ! i \<noteq> d"
      using inv bound i not by (auto simp: bfs_inv_def)
    moreover from this have "i \<in> within_idx nb seeds (hops ! i)"
      using inv unfolding bfs_inv_def by blast
    ultimately show ?thesis by (intro within_next) auto
  qed
  moreover have "set frontier \<subseteq> within_idx nb seeds d"
    using inv by (auto simp: bfs_inv_def)
  ultimately show ?thesis by auto
qed

lemma bfs_inv_layer:
  assumes inv: "bfs_inv nb seeds d frontier hops" and ok: "indexed_ok nb"
    and seeds: "set seeds \<subseteq> {..<length nb}" and d: "d + 1 < no_hops"
    and layer: "bfs_layer d nb frontier hops = (hops', nx)"
  shows "bfs_inv nb seeds (Suc d) nx hops'"
proof -
  let ?js = "concat (map (\<lambda>i. map fst (nb ! i)) frontier)"
  have js: "set ?js = (\<Union>i \<in> set frontier. fst ` set (nb ! i))" by auto
  have len: "length hops = length nb" using inv by (simp add: bfs_inv_def)
  have bound: "set ?js \<subseteq> {..<length hops}"
    using ok inv unfolding js len by (fastforce simp: indexed_ok_def bfs_inv_def)
  note v = visits [OF d layer [unfolded layer_visits]]
  have h: "hops' ! j = (if j \<in> set ?js \<and> hops ! j = no_hops then d + 1 else hops ! j)"
    if "j < length nb" for j using v that len by simp
  have new: "set nx = {j \<in> set ?js. hops ! j = no_hops}" using v bound by simp
  have W: "within_idx nb seeds (Suc d) = within_idx nb seeds d \<union> set ?js"
    unfolding js by (rule frontier_next [OF inv within_bound [OF ok seeds]])
  have old: "hops ! j \<le> d \<or> hops ! j = no_hops" if "j < length nb" for j
    using inv that unfolding bfs_inv_def by blast
  have small: "hops' ! j \<le> k \<longleftrightarrow> hops ! j \<le> k" if "j < length nb" "k \<le> d" for j k
    using h [OF that(1)] that(2) d by auto
  have "hops' ! j \<le> k \<longleftrightarrow> j \<in> within_idx nb seeds k" if j: "j < length nb" and k: "k \<le> Suc d" for j k
  proof (cases "k \<le> d")
    case True
    then show ?thesis using inv small [OF j True] j by (simp add: bfs_inv_def)
  next
    case False
    then have "k = Suc d" using k by simp
    moreover have "hops' ! j \<le> Suc d \<longleftrightarrow> hops ! j \<le> d \<or> j \<in> set ?js"
      using h [OF j] old [OF j] d by auto
    moreover have "hops ! j \<le> d \<longleftrightarrow> j \<in> within_idx nb seeds d"
      using inv j by (simp add: bfs_inv_def)
    ultimately show ?thesis by (simp only: W Un_iff)
  qed
  moreover have "hops' ! j \<le> Suc d \<or> hops' ! j = no_hops" if "j < length nb" for j
    using h [OF that] old [OF that] by auto
  moreover have "j \<in> set nx \<longleftrightarrow> j < length nb \<and> hops' ! j = Suc d" for j
  proof (cases "j < length nb")
    case True
    then show ?thesis using h [OF True] old [OF True] d unfolding new by (cases "j \<in> set ?js") auto
  next
    case False
    then show ?thesis using bound len unfolding new by auto
  qed
  ultimately show ?thesis using v len by (auto simp: bfs_inv_def)
qed

lemma within_stop:
  assumes "bfs_inv nb seeds d [] hops" and "within_idx nb seeds d \<subseteq> {..<length nb}"
  shows "within_idx nb seeds (d + k) = within_idx nb seeds d"
proof (induction k)
  case (Suc k)
  have "fst ` set (nb ! i) \<subseteq> within_idx nb seeds d" if "i \<in> within_idx nb seeds d" for i
    using frontier_next [OF assms] that by auto
  then show ?case using Suc by auto
qed simp

lemma bfs_loop_hops:
  assumes ok: "indexed_ok nb" and seeds: "set seeds \<subseteq> {..<length nb}"
  shows "bfs_inv nb seeds d frontier hops \<Longrightarrow> d + m < no_hops \<Longrightarrow> k \<le> d + m \<Longrightarrow> j < length nb \<Longrightarrow>
     bfs_loop m d nb frontier hops ! j \<le> k \<longleftrightarrow> j \<in> within_idx nb seeds k"
proof (induction m arbitrary: d frontier hops)
  case 0
  then show ?case by (simp add: bfs_inv_def)
next
  case (Suc m)
  show ?case
  proof (cases "frontier = []")
    case True
    have "hops ! j \<le> k \<longleftrightarrow> j \<in> within_idx nb seeds k"
    proof (cases "k \<le> d")
      case False
      then have "within_idx nb seeds k = within_idx nb seeds d"
        using within_stop [of nb seeds d hops "k - d"] Suc.prems(1) within_bound [OF ok seeds] True
        by simp
      moreover have "hops ! j \<le> k \<longleftrightarrow> hops ! j \<le> d"
        using False Suc.prems unfolding bfs_inv_def
        by (metis Suc_leD le_trans nat_le_linear not_le)
      ultimately show ?thesis using Suc.prems by (simp add: bfs_inv_def)
    qed (use Suc.prems in \<open>simp add: bfs_inv_def\<close>)
    then show ?thesis using True by simp
  next
    case False
    obtain hops' nx where l: "bfs_layer d nb frontier hops = (hops', nx)" by fastforce
    have "bfs_inv nb seeds (Suc d) nx hops'"
      using bfs_inv_layer [OF Suc.prems(1) ok seeds _ l] Suc.prems by simp
    then show ?thesis using Suc False l by simp
  qed
qed

lemma starts: "set seeds \<subseteq> {..<length hops} \<Longrightarrow> length (foldl (\<lambda>hops s. hops[s := 0]) hops seeds) = length hops
    \<and> (\<forall>j < length hops. foldl (\<lambda>hops s. hops[s := (0::nat)]) hops seeds ! j
         = (if j \<in> set seeds then 0 else hops ! j))"
  by (induction seeds arbitrary: hops) (auto simp: nth_list_update)

lemma bfs_hops_within:
  assumes "indexed_ok nb" and "set seeds \<subseteq> {..<length nb}" and "max_hops < no_hops"
    and "k \<le> max_hops" and "j < length nb"
  shows "bfs_hops nb seeds max_hops ! j \<le> k \<longleftrightarrow> j \<in> within_idx nb seeds k"
proof -
  let ?start = "foldl (\<lambda>hops s. hops[s := 0]) (replicate (length nb) no_hops) seeds"
  have "length ?start = length nb" "\<And>j. j < length nb \<Longrightarrow> ?start ! j = (if j \<in> set seeds then 0 else no_hops)"
    using assms(2) starts [of seeds "replicate (length nb) no_hops"] by simp_all
  then have "bfs_inv nb seeds 0 seeds ?start"
    using assms(2) no_hops_pos by (auto simp: bfs_inv_def split: if_splits)
  then show ?thesis
    unfolding bfs_hops_def using assms bfs_loop_hops [OF assms(1,2)] by simp
qed

definition linked :: "'f graph \<Rightarrow> string \<Rightarrow> string \<Rightarrow> bool" where
  "linked g u v \<longleftrightarrow> (\<exists>e \<in> set (gr_edges g). {ed_from e, ed_to e} = {u, v})"

text \<open>The nodes within \<open>k\<close> edges of the seeds, edges being taken in both directions.\<close>

fun within_hops :: "'f graph \<Rightarrow> string list \<Rightarrow> nat \<Rightarrow> string set" where
  "within_hops g seeds 0 = {v \<in> set (node_ids g). v \<in> set seeds}"
| "within_hops g seeds (Suc k) = within_hops g seeds k
     \<union> {v \<in> set (node_ids g). \<exists>u \<in> within_hops g seeds k. linked g v u}"

lemma within_hops_nodes: "within_hops g seeds k \<subseteq> set (node_ids g)"
  by (induction k) auto

abbreviation seed_positions :: "'f graph \<Rightarrow> string list \<Rightarrow> nat list" where
  "seed_positions g seeds \<equiv> List.map_filter (index_of (node_ids g)) seeds"

lemma seed_positions_set:
  "graph_ok g \<Longrightarrow> set (seed_positions g seeds) = {i. i < length (node_ids g) \<and> node_ids g ! i \<in> set seeds}"
  by (auto simp: index_of_Some distinct_node_ids)

lemma indexed_ok_neighbours: "graph_ok g \<Longrightarrow> indexed_ok (indexed_neighbours fo g)"
  unfolding indexed_ok_def using indexed_bound by fastforce

lemma within_idx_hops:
  assumes ok: "graph_ok g"
  shows "i < length (node_ids g) \<Longrightarrow> i \<in> within_idx (indexed_neighbours fo g) (seed_positions g seeds) k
    \<longleftrightarrow> node_ids g ! i \<in> within_hops g seeds k"
proof (induction k arbitrary: i)
  case 0
  then show ?case unfolding within_idx.simps seed_positions_set [OF ok] by simp
next
  case (Suc k)
  let ?nb = "indexed_neighbours fo g" and ?is = "seed_positions g seeds" and ?ids = "node_ids g"
  have bound: "within_idx ?nb ?is k \<subseteq> {..<length ?ids}"
    using within_bound [OF indexed_ok_neighbours [OF ok], of "?is" fo k]
    unfolding seed_positions_set [OF ok] by auto
  have step: "i \<in> fst ` set (?nb ! u) \<longleftrightarrow> linked g (?ids ! i) (?ids ! u)"
    if "u < length ?ids" for u
    using Suc.prems by (simp add: indexed_neighbours_iff [OF ok that] neighbours_edge [OF ok]
        linked_def)
  have "(\<exists>u \<in> within_idx ?nb ?is k. i \<in> fst ` set (?nb ! u))
      \<longleftrightarrow> (\<exists>v \<in> within_hops g seeds k. linked g (?ids ! i) v)"
    (is "?L \<longleftrightarrow> ?R")
  proof
    assume ?L
    then obtain u where u: "u \<in> within_idx ?nb ?is k" "i \<in> fst ` set (?nb ! u)" by blast
    then have n: "u < length ?ids" using bound by auto
    have "?ids ! u \<in> within_hops g seeds k" using Suc.IH [OF n] u(1) by simp
    then show ?R using u(2) step [OF n] by blast
  next
    assume ?R
    then obtain v where v: "v \<in> within_hops g seeds k" "linked g (?ids ! i) v" by blast
    then obtain u where n: "u < length ?ids" and u: "?ids ! u = v"
      using within_hops_nodes [of g seeds k] by (metis in_set_conv_nth subsetD)
    have "u \<in> within_idx ?nb ?is k" using Suc.IH [OF n] v(1) u by simp
    then show ?L using step [OF n] v(2) u by blast
  qed
  then show ?case using Suc.IH [OF Suc.prems] Suc.prems by simp
qed

lemma ranked_hits:
  assumes ok: "graph_ok g" and "h \<in> set (pq_ranked (personalised_pagerank fo g seeds cfg))"
  obtains i where "i < length (node_ids g)" "ph_id h = node_ids g ! i"
    "ph_hops h = bfs_hops (indexed_neighbours fo g) (seed_positions g seeds) (pc_max_hops cfg) ! i"
  using assms(2) that
  by (auto simp: personalised_pagerank_def Let_def split: if_splits prod.splits)

lemma hops_exact:
  assumes ok: "graph_ok g" and hit: "h \<in> set (pq_ranked (personalised_pagerank fo g seeds cfg))"
    and "pc_max_hops cfg < no_hops" and "k \<le> pc_max_hops cfg"
  shows "ph_hops h \<le> k \<longleftrightarrow> ph_id h \<in> within_hops g seeds k"
proof -
  obtain i where i: "i < length (node_ids g)" "ph_id h = node_ids g ! i"
      "ph_hops h = bfs_hops (indexed_neighbours fo g) (seed_positions g seeds) (pc_max_hops cfg) ! i"
    by (rule ranked_hits [OF ok hit])
  have "set (seed_positions g seeds) \<subseteq> {..<length (indexed_neighbours fo g)}"
    unfolding seed_positions_set [OF ok] by auto
  then show ?thesis
    using bfs_hops_within [OF indexed_ok_neighbours [OF ok] _ assms(3,4)] i
      within_idx_hops [OF ok i(1)]
    by simp
qed

lemma ranked_ids:
  assumes "graph_ok g" and "pq_ranked (personalised_pagerank fo g seeds cfg) \<noteq> []"
  shows "mset (map ph_id (pq_ranked (personalised_pagerank fo g seeds cfg))) = mset (node_ids g)"
proof -
  have "mset (map ph_id (sort_desc lt ph_score
      (map (\<lambda>i. \<lparr>ph_id = vs ! i, ph_score = q i, ph_hops = hs i\<rparr>) [0..<length vs]))) = mset vs"
    for lt q hs and vs :: "string list"
  proof -
    have "map ph_id (map (\<lambda>i. \<lparr>ph_id = vs ! i, ph_score = q i, ph_hops = hs i\<rparr>) [0..<length vs]) = vs"
      by (simp add: o_def map_nth)
    then show ?thesis by (metis mset_map mset_sort_desc)
  qed
  then show ?thesis using assms(2)
    by (auto simp: personalised_pagerank_def Let_def split: if_splits prod.splits)
qed

text \<open>C12. The hop counts of a ranking are exact: a ranking lists every node once, and the count of a hit
  is the length of a shortest path from a seed, edges taken in both directions, up to the hop
  budget; beyond it, a hit counts as not reached. So a multi-hop search surfaces only nodes within
  its budget of a seed, and never more than asked for.\<close>

theorem hops_are_distances:
  assumes "h \<in> set (pq_ranked (personalised_pagerank fo (build_graph ops) seeds cfg))"
    and "pc_max_hops cfg < no_hops" and "k \<le> pc_max_hops cfg"
  shows "(ph_hops h \<le> k) = (ph_id h \<in> within_hops (build_graph ops) seeds k)
    \<and> mset (map ph_id (pq_ranked (personalised_pagerank fo (build_graph ops) seeds cfg)))
        = mset (node_ids (build_graph ops))
    \<and> list_all (\<lambda>h. ph_id h \<in> within_hops (build_graph ops) (find_seeds (build_graph ops) query n) (pc_max_hops cfg))
        (pq_ranked (multi_hop_search fo (build_graph ops) query n cfg top_k))
    \<and> length (pq_ranked (multi_hop_search fo (build_graph ops) query n cfg top_k)) \<le> top_k"
proof -
  have ok: "graph_ok (build_graph ops)" by (rule graph_ok_ops [OF graph_ok_new])
  have "ph_id h \<in> within_hops (build_graph ops) (find_seeds (build_graph ops) query n) (pc_max_hops cfg)"
    if "h \<in> set (pq_ranked (multi_hop_search fo (build_graph ops) query n cfg top_k))" for h
    using that hops_exact [OF ok _ assms(2) order_refl]
    by (auto simp: multi_hop_search_def Let_def dest!: in_set_takeD)
  moreover have "pq_ranked (personalised_pagerank fo (build_graph ops) seeds cfg) \<noteq> []"
    using assms(1) by auto
  ultimately show ?thesis
    using hops_exact [OF ok assms] ranked_ids [OF ok]
    by (simp add: list_all_iff) (simp add: multi_hop_search_def Let_def)
qed

subsection \<open>The mass of the walk\<close>

text \<open>Exact arithmetic; literals are read by \<open>lit\<close>.\<close>

definition real_ops :: "(string \<Rightarrow> real) \<Rightarrow> real float_ops" where
  "real_ops lit =
     \<lparr>fl_of_nat = real, fl_lit = lit, fl_add = (+), fl_sub = (-), fl_mul = (*), fl_div = (/),
      fl_ln = ln, fl_sqrt = sqrt, fl_max = max, fl_lt = (<), fl_eq = (=)\<rparr>"

lemma real_ops_simps [simp]:
  "fl_of_nat (real_ops lit) n = real n" "fl_add (real_ops lit) x y = x + y"
  "fl_sub (real_ops lit) x y = x - y" "fl_mul (real_ops lit) x y = x * y"
  "fl_div (real_ops lit) x y = x / y" "fl_lt (real_ops lit) x y = (x < y)"
  "fl_eq (real_ops lit) x y = (x = y)"
  by (simp_all add: real_ops_def)

lemma real_ops_lt: "fl_lt (real_ops lit) = (<)"
  by (simp add: real_ops_def)

lemma not_positive_real [simp]: "not_positive (real_ops lit) x \<longleftrightarrow> x \<le> 0"
  by (auto simp: not_positive_def)

lemma restart_rest_real [simp]: "restart_rest (real_ops lit) alpha x = (1 - alpha) * x"
  by (simp add: restart_rest_def)

lemma sum_floats_real [simp]: "sum_floats (real_ops lit) xs = sum_list xs"
proof -
  have "foldl (+) a xs = a + sum_list xs" for a :: real
    by (induction xs arbitrary: a) simp_all
  then show ?thesis by (simp add: sum_floats_def real_ops_def)
qed

text \<open>A vector of masses: its length, its sum, and that no entry is negative.\<close>

definition masses :: "nat \<Rightarrow> real \<Rightarrow> real list \<Rightarrow> bool" where
  "masses n m xs \<longleftrightarrow> length xs = n \<and> sum_list xs = m \<and> (\<forall>x \<in> set xs. 0 \<le> x)"

lemma masses_nth: "masses n m xs \<Longrightarrow> i < n \<Longrightarrow> 0 \<le> xs ! i"
  by (simp add: masses_def)

lemma sum_list_add_at: "j < length xs \<Longrightarrow> sum_list (xs[j := xs ! j + d]) = sum_list xs + (d :: real)"
  by (induction xs arbitrary: j) (auto simp: nth_Cons split: nat.splits)

lemma masses_add_at:
  "masses n m xs \<Longrightarrow> j < n \<Longrightarrow> 0 \<le> d \<Longrightarrow> masses n (m + d) (add_at (real_ops lit) j d xs)"
  by (auto simp: masses_def add_at_def sum_list_add_at dest!: set_update_subset_insert [THEN subsetD])

lemma masses_add_all:
  "masses n m xs \<Longrightarrow> list_all (\<lambda>(j, d). j < n \<and> 0 \<le> d) ys \<Longrightarrow>
     masses n (m + sum_list (map snd ys)) (foldl (\<lambda>nx (j, d). add_at (real_ops lit) j d nx) xs ys)"
proof (induction ys arbitrary: m xs)
  case (Cons y ys)
  obtain j d where y: "y = (j, d)" by fastforce
  have "masses n (m + d) (add_at (real_ops lit) j d xs)"
    using Cons.prems y by (intro masses_add_at) auto
  from Cons.IH [OF this] show ?case using Cons.prems y by (simp add: add.assoc)
qed simp

lemma sum_list_scaled: "sum_list (map (\<lambda>x. (c * x) / t) xs) = c * sum_list xs / (t :: real)"
  by (induction xs) (simp_all add: field_simps add_divide_distrib)

text \<open>A weighted walk: the neighbours are positions, their weights are not negative.\<close>

definition weights_ok :: "nat \<Rightarrow> real indexed \<Rightarrow> bool" where
  "weights_ok n nb \<longleftrightarrow> length nb = n
     \<and> (\<forall>i < n. list_all (\<lambda>(j, w). j < n \<and> 0 \<le> w) (nb ! i))"

definition passed_on :: "real list \<Rightarrow> real list \<Rightarrow> nat \<Rightarrow> real" where
  "passed_on ow p i = (if ow ! i \<le> 0 then 0 else p ! i)"

lemma masses_spread:
  assumes "weights_ok n nb" and "masses n m nx" and "i < n" and "0 \<le> p ! i" and "alpha \<le> 1"
    and "ow = out_weights (real_ops lit) nb"
  shows "masses n (m + (1 - alpha) * passed_on ow p i) (spread_from (real_ops lit) alpha nb ow p i nx)"
proof (cases "ow ! i \<le> 0 \<or> p ! i = 0")
  case True
  then show ?thesis using assms(2) by (auto simp: spread_from_def passed_on_def)
next
  case False
  let ?g = "\<lambda>w. (1 - alpha) * p ! i * (w / ow ! i)"
  have ow: "ow ! i = sum_list (map snd (nb ! i))"
    using assms(1,3,6) by (simp add: weights_ok_def out_weights_def)
  have "list_all (\<lambda>(j, w). j < n \<and> 0 \<le> w) (nb ! i)" using assms(1,3) by (simp add: weights_ok_def)
  then have "list_all (\<lambda>(j, d). j < n \<and> 0 \<le> d) (map (map_prod id ?g) (nb ! i))"
    using False assms(4,5) by (auto simp: list_all_iff)
  from masses_add_all [OF assms(2) this, of lit]
  have "masses n (m + sum_list (map snd (map (map_prod id ?g) (nb ! i))))
      (spread_from (real_ops lit) alpha nb ow p i nx)"
    using False by (simp add: spread_from_def foldl_map case_prod_unfold)
  moreover have "sum_list (map snd (map (map_prod id ?g) (nb ! i)))
      = (1 - alpha) * p ! i * sum_list (map snd (nb ! i)) / ow ! i"
    using sum_list_scaled [of "(1 - alpha) * p ! i" "ow ! i" "map snd (nb ! i)"]
    by (simp add: o_def)
  ultimately show ?thesis using False by (simp add: ow [symmetric] passed_on_def)
qed

definition kept_back :: "real list \<Rightarrow> real list \<Rightarrow> nat \<Rightarrow> real" where
  "kept_back ow p i = (if ow ! i \<le> 0 then p ! i else 0)"

lemma masses_teleport:
  assumes "masses n m nx" and "masses n 1 tele" and "i < n" and "length p = n" and "0 \<le> p ! i"
    and "0 \<le> alpha" and "alpha \<le> 1"
  shows "masses n (m + alpha * tele ! i + (1 - alpha) * kept_back ow p i)
    (teleport_at (real_ops lit) alpha ow tele p i nx)"
proof -
  let ?nx = "add_at (real_ops lit) i (alpha * tele ! i) nx"
  have one: "masses n (m + alpha * tele ! i) ?nx"
    using assms masses_nth [OF assms(2,3)] by (intro masses_add_at) auto
  show ?thesis
  proof (cases "ow ! i \<le> 0 \<and> 0 < p ! i")
    case False
    then have "kept_back ow p i = 0" using assms(5) by (auto simp: kept_back_def)
    then show ?thesis using one False by (auto simp: teleport_at_def Let_def)
  next
    case True
    let ?ys = "map (\<lambda>j. (j, (1 - alpha) * p ! i * tele ! j)) [0..<n]"
    have "list_all (\<lambda>(j, d). j < n \<and> 0 \<le> d) ?ys"
      using True assms masses_nth [OF assms(2)] by (auto simp: list_all_iff)
    from masses_add_all [OF one this, of lit]
    have "masses n (m + alpha * tele ! i + sum_list (map snd ?ys))
        (foldl (\<lambda>nx j. add_at (real_ops lit) j ((1 - alpha) * p ! i * tele ! j) nx) ?nx [0..<n])"
      by (simp add: foldl_map)
    moreover have "sum_list (map snd ?ys) = (1 - alpha) * p ! i"
    proof -
      have "map snd ?ys = map (\<lambda>x. (1 - alpha) * p ! i * x) (map ((!) tele) [0..<n])"
        by (simp add: o_def)
      also have "map ((!) tele) [0..<n] = tele" using assms(2) by (metis map_nth masses_def)
      finally show ?thesis using assms(2) by (simp add: sum_list_const_mult masses_def)
    qed
    ultimately show ?thesis using True assms(4) by (simp add: teleport_at_def Let_def kept_back_def)
  qed
qed

lemma masses_foldl:
  assumes "\<And>i m nx. i < n \<Longrightarrow> masses n m nx \<Longrightarrow> masses n (m + c i) (f i nx)"
  shows "masses n m nx \<Longrightarrow> list_all (\<lambda>i. i < n) is \<Longrightarrow>
    masses n (m + sum_list (map c is)) (foldl (\<lambda>nx i. f i nx) nx is)"
proof (induction "is" arbitrary: m nx)
  case (Cons i "is")
  have "masses n (m + c i) (f i nx)" using Cons.prems assms by simp
  from Cons.IH [OF this] show ?case using Cons.prems by (simp add: add.assoc)
qed simp

lemma masses_step:
  assumes nb: "weights_ok n nb" and p: "masses n 1 p" and tele: "masses n 1 tele"
    and alpha: "0 \<le> alpha" "alpha \<le> 1"
  shows "masses n 1 (ppr_step (real_ops lit) alpha nb (out_weights (real_ops lit) nb) tele p)"
proof -
  let ?ow = "out_weights (real_ops lit) nb" and ?is = "[0..<n]"
  have len: "length p = n" using p by (simp add: masses_def)
  have idx: "list_all (\<lambda>i. i < n) ?is" by (simp add: list_all_iff)
  have zero: "masses n 0 (replicate n 0)" by (simp add: masses_def sum_list_replicate)
  let ?nx = "foldl (\<lambda>nx i. spread_from (real_ops lit) alpha nb ?ow p i nx) (replicate n 0) ?is"
  have "masses n (0 + sum_list (map (\<lambda>i. (1 - alpha) * passed_on ?ow p i) ?is)) ?nx"
    by (rule masses_foldl [OF _ zero idx], rule masses_spread [OF nb])
      (use alpha masses_nth [OF p] in auto)
  moreover have "masses n (m + sum_list (map (\<lambda>i. alpha * tele ! i + (1 - alpha) * kept_back ?ow p i) ?is))
      (foldl (\<lambda>nx i. teleport_at (real_ops lit) alpha ?ow tele p i nx) nx ?is)"
    if "masses n m nx" for m nx
    by (rule masses_foldl [OF _ that idx])
      (use masses_teleport [OF _ tele _ len _ alpha] masses_nth [OF p] in \<open>auto simp: add.assoc\<close>)
  ultimately have "masses n (sum_list (map (\<lambda>i. (1 - alpha) * passed_on ?ow p i) ?is)
      + sum_list (map (\<lambda>i. alpha * tele ! i + (1 - alpha) * kept_back ?ow p i) ?is))
      (ppr_step (real_ops lit) alpha nb ?ow tele p)"
    by (simp add: ppr_step_def len)
  moreover have "sum_list (map (\<lambda>i. (1 - alpha) * passed_on ?ow p i) ?is)
      + sum_list (map (\<lambda>i. alpha * tele ! i + (1 - alpha) * kept_back ?ow p i) ?is)
      = (\<Sum>i\<leftarrow>?is. (1 - alpha) * p ! i) + (\<Sum>i\<leftarrow>?is. alpha * tele ! i)"
    by (simp only: sum_list_addf [symmetric]) 
      (rule arg_cong [of _ _ sum_list], auto simp: passed_on_def kept_back_def)
  moreover have "(\<Sum>i\<leftarrow>?is. c * xs ! i) = c" if "masses n 1 xs" for c xs
  proof -
    have "map (\<lambda>i. c * xs ! i) ?is = map (\<lambda>x. c * x) xs"
      using that map_nth [of xs] by (metis (no_types, lifting) map_map comp_apply map_eq_conv masses_def)
    then show ?thesis using that by (simp add: sum_list_const_mult masses_def)
  qed
  ultimately show ?thesis using p tele by simp
qed

lemma masses_iterate:
  assumes "weights_ok n nb" and "masses n 1 tele" and "0 \<le> alpha" and "alpha \<le> 1"
  shows "masses n 1 p \<Longrightarrow>
    masses n 1 (fst (ppr_iterate (real_ops lit) alpha tol nb (out_weights (real_ops lit) nb) tele k it p))"
proof (induction k arbitrary: it p)
  case (Suc k)
  then show ?case using masses_step [OF assms(1) Suc.prems assms(2,3,4)] by (simp add: Let_def)
qed simp

lemma masses_seeds:
  assumes "0 \<le> (d :: real)"
  shows "distinct is \<Longrightarrow> list_all (\<lambda>i. i < n \<and> xs ! i = 0) is \<Longrightarrow> masses n m xs \<Longrightarrow>
    masses n (m + d * real (length is)) (foldl (\<lambda>p i. p[i := d]) xs is)"
proof (induction "is" arbitrary: m xs)
  case (Cons i "is")
  have "masses n (m + d) (add_at (real_ops undefined) i d xs)"
    using Cons.prems assms by (intro masses_add_at) auto
  then have one: "masses n (m + d) (xs[i := d])" using Cons.prems by (simp add: add_at_def)
  have "j < n \<and> xs[i := d] ! j = 0" if "j \<in> set is" for j
    using Cons.prems that by (cases "j = i") (auto simp: list_all_iff)
  then have "list_all (\<lambda>j. j < n \<and> xs[i := d] ! j = 0) is"
    by (simp add: list_all_iff)
  from Cons.IH [OF _ this one] show ?case using Cons.prems by (simp add: algebra_simps)
qed simp

lemma seed_vector_mass:
  assumes "distinct is" and "list_all (\<lambda>i. i < n) is" and "is \<noteq> []"
  shows "masses n 1 (seed_vector (real_ops lit) n is)"
proof -
  have "masses n 0 (replicate n 0)" by (simp add: masses_def sum_list_replicate)
  from masses_seeds [OF _ assms(1) _ this, of "1 / real (length is)"]
  show ?thesis using assms(2,3) by (auto simp: seed_vector_def list_all_iff)
qed

lemma distinct_map_filter:
  "distinct xs \<Longrightarrow> (\<And>x y z. f x = Some z \<Longrightarrow> f y = Some z \<Longrightarrow> x = y) \<Longrightarrow> distinct (List.map_filter f xs)"
proof (induction xs)
  case (Cons x xs)
  then show ?case
    by (cases "f x") (auto simp: List.map_filter_simps)
qed (simp add: List.map_filter_simps)

lemma distinct_positions: "graph_ok g \<Longrightarrow> distinct seeds \<Longrightarrow> distinct (seed_positions g seeds)"
  by (rule distinct_map_filter) (auto simp: index_of_Some distinct_node_ids)

lemma bump_nonneg:
  "list_all (\<lambda>(_, w). 0 \<le> w) kvs \<Longrightarrow> 0 \<le> w \<Longrightarrow> list_all (\<lambda>(_, w). 0 \<le> w) (bump (real_ops lit) k w kvs)"
  unfolding bump_def
  by (rule list_all_alist_update) (auto simp: list_all_iff split: option.split dest!: map_of_SomeD)

lemma bumps_nonneg:
  "list_all (\<lambda>(_, _, w). 0 \<le> w) xs \<Longrightarrow> list_all (\<lambda>(_, w). 0 \<le> w) kvs \<Longrightarrow>
     list_all (\<lambda>(_, w). 0 \<le> w) (foldl (\<lambda>seen (n, _, w). bump (real_ops lit) n w seen) kvs xs)"
  by (induction xs arbitrary: kvs) (auto simp: bump_nonneg)

lemma neighbours_nonneg:
  assumes "graph_ok g" and "list_all (\<lambda>e. 0 \<le> ed_weight e) (gr_edges g)"
  shows "list_all (\<lambda>(_, w). 0 \<le> w) (undirected_neighbours (real_ops lit) g v)"
proof -
  have "list_all (\<lambda>(_, _, w). 0 \<le> w) (outbound g v)" "list_all (\<lambda>(_, _, w). 0 \<le> w) (inbound g v)"
    using assms by (auto simp: graph_ok_def outbound_def inbound_def out_of_def in_of_def list_all_iff)
  then show ?thesis by (simp add: undirected_neighbours_def bumps_nonneg)
qed

lemma weights_ok_graph:
  assumes "graph_ok g" and "list_all (\<lambda>e. 0 \<le> ed_weight e) (gr_edges g)"
  shows "weights_ok (length (node_ids g)) (indexed_neighbours (real_ops lit) g)"
  using neighbours_nonneg [OF assms, of lit]
  by (auto simp: weights_ok_def list_all_iff set_indexed [OF assms(1)])


definition sample_ops :: "real graph_op list" where
  "sample_ops = [Op_Entity (seed_entity ''a'' Concept_Node ''A'' ''first'' None [])]"

definition sample_ppr :: "real ppr_config" where
  "sample_ppr = \<lparr>pc_alpha = 0, pc_max_iterations = 0, pc_tolerance = 0, pc_max_hops = 1\<rparr>"

lemma sample_ranked:
  "pq_ranked (personalised_pagerank (real_ops (\<lambda>_. 0)) (build_graph sample_ops) [''a''] sample_ppr)
     = [\<lparr>ph_id = ''a'', ph_score = 1, ph_hops = 0\<rparr>]"
  by (simp add: sample_ops_def sample_ppr_def personalised_pagerank_def Let_def add_entity_def node_ids_def
      graph_new_def seed_entity_def index_of_def List.map_filter_def indexed_neighbours_def
      undirected_neighbours_def outbound_def inbound_def seed_vector_def bfs_hops_def bfs_layer_def
      sort_desc_def)

lemma hops_are_distances_witness:
  "ph_id \<lparr>ph_id = ''a'', ph_score = 1, ph_hops = 0\<rparr> \<in> within_hops (build_graph sample_ops) [''a''] 1"
  using hops_are_distances [of "\<lparr>ph_id = ''a'', ph_score = 1, ph_hops = 0\<rparr>" "real_ops (\<lambda>_. 0)" sample_ops
      "[''a'']" sample_ppr 1 "[]" 0 0]
  by (simp add: sample_ranked) (simp add: sample_ppr_def no_hops_def)


end
