(* ===== verification/Graph_Community.thy ===== *)
theory Graph_Community
  imports Graph_Rank
begin

text \<open>
  Communities and what is built on them: the modularity-greedy detection (\<open>community.rs\<close>), the
  three-level summary tree (\<open>raptor.rs\<close>) and the graph-aware retrieval layers
  (\<open>crates/oracle-automate-rag/src/graph_layer.rs\<close>). A membership is an association list in the order
  its \<open>HashMap\<close> iterates; \<open>None\<close> is a panic, which indexing a membership with an unknown node is.
  Community numbers are not bounded by \<open>u32\<close> here.
\<close>

abbreviation mid_dot :: string where
  "mid_dot \<equiv> [CHR 0x20, CHR 0xC2, CHR 0xB7, CHR 0x20]"

record community =
  cy_id :: nat
  cy_members :: "string list"
  cy_summary :: string

type_synonym membership = "(string \<times> nat) list"

record communities =
  cs_communities :: "community list"
  cs_membership :: membership

definition for_node :: "communities \<Rightarrow> string \<Rightarrow> community option" where
  "for_node cs v =
     Option.bind (map_of (cs_membership cs) v) (\<lambda>cid. find (\<lambda>c. cy_id c = cid) (cs_communities cs))"

subsection \<open>Detection\<close>

definition sorted_ids :: "'f graph \<Rightarrow> string list" where
  "sorted_ids g = sort (node_ids g)"

definition init_membership :: "string list \<Rightarrow> membership" where
  "init_membership vs = foldl (\<lambda>m (i, v). AList.update v i m) [] (enumerate 0 vs)"

definition degree_of :: "'f float_ops \<Rightarrow> 'f graph \<Rightarrow> string \<Rightarrow> 'f" where
  "degree_of fo g v = sum_floats fo (map snd (sort_key fst (undirected_neighbours fo g v)))"

definition total_weight :: "'f float_ops \<Rightarrow> 'f graph \<Rightarrow> string list \<Rightarrow> 'f" where
  "total_weight fo g vs = fl_div fo (sum_floats fo (map (degree_of fo g) vs)) (fl_of_nat fo 2)"

text \<open>The weight from a node to each community of its neighbours.\<close>

fun weight_to_communities ::
  "'f float_ops \<Rightarrow> membership \<Rightarrow> (string \<times> 'f) list \<Rightarrow> (nat \<times> 'f) list \<Rightarrow> (nat \<times> 'f) list option" where
  "weight_to_communities fo mem [] acc = Some acc"
| "weight_to_communities fo mem ((n, w) # ns) acc =
     Option.bind (map_of mem n) (\<lambda>c. weight_to_communities fo mem ns (bump fo c w acc))"

text \<open>The total degree of each community, the node itself left out.\<close>

fun community_degrees ::
  "'f float_ops \<Rightarrow> 'f graph \<Rightarrow> membership \<Rightarrow> string \<Rightarrow> string list \<Rightarrow> (nat \<times> 'f) list
     \<Rightarrow> (nat \<times> 'f) list option" where
  "community_degrees fo g mem v [] acc = Some acc"
| "community_degrees fo g mem v (n # ns) acc =
     (if n = v then community_degrees fo g mem v ns acc
      else Option.bind (map_of mem n) (\<lambda>c.
             community_degrees fo g mem v ns (bump fo c (degree_of fo g n) acc)))"

definition modularity_gain :: "'f float_ops \<Rightarrow> 'f \<Rightarrow> 'f \<Rightarrow> 'f \<Rightarrow> 'f \<Rightarrow> 'f" where
  "modularity_gain fo m k_i k_i_to_c sigma_c =
     fl_sub fo (fl_div fo k_i_to_c m)
       (fl_div fo (fl_mul fo sigma_c k_i) (fl_mul fo (fl_mul fo (fl_of_nat fo 2) m) m))"

text \<open>The community a node moves to.\<close>

definition best_community ::
  "'f float_ops \<Rightarrow> 'f graph \<Rightarrow> 'f \<Rightarrow> string list \<Rightarrow> membership \<Rightarrow> string \<Rightarrow> nat option" where
  "best_community fo g m nodes mem v =
     Option.bind (map_of mem v) (\<lambda>cur.
       (let neighbours = sort_key fst (undirected_neighbours fo g v) in
        if neighbours = [] then Some cur
        else
          Option.bind (weight_to_communities fo mem neighbours []) (\<lambda>to_comm.
          Option.bind (community_degrees fo g mem v nodes []) (\<lambda>sigma_tot.
            Some (fst (foldl (\<lambda>(best, best_gain) (cand, k_to).
              if cand = cur then (best, best_gain)
              else
                (let sigma_c = (case map_of sigma_tot cand of Some x \<Rightarrow> x | None \<Rightarrow> fl_of_nat fo 0);
                     gain = modularity_gain fo m (degree_of fo g v) k_to sigma_c in
                 if fl_lt fo best_gain gain then (cand, gain) else (best, best_gain)))
              (cur, fl_of_nat fo 0) (sort_key fst to_comm)))))))"

fun louvain_pass ::
  "'f float_ops \<Rightarrow> 'f graph \<Rightarrow> 'f \<Rightarrow> string list \<Rightarrow> string list \<Rightarrow> membership \<Rightarrow> bool
     \<Rightarrow> (membership \<times> bool) option" where
  "louvain_pass fo g m nodes [] mem moved = Some (mem, moved)"
| "louvain_pass fo g m nodes (v # vs) mem moved =
     Option.bind (map_of mem v) (\<lambda>cur.
     Option.bind (best_community fo g m nodes mem v) (\<lambda>best.
       if best \<noteq> cur then louvain_pass fo g m nodes vs (AList.update v best mem) True
       else louvain_pass fo g m nodes vs mem moved))"

text \<open>The passes still allowed.\<close>

fun louvain ::
  "'f float_ops \<Rightarrow> 'f graph \<Rightarrow> 'f \<Rightarrow> string list \<Rightarrow> nat \<Rightarrow> membership \<Rightarrow> membership option" where
  "louvain fo g m nodes 0 mem = Some mem"
| "louvain fo g m nodes (Suc k) mem =
     Option.bind (louvain_pass fo g m nodes nodes mem False) (\<lambda>(mem', moved).
       if moved then louvain fo g m nodes k mem' else Some mem')"

text \<open>\<open>grouped.entry(key).or_default().push(value)\<close> for every pair.\<close>

definition group_members :: "('v \<times> 'k) list \<Rightarrow> ('k \<times> 'v list) list" where
  "group_members mem =
     foldl (\<lambda>gr (v, c). AList.update c ((case map_of gr c of Some vs \<Rightarrow> vs | None \<Rightarrow> []) @ [v]) gr) [] mem"

definition labels_of :: "'f graph \<Rightarrow> string list \<Rightarrow> string list" where
  "labels_of g vs = List.map_filter (\<lambda>v. map_option en_label (graph_node g v)) vs"

definition community_of :: "'f graph \<Rightarrow> nat \<Rightarrow> string list \<Rightarrow> community" where
  "community_of g c vs =
     (let members = sort vs in
      \<lparr>cy_id = c, cy_members = members,
       cy_summary = join mid_dot (remdups_adj (sort (labels_of g members)))\<rparr>)"

definition build_communities :: "'f graph \<Rightarrow> membership \<Rightarrow> community list" where
  "build_communities g mem = map (\<lambda>(c, vs). community_of g c vs) (group_members mem)"

fun remap_all :: "(nat \<times> nat) list \<Rightarrow> membership \<Rightarrow> membership option" where
  "remap_all remap [] = Some []"
| "remap_all remap ((v, c) # mem) =
     Option.bind (map_of remap c) (\<lambda>n.
     Option.bind (remap_all remap mem) (\<lambda>mem'. Some ((v, n) # mem')))"

definition renumber :: "community list \<Rightarrow> membership \<Rightarrow> (community list \<times> membership) option" where
  "renumber cs mem =
     (let sorted = sort_desc (<) (\<lambda>c. length (cy_members c)) cs;
          remap = foldl (\<lambda>m (i, c). AList.update (cy_id c) i m) [] (enumerate 0 sorted);
          renamed = map (\<lambda>(i, c). c\<lparr>cy_id := i\<rparr>) (enumerate 0 sorted)
      in map_option (Pair renamed) (remap_all remap mem))"

definition detect_communities :: "'f float_ops \<Rightarrow> 'f graph \<Rightarrow> communities option" where
  "detect_communities fo g =
     (let nodes = sorted_ids g; mem = init_membership nodes; m = total_weight fo g nodes in
      if fl_eq fo m (fl_of_nat fo 0) then
        Some \<lparr>cs_communities = build_communities g mem, cs_membership = mem\<rparr>
      else
        Option.bind (louvain fo g m nodes 8 mem) (\<lambda>mem'.
          map_option (\<lambda>(cs, mem''). \<lparr>cs_communities = cs, cs_membership = mem''\<rparr>)
            (renumber (build_communities g mem') mem')))"

subsection \<open>Memberships\<close>

lemma update_keys_fst: "map fst (AList.update k v al) = (if k \<in> fst ` set al then map fst al else map fst al @ [k])"
  by (simp add: update_keys)

lemma init_membership_keys: "distinct vs \<Longrightarrow> map fst (init_membership vs) = vs"
proof -
  have "distinct vs \<Longrightarrow> set vs \<inter> fst ` set m = {} \<Longrightarrow>
      map fst (foldl (\<lambda>m (i, v). AList.update v i m) m (enumerate k vs)) = map fst m @ vs" for m :: membership and k
  proof (induction vs arbitrary: m k)
    case (Cons v vs)
    then have "AList.update v k m = m @ [(v, k)]" by (intro update_new) auto
    then show ?case using Cons by auto
  qed simp
  from this [of "[]" 0] show "distinct vs \<Longrightarrow> map fst (init_membership vs) = vs"
    by (simp add: init_membership_def)
qed

lemma map_of_keys: "map fst mem = vs \<Longrightarrow> v \<in> set vs \<longleftrightarrow> (\<exists>c. map_of mem v = Some c)"
  by (metis map_of_eq_None_iff not_None_eq set_map)

lemma weight_to_communities_total:
  "list_all (\<lambda>(n, w). n \<in> set (map fst mem)) ns \<Longrightarrow> weight_to_communities fo mem ns acc \<noteq> None"
  by (induction fo mem ns acc rule: weight_to_communities.induct)
    (auto simp: map_of_keys [OF refl] simp del: set_map)

lemma community_degrees_total:
  "set ns \<subseteq> set (map fst mem) \<Longrightarrow> community_degrees fo g mem v ns acc \<noteq> None"
  by (induction fo g mem v ns acc rule: community_degrees.induct)
    (auto simp: map_of_keys [OF refl] simp del: set_map)

text \<open>A graph whose edges end at nodes.\<close>

definition closed_graph :: "'f graph \<Rightarrow> bool" where
  "closed_graph g \<longleftrightarrow> list_all (\<lambda>e. ed_from e \<in> set (node_ids g) \<and> ed_to e \<in> set (node_ids g)) (gr_edges g)"

lemma closed_neighbours:
  "graph_ok g \<Longrightarrow> closed_graph g \<Longrightarrow> (n, w) \<in> set (undirected_neighbours fo g v) \<Longrightarrow> n \<in> set (node_ids g)"
  using neighbours_edge [of g n fo v]
  by (force simp: closed_graph_def list_all_iff doubleton_eq_iff image_iff)

lemma best_community_total:
  assumes "graph_ok g" and "closed_graph g" and "map fst mem = vs" and "set vs = set (node_ids g)"
    and "v \<in> set vs"
  shows "best_community fo g m vs mem v \<noteq> None"
proof -
  have "weight_to_communities fo mem (sort_key fst (undirected_neighbours fo g v)) [] \<noteq> None"
    using closed_neighbours [OF assms(1,2)] assms(3,4)
    by (intro weight_to_communities_total) (auto simp: list_all_iff)
  moreover have "community_degrees fo g mem v vs [] \<noteq> None"
    using assms(3) by (intro community_degrees_total) simp
  moreover have "map_of mem v \<noteq> None" using map_of_keys [OF assms(3)] assms(5) by blast
  ultimately show ?thesis by (auto simp: best_community_def Let_def)
qed

lemma louvain_pass_total:
  assumes "graph_ok g" and "closed_graph g" and "set nodes = set (node_ids g)"
  shows "map fst mem = nodes \<Longrightarrow> set vs \<subseteq> set nodes \<Longrightarrow>
    \<exists>mem' moved'. louvain_pass fo g m nodes vs mem moved = Some (mem', moved') \<and> map fst mem' = nodes"
proof (induction vs arbitrary: mem moved)
  case (Cons v vs)
  have v: "v \<in> set nodes" using Cons.prems by simp
  obtain cur where cur: "map_of mem v = Some cur" using map_of_keys [OF Cons.prems(1)] v by blast
  obtain best where best: "best_community fo g m nodes mem v = Some best"
    using best_community_total [OF assms(1,2) Cons.prems(1) assms(3) v] by blast
  have "map fst (AList.update v best mem) = nodes"
    using Cons.prems(1) v by (auto simp: update_keys_fst)
  then show ?case using Cons.IH Cons.prems by (simp add: cur best)
qed simp

lemma louvain_total:
  assumes "graph_ok g" and "closed_graph g" and "set nodes = set (node_ids g)"
  shows "map fst mem = nodes \<Longrightarrow> \<exists>mem'. louvain fo g m nodes k mem = Some mem' \<and> map fst mem' = nodes"
proof (induction k arbitrary: mem)
  case (Suc k)
  obtain mem' moved where "louvain_pass fo g m nodes nodes mem False = Some (mem', moved)" "map fst mem' = nodes"
    using louvain_pass_total [OF assms Suc.prems order_refl, of fo m False] by blast
  then show ?case using Suc.IH by auto
qed simp

subsection \<open>The communities partition the nodes\<close>

lemma group_step_mset:
  "mset (concat (map snd (AList.update c ((case map_of gr c of Some vs \<Rightarrow> vs | None \<Rightarrow> []) @ [v]) gr)))
     = add_mset v (mset (concat (map snd gr)))"
  by (induction gr) auto

lemma group_snoc:
  "group_members (mem @ [(v, c)])
     = AList.update c ((case map_of (group_members mem) c of Some vs \<Rightarrow> vs | None \<Rightarrow> []) @ [v])
         (group_members mem)"
  by (simp add: group_members_def)

lemma group_Nil [simp]: "group_members [] = []"
  by (simp add: group_members_def)

lemma group_mset: "mset (concat (map snd (group_members mem))) = mset (map fst mem)"
proof (induction mem rule: rev_induct)
  case (snoc x mem)
  then show ?case by (cases x) (simp add: group_snoc group_step_mset del: mset_concat)
qed simp

lemma group_distinct: "distinct (map fst (group_members mem))"
proof (induction mem rule: rev_induct)
  case (snoc x mem)
  then show ?case by (cases x) (simp add: group_snoc distinct_update)
qed simp

lemma group_lookup:
  "map_of (group_members mem) c =
     (if c \<in> snd ` set mem then Some (map fst (filter (\<lambda>(_, d). d = c) mem)) else None)"
proof (induction mem rule: rev_induct)
  case (snoc x mem)
  have "filter (\<lambda>(_, d). d = c) mem = []" if "c \<notin> snd ` set mem"
    using that by (force simp: filter_empty_conv)
  then show ?case using snoc by (cases x) (auto simp: group_snoc update_conv')
qed simp

lemma community_of_simps [simp]:
  "cy_id (community_of g c vs) = c" "cy_members (community_of g c vs) = sort vs"
  by (simp_all add: community_of_def Let_def)

lemma mset_concat_sort: "mset (concat (map sort xss)) = mset (concat xss)"
  by (induction xss) simp_all

lemma build_mset: "mset (concat (map cy_members (build_communities g mem))) = mset (map fst mem)"
proof -
  have "map cy_members (build_communities g mem) = map sort (map snd (group_members mem))"
    by (auto simp: build_communities_def)
  then show ?thesis by (simp only: mset_concat_sort group_mset)
qed

lemma build_ids: "map cy_id (build_communities g mem) = map fst (group_members mem)"
  by (auto simp: build_communities_def)

definition matches :: "community list \<Rightarrow> membership \<Rightarrow> bool" where
  "matches cs mem \<longleftrightarrow> distinct (map cy_id cs)
     \<and> (\<forall>v c. map_of mem v = Some c \<longleftrightarrow> (\<exists>com \<in> set cs. cy_id com = c \<and> v \<in> set (cy_members com)))"

lemma build_matches:
  assumes "distinct (map fst mem)"
  shows "matches (build_communities g mem) mem"
proof -
  have "map_of mem v = Some c \<longleftrightarrow> (\<exists>com \<in> set (build_communities g mem). cy_id com = c \<and> v \<in> set (cy_members com))"
    for v c
  proof -
    have "(\<exists>com \<in> set (build_communities g mem). cy_id com = c \<and> v \<in> set (cy_members com))
        \<longleftrightarrow> (\<exists>vs. (c, vs) \<in> set (group_members mem) \<and> v \<in> set vs)"
      by (force simp: build_communities_def)
    also have "\<dots> \<longleftrightarrow> (\<exists>vs. map_of (group_members mem) c = Some vs \<and> v \<in> set vs)"
      by (simp add: map_of_eq_Some_iff [OF group_distinct])
    also have "\<dots> \<longleftrightarrow> (v, c) \<in> set mem"
      by (auto simp: group_lookup) force+
    also have "\<dots> \<longleftrightarrow> map_of mem v = Some c" by (simp add: map_of_eq_Some_iff [OF assms])
    finally show ?thesis by simp
  qed
  then show ?thesis by (simp add: matches_def build_ids group_distinct)
qed

lemma remap_all_total:
  "snd ` set mem \<subseteq> fst ` set remap \<Longrightarrow>
     \<exists>mem'. remap_all remap mem = Some mem' \<and> map fst mem' = map fst mem
       \<and> (\<forall>v. map_of mem' v = Option.bind (map_of mem v) (map_of remap))"
proof (induction remap mem rule: remap_all.induct)
  case (2 remap v c mem)
  obtain n where "map_of remap c = Some n"
    using 2(2) by (metis (no_types, lifting) image_insert insert_subset list.simps(15) map_of_eq_None_iff
        not_None_eq snd_conv)
  with 2 show ?case by auto
qed simp

lemma enumerate_updates:
  "distinct (map cy_id cs) \<Longrightarrow> cy_id ` set cs \<inter> fst ` set m = {} \<Longrightarrow>
     foldl (\<lambda>m (i, c). AList.update (cy_id c) i m) m (enumerate k cs)
       = m @ map (\<lambda>(i, c). (cy_id c, i)) (enumerate k cs)"
proof (induction cs arbitrary: m k)
  case (Cons c cs)
  then have "AList.update (cy_id c) k m = m @ [(cy_id c, k)]" by (intro update_new) auto
  then show ?case using Cons by auto
qed simp

lemma set_enumerate: "set (enumerate 0 xs) = {(i, xs ! i) | i. i < length xs}"
  by (auto simp: in_set_enumerate_eq)

lemma map_enumerate: "map (\<lambda>(i, c). f c) (enumerate k xs) = map f xs"
  by (induction xs arbitrary: k) simp_all

lemma map_enumerate_index: "map (\<lambda>(i, c). i) (enumerate k xs) = [k..<k + length xs]"
  using map_fst_enumerate [of k xs] by (simp add: case_prod_unfold)

lemma renumber_matches:
  assumes "matches cs mem" and "distinct (map fst mem)"
  shows "\<exists>cs' mem'. renumber cs mem = Some (cs', mem') \<and> matches cs' mem' \<and> map fst mem' = map fst mem
    \<and> map cy_id cs' = [0..<length cs] 
    \<and> map cy_members cs' = map cy_members (sort_desc (<) (\<lambda>c. length (cy_members c)) cs)"
proof -
  define ds where "ds = sort_desc (<) (\<lambda>c. length (cy_members c)) cs"
  define remap where "remap = map (\<lambda>(i, c). (cy_id c, i)) (enumerate 0 ds)"
  define cs' where "cs' = map (\<lambda>(i, c). c\<lparr>cy_id := i\<rparr>) (enumerate 0 ds)"
  have dist: "distinct (map cy_id ds)"
    using assms(1) by (metis ds_def matches_def mset_eq_imp_distinct_iff mset_map mset_sort_desc)
  have set_ds: "set ds = set cs" by (simp add: ds_def)
  have fold: "foldl (\<lambda>m (i, c). AList.update (cy_id c) i m) [] (enumerate 0 ds) = remap"
    using enumerate_updates [OF dist, of "[]" 0] by (simp add: remap_def)
  have keys: "map fst remap = map cy_id ds"
    using map_enumerate [of cy_id 0 ds] by (simp add: remap_def o_def case_prod_unfold)
  have look: "map_of remap c = Some n \<longleftrightarrow> (\<exists>i < length ds. c = cy_id (ds ! i) \<and> n = i)" for c n
    using dist keys by (auto simp: map_of_eq_Some_iff remap_def set_enumerate)
  have at: "map_of remap (cy_id (ds ! i)) = Some n \<longleftrightarrow> n = i" if "i < length ds" for i n
    using that nth_eq_iff_index_eq [OF dist, of i] by (auto simp: look)
  have "snd ` set mem \<subseteq> fst ` set remap"
  proof
    fix c assume "c \<in> snd ` set mem"
    then obtain v where "map_of mem v = Some c" using assms(2) by (auto simp: map_of_eq_Some_iff)
    then have "c \<in> cy_id ` set ds" using assms(1) by (auto simp: matches_def set_ds)
    then show "c \<in> fst ` set remap" using keys by (metis set_map)
  qed
  from remap_all_total [OF this] obtain mem' where mem': "remap_all remap mem = Some mem'"
      "map fst mem' = map fst mem" "\<And>v. map_of mem' v = Option.bind (map_of mem v) (map_of remap)"
    by blast
  have ids: "map cy_id cs' = [0..<length cs]"
    using map_enumerate_index [of 0 ds] by (simp add: cs'_def o_def case_prod_unfold ds_def)
  have members: "map cy_members cs' = map cy_members ds"
    using map_enumerate [of cy_members 0 ds] by (simp add: cs'_def o_def case_prod_unfold)
  have "map_of mem' v = Some n \<longleftrightarrow> (\<exists>com \<in> set cs'. cy_id com = n \<and> v \<in> set (cy_members com))" for v n
  proof -
    have "map_of mem' v = Some n \<longleftrightarrow> (\<exists>com \<in> set ds. v \<in> set (cy_members com) \<and> map_of remap (cy_id com) = Some n)"
      using assms(1) by (auto simp: mem'(3) matches_def set_ds bind_eq_Some_conv)
    also have "\<dots> \<longleftrightarrow> (\<exists>i < length ds. v \<in> set (cy_members (ds ! i)) \<and> map_of remap (cy_id (ds ! i)) = Some n)"
      by (metis (no_types, lifting) in_set_conv_nth)
    also have "\<dots> \<longleftrightarrow> (\<exists>i < length ds. v \<in> set (cy_members (ds ! i)) \<and> n = i)"
      using at by blast
    also have "\<dots> \<longleftrightarrow> (\<exists>com \<in> set cs'. cy_id com = n \<and> v \<in> set (cy_members com))"
      by (force simp: cs'_def set_enumerate)
    finally show ?thesis .
  qed
  then have "matches cs' mem'" by (simp add: matches_def ids)
  moreover have "renumber cs mem = Some (cs', mem')"
    using mem'(1) fold by (simp add: renumber_def ds_def [symmetric] cs'_def)
  ultimately show ?thesis using mem'(2) ids members unfolding ds_def by blast
qed

lemma find_sound: "find P xs = Some x \<Longrightarrow> x \<in> set xs \<and> P x"
  by (induction xs) (auto split: if_splits)

lemma for_node_matches:
  assumes "matches (cs_communities cs) (cs_membership cs)"
  shows "for_node cs v = Some com \<longleftrightarrow> com \<in> set (cs_communities cs) \<and> v \<in> set (cy_members com)"
proof -
  have uniq: "c = d" if "c \<in> set (cs_communities cs)" "d \<in> set (cs_communities cs)" "cy_id c = cy_id d" for c d
    using assms that by (auto simp: matches_def distinct_map inj_on_def)
  have found: "find (\<lambda>c. cy_id c = cid) (cs_communities cs) = Some com
      \<longleftrightarrow> com \<in> set (cs_communities cs) \<and> cy_id com = cid" for cid
  proof (cases "find (\<lambda>c. cy_id c = cid) (cs_communities cs)")
    case None
    then have "cy_id com \<noteq> cid" if "com \<in> set (cs_communities cs)"
      using that unfolding find_None_iff by blast
    then show ?thesis using None by auto
  next
    case (Some d)
    note d = find_sound [OF Some]
    show ?thesis
    proof
      assume "find (\<lambda>c. cy_id c = cid) (cs_communities cs) = Some com"
      from find_sound [OF this] show "com \<in> set (cs_communities cs) \<and> cy_id com = cid" .
    next
      assume com: "com \<in> set (cs_communities cs) \<and> cy_id com = cid"
      have "d = com" by (rule uniq) (simp_all only: d com)
      with Some show "find (\<lambda>c. cy_id c = cid) (cs_communities cs) = Some com" by simp
    qed
  qed
  have mem: "map_of (cs_membership cs) v = Some c
      \<longleftrightarrow> (\<exists>d \<in> set (cs_communities cs). cy_id d = c \<and> v \<in> set (cy_members d))" for c
    using assms by (simp add: matches_def)
  have "for_node cs v = Some com
      \<longleftrightarrow> (\<exists>cid. map_of (cs_membership cs) v = Some cid \<and> com \<in> set (cs_communities cs) \<and> cy_id com = cid)"
    by (simp add: for_node_def bind_eq_Some_conv found)
  also have "\<dots> \<longleftrightarrow> (\<exists>d \<in> set (cs_communities cs). com \<in> set (cs_communities cs) \<and> cy_id com = cy_id d
      \<and> v \<in> set (cy_members d))"
    unfolding mem by metis
  also have "\<dots> \<longleftrightarrow> com \<in> set (cs_communities cs) \<and> v \<in> set (cy_members com)"
    using uniq by blast
  finally show ?thesis .
qed

lemma ids_of_ops: "set (node_ids (build_graph ops)) = en_id ` set (entities_of ops)"
  by (simp add: node_ids_keys [OF graph_ok_ops [OF graph_ok_new]] ops_nodes)

lemma sorted_ids_facts:
  assumes "graph_ok g"
  shows "distinct (sorted_ids g)" and "mset (sorted_ids g) = mset (node_ids g)"
    and "set (sorted_ids g) = set (node_ids g)" and "map fst (init_membership (sorted_ids g)) = sorted_ids g"
proof -
  show dist: "distinct (sorted_ids g)" using distinct_node_ids [OF assms] by (simp add: sorted_ids_def)
  show "map fst (init_membership (sorted_ids g)) = sorted_ids g" by (rule init_membership_keys [OF dist])
qed (simp_all add: sorted_ids_def)

text \<open>A result whose communities and membership say the same, and cover the nodes.\<close>

definition partitions :: "'f graph \<Rightarrow> communities \<Rightarrow> bool" where
  "partitions g cs \<longleftrightarrow> matches (cs_communities cs) (cs_membership cs)
     \<and> mset (concat (map cy_members (cs_communities cs))) = mset (node_ids g)"

lemma detect_unweighted:
  assumes ok: "graph_ok g" and zero: "fl_eq fo (total_weight fo g (sorted_ids g)) (fl_of_nat fo 0)"
  shows "\<exists>cs. detect_communities fo g = Some cs \<and> partitions g cs"
proof -
  let ?mem = "init_membership (sorted_ids g)"
  have "matches (build_communities g ?mem) ?mem"
    by (rule build_matches) (simp only: sorted_ids_facts [OF ok])
  moreover have "mset (concat (map cy_members (build_communities g ?mem))) = mset (node_ids g)"
    by (simp only: build_mset sorted_ids_facts [OF ok])
  ultimately show ?thesis using zero by (simp add: detect_communities_def partitions_def Let_def)
qed

definition largest_first :: "community list \<Rightarrow> bool" where
  "largest_first cs \<longleftrightarrow> map cy_id cs = [0..<length cs]
     \<and> sorted_wrt (\<lambda>c d. length (cy_members d) \<le> length (cy_members c)) cs"

lemma detect_weighted:
  assumes ok: "graph_ok g" and closed: "closed_graph g"
    and weight: "\<not> fl_eq fo (total_weight fo g (sorted_ids g)) (fl_of_nat fo 0)"
  shows "\<exists>cs. detect_communities fo g = Some cs \<and> partitions g cs \<and> largest_first (cs_communities cs)"
proof -
  let ?vs = "sorted_ids g" and ?by_size = "sort_desc (<) (\<lambda>c. length (cy_members c))"
  obtain mem where mem: "louvain fo g (total_weight fo g ?vs) ?vs 8 (init_membership ?vs) = Some mem"
      "map fst mem = ?vs"
    using louvain_total [OF ok closed] sorted_ids_facts [OF ok] by blast
  have dmem: "distinct (map fst mem)" unfolding mem(2) by (rule sorted_ids_facts [OF ok])
  let ?bs = "build_communities g mem"
  obtain cs' mem' where r: "renumber ?bs mem = Some (cs', mem')" "matches cs' mem'"
      "map cy_id cs' = [0..<length ?bs]" "map cy_members cs' = map cy_members (?by_size ?bs)"
    using renumber_matches [OF build_matches [OF dmem] dmem] by blast
  have "mset (map cy_members cs') = mset (map cy_members ?bs)"
    unfolding r(4) by (metis mset_map mset_sort_desc)
  then have "mset (concat (map cy_members cs')) = mset (concat (map cy_members ?bs))"
    by (metis mset_concat sum_mset_sum_list mset_map)
  then have "partitions g \<lparr>cs_communities = cs', cs_membership = mem'\<rparr>"
    using r(2) by (simp only: partitions_def communities.simps build_mset mem(2) sorted_ids_facts [OF ok])
  moreover have "largest_first cs'"
  proof -
    have "sorted_wrt (\<lambda>a b. length b \<le> length a) (map cy_members cs')"
      using sort_desc_sorted [OF strict_weak_less, of "\<lambda>c. length (cy_members c)" ?bs]
      unfolding r(4) by (simp add: sorted_wrt_map not_less)
    moreover have "length cs' = length ?bs" using r(3) by (metis length_map length_upt diff_zero)
    ultimately show ?thesis using r(3) by (simp add: largest_first_def sorted_wrt_map)
  qed
  ultimately show ?thesis
    using weight mem(1) r(1) by (simp add: detect_communities_def Let_def)
qed

text \<open>C23. Community detection never fails on a graph whose edges end at entities, and its communities
  partition the nodes: every node is a member of exactly one community, each community has its own
  number, and looking up a node gives the community it is a member of. This holds for any float
  arithmetic, and after at most eight passes. When the graph has weight, the communities are
  numbered from 0 in descending order of size.\<close>

theorem communities_partition:
  assumes "list_all (\<lambda>e. ed_from e \<in> en_id ` set (entities_of ops) \<and> ed_to e \<in> en_id ` set (entities_of ops))
      (edges_of ops)"
  shows "\<exists>cs. detect_communities fo (build_graph ops) = Some cs
    \<and> mset (concat (map cy_members (cs_communities cs))) = mset (node_ids (build_graph ops))
    \<and> distinct (map cy_id (cs_communities cs))
    \<and> {c. for_node cs v = Some c} = {c \<in> set (cs_communities cs). v \<in> set (cy_members c)}
    \<and> (fl_eq fo (total_weight fo (build_graph ops) (sorted_ids (build_graph ops))) (fl_of_nat fo 0)
       \<or> largest_first (cs_communities cs))"
proof -
  let ?g = "build_graph ops"
  have ok: "graph_ok ?g" by (rule graph_ok_ops [OF graph_ok_new])
  have closed: "closed_graph ?g" using assms by (simp add: closed_graph_def ids_of_ops ops_edges)
  obtain cs where cs: "detect_communities fo ?g = Some cs" "partitions ?g cs"
      "fl_eq fo (total_weight fo ?g (sorted_ids ?g)) (fl_of_nat fo 0) \<or> largest_first (cs_communities cs)"
    using detect_unweighted [OF ok] detect_weighted [OF ok closed] by blast
  then show ?thesis
    using for_node_matches [of cs v] by (intro exI [of _ cs]) (simp add: partitions_def matches_def)
qed

lemma communities_partition_witness:
  "\<exists>cs. detect_communities (real_ops (\<lambda>_. 0)) (build_graph sample_ops) = Some cs
    \<and> mset (concat (map cy_members (cs_communities cs))) = {#''a''#}"
  using communities_partition [of sample_ops "real_ops (\<lambda>_. 0)" "''a''"]
  by (auto simp: sample_ops_def seed_entity_def node_ids_def add_entity_def)

subsection \<open>The summary tree\<close>

record raptor_node =
  rn_id :: string
  rn_level :: nat
  rn_summary :: string
  rn_members :: "string list"

record raptor_level =
  rl_level :: nat
  rl_nodes :: "raptor_node list"

type_synonym raptor_tree = "raptor_level list"

definition raptor_leaves :: "raptor_tree \<Rightarrow> raptor_node list" where
  "raptor_leaves t = (case find (\<lambda>l. rl_level l = 0) t of Some l \<Rightarrow> rl_nodes l | None \<Rightarrow> [])"

text \<open>\<open>max_by_key\<close> gives the last of the greatest.\<close>

definition raptor_root :: "raptor_tree \<Rightarrow> raptor_level option" where
  "raptor_root t =
     foldl (\<lambda>best l. case best of
         None \<Rightarrow> Some l | Some b \<Rightarrow> if rl_level b \<le> rl_level l then Some l else Some b) None t"

definition leaf_of :: "entity \<Rightarrow> raptor_node" where
  "leaf_of e =
     \<lparr>rn_id = ''leaf:'' @ en_id e, rn_level = 0,
      rn_summary = en_label e @ '' '' @ em_dash @ '' ''
        @ (case en_description e of Some d \<Rightarrow> d | None \<Rightarrow> []),
      rn_members = [en_id e]\<rparr>"

definition community_node :: "community \<Rightarrow> raptor_node" where
  "community_node c =
     \<lparr>rn_id = ''community:'' @ show_nat (cy_id c), rn_level = 1,
      rn_summary = ''Community #'' @ show_nat (cy_id c) @ '' ('' @ show_nat (length (cy_members c))
        @ '' members): '' @ cy_summary c,
      rn_members = cy_members c\<rparr>"

definition module_of :: "entity \<Rightarrow> string" where
  "module_of e =
     (case find (\<lambda>t. starts_with t ''module:'') (en_tags e) of
        Some t \<Rightarrow> drop (length ''module:'') t | None \<Rightarrow> ''other'')"

definition module_node :: "'f graph \<Rightarrow> string \<Rightarrow> string list \<Rightarrow> raptor_node" where
  "module_node g m members =
     \<lparr>rn_id = ''module:'' @ m, rn_level = 2,
      rn_summary = ''Module '' @ to_uppercase m @ '': '' @ show_nat (length members) @ '' entities ''
        @ em_dash @ '' '' @ join '', '' (labels_of g members),
      rn_members = members\<rparr>"

definition build_raptor_tree :: "'f graph \<Rightarrow> communities \<Rightarrow> raptor_tree" where
  "build_raptor_tree g cs =
     [\<lparr>rl_level = 0, rl_nodes = map (\<lambda>(_, e). leaf_of e) (gr_nodes g)\<rparr>,
      \<lparr>rl_level = 1, rl_nodes = map community_node (cs_communities cs)\<rparr>,
      \<lparr>rl_level = 2,
       rl_nodes = map (\<lambda>(m, vs). module_node g m vs)
         (group_members (map (\<lambda>(_, e). (en_id e, module_of e)) (gr_nodes g)))\<rparr>]"

subsection \<open>The retrieval layers\<close>

record 'f graph_engine =
  ge_graph :: "'f graph"
  ge_communities :: communities
  ge_raptor :: raptor_tree

definition engine_new :: "'f float_ops \<Rightarrow> 'f graph \<Rightarrow> 'f graph_engine option" where
  "engine_new fo g = map_option
     (\<lambda>cs. \<lparr>ge_graph = g, ge_communities = cs, ge_raptor = build_raptor_tree g cs\<rparr>)
     (detect_communities fo g)"

record 'f graph_hit =
  gh_id :: string
  gh_label :: string
  gh_kind :: string
  gh_uri :: "string option"
  gh_score :: 'f
  gh_hops :: nat

record 'f graph_response =
  gp_layer :: string
  gp_seeds :: "string list"
  gp_hits :: "'f graph_hit list"

definition to_graph_hit :: "'f graph \<Rightarrow> 'f ppr_hit \<Rightarrow> 'f graph_hit option" where
  "to_graph_hit g h = map_option
     (\<lambda>e. \<lparr>gh_id = en_id e, gh_label = en_label e, gh_kind = kind_name (en_kind e), gh_uri = en_uri e,
          gh_score = ph_score h, gh_hops = ph_hops h\<rparr>) (graph_node g (ph_id h))"

definition engine_multi_hop ::
  "'f float_ops \<Rightarrow> 'f graph_engine \<Rightarrow> string \<Rightarrow> nat \<Rightarrow> nat \<Rightarrow> nat \<Rightarrow> 'f graph_response" where
  "engine_multi_hop fo ge query max_hops top_k max_seeds =
     (let r = multi_hop_search fo (ge_graph ge) query max_seeds
                ((default_ppr fo)\<lparr>pc_max_hops := max_hops\<rparr>) top_k
      in \<lparr>gp_layer = ''L4 HippoRAG'', gp_seeds = pq_seeds r,
          gp_hits = List.map_filter (to_graph_hit (ge_graph ge)) (pq_ranked r)\<rparr>)"

definition engine_neighborhood ::
  "'f float_ops \<Rightarrow> 'f graph_engine \<Rightarrow> string list \<Rightarrow> nat \<Rightarrow> nat \<Rightarrow> 'f graph_response" where
  "engine_neighborhood fo ge seeds max_hops top_k =
     (let r = personalised_pagerank fo (ge_graph ge) seeds ((default_ppr fo)\<lparr>pc_max_hops := max_hops\<rparr>)
      in \<lparr>gp_layer = ''L4 HippoRAG (explicit seeds)'', gp_seeds = seeds,
          gp_hits = List.map_filter (to_graph_hit (ge_graph ge))
            (take top_k (filter (\<lambda>h. ph_hops h \<le> max_hops) (pq_ranked r)))\<rparr>)"

record community_view =
  cv_id :: nat
  cv_members :: "string list"
  cv_summary :: string
  cv_overlap :: nat

definition community_query :: "'f graph_engine \<Rightarrow> string \<Rightarrow> nat \<Rightarrow> community_view list" where
  "community_query ge query top_k =
     take top_k (sort_desc (<) cv_overlap
       (filter (\<lambda>v. 0 < cv_overlap v)
         (map (\<lambda>c. \<lparr>cv_id = cy_id c, cv_members = cy_members c, cv_summary = cy_summary c,
                cv_overlap = term_score (query_terms query) (to_lowercase (cy_summary c))\<rparr>)
           (cs_communities (ge_communities ge)))))"

record raptor_view =
  rv_id :: string
  rv_level :: nat
  rv_summary :: string
  rv_member_count :: nat

definition raptor_summary :: "'f graph_engine \<Rightarrow> nat \<Rightarrow> nat \<Rightarrow> raptor_view list" where
  "raptor_summary ge level top_k =
     map (\<lambda>n. \<lparr>rv_id = rn_id n, rv_level = rn_level n, rv_summary = rn_summary n,
             rv_member_count = length (rn_members n)\<rparr>)
       (take top_k (case find (\<lambda>l. rl_level l = level) (ge_raptor ge) of
          Some l \<Rightarrow> rl_nodes l | None \<Rightarrow> []))"

definition global_words :: "string list" where
  "global_words =
     [''across'', ''all'', ''every'', ''summarise'', ''summarize'', ''overall'', ''in general'']"

definition multi_hop_words :: "string list" where
  "multi_hop_words =
     [''impact'', ''where used'', ''depends on'', ''calls'', ''callers'', ''downstream'', ''upstream'',
      ''trace'']"

definition engine_route :: "string \<Rightarrow> string option \<Rightarrow> string list" where
  "engine_route query scope_hint =
     (let lc = to_lowercase query;
          global = scope_hint = Some ''global'' \<or> list_ex (contains_str lc) global_words;
          multi_hop = list_ex (contains_str lc) multi_hop_words;
          layers = (if global \<and> \<not> multi_hop then [''L3'', ''L5''] else [])
                   @ (if multi_hop then [''L4''] else [])
      in if layers = [] then [''L2''] else layers)"

subsection \<open>The tree covers the graph\<close>

lemma leaves_mset: "concat (map rn_members (map (\<lambda>(_, e). leaf_of e) kvs)) = map (\<lambda>(_, e). en_id e) kvs"
  by (induction kvs) (auto simp: leaf_of_def)

lemma engine_new_communities:
  "engine_new fo g = Some ge \<Longrightarrow> detect_communities fo g = Some (ge_communities ge) \<and> ge_graph ge = g
     \<and> ge_raptor ge = build_raptor_tree g (ge_communities ge)"
  by (auto simp: engine_new_def)

lemma module_mset:
  "mset (concat (map rn_members (map (\<lambda>(m, vs). module_node g m vs) (group_members (map f kvs)))))
     = mset (map (fst \<circ> f) kvs)"
proof -
  have members: "map rn_members (map (\<lambda>(m, vs). module_node g m vs) gs) = map snd gs" for gs
    by (induction gs) (auto simp: module_node_def)
  show ?thesis unfolding members group_mset by simp
qed

text \<open>Every level of the summary tree covers the graph: whichever of its three levels is asked for, the
  members of the nodes of that level are all entities, each once; the answer to a summary request
  lists the first nodes of the level, and levels beyond the second are empty. An engine can be built
  for every graph whose edges end at entities.\<close>

lemma raptor_levels_cover:
  assumes "list_all (\<lambda>e. ed_from e \<in> en_id ` set (entities_of ops) \<and> ed_to e \<in> en_id ` set (entities_of ops))
      (edges_of ops)"
  shows "\<exists>ge. engine_new fo (build_graph ops) = Some ge
    \<and> map rl_level (ge_raptor ge) = [0, 1, 2]
    \<and> list_all (\<lambda>l. mset (concat (map rn_members (rl_nodes l))) = mset (node_ids (build_graph ops)))
        (ge_raptor ge)
    \<and> raptor_summary ge (Suc (Suc (Suc n))) k = []
    \<and> map rv_member_count (raptor_summary ge 0 k) = replicate (min k (card (en_id ` set (entities_of ops)))) 1"
proof -
  let ?g = "build_graph ops"
  have ok: "graph_ok ?g" by (rule graph_ok_ops [OF graph_ok_new])
  have closed: "closed_graph ?g" using assms by (simp add: closed_graph_def ids_of_ops ops_edges)
  obtain cs where cs: "detect_communities fo ?g = Some cs" "partitions ?g cs"
    using detect_unweighted [OF ok] detect_weighted [OF ok closed] by blast
  let ?t = "build_raptor_tree ?g cs"
  have comm: "map rn_members (map community_node ds) = map cy_members ds" for ds
    by (simp add: community_node_def o_def)
  have "list_all (\<lambda>l. mset (concat (map rn_members (rl_nodes l))) = mset (node_ids ?g)) ?t"
    using cs(2) unfolding build_raptor_tree_def list.pred_inject raptor_level.simps leaves_mset comm module_mset
    by (simp add: partitions_def node_ids_def case_prod_unfold o_def)
  moreover have "map (\<lambda>n. length (rn_members n)) (take k (map (\<lambda>(_, e). leaf_of e) kvs))
      = replicate (min k (length kvs)) 1" for kvs :: "(string \<times> entity) list"
    by (induction kvs arbitrary: k) (auto simp: leaf_of_def take_Cons split: nat.splits)
  moreover have "length (gr_nodes ?g) = card (en_id ` set (entities_of ops))"
    by (simp add: node_count [OF ok] ops_nodes)
  ultimately show ?thesis
    using cs(1) by (simp add: engine_new_def raptor_summary_def o_def) (simp add: build_raptor_tree_def)
qed

lemma raptor_levels_cover_witness:
  "\<exists>ge. engine_new (real_ops (\<lambda>_. 0)) (build_graph sample_ops) = Some ge
     \<and> map rl_level (ge_raptor ge) = [0, 1, 2]"
  using raptor_levels_cover [of sample_ops "real_ops (\<lambda>_. 0)" 0 1] by (auto simp: sample_ops_def)

end
