(* ===== verification/Retrieval.thy ===== *)
theory Retrieval
  imports Kb_Store Json
begin

text \<open>
  The retrieval engine (\<open>lib.rs\<close> and \<open>rerank.rs\<close> in \<open>crates/oracle-automate-rag/src\<close>): reciprocal rank
  fusion of a dense and a sparse ranking, the rerankers, and the hybrid search that puts them
  together. \<open>ord\<close> is the order in which the fused \<open>HashMap\<close> gives its entries. The endpoint of the
  managed reranker is a parameter: the scores it answered with, or \<open>None\<close> when the request failed or
  the answer could not be read. Times are not modelled.
\<close>

subsection \<open>Reciprocal rank fusion\<close>

definition rrf_contribution :: "'f float_ops \<Rightarrow> 'f \<Rightarrow> nat \<Rightarrow> 'f" where
  "rrf_contribution fo k rank =
     fl_div fo (fl_of_nat fo 1) (fl_add fo (fl_add fo k (fl_of_nat fo rank)) (fl_of_nat fo 1))"

definition rrf_add ::
  "'f float_ops \<Rightarrow> 'f \<Rightarrow> (string \<times> 'f search_hit) list \<Rightarrow> nat \<times> 'f search_hit
     \<Rightarrow> (string \<times> 'f search_hit) list" where
  "rrf_add fo k acc = (\<lambda>(rank, c, _).
     let contrib = rrf_contribution fo k rank in
     AList.update (ck_id c)
       (case map_of acc (ck_id c) of Some (d, s) \<Rightarrow> (d, fl_add fo s contrib) | None \<Rightarrow> (c, contrib)) acc)"

definition rrf_scores ::
  "'f float_ops \<Rightarrow> 'f \<Rightarrow> 'f search_hit list \<Rightarrow> 'f search_hit list \<Rightarrow> (string \<times> 'f search_hit) list" where
  "rrf_scores fo k dense sparse =
     foldl (rrf_add fo k) (foldl (rrf_add fo k) [] (enumerate 0 dense)) (enumerate 0 sparse)"

definition reciprocal_rank_fusion ::
  "'f float_ops \<Rightarrow> ((string \<times> 'f search_hit) list \<Rightarrow> (string \<times> 'f search_hit) list)
     \<Rightarrow> 'f search_hit list \<Rightarrow> 'f search_hit list \<Rightarrow> 'f \<Rightarrow> nat \<Rightarrow> 'f search_hit list" where
  "reciprocal_rank_fusion fo ord dense sparse k cap =
     take cap (sort_desc (fl_lt fo) snd (map snd (ord (rrf_scores fo k dense sparse))))"

definition rank_overlap :: "'f search_hit list \<Rightarrow> 'f search_hit list \<Rightarrow> nat" where
  "rank_overlap dense sparse =
     (if dense = [] \<or> sparse = [] then 0
      else length (filter (\<lambda>(c, _). ck_id c \<in> (\<lambda>(d, _). ck_id d) ` set dense) sparse))"

subsection \<open>Rerankers\<close>

record 'f candidate =
  cd_text :: string
  cd_base_score :: 'f

text \<open>A reranked item: the index of a candidate and its score.\<close>

type_synonym 'f reranker_fun = "string \<Rightarrow> 'f candidate list \<Rightarrow> (nat \<times> 'f) list"

fun split_tokens :: "string \<Rightarrow> string \<Rightarrow> string list" where
  "split_tokens cur [] = [rev cur]"
| "split_tokens cur (ch # s) =
     (if is_alnum_char ch \<or> ch = CHR ''_'' then split_tokens (ch # cur) s
      else rev cur # split_tokens [] s)"

definition rerank_tokens :: "string \<Rightarrow> string list" where
  "rerank_tokens tx = filter (\<lambda>t. 2 \<le> length t) (split_tokens [] tx)"

definition is_identifier :: "string \<Rightarrow> bool" where
  "is_identifier t \<longleftrightarrow> 3 \<le> length t \<and> list_ex (\<lambda>c. is_upper_char c \<or> c = CHR ''_'') t"

definition mock_score :: "'f float_ops \<Rightarrow> string list \<Rightarrow> nat \<Rightarrow> 'f candidate \<Rightarrow> 'f" where
  "mock_score fo q_tokens idx c =
     (let body = rerank_tokens (cd_text c);
          overlap = fl_of_nat fo (length (filter (\<lambda>t. t \<in> set body) q_tokens));
          ident_bonus = fl_mul fo (fl_of_nat fo (length (filter (\<lambda>t.
              contains_str (cd_text c) t \<or> contains_str (to_uppercase (cd_text c)) (to_uppercase t))
              (filter is_identifier q_tokens)))) (fl_lit fo ''0.5'');
          pos_decay = fl_div fo (fl_of_nat fo 1)
            (fl_add fo (fl_of_nat fo 1) (fl_mul fo (fl_of_nat fo idx) (fl_lit fo ''0.05'')))
      in fl_add fo (fl_add fo (fl_add fo overlap ident_bonus)
           (fl_mul fo (fl_lit fo ''0.1'') (cd_base_score c))) pos_decay)"

definition mock_rerank :: "'f float_ops \<Rightarrow> 'f reranker_fun" where
  "mock_rerank fo query candidates =
     sort_desc (fl_lt fo) snd
       (map (\<lambda>(idx, c). (idx, mock_score fo (rerank_tokens query) idx c)) (enumerate 0 candidates))"

definition rerank_identity :: "'f candidate list \<Rightarrow> (nat \<times> 'f) list" where
  "rerank_identity candidates = map (\<lambda>(idx, c). (idx, cd_base_score c)) (enumerate 0 candidates)"

text \<open>The managed endpoint: the scores it gives replace those of the candidates they name.\<close>

definition http_rerank ::
  "'f float_ops \<Rightarrow> (string \<Rightarrow> string list \<Rightarrow> (nat \<times> 'f) list option) \<Rightarrow> 'f reranker_fun" where
  "http_rerank fo endpoint query candidates =
     (if candidates = [] then []
      else (case endpoint query (map cd_text candidates) of
              None \<Rightarrow> rerank_identity candidates
            | Some results \<Rightarrow>
                sort_desc (fl_lt fo) snd
                  (enumerate 0 (foldl (\<lambda>scores (i, s). if i < length scores then scores[i := s] else scores)
                     (map cd_base_score candidates) results))))"

record http_reranker_config =
  hr_base_url :: string
  hr_api_key :: string
  hr_model :: string

definition http_reranker_new :: "string \<Rightarrow> string \<Rightarrow> string \<Rightarrow> http_reranker_config" where
  "http_reranker_new base_url api_key model =
     \<lparr>hr_base_url = trim_end_char (CHR ''/'') base_url, hr_api_key = api_key, hr_model = model\<rparr>"

definition http_reranker_from_env :: "(string \<Rightarrow> string option) \<Rightarrow> http_reranker_config option" where
  "http_reranker_from_env env =
     Option.bind (env ''ORACLE_AUTOMATE_RERANK_BASE_URL'') (\<lambda>base_url.
       Some (http_reranker_new base_url (unwrap_or (env ''ORACLE_AUTOMATE_RERANK_API_KEY'') [])
         (unwrap_or (env ''ORACLE_AUTOMATE_RERANK_MODEL'') ''rerank-english-v3.0'')))"

text \<open>What the engine relies on: a reranker gives every candidate back, each once.\<close>

locale reranker =
  fixes rerank :: "'f reranker_fun"
  assumes all_once: "mset (map fst (rerank query cs)) = mset [0..<length cs]"
begin

lemma in_range: "(i, s) \<in> set (rerank query cs) \<Longrightarrow> i < length cs"
proof -
  assume "(i, s) \<in> set (rerank query cs)"
  then have "i \<in> set (map fst (rerank query cs))" by force
  then show ?thesis using mset_eq_setD [OF all_once] by simp
qed

lemma length_rerank: "length (rerank query cs) = length cs"
  using arg_cong [OF all_once, of size] by simp

lemma picked: "mset (map (\<lambda>(i, _). xs ! i) (rerank query cs)) = mset xs" if "length xs = length cs"
proof -
  have "mset (map (\<lambda>(i, _). xs ! i) (rerank query cs)) = image_mset ((!) xs) (mset (map fst (rerank query cs)))"
    by (simp add: case_prod_unfold image_mset.compositionality o_def)
  also have "\<dots> = mset (map ((!) xs) [0..<length xs])" by (simp only: all_once that mset_map [of "(!) xs"])
  finally show ?thesis by (simp only: map_nth)
qed

end

lemma enumerate_keys: "map fst (map (\<lambda>(i, c). (i, f i c)) (enumerate k xs)) = [k..<k + length xs]"
  using map_fst_enumerate [of k xs] by (simp add: o_def case_prod_unfold)

lemma sort_desc_keys: "mset (map f (sort_desc lt key zs)) = mset (map f zs)"
  by (metis mset_map mset_sort_desc)

lemma sorted_enumerate_keys: "mset (map fst (sort_desc lt snd (enumerate 0 xs))) = mset [0..<length xs]"
  by (simp only: sort_desc_keys map_fst_enumerate add_0)

interpretation mock_reranker: reranker "mock_rerank fo" for fo
proof
  show "mset (map fst (mock_rerank fo query cs)) = mset [0..<length cs]" for query cs
    by (simp only: mock_rerank_def sort_desc_keys enumerate_keys add_0)
qed

lemma length_updates:
  "length (foldl (\<lambda>scores (i, s). if i < length scores then scores[i := s] else scores) xs rs) = length xs"
  by (induction rs arbitrary: xs) auto

lemma rerank_identity_fst: "map fst (rerank_identity cs) = [0..<length cs]"
  unfolding rerank_identity_def by (simp only: enumerate_keys add_0)

interpretation http_reranker: reranker "http_rerank fo endpoint" for fo endpoint
proof
  show "mset (map fst (http_rerank fo endpoint query cs)) = mset [0..<length cs]" for query cs
    by (cases "endpoint query (map cd_text cs)")
      (simp_all add: http_rerank_def rerank_identity_fst sorted_enumerate_keys length_updates
        del: mset_map mset_upt)
qed

subsection \<open>The engine\<close>

record rag_query =
  rg_text :: string
  rg_domain :: "domain option"
  rg_top_k :: nat

record 'f rag_engine =
  re_reranker :: "'f reranker_fun option"
  re_rrf_k :: 'f
  re_candidate_pool :: nat

definition rag_engine_new :: "'f float_ops \<Rightarrow> 'f rag_engine" where
  "rag_engine_new fo =
     \<lparr>re_reranker = None, re_rrf_k = fl_of_nat fo 60, re_candidate_pool = 40\<rparr>"

definition with_reranker :: "'f reranker_fun \<Rightarrow> 'f rag_engine \<Rightarrow> 'f rag_engine" where
  "with_reranker r e = e\<lparr>re_reranker := Some r\<rparr>"

definition with_rrf_k :: "'f float_ops \<Rightarrow> 'f \<Rightarrow> 'f rag_engine \<Rightarrow> 'f rag_engine" where
  "with_rrf_k fo k e = e\<lparr>re_rrf_k := fl_max fo k (fl_of_nat fo 1)\<rparr>"

definition with_candidate_pool :: "nat \<Rightarrow> 'f rag_engine \<Rightarrow> 'f rag_engine" where
  "with_candidate_pool n e = e\<lparr>re_candidate_pool := max n 1\<rparr>"

record 'f hit_view =
  hv_document_id :: string
  hv_uri :: string
  hv_title :: string
  hv_snippet :: string
  hv_score :: 'f

abbreviation ellipsis :: string where
  "ellipsis \<equiv> [CHR 0xE2, CHR 0x80, CHR 0xA6]"

definition truncate_text :: "string \<Rightarrow> nat \<Rightarrow> string" where
  "truncate_text s n =
     (if length (utf8_chars s) \<le> n then s else concat (take n (utf8_chars s)) @ ellipsis)"

definition hit_view_of :: "'f search_hit \<Rightarrow> 'f hit_view" where
  "hit_view_of = (\<lambda>(c, s).
     \<lparr>hv_document_id = ck_document_id c, hv_uri = ck_uri c, hv_title = ck_title c,
      hv_snippet = truncate_text (ck_text c) 220, hv_score = s\<rparr>)"

record retrieval_diagnostics =
  rd_dense_candidates :: nat
  rd_sparse_candidates :: nat
  rd_rrf_overlap :: nat
  rd_query_terms :: "string list"
  rd_reranked :: bool
  rd_truncated :: bool

record 'f search_response =
  sr_hits :: "'f hit_view list"
  sr_diagnostics :: retrieval_diagnostics

definition tokenize_query :: "string \<Rightarrow> string list" where
  "tokenize_query tx = tokenize_aux [] tx"

definition store_query :: "'f rag_engine \<Rightarrow> rag_query \<Rightarrow> 'f list option \<Rightarrow> 'f search_query" where
  "store_query e q embedding =
     (let q1 = query_text (rg_text q) (re_candidate_pool e);
          q2 = (case rg_domain q of Some d \<Rightarrow> with_domain d q1 | None \<Rightarrow> q1)
      in case embedding of Some v \<Rightarrow> with_embedding v q2 | None \<Rightarrow> q2)"

text \<open>The reranked hits: a small bias keeps the order of ties.\<close>

definition rerank_hits ::
  "'f float_ops \<Rightarrow> 'f reranker_fun \<Rightarrow> string \<Rightarrow> 'f search_hit list \<Rightarrow> 'f search_hit list" where
  "rerank_hits fo r tx fused =
     List.map_filter (\<lambda>(rank, idx, score).
       if idx < length fused then
         Some (fst (fused ! idx),
           fl_add fo score (fl_mul fo (fl_lit fo ''1e-6'')
             (fl_sub fo (fl_of_nat fo (length fused)) (fl_of_nat fo rank))))
       else None)
       (enumerate 0 (r tx (map (\<lambda>(c, s). \<lparr>cd_text = ck_text c, cd_base_score = s\<rparr>) fused)))"

definition rag_hybrid_search ::
  "'f float_ops \<Rightarrow> ((string \<times> 'f search_hit) list \<Rightarrow> (string \<times> 'f search_hit) list)
     \<Rightarrow> ('f search_query \<Rightarrow> 'e + ('f search_hit list \<times> 'f search_hit list))
     \<Rightarrow> 'f rag_engine \<Rightarrow> rag_query \<Rightarrow> 'f list option \<Rightarrow> 'e + 'f search_response" where
  "rag_hybrid_search fo ord store e q embedding =
     (case store (store_query e q embedding) of
        Err err \<Rightarrow> Err err
      | Ok (dense, sparse) \<Rightarrow>
          (let fused = reciprocal_rank_fusion fo ord dense sparse (re_rrf_k e) (re_candidate_pool e);
               reranked = (case re_reranker e of
                             Some r \<Rightarrow> rerank_hits fo r (rg_text q) fused | None \<Rightarrow> fused)
           in Ok \<lparr>sr_hits = map hit_view_of (take (rg_top_k q) reranked),
                  sr_diagnostics =
                    \<lparr>rd_dense_candidates = length dense, rd_sparse_candidates = length sparse,
                     rd_rrf_overlap = rank_overlap dense sparse,
                     rd_query_terms = tokenize_query (rg_text q),
                     rd_reranked = (re_reranker e \<noteq> None),
                     rd_truncated = (rg_top_k q < length reranked)\<rparr>\<rparr>))"

subsection \<open>What fusion gives\<close>

text \<open>The first hit of a ranking with a given chunk id, with its rank.\<close>

fun rank_of :: "nat \<Rightarrow> 'f search_hit list \<Rightarrow> string \<Rightarrow> (nat \<times> 'f chunk) option" where
  "rank_of i [] v = None"
| "rank_of i ((c, s) # hs) v = (if ck_id c = v then Some (i, c) else rank_of (Suc i) hs v)"

definition fused_score ::
  "'f float_ops \<Rightarrow> 'f \<Rightarrow> 'f search_hit list \<Rightarrow> 'f search_hit list \<Rightarrow> string \<Rightarrow> 'f search_hit option" where
  "fused_score fo k dense sparse v =
     (case (rank_of 0 dense v, rank_of 0 sparse v) of
        (Some (i, c), Some (j, _)) \<Rightarrow> Some (c, fl_add fo (rrf_contribution fo k i) (rrf_contribution fo k j))
      | (Some (i, c), None) \<Rightarrow> Some (c, rrf_contribution fo k i)
      | (None, Some (j, c)) \<Rightarrow> Some (c, rrf_contribution fo k j)
      | (None, None) \<Rightarrow> None)"

definition hit_ids :: "'f search_hit list \<Rightarrow> string list" where
  "hit_ids hs = map (\<lambda>(c, _). ck_id c) hs"

lemma rank_of_None: "rank_of i hs v = None \<longleftrightarrow> v \<notin> set (hit_ids hs)"
  by (induction i hs v rule: rank_of.induct) (auto simp: hit_ids_def)

lemma rank_of_id: "rank_of i hs v = Some (j, c) \<Longrightarrow> ck_id c = v"
  by (induction i hs v rule: rank_of.induct) (auto split: if_splits)

lemma rrf_add_lookup:
  "map_of (rrf_add fo k acc (rank, c, s)) v =
     (if v = ck_id c then Some (case map_of acc v of
          Some (d, t) \<Rightarrow> (d, fl_add fo t (rrf_contribution fo k rank)) | None \<Rightarrow> (c, rrf_contribution fo k rank))
      else map_of acc v)"
  by (simp add: rrf_add_def Let_def update_conv')

lemma rrf_fold_lookup:
  "distinct (hit_ids hs) \<Longrightarrow> map_of (foldl (rrf_add fo k) acc (enumerate i hs)) v =
     (case rank_of i hs v of
        None \<Rightarrow> map_of acc v
      | Some (j, c) \<Rightarrow> Some (case map_of acc v of
          Some (d, t) \<Rightarrow> (d, fl_add fo t (rrf_contribution fo k j)) | None \<Rightarrow> (c, rrf_contribution fo k j)))"
proof (induction hs arbitrary: acc i)
  case (Cons h hs)
  obtain c s where h: "h = (c, s)" by fastforce
  have "rank_of (Suc i) hs v = None" if "v = ck_id c"
    using Cons.prems that unfolding h by (simp add: rank_of_None) (simp add: hit_ids_def)
  then show ?case using Cons unfolding h
    by (auto simp: rrf_add_lookup hit_ids_def split: option.split)
qed simp

lemma rrf_scores_lookup:
  "distinct (hit_ids dense) \<Longrightarrow> distinct (hit_ids sparse) \<Longrightarrow>
     map_of (rrf_scores fo k dense sparse) v = fused_score fo k dense sparse v"
  by (auto simp: rrf_scores_def rrf_fold_lookup fused_score_def split: option.split)

lemma rrf_add_distinct: "distinct (map fst acc) \<Longrightarrow> distinct (map fst (rrf_add fo k acc x))"
  by (cases x) (simp add: rrf_add_def Let_def distinct_update)

lemma rrf_fold_distinct: "distinct (map fst acc) \<Longrightarrow> distinct (map fst (foldl (rrf_add fo k) acc xs))"
  by (induction xs arbitrary: acc) (simp_all add: rrf_add_distinct)

lemma rrf_scores_distinct: "distinct (map fst (rrf_scores fo k dense sparse))"
  by (simp add: rrf_scores_def rrf_fold_distinct)

lemma fused_score_id: "fused_score fo k dense sparse v = Some (c, s) \<Longrightarrow> ck_id c = v"
  by (auto simp: fused_score_def split: option.splits dest: rank_of_id)

lemma fused_score_None:
  "fused_score fo k dense sparse v = None \<longleftrightarrow> v \<notin> set (hit_ids dense) \<union> set (hit_ids sparse)"
  by (auto simp: fused_score_def rank_of_None [of 0, symmetric] split: option.splits)

lemma rrf_scores_entries:
  assumes "distinct (hit_ids dense)" and "distinct (hit_ids sparse)"
  shows "(v, c, s) \<in> set (rrf_scores fo k dense sparse) \<longleftrightarrow> fused_score fo k dense sparse v = Some (c, s)"
  by (simp add: map_of_eq_Some_iff [OF rrf_scores_distinct, symmetric] rrf_scores_lookup [OF assms])

lemma rrf_scores_ids:
  assumes "distinct (hit_ids dense)" and "distinct (hit_ids sparse)"
  shows "map fst (rrf_scores fo k dense sparse) = hit_ids (map snd (rrf_scores fo k dense sparse))"
  using rrf_scores_entries [OF assms] by (force simp: hit_ids_def dest: fused_score_id)

lemma rrf_scores_keys:
  assumes "distinct (hit_ids dense)" and "distinct (hit_ids sparse)"
  shows "set (map fst (rrf_scores fo k dense sparse)) = set (hit_ids dense) \<union> set (hit_ids sparse)"
proof -
  have "v \<in> set (map fst (rrf_scores fo k dense sparse)) \<longleftrightarrow> fused_score fo k dense sparse v \<noteq> None" for v
    using map_of_eq_None_iff [of "rrf_scores fo k dense sparse" v] rrf_scores_lookup [OF assms, of fo k v] by simp
  then show ?thesis unfolding fused_score_None by blast
qed

lemma rrf_hits_entries:
  assumes "distinct (hit_ids dense)" and "distinct (hit_ids sparse)"
    and "\<And>xs. mset (ord xs) = mset xs"
  shows "set (map snd (ord (rrf_scores fo k dense sparse)))
      = {(c, s). fused_score fo k dense sparse (ck_id c) = Some (c, s)}"
    and "mset (hit_ids (map snd (ord (rrf_scores fo k dense sparse)))) = mset (map fst (rrf_scores fo k dense sparse))"
proof -
  let ?e = "rrf_scores fo k dense sparse"
  have set: "set (ord ?e) = set ?e" using assms(3) by (metis set_mset_mset)
  have "(c, s) \<in> set (map snd (ord ?e)) \<longleftrightarrow> (\<exists>v. (v, c, s) \<in> set ?e)" for c s
    by (force simp: set)
  also have "(\<exists>v. (v, c, s) \<in> set ?e) \<longleftrightarrow> fused_score fo k dense sparse (ck_id c) = Some (c, s)" for c s
    unfolding rrf_scores_entries [OF assms(1,2)] using fused_score_id by metis
  finally show "set (map snd (ord ?e)) = {(c, s). fused_score fo k dense sparse (ck_id c) = Some (c, s)}"
    by auto
  have "mset (hit_ids (map snd (ord ?e))) = mset (hit_ids (map snd ?e))"
    unfolding hit_ids_def map_map by (metis assms(3) mset_map)
  then show "mset (hit_ids (map snd (ord ?e))) = mset (map fst ?e)"
    by (simp only: rrf_scores_ids [OF assms(1,2)])
qed

text \<open>C28. Rank fusion is what it is meant to be: from two rankings without repetitions it gives every
  chunk of either, once, with the sum of its reciprocal ranks as its score, best first, cut off at
  the cap; whatever order the map of scores is walked in.\<close>

theorem fusion_ranks_union:
  assumes "strict_weak (fl_lt fo)" and "distinct (hit_ids dense)" and "distinct (hit_ids sparse)"
    and "\<And>xs. mset (ord xs) = mset xs"
  shows "list_all (\<lambda>(c, s). fused_score fo k dense sparse (ck_id c) = Some (c, s))
      (reciprocal_rank_fusion fo ord dense sparse k cap)
    \<and> distinct (hit_ids (reciprocal_rank_fusion fo ord dense sparse k cap))
    \<and> desc_by (fl_lt fo) snd (reciprocal_rank_fusion fo ord dense sparse k cap)
    \<and> length (reciprocal_rank_fusion fo ord dense sparse k cap)
        = min cap (card (set (hit_ids dense) \<union> set (hit_ids sparse)))"
proof -
  let ?e = "rrf_scores fo k dense sparse"
  let ?all = "sort_desc (fl_lt fo) snd (map snd (ord ?e))"
  note entries = rrf_hits_entries [OF assms(2,3,4), of fo k]
  have "mset (hit_ids ?all) = mset (map fst ?e)"
    using entries(2) unfolding hit_ids_def by (simp only: sort_desc_keys)
  then have ids: "distinct (hit_ids ?all)" and size: "length ?all = length ?e"
    using rrf_scores_distinct [of fo k dense sparse]
    by (metis mset_eq_imp_distinct_iff) (simp add: assms(4) mset_eq_length [OF assms(4)])
  have "length ?e = card (set (hit_ids dense) \<union> set (hit_ids sparse))"
    using distinct_card [OF rrf_scores_distinct [of fo k dense sparse]]
    by (simp only: rrf_scores_keys [OF assms(2,3)] length_map)
  moreover have "list_all (\<lambda>(c, s). fused_score fo k dense sparse (ck_id c) = Some (c, s)) (take cap ?all)"
    using entries(1) by (auto simp: list_all_iff dest!: in_set_takeD)
  moreover have "distinct (hit_ids (take cap ?all))"
    using distinct_take [OF ids, of cap] by (simp add: hit_ids_def take_map)
  moreover have "desc_by (fl_lt fo) snd (take cap ?all)"
    using sort_desc_sorted [OF assms(1)] by (rule sorted_wrt_take)
  ultimately show ?thesis by (simp add: reciprocal_rank_fusion_def size min.commute del: length_sort_desc)
qed

lemma fusion_ranks_union_witness:
  "reciprocal_rank_fusion int_ops (\<lambda>xs. xs) [(sample_chunk ''a'' [], 9), (sample_chunk ''b'' [], 5)]
      [(sample_chunk ''b'' [], 7)] 60 10 = [(sample_chunk ''b'' [], 2), (sample_chunk ''a'' [], 1)]
   \<and> distinct (hit_ids (reciprocal_rank_fusion int_ops (\<lambda>xs. xs)
      [(sample_chunk ''a'' [], 9), (sample_chunk ''b'' [], 5)] [(sample_chunk ''b'' [], 7)] 60 10))"
proof -
  have "strict_weak (fl_lt int_ops)" by (auto simp: strict_weak_def int_ops_def)
  then have "distinct (hit_ids (reciprocal_rank_fusion int_ops (\<lambda>xs. xs)
      [(sample_chunk ''a'' [], 9), (sample_chunk ''b'' [], 5)] [(sample_chunk ''b'' [], 7)] 60 10))"
    using fusion_ranks_union [of int_ops "[(sample_chunk ''a'' [], 9), (sample_chunk ''b'' [], 5)]"
        "[(sample_chunk ''b'' [], 7)]" "\<lambda>xs. xs" 60 10]
    by (simp add: hit_ids_def sample_chunk_def)
  moreover have "reciprocal_rank_fusion int_ops (\<lambda>xs. xs) [(sample_chunk ''a'' [], 9), (sample_chunk ''b'' [], 5)]
      [(sample_chunk ''b'' [], 7)] 60 10 = [(sample_chunk ''b'' [], 2), (sample_chunk ''a'' [], 1)]"
    by (simp add: reciprocal_rank_fusion_def rrf_scores_def rrf_add_def rrf_contribution_def Let_def
        sample_chunk_def int_ops_def sort_desc_def)
  ultimately show ?thesis by blast
qed

subsection \<open>What reranking keeps\<close>

lemma map_filter_all:
  "(\<And>x. x \<in> set xs \<Longrightarrow> P x) \<Longrightarrow> List.map_filter (\<lambda>x. if P x then Some (f x) else None) xs = map f xs"
  by (induction xs) (auto simp: List.map_filter_def)

lemma map_filter_range:
  "list_all (\<lambda>(i, _). i < n) ord \<Longrightarrow>
     map fst (List.map_filter (\<lambda>(rank, i, score). if i < n then Some (f i, g rank score) else None)
       (enumerate k ord)) = map (\<lambda>(i, _). f i) ord"
  by (induction ord arbitrary: k) (auto simp: List.map_filter_simps)

context reranker begin

text \<open>Every fused hit comes back, in the order of the reranker.\<close>

lemma rerank_hits_chunks:
  "map fst (rerank_hits fo rerank tx fused)
     = map (\<lambda>(i, _). fst (fused ! i)) (rerank tx (map (\<lambda>(c, s). \<lparr>cd_text = ck_text c, cd_base_score = s\<rparr>) fused))"
proof -
  have "list_all (\<lambda>(i, _). i < length fused)
      (rerank tx (map (\<lambda>(c, s). \<lparr>cd_text = ck_text c, cd_base_score = s\<rparr>) fused))"
    using in_range by (fastforce simp: list_all_iff)
  then show ?thesis unfolding rerank_hits_def by (rule map_filter_range)
qed

lemma rerank_keeps: "mset (map fst (rerank_hits fo rerank tx fused)) = mset (map fst fused)"
proof -
  let ?cs = "map (\<lambda>(c, s). \<lparr>cd_text = ck_text c, cd_base_score = s\<rparr>) fused"
  have "map (\<lambda>(i, _). fst (fused ! i)) (rerank tx ?cs) = map (\<lambda>(i, _). map fst fused ! i) (rerank tx ?cs)"
    by (rule map_cong) (auto dest: in_range)
  note eq = this
  show ?thesis unfolding rerank_hits_chunks eq by (rule picked) simp
qed

end

text \<open>Reranking loses and invents nothing: with the term-overlap reranker, and with the managed one
  whatever its endpoint answers, the reranked hits are the fused hits in another order; and when the
  endpoint fails, they keep the order they had.\<close>

lemma rerankers_keep_hits:
  "mset (map fst (rerank_hits fo (mock_rerank fo) tx fused)) = mset (map fst fused)
   \<and> mset (map fst (rerank_hits fo (http_rerank fo endpoint) tx fused)) = mset (map fst fused)
   \<and> map fst (rerank_hits fo (http_rerank fo (\<lambda>_ _. None)) tx fused) = map fst fused"
proof -
  have keys: "map (\<lambda>(i, _). f i) zs = map f (map fst zs)" for f :: "nat \<Rightarrow> 'a chunk" and zs :: "(nat \<times> 'a) list"
    by (simp add: case_prod_unfold)
  have nth: "map (\<lambda>i. fst (xs ! i)) [0..<length xs] = map fst xs" for xs :: "'a search_hit list"
    by (rule nth_equalityI) simp_all
  have "map fst (rerank_hits fo (http_rerank fo (\<lambda>_ _. None)) tx fused) = map fst fused"
    unfolding http_reranker.rerank_hits_chunks keys
    by (cases "fused = []") (simp_all add: http_rerank_def rerank_identity_fst nth del: map_map)
  then show ?thesis using mock_reranker.rerank_keeps http_reranker.rerank_keeps by blast
qed

lemma rerank_hits_from: "(c, s) \<in> set (rerank_hits fo r tx fused) \<Longrightarrow> c \<in> fst ` set fused"
  by (auto simp: rerank_hits_def split: if_splits)

lemma rrf_add_from:
  "list_all (\<lambda>(_, c, _). P c) acc \<Longrightarrow> P c \<Longrightarrow> list_all (\<lambda>(_, c, _). P c) (rrf_add fo k acc (i, c, s))"
proof -
  assume acc: "list_all (\<lambda>(_, c, _). P c) acc" and c: "P c"
  have upd: "list_all Q kvs \<Longrightarrow> Q (u, v) \<Longrightarrow> list_all Q (AList.update u v kvs)" for Q u v and kvs :: "('x \<times> 'y) list"
    by (induction kvs) auto
  show ?thesis unfolding rrf_add_def Let_def prod.case
    using acc c by (intro upd) (auto simp: list_all_iff split: option.split dest!: map_of_SomeD)
qed

lemma rrf_fold_from:
  "list_all (\<lambda>(_, c, _). P c) acc \<Longrightarrow> list_all (\<lambda>(c, _). P c) hs \<Longrightarrow>
     list_all (\<lambda>(_, c, _). P c) (foldl (rrf_add fo k) acc (enumerate i hs))"
  by (induction hs arbitrary: acc i) (auto intro: rrf_add_from)

lemma fusion_from:
  assumes "\<And>xs. mset (ord xs) = mset xs" and "list_all (\<lambda>(c, _). P c) dense" and "list_all (\<lambda>(c, _). P c) sparse"
  shows "list_all (\<lambda>(c, _). P c) (reciprocal_rank_fusion fo ord dense sparse k cap)"
proof -
  have "list_all (\<lambda>(_, c, _). P c) (rrf_scores fo k dense sparse)"
    unfolding rrf_scores_def using assms(2,3) by (intro rrf_fold_from) simp_all
  moreover have "set (ord (rrf_scores fo k dense sparse)) = set (rrf_scores fo k dense sparse)"
    using assms(1) by (metis set_mset_mset)
  ultimately show ?thesis
    by (auto simp: reciprocal_rank_fusion_def list_all_iff dest!: in_set_takeD) force
qed

text \<open>The hybrid search over the in-memory store answers within its bounds: at most the requested
  number of hits, each from a chunk of the store and of the requested domain, whatever the reranker;
  the answer says whether hits were cut off, and names the query terms the sparse search scored.\<close>

lemma hybrid_search_sound:
  assumes "\<And>xs. mset (ord xs) = mset xs"
    and "rag_hybrid_search fo ord (\<lambda>sq. Ok (kb_hybrid_search fo vals sq)) e q embedding = Ok resp"
  shows "length (sr_hits resp) \<le> rg_top_k q
    \<and> (rd_truncated (sr_diagnostics resp) \<longrightarrow> length (sr_hits resp) = rg_top_k q)
    \<and> set (map hv_document_id (sr_hits resp))
        \<subseteq> ck_document_id ` {c \<in> set vals. rg_domain q \<in> {None, Some (ck_domain c)}}
    \<and> rd_query_terms (sr_diagnostics resp) = tokenize (rg_text q)"
proof -
  let ?sq = "store_query e q embedding"
  let ?P = "\<lambda>c. c \<in> set vals \<and> rg_domain q \<in> {None, Some (ck_domain c)}"
  obtain dense sparse where ds: "kb_hybrid_search fo vals ?sq = (dense, sparse)" by (rule prod.exhaust)
  have wants: "wants_domain ?sq d \<longleftrightarrow> rg_domain q \<in> {None, Some d}" for d
    by (cases "rg_domain q"; cases embedding)
      (auto simp: store_query_def wants_domain_def with_domain_def with_embedding_def query_text_def)
  have sparse: "sparse = bm25_search fo vals ?sq" and dense: "dense = [] \<or> dense = kb_search fo vals ?sq"
    using ds by (auto simp: kb_hybrid_search_def kb_search_def split: option.splits)
  have from_store: "?P c" if "(c, s) \<in> set dense \<union> set sparse" for c s
  proof -
    have "c \<in> set vals \<and> wants_domain ?sq (ck_domain c)"
      using that sparse dense bm25_search_from [of c s fo vals ?sq] kb_search_from [of c s fo vals ?sq]
      by (metis UnE empty_iff list.set(1))
    then show ?thesis unfolding wants .
  qed
  define fused where "fused = reciprocal_rank_fusion fo ord dense sparse (re_rrf_k e) (re_candidate_pool e)"
  define hits where "hits = (case re_reranker e of Some r \<Rightarrow> rerank_hits fo r (rg_text q) fused | None \<Rightarrow> fused)"
  have "list_all (\<lambda>(c, _). ?P c) fused"
    unfolding fused_def by (rule fusion_from [OF assms(1)]) (use from_store in \<open>auto simp: list_all_iff\<close>)
  then have "?P c" if "(c, s) \<in> set hits" for c s
    using that rerank_hits_from [of c s fo _ "rg_text q" fused]
    by (fastforce simp: hits_def list_all_iff split: option.splits)
  moreover have "sr_hits resp = map hit_view_of (take (rg_top_k q) hits)"
      "rd_truncated (sr_diagnostics resp) \<longleftrightarrow> rg_top_k q < length hits"
      "rd_query_terms (sr_diagnostics resp) = tokenize (rg_text q)"
    using assms(2) unfolding hits_def fused_def
    by (auto simp: rag_hybrid_search_def ds Let_def tokenize_query_def
        tokenize_def)
  ultimately show ?thesis
    by (auto simp: hit_view_of_def dest!: in_set_takeD)
qed

lemma hybrid_search_sound_witness:
  "\<exists>resp. rag_hybrid_search int_ops (\<lambda>xs. xs) (\<lambda>sq. Ok (kb_hybrid_search int_ops [sample_chunk ''aa'' [2]] sq))
      (rag_engine_new int_ops) \<lparr>rg_text = ''aa'', rg_domain = Some Bpmn, rg_top_k = 1\<rparr> None
      = (Ok resp :: string + int search_response)
    \<and> length (sr_hits resp) \<le> 1 \<and> rd_query_terms (sr_diagnostics resp) = tokenize ''aa''"
proof -
  obtain resp where r: "rag_hybrid_search int_ops (\<lambda>xs. xs)
      (\<lambda>sq. Ok (kb_hybrid_search int_ops [sample_chunk ''aa'' [2]] sq))
      (rag_engine_new int_ops) \<lparr>rg_text = ''aa'', rg_domain = Some Bpmn, rg_top_k = 1\<rparr> None
      = (Ok resp :: string + int search_response)"
    by (simp add: rag_hybrid_search_def Let_def kb_hybrid_search_def split: prod.split)
  then show ?thesis using hybrid_search_sound [OF _ r] by auto
qed

end
