(* ===== verification/Observability.thy ===== *)
theory Observability
  imports Json_Rpc Float_Ops "HOL-Library.AList" "HOL-Library.List_Lexorder" "HOL-Library.Char_ord"
begin

text \<open>
  The audit log and the metrics registry (\<open>audit.rs\<close> and \<open>metrics.rs\<close> in
  \<open>crates/oracle-automate-observability/src\<close>), and the recording of tool calls in the server
  (\<open>metrics.rs\<close> of \<open>apps/oracle-automate-server/src\<close>). Metric values are of the abstract float type;
  \<open>show_f\<close> is how a float is displayed. A \<open>BTreeMap\<close> is an association list sorted by key. \<open>None\<close> is a
  panic, after which the registry's lock is poisoned.
\<close>

subsection \<open>Redaction\<close>

definition sensitive_substrings :: "string list" where
  "sensitive_substrings =
     [''password'', ''passwd'', ''secret'', ''token'', ''api_key'', ''apikey'', ''_pwd'', ''_pass'',
      ''credential'']"

definition is_sensitive :: "string \<Rightarrow> bool" where
  "is_sensitive k \<longleftrightarrow> list_ex (contains_str (to_lowercase k)) sensitive_substrings"

fun redact :: "json \<Rightarrow> json" where
  "redact (JObj m) = JObj (map (\<lambda>(k, v). (k, if is_sensitive k then JStr ''***'' else redact v)) m)"
| "redact (JArr xs) = JArr (map redact xs)"
| "redact v = v"

datatype audit_outcome =
    Audit_Ok string
  | Audit_Declined string
  | Audit_Denied string
  | Audit_Failed i32 string

fun enc_outcome :: "audit_outcome \<Rightarrow> json" where
  "enc_outcome (Audit_Ok s) = json_obj [(''kind'', JStr ''ok''), (''summary'', JStr s)]"
| "enc_outcome (Audit_Declined r) = json_obj [(''kind'', JStr ''declined''), (''reason'', JStr r)]"
| "enc_outcome (Audit_Denied r) = json_obj [(''kind'', JStr ''denied''), (''reason'', JStr r)]"
| "enc_outcome (Audit_Failed c m) = json_obj
     [(''kind'', JStr ''failed''), (''code'', enc_i32 c), (''message'', JStr m)]"

record audit_entry =
  ae_event_id :: string
  ae_at_ms :: nat
  ae_session_id :: "string option"
  ae_tenant :: "string option"
  ae_actor :: "string option"
  ae_tool :: string
  ae_erp_system :: "string option"
  ae_arguments_redacted :: json
  ae_outcome :: audit_outcome
  ae_duration_ms :: nat

definition json_opt_str :: "string option \<Rightarrow> json" where
  "json_opt_str x = (case x of Some s \<Rightarrow> JStr s | None \<Rightarrow> JNull)"

definition enc_audit_entry :: "audit_entry \<Rightarrow> json" where
  "enc_audit_entry e = json_obj
     [(''event_id'', JStr (ae_event_id e)), (''at_ms'', JNat (ae_at_ms e)),
      (''session_id'', json_opt_str (ae_session_id e)), (''tenant'', json_opt_str (ae_tenant e)),
      (''actor'', json_opt_str (ae_actor e)), (''tool'', JStr (ae_tool e)),
      (''erp_system'', json_opt_str (ae_erp_system e)),
      (''arguments_redacted'', ae_arguments_redacted e), (''outcome'', enc_outcome (ae_outcome e)),
      (''duration_ms'', JNat (ae_duration_ms e))]"

text \<open>A sink is a step on its own state. \<open>JsonStderrSink\<close> keeps the entries; the standard-output sink
  writes a line of JSON text, which \<open>serde_text\<close> renders.\<close>

type_synonym 's audit_sink = "audit_entry \<Rightarrow> 's \<Rightarrow> 's"

definition record_audit :: "'s audit_sink \<Rightarrow> audit_entry \<Rightarrow> 's \<Rightarrow> 's" where
  "record_audit sink e = sink (e\<lparr>ae_arguments_redacted := redact (ae_arguments_redacted e)\<rparr>)"

definition memory_sink :: "audit_entry list audit_sink" where
  "memory_sink e entries = entries @ [e]"

definition drain_sink :: "audit_entry list \<Rightarrow> audit_entry list \<times> audit_entry list" where
  "drain_sink entries = (entries, [])"

definition stdout_sink :: "(json \<Rightarrow> string) \<Rightarrow> string list audit_sink" where
  "stdout_sink serde_text e out = out @ [serde_text (enc_audit_entry e)]"

text \<open>The event id of a time in nanoseconds; \<open>hex\<close> shows a number with 16 hexadecimal digits.\<close>

definition new_event_id :: "(nat \<Rightarrow> string) \<Rightarrow> nat \<Rightarrow> string" where
  "new_event_id hex now = ''evt-'' @ hex now"

subsection \<open>The metrics registry\<close>

datatype metric_kind = Counter | Histogram | Gauge

record 'f metric_state =
  ms_kind :: metric_kind
  ms_scalar :: 'f
  ms_bounds :: "'f list"
  ms_counts :: "nat list"
  ms_sum :: 'f
  ms_count :: nat

record 'f metrics =
  mr_series :: "(string \<times> 'f metric_state) list"
  mr_names :: "(string \<times> metric_kind \<times> string) list"

type_synonym labels = "(string \<times> string) list"

definition metrics_new :: "'f metrics" where
  "metrics_new = \<lparr>mr_series = [], mr_names = []\<rparr>"

definition default_buckets :: "'f float_ops \<Rightarrow> 'f list" where
  "default_buckets fo =
     map (fl_lit fo)
       [''0.0005'', ''0.001'', ''0.005'', ''0.010'', ''0.025'', ''0.050'', ''0.080'', ''0.100'',
        ''0.250'', ''0.500'', ''1.0'', ''5.0'', ''30.0'']"

definition register_metric :: "string \<Rightarrow> metric_kind \<Rightarrow> string \<Rightarrow> 'f metrics \<Rightarrow> 'f metrics" where
  "register_metric name kind help r =
     (if obj_contains (mr_names r) name then r
      else r\<lparr>mr_names := obj_insert name (kind, help) (mr_names r)\<rparr>)"

definition escape_label :: "string \<Rightarrow> string" where
  "escape_label s =
     replace_all (replace_all (replace_all s [CHR 0x5C] [CHR 0x5C, CHR 0x5C])
       [quote_char] [CHR 0x5C, quote_char]) [newline] [CHR 0x5C, CHR ''n'']"

definition label_text :: "string \<times> string \<Rightarrow> string" where
  "label_text = (\<lambda>(k, v). k @ ''='' @ [quote_char] @ escape_label v @ [quote_char])"

definition series_key :: "string \<Rightarrow> labels \<Rightarrow> string" where
  "series_key name ls =
     (if ls = [] then name
      else name @ ''{'' @ join '','' (map label_text (sort_key fst ls)) @ ''}'')"

definition scalar_state :: "'f float_ops \<Rightarrow> metric_kind \<Rightarrow> 'f metric_state" where
  "scalar_state fo kind =
     \<lparr>ms_kind = kind, ms_scalar = fl_of_nat fo 0, ms_bounds = [], ms_counts = [], ms_sum = fl_of_nat fo 0,
      ms_count = 0\<rparr>"

definition histogram_state :: "'f float_ops \<Rightarrow> 'f metric_state" where
  "histogram_state fo =
     \<lparr>ms_kind = Histogram, ms_scalar = fl_of_nat fo 0, ms_bounds = default_buckets fo,
      ms_counts = replicate (length (default_buckets fo) + 1) 0, ms_sum = fl_of_nat fo 0, ms_count = 0\<rparr>"

text \<open>\<open>entry(key).or_insert_with(..)\<close>.\<close>

definition series_entry :: "'f metric_state \<Rightarrow> string \<Rightarrow> 'f metrics \<Rightarrow> 'f metric_state" where
  "series_entry new key r = (case map_of (mr_series r) key of Some st \<Rightarrow> st | None \<Rightarrow> new)"

definition set_series :: "string \<Rightarrow> 'f metric_state \<Rightarrow> 'f metrics \<Rightarrow> 'f metrics" where
  "set_series key st r = r\<lparr>mr_series := obj_insert key st (mr_series r)\<rparr>"

definition add_counter :: "'f float_ops \<Rightarrow> string \<Rightarrow> labels \<Rightarrow> 'f \<Rightarrow> 'f metrics \<Rightarrow> 'f metrics" where
  "add_counter fo name ls d r =
     (let key = series_key name ls; st = series_entry (scalar_state fo Counter) key r
      in set_series key (st\<lparr>ms_scalar := fl_add fo (ms_scalar st) d\<rparr>) r)"

definition inc_counter :: "'f float_ops \<Rightarrow> string \<Rightarrow> labels \<Rightarrow> 'f metrics \<Rightarrow> 'f metrics" where
  "inc_counter fo name ls = add_counter fo name ls (fl_of_nat fo 1)"

definition set_gauge :: "'f float_ops \<Rightarrow> string \<Rightarrow> labels \<Rightarrow> 'f \<Rightarrow> 'f metrics \<Rightarrow> 'f metrics" where
  "set_gauge fo name ls v r =
     (let key = series_key name ls; st = series_entry (scalar_state fo Gauge) key r
      in set_series key (st\<lparr>ms_scalar := v\<rparr>) r)"

definition fl_le :: "'f float_ops \<Rightarrow> 'f \<Rightarrow> 'f \<Rightarrow> bool" where
  "fl_le fo a b \<longleftrightarrow> fl_lt fo a b \<or> fl_eq fo a b"

text \<open>The position of the first bucket a value falls into.\<close>

fun first_bucket :: "'f float_ops \<Rightarrow> 'f \<Rightarrow> nat \<Rightarrow> 'f list \<Rightarrow> nat option" where
  "first_bucket fo v i [] = None"
| "first_bucket fo v i (b # bs) = (if fl_le fo v b then Some i else first_bucket fo v (Suc i) bs)"

definition bump_from :: "nat \<Rightarrow> nat list \<Rightarrow> nat list" where
  "bump_from i cs = map (\<lambda>(j, c). if i \<le> j then c + 1 else c) (enumerate 0 cs)"

definition observe_state :: "'f float_ops \<Rightarrow> 'f \<Rightarrow> 'f metric_state \<Rightarrow> 'f metric_state option" where
  "observe_state fo v st =
     (let st1 = st\<lparr>ms_sum := fl_add fo (ms_sum st) v, ms_count := ms_count st + 1\<rparr> in
      case first_bucket fo v 0 (ms_bounds st) of
        Some i \<Rightarrow> Some (st1\<lparr>ms_counts := bump_from i (ms_counts st)\<rparr>)
      | None \<Rightarrow>
          if ms_counts st = [] then None
          else Some (st1\<lparr>ms_counts := bump_from (length (ms_counts st) - 1) (ms_counts st)\<rparr>))"

definition observe_histogram ::
  "'f float_ops \<Rightarrow> string \<Rightarrow> labels \<Rightarrow> 'f \<Rightarrow> 'f metrics \<Rightarrow> 'f metrics option" where
  "observe_histogram fo name ls v r =
     (let key = series_key name ls
      in map_option (\<lambda>st. set_series key st r)
           (observe_state fo v (series_entry (histogram_state fo) key r)))"

subsection \<open>Exposition\<close>

definition name_of_key :: "string \<Rightarrow> string" where
  "name_of_key key = hd (split_char (CHR ''{'') key)"

text \<open>\<open>&key[brace + 1..key.len() - 1]\<close>.\<close>

definition labels_part :: "string \<Rightarrow> string" where
  "labels_part key =
     (case find_char key (CHR ''{'') of Some b \<Rightarrow> butlast (drop (Suc b) key) | None \<Rightarrow> [])"

definition parse_labels :: "string \<Rightarrow> labels" where
  "parse_labels key =
     (case find_char key (CHR ''{'') of
        None \<Rightarrow> []
      | Some b \<Rightarrow>
          foldl (\<lambda>out pair.
            (case split_once (CHR ''='') pair of
               None \<Rightarrow> out | Some (k, v) \<Rightarrow> obj_insert k (trim_char quote_char v) out))
            [] (split_char (CHR '','') (labels_part key)))"

fun kind_text :: "metric_kind \<Rightarrow> string" where
  "kind_text Counter = ''counter''"
| "kind_text Histogram = ''histogram''"
| "kind_text Gauge = ''gauge''"

definition series_lines :: "('f \<Rightarrow> string) \<Rightarrow> string \<times> 'f metric_state \<Rightarrow> string list" where
  "series_lines show_f = (\<lambda>(key, st).
     if ms_kind st = Histogram then
       (let part = labels_part key; base = name_of_key key; comma = (if part = [] then [] else '','');
            bucket = (\<lambda>le n. base @ ''_bucket{'' @ part @ comma @ ''le='' @ [quote_char] @ le
                              @ [quote_char] @ ''} '' @ show_nat n)
        in map (\<lambda>(i, b). bucket (show_f b) (ms_counts st ! i)) (enumerate 0 (ms_bounds st))
           @ [bucket ''+Inf'' (if ms_counts st = [] then 0 else last (ms_counts st)),
              base @ ''_sum{'' @ part @ ''} '' @ show_f (ms_sum st),
              base @ ''_count{'' @ part @ ''} '' @ show_nat (ms_count st)])
     else [key @ '' '' @ show_f (ms_scalar st)])"

definition render_metrics :: "('f \<Rightarrow> string) \<Rightarrow> 'f metrics \<Rightarrow> string" where
  "render_metrics show_f r =
     (let by_name = foldl (\<lambda>m (key, st).
            obj_insert (name_of_key key)
              ((case map_of m (name_of_key key) of Some xs \<Rightarrow> xs | None \<Rightarrow> []) @ [(key, st)]) m)
            [] (mr_series r)
      in concat (map (\<lambda>line. line @ [newline])
           (concat (map (\<lambda>(name, entries).
              (case map_of (mr_names r) name of
                 Some (kind, help) \<Rightarrow>
                   [''# HELP '' @ name @ '' '' @ help, ''# TYPE '' @ name @ '' '' @ kind_text kind]
               | None \<Rightarrow> [])
              @ concat (map (series_lines show_f) entries)) by_name))))"

record 'f series_point =
  sp_name :: string
  sp_labels :: labels
  sp_value :: 'f
  sp_histogram :: "('f list \<times> nat list \<times> 'f \<times> nat) option"

definition snapshot_series :: "'f metrics \<Rightarrow> 'f series_point list" where
  "snapshot_series r =
     map (\<lambda>(key, st).
       \<lparr>sp_name = name_of_key key, sp_labels = parse_labels key, sp_value = ms_scalar st,
        sp_histogram = (if ms_kind st = Histogram
                        then Some (ms_bounds st, ms_counts st, ms_sum st, ms_count st) else None)\<rparr>)
       (mr_series r)"

definition snapshot_metrics :: "'f metrics \<Rightarrow> (string \<times> metric_kind \<times> string) list" where
  "snapshot_metrics r = map (\<lambda>(n, k, h). (n, k, h)) (mr_names r)"

subsection \<open>Recording tool calls\<close>

definition tool_name_of :: "rpc_message \<Rightarrow> string option" where
  "tool_name_of m =
     (case m of
        Msg_Request r \<Rightarrow>
          if rq_method r = ''tools/call''
          then Option.bind (rq_params r) (\<lambda>p. Option.bind (jget p ''name'') as_str) else None
      | _ \<Rightarrow> None)"

definition response_is_error :: "rpc_message option \<Rightarrow> bool" where
  "response_is_error resp =
     (case resp of
        Some (Msg_Response r) \<Rightarrow>
          rs_error r \<noteq> None
          \<or> unwrap_or (Option.bind (rs_result r) (\<lambda>v. Option.bind (jget v ''isError'') as_bool)) False
      | _ \<Rightarrow> False)"

definition response_denied :: "(json \<Rightarrow> string) \<Rightarrow> rpc_message option \<Rightarrow> bool" where
  "response_denied serde_text resp =
     (case resp of
        Some (Msg_Response r) \<Rightarrow>
          (let tx = (case rs_error r of
                       Some e \<Rightarrow> to_lowercase (eo_message e)
                     | None \<Rightarrow> (case rs_result r of Some v \<Rightarrow> to_lowercase (serde_text v) | None \<Rightarrow> []))
           in contains_str tx ''read-only'' \<or> contains_str tx ''permissiondenied''
              \<or> contains_str tx ''not callable'')
      | _ \<Rightarrow> False)"

definition record_call ::
  "'f float_ops \<Rightarrow> (json \<Rightarrow> string) \<Rightarrow> string \<Rightarrow> 'f \<Rightarrow> rpc_message option \<Rightarrow> 'f metrics \<Rightarrow> 'f metrics option"
where
  "record_call fo serde_text tool elapsed resp r =
     (let ls = [(''tool'', tool)] in
      Option.bind (observe_histogram fo ''mcp_tool_latency_seconds'' ls elapsed
                     (inc_counter fo ''mcp_tool_calls_total'' ls r)) (\<lambda>r1.
        Some (if response_is_error resp then
                (let r2 = inc_counter fo ''mcp_tool_errors_total'' ls r1 in
                 if response_denied serde_text resp then inc_counter fo ''oracle_authz_denied_total'' ls r2
                 else r2)
              else r1)))"

subsection \<open>Redaction keeps secrets out of the sink\<close>

text \<open>\<open>tamper f\<close> replaces the value of every sensitive key, at any depth, by one of \<open>f\<close>'s choice;
  \<open>secrets_masked\<close> says that every sensitive key that is left carries the mask.\<close>

fun tamper :: "(string \<Rightarrow> json \<Rightarrow> json) \<Rightarrow> json \<Rightarrow> json" where
  "tamper f (JObj m) = JObj (map (\<lambda>(k, v). (k, if is_sensitive k then f k v else tamper f v)) m)"
| "tamper f (JArr xs) = JArr (map (tamper f) xs)"
| "tamper f v = v"

fun secrets_masked :: "json \<Rightarrow> bool" where
  "secrets_masked (JObj m) =
     list_all (\<lambda>(k, v). if is_sensitive k then v = JStr ''***'' else secrets_masked v) m"
| "secrets_masked (JArr xs) = list_all secrets_masked xs"
| "secrets_masked v = True"

lemma redact_tamper [simp]: "redact (tamper f v) = redact v"
  by (induction v rule: redact.induct) auto

lemma secrets_masked_redact [simp]: "secrets_masked (redact v)"
  by (induction v rule: redact.induct) (auto simp: list_all_iff split: if_splits)

lemma redact_masked: "secrets_masked v \<Longrightarrow> redact v = v"
proof (induction v rule: redact.induct)
  case (1 m)
  then show ?case by (auto simp: list_all_iff intro!: map_idI split: if_splits)
next
  case (2 xs)
  then show ?case by (auto simp: list_all_iff intro!: map_idI)
qed auto

lemma redact_idempotent [simp]: "redact (redact v) = redact v"
  by (simp add: redact_masked)

text \<open>The values on a path of keys none of which is sensitive are kept.\<close>

fun jpath :: "string list \<Rightarrow> json \<Rightarrow> json option" where
  "jpath [] v = Some v"
| "jpath (k # ks) v = Option.bind (jget v k) (jpath ks)"

lemma map_of_redacted:
  "map_of (map (\<lambda>(k, v). (k, if s k then w else g v)) m) k
     = map_option (\<lambda>v. if s k then w else g v) (map_of m k)"
  by (induction m) auto

lemma jget_redact:
  "jget (redact v) k = map_option (\<lambda>w. if is_sensitive k then JStr ''***'' else redact w) (jget v k)"
  by (cases v) (simp_all add: map_of_redacted)

lemma jpath_redact:
  "list_ex is_sensitive ks \<or> jpath ks (redact v) = map_option redact (jpath ks v)"
  by (induction ks arbitrary: v) (auto simp: jget_redact split: Option.bind_splits)

text \<open>C10. Secrets never reach an audit sink: whatever sink is plugged in, the state it is left in is
  the same when the values of sensitive keys anywhere in the arguments are replaced by others; the
  entry the sink is given has the mask at every sensitive key that is left in it, and redacting it
  again changes nothing; no other field of the entry is touched; and what is found along a path of keys
  none of which is sensitive is kept, with the secrets inside it masked.\<close>

theorem secrets_never_reach_the_sink:
  "record_audit sink (e\<lparr>ae_arguments_redacted := tamper f v\<rparr>) st
     = record_audit sink (e\<lparr>ae_arguments_redacted := v\<rparr>) st
   \<and> (let e' = last (record_audit memory_sink e entries)
      in secrets_masked (ae_arguments_redacted e')
         \<and> redact (ae_arguments_redacted e') = ae_arguments_redacted e'
         \<and> e'\<lparr>ae_arguments_redacted := w\<rparr> = e\<lparr>ae_arguments_redacted := w\<rparr>
         \<and> (list_ex is_sensitive ks
            \<or> jpath ks (ae_arguments_redacted e')
                = map_option redact (jpath ks (ae_arguments_redacted e))))"
  using jpath_redact [of ks "ae_arguments_redacted e"]
  by (simp add: record_audit_def memory_sink_def)

subsection \<open>Series keys\<close>

text \<open>Escaping character by character, and that it can be undone.\<close>

definition esc_char :: "char \<Rightarrow> string" where
  "esc_char c =
     (if c = CHR 0x5C then [CHR 0x5C, CHR 0x5C] else if c = quote_char then [CHR 0x5C, quote_char]
      else if c = newline then [CHR 0x5C, CHR ''n''] else [c])"

lemma replace_all_char:
  "replace_all s [d] r = concat (map (\<lambda>c. if c = d then r else [c]) s)"
  by (induction s) auto

lemma escape_label_eq: "escape_label s = concat (map esc_char s)"
  by (induction s) (simp_all add: escape_label_def replace_all_char esc_char_def)

lemma esc_char_inject: "esc_char c @ s = esc_char d @ t \<Longrightarrow> c = d \<and> s = t"
  by (auto simp: esc_char_def split: if_splits)

lemma esc_char_not_Nil [simp]: "esc_char c \<noteq> []"
  by (simp add: esc_char_def)

lemma escape_label_inject [simp]: "escape_label s = escape_label t \<longleftrightarrow> s = t"
proof
  show "escape_label s = escape_label t \<Longrightarrow> s = t"
  proof (induction s arbitrary: t)
    case Nil
    then show ?case by (cases t) (simp_all add: escape_label_eq)
  next
    case (Cons c s)
    then obtain d t' where t: "t = d # t'" by (cases t) (auto simp: escape_label_eq)
    with Cons.prems have "c = d \<and> escape_label s = escape_label t'"
      by (intro esc_char_inject) (simp add: escape_label_eq)
    with Cons.IH t show ?case by auto
  qed
qed simp

lemma escape_label_plain:
  "list_all (\<lambda>c. c \<noteq> CHR 0x5C \<and> c \<noteq> quote_char \<and> c \<noteq> newline) s \<Longrightarrow> escape_label s = s"
  by (induction s) (simp_all add: escape_label_eq esc_char_def)

definition tool_key :: "string \<Rightarrow> string \<Rightarrow> string" where
  "tool_key name t = series_key name [(''tool'', t)]"

lemma tool_key_eq:
  "tool_key name t = name @ ''{tool='' @ [quote_char] @ escape_label t @ [quote_char] @ ''}''"
  by (simp add: tool_key_def series_key_def label_text_def)

lemma tool_key_inject [simp]: "tool_key name t = tool_key name t' \<longleftrightarrow> t = t'"
  by (simp add: tool_key_eq)

lemma tool_key_names_differ [simp]:
  "tool_key ''mcp_tool_calls_total'' t \<noteq> tool_key ''mcp_tool_latency_seconds'' t'"
  "tool_key ''mcp_tool_calls_total'' t \<noteq> tool_key ''mcp_tool_errors_total'' t'"
  "tool_key ''mcp_tool_calls_total'' t \<noteq> tool_key ''oracle_authz_denied_total'' t'"
  "tool_key ''mcp_tool_latency_seconds'' t \<noteq> tool_key ''mcp_tool_calls_total'' t'"
  "tool_key ''mcp_tool_latency_seconds'' t \<noteq> tool_key ''mcp_tool_errors_total'' t'"
  "tool_key ''mcp_tool_latency_seconds'' t \<noteq> tool_key ''oracle_authz_denied_total'' t'"
  "tool_key ''mcp_tool_errors_total'' t \<noteq> tool_key ''mcp_tool_calls_total'' t'"
  "tool_key ''mcp_tool_errors_total'' t \<noteq> tool_key ''mcp_tool_latency_seconds'' t'"
  "tool_key ''mcp_tool_errors_total'' t \<noteq> tool_key ''oracle_authz_denied_total'' t'"
  "tool_key ''oracle_authz_denied_total'' t \<noteq> tool_key ''mcp_tool_calls_total'' t'"
  "tool_key ''oracle_authz_denied_total'' t \<noteq> tool_key ''mcp_tool_latency_seconds'' t'"
  "tool_key ''oracle_authz_denied_total'' t \<noteq> tool_key ''mcp_tool_errors_total'' t'"
  by (simp_all add: tool_key_eq)

subsection \<open>Histograms\<close>

text \<open>With ascending bounds, the buckets from the first one on are those the value is below.\<close>

definition ascending_bounds :: "'f float_ops \<Rightarrow> 'f list \<Rightarrow> bool" where
  "ascending_bounds fo bs \<longleftrightarrow> sorted_wrt (\<lambda>a b. \<forall>v. fl_le fo v a \<longrightarrow> fl_le fo v b) bs"

lemma first_bucket_Some:
  "first_bucket fo v i bs = Some k \<Longrightarrow> ascending_bounds fo bs \<Longrightarrow> j < length bs \<Longrightarrow>
     k \<le> i + j \<longleftrightarrow> fl_le fo v (bs ! j)"
proof (induction bs arbitrary: i j)
  case (Cons b bs)
  show ?case
  proof (cases "fl_le fo v b")
    case True
    then show ?thesis using Cons.prems by (cases j) (auto simp: ascending_bounds_def)
  next
    case False
    then have k: "first_bucket fo v (Suc i) bs = Some k" using Cons.prems by simp
    have "Suc i \<le> k" using k
      by (induction bs arbitrary: i) (auto split: if_splits, fastforce)
    then show ?thesis
      using Cons.IH [OF k, of "j - 1"] Cons.prems False
      by (cases j) (auto simp: ascending_bounds_def)
  qed
qed simp

lemma first_bucket_None:
  "first_bucket fo v i bs = None \<longleftrightarrow> list_all (\<lambda>b. \<not> fl_le fo v b) bs"
  by (induction bs arbitrary: i) auto

lemma first_bucket_le: "first_bucket fo v i bs = Some k \<Longrightarrow> k < i + length bs"
  by (induction bs arbitrary: i) (auto split: if_splits, fastforce)

lemma length_bump_from [simp]: "length (bump_from i cs) = length cs"
  by (simp add: bump_from_def)

lemma nth_bump_from [simp]:
  "j < length cs \<Longrightarrow> bump_from i cs ! j = (if i \<le> j then cs ! j + 1 else cs ! j)"
  by (simp add: bump_from_def nth_enumerate_eq)

lemma bump_from_Nil [simp]: "bump_from i cs = [] \<longleftrightarrow> cs = []"
  by (simp add: bump_from_def enumerate_eq_zip)

definition counts_of :: "'f float_ops \<Rightarrow> 'f list \<Rightarrow> 'f list \<Rightarrow> nat list" where
  "counts_of fo bs vs = map (\<lambda>b. length (filter (\<lambda>v. fl_le fo v b) vs)) bs @ [length vs]"

lemma observe_state_counts:
  assumes "ascending_bounds fo (ms_bounds st)" "ms_counts st = counts_of fo (ms_bounds st) vs"
  shows "\<exists>st'. observe_state fo v st = Some st' \<and> ms_bounds st' = ms_bounds st
           \<and> ms_kind st' = ms_kind st \<and> ms_counts st' = counts_of fo (ms_bounds st) (vs @ [v])
           \<and> ms_sum st' = fl_add fo (ms_sum st) v \<and> ms_count st' = ms_count st + 1"
proof (cases "first_bucket fo v 0 (ms_bounds st)")
  case None
  then have "list_all (\<lambda>b. \<not> fl_le fo v b) (ms_bounds st)" by (simp add: first_bucket_None)
  then have "bump_from (length (ms_bounds st)) (counts_of fo (ms_bounds st) vs)
               = counts_of fo (ms_bounds st) (vs @ [v])"
    by (intro nth_equalityI) (auto simp: counts_of_def nth_append list_all_length)
  with None assms(2) show ?thesis by (auto simp: observe_state_def Let_def counts_of_def)
next
  case (Some k)
  have "k \<le> length (ms_bounds st)"
    using first_bucket_le [OF Some] by simp
  then have "bump_from k (counts_of fo (ms_bounds st) vs) = counts_of fo (ms_bounds st) (vs @ [v])"
    using first_bucket_Some [OF Some assms(1)]
    by (intro nth_equalityI) (auto simp: counts_of_def nth_append)
  with Some assms(2) show ?thesis by (simp add: observe_state_def Let_def)
qed

lemma counts_of_sorted: "ascending_bounds fo bs \<Longrightarrow> sorted (counts_of fo bs vs)"
proof -
  assume "ascending_bounds fo bs"
  then have "sorted_wrt (\<lambda>a b. length (filter (\<lambda>v. fl_le fo v a) vs) \<le> length (filter (\<lambda>v. fl_le fo v b) vs)) bs"
    unfolding ascending_bounds_def
    by (rule sorted_wrt_mono_rel [rotated]) (induction vs, auto intro: le_SucI)
  then show ?thesis
    by (auto simp: counts_of_def sorted_wrt_append sorted_wrt_map)
qed

definition observe_all ::
  "'f float_ops \<Rightarrow> string \<Rightarrow> labels \<Rightarrow> 'f list \<Rightarrow> 'f metrics \<Rightarrow> 'f metrics option" where
  "observe_all fo name ls vs r =
     foldl (\<lambda>m v. Option.bind m (observe_histogram fo name ls v)) (Some r) vs"

definition series_at :: "'f metrics \<Rightarrow> string \<Rightarrow> 'f metric_state option" where
  "series_at r k = map_of (mr_series r) k"

lemma series_at_set_series [simp]:
  "series_at (set_series key st r) k = (if k = key then Some st else series_at r k)"
  by (simp add: series_at_def set_series_def)

lemma series_entry_at:
  "series_entry new key r = (case series_at r key of Some st \<Rightarrow> st | None \<Rightarrow> new)"
  by (simp add: series_entry_def series_at_def)

lemma observe_histogram_series:
  "observe_histogram fo name ls v r =
     map_option (\<lambda>st. set_series (series_key name ls) st r)
       (observe_state fo v (case series_at r (series_key name ls) of
                              Some st \<Rightarrow> st | None \<Rightarrow> histogram_state fo))"
  by (simp add: observe_histogram_def Let_def series_entry_at)

definition histogram_of :: "'f float_ops \<Rightarrow> 'f list \<Rightarrow> 'f metric_state \<Rightarrow> bool" where
  "histogram_of fo vs st \<longleftrightarrow>
     ms_kind st = Histogram \<and> ms_bounds st = default_buckets fo
     \<and> ms_counts st = counts_of fo (default_buckets fo) vs \<and> ms_count st = length vs
     \<and> ms_sum st = foldl (fl_add fo) (fl_of_nat fo 0) vs"

lemma histogram_of_new: "histogram_of fo [] (histogram_state fo)"
  by (auto simp: histogram_of_def histogram_state_def counts_of_def replicate_append_same
        map_replicate_const simp flip: replicate_Suc)

lemma histogram_of_observe:
  "ascending_bounds fo (default_buckets fo) \<Longrightarrow> histogram_of fo vs st \<Longrightarrow>
     \<exists>st'. observe_state fo v st = Some st' \<and> histogram_of fo (vs @ [v]) st'"
  using observe_state_counts [of fo st vs v] by (auto simp: histogram_of_def)

lemma observe_all_series:
  assumes asc: "ascending_bounds fo (default_buckets fo)"
    and new: "series_at r (series_key name ls) = None"
  shows "\<exists>r'. observe_all fo name ls vs r = Some r'
           \<and> (case series_at r' (series_key name ls) of
                None \<Rightarrow> vs = [] | Some st \<Rightarrow> histogram_of fo vs st)
           \<and> (\<forall>k. k = series_key name ls \<or> series_at r' k = series_at r k)"
proof (induction vs rule: rev_induct)
  case Nil
  then show ?case using new by (simp add: observe_all_def)
next
  case (snoc v vs)
  then obtain r' where r': "observe_all fo name ls vs r = Some r'"
    and key: "case series_at r' (series_key name ls) of
                None \<Rightarrow> vs = [] | Some st \<Rightarrow> histogram_of fo vs st"
    and other: "\<forall>k. k = series_key name ls \<or> series_at r' k = series_at r k" by blast
  let ?st = "case series_at r' (series_key name ls) of Some st \<Rightarrow> st | None \<Rightarrow> histogram_state fo"
  have "histogram_of fo vs ?st"
    using key histogram_of_new [of fo] by (auto split: option.splits)
  then obtain st' where "observe_state fo v ?st = Some st'" "histogram_of fo (vs @ [v]) st'"
    using histogram_of_observe [OF asc] by blast
  then show ?case using r' other by (auto simp: observe_all_def observe_histogram_series)
qed

lemma observe_on_counter:
  "series_at r (series_key name ls) = None \<Longrightarrow>
     observe_histogram fo name ls v (inc_counter fo name ls r) = None"
  by (simp add: observe_histogram_series inc_counter_def add_counter_def Let_def series_entry_at
      scalar_state_def observe_state_def)

text \<open>Observing durations into a series that did not exist yet succeeds and leaves exactly a
  Prometheus histogram of them: bucket \<open>j\<close> counts the durations at most its bound, the last one counts
  them all, the counts never decrease from one bucket to the next, the count and the sum are those of
  the durations, and no other series changes. On a series that exists as a counter the observation
  panics (its list of buckets is empty).\<close>

lemma histogram_is_cumulative:
  assumes "ascending_bounds fo (default_buckets fo)" and "series_at r (series_key name ls) = None"
    and "vs \<noteq> []"
  shows "(\<exists>r' st. observe_all fo name ls vs r = Some r'
            \<and> series_at r' (series_key name ls) = Some st
            \<and> ms_counts st =
                map (\<lambda>b. length (filter (\<lambda>v. fl_le fo v b) vs)) (default_buckets fo) @ [length vs]
            \<and> sorted (ms_counts st) \<and> ms_count st = length vs
            \<and> ms_sum st = foldl (fl_add fo) (fl_of_nat fo 0) vs
            \<and> (\<forall>k. k = series_key name ls \<or> series_at r' k = series_at r k))
    \<and> observe_histogram fo name ls v (inc_counter fo name ls r) = None"
proof -
  obtain r' st where "observe_all fo name ls vs r = Some r'"
    "series_at r' (series_key name ls) = Some st" and st: "histogram_of fo vs st"
    "\<forall>k. k = series_key name ls \<or> series_at r' k = series_at r k"
    using observe_all_series [OF assms(1,2), of vs] assms(3) by (auto split: option.splits)
  moreover have "sorted (ms_counts st)"
    using st counts_of_sorted [OF assms(1)] by (simp add: histogram_of_def)
  ultimately show ?thesis
    using observe_on_counter [OF assms(2)] by (auto simp: histogram_of_def counts_of_def)
qed

text \<open>Durations in ticks of a tenth of a millisecond.\<close>

definition tick_ops :: "nat float_ops" where
  "tick_ops =
     \<lparr>fl_of_nat = \<lambda>n. 10000 * n,
      fl_lit = \<lambda>s. the (map_of [(''0.0005'', 5), (''0.001'', 10), (''0.005'', 50), (''0.010'', 100),
        (''0.025'', 250), (''0.050'', 500), (''0.080'', 800), (''0.100'', 1000), (''0.250'', 2500),
        (''0.500'', 5000), (''1.0'', 10000), (''5.0'', 50000), (''30.0'', 300000)] s),
      fl_add = (+), fl_sub = (-), fl_mul = (*), fl_div = (div), fl_ln = \<lambda>x. x, fl_sqrt = \<lambda>x. x,
      fl_max = max, fl_lt = (<), fl_eq = (=)\<rparr>"

lemma tick_buckets_ascending: "ascending_bounds tick_ops (default_buckets tick_ops)"
  by (simp add: ascending_bounds_def default_buckets_def tick_ops_def fl_le_def)

lemma histogram_is_cumulative_witness:
  "\<exists>r' st. observe_all tick_ops ''lat'' [] [3, 700, 2000] metrics_new = Some r'
     \<and> series_at r' ''lat'' = Some st
     \<and> ms_counts st = [1, 1, 1, 1, 1, 1, 2, 2, 3, 3, 3, 3, 3, 3] \<and> ms_sum st = 2703"
  using histogram_is_cumulative [of tick_ops metrics_new "''lat''" "[]" "[3, 700, 2000]" 0]
  by (simp add: tick_buckets_ascending series_at_def metrics_new_def series_key_def)
     (auto simp: default_buckets_def tick_ops_def fl_le_def)

subsection \<open>What is recorded of the tool calls\<close>

record 'f tool_call_record =
  tc_tool :: string
  tc_elapsed :: 'f
  tc_response :: "rpc_message option"

definition record_calls ::
  "'f float_ops \<Rightarrow> (json \<Rightarrow> string) \<Rightarrow> 'f tool_call_record list \<Rightarrow> 'f metrics \<Rightarrow> 'f metrics option" where
  "record_calls fo serde_text cs r =
     foldl (\<lambda>m c. Option.bind m (record_call fo serde_text (tc_tool c) (tc_elapsed c) (tc_response c)))
       (Some r) cs"

text \<open>\<open>ticks n\<close> is a counter that was incremented \<open>n\<close> times, absent for none.\<close>

definition ticks :: "'f float_ops \<Rightarrow> nat \<Rightarrow> 'f option" where
  "ticks fo n = (if n = 0 then None
     else Some (((\<lambda>x. fl_add fo x (fl_of_nat fo 1)) ^^ n) (fl_of_nat fo 0)))"

definition value_at :: "'f metrics \<Rightarrow> string \<Rightarrow> string \<Rightarrow> 'f option" where
  "value_at r name t = map_option ms_scalar (series_at r (tool_key name t))"

lemma inc_counter_series:
  "inc_counter fo name [(''tool'', t)] r =
     set_series (tool_key name t)
       (let st = (case series_at r (tool_key name t) of Some st \<Rightarrow> st | None \<Rightarrow> scalar_state fo Counter)
        in st\<lparr>ms_scalar := fl_add fo (ms_scalar st) (fl_of_nat fo 1)\<rparr>) r"
  by (simp add: inc_counter_def add_counter_def Let_def series_entry_at tool_key_def)

definition calls_of :: "string \<Rightarrow> 'f tool_call_record list \<Rightarrow> nat" where
  "calls_of t cs = length (filter (\<lambda>c. tc_tool c = t) cs)"

definition errors_of :: "string \<Rightarrow> 'f tool_call_record list \<Rightarrow> nat" where
  "errors_of t cs = length (filter (\<lambda>c. tc_tool c = t \<and> response_is_error (tc_response c)) cs)"

definition denials_of :: "(json \<Rightarrow> string) \<Rightarrow> string \<Rightarrow> 'f tool_call_record list \<Rightarrow> nat" where
  "denials_of serde_text t cs =
     length (filter (\<lambda>c. tc_tool c = t \<and> response_is_error (tc_response c)
                         \<and> response_denied serde_text (tc_response c)) cs)"

lemmas call_counts = calls_of_def errors_of_def denials_of_def

lemma counts_ordered: "denials_of s t cs \<le> errors_of t cs \<and> errors_of t cs \<le> calls_of t cs"
  unfolding call_counts by (induction cs) auto

text \<open>The latency series holds a histogram with buckets, so observing it never panics.\<close>

definition latency_ok :: "'f metrics \<Rightarrow> string \<Rightarrow> nat \<Rightarrow> bool" where
  "latency_ok r t n =
     (case series_at r (tool_key ''mcp_tool_latency_seconds'' t) of
        None \<Rightarrow> n = 0 | Some st \<Rightarrow> ms_counts st \<noteq> [] \<and> ms_count st = n)"

lemma observe_state_ok:
  "ms_counts st \<noteq> [] \<Longrightarrow> \<exists>st'. observe_state fo v st = Some st' \<and> ms_counts st' \<noteq> []
     \<and> ms_count st' = ms_count st + 1 \<and> ms_scalar st' = ms_scalar st"
  by (auto simp: observe_state_def Let_def split: option.splits)

lemma observe_latency:
  assumes "latency_ok r t n"
  obtains st where
    "observe_histogram fo ''mcp_tool_latency_seconds'' [(''tool'', t)] v r =
       Some (set_series (tool_key ''mcp_tool_latency_seconds'' t) st r)"
    "ms_counts st \<noteq> []" "ms_count st = n + 1"
proof -
  let ?st = "case series_at r (tool_key ''mcp_tool_latency_seconds'' t) of
               Some st \<Rightarrow> st | None \<Rightarrow> histogram_state fo"
  have "ms_counts ?st \<noteq> [] \<and> ms_count ?st = n"
    using assms by (auto simp: latency_ok_def histogram_state_def split: option.splits)
  then obtain st' where "observe_state fo v ?st = Some st'" "ms_counts st' \<noteq> []" "ms_count st' = n + 1"
    using observe_state_ok [of ?st fo v] by auto
  then show thesis by (intro that) (simp_all add: observe_histogram_series tool_key_def)
qed

definition recorded ::
  "'f float_ops \<Rightarrow> (json \<Rightarrow> string) \<Rightarrow> 'f tool_call_record list \<Rightarrow> 'f metrics \<Rightarrow> string \<Rightarrow> bool" where
  "recorded fo s cs r t \<longleftrightarrow>
     value_at r ''mcp_tool_calls_total'' t = ticks fo (calls_of t cs)
     \<and> value_at r ''mcp_tool_errors_total'' t = ticks fo (errors_of t cs)
     \<and> value_at r ''oracle_authz_denied_total'' t = ticks fo (denials_of s t cs)
     \<and> latency_ok r t (calls_of t cs)"

lemma value_at_set [simp]:
  "value_at (set_series k st r) name t
     = (if tool_key name t = k then Some (ms_scalar st) else value_at r name t)"
  by (simp add: value_at_def)

lemma latency_ok_set [simp]:
  "latency_ok (set_series k st r) t n
     = (if tool_key ''mcp_tool_latency_seconds'' t = k
        then ms_counts st \<noteq> [] \<and> ms_count st = n else latency_ok r t n)"
  by (simp add: latency_ok_def)

lemma value_at_inc [simp]:
  "value_at (inc_counter fo name [(''tool'', t)] r) name' t'
     = (if tool_key name' t' = tool_key name t
        then Some (fl_add fo (unwrap_or (value_at r name t) (fl_of_nat fo 0)) (fl_of_nat fo 1))
        else value_at r name' t')"
  by (auto simp: inc_counter_series Let_def value_at_def scalar_state_def split: option.splits)

lemma latency_ok_inc [simp]:
  "tool_key ''mcp_tool_latency_seconds'' t' \<noteq> tool_key name t \<Longrightarrow>
     latency_ok (inc_counter fo name [(''tool'', t)] r) t' n = latency_ok r t' n"
  by (simp add: inc_counter_series)

lemma ticks_Suc:
  "Some (fl_add fo (unwrap_or (ticks fo n) (fl_of_nat fo 0)) (fl_of_nat fo (Suc 0))) = ticks fo (Suc n)"
  by (simp add: ticks_def)

lemma record_call_recorded:
  assumes "\<forall>t. recorded fo s cs r t"
  shows "\<exists>r'. record_call fo s (tc_tool c) (tc_elapsed c) (tc_response c) r = Some r'
           \<and> (\<forall>t. recorded fo s (cs @ [c]) r' t)"
proof -
  let ?t = "tc_tool c"
  let ?r0 = "inc_counter fo ''mcp_tool_calls_total'' [(''tool'', ?t)] r"
  have "latency_ok ?r0 ?t (calls_of ?t cs)" using assms by (simp add: recorded_def)
  then obtain st where st:
    "observe_histogram fo ''mcp_tool_latency_seconds'' [(''tool'', ?t)] (tc_elapsed c) ?r0 =
       Some (set_series (tool_key ''mcp_tool_latency_seconds'' ?t) st ?r0)"
    "ms_counts st \<noteq> []" "ms_count st = calls_of ?t cs + 1"
    by (rule observe_latency)
  have "\<forall>t. recorded fo s cs r t" by (rule assms)
  then show ?thesis using st
    by (auto simp: record_call_def Let_def recorded_def call_counts ticks_Suc)
qed

lemma series_at_new [simp]: "series_at metrics_new k = None"
  by (simp add: series_at_def metrics_new_def)

lemma record_calls_recorded:
  "\<exists>r. record_calls fo s cs metrics_new = Some r \<and> (\<forall>t. recorded fo s cs r t)"
proof (induction cs rule: rev_induct)
  case Nil
  then show ?case
    by (simp add: record_calls_def recorded_def call_counts ticks_def value_at_def latency_ok_def)
next
  case (snoc c cs)
  then obtain r where "record_calls fo s cs metrics_new = Some r" "\<forall>t. recorded fo s cs r t" by blast
  then show ?case using record_call_recorded [of fo s cs r c] by (auto simp: record_calls_def)
qed

text \<open>The per-tool series are exact: recording any sequence of tool calls into a fresh registry
  never panics, and afterwards, for every tool, the call counter was incremented once per call of that
  tool, the error counter once per call answered by an error, the denial counter once per such call
  whose answer carries a marker of the write gate, and the latency histogram counts every call;
  denials are among the errors and errors among the calls.\<close>

lemma tool_series_are_exact:
  "\<exists>r. record_calls fo serde_text cs metrics_new = Some r
     \<and> value_at r ''mcp_tool_calls_total'' t = ticks fo (calls_of t cs)
     \<and> value_at r ''mcp_tool_errors_total'' t = ticks fo (errors_of t cs)
     \<and> value_at r ''oracle_authz_denied_total'' t = ticks fo (denials_of serde_text t cs)
     \<and> unwrap_or (map_option ms_count (series_at r (tool_key ''mcp_tool_latency_seconds'' t))) 0
         = calls_of t cs
     \<and> denials_of serde_text t cs \<le> errors_of t cs \<and> errors_of t cs \<le> calls_of t cs"
proof -
  obtain r where "record_calls fo serde_text cs metrics_new = Some r"
    and "recorded fo serde_text cs r t"
    using record_calls_recorded [of fo serde_text cs] by blast
  then show ?thesis
    using counts_ordered [of serde_text t cs]
    by (auto simp: recorded_def latency_ok_def split: option.splits)
qed

subsection \<open>Labels are read back from the key\<close>

definition plain_label :: "string \<times> string \<Rightarrow> bool" where
  "plain_label = (\<lambda>(k, v).
     list_all (\<lambda>c. c \<noteq> CHR '','' \<and> c \<noteq> CHR ''='') k
     \<and> list_all (\<lambda>c. c \<noteq> CHR '','' \<and> c \<noteq> CHR 0x5C \<and> c \<noteq> quote_char \<and> c \<noteq> newline) v)"

lemma plain_label_chars: "plain_label (k, v) \<Longrightarrow> CHR ''='' \<notin> set k \<and> quote_char \<notin> set v"
  unfolding plain_label_def list_all_iff by blast

lemma plain_label_text:
  "plain_label (k, v) \<Longrightarrow> label_text (k, v) = k @ CHR ''='' # quote_char # v @ [quote_char]
     \<and> CHR '','' \<notin> set (label_text (k, v))"
  using escape_label_plain [of v] by (auto simp: plain_label_def label_text_def list_all_iff)

lemma parse_plain_labels:
  "list_all plain_label ls \<Longrightarrow>
     foldl (\<lambda>out pair.
        (case split_once (CHR ''='') pair of
           None \<Rightarrow> out | Some (k, v) \<Rightarrow> obj_insert k (trim_char quote_char v) out)) m (map label_text ls)
     = foldl (\<lambda>m kv. obj_insert (fst kv) (snd kv) m) m ls"
proof (induction ls arbitrary: m)
  case (Cons l ls)
  obtain k v where l: "l = (k, v)" by force
  have pl: "plain_label (k, v)" using Cons.prems by (simp add: l)
  have kv: "CHR ''='' \<notin> set k" "quote_char \<notin> set v"
    using plain_label_chars [OF pl] by blast+
  have "label_text (k, v) = k @ CHR ''='' # (quote_char # v @ [quote_char])"
    using plain_label_text [OF pl] by blast
  then have "split_once (CHR ''='') (label_text (k, v)) = Some (k, quote_char # v @ [quote_char])"
    using split_once_append [OF kv(1)] by (rule ssubst)
  then have "foldl (\<lambda>out pair.
        (case split_once (CHR ''='') pair of
           None \<Rightarrow> out | Some (k, v) \<Rightarrow> obj_insert k (trim_char quote_char v) out)) m
        (map label_text (l # ls))
     = foldl (\<lambda>out pair.
        (case split_once (CHR ''='') pair of
           None \<Rightarrow> out | Some (k, v) \<Rightarrow> obj_insert k (trim_char quote_char v) out))
         (obj_insert k v m) (map label_text ls)"
    using trim_quoted [OF kv(2)] by (simp only: list.map foldl.simps l option.case prod.case)
  also have "\<dots> = foldl (\<lambda>m kv. obj_insert (fst kv) (snd kv) m) m (l # ls)"
    using Cons.IH Cons.prems by (simp add: l)
  finally show ?case .
qed simp

lemma series_key_parts:
  "CHR ''{'' \<notin> set name \<Longrightarrow> ls \<noteq> [] \<Longrightarrow>
     find_char (series_key name ls) (CHR ''{'') = Some (length name)
     \<and> name_of_key (series_key name ls) = name
     \<and> labels_part (series_key name ls) = join '','' (map label_text (sort_key fst ls))"
  by (simp add: series_key_def find_char_append name_of_key_def labels_part_def split_char_append)

lemma map_of_sort_key:
  "distinct (map fst ls) \<Longrightarrow> map_of (rev (sort_key fst ls)) = map_of (ls :: labels)"
  by (subst map_of_inject_set) (auto simp: rev_map [symmetric] distinct_map)

text \<open>The key of a series determines its name and labels: for a metric name without a brace and
  labels with distinct keys, whose keys have no comma or equals sign and whose values have no comma,
  backslash, quote or line feed, the name and the labels are read back from the key, whatever the
  order the labels were given in, and that order does not change the key. A comma in a value is
  enough to lose its rest.\<close>

lemma series_key_labels_roundtrip:
  assumes "CHR ''{'' \<notin> set name" "distinct (map fst ls)" "list_all plain_label ls"
  shows "name_of_key (series_key name ls) = name
     \<and> map_of (parse_labels (series_key name ls)) = map_of ls
     \<and> series_key name (rev ls) = series_key name ls
     \<and> parse_labels (series_key name [(''k'', ''a,b'')]) = [(''k'', ''a'')]"
proof (intro conjI)
  have "ls = [] \<or> map_of (parse_labels (series_key name ls)) = map_of ls"
  proof -
    have "list_all plain_label (sort_key fst ls)" using assms(3) by (simp add: list_all_iff)
    moreover from this have "list_all (\<lambda>w. CHR '','' \<notin> set w) (map label_text (sort_key fst ls))"
      using plain_label_text by (auto simp: list_all_iff)
    ultimately show ?thesis
      using series_key_parts [OF assms(1), of ls] assms(2)
      by (cases "ls = []")
         (simp_all add: parse_labels_def split_char_join parse_plain_labels foldl_obj_insert_map_of
            map_of_sort_key set_empty [symmetric] del: set_empty)
  qed
  then show "map_of (parse_labels (series_key name ls)) = map_of ls"
  proof
    assume "ls = []"
    then show ?thesis using assms(1) by (simp add: parse_labels_def series_key_def find_char_free)
  qed
  show "name_of_key (series_key name ls) = name"
    using series_key_parts [OF assms(1), of ls] assms(1)
    by (cases "ls = []") (simp_all add: series_key_def name_of_key_def split_char_free)
  have "sort_key fst (rev ls) = sort_key fst ls"
    using assms(2) by (intro sort_key_inj_key_eq) (simp_all add: distinct_map)
  then show "series_key name (rev ls) = series_key name ls" by (simp add: series_key_def)
  show "parse_labels (series_key name [(''k'', ''a,b'')]) = [(''k'', ''a'')]"
    using series_key_parts [OF assms(1), of "[(''k'', ''a,b'')]"]
    by (simp add: parse_labels_def label_text_def escape_label_plain split_once_def
        trim_char_def trim_start_char_def trim_end_char_def)
qed

lemma series_key_labels_roundtrip_witness:
  "series_key ''calls'' [(''tool'', ''x''), (''env'', ''p'')] = ''calls{env='' @ [quote_char] @ ''p'' @ [quote_char]
       @ '',tool='' @ [quote_char] @ ''x'' @ [quote_char] @ ''}''
     \<and> map_of (parse_labels (series_key ''calls'' [(''tool'', ''x''), (''env'', ''p'')])) ''env'' = Some ''p''"
  using series_key_labels_roundtrip [of "''calls''" "[(''tool'', ''x''), (''env'', ''p'')]"]
  by (simp add: plain_label_def series_key_def label_text_def escape_label_plain)

end
