(* ===== verification/Transports.thy ===== *)
theory Transports
  imports Mcp_Server
begin

text \<open>
  The transports of the protocol (\<open>crates/mcp-transport/src\<close>): line-delimited JSON over a pair of byte
  streams with its split halves, and the HTTP endpoint with its origin and token checks. The peer's
  bytes are the list of those it sends until it closes; the other end of the writer is a \<open>byte_sink\<close>.
  \<open>to_vec\<close> and \<open>from_slice\<close> write and read the text of a JSON value.
\<close>

unbundle bit_operations_syntax

subsection \<open>Lines of bytes\<close>

text \<open>\<open>read_line\<close> takes the bytes through the next newline, or all that are left; they have to be UTF-8.
  \<open>utf8_from k lo hi\<close> expects \<open>k\<close> continuation bytes, the next between \<open>lo\<close> and \<open>hi\<close>.\<close>

fun utf8_from :: "nat \<Rightarrow> nat \<Rightarrow> nat \<Rightarrow> string \<Rightarrow> bool" where
  "utf8_from k lo hi [] = (k = 0)"
| "utf8_from (Suc k) lo hi (c # s) =
     (lo \<le> of_char c \<and> of_char c \<le> hi \<and> utf8_from k 0x80 0xBF s)"
| "utf8_from 0 lo hi (c # s) =
     (let b = (of_char c :: nat) in
      if b < 0x80 then utf8_from 0 0 0 s
      else if b < 0xC2 then False
      else if b < 0xE0 then utf8_from 1 0x80 0xBF s
      else if b = 0xE0 then utf8_from 2 0xA0 0xBF s
      else if b = 0xED then utf8_from 2 0x80 0x9F s
      else if b < 0xF0 then utf8_from 2 0x80 0xBF s
      else if b = 0xF0 then utf8_from 3 0x90 0xBF s
      else if b < 0xF4 then utf8_from 3 0x80 0xBF s
      else if b = 0xF4 then utf8_from 3 0x80 0x8F s
      else False)"

definition valid_utf8 :: "string \<Rightarrow> bool" where
  "valid_utf8 s = utf8_from 0 0 0 s"

fun take_line :: "string \<Rightarrow> string \<times> string" where
  "take_line [] = ([], [])"
| "take_line (c # s) =
     (if c = newline then ([c], s) else (case take_line s of (line, rest) \<Rightarrow> (c # line, rest)))"

definition read_line :: "string \<Rightarrow> string mcp_result \<times> string" where
  "read_line input =
     (case take_line input of (line, rest) \<Rightarrow>
        ((if valid_utf8 line then Ok line
          else Err (McpIo ''stream did not contain valid UTF-8'')), rest))"

text \<open>\<open>Message::from_json\<close>; a value that is not a message is reported with the text \<open>unreadable\<close>.\<close>

definition message_from_json ::
  "(string \<Rightarrow> string + json) \<Rightarrow> (json \<Rightarrow> string) \<Rightarrow> string \<Rightarrow> rpc_message mcp_result" where
  "message_from_json from_slice unreadable bytes =
     (case from_slice bytes of
        Inl e \<Rightarrow> Err (McpJson e)
      | Inr v \<Rightarrow>
          (case message_from_value v of
             None \<Rightarrow> Err (McpJson (unreadable v))
           | Some m \<Rightarrow> Ok m))"

lemma take_line_rest:
  "input \<noteq> [] \<Longrightarrow> length (snd (take_line input)) < length input"
proof (induction input)
  case (Cons c s)
  show ?case by (cases "s = []") (use Cons.IH in \<open>auto split: prod.split\<close>)
qed simp

lemma take_line_empty: "fst (take_line input) = [] \<longleftrightarrow> input = []"
  by (cases input) (auto split: prod.split)

text \<open>\<open>StdioReader::recv\<close>: the first line that is not blank.\<close>

function reader_recv ::
  "(string \<Rightarrow> string + json) \<Rightarrow> (json \<Rightarrow> string) \<Rightarrow> string \<Rightarrow> rpc_message option mcp_result \<times> string" where
  "reader_recv from_slice unreadable input =
     (case read_line input of
        (Inl e, rest) \<Rightarrow> (Err e, rest)
      | (Inr line, rest) \<Rightarrow>
          if line = [] then (Ok None, rest)
          else if trim line = [] then reader_recv from_slice unreadable rest
          else (map_sum id Some (message_from_json from_slice unreadable (trim line)), rest))"
  by pat_completeness auto
termination
proof (relation "measure (\<lambda>(f, u, input). length input)", goal_cases)
  case 1
  show ?case by simp
next
  case (2 from_slice unreadable input)
  then show ?case
    using take_line_rest [of input] take_line_empty [of input]
    by (auto simp: read_line_def split: prod.splits if_splits)
qed

declare reader_recv.simps [simp del]

subsection \<open>The stdio transport\<close>

text \<open>The other end of a writer: what a write, a flush and a shutdown do to it.\<close>

record 'w byte_sink =
  bs_write :: "string \<Rightarrow> 'w \<Rightarrow> (string + unit) \<times> 'w"
  bs_flush :: "'w \<Rightarrow> (string + unit) \<times> 'w"
  bs_shutdown :: "'w \<Rightarrow> 'w"

definition sink_then ::
  "('w \<Rightarrow> (string + unit) \<times> 'w) \<Rightarrow> ('w \<Rightarrow> (string + unit) \<times> 'w) \<Rightarrow> 'w \<Rightarrow> (string + unit) \<times> 'w" where
  "sink_then f g w = (case f w of (Inl e, w1) \<Rightarrow> (Inl e, w1) | (Inr _, w1) \<Rightarrow> g w1)"

definition write_frame :: "'w byte_sink \<Rightarrow> string \<Rightarrow> 'w \<Rightarrow> (string + unit) \<times> 'w" where
  "write_frame sink bytes =
     sink_then (bs_write sink bytes) (sink_then (bs_write sink [newline]) (bs_flush sink))"

record 'w stdio_writer =
  sw_writer :: 'w
  sw_closed :: bool

definition writer_send ::
  "(json \<Rightarrow> string) \<Rightarrow> 'w byte_sink \<Rightarrow> rpc_message \<Rightarrow> 'w stdio_writer \<Rightarrow> unit mcp_result \<times> 'w stdio_writer" where
  "writer_send to_vec sink m wr =
     (if sw_closed wr then (Err McpTransportClosed, wr)
      else (case write_frame sink (to_vec (message_to_value m)) (sw_writer wr) of
              (r, w) \<Rightarrow> (map_sum McpIo id r, wr\<lparr>sw_writer := w\<rparr>)))"

definition writer_close :: "'w byte_sink \<Rightarrow> 'w stdio_writer \<Rightarrow> 'w stdio_writer" where
  "writer_close sink wr =
     (if sw_closed wr then wr
      else wr\<lparr>sw_closed := True, sw_writer := bs_shutdown sink (sw_writer wr)\<rparr>)"

record 'w stdio_transport =
  st_reader :: string
  st_writer :: 'w
  st_closed :: bool

definition stdio_new :: "string \<Rightarrow> 'w \<Rightarrow> 'w stdio_transport" where
  "stdio_new reader writer = \<lparr>st_reader = reader, st_writer = writer, st_closed = False\<rparr>"

definition into_parts :: "'w stdio_transport \<Rightarrow> string \<times> 'w stdio_writer" where
  "into_parts t = (st_reader t, \<lparr>sw_writer = st_writer t, sw_closed = False\<rparr>)"

definition stdio_send ::
  "(json \<Rightarrow> string) \<Rightarrow> 'w byte_sink \<Rightarrow> rpc_message \<Rightarrow> 'w stdio_transport
     \<Rightarrow> unit mcp_result \<times> 'w stdio_transport" where
  "stdio_send to_vec sink m t =
     (if st_closed t then (Err McpTransportClosed, t)
      else (case write_frame sink (to_vec (message_to_value m)) (st_writer t) of
              (r, w) \<Rightarrow> (map_sum McpIo id r, t\<lparr>st_writer := w\<rparr>)))"

text \<open>The recursion over blank lines checks \<open>closed\<close> again, which does not change.\<close>

definition stdio_recv ::
  "(string \<Rightarrow> string + json) \<Rightarrow> (json \<Rightarrow> string) \<Rightarrow> 'w stdio_transport
     \<Rightarrow> rpc_message option mcp_result \<times> 'w stdio_transport" where
  "stdio_recv from_slice unreadable t =
     (if st_closed t then (Ok None, t)
      else (case reader_recv from_slice unreadable (st_reader t) of
              (r, rest) \<Rightarrow> (r, t\<lparr>st_reader := rest\<rparr>)))"

definition stdio_close :: "'w byte_sink \<Rightarrow> 'w stdio_transport \<Rightarrow> unit mcp_result \<times> 'w stdio_transport" where
  "stdio_close sink t =
     (Ok (), if st_closed t then t
             else t\<lparr>st_closed := True, st_writer := bs_shutdown sink (st_writer t)\<rparr>)"

lemma reader_recv_shorter:
  "reader_recv from_slice unreadable input = (Inr (Some m), rest) \<Longrightarrow> length rest < length input"
proof (induction from_slice unreadable input rule: reader_recv.induct)
  case (1 from_slice unreadable input)
  obtain line rest1 where l: "take_line input = (line, rest1)" by (cases "take_line input")
  show ?case
  proof (cases "valid_utf8 line \<and> line \<noteq> []")
    case True
    then have read: "read_line input = (Inr line, rest1)" by (simp add: read_line_def l)
    have "length rest1 < length input"
      using True take_line_rest [of input] take_line_empty [of input] by (auto simp: l)
    then show ?thesis
      using 1 True read by (fastforce simp: reader_recv.simps [of _ _ input] split: if_splits)
  next
    case False
    then show ?thesis
      using 1 by (auto simp: reader_recv.simps [of _ _ input] read_line_def l split: if_splits)
  qed
qed

text \<open>\<open>Server::run\<close> over this transport: receive, dispatch, send the answer, until the end of the input; the
  first error of the transport ends it.\<close>

function run_single_actor ::
  "(string \<Rightarrow> string option) \<Rightarrow> (json \<Rightarrow> string) \<Rightarrow> (json \<Rightarrow> string) \<Rightarrow> (string \<Rightarrow> string + json) \<Rightarrow> (json \<Rightarrow> string)
     \<Rightarrow> 'w byte_sink \<Rightarrow> 's server \<Rightarrow> 'w stdio_transport \<Rightarrow> 's
     \<Rightarrow> unit mcp_result \<times> 's server \<times> 's \<times> 'w stdio_transport" where
  "run_single_actor env serde_text to_vec from_slice unreadable sink srv t s =
     (case stdio_recv from_slice unreadable t of
        (Inl e, t1) \<Rightarrow> (Err e, srv, s, t1)
      | (Inr None, t1) \<Rightarrow> (Ok (), srv, s, t1)
      | (Inr (Some m), t1) \<Rightarrow>
          (case dispatch_message env serde_text srv m s of
             (None, srv1, s1) \<Rightarrow>
               run_single_actor env serde_text to_vec from_slice unreadable sink srv1 t1 s1
           | (Some out, srv1, s1) \<Rightarrow>
               (case stdio_send to_vec sink out t1 of
                  (Inl e, t2) \<Rightarrow> (Err e, srv1, s1, t2)
                | (Inr _, t2) \<Rightarrow>
                    run_single_actor env serde_text to_vec from_slice unreadable sink srv1 t2 s1)))"
  by pat_completeness auto
termination
proof (relation "measure (\<lambda>(e, x, v, f, u, k, srv, t, s). length (st_reader t))", goal_cases)
  case 1
  show ?case by simp
next
  case (2 env x v from_slice unreadable sink srv t s)
  then show ?case
    by (auto simp: stdio_recv_def split: if_splits prod.splits dest: reader_recv_shorter)
next
  case (3 env x v from_slice unreadable sink srv t s)
  then show ?case
    by (auto simp: stdio_recv_def stdio_send_def split: if_splits prod.splits dest: reader_recv_shorter)
qed

declare run_single_actor.simps [simp del]

subsection \<open>Framing\<close>

text \<open>The text of a message that fits on a line and is read back; any number of blank lines before it.\<close>

definition line_text :: "string \<Rightarrow> bool" where
  "line_text t \<longleftrightarrow> valid_utf8 t \<and> newline \<notin> set t \<and> trim t = t \<and> t \<noteq> []"

definition readable :: "(json \<Rightarrow> string) \<Rightarrow> (string \<Rightarrow> string + json) \<Rightarrow> rpc_message \<Rightarrow> bool" where
  "readable to_vec from_slice m \<longleftrightarrow>
     line_text (to_vec (message_to_value m)) \<and> from_slice (to_vec (message_to_value m)) = Inr (message_to_value m)"

definition blank_line :: "string \<Rightarrow> bool" where
  "blank_line b \<longleftrightarrow> list_all is_space_char b \<and> newline \<notin> set b"

definition frame :: "(json \<Rightarrow> string) \<Rightarrow> rpc_message \<Rightarrow> string" where
  "frame to_vec m = to_vec (message_to_value m) @ [newline]"

definition end_lines :: "string list \<Rightarrow> string" where
  "end_lines bs = concat (map (\<lambda>b. b @ [newline]) bs)"

definition pipe_sink :: "string byte_sink" where
  "pipe_sink = \<lparr>bs_write = (\<lambda>bytes w. (Ok (), w @ bytes)), bs_flush = (\<lambda>w. (Ok (), w)), bs_shutdown = (\<lambda>w. w)\<rparr>"

lemma utf8_from_append: "utf8_from k lo hi s \<Longrightarrow> utf8_from 0 0 0 t \<Longrightarrow> utf8_from k lo hi (s @ t)"
proof (induction k lo hi s rule: utf8_from.induct)
  case (1 k lo hi)
  then show ?case by (cases t) auto
qed (auto simp: Let_def split: if_splits)

lemma valid_utf8_newline: "valid_utf8 t \<Longrightarrow> valid_utf8 (t @ [newline])"
  unfolding valid_utf8_def by (rule utf8_from_append) simp_all

lemma valid_utf8_blank: "list_all is_space_char b \<Longrightarrow> valid_utf8 b"
  unfolding valid_utf8_def by (induction b) (auto simp: is_space_char_def Let_def)

lemma take_line_newline: "newline \<notin> set t \<Longrightarrow> take_line (t @ newline # rest) = (t @ [newline], rest)"
  by (induction t) auto

lemma read_line_newline:
  "newline \<notin> set t \<Longrightarrow> valid_utf8 t \<Longrightarrow> read_line (t @ newline # rest) = (Ok (t @ [newline]), rest)"
  by (simp add: read_line_def take_line_newline valid_utf8_newline)

lemma trim_line:
  assumes "trim t = t" and "t \<noteq> []"
  shows "trim (t @ [newline]) = t"
proof -
  have nl: "is_space_char newline" by (simp add: is_space_char_def)
  have "trim_start t \<noteq> []" using assms by (auto simp: trim_def trim_end_def)
  then have start: "trim_start (t @ [newline]) = trim_start t @ [newline]"
    by (auto simp: trim_start_def dropWhile_eq_Nil_conv dropWhile_append)
  show ?thesis using assms(1) nl by (simp add: trim_def trim_end_def start)
qed

lemma trim_blank: "list_all is_space_char b \<Longrightarrow> trim (b @ [newline]) = []"
  by (simp add: trim_def trim_start_def trim_end_def list_all_iff is_space_char_def)

lemma recv_line:
  "line_text t \<Longrightarrow> reader_recv from_slice unreadable (t @ newline # rest)
     = (map_sum id Some (message_from_json from_slice unreadable t), rest)"
  by (simp add: reader_recv.simps [of _ _ "t @ newline # rest"] line_text_def read_line_newline trim_line)

lemma recv_blanks:
  "list_all blank_line bs \<Longrightarrow> reader_recv from_slice unreadable (end_lines bs @ rest)
     = reader_recv from_slice unreadable rest"
proof (induction bs)
  case (Cons b bs)
  then have "reader_recv from_slice unreadable (b @ newline # end_lines bs @ rest)
      = reader_recv from_slice unreadable (end_lines bs @ rest)"
    by (simp add: reader_recv.simps [of _ _ "b @ newline # end_lines bs @ rest"] blank_line_def
        read_line_newline valid_utf8_blank trim_blank)
  then show ?case using Cons by (simp add: end_lines_def)
qed (simp add: end_lines_def)

lemma recv_message:
  assumes "list_all blank_line bs" and "readable to_vec from_slice m"
  shows "reader_recv from_slice unreadable (end_lines bs @ frame to_vec m @ rest)
    = (Ok (Some (normal_message m)), rest)"
  using assms by (simp add: recv_blanks readable_def frame_def recv_line message_from_json_def)

lemma recv_end: "list_all blank_line bs \<Longrightarrow> reader_recv from_slice unreadable (end_lines bs) = (Ok None, [])"
  using recv_blanks [of bs from_slice unreadable "[]"]
  by (simp add: reader_recv.simps [of _ _ "[]"] read_line_def valid_utf8_def)

lemma send_frame:
  "\<not> st_closed t \<Longrightarrow> stdio_send to_vec pipe_sink m t
     = (Ok (), t\<lparr>st_writer := st_writer t @ frame to_vec m\<rparr>)"
  by (simp add: stdio_send_def write_frame_def sink_then_def pipe_sink_def frame_def)

lemma send_new:
  "stdio_send to_vec pipe_sink m (stdio_new input w) = (Ok (), stdio_new input (w @ frame to_vec m))"
  by (simp add: stdio_new_def send_frame)

lemma writer_send_frame:
  "\<not> sw_closed wr \<Longrightarrow> writer_send to_vec pipe_sink m wr
     = (Ok (), wr\<lparr>sw_writer := sw_writer wr @ frame to_vec m\<rparr>)"
  by (simp add: writer_send_def write_frame_def sink_then_def pipe_sink_def frame_def)

text \<open>Serving over stdio is serving: when the peer sends lines, each a message whose text fits on a line
  and is read back, with any blank lines between them, the server's loop ends without an error at the end of
  the input, having consumed all of it, and has written exactly the answers the server gives to those
  messages, in order and each on a line of its own; a closed transport sends nothing.\<close>

lemma stdio_serves_the_messages:
  assumes "\<forall>(bs, m)\<in>set ims. list_all blank_line bs \<and> readable to_vec from_slice m"
    and "list_all blank_line bs'"
  shows "(let (outs, srv', s') = serve env serde_text srv (map (\<lambda>(bs, m). normal_message m) ims) s in
      run_single_actor env serde_text to_vec from_slice unreadable pipe_sink srv
        (stdio_new (concat (map (\<lambda>(bs, m). end_lines bs @ frame to_vec m) ims) @ end_lines bs') w) s
      = (Ok (), srv', s', stdio_new [] (w @ concat (map (frame to_vec) outs))))
    \<and> fst (stdio_send to_vec pipe_sink out (snd (stdio_close pipe_sink t))) = Err McpTransportClosed"
proof -
  let ?run = "run_single_actor env serde_text to_vec from_slice unreadable pipe_sink"
  have "serve env serde_text srv (map (\<lambda>(bs, m). normal_message m) ims) s = (outs, srv', s')
    \<Longrightarrow> ?run srv (stdio_new (concat (map (\<lambda>(bs, m). end_lines bs @ frame to_vec m) ims) @ end_lines bs') w) s
      = (Ok (), srv', s', stdio_new [] (w @ concat (map (frame to_vec) outs)))" for outs srv' s'
    using assms(1)
  proof (induction ims arbitrary: srv s w outs srv' s')
    case Nil
    then show ?case
      by (simp add: run_single_actor.simps stdio_new_def stdio_recv_def recv_end assms(2))
  next
    case (Cons im ims)
    obtain bs m where im: "im = (bs, m)" by (cases im)
    obtain resp srv1 s1 where d: "dispatch_message env serde_text srv (normal_message m) s = (resp, srv1, s1)"
      by (cases "dispatch_message env serde_text srv (normal_message m) s")
    obtain outs1 where rest: "serve env serde_text srv1 (map (\<lambda>(bs, m). normal_message m) ims) s1 = (outs1, srv', s')"
      and outs: "outs = (case resp of Some r \<Rightarrow> r # outs1 | None \<Rightarrow> outs1)"
      using Cons.prems(1) by (auto simp: im d split: prod.splits)
    let ?input = "concat (map (\<lambda>(bs, m). end_lines bs @ frame to_vec m) ims) @ end_lines bs'"
    have "reader_recv from_slice unreadable (end_lines bs @ frame to_vec m @ ?input)
        = (Ok (Some (normal_message m)), ?input)"
      using Cons.prems(2) by (intro recv_message) (auto simp: im)
    then have recv: "stdio_recv from_slice unreadable (stdio_new (end_lines bs @ frame to_vec m @ ?input) w)
        = (Ok (Some (normal_message m)), stdio_new ?input w)"
      by (simp add: stdio_recv_def stdio_new_def)
    have ih: "?run srv1 (stdio_new ?input w1) s1 = (Ok (), srv', s', stdio_new [] (w1 @ concat (map (frame to_vec) outs1)))" for w1
      using Cons.IH [OF rest] Cons.prems(2) by simp
    show ?case
      using ih recv
      by (cases resp) (simp_all add: im outs run_single_actor.simps [of env _ _ _ _ _ srv] d send_new)
  qed
  moreover have "fst (stdio_send to_vec pipe_sink out (snd (stdio_close pipe_sink t))) = Err McpTransportClosed"
    by (simp add: stdio_send_def stdio_close_def)
  ultimately show ?thesis by (simp split: prod.split)
qed

lemma stdio_serves_the_messages_witness:
  "\<forall>srv :: nat server. \<forall>s. let m = Msg_Request (request_new (Id_Number 1) ''ping'' None);
        (outs, srv', s') = serve (\<lambda>_. None) (\<lambda>_. []) srv [normal_message m] s in
      run_single_actor (\<lambda>_. None) (\<lambda>_. []) (\<lambda>_. ''{}'') (\<lambda>_. Inr (message_to_value m)) (\<lambda>_. []) pipe_sink srv
        (stdio_new (''  '' @ [newline] @ ''{}'' @ [newline]) []) s
      = (Ok (), srv', s', stdio_new [] (concat (map (frame (\<lambda>_. ''{}'')) outs)))"
proof (intro allI)
  fix srv :: "nat server" and s
  let ?m = "Msg_Request (request_new (Id_Number 1) ''ping'' None)"
  have "line_text ''{}''" by code_simp
  then have readable: "readable (\<lambda>_. ''{}'') (\<lambda>_. Inr (message_to_value ?m)) ?m" by (simp add: readable_def)
  have "blank_line ''  ''" by code_simp
  with readable show "let m = ?m;
        (outs, srv', s') = serve (\<lambda>_. None) (\<lambda>_. []) srv [normal_message m] s in
      run_single_actor (\<lambda>_. None) (\<lambda>_. []) (\<lambda>_. ''{}'') (\<lambda>_. Inr (message_to_value m)) (\<lambda>_. []) pipe_sink srv
        (stdio_new (''  '' @ [newline] @ ''{}'' @ [newline]) []) s
      = (Ok (), srv', s', stdio_new [] (concat (map (frame (\<lambda>_. ''{}'')) outs)))"
    using stdio_serves_the_messages [of "[([''  ''], ?m)]" "\<lambda>_. ''{}''" "\<lambda>_. Inr (message_to_value ?m)" "[]"
        "\<lambda>_. None" "\<lambda>_. []" srv s "\<lambda>_. []" "[]" ?m "stdio_new [] []"]
    by (simp add: Let_def split_def end_lines_def frame_def del: serve.simps)
qed

subsection \<open>The HTTP endpoint\<close>

text \<open>\<open>headers k\<close> is the value of the header \<open>k\<close> as text, if it has one.\<close>

type_synonym http_headers = "string \<Rightarrow> string option"

record ('a, 's) http_config =
  hs_bind :: 'a
  hs_bearer_token :: "string option"
  hs_metrics_renderer :: "('s \<Rightarrow> string) option"
  hs_allowed_origins :: "string list"

definition http_config_default :: "(string, 's) http_config" where
  "http_config_default = \<lparr>hs_bind = ''127.0.0.1:3030'', hs_bearer_token = None,
     hs_metrics_renderer = None, hs_allowed_origins = []\<rparr>"

definition as_bytes :: "string \<Rightarrow> 8 word list" where
  "as_bytes s = map of_char s"

fun xor_diff :: "8 word \<Rightarrow> 8 word list \<Rightarrow> 8 word list \<Rightarrow> 8 word" where
  "xor_diff diff (x # a) (y # b) = xor_diff (diff OR (x XOR y)) a b"
| "xor_diff diff a b = diff"

definition constant_time_eq :: "8 word list \<Rightarrow> 8 word list \<Rightarrow> bool" where
  "constant_time_eq a b = (if length a \<noteq> length b then False else xor_diff 0 a b = 0)"

definition check_auth :: "string option \<Rightarrow> http_headers \<Rightarrow> bool" where
  "check_auth expected headers =
     (case expected of
        None \<Rightarrow> True
      | Some token \<Rightarrow>
          (case headers ''authorization'' of
             Some s \<Rightarrow> constant_time_eq (as_bytes s) (as_bytes (''Bearer '' @ token))
           | None \<Rightarrow> False))"

definition check_origin :: "string list \<Rightarrow> http_headers \<Rightarrow> bool" where
  "check_origin allowed headers =
     (if allowed = [] then True
      else (case headers ''origin'' of
              None \<Rightarrow> False
            | Some origin \<Rightarrow> list_ex (\<lambda>a. a = origin) allowed))"

text \<open>An answer; the stream of events of a subscriber is the number of its channel.\<close>

datatype http_body = Body_Text string | Body_Typed string string | Body_Empty | Body_Events nat

record http_answer =
  ha_status :: nat
  ha_body :: http_body

definition text_answer :: "nat \<Rightarrow> string \<Rightarrow> http_answer" where
  "text_answer status body = \<lparr>ha_status = status, ha_body = Body_Text body\<rparr>"

text \<open>The state the handlers share: the channels of the subscribers.\<close>

record app_state =
  ap_bearer_token :: "string option"
  ap_allowed_origins :: "string list"
  ap_subscribers :: "rpc_message list list"

definition app_state_new :: "('a, 's) http_config \<Rightarrow> app_state" where
  "app_state_new cfg = \<lparr>ap_bearer_token = hs_bearer_token cfg,
     ap_allowed_origins = hs_allowed_origins cfg, ap_subscribers = []\<rparr>"

definition post_handler ::
  "(json \<Rightarrow> string) \<Rightarrow> (json \<Rightarrow> string) \<Rightarrow> (rpc_message \<Rightarrow> 's \<Rightarrow> rpc_message option \<times> 's) \<Rightarrow> app_state
     \<Rightarrow> http_headers \<Rightarrow> json \<Rightarrow> 's \<Rightarrow> http_answer \<times> 's" where
  "post_handler to_string unreadable handle st headers message s =
     (if \<not> check_origin (ap_allowed_origins st) headers then (text_answer 403 ''origin not allowed'', s)
      else if \<not> check_auth (ap_bearer_token st) headers then (text_answer 401 ''unauthorized'', s)
      else (case message_from_value message of
              None \<Rightarrow> (text_answer 400 (unreadable message), s)
            | Some m \<Rightarrow>
                (case handle m s of
                   (Some reply, s') \<Rightarrow>
                     (\<lparr>ha_status = 200,
                       ha_body = Body_Typed ''application/json'' (to_string (message_to_value reply))\<rparr>, s')
                 | (None, s') \<Rightarrow> (\<lparr>ha_status = 202, ha_body = Body_Empty\<rparr>, s'))))"

definition events_handler :: "app_state \<Rightarrow> http_headers \<Rightarrow> http_answer \<times> app_state" where
  "events_handler st headers =
     (if \<not> check_origin (ap_allowed_origins st) headers then (text_answer 403 ''origin not allowed'', st)
      else if \<not> check_auth (ap_bearer_token st) headers then (text_answer 401 ''unauthorized'', st)
      else (\<lparr>ha_status = 200, ha_body = Body_Events (length (ap_subscribers st))\<rparr>,
            st\<lparr>ap_subscribers := ap_subscribers st @ [[]]\<rparr>))"

text \<open>\<open>Bridge::poll_next\<close>: the next event of a channel; \<open>None\<close> while there is none.\<close>

definition poll_events ::
  "(json \<Rightarrow> string) \<Rightarrow> nat \<Rightarrow> app_state \<Rightarrow> string option \<times> app_state" where
  "poll_events to_string i st =
     (case ap_subscribers st ! i of
        [] \<Rightarrow> (None, st)
      | m # ms \<Rightarrow>
          (Some (to_string (message_to_value m)), st\<lparr>ap_subscribers := (ap_subscribers st)[i := ms]\<rparr>))"

definition metrics_route :: "('s \<Rightarrow> string) option \<Rightarrow> 's \<Rightarrow> http_answer" where
  "metrics_route renderer s =
     (case renderer of
        Some f \<Rightarrow> \<lparr>ha_status = 200, ha_body = Body_Typed ''text/plain; version=0.0.4'' (f s)\<rparr>
      | None \<Rightarrow> text_answer 404 ''metrics endpoint not configured'')"

text \<open>The routes, with the headers of the request.\<close>

datatype http_call = Post_Mcp http_headers json | Get_Events http_headers | Get_Health | Get_Metrics

text \<open>\<open>render\<close> is the metrics renderer on the state behind the dispatch \<open>handle\<close>.\<close>

fun http_route ::
  "(json \<Rightarrow> string) \<Rightarrow> (json \<Rightarrow> string) \<Rightarrow> ('s \<Rightarrow> string) option \<Rightarrow> (rpc_message \<Rightarrow> 's \<Rightarrow> rpc_message option \<times> 's)
     \<Rightarrow> http_call \<Rightarrow> app_state \<times> 's \<Rightarrow> http_answer \<times> app_state \<times> 's" where
  "http_route to_string unreadable render handle (Post_Mcp h v) (st, s) =
     (case post_handler to_string unreadable handle st h v s of (a, s') \<Rightarrow> (a, st, s'))"
| "http_route to_string unreadable render handle (Get_Events h) (st, s) =
     (case events_handler st h of (a, st') \<Rightarrow> (a, st', s))"
| "http_route to_string unreadable render handle Get_Health (st, s) = (text_answer 200 ''ok'', st, s)"
| "http_route to_string unreadable render handle Get_Metrics (st, s) = (metrics_route render s, st, s)"

fun http_serve ::
  "(json \<Rightarrow> string) \<Rightarrow> (json \<Rightarrow> string) \<Rightarrow> ('s \<Rightarrow> string) option \<Rightarrow> (rpc_message \<Rightarrow> 's \<Rightarrow> rpc_message option \<times> 's)
     \<Rightarrow> http_call list \<Rightarrow> app_state \<times> 's \<Rightarrow> http_answer list \<times> app_state \<times> 's" where
  "http_serve to_string unreadable render handle [] w = ([], w)"
| "http_serve to_string unreadable render handle (c # cs) w =
     (case http_route to_string unreadable render handle c w of (a, w1) \<Rightarrow>
       (case http_serve to_string unreadable render handle cs w1 of (answers, w2) \<Rightarrow> (a # answers, w2)))"

subsection \<open>Who is served\<close>

lemma xor_is_0: "x XOR y = 0 \<longleftrightarrow> x = (y :: 8 word)"
  by (auto simp: bit_eq_iff bit_simps)

lemma xor_diff_zero: "length a = length b \<Longrightarrow> xor_diff d a b = 0 \<longleftrightarrow> d = 0 \<and> a = b"
  by (induction d a b rule: xor_diff.induct) (auto simp: or_eq_0_iff xor_is_0)

lemma constant_time_eq_iff: "constant_time_eq a b \<longleftrightarrow> a = b"
  by (auto simp: constant_time_eq_def xor_diff_zero)

lemma of_char_word_eq: "(of_char c :: 8 word) = of_char d \<longleftrightarrow> c = d"
proof -
  have "unat (of_char e :: 8 word) = of_char e" for e :: char
  proof -
    have "unat (of_nat (of_char e) :: 8 word) = of_char e"
      using nat_of_char_less_256 [of e] by (simp only: unsigned_of_nat take_bit_eq_mod) simp
    then show ?thesis by (simp only: of_nat_of_char)
  qed
  then show ?thesis by (metis of_char_eq_iff)
qed

lemma as_bytes_eq: "as_bytes s = as_bytes t \<longleftrightarrow> s = t"
  unfolding as_bytes_def using of_char_word_eq by (auto simp: inj_on_def intro: map_injective)

text \<open>A request is admitted when its origin is listed, or none are, and it bears the token, or there is none.\<close>

definition origin_listed :: "('a, 's) http_config \<Rightarrow> http_headers \<Rightarrow> bool" where
  "origin_listed cfg h \<longleftrightarrow>
     hs_allowed_origins cfg = [] \<or> h ''origin'' \<in> Some ` set (hs_allowed_origins cfg)"

definition token_borne :: "('a, 's) http_config \<Rightarrow> http_headers \<Rightarrow> bool" where
  "token_borne cfg h \<longleftrightarrow>
     hs_bearer_token cfg = None
     \<or> h ''authorization'' = Some (''Bearer '' @ the (hs_bearer_token cfg))"

definition admitted_message :: "('a, 's) http_config \<Rightarrow> http_call \<Rightarrow> rpc_message option" where
  "admitted_message cfg c =
     (case c of
        Post_Mcp h v \<Rightarrow> if origin_listed cfg h \<and> token_borne cfg h then message_from_value v else None
      | _ \<Rightarrow> None)"

fun handle_all ::
  "(rpc_message \<Rightarrow> 's \<Rightarrow> rpc_message option \<times> 's) \<Rightarrow> rpc_message list \<Rightarrow> 's \<Rightarrow> rpc_message list \<times> 's" where
  "handle_all handle [] s = ([], s)"
| "handle_all handle (m # ms) s =
     (case handle m s of (r, s1) \<Rightarrow>
       (case handle_all handle ms s1 of (rs, s2) \<Rightarrow>
         ((case r of Some x \<Rightarrow> x # rs | None \<Rightarrow> rs), s2)))"

definition json_body :: "http_answer \<Rightarrow> string option" where
  "json_body a =
     (case ha_body a of Body_Typed t b \<Rightarrow> if t = ''application/json'' then Some b else None | _ \<Rightarrow> None)"

text \<open>What the status of an answer says of the request.\<close>

definition status_fits :: "('a, 's) http_config \<Rightarrow> http_call \<Rightarrow> http_answer \<Rightarrow> bool" where
  "status_fits cfg c a =
     (case c of
        Post_Mcp h v \<Rightarrow>
          (ha_status a = 403 \<longleftrightarrow> \<not> origin_listed cfg h)
          \<and> (ha_status a = 401 \<longleftrightarrow> origin_listed cfg h \<and> \<not> token_borne cfg h)
          \<and> (ha_status a \<in> {200, 202} \<longleftrightarrow> admitted_message cfg c \<noteq> None)
      | Get_Events h \<Rightarrow> ha_status a = 200 \<longleftrightarrow> origin_listed cfg h \<and> token_borne cfg h
      | Get_Health \<Rightarrow> ha_status a = 200
      | Get_Metrics \<Rightarrow> ha_status a = 200 \<longleftrightarrow> hs_metrics_renderer cfg \<noteq> None)"

lemma check_origin_listed [simp]: "check_origin (hs_allowed_origins cfg) h \<longleftrightarrow> origin_listed cfg h"
  by (auto simp: check_origin_def origin_listed_def list_ex_iff split: option.split)

lemma check_auth_token [simp]: "check_auth (hs_bearer_token cfg) h \<longleftrightarrow> token_borne cfg h"
  by (auto simp: check_auth_def token_borne_def constant_time_eq_iff as_bytes_eq split: option.split)

lemma http_route_step:
  assumes "list_all (\<lambda>q. q = []) (ap_subscribers st)"
    and "ap_bearer_token st = hs_bearer_token cfg" and "ap_allowed_origins st = hs_allowed_origins cfg"
  shows "\<exists>a qs. http_route to_string unreadable (hs_metrics_renderer cfg) handle c (st, s)
      = (a, st\<lparr>ap_subscribers := qs\<rparr>, (case admitted_message cfg c of Some m \<Rightarrow> snd (handle m s) | None \<Rightarrow> s))
    \<and> list_all (\<lambda>q. q = []) qs \<and> status_fits cfg c a
    \<and> json_body a = Option.bind (admitted_message cfg c)
        (\<lambda>m. map_option (\<lambda>r. to_string (message_to_value r)) (fst (handle m s)))"
proof (cases c)
  case (Post_Mcp h v)
  then show ?thesis
    using assms
    by (intro exI [of _ "fst (http_route to_string unreadable (hs_metrics_renderer cfg) handle c (st, s))"]
        exI [of _ "ap_subscribers st"])
      (auto simp: post_handler_def admitted_message_def status_fits_def json_body_def
        text_answer_def split: prod.split option.split)
next
  case (Get_Events h)
  then show ?thesis
    using assms
    by (auto simp: events_handler_def admitted_message_def status_fits_def json_body_def text_answer_def
        intro!: exI [of _ "ap_subscribers (snd (events_handler st h))"])
next
  case Get_Health
  then show ?thesis
    using assms
    by (auto simp: admitted_message_def status_fits_def json_body_def text_answer_def
        intro!: exI [of _ "ap_subscribers st"])
next
  case Get_Metrics
  then show ?thesis
    using assms
    by (auto simp: metrics_route_def admitted_message_def status_fits_def json_body_def text_answer_def
        intro!: exI [of _ "ap_subscribers st"] split: option.split)
qed

lemma http_serve_admitted:
  assumes "list_all (\<lambda>q. q = []) (ap_subscribers st)"
    and "ap_bearer_token st = hs_bearer_token cfg" and "ap_allowed_origins st = hs_allowed_origins cfg"
    and "http_serve to_string unreadable (hs_metrics_renderer cfg) handle calls (st, s) = (answers, st', s')"
    and "handle_all handle (List.map_filter (admitted_message cfg) calls) s = (outs, s2)"
  shows "s' = s2 \<and> List.map_filter json_body answers = map (\<lambda>m. to_string (message_to_value m)) outs
    \<and> list_all2 (status_fits cfg) calls answers \<and> list_all (\<lambda>q. q = []) (ap_subscribers st')"
  using assms
proof (induction calls arbitrary: st s answers outs)
  case Nil
  then show ?case by (simp add: List.map_filter_simps)
next
  case (Cons c calls)
  obtain a qs where step: "http_route to_string unreadable (hs_metrics_renderer cfg) handle c (st, s)
      = (a, st\<lparr>ap_subscribers := qs\<rparr>, (case admitted_message cfg c of Some m \<Rightarrow> snd (handle m s) | None \<Rightarrow> s))"
      (is "_ = (a, ?st1, ?s1)")
    and a: "list_all (\<lambda>q. q = []) qs" "status_fits cfg c a" "json_body a = Option.bind (admitted_message cfg c)
        (\<lambda>m. map_option (\<lambda>r. to_string (message_to_value r)) (fst (handle m s)))"
    using http_route_step [OF Cons.prems(1-3)] by blast
  obtain answers1 where answers: "answers = a # answers1"
    and rest: "http_serve to_string unreadable (hs_metrics_renderer cfg) handle calls (?st1, ?s1) = (answers1, st', s')"
    using Cons.prems(4) by (auto simp: step split: prod.splits)
  obtain outs1 where all: "handle_all handle (List.map_filter (admitted_message cfg) calls) ?s1 = (outs1, s2)"
    and outs: "outs = (case Option.bind (admitted_message cfg c) (\<lambda>m. fst (handle m s)) of
        Some r \<Rightarrow> r # outs1 | None \<Rightarrow> outs1)"
    using Cons.prems(5)
    by (cases "admitted_message cfg c") (auto simp: List.map_filter_simps split: prod.splits)
  have "s' = s2 \<and> List.map_filter json_body answers1 = map (\<lambda>m. to_string (message_to_value m)) outs1
    \<and> list_all2 (status_fits cfg) calls answers1 \<and> list_all (\<lambda>q. q = []) (ap_subscribers st')"
    using Cons.prems a(1) by (intro Cons.IH [OF _ _ _ rest all]) simp_all
  then show ?case
    using a
    by (cases "Option.bind (admitted_message cfg c) (\<lambda>m. fst (handle m s))")
      (auto simp: answers outs List.map_filter_simps split: option.splits bind_splits)
qed


end
