(* ===== verification/Stdio_Server.thy ===== *)
theory Stdio_Server
  imports Transports Correlation "HOL-Library.Multiset"
begin

text \<open>
  \<open>Server::run_stdio\<close> (\<open>crates/mcp-server/src/server.rs\<close>): the tasks of a server over split halves and how they
  interleave. The reader task puts messages into the inbound channel, the loop starts a task per request
  and routes responses to the waiting elicitations, each task sends its response into the outbound
  channel, and the writer task writes what is there. Both channels hold 64 messages. A task's dispatch is one
  step; the questions it asks through the elicitation handle are the steps of \<open>Correlation\<close>.
\<close>

record ('w, 's) stdio_loop =
  sl_input :: string
  sl_reading :: bool
  sl_inbound :: "rpc_message list"
  sl_looping :: bool
  sl_tasks :: "rpc_request list"
  sl_replies :: "rpc_response list"
  sl_outbound :: "rpc_message list"
  sl_writing :: bool
  sl_writer :: "'w stdio_writer"
  sl_elicit :: corr
  sl_server :: "'s server"
  sl_world :: 's

definition channel_capacity :: nat where "channel_capacity = 64"

definition stdio_loop_new :: "string \<Rightarrow> 'w \<Rightarrow> 's server \<Rightarrow> 's \<Rightarrow> ('w, 's) stdio_loop" where
  "stdio_loop_new input w srv s =
     \<lparr>sl_input = input, sl_reading = True, sl_inbound = [], sl_looping = True, sl_tasks = [],
      sl_replies = [], sl_outbound = [], sl_writing = True, sl_writer = snd (into_parts (stdio_new input w)),
      sl_elicit = corr_new 1000000, sl_server = srv, sl_world = s\<rparr>"

text \<open>The reader: a message is passed on, the end of the input or an error ends it.\<close>

definition read_next ::
  "(string \<Rightarrow> string + json) \<Rightarrow> (json \<Rightarrow> string) \<Rightarrow> ('w, 's) stdio_loop \<Rightarrow> ('w, 's) stdio_loop" where
  "read_next from_slice unreadable st =
     (case reader_recv from_slice unreadable (sl_input st) of
        (Inr (Some m), rest) \<Rightarrow> st\<lparr>sl_input := rest, sl_inbound := sl_inbound st @ [m]\<rparr>
      | (Inr None, rest) \<Rightarrow> st\<lparr>sl_input := rest, sl_reading := False\<rparr>
      | (Inl e, rest) \<Rightarrow> st\<lparr>sl_input := rest, sl_reading := False\<rparr>)"

text \<open>The loop takes the next message.\<close>

definition loop_message :: "rpc_message \<Rightarrow> ('w, 's) stdio_loop \<Rightarrow> ('w, 's) stdio_loop" where
  "loop_message m st =
     (case m of
        Msg_Request req \<Rightarrow> st\<lparr>sl_tasks := sl_tasks st @ [req]\<rparr>
      | Msg_Notification n \<Rightarrow> st
      | Msg_Response resp \<Rightarrow> st\<lparr>sl_elicit := snd (deliver_response resp (sl_elicit st))\<rparr>)"

text \<open>A task dispatches its request; then it sends the response, if the writer still takes it.\<close>

definition drop_nth :: "nat \<Rightarrow> 'a list \<Rightarrow> 'a list" where
  "drop_nth i xs = take i xs @ drop (Suc i) xs"

definition run_task ::
  "(string \<Rightarrow> string option) \<Rightarrow> (json \<Rightarrow> string) \<Rightarrow> nat \<Rightarrow> ('w, 's) stdio_loop \<Rightarrow> ('w, 's) stdio_loop" where
  "run_task env serde_text i st =
     (case dispatch env serde_text (sl_server st) (sl_tasks st ! i) (sl_world st) of
        (resp, srv, s) \<Rightarrow>
          st\<lparr>sl_tasks := drop_nth i (sl_tasks st), sl_replies := sl_replies st @ [resp],
             sl_server := srv, sl_world := s\<rparr>)"

definition send_out :: "rpc_message \<Rightarrow> ('w, 's) stdio_loop \<Rightarrow> ('w, 's) stdio_loop" where
  "send_out m st = (if sl_writing st then st\<lparr>sl_outbound := sl_outbound st @ [m]\<rparr> else st)"

definition send_reply :: "nat \<Rightarrow> ('w, 's) stdio_loop \<Rightarrow> ('w, 's) stdio_loop" where
  "send_reply i st =
     send_out (Msg_Response (sl_replies st ! i)) (st\<lparr>sl_replies := drop_nth i (sl_replies st)\<rparr>)"

text \<open>The writer; an error ends it, and what is still in the channel is dropped.\<close>

definition end_writer :: "'w byte_sink \<Rightarrow> ('w, 's) stdio_loop \<Rightarrow> ('w, 's) stdio_loop" where
  "end_writer sink st =
     st\<lparr>sl_writing := False, sl_outbound := [], sl_writer := writer_close sink (sl_writer st),
        sl_elicit := (sl_elicit st)\<lparr>co_outbox_open := False\<rparr>\<rparr>"

definition write_next ::
  "(json \<Rightarrow> string) \<Rightarrow> 'w byte_sink \<Rightarrow> ('w, 's) stdio_loop \<Rightarrow> ('w, 's) stdio_loop" where
  "write_next to_vec sink st =
     (case writer_send to_vec sink (hd (sl_outbound st)) (sl_writer st) of
        (Inl e, wr) \<Rightarrow> end_writer sink (st\<lparr>sl_writer := wr\<rparr>)
      | (Inr _, wr) \<Rightarrow> st\<lparr>sl_outbound := tl (sl_outbound st), sl_writer := wr\<rparr>)"

text \<open>Who can still send to the writer: the loop's sender, a clone in every task, and the one in the
  elicitation handle, which lives as long as the function.\<close>

definition senders :: "('w, 's) stdio_loop \<Rightarrow> nat" where
  "senders st = (if sl_looping st then 1 else 0) + length (sl_tasks st) + length (sl_replies st) + 1"

datatype loop_event =
    L_Read | L_Loop | L_Loop_End | L_Task nat | L_Reply nat
  | L_Elicit corr_event | L_Ask int rpc_message | L_Write | L_Writer_End

inductive stdio_step ::
  "(string \<Rightarrow> string option) \<Rightarrow> (json \<Rightarrow> string) \<Rightarrow> (json \<Rightarrow> string) \<Rightarrow> (string \<Rightarrow> string + json)
    \<Rightarrow> (json \<Rightarrow> string) \<Rightarrow> 'w byte_sink \<Rightarrow> ('w, 's) stdio_loop \<Rightarrow> loop_event \<Rightarrow> ('w, 's) stdio_loop \<Rightarrow> bool"
  for env serde_text to_vec from_slice unreadable sink where
  read: "sl_reading st \<Longrightarrow> length (sl_inbound st) < channel_capacity \<Longrightarrow>
     stdio_step env serde_text to_vec from_slice unreadable sink st L_Read (read_next from_slice unreadable st)"
| loop: "sl_looping st \<Longrightarrow> sl_inbound st = m # ms \<Longrightarrow>
     stdio_step env serde_text to_vec from_slice unreadable sink st L_Loop (loop_message m (st\<lparr>sl_inbound := ms\<rparr>))"
| loop_end: "sl_looping st \<Longrightarrow> sl_inbound st = [] \<Longrightarrow> \<not> sl_reading st \<Longrightarrow>
     stdio_step env serde_text to_vec from_slice unreadable sink st L_Loop_End (st\<lparr>sl_looping := False\<rparr>)"
| task: "i < length (sl_tasks st) \<Longrightarrow>
     stdio_step env serde_text to_vec from_slice unreadable sink st (L_Task i) (run_task env serde_text i st)"
| reply: "i < length (sl_replies st) \<Longrightarrow> sl_writing st \<longrightarrow> length (sl_outbound st) < channel_capacity \<Longrightarrow>
     stdio_step env serde_text to_vec from_slice unreadable sink st (L_Reply i) (send_reply i st)"
| elicit: "sl_tasks st \<noteq> [] \<Longrightarrow> ev = Ev_Alloc \<or> (\<exists>i. ev = Ev_Register i \<or> ev = Ev_Wake i) \<Longrightarrow>
     corr_step Server_Side (sl_elicit st) ev c \<Longrightarrow>
     stdio_step env serde_text to_vec from_slice unreadable sink st (L_Elicit ev) (st\<lparr>sl_elicit := c\<rparr>)"
| ask: "sl_tasks st \<noteq> [] \<Longrightarrow> sl_writing st \<longrightarrow> length (sl_outbound st) < channel_capacity \<Longrightarrow>
     corr_step Server_Side (sl_elicit st) (Ev_Send i) c \<Longrightarrow>
     stdio_step env serde_text to_vec from_slice unreadable sink st (L_Ask i (Msg_Request req))
       (send_out (Msg_Request req) (st\<lparr>sl_elicit := c\<rparr>))"
| flush: "sl_writing st \<Longrightarrow> sl_outbound st \<noteq> [] \<Longrightarrow>
     stdio_step env serde_text to_vec from_slice unreadable sink st L_Write (write_next to_vec sink st)"
| writer_end: "sl_writing st \<Longrightarrow> sl_outbound st = [] \<Longrightarrow> senders st = 0 \<Longrightarrow>
     stdio_step env serde_text to_vec from_slice unreadable sink st L_Writer_End (end_writer sink st)"

inductive_cases stdio_stepE: "stdio_step env serde_text to_vec from_slice unreadable sink st ev st'"

text \<open>The function returns when the loop has ended and both tasks have.\<close>

definition stdio_returned :: "('w, 's) stdio_loop \<Rightarrow> bool" where
  "stdio_returned st \<longleftrightarrow> \<not> sl_looping st \<and> \<not> sl_reading st \<and> \<not> sl_writing st"

text \<open>Nothing is left to do but to wait for the writer.\<close>

definition stdio_drained :: "('w, 's) stdio_loop \<Rightarrow> bool" where
  "stdio_drained st \<longleftrightarrow> \<not> sl_looping st \<and> \<not> sl_reading st \<and> sl_inbound st = [] \<and> sl_tasks st = []
     \<and> sl_replies st = [] \<and> sl_outbound st = []"

subsection \<open>Every request is answered once\<close>

definition request_ids :: "rpc_message list \<Rightarrow> rpc_id multiset" where
  "request_ids ms = mset (List.map_filter (\<lambda>m. case m of Msg_Request r \<Rightarrow> Some (rq_id r) | _ \<Rightarrow> None) ms)"

definition response_ids :: "rpc_message list \<Rightarrow> rpc_id multiset" where
  "response_ids ms = mset (List.map_filter (\<lambda>m. case m of Msg_Response r \<Rightarrow> Some (rs_id r) | _ \<Rightarrow> None) ms)"

text \<open>Messages as lines with blank lines before them, and blank lines at the end.\<close>

definition stdio_lines :: "(json \<Rightarrow> string) \<Rightarrow> (string list \<times> rpc_message) list \<Rightarrow> string list \<Rightarrow> string" where
  "stdio_lines to_vec ims bs = concat (map (\<lambda>(bs, m). end_lines bs @ frame to_vec m) ims) @ end_lines bs"

definition lines_ok ::
  "(json \<Rightarrow> string) \<Rightarrow> (string \<Rightarrow> string + json) \<Rightarrow> (string list \<times> rpc_message) list \<Rightarrow> string list \<Rightarrow> bool" where
  "lines_ok to_vec from_slice ims bs \<longleftrightarrow>
     list_all (\<lambda>(bs, m). list_all blank_line bs \<and> readable to_vec from_slice m) ims \<and> list_all blank_line bs"

lemma request_ids_simps [simp]:
  "request_ids [] = {#}" "request_ids (Msg_Request r # ms) = add_mset (rq_id r) (request_ids ms)"
  "request_ids (Msg_Notification n # ms) = request_ids ms" "request_ids (Msg_Response p # ms) = request_ids ms"
  "request_ids (ms @ ms') = request_ids ms + request_ids ms'"
  by (simp_all add: request_ids_def List.map_filter_simps map_filter_append)

lemma request_ids_normal [simp]: "request_ids (normal_message m # ms) = request_ids (m # ms)"
  by (cases m) simp_all

lemma response_ids_simps [simp]:
  "response_ids [] = {#}" "response_ids (Msg_Response r # ms) = add_mset (rs_id r) (response_ids ms)"
  "response_ids (Msg_Request q # ms) = response_ids ms"
  "response_ids (ms @ ms') = response_ids ms + response_ids ms'"
  by (simp_all add: response_ids_def List.map_filter_simps map_filter_append)

lemma request_ids_Cons: "request_ids (m # ms) = request_ids [m] + request_ids ms"
  by (cases m) simp_all

lemma mset_drop_nth [simp]:
  assumes "i < length xs"
  shows "add_mset (f (xs ! i)) (image_mset f (mset (drop_nth i xs))) = image_mset f (mset xs)"
proof -
  have "xs = take i xs @ xs ! i # drop (Suc i) xs" using assms by (rule id_take_nth_drop)
  then have "mset xs = mset (take i xs @ xs ! i # drop (Suc i) xs)" by (rule arg_cong)
  then show ?thesis by (simp add: drop_nth_def)
qed

lemma length_drop_nth: "i < length xs \<Longrightarrow> length (drop_nth i xs) + 1 = length xs"
  by (simp add: drop_nth_def)

lemma dispatch_id: "dispatch env serde_text srv req s = (resp, w) \<Longrightarrow> rs_id resp = rq_id req"
  by (auto simp: dispatch_def response_success_def response_failure_def split: prod.splits sum.splits)

text \<open>The ids of the requests: of those not read yet, in the inbound channel, in a task, answered and waiting
  to be sent, in the outbound channel, and written.\<close>

definition loop_ids ::
  "(string list \<times> rpc_message) list \<Rightarrow> rpc_message list \<Rightarrow> ('w, 's) stdio_loop \<Rightarrow> rpc_id multiset" where
  "loop_ids ims outs st =
     request_ids (map snd ims) + request_ids (sl_inbound st) + mset (map rq_id (sl_tasks st))
     + mset (map rs_id (sl_replies st)) + response_ids (sl_outbound st) + response_ids outs"

definition loop_ok ::
  "(json \<Rightarrow> string) \<Rightarrow> (string \<Rightarrow> string + json) \<Rightarrow> (string list \<times> rpc_message) list \<Rightarrow> string list
     \<Rightarrow> rpc_message list \<Rightarrow> (string, 's) stdio_loop \<Rightarrow> bool" where
  "loop_ok to_vec from_slice ims bs outs st \<longleftrightarrow>
     lines_ok to_vec from_slice ims bs
     \<and> (if sl_reading st then sl_input st = stdio_lines to_vec ims bs else ims = [])
     \<and> (\<not> sl_looping st \<longrightarrow> \<not> sl_reading st \<and> sl_inbound st = [])
     \<and> sl_writing st \<and> sl_writer st = \<lparr>sw_writer = concat (map (frame to_vec) outs), sw_closed = False\<rparr>"

definition loop_inv ::
  "(json \<Rightarrow> string) \<Rightarrow> (string \<Rightarrow> string + json) \<Rightarrow> rpc_id multiset \<Rightarrow> (string, 's) stdio_loop \<Rightarrow> bool" where
  "loop_inv to_vec from_slice ids st \<longleftrightarrow>
     (\<exists>ims bs outs. loop_ok to_vec from_slice ims bs outs st \<and> loop_ids ims outs st = ids)"

lemma loop_invI:
  "loop_ok to_vec from_slice ims bs outs st \<Longrightarrow> loop_ids ims outs st = ids \<Longrightarrow> loop_inv to_vec from_slice ids st"
  unfolding loop_inv_def by blast

lemma read_next_ok:
  assumes "loop_ok to_vec from_slice ims bs outs st" and "sl_reading st"
  shows "loop_inv to_vec from_slice (loop_ids ims outs st) (read_next from_slice unreadable st)"
proof (cases ims)
  case Nil
  then show ?thesis
    using assms
    by (intro loop_invI [where ims = "[]" and outs = outs and bs = bs])
      (auto simp: loop_ok_def loop_ids_def read_next_def stdio_lines_def lines_ok_def recv_end)
next
  case (Cons im ims1)
  obtain bs1 m where im: "im = (bs1, m)" by (cases im)
  have "list_all blank_line bs1" "readable to_vec from_slice m" "lines_ok to_vec from_slice ims1 bs"
    using assms(1) by (auto simp: loop_ok_def lines_ok_def Cons im)
  then show ?thesis
    using assms
    by (intro loop_invI [where ims = ims1 and outs = outs and bs = bs])
      (auto simp: loop_ok_def loop_ids_def read_next_def stdio_lines_def Cons im recv_message request_ids_Cons [of m "map snd ims1"])
qed

lemma loop_message_ok:
  assumes "loop_ok to_vec from_slice ims bs outs st" and "sl_looping st" and "sl_inbound st = m # ms"
  shows "loop_inv to_vec from_slice (loop_ids ims outs st) (loop_message m (st\<lparr>sl_inbound := ms\<rparr>))"
  using assms
  by (intro loop_invI [where ims = ims and outs = outs and bs = bs]; cases m)
    (auto simp: loop_ok_def loop_ids_def loop_message_def)

lemma run_task_ok:
  assumes "loop_ok to_vec from_slice ims bs outs st" and "i < length (sl_tasks st)"
  shows "loop_inv to_vec from_slice (loop_ids ims outs st) (run_task env serde_text i st)"
proof -
  obtain resp srv s where d: "dispatch env serde_text (sl_server st) (sl_tasks st ! i) (sl_world st) = (resp, srv, s)"
    by (cases "dispatch env serde_text (sl_server st) (sl_tasks st ! i) (sl_world st)")
  show ?thesis
    using assms dispatch_id [OF d]
    by (intro loop_invI [where ims = ims and outs = outs and bs = bs])
      (auto simp: loop_ok_def loop_ids_def run_task_def d)
qed

lemma send_reply_ok:
  assumes "loop_ok to_vec from_slice ims bs outs st" and "i < length (sl_replies st)"
  shows "loop_inv to_vec from_slice (loop_ids ims outs st) (send_reply i st)"
  using assms
  by (intro loop_invI [where ims = ims and outs = outs and bs = bs])
    (auto simp: loop_ok_def loop_ids_def send_reply_def send_out_def)

lemma ask_ok:
  assumes "loop_ok to_vec from_slice ims bs outs st"
  shows "loop_inv to_vec from_slice (loop_ids ims outs st) (send_out (Msg_Request req) (st\<lparr>sl_elicit := c\<rparr>))"
  using assms
  by (intro loop_invI [where ims = ims and outs = outs and bs = bs])
    (auto simp: loop_ok_def loop_ids_def send_out_def)

lemma write_next_ok:
  assumes "loop_ok to_vec from_slice ims bs outs st" and "sl_outbound st \<noteq> []"
  shows "loop_inv to_vec from_slice (loop_ids ims outs st) (write_next to_vec pipe_sink st)"
proof -
  obtain m ms where m: "sl_outbound st = m # ms" using assms(2) by (cases "sl_outbound st") auto
  have ids: "response_ids (m # ms) = response_ids [m] + response_ids ms"
    using response_ids_simps(4) [of "[m]" ms] by simp
  show ?thesis
    using assms
    by (intro loop_invI [where ims = ims and outs = "outs @ [m]" and bs = bs])
      (auto simp: loop_ok_def loop_ids_def write_next_def m ids writer_send_frame)
qed

lemma loop_inv_step:
  assumes "loop_inv to_vec from_slice ids st" and "stdio_step env serde_text to_vec from_slice unreadable pipe_sink st ev st'"
  shows "loop_inv to_vec from_slice ids st'"
proof -
  obtain ims bs outs where ok: "loop_ok to_vec from_slice ims bs outs st" and ids: "loop_ids ims outs st = ids"
    using assms(1) unfolding loop_inv_def by blast
  from assms(2) show ?thesis
  proof cases
    case loop_end
    then show ?thesis
      using ok ids by (intro loop_invI [where ims = ims and outs = outs and bs = bs]) (auto simp: loop_ok_def loop_ids_def)
  next
    case (elicit ev c)
    then show ?thesis
      using ok ids by (intro loop_invI [where ims = ims and outs = outs and bs = bs]) (auto simp: loop_ok_def loop_ids_def)
  next
    case writer_end
    then show ?thesis by (simp add: senders_def)
  qed (use ok ids in \<open>auto simp flip: ids intro: read_next_ok loop_message_ok run_task_ok send_reply_ok ask_ok write_next_ok\<close>)
qed

lemma loop_inv_new:
  "lines_ok to_vec from_slice ims bs \<Longrightarrow>
     loop_inv to_vec from_slice (request_ids (map snd ims)) (stdio_loop_new (stdio_lines to_vec ims bs) [] srv s)"
  by (rule loop_invI [where ims = ims and outs = "[]" and bs = bs])
    (simp_all add: loop_ok_def loop_ids_def stdio_loop_new_def into_parts_def stdio_new_def)

interpretation stdio_system: invariant_system
    "\<lambda>st. \<exists>srv s. st = stdio_loop_new (stdio_lines to_vec ims bs) [] srv s \<and> lines_ok to_vec from_slice ims bs"
    "stdio_step env serde_text to_vec from_slice unreadable pipe_sink"
    "loop_inv to_vec from_slice (request_ids (map snd ims))"
  for to_vec from_slice ims bs env serde_text unreadable
  by unfold_locales (auto intro: loop_inv_new loop_inv_step)

text \<open>What is left to do, and a step that does some of it.\<close>

definition work_left :: "('w, 's) stdio_loop \<Rightarrow> nat" where
  "work_left st = 6 * length (sl_input st) + 5 * length (sl_inbound st) + 3 * length (sl_tasks st)
     + 2 * length (sl_replies st) + length (sl_outbound st) + (if sl_reading st then 1 else 0)
     + (if sl_looping st then 1 else 0)"

lemma reader_recv_not_longer:
  "reader_recv from_slice unreadable input = (r, rest) \<Longrightarrow> length rest \<le> length input"
proof (induction from_slice unreadable input rule: reader_recv.induct)
  case (1 from_slice unreadable input)
  obtain line rest1 where l: "take_line input = (line, rest1)" by (cases "take_line input")
  have le: "length rest1 \<le> length input"
    using take_line_rest [of input] l by (cases "input = []") auto
  show ?case
  proof (cases "valid_utf8 line \<and> line \<noteq> [] \<and> trim line = []")
    case True
    then have "read_line input = (Inr line, rest1)" by (simp add: read_line_def l)
    moreover from this True 1(2) have "reader_recv from_slice unreadable rest1 = (r, rest)"
      by (simp add: reader_recv.simps [of _ _ input])
    ultimately have "length rest \<le> length rest1" using 1(1) True by fastforce
    then show ?thesis using le by simp
  next
    case False
    then show ?thesis
      using 1(2) le by (auto simp: reader_recv.simps [of _ _ input] read_line_def l split: if_splits)
  qed
qed

lemma read_next_works: "sl_reading st \<Longrightarrow> work_left (read_next from_slice unreadable st) < work_left st"
  using reader_recv_not_longer [of from_slice unreadable "sl_input st"]
    reader_recv_shorter [of from_slice unreadable "sl_input st"]
  by (force simp: read_next_def work_left_def split: prod.split sum.split option.split)

lemma progress:
  assumes "loop_inv to_vec from_slice ids st" and "\<not> stdio_drained st"
  shows "\<exists>ev st'. stdio_step env serde_text to_vec from_slice unreadable pipe_sink st ev st' \<and> work_left st' < work_left st"
proof -
  let ?step = "stdio_step env serde_text to_vec from_slice unreadable pipe_sink st"
  have w: "sl_writing st" "\<not> sw_closed (sl_writer st)"
    and ended: "\<not> sl_looping st \<Longrightarrow> \<not> sl_reading st \<and> sl_inbound st = []"
    using assms(1) by (auto simp: loop_inv_def loop_ok_def)
  consider (out) m ms where "sl_outbound st = m # ms" | (replies) "sl_outbound st = []" "sl_replies st \<noteq> []"
    | (tasks) "sl_tasks st \<noteq> []" | (inbound) m ms where "sl_looping st" "sl_inbound st = m # ms"
    | (reading) "sl_reading st" "sl_inbound st = []" | (ending) "sl_looping st" "\<not> sl_reading st" "sl_inbound st = []"
    using assms(2) ended unfolding stdio_drained_def by (metis neq_Nil_conv)
  then show ?thesis
  proof cases
    case out
    then have "?step L_Write (write_next to_vec pipe_sink st)" using w by (intro stdio_step.flush) simp_all
    moreover have "work_left (write_next to_vec pipe_sink st) < work_left st"
      using out w by (simp add: write_next_def writer_send_frame work_left_def)
    ultimately show ?thesis by blast
  next
    case replies
    then have "?step (L_Reply 0) (send_reply 0 st)" by (intro stdio_step.reply) (simp_all add: channel_capacity_def)
    moreover have "work_left (send_reply 0 st) < work_left st"
      using replies w length_drop_nth [of 0 "sl_replies st"]
      by (simp add: send_reply_def send_out_def work_left_def)
    ultimately show ?thesis by blast
  next
    case tasks
    then have "?step (L_Task 0) (run_task env serde_text 0 st)" by (intro stdio_step.task) simp
    moreover have "work_left (run_task env serde_text 0 st) < work_left st"
      using tasks length_drop_nth [of 0 "sl_tasks st"]
      by (simp add: run_task_def work_left_def split: prod.split)
    ultimately show ?thesis by blast
  next
    case inbound
    then have "?step L_Loop (loop_message m (st\<lparr>sl_inbound := ms\<rparr>))" by (rule stdio_step.loop)
    moreover have "work_left (loop_message m (st\<lparr>sl_inbound := ms\<rparr>)) < work_left st"
      using inbound by (cases m) (simp_all add: loop_message_def work_left_def)
    ultimately show ?thesis by blast
  next
    case reading
    then have "?step L_Read (read_next from_slice unreadable st)"
      by (intro stdio_step.read) (simp_all add: channel_capacity_def)
    then show ?thesis using read_next_works [OF reading(1)] by blast
  next
    case ending
    then have "?step L_Loop_End (st\<lparr>sl_looping := False\<rparr>)" by (intro stdio_step.loop_end) simp_all
    moreover have "work_left (st\<lparr>sl_looping := False\<rparr>) < work_left st" using ending by (simp add: work_left_def)
    ultimately show ?thesis by blast
  qed
qed

lemma can_drain:
  assumes "loop_inv to_vec from_slice ids st"
  shows "\<exists>es st'. run (stdio_step env serde_text to_vec from_slice unreadable pipe_sink) st es st'
    \<and> loop_inv to_vec from_slice ids st' \<and> stdio_drained st'"
proof (rule measure_run [where f = work_left and P = "loop_inv to_vec from_slice ids", OF _ assms])
  fix s :: "(string, 'a) stdio_loop"
  assume "loop_inv to_vec from_slice ids s" "\<not> stdio_drained s"
  then show "\<exists>ev t. stdio_step env serde_text to_vec from_slice unreadable pipe_sink s ev t
      \<and> loop_inv to_vec from_slice ids t \<and> work_left t < work_left s"
    using progress loop_inv_step by blast
qed

lemma loop_inv_writes:
  "loop_inv to_vec from_slice ids st \<Longrightarrow>
     \<exists>outs. sw_writer (sl_writer st) = concat (map (frame to_vec) outs) \<and> response_ids outs \<subseteq># ids"
  by (auto simp: loop_inv_def loop_ok_def loop_ids_def)

lemma loop_inv_drained:
  "loop_inv to_vec from_slice ids st \<Longrightarrow> stdio_drained st \<Longrightarrow>
     \<exists>outs. sw_writer (sl_writer st) = concat (map (frame to_vec) outs) \<and> response_ids outs = ids"
  by (fastforce simp: loop_inv_def loop_ok_def loop_ids_def stdio_drained_def)



text \<open>The writer waits for the sender in the elicitation handle, so the function does not return.\<close>

lemma stdio_server_never_returns:
  assumes "lines_ok to_vec from_slice ims bs"
    and "run (stdio_step env serde_text to_vec from_slice unreadable pipe_sink)
      (stdio_loop_new (stdio_lines to_vec ims bs) [] srv s) es st"
  shows "\<not> stdio_returned st"
proof -
  have "loop_inv to_vec from_slice (request_ids (map snd ims)) st"
    using stdio_system.run_inv [OF loop_inv_new [OF assms(1)] assms(2)] .
  then show ?thesis by (auto simp: loop_inv_def loop_ok_def stdio_returned_def)
qed

end
