(* ===== verification/Oic_Client.thy ===== *)
theory Oic_Client
  imports Json Float_Ops
begin

text \<open>
  The Oracle artifact surface (\<open>types.rs\<close>, \<open>error.rs\<close>, \<open>client.rs\<close> and \<open>mock.rs\<close> in
  \<open>crates/oracle-automate-adt/src\<close>): the kinds of artifact, requests and answers, the error codes, the
  trait and the offline client with its fixtures. A \<open>HashMap\<close> of the mock is an association list in its
  iteration order, with distinct keys; a score is a count cast to \<open>f32\<close>, and the count is kept.
\<close>

subsection \<open>Types\<close>

definition MAX_TABLE_ROWS :: nat where "MAX_TABLE_ROWS = 1000"

datatype artifact_kind =
    OA_Integration | OA_GroovyScript | OA_Connection | OA_Lookup | OA_IntegrationPackage | OA_EssJob
  | OA_BipDataModel | OA_RestResource | OA_Attribute | OA_ValueSet | OA_Project | OA_BipReport
  | OA_BusinessRule | OA_RestService | OA_SandboxCustomization | OA_AppComposerExtension
  | OA_ScheduledProcess

definition all_artifact_kinds :: "artifact_kind list" where
  "all_artifact_kinds =
     [OA_Integration, OA_GroovyScript, OA_Connection, OA_Lookup, OA_IntegrationPackage, OA_EssJob,
      OA_BipDataModel, OA_RestResource, OA_Attribute, OA_ValueSet, OA_Project, OA_BipReport,
      OA_BusinessRule, OA_RestService, OA_SandboxCustomization, OA_AppComposerExtension,
      OA_ScheduledProcess]"

text \<open>The name of a kind in JSON (\<open>rename_all = "snake_case"\<close>), and its label.\<close>

fun artifact_tag :: "artifact_kind \<Rightarrow> string" where
  "artifact_tag OA_Integration = ''integration''"
| "artifact_tag OA_GroovyScript = ''groovy_script''"
| "artifact_tag OA_Connection = ''connection''"
| "artifact_tag OA_Lookup = ''lookup''"
| "artifact_tag OA_IntegrationPackage = ''integration_package''"
| "artifact_tag OA_EssJob = ''ess_job''"
| "artifact_tag OA_BipDataModel = ''bip_data_model''"
| "artifact_tag OA_RestResource = ''rest_resource''"
| "artifact_tag OA_Attribute = ''attribute''"
| "artifact_tag OA_ValueSet = ''value_set''"
| "artifact_tag OA_Project = ''project''"
| "artifact_tag OA_BipReport = ''bip_report''"
| "artifact_tag OA_BusinessRule = ''business_rule''"
| "artifact_tag OA_RestService = ''rest_service''"
| "artifact_tag OA_SandboxCustomization = ''sandbox_customization''"
| "artifact_tag OA_AppComposerExtension = ''app_composer_extension''"
| "artifact_tag OA_ScheduledProcess = ''scheduled_process''"

fun artifact_label :: "artifact_kind \<Rightarrow> string" where
  "artifact_label OA_Integration = ''Integration''"
| "artifact_label OA_GroovyScript = ''Groovy Script''"
| "artifact_label OA_Connection = ''Connection''"
| "artifact_label OA_Lookup = ''Lookup''"
| "artifact_label OA_IntegrationPackage = ''Integration Package''"
| "artifact_label OA_EssJob = ''ESS Job''"
| "artifact_label OA_BipDataModel = ''BI Publisher Data Model''"
| "artifact_label OA_RestResource = ''REST Resource''"
| "artifact_label OA_Attribute = ''Attribute''"
| "artifact_label OA_ValueSet = ''Value Set''"
| "artifact_label OA_Project = ''Project''"
| "artifact_label OA_BipReport = ''BI Publisher Report''"
| "artifact_label OA_BusinessRule = ''Business Rule''"
| "artifact_label OA_RestService = ''REST Service''"
| "artifact_label OA_SandboxCustomization = ''Sandbox Customization''"
| "artifact_label OA_AppComposerExtension = ''Application Composer Extension''"
| "artifact_label OA_ScheduledProcess = ''Scheduled Process''"

fun oic_path :: "artifact_kind \<Rightarrow> string \<Rightarrow> string" where
  "oic_path OA_Integration n = ''/ic/api/integration/v1/integrations/'' @ n"
| "oic_path OA_GroovyScript n = ''/ic/api/integration/v1/integrations/'' @ n @ ''/groovy''"
| "oic_path OA_Connection n = ''/ic/api/integration/v1/connections/'' @ n"
| "oic_path OA_Lookup n = ''/ic/api/integration/v1/lookups/'' @ n"
| "oic_path OA_IntegrationPackage n = ''/ic/api/integration/v1/projects/'' @ n"
| "oic_path OA_Project n = ''/ic/api/integration/v1/projects/'' @ n"
| "oic_path OA_EssJob n = ''/fscmRestApi/resources/11.13.18.05/erpintegrations/'' @ n"
| "oic_path OA_ScheduledProcess n = ''/fscmRestApi/resources/11.13.18.05/erpintegrations/'' @ n"
| "oic_path OA_BipDataModel n = ''/xmlpserver/services/rest/v1/catalog/dataModels/'' @ n"
| "oic_path OA_BipReport n = ''/xmlpserver/services/rest/v1/reports/'' @ n"
| "oic_path OA_RestResource n = ''/fscmRestApi/resources/11.13.18.05/'' @ n"
| "oic_path OA_RestService n = ''/fscmRestApi/resources/11.13.18.05/'' @ n"
| "oic_path OA_ValueSet n = ''/fscmRestApi/resources/11.13.18.05/setupValueSets/'' @ n"
| "oic_path OA_Attribute n = ''/fscmRestApi/resources/11.13.18.05/'' @ n @ ''/describe''"
| "oic_path OA_SandboxCustomization n = ''/fndSetup/sandboxes/'' @ n"
| "oic_path OA_AppComposerExtension n = ''/fndSetup/sandboxes/'' @ n"
| "oic_path OA_BusinessRule n = ''/bpm/api/4.0/rules/'' @ n"

record program_source =
  pg_name :: string
  pg_kind :: artifact_kind
  pg_package :: "string option"
  pg_description :: "string option"
  pg_source :: string
  pg_active :: bool
  pg_line_count :: nat

record bip_report =
  br_name :: string
  br_source :: string
  br_root_entity :: string
  br_annotations :: json
  br_line_count :: nat

record project_member =
  pm_name :: string
  pm_kind :: artifact_kind
  pm_description :: "string option"

record project_contents =
  pk_package :: string
  pk_description :: "string option"
  pk_members :: "project_member list"

record oic_search_request =
  oq_query :: string
  oq_kind :: "artifact_kind option"
  oq_max_results :: nat

record oic_search_hit =
  oh_name :: string
  oh_kind :: artifact_kind
  oh_description :: "string option"
  oh_package :: "string option"
  oh_score :: nat

record where_used_request =
  wr_name :: string
  wr_kind :: artifact_kind

record where_used_hit =
  wu_object :: string
  wu_kind :: artifact_kind
  wu_location :: string
  wu_usage :: string

record activation_request =
  aq_name :: string
  aq_kind :: artifact_kind

record activation_outcome =
  ao_name :: string
  ao_kind :: artifact_kind
  ao_activated :: bool
  ao_messages :: "string list"

subsection \<open>Errors\<close>

datatype oic_error_code =
    OC_Timeout | OC_DestinationDown | OC_CsrfRefresh | OC_RateLimited
  | OC_AuthFailed | OC_NotFound | OC_Forbidden | OC_InvalidObjectName | OC_InactiveObject
  | OC_DataPreviewBlocked | OC_PermissionDenied | OC_Locked | OC_Internal

fun oic_code_as_i32 :: "oic_error_code \<Rightarrow> int" where
  "oic_code_as_i32 OC_Timeout = - 32160"
| "oic_code_as_i32 OC_DestinationDown = - 32161"
| "oic_code_as_i32 OC_CsrfRefresh = - 32162"
| "oic_code_as_i32 OC_RateLimited = - 32163"
| "oic_code_as_i32 OC_AuthFailed = - 32260"
| "oic_code_as_i32 OC_NotFound = - 32261"
| "oic_code_as_i32 OC_Forbidden = - 32262"
| "oic_code_as_i32 OC_InvalidObjectName = - 32263"
| "oic_code_as_i32 OC_InactiveObject = - 32264"
| "oic_code_as_i32 OC_DataPreviewBlocked = - 32265"
| "oic_code_as_i32 OC_PermissionDenied = - 32266"
| "oic_code_as_i32 OC_Locked = - 32267"
| "oic_code_as_i32 OC_Internal = - 32298"

definition oic_code_is_transient :: "oic_error_code \<Rightarrow> bool" where
  "oic_code_is_transient c \<longleftrightarrow> - 32199 \<le> oic_code_as_i32 c \<and> oic_code_as_i32 c \<le> - 32100"

fun oic_code_name :: "oic_error_code \<Rightarrow> string" where
  "oic_code_name OC_Timeout = ''Timeout''"
| "oic_code_name OC_DestinationDown = ''DestinationDown''"
| "oic_code_name OC_CsrfRefresh = ''CsrfRefresh''"
| "oic_code_name OC_RateLimited = ''RateLimited''"
| "oic_code_name OC_AuthFailed = ''AuthFailed''"
| "oic_code_name OC_NotFound = ''NotFound''"
| "oic_code_name OC_Forbidden = ''Forbidden''"
| "oic_code_name OC_InvalidObjectName = ''InvalidObjectName''"
| "oic_code_name OC_InactiveObject = ''InactiveObject''"
| "oic_code_name OC_DataPreviewBlocked = ''DataPreviewBlocked''"
| "oic_code_name OC_PermissionDenied = ''PermissionDenied''"
| "oic_code_name OC_Locked = ''Locked''"
| "oic_code_name OC_Internal = ''Internal''"

datatype oic_error =
    OE_Timeout nat
  | OE_DestinationDown string string
  | OE_CsrfRefresh
  | OE_RateLimited nat
  | OE_AuthFailed string
  | OE_NotFound string string
  | OE_Forbidden string
  | OE_InvalidObjectName string
  | OE_InactiveObject string
  | OE_DataPreviewBlocked string
  | OE_PermissionDenied string
  | OE_Locked string
  | OE_Internal string

type_synonym 'a oic_result = "oic_error + 'a"

fun oic_error_code_of :: "oic_error \<Rightarrow> oic_error_code" where
  "oic_error_code_of (OE_Timeout _) = OC_Timeout"
| "oic_error_code_of (OE_DestinationDown _ _) = OC_DestinationDown"
| "oic_error_code_of OE_CsrfRefresh = OC_CsrfRefresh"
| "oic_error_code_of (OE_RateLimited _) = OC_RateLimited"
| "oic_error_code_of (OE_AuthFailed _) = OC_AuthFailed"
| "oic_error_code_of (OE_NotFound _ _) = OC_NotFound"
| "oic_error_code_of (OE_Forbidden _) = OC_Forbidden"
| "oic_error_code_of (OE_InvalidObjectName _) = OC_InvalidObjectName"
| "oic_error_code_of (OE_InactiveObject _) = OC_InactiveObject"
| "oic_error_code_of (OE_DataPreviewBlocked _) = OC_DataPreviewBlocked"
| "oic_error_code_of (OE_PermissionDenied _) = OC_PermissionDenied"
| "oic_error_code_of (OE_Locked _) = OC_Locked"
| "oic_error_code_of (OE_Internal _) = OC_Internal"

definition oic_is_transient :: "oic_error \<Rightarrow> bool" where
  "oic_is_transient e = oic_code_is_transient (oic_error_code_of e)"

definition in_quotes :: "string \<Rightarrow> string" where
  "in_quotes s = [CHR 0x27] @ s @ [CHR 0x27]"

fun oic_error_text :: "oic_error \<Rightarrow> string" where
  "oic_error_text (OE_Timeout ms) = ''ADT timeout after '' @ show_nat ms @ '' ms''"
| "oic_error_text (OE_DestinationDown d r) =
     ''ADT destination '' @ in_quotes d @ '' unreachable: '' @ r"
| "oic_error_text OE_CsrfRefresh = ''CSRF token refresh required''"
| "oic_error_text (OE_RateLimited ms) = ''rate limited; retry after '' @ show_nat ms @ '' ms''"
| "oic_error_text (OE_AuthFailed s) = ''authentication failed: '' @ s"
| "oic_error_text (OE_NotFound k n) = ''object not found: '' @ k @ '' '' @ in_quotes n"
| "oic_error_text (OE_Forbidden s) = ''forbidden: '' @ s"
| "oic_error_text (OE_InvalidObjectName s) = ''invalid object name '' @ in_quotes s"
| "oic_error_text (OE_InactiveObject s) = ''object is inactive: '' @ s"
| "oic_error_text (OE_DataPreviewBlocked s) = ''data preview blocked: '' @ s"
| "oic_error_text (OE_PermissionDenied s) = ''permission denied: '' @ s"
| "oic_error_text (OE_Locked s) = ''object locked: '' @ s"
| "oic_error_text (OE_Internal s) = ''internal: '' @ s"

subsection \<open>The trait\<close>

text \<open>\<open>OicClient\<close>: its operations on the state \<open>'w\<close> of the outside world. \<open>activate\<close> takes the read-only
  flag of the call context.\<close>

record 'w oic_client =
  oi_redacted :: json
  oi_get_integration :: "string \<Rightarrow> 'w \<Rightarrow> program_source oic_result \<times> 'w"
  oi_get_groovy_script :: "string \<Rightarrow> 'w \<Rightarrow> program_source oic_result \<times> 'w"
  oi_get_connection :: "string \<Rightarrow> 'w \<Rightarrow> program_source oic_result \<times> 'w"
  oi_get_lookup :: "string \<Rightarrow> 'w \<Rightarrow> program_source oic_result \<times> 'w"
  oi_get_ess_job :: "string \<Rightarrow> string \<Rightarrow> 'w \<Rightarrow> program_source oic_result \<times> 'w"
  oi_get_project_contents :: "string \<Rightarrow> 'w \<Rightarrow> project_contents oic_result \<times> 'w"
  oi_get_bip_report :: "string \<Rightarrow> 'w \<Rightarrow> bip_report oic_result \<times> 'w"
  oi_search :: "oic_search_request \<Rightarrow> 'w \<Rightarrow> oic_search_hit list oic_result \<times> 'w"
  oi_where_used :: "where_used_request \<Rightarrow> 'w \<Rightarrow> where_used_hit list oic_result \<times> 'w"
  oi_preview_data :: "string \<Rightarrow> nat \<Rightarrow> 'w \<Rightarrow> json_map list oic_result \<times> 'w"
  oi_activate :: "activation_request \<Rightarrow> bool \<Rightarrow> 'w \<Rightarrow> activation_outcome oic_result \<times> 'w"

subsection \<open>The mock and its fixtures\<close>

record mock_oic =
  mo_programs :: "(string \<times> program_source) list"
  mo_classes :: "(string \<times> program_source) list"
  mo_interfaces :: "(string \<times> program_source) list"
  mo_includes :: "(string \<times> program_source) list"
  mo_function_modules :: "((string \<times> string) \<times> program_source) list"
  mo_cds_views :: "(string \<times> bip_report) list"
  mo_packages :: "(string \<times> project_contents) list"
  mo_where_used :: "((string \<times> artifact_kind) \<times> where_used_hit list) list"
  mo_tables :: "(string \<times> json_map list) list"

definition oic_prog ::
  "string \<Rightarrow> artifact_kind \<Rightarrow> string \<Rightarrow> string \<Rightarrow> string \<Rightarrow> program_source" where
  "oic_prog name kind package description source =
     \<lparr>pg_name = name, pg_kind = kind, pg_package = Some package, pg_description = Some description,
      pg_source = source, pg_active = True, pg_line_count = length (lines_of source)\<rparr>"

definition oic_row :: "(string \<times> string) list \<Rightarrow> json_map" where
  "oic_row pairs = obj_of (map (\<lambda>(k, v). (k, JStr v)) pairs)"

definition oic_seed_integrations :: "(string \<times> program_source) list" where
  "oic_seed_integrations =
    [(''GT_GL_JOURNAL_IMPORT'', oic_prog ''GT_GL_JOURNAL_IMPORT'' OA_Integration ''GT_FINANCE_INTEGRATIONS'' ''Stage and import GL journals via FBDI''
        (''<integration name='' @ [quote_char] @ ''GT_GL_JOURNAL_IMPORT'' @ [quote_char]
           @ '' version='' @ [quote_char] @ ''01.00.0000'' @ [quote_char] @ ''>'' @ [newline]
           @ ''  <trigger adapter='' @ [quote_char] @ ''rest'' @ [quote_char] @ ''/>'' @ [newline]
           @ ''  <invoke connection='' @ [quote_char] @ ''GT_FUSION_ERP_REST'' @ [quote_char]
           @ '' operation='' @ [quote_char] @ ''importBulkData'' @ [quote_char] @ ''/>''
           @ [newline]
           @ ''  <!-- builds JournalImportTemplate FBDI zip, calls erpintegrations.importBulkData,''
           @ [newline] @ ''       then polls the Journal Import ESS request to completion -->''
           @ [newline] @ ''</integration>'' @ [newline])),
     (''GT_PO_RECEIPT_SYNC'', oic_prog ''GT_PO_RECEIPT_SYNC'' OA_Integration ''GT_FINANCE_INTEGRATIONS'' ''Sync warehouse receipts to Fusion Receiving''
        (''<integration name='' @ [quote_char] @ ''GT_PO_RECEIPT_SYNC'' @ [quote_char]
           @ '' version='' @ [quote_char] @ ''01.00.0000'' @ [quote_char] @ ''>'' @ [newline]
           @ ''  <trigger adapter='' @ [quote_char] @ ''rest'' @ [quote_char] @ ''/>'' @ [newline]
           @ ''  <invoke connection='' @ [quote_char] @ ''GT_FUSION_ERP_REST'' @ [quote_char]
           @ '' resource='' @ [quote_char] @ ''receivingReceiptRequests'' @ [quote_char]
           @ '' method='' @ [quote_char] @ ''POST'' @ [quote_char] @ ''/>'' @ [newline]
           @ ''</integration>'' @ [newline]))]"

definition oic_seed_groovy :: "(string \<times> program_source) list" where
  "oic_seed_groovy =
    [(''GT_INVOICE_HOLD_RULE'', oic_prog ''GT_INVOICE_HOLD_RULE'' OA_GroovyScript ''GT_FINANCE_INTEGRATIONS'' ''AP invoice hold trigger (Application Composer)''
        (''// Application Composer object trigger (Groovy)'' @ [newline]
           @ ''if (InvoiceAmount > 100000000 && ApprovalStatus == '' @ [CHR 0x27] @ ''PENDING''
           @ [CHR 0x27] @ '') {'' @ [newline] @ ''  adf.util.applyHold('' @ [CHR 0x27]
           @ ''AMOUNT_THRESHOLD'' @ [CHR 0x27] @ '', '' @ [CHR 0x27] @ ''Exceeds IDR 100,000,000 ''
           @ em_dash @ '' needs controller approval'' @ [CHR 0x27] @ '')'' @ [newline] @ ''}''
           @ [newline])),
     (''GT_ITEM_DEFAULTING'', oic_prog ''GT_ITEM_DEFAULTING'' OA_GroovyScript ''GT_SCM_EXTENSIONS'' ''Default item attributes on creation''
        (''// Groovy: default primary UOM for hardware components'' @ [newline]
           @ ''if (ItemClass == '' @ [CHR 0x27] @ ''COMPONENT'' @ [CHR 0x27]
           @ '' && PrimaryUOMValue == null) {'' @ [newline] @ ''  setAttribute('' @ [CHR 0x27]
           @ ''PrimaryUOMValue'' @ [CHR 0x27] @ '', '' @ [CHR 0x27] @ ''EA'' @ [CHR 0x27] @ '')''
           @ [newline] @ ''}'' @ [newline]))]"

definition oic_seed_connections :: "(string \<times> program_source) list" where
  "oic_seed_connections =
    [(''GT_FUSION_ERP_REST'', oic_prog ''GT_FUSION_ERP_REST'' OA_Connection ''GT_FINANCE_INTEGRATIONS'' ''Connection to Fusion Cloud ERP REST''
        (''{'' @ [newline] @ ''  '' @ [quote_char] @ ''name'' @ [quote_char] @ '': ''
           @ [quote_char] @ ''GT_FUSION_ERP_REST'' @ [quote_char] @ '','' @ [newline] @ ''  ''
           @ [quote_char] @ ''adapter'' @ [quote_char] @ '': '' @ [quote_char]
           @ ''oracle-erp-cloud'' @ [quote_char] @ '','' @ [newline] @ ''  '' @ [quote_char]
           @ ''baseUri'' @ [quote_char] @ '': '' @ [quote_char]
           @ ''https://gaussian.fa.ocs.oraclecloud.com'' @ [quote_char] @ '','' @ [newline]
           @ ''  '' @ [quote_char] @ ''securityPolicy'' @ [quote_char] @ '': '' @ [quote_char]
           @ ''OAuth Client Credentials'' @ [quote_char] @ [newline] @ ''}'' @ [newline]))]"

definition oic_seed_lookups :: "(string \<times> program_source) list" where
  "oic_seed_lookups =
    [(''GT_COMPANY_XREF'', oic_prog ''GT_COMPANY_XREF'' OA_Lookup ''GT_FINANCE_INTEGRATIONS'' ''Legacy company code -> Fusion ledger cross-reference''
        (''LEGACY_CODE,FUSION_LEDGER'' @ [newline] @ ''KF01,Gaussian Technologies Primary Ledger''
           @ [newline] @ ''KF02,Gaussian Technologies USD Reporting'' @ [newline]))]"

definition oic_seed_ess_jobs :: "((string \<times> string) \<times> program_source) list" where
  "oic_seed_ess_jobs =
    [((''GL'', ''JournalImportLauncher''), oic_prog ''JournalImportLauncher'' OA_EssJob ''GL'' ''GL Journal Import ESS job''
        (''Job: /oracle/apps/ess/financials/generalLedger/programs/common/JournalImportLauncher''
           @ [newline] @ ''Parameters: InterfaceRunId, LedgerId, Source=GAUSSIAN_OIC, GroupId''
           @ [newline]))]"

definition oic_seed_reports :: "(string \<times> bip_report) list" where
  "oic_seed_reports =
    [(''GT_GL_JOURNAL_EXTRACT'',
      \<lparr>br_name = ''GT_GL_JOURNAL_EXTRACT'',
       br_source =
         (''SELECT jl.je_header_id, jl.je_line_num, l.name ledger, jl.code_combination_id,''
            @ [newline] @ ''       jl.period_name, jl.entered_dr, jl.entered_cr, jl.currency_code''
            @ [newline] @ ''  FROM gl_je_lines jl'' @ [newline]
            @ ''  JOIN gl_ledgers l ON l.ledger_id = jl.ledger_id'' @ [newline]
            @ '' WHERE jl.period_name = :p_period'' @ [newline]
            @ ''   AND l.ledger_id = :p_ledger_id'' @ [newline]),
       br_root_entity = ''GL_JE_LINES'',
       br_annotations = json_obj [(''catalogPath'', JStr ''/Custom/Gaussian Technologies/Finance/GT_GL_JOURNAL_EXTRACT.xdo''),
         (''dataModel'', JStr ''GT_GL_JOURNAL_DM''),
         (''outputFormat'', JStr ''csv''),
         (''label'', JStr ''GL journal line extract'')],
       br_line_count = 8\<rparr>)]"

definition oic_seed_projects :: "(string \<times> project_contents) list" where
  "oic_seed_projects =
    [(''GT_FINANCE_INTEGRATIONS'',
      \<lparr>pk_package = ''GT_FINANCE_INTEGRATIONS'',
       pk_description = Some ''Gaussian Technologies Finance OIC integrations + extensions'',
       pk_members =
         [\<lparr>pm_name = ''GT_GL_JOURNAL_IMPORT'', pm_kind = OA_Integration, pm_description = Some ''GL journal FBDI import''\<rparr>,
          \<lparr>pm_name = ''GT_PO_RECEIPT_SYNC'', pm_kind = OA_Integration, pm_description = Some ''Receiving sync''\<rparr>,
          \<lparr>pm_name = ''GT_FUSION_ERP_REST'', pm_kind = OA_Connection, pm_description = Some ''Fusion ERP REST connection''\<rparr>,
          \<lparr>pm_name = ''GT_COMPANY_XREF'', pm_kind = OA_Lookup, pm_description = Some ''Company cross-reference''\<rparr>,
          \<lparr>pm_name = ''GT_INVOICE_HOLD_RULE'', pm_kind = OA_GroovyScript, pm_description = Some ''AP invoice hold''\<rparr>,
          \<lparr>pm_name = ''GT_GL_JOURNAL_EXTRACT'', pm_kind = OA_BipReport, pm_description = Some ''GL journal extract''\<rparr>]\<rparr>),
     (''GT_SCM_EXTENSIONS'',
      \<lparr>pk_package = ''GT_SCM_EXTENSIONS'',
       pk_description = Some ''Gaussian Technologies SCM Application Composer extensions'',
       pk_members =
         [\<lparr>pm_name = ''GT_ITEM_DEFAULTING'', pm_kind = OA_GroovyScript, pm_description = Some ''Item attribute defaulting''\<rparr>]\<rparr>)]"

definition oic_seed_where_used ::
  "((string \<times> artifact_kind) \<times> where_used_hit list) list" where
  "oic_seed_where_used =
    [((''GT_FUSION_ERP_REST'', OA_Connection),
      [\<lparr>wu_object = ''GT_GL_JOURNAL_IMPORT'', wu_kind = OA_Integration, wu_location = (''invoke activity '' @ [CHR 0x27] @ ''importJournals'' @ [CHR 0x27]), wu_usage = ''invoke''\<rparr>,
       \<lparr>wu_object = ''GT_PO_RECEIPT_SYNC'', wu_kind = OA_Integration, wu_location = (''invoke activity '' @ [CHR 0x27] @ ''postReceipt'' @ [CHR 0x27]), wu_usage = ''invoke''\<rparr>]),
     ((''GT_COMPANY_XREF'', OA_Lookup),
      [\<lparr>wu_object = ''GT_GL_JOURNAL_IMPORT'', wu_kind = OA_Integration, wu_location = (''map '' @ [CHR 0x27] @ ''enrichLedger'' @ [CHR 0x27]), wu_usage = ''read''\<rparr>])]"

definition oic_seed_tables :: "(string \<times> json_map list) list" where
  "oic_seed_tables =
    [(''GL_LEDGERS'',
      [oic_row [(''LEDGER_ID'', ''300100001''), (''NAME'', ''Gaussian Technologies Primary Ledger''), (''CURRENCY_CODE'', ''IDR'')],
       oic_row [(''LEDGER_ID'', ''300100002''), (''NAME'', ''Gaussian Technologies USD Reporting''), (''CURRENCY_CODE'', ''USD'')]])]"

definition mock_oic_new :: mock_oic where
  "mock_oic_new =
     \<lparr>mo_programs = oic_seed_integrations, mo_classes = oic_seed_groovy,
      mo_interfaces = oic_seed_connections, mo_includes = oic_seed_lookups,
      mo_function_modules = oic_seed_ess_jobs, mo_cds_views = oic_seed_reports,
      mo_packages = oic_seed_projects, mo_where_used = oic_seed_where_used,
      mo_tables = oic_seed_tables\<rparr>"

subsection \<open>The mock's operations\<close>

definition get_object ::
  "(string \<times> program_source) list \<Rightarrow> string \<Rightarrow> artifact_kind \<Rightarrow> program_source oic_result" where
  "get_object m name kind =
     (case map_of m (to_uppercase name) of
        Some p \<Rightarrow> Ok p
      | None \<Rightarrow> Err (OE_NotFound (artifact_label kind) name))"

definition mock_get_ess_job :: "mock_oic \<Rightarrow> string \<Rightarrow> string \<Rightarrow> program_source oic_result" where
  "mock_get_ess_job m grp name =
     (case map_of (mo_function_modules m) (to_uppercase grp, name) of
        Some p \<Rightarrow> Ok p
      | None \<Rightarrow> Err (OE_NotFound ''EssJob'' (grp @ ''/'' @ name)))"

definition mock_get_project_contents :: "mock_oic \<Rightarrow> string \<Rightarrow> project_contents oic_result" where
  "mock_get_project_contents m package =
     (case map_of (mo_packages m) (to_uppercase package) of
        Some p \<Rightarrow> Ok p
      | None \<Rightarrow> Err (OE_NotFound ''Project'' package))"

definition mock_get_bip_report :: "mock_oic \<Rightarrow> string \<Rightarrow> bip_report oic_result" where
  "mock_get_bip_report m name =
     (case map_of (mo_cds_views m) (to_uppercase name) of
        Some p \<Rightarrow> Ok p
      | None \<Rightarrow> Err (OE_NotFound ''BipReport'' name))"

text \<open>The closures \<open>score_of\<close> and \<open>push\<close> of the search, and what it pushes for each map.\<close>

definition oic_score :: "string list \<Rightarrow> string \<Rightarrow> nat" where
  "oic_score terms hay = sum_list (map (count_matches (to_lowercase hay)) terms)"

definition kind_match :: "oic_search_request \<Rightarrow> artifact_kind \<Rightarrow> bool" where
  "kind_match req k = (case oq_kind req of Some wanted \<Rightarrow> wanted = k | None \<Rightarrow> True)"

definition push_hit ::
  "oic_search_request \<Rightarrow> string \<Rightarrow> artifact_kind \<Rightarrow> string option \<Rightarrow> string option \<Rightarrow> nat
     \<Rightarrow> oic_search_hit list" where
  "push_hit req name kind desc pkg score =
     (if kind_match req kind \<and> 0 < score
      then [\<lparr>oh_name = name, oh_kind = kind, oh_description = desc, oh_package = pkg,
             oh_score = score\<rparr>]
      else [])"

definition packaged_hits ::
  "oic_search_request \<Rightarrow> string list \<Rightarrow> (string \<times> program_source) list \<Rightarrow> oic_search_hit list" where
  "packaged_hits req terms m =
     concat (map (\<lambda>(n, p). push_hit req n (pg_kind p) (pg_description p) (pg_package p)
       (oic_score terms
          (n @ '' '' @ unwrap_or (pg_description p) [] @ '' '' @ unwrap_or (pg_package p) []))) m)"

definition described_hits ::
  "oic_search_request \<Rightarrow> string list \<Rightarrow> (string \<times> program_source) list \<Rightarrow> oic_search_hit list" where
  "described_hits req terms m =
     concat (map (\<lambda>(n, p). push_hit req n (pg_kind p) (pg_description p) (pg_package p)
       (oic_score terms (n @ '' '' @ unwrap_or (pg_description p) []))) m)"

definition report_hits ::
  "oic_search_request \<Rightarrow> string list \<Rightarrow> (string \<times> bip_report) list \<Rightarrow> oic_search_hit list" where
  "report_hits req terms m =
     concat (map (\<lambda>(n, v). push_hit req n OA_BipReport None None
       (oic_score terms (n @ '' '' @ br_root_entity v))) m)"

definition mock_oic_search :: "mock_oic \<Rightarrow> oic_search_request \<Rightarrow> oic_search_hit list oic_result" where
  "mock_oic_search m req =
     (let terms = split_whitespace (to_lowercase (oq_query req));
          hits = packaged_hits req terms (mo_programs m) @ packaged_hits req terms (mo_classes m)
            @ described_hits req terms (mo_interfaces m)
            @ described_hits req terms (map (\<lambda>((g, n), p). (n, p)) (mo_function_modules m))
            @ report_hits req terms (mo_cds_views m)
      in Ok (take (max (oq_max_results req) 1) (sort_desc (<) oh_score hits)))"

definition mock_where_used :: "mock_oic \<Rightarrow> where_used_request \<Rightarrow> where_used_hit list oic_result" where
  "mock_where_used m req =
     Ok (unwrap_or (map_of (mo_where_used m) (to_uppercase (wr_name req), wr_kind req)) [])"

definition bad_max_rows :: "nat \<Rightarrow> oic_error" where
  "bad_max_rows max_rows = OE_InvalidObjectName
     (''max_rows must be in 1..='' @ show_nat MAX_TABLE_ROWS @ '', got '' @ show_nat max_rows)"

definition mock_preview_data :: "mock_oic \<Rightarrow> string \<Rightarrow> nat \<Rightarrow> json_map list oic_result" where
  "mock_preview_data m table max_rows =
     (if max_rows = 0 \<or> MAX_TABLE_ROWS < max_rows then Err (bad_max_rows max_rows)
      else if eq_ignore_ascii_case table ''XLA_AE_LINES'' then
        Err (OE_DataPreviewBlocked (''object '' @ table
          @ '' is not exposed for direct preview; fall back to a BI Publisher extract (oracle.bip.runReport)''))
      else case map_of (mo_tables m) (to_uppercase table) of
             None \<Rightarrow> Err (OE_NotFound ''BipDataModel'' table)
           | Some rows \<Rightarrow> Ok (take max_rows rows))"

definition activation_blocked :: "activation_request \<Rightarrow> oic_error" where
  "activation_blocked req = OE_PermissionDenied
     (''activate('' @ artifact_label (aq_kind req) @ '' '' @ aq_name req @ '') blocked: read-only mode'')"

definition mock_activate :: "activation_request \<Rightarrow> bool \<Rightarrow> activation_outcome oic_result" where
  "mock_activate req read_only =
     (if read_only then Err (activation_blocked req)
      else Ok \<lparr>ao_name = aq_name req, ao_kind = aq_kind req, ao_activated = True,
               ao_messages =
                 [artifact_label (aq_kind req) @ '' '' @ aq_name req @ '' activated (mock)'']\<rparr>)"

definition mock_oic_client :: "json \<Rightarrow> mock_oic \<Rightarrow> 'w oic_client" where
  "mock_oic_client redacted m =
     \<lparr>oi_redacted = redacted,
      oi_get_integration = (\<lambda>n w. (get_object (mo_programs m) n OA_Integration, w)),
      oi_get_groovy_script = (\<lambda>n w. (get_object (mo_classes m) n OA_GroovyScript, w)),
      oi_get_connection = (\<lambda>n w. (get_object (mo_interfaces m) n OA_Connection, w)),
      oi_get_lookup = (\<lambda>n w. (get_object (mo_includes m) n OA_Lookup, w)),
      oi_get_ess_job = (\<lambda>g n w. (mock_get_ess_job m g n, w)),
      oi_get_project_contents = (\<lambda>p w. (mock_get_project_contents m p, w)),
      oi_get_bip_report = (\<lambda>n w. (mock_get_bip_report m n, w)),
      oi_search = (\<lambda>q w. (mock_oic_search m q, w)),
      oi_where_used = (\<lambda>q w. (mock_where_used m q, w)),
      oi_preview_data = (\<lambda>t k w. (mock_preview_data m t k, w)),
      oi_activate = (\<lambda>q ro w. (mock_activate q ro, w))\<rparr>"

subsection \<open>The contract of the trait\<close>

text \<open>A session asks for operations; \<open>oic_after\<close> is the outside world after one.\<close>

datatype oic_op =
    Op_Integration string | Op_Groovy string | Op_Connection string | Op_Lookup string
  | Op_Ess_Job string string | Op_Project string | Op_Report string | Op_Search oic_search_request
  | Op_Where_Used where_used_request | Op_Preview string nat | Op_Activate activation_request

fun oic_after :: "'w oic_client \<Rightarrow> bool \<Rightarrow> oic_op \<Rightarrow> 'w \<Rightarrow> 'w" where
  "oic_after cl ro (Op_Integration n) w = snd (oi_get_integration cl n w)"
| "oic_after cl ro (Op_Groovy n) w = snd (oi_get_groovy_script cl n w)"
| "oic_after cl ro (Op_Connection n) w = snd (oi_get_connection cl n w)"
| "oic_after cl ro (Op_Lookup n) w = snd (oi_get_lookup cl n w)"
| "oic_after cl ro (Op_Ess_Job g n) w = snd (oi_get_ess_job cl g n w)"
| "oic_after cl ro (Op_Project p) w = snd (oi_get_project_contents cl p w)"
| "oic_after cl ro (Op_Report n) w = snd (oi_get_bip_report cl n w)"
| "oic_after cl ro (Op_Search q) w = snd (oi_search cl q w)"
| "oic_after cl ro (Op_Where_Used u) w = snd (oi_where_used cl u w)"
| "oic_after cl ro (Op_Preview t k) w = snd (oi_preview_data cl t k w)"
| "oic_after cl ro (Op_Activate q) w = snd (oi_activate cl q ro w)"

text \<open>What callers rely on: reading writes nothing, and with the read-only flag an activation is refused
  and writes nothing.\<close>

locale oic_backend =
  fixes cl :: "'w oic_client"
    and writes :: "'w \<Rightarrow> 'e list"
  assumes reads:
      "writes (snd (oi_get_integration cl n w)) = writes w"
      "writes (snd (oi_get_groovy_script cl n w)) = writes w"
      "writes (snd (oi_get_connection cl n w)) = writes w"
      "writes (snd (oi_get_lookup cl n w)) = writes w"
      "writes (snd (oi_get_ess_job cl g n w)) = writes w"
      "writes (snd (oi_get_project_contents cl n w)) = writes w"
      "writes (snd (oi_get_bip_report cl n w)) = writes w"
      "writes (snd (oi_search cl q w)) = writes w"
      "writes (snd (oi_where_used cl u w)) = writes w"
      "writes (snd (oi_preview_data cl t k w)) = writes w"
    and activation_refused:
      "oi_activate cl a True w = (Err (activation_blocked a), w)"
begin

lemma after_writes: "writes (oic_after cl True op w) = writes w"
  by (cases op) (simp_all add: reads activation_refused)

lemma session_writes: "writes (fold (oic_after cl True) ops w) = writes w"
  by (induction ops arbitrary: w) (simp_all add: after_writes)

end

interpretation mock_oic: oic_backend "mock_oic_client redacted m" "\<lambda>w. []"
  for redacted m
  by unfold_locales (simp_all add: mock_oic_client_def mock_activate_def)

subsection \<open>The fixtures are well typed\<close>

lemmas oic_seeds =
  oic_seed_integrations_def oic_seed_groovy_def oic_seed_connections_def oic_seed_lookups_def
  oic_seed_ess_jobs_def oic_seed_reports_def oic_seed_projects_def oic_seed_where_used_def
  oic_seed_tables_def

text \<open>That an artifact of a kind and name can be fetched from the mock.\<close>

definition artifact_exists :: "mock_oic \<Rightarrow> artifact_kind \<Rightarrow> string \<Rightarrow> bool" where
  "artifact_exists m k n =
     (case k of
        OA_Integration \<Rightarrow> is_ok (get_object (mo_programs m) n k)
      | OA_GroovyScript \<Rightarrow> is_ok (get_object (mo_classes m) n k)
      | OA_Connection \<Rightarrow> is_ok (get_object (mo_interfaces m) n k)
      | OA_Lookup \<Rightarrow> is_ok (get_object (mo_includes m) n k)
      | OA_BipReport \<Rightarrow> is_ok (mock_get_bip_report m n)
      | _ \<Rightarrow> False)"

definition well_typed :: "artifact_kind \<Rightarrow> (string \<times> program_source) list \<Rightarrow> bool" where
  "well_typed k m \<longleftrightarrow> distinct (map fst m)
     \<and> list_all (\<lambda>(n, p). pg_name p = n \<and> pg_kind p = k \<and> to_uppercase n = n
         \<and> pg_line_count p = length (lines_of (pg_source p))) m"

lemma get_object_typed:
  "well_typed k m \<Longrightarrow> get_object m n k = Inr p \<Longrightarrow> pg_kind p = k \<and> pg_name p = to_uppercase n"
  by (auto simp: well_typed_def get_object_def list_all_iff split: option.splits dest: map_of_SomeD)

lemma seeds_typed:
  "well_typed OA_Integration (mo_programs mock_oic_new)"
  "well_typed OA_GroovyScript (mo_classes mock_oic_new)"
  "well_typed OA_Connection (mo_interfaces mock_oic_new)"
  "well_typed OA_Lookup (mo_includes mock_oic_new)"
  by (simp_all add: well_typed_def mock_oic_new_def oic_seed_integrations_def oic_seed_groovy_def
      oic_seed_connections_def oic_seed_lookups_def oic_prog_def to_uppercase_def to_upper_char_def is_lower_char_def)

text \<open>What an operation that fetches an artifact may answer: one of the kind and name asked for with the
  right number of lines, or that there is none.\<close>

definition fetch_typed :: "artifact_kind \<Rightarrow> string \<Rightarrow> program_source oic_result \<Rightarrow> bool" where
  "fetch_typed k n r =
     (case r of
        Inl e \<Rightarrow> e = OE_NotFound (artifact_label k) n
      | Inr p \<Rightarrow> pg_kind p = k \<and> pg_name p = to_uppercase n
          \<and> pg_line_count p = length (lines_of (pg_source p)))"

lemma fetch_is_typed: "well_typed k m \<Longrightarrow> fetch_typed k n (get_object m n k)"
  by (auto simp: fetch_typed_def well_typed_def get_object_def list_all_iff
      split: option.splits dest: map_of_SomeD)

lemma fixture_members_exist:
  "list_all (\<lambda>(n, p). pk_package p = n
     \<and> list_all (\<lambda>m. artifact_exists mock_oic_new (pm_kind m) (pm_name m)) (pk_members p))
     (mo_packages mock_oic_new)"
  by (simp add: mock_oic_new_def oic_seeds oic_prog_def artifact_exists_def get_object_def
      mock_get_bip_report_def to_uppercase_def to_upper_char_def is_lower_char_def)

lemma fixture_usages_exist:
  "list_all (\<lambda>((n, k), us). artifact_exists mock_oic_new k n
     \<and> list_all (\<lambda>u. artifact_exists mock_oic_new (wu_kind u) (wu_object u)) us)
     (mo_where_used mock_oic_new)"
  by (simp add: mock_oic_new_def oic_seeds oic_prog_def artifact_exists_def get_object_def
      mock_get_bip_report_def to_uppercase_def to_upper_char_def is_lower_char_def)

lemma report_line_count:
  "map (\<lambda>(n, r). (br_line_count r, length (lines_of (br_source r)))) (mo_cds_views mock_oic_new) = [(8, 6)]"
  by code_simp


subsection \<open>Searching\<close>

lemma push_hit_ok: "list_all (\<lambda>h. 0 < oh_score h \<and> kind_match req (oh_kind h)) (push_hit req n k d p s)"
  by (simp add: push_hit_def)

lemma pushed_hits_ok:
  "list_all (\<lambda>h. 0 < oh_score h \<and> kind_match req (oh_kind h)) (packaged_hits req terms m)"
  "list_all (\<lambda>h. 0 < oh_score h \<and> kind_match req (oh_kind h)) (described_hits req terms m)"
  "list_all (\<lambda>h. 0 < oh_score h \<and> kind_match req (oh_kind h)) (report_hits req terms m')"
  using push_hit_ok [of req]
  by (simp_all add: packaged_hits_def described_hits_def report_hits_def list_all_iff case_prod_unfold)

text \<open>A search returns at most the number of hits asked for (one at least), the best first, each
  matching a word of the query and of the kind asked for.\<close>

lemma mock_search_ok:
  "case mock_oic_search m req of
     Inl _ \<Rightarrow> False
   | Inr hs \<Rightarrow> length hs \<le> max (oq_max_results req) 1
       \<and> sorted_wrt (\<lambda>a b. oh_score b \<le> oh_score a) hs
       \<and> list_all (\<lambda>h. 0 < oh_score h \<and> kind_match req (oh_kind h)) hs"
proof -
  have weak: "strict_weak ((<) :: nat \<Rightarrow> nat \<Rightarrow> bool)" by (auto simp: strict_weak_def)
  have "sorted_wrt (\<lambda>a b. oh_score b \<le> oh_score a) (take k (sort_desc (<) oh_score hs))"
    for k and hs :: "oic_search_hit list"
    using sort_desc_sorted [OF weak, of oh_score hs]
    by (simp add: not_less sorted_wrt_take)
  moreover have "list_all P (take k (sort_desc (<) oh_score hs))" if "list_all P hs"
    for P k and hs :: "oic_search_hit list"
    using that by (auto simp: list_all_iff dest: in_set_takeD)
  ultimately show ?thesis
    by (simp add: mock_oic_search_def Let_def pushed_hits_ok)
qed

end
