(* ===== verification/Tool_Data.thy ===== *)
theory Tool_Data
  imports Erp_Client Erp_Result Metadata_Cache Fusion Oic_Client Graph_Community Protocol
begin

text \<open>
  What the tools of the server read and write as JSON: the derived \<open>serde\<close> implementations of the
  argument structs of \<open>apps/oracle-automate-server/src/tools.rs\<close> and of the data the back ends
  answer. A struct that is rendered on its own keeps the order of its fields; inside a \<open>json!\<close>
  literal it is first made a value, whose objects are sorted by key (\<open>to_value\<close>).
\<close>

subsection \<open>Writing\<close>

fun to_value :: "json \<Rightarrow> json" where
  "to_value (JObj m) = JObj (obj_of (map (\<lambda>(k, v). (k, to_value v)) m))"
| "to_value (JArr xs) = JArr (map to_value xs)"
| "to_value v = v"

definition enc_opt :: "('a \<Rightarrow> json) \<Rightarrow> 'a option \<Rightarrow> json" where
  "enc_opt e x = (case x of Some a \<Rightarrow> e a | None \<Rightarrow> JNull)"

abbreviation enc_strs :: "string list \<Rightarrow> json" where
  "enc_strs xs \<equiv> JArr (map JStr xs)"

text \<open>A count kept as a floating-point number, as \<open>serde_json\<close> writes it.\<close>

definition enc_count_f32 :: "nat \<Rightarrow> json" where
  "enc_count_f32 n = JNum (JFloat (show_nat n @ ''.0''))"

definition enc_system_info :: "system_info \<Rightarrow> json" where
  "enc_system_info s = JObj
     [(''sid'', JStr (si_sid s)), (''client'', JStr (si_client s)), (''release'', JStr (si_release s)),
      (''system_role'', JStr (si_system_role s)), (''host'', JStr (si_host s)),
      (''instance'', JStr (si_instance s)), (''identity'', si_identity s)]"

fun direction_name :: "param_direction \<Rightarrow> string" where
  "direction_name Import_Param = ''import''"
| "direction_name Export_Param = ''export''"
| "direction_name Changing_Param = ''changing''"
| "direction_name Tables_Param = ''tables''"

definition enc_erp_parameter :: "erp_parameter \<Rightarrow> json" where
  "enc_erp_parameter p = JObj
     [(''name'', JStr (ep_name p)), (''direction'', JStr (direction_name (ep_direction p))),
      (''type'', JStr (ep_type_token p)), (''optional'', JBool (ep_optional p)),
      (''description'', enc_opt JStr (ep_description p)),
      (''default_value'', enc_opt JStr (ep_default_value p))]"

definition enc_privilege :: "required_privilege \<Rightarrow> json" where
  "enc_privilege p = JObj
     [(''privilege'', JStr (rp_privilege p)), (''duty_role'', JStr (rp_duty_role p)),
      (''action'', JStr (rp_action p))]"

definition enc_operation_meta :: "erp_operation_meta \<Rightarrow> json" where
  "enc_operation_meta m = JObj
     [(''function'', JStr (om_function m)), (''description'', JStr (om_description m)),
      (''function_group'', JStr (om_function_group m)), (''package'', enc_opt JStr (om_package m)),
      (''parameters'', JArr (map enc_erp_parameter (om_parameters m))),
      (''deprecated'', JBool (om_deprecated m)), (''read_only'', JBool (om_read_only m)),
      (''commit_required'', JBool (om_commit_required m)),
      (''authorization'', JArr (map enc_privilege (om_authorization m))),
      (''erp_note'', enc_opt JStr (om_erp_note m))]"

definition enc_operation_summary :: "operation_summary \<Rightarrow> json" where
  "enc_operation_summary s = JObj
     [(''function'', JStr (os_function s)), (''description'', JStr (os_description s)),
      (''function_group'', JStr (os_function_group s)), (''read_only'', JBool (os_read_only s)),
      (''score'', enc_count_f32 (os_score s))]"

definition enc_search_result :: "search_result \<Rightarrow> json" where
  "enc_search_result r = JObj
     [(''query'', JStr (search_result.sr_query r)),
      (''hits'', JArr (map enc_operation_summary (search_result.sr_hits r)))]"

definition enc_bulk_metadata :: "bulk_metadata \<Rightarrow> json" where
  "enc_bulk_metadata b = JObj
     [(''language'', JStr (bm_language b)), (''functions'', JArr (map enc_operation_meta (bm_functions b))),
      (''missing'', enc_strs (bm_missing b))]"

definition enc_table_field :: "table_field \<Rightarrow> json" where
  "enc_table_field f = JObj
     [(''name'', JStr (tf_name f)), (''data_element'', JStr (tf_data_element f)),
      (''type'', JStr (tf_type_token f)), (''length'', JNat (tf_length f)),
      (''description'', enc_opt JStr (tf_description f)), (''key'', JBool (tf_is_key f))]"

definition enc_table_structure :: "table_structure \<Rightarrow> json" where
  "enc_table_structure t = JObj
     [(''table'', JStr (ts_table t)), (''description'', JStr (ts_description t)),
      (''fields'', JArr (map enc_table_field (ts_fields t))), (''key_fields'', enc_strs (ts_key_fields t)),
      (''authorization_group'', JStr (ts_authorization_group t)),
      (''storage_note'', enc_opt JStr (ts_storage_note t))]"

definition enc_table_row :: "json_map \<Rightarrow> json" where
  "enc_table_row r = JObj [(''values'', JObj r)]"

fun enc_severity :: "erp_severity \<Rightarrow> json" where
  "enc_severity SevSuccess = JStr ''Success''"
| "enc_severity SevError = JStr ''Error''"
| "enc_severity SevWarning = JStr ''Warning''"
| "enc_severity SevInfo = JStr ''Info''"
| "enc_severity SevAbort = JStr ''Abort''"
| "enc_severity (SevUnknown c) = JObj [(''Unknown'', JStr [c])]"

definition enc_erp_message :: "erp_message \<Rightarrow> json" where
  "enc_erp_message m = JObj
     [(''severity'', enc_severity (em_severity m)), (''message_class'', JStr (em_class m)),
      (''message_number'', JStr (em_number m)), (''text'', JStr (em_text m)),
      (''parameter'', enc_opt JStr (em_parameter m)), (''row'', enc_opt (\<lambda>i. JNum (JInt i)) (em_row m)),
      (''field'', enc_opt JStr (em_field m)), (''system'', enc_opt JStr (em_system m))]"

definition enc_party :: "party \<Rightarrow> json" where
  "enc_party p = JObj
     ([(''id'', JStr (pt_id p)), (''name'', JStr (pt_name p)), (''party_type'', JStr (pt_type p))]
      @ skip_none ''party_number'' JStr (pt_number p) @ skip_none ''status'' JStr (pt_status p))"

definition enc_kind :: "artifact_kind \<Rightarrow> json" where
  "enc_kind k = JStr (artifact_tag k)"

definition enc_program_source :: "program_source \<Rightarrow> json" where
  "enc_program_source p = JObj
     [(''name'', JStr (pg_name p)), (''kind'', enc_kind (pg_kind p)),
      (''package'', enc_opt JStr (pg_package p)), (''description'', enc_opt JStr (pg_description p)),
      (''source'', JStr (pg_source p)), (''active'', JBool (pg_active p)),
      (''line_count'', JNat (pg_line_count p))]"

definition enc_bip_report :: "bip_report \<Rightarrow> json" where
  "enc_bip_report r = JObj
     [(''name'', JStr (br_name r)), (''source'', JStr (br_source r)),
      (''root_entity'', JStr (br_root_entity r)), (''annotations'', br_annotations r),
      (''line_count'', JNat (br_line_count r))]"

definition enc_project_member :: "project_member \<Rightarrow> json" where
  "enc_project_member m = JObj
     [(''name'', JStr (pm_name m)), (''kind'', enc_kind (pm_kind m)),
      (''description'', enc_opt JStr (pm_description m))]"

definition enc_project_contents :: "project_contents \<Rightarrow> json" where
  "enc_project_contents p = JObj
     [(''package'', JStr (pk_package p)), (''description'', enc_opt JStr (pk_description p)),
      (''members'', JArr (map enc_project_member (pk_members p)))]"

definition enc_oic_hit :: "oic_search_hit \<Rightarrow> json" where
  "enc_oic_hit h = JObj
     [(''name'', JStr (oh_name h)), (''kind'', enc_kind (oh_kind h)),
      (''description'', enc_opt JStr (oh_description h)), (''package'', enc_opt JStr (oh_package h)),
      (''score'', enc_count_f32 (oh_score h))]"

definition enc_where_used_hit :: "where_used_hit \<Rightarrow> json" where
  "enc_where_used_hit h = JObj
     [(''object'', JStr (wu_object h)), (''kind'', enc_kind (wu_kind h)),
      (''location'', JStr (wu_location h)), (''usage'', JStr (wu_usage h))]"

definition enc_activation_outcome :: "activation_outcome \<Rightarrow> json" where
  "enc_activation_outcome a = JObj
     [(''name'', JStr (ao_name a)), (''kind'', enc_kind (ao_kind a)),
      (''activated'', JBool (ao_activated a)), (''messages'', enc_strs (ao_messages a))]"

text \<open>The answers of the graph engine; a score is written by \<open>fj\<close>.\<close>

definition enc_graph_hit :: "('f \<Rightarrow> json) \<Rightarrow> 'f graph_hit \<Rightarrow> json" where
  "enc_graph_hit fj h = JObj
     [(''id'', JStr (gh_id h)), (''label'', JStr (gh_label h)), (''kind'', JStr (gh_kind h)),
      (''uri'', enc_opt JStr (gh_uri h)), (''score'', fj (gh_score h)), (''hops'', JNat (gh_hops h))]"

definition enc_graph_response :: "('f \<Rightarrow> json) \<Rightarrow> nat \<Rightarrow> 'f graph_response \<Rightarrow> json" where
  "enc_graph_response fj elapsed_us r = JObj
     [(''layer'', JStr (gp_layer r)), (''seeds'', enc_strs (gp_seeds r)),
      (''hits'', JArr (map (enc_graph_hit fj) (gp_hits r))), (''community_summary'', JNull),
      (''elapsed_us'', JNat elapsed_us)]"

definition enc_community_view :: "community_view \<Rightarrow> json" where
  "enc_community_view v = JObj
     [(''id'', JNat (cv_id v)), (''members'', enc_strs (cv_members v)), (''summary'', JStr (cv_summary v)),
      (''overlap_score'', JNat (cv_overlap v))]"

definition enc_community_response :: "string \<Rightarrow> nat \<Rightarrow> community_view list \<Rightarrow> json" where
  "enc_community_response query elapsed_us vs = JObj
     [(''query'', JStr query), (''matched_communities'', JArr (map enc_community_view vs)),
      (''elapsed_us'', JNat elapsed_us)]"

definition enc_raptor_view :: "raptor_view \<Rightarrow> json" where
  "enc_raptor_view v = JObj
     [(''id'', JStr (rv_id v)), (''level'', JNat (rv_level v)), (''summary'', JStr (rv_summary v)),
      (''member_count'', JNat (rv_member_count v))]"

definition enc_raptor_response :: "nat \<Rightarrow> nat \<Rightarrow> raptor_view list \<Rightarrow> json" where
  "enc_raptor_response level elapsed_us vs = JObj
     [(''level'', JNat level), (''nodes'', JArr (map enc_raptor_view vs)),
      (''elapsed_us'', JNat elapsed_us)]"

subsection \<open>Reading arguments\<close>

definition dec_kind :: "json \<Rightarrow> artifact_kind option" where
  "dec_kind v = Option.bind (enum_tag v) (\<lambda>s. find (\<lambda>k. artifact_tag k = s) all_artifact_kinds)"

text \<open>The structs of one text field, and of a text field and a defaulted number.\<close>

definition dec_text_arg :: "string \<Rightarrow> json \<Rightarrow> string option" where
  "dec_text_arg k v = (if struct_like 1 v then str_field (struct_field v 0 k) else None)"

definition dec_text_count_args :: "string \<Rightarrow> string \<Rightarrow> nat \<Rightarrow> json \<Rightarrow> (string \<times> nat) option" where
  "dec_text_count_args k n d v =
     (if struct_like 2 v then
        Option.bind (str_field (struct_field v 0 k)) (\<lambda>s.
        Option.bind (default_field d as_u64 (struct_field v 1 n)) (\<lambda>c. Some (s, c)))
      else None)"

text \<open>\<open>ErpCallRequest\<close> and \<open>ReadTableRequest\<close>.\<close>

definition dec_erp_call_request :: "json \<Rightarrow> erp_call_request option" where
  "dec_erp_call_request v =
     (if struct_like 4 v then
        Option.bind (str_field (struct_field v 0 ''function'')) (\<lambda>f.
        Option.bind (default_field JNull Some (struct_field v 1 ''parameters'')) (\<lambda>p.
        Option.bind (default_field 30000 as_u64 (struct_field v 2 ''timeout_ms'')) (\<lambda>t.
        Option.bind (default_field True as_bool (struct_field v 3 ''require_read_only_safe'')) (\<lambda>r.
          Some \<lparr>cr_function = f, cr_parameters = p, cr_timeout_ms = t,
                cr_require_read_only_safe = r\<rparr>))))
      else None)"

definition dec_read_table_request :: "json \<Rightarrow> read_table_request option" where
  "dec_read_table_request v =
     (if struct_like 4 v then
        Option.bind (str_field (struct_field v 0 ''table'')) (\<lambda>t.
        Option.bind (default_field [] (dec_list as_str) (struct_field v 1 ''fields'')) (\<lambda>fs.
        Option.bind (default_field [] (dec_list as_str) (struct_field v 2 ''where_conditions'')) (\<lambda>ws.
        Option.bind (default_field 100 as_u64 (struct_field v 3 ''max_rows'')) (\<lambda>n.
          Some \<lparr>rt_table = t, rt_fields = fs, rt_where_conditions = ws, rt_max_rows = n\<rparr>))))
      else None)"

definition dec_erp_meta_args :: "json \<Rightarrow> (string \<times> string) option" where
  "dec_erp_meta_args v =
     (if struct_like 2 v then
        Option.bind (str_field (struct_field v 0 ''function'')) (\<lambda>f.
        Option.bind (default_field ''EN'' as_str (struct_field v 1 ''language'')) (\<lambda>l. Some (f, l)))
      else None)"

definition dec_erp_bulk_args :: "json \<Rightarrow> (string list \<times> string) option" where
  "dec_erp_bulk_args v =
     (if struct_like 2 v then
        Option.bind (Option.bind (struct_field v 0 ''functions'') (dec_list as_str)) (\<lambda>fs.
        Option.bind (default_field ''EN'' as_str (struct_field v 1 ''language'')) (\<lambda>l. Some (fs, l)))
      else None)"

definition dec_navigate_args :: "json \<Rightarrow> (string \<times> string option \<times> nat) option" where
  "dec_navigate_args v =
     (if struct_like 3 v then
        Option.bind (str_field (struct_field v 0 ''document_id'')) (\<lambda>i.
        Option.bind (opt_field as_str (struct_field v 1 ''path'')) (\<lambda>p.
        Option.bind (default_field 1 dec_u32 (struct_field v 2 ''depth'')) (\<lambda>n. Some (i, p, n))))
      else None)"

definition dec_docs_args :: "json \<Rightarrow> (string \<times> nat \<times> string option) option" where
  "dec_docs_args v =
     (if struct_like 3 v then
        Option.bind (str_field (struct_field v 0 ''query'')) (\<lambda>q.
        Option.bind (default_field 5 as_u64 (struct_field v 1 ''top_k'')) (\<lambda>n.
        Option.bind (opt_field as_str (struct_field v 2 ''domain'')) (\<lambda>d. Some (q, n, d))))
      else None)"

definition dec_ess_job_args :: "json \<Rightarrow> (string \<times> string) option" where
  "dec_ess_job_args v =
     (if struct_like 2 v then
        Option.bind (str_field (struct_field v 0 ''group'')) (\<lambda>g.
        Option.bind (str_field (struct_field v 1 ''name'')) (\<lambda>n. Some (g, n)))
      else None)"

definition dec_oic_search_args :: "json \<Rightarrow> oic_search_request option" where
  "dec_oic_search_args v =
     (if struct_like 3 v then
        Option.bind (str_field (struct_field v 0 ''query'')) (\<lambda>q.
        Option.bind (opt_field dec_kind (struct_field v 1 ''kind'')) (\<lambda>k.
        Option.bind (default_field 25 as_u64 (struct_field v 2 ''max_results'')) (\<lambda>n.
          Some \<lparr>oq_query = q, oq_kind = k, oq_max_results = n\<rparr>)))
      else None)"

definition dec_name_kind_args :: "json \<Rightarrow> (string \<times> artifact_kind) option" where
  "dec_name_kind_args v =
     (if struct_like 2 v then
        Option.bind (str_field (struct_field v 0 ''name'')) (\<lambda>n.
        Option.bind (Option.bind (struct_field v 1 ''kind'') dec_kind) (\<lambda>k. Some (n, k)))
      else None)"

definition dec_multi_hop_args :: "json \<Rightarrow> (string \<times> nat \<times> nat \<times> nat) option" where
  "dec_multi_hop_args v =
     (if struct_like 4 v then
        Option.bind (str_field (struct_field v 0 ''query'')) (\<lambda>q.
        Option.bind (default_field 4 dec_u32 (struct_field v 1 ''max_hops'')) (\<lambda>h.
        Option.bind (default_field 8 as_u64 (struct_field v 2 ''top_k'')) (\<lambda>n.
        Option.bind (default_field 3 as_u64 (struct_field v 3 ''max_seeds'')) (\<lambda>s. Some (q, h, n, s)))))
      else None)"

definition dec_summarise_args :: "json \<Rightarrow> (nat \<times> nat) option" where
  "dec_summarise_args v =
     (if struct_like 2 v then
        Option.bind (default_field 2 dec_u32 (struct_field v 0 ''level'')) (\<lambda>l.
        Option.bind (default_field 10 as_u64 (struct_field v 1 ''top_k'')) (\<lambda>n. Some (l, n)))
      else None)"

definition dec_neighborhood_args :: "json \<Rightarrow> (string list \<times> nat \<times> nat) option" where
  "dec_neighborhood_args v =
     (if struct_like 3 v then
        Option.bind (Option.bind (struct_field v 0 ''seeds'') (dec_list as_str)) (\<lambda>s.
        Option.bind (default_field 4 dec_u32 (struct_field v 1 ''max_hops'')) (\<lambda>h.
        Option.bind (default_field 8 as_u64 (struct_field v 2 ''top_k'')) (\<lambda>n. Some (s, h, n))))
      else None)"

text \<open>The hints of the workflows; a quantity is kept as the JSON number it is written back as.\<close>

definition dec_po_args ::
  "(json_number \<Rightarrow> json) \<Rightarrow> json \<Rightarrow> (string option \<times> string option \<times> json option) option" where
  "dec_po_args f64 v =
     (if struct_like 3 v then
        Option.bind (opt_field as_str (struct_field v 0 ''vendor'')) (\<lambda>ven.
        Option.bind (opt_field as_str (struct_field v 1 ''material'')) (\<lambda>mat.
        Option.bind (opt_field (\<lambda>q. case q of JNum n \<Rightarrow> Some (f64 n) | _ \<Rightarrow> None)
                       (struct_field v 2 ''quantity'')) (\<lambda>q. Some (ven, mat, q))))
      else None)"

definition dec_cm_args :: "json \<Rightarrow> string option option" where
  "dec_cm_args v =
     (if struct_like 1 v then opt_field as_str (struct_field v 0 ''customer'') else None)"

text \<open>\<open>TrArgs\<close> has no default: an empty array is not read as it.\<close>

definition dec_tr_args :: "json \<Rightarrow> string option option" where
  "dec_tr_args v =
     (if struct_like 1 v \<and> v \<noteq> JArr [] then opt_field as_str (struct_field v 0 ''sandbox'') else None)"

end
