(* ===== verification/Server_Context.thy ===== *)
theory Server_Context
  imports Tool_Data Transaction Mcp_Client Observability Retrieval Doc_Tree Ingest
begin

text \<open>
  The context every tool of the server shares (\<open>apps/oracle-automate-server/src/context.rs\<close>): the
  client traits as records of operations on the state behind them, their implementations, and the world
  a tool runs in. Also the helpers at the end of \<open>tools.rs\<close>: how a result is rendered and how a write
  is audited. The pretty printer, the messages of \<open>serde\<close>, the rendering of floating-point numbers and
  the clocks are the record \<open>runtime\<close>; a clock gives its successive readings.
\<close>

subsection \<open>The ERP client trait\<close>

record 'e erp_client =
  ec_system_info :: "'e \<Rightarrow> system_info erp_result \<times> 'e"
  ec_search :: "string \<Rightarrow> nat \<Rightarrow> 'e \<Rightarrow> search_result erp_result \<times> 'e"
  ec_metadata :: "'e inner_meta"
  ec_bulk :: "'e inner_bulk"
  ec_call :: "'e erp_call"
  ec_read_table :: "read_table_request \<Rightarrow> 'e \<Rightarrow> table_row list erp_result \<times> 'e"
  ec_structure :: "string \<Rightarrow> 'e \<Rightarrow> table_structure erp_result \<times> 'e"
  ec_pool_status :: "'e \<Rightarrow> nat \<times> nat"

text \<open>The offline client: its maps never change. \<open>order\<close> is the iteration order of the catalogue and
  \<open>pool\<close> what its pool reports.\<close>

definition mock_erp_client ::
  "(json \<Rightarrow> string) \<Rightarrow> erp_operation_meta list \<Rightarrow> (nat \<times> nat) \<Rightarrow> mock_client \<Rightarrow> 'e erp_client" where
  "mock_erp_client disp order pool mc =
     \<lparr>ec_system_info = (\<lambda>s. (mock_system_info mc, s)),
      ec_search = (\<lambda>q n s. (mock_search_operations order q n, s)),
      ec_metadata = mock_meta mc, ec_bulk = mock_bulk mc, ec_call = mock_call disp mc,
      ec_read_table = (\<lambda>r s. (mock_read_table disp mc r, s)),
      ec_structure = (\<lambda>t s. (mock_table_structure mc t, s)), ec_pool_status = (\<lambda>s. pool)\<rparr>"

text \<open>The metadata cache: what it does not cache goes to the inner client.\<close>

definition on_inner :: "('e \<Rightarrow> 'r \<times> 'e) \<Rightarrow> 'e meta_cache \<Rightarrow> 'r \<times> 'e meta_cache" where
  "on_inner f c = (case f (ch_inner c) of (r, s) \<Rightarrow> (r, c\<lparr>ch_inner := s\<rparr>))"

definition cached_erp_client :: "'e erp_client \<Rightarrow> 'e meta_cache erp_client" where
  "cached_erp_client cl =
     \<lparr>ec_system_info = on_inner (ec_system_info cl), ec_search = (\<lambda>q n. on_inner (ec_search cl q n)),
      ec_metadata = cache_operation_metadata (ec_metadata cl),
      ec_bulk = cache_bulk_metadata (ec_bulk cl), ec_call = cache_call (ec_call cl),
      ec_read_table = (\<lambda>r. on_inner (ec_read_table cl r)),
      ec_structure = (\<lambda>t. on_inner (ec_structure cl t)),
      ec_pool_status = (\<lambda>c. ec_pool_status cl (ch_inner c))\<rparr>"

text \<open>The live client: the catalogue answers all but the calls and the identity; the pool is the
  trait's default.\<close>

definition on_catalogue :: "('e \<Rightarrow> 'r \<times> 'e) \<Rightarrow> 'e \<times> 'w \<Rightarrow> 'r \<times> 'e \<times> 'w" where
  "on_catalogue f sw = (case f (fst sw) of (r, s) \<Rightarrow> (r, s, snd sw))"

definition fusion_erp_client ::
  "fusion_config \<Rightarrow> 'w http_send \<Rightarrow> 'e erp_client \<Rightarrow> ('e \<times> 'w) erp_client" where
  "fusion_erp_client cfg send cl =
     \<lparr>ec_system_info = (\<lambda>(s, w). case fusion_system_info cfg send w of (r, w') \<Rightarrow> (r, s, w')),
      ec_search = (\<lambda>q n. on_catalogue (ec_search cl q n)),
      ec_metadata = (\<lambda>f l. on_catalogue (ec_metadata cl f l)),
      ec_bulk = (\<lambda>fs l. on_catalogue (ec_bulk cl fs l)),
      ec_call = fusion_call cfg send (ec_metadata cl),
      ec_read_table = (\<lambda>r. on_catalogue (ec_read_table cl r)),
      ec_structure = (\<lambda>t. on_catalogue (ec_structure cl t)), ec_pool_status = (\<lambda>_. (0, 0))\<rparr>"

subsection \<open>The other services\<close>

text \<open>The handle on the metadata cache for the cache tools: its counters (hits, misses, evictions,
  entries) and dropping its entries, on the state of the client that contains it.\<close>

record 'e cache_handle =
  hc_stats :: "'e \<Rightarrow> nat \<times> nat \<times> nat \<times> nat"
  hc_invalidate :: "'e \<Rightarrow> 'e"

definition handle_of_cache :: "'e meta_cache cache_handle" where
  "handle_of_cache = \<lparr>hc_stats = cache_stats, hc_invalidate = cache_invalidate_all\<rparr>"

record 'p party_client =
  py_search :: "string \<Rightarrow> nat \<Rightarrow> 'p \<Rightarrow> party list erp_result \<times> 'p"
  py_get :: "string \<Rightarrow> 'p \<Rightarrow> party erp_result \<times> 'p"

definition fusion_party_client ::
  "(json \<Rightarrow> string) \<Rightarrow> fusion_config \<Rightarrow> 'w http_send \<Rightarrow> 'w party_client" where
  "fusion_party_client disp cfg send =
     \<lparr>py_search = search_parties disp cfg send, py_get = get_party disp cfg send\<rparr>"

text \<open>The flat search of the RAG engine: each hit of the hybrid pipeline as a chunk of its snippet, in
  a placeholder domain, always of the hybrid layer.\<close>

definition rag_search ::
  "'f float_ops \<Rightarrow> ((string \<times> 'f search_hit) list \<Rightarrow> (string \<times> 'f search_hit) list)
     \<Rightarrow> ('f search_query \<Rightarrow> 'e + ('f search_hit list \<times> 'f search_hit list))
     \<Rightarrow> 'f rag_engine \<Rightarrow> rag_query \<Rightarrow> 'f list option \<Rightarrow> 'e + 'f search_hit list" where
  "rag_search fo ord store e q embedding =
     map_sum id (\<lambda>resp. map (\<lambda>v.
         (\<lparr>ck_id = hv_document_id v, ck_document_id = hv_document_id v, ck_domain = Oracle_Help,
           ck_ordinal = 0, ck_text = hv_snippet v, ck_embedding = None, ck_breadcrumbs = [],
           ck_title = hv_title v, ck_uri = hv_uri v\<rparr>, hv_score v)) (search_response.sr_hits resp))
       (rag_hybrid_search fo ord store e q embedding)"

definition kb_get_document_tree :: "'f kb \<Rightarrow> string \<Rightarrow> document_tree option" where
  "kb_get_document_tree k i = map_option build_document_tree (kb_get_document k i)"

subsection \<open>The context and the world\<close>

record 'f runtime =
  ru_pretty :: "json \<Rightarrow> string"
  ru_serde :: "string \<Rightarrow> json \<Rightarrow> string"
  ru_float :: "'f \<Rightarrow> json"
  ru_fixed3 :: "'f \<Rightarrow> string"
  ru_f64 :: "json_number \<Rightarrow> json"
  ru_ratio :: "nat \<Rightarrow> nat \<Rightarrow> json"
  ru_hex :: "nat \<Rightarrow> string"
  ru_instant_ns :: "nat \<Rightarrow> nat"
  ru_epoch_ns :: "nat \<Rightarrow> nat"

record ('f, 'e, 'o, 'p, 'l) server_context =
  cx_runtime :: "'f runtime"
  cx_float :: "'f float_ops"
  cx_rag :: "rag_query \<Rightarrow> 'f list option \<Rightarrow> string + 'f search_hit list"
  cx_tree :: "string \<Rightarrow> string + document_tree option"
  cx_graph :: "'f graph_engine"
  cx_embed :: "string list \<Rightarrow> embedding_error + 'f list list"
  cx_erp :: "'e erp_client"
  cx_cache :: "'e cache_handle option"
  cx_oic :: "'o oic_client"
  cx_party :: "'p party_client option"
  cx_link :: "'l link"
  cx_read_only :: bool
  cx_agents_md :: "string option"
  cx_erp_system :: "string option"

text \<open>The state behind the context: the ERP client's, the outside worlds of the artifact client, the
  party client and the MCP client, the elicitation handle of the session, the entries given to the
  audit sink and the number of clock readings made.\<close>

record ('e, 'o, 'p, 'l) tool_world =
  tw_erp :: 'e
  tw_oic :: 'o
  tw_party :: 'p
  tw_link :: 'l
  tw_elicit :: "elicitation_handle option"
  tw_audit :: "audit_entry list"
  tw_ticks :: nat

type_synonym ('f, 'e, 'o, 'p, 'l) context_handler =
  "('f, 'e, 'o, 'p, 'l) server_context \<Rightarrow> ('e, 'o, 'p, 'l) tool_world tool_handler"

type_synonym ('f, 'e, 'o, 'p, 'l) context_tool =
  "('f, 'e, 'o, 'p, 'l) server_context \<Rightarrow> ('e, 'o, 'p, 'l) tool_world tool_descriptor"

definition on_erp ::
  "('e \<Rightarrow> 'r \<times> 'e) \<Rightarrow> ('e, 'o, 'p, 'l) tool_world \<Rightarrow> 'r \<times> ('e, 'o, 'p, 'l) tool_world" where
  "on_erp f w = (case f (tw_erp w) of (r, s) \<Rightarrow> (r, w\<lparr>tw_erp := s\<rparr>))"

definition on_oic ::
  "('o \<Rightarrow> 'r \<times> 'o) \<Rightarrow> ('e, 'o, 'p, 'l) tool_world \<Rightarrow> 'r \<times> ('e, 'o, 'p, 'l) tool_world" where
  "on_oic f w = (case f (tw_oic w) of (r, s) \<Rightarrow> (r, w\<lparr>tw_oic := s\<rparr>))"

definition on_party ::
  "('p \<Rightarrow> 'r \<times> 'p) \<Rightarrow> ('e, 'o, 'p, 'l) tool_world \<Rightarrow> 'r \<times> ('e, 'o, 'p, 'l) tool_world" where
  "on_party f w = (case f (tw_party w) of (r, s) \<Rightarrow> (r, w\<lparr>tw_party := s\<rparr>))"

definition ask_user ::
  "'l link \<Rightarrow> string \<Rightarrow> json \<Rightarrow> ('e, 'o, 'p, 'l) tool_world
     \<Rightarrow> elicitation_result \<times> ('e, 'o, 'p, 'l) tool_world" where
  "ask_user link message schema w =
     (case elicit_in (tw_elicit w) link message schema (tw_link w) of
        (r, h, l) \<Rightarrow> (r, w\<lparr>tw_elicit := h, tw_link := l\<rparr>))"

text \<open>\<open>Instant::now()\<close>, in nanoseconds.\<close>

definition read_instant ::
  "'f runtime \<Rightarrow> ('e, 'o, 'p, 'l) tool_world \<Rightarrow> nat \<times> ('e, 'o, 'p, 'l) tool_world" where
  "read_instant rt w = (ru_instant_ns rt (tw_ticks w), w\<lparr>tw_ticks := tw_ticks w + 1\<rparr>)"

subsection \<open>Helpers of the tools\<close>

text \<open>A handler reads its arguments, and answers an error when they cannot be read.\<close>

definition with_args ::
  "string \<Rightarrow> (json \<Rightarrow> string) \<Rightarrow> (json \<Rightarrow> 'a option) \<Rightarrow> ('a \<Rightarrow> 's \<Rightarrow> call_tool_result \<times> 's)
     \<Rightarrow> 's tool_handler" where
  "with_args intro serde_text dec act v s =
     (case dec v of
        None \<Rightarrow> (Ok (tool_error (intro @ serde_text v)), s)
      | Some a \<Rightarrow> (case act a s of (r, s') \<Rightarrow> (Ok r, s')))"

text \<open>\<open>render_json\<close>: these values can always be written.\<close>

definition render_json :: "'f runtime \<Rightarrow> json \<Rightarrow> call_tool_result" where
  "render_json rt v = tool_text (ru_pretty rt v)"

definition erp_code_debug :: "erp_error \<Rightarrow> string" where
  "erp_code_debug e =
     (case error_code_of e of
        EcTimeout \<Rightarrow> ''Timeout'' | EcDestinationDown \<Rightarrow> ''DestinationDown''
      | EcPoolExhausted \<Rightarrow> ''PoolExhausted'' | EcCircuitOpen \<Rightarrow> ''CircuitOpen''
      | EcUpstreamRateLimit \<Rightarrow> ''UpstreamRateLimit'' | EcAuthFailed \<Rightarrow> ''AuthFailed''
      | EcNotFound \<Rightarrow> ''NotFound'' | EcTableBufferOverflow \<Rightarrow> ''TableBufferOverflow''
      | EcInvalidParameter \<Rightarrow> ''InvalidParameter'' | EcPermissionDenied \<Rightarrow> ''PermissionDenied''
      | EcSchemaViolation \<Rightarrow> ''SchemaViolation'' | EcInternal \<Rightarrow> ''Internal''
      | EcPartialBulk \<Rightarrow> ''PartialBulk'' | EcStaleMetadata \<Rightarrow> ''StaleMetadata'')"

definition erp_failure :: "string \<Rightarrow> erp_error \<Rightarrow> call_tool_result" where
  "erp_failure tool e = tool_error (tool @ '': '' @ erp_error_text e)"

definition erp_coded_failure :: "string \<Rightarrow> erp_error \<Rightarrow> call_tool_result" where
  "erp_coded_failure tool e =
     tool_error (tool @ '' ['' @ erp_code_debug e @ '']: '' @ erp_error_text e)"

definition oic_failure :: "string \<Rightarrow> oic_error \<Rightarrow> call_tool_result" where
  "oic_failure tool e =
     tool_error (tool @ '' ['' @ oic_code_name (oic_error_code_of e) @ '']: '' @ oic_error_text e)"

text \<open>\<open>match result { Ok(x) => render_json(tool, x), Err(e) => error }\<close>.\<close>

definition rendered ::
  "'f runtime \<Rightarrow> ('x \<Rightarrow> call_tool_result) \<Rightarrow> ('a \<Rightarrow> json) \<Rightarrow> ('x + 'a) \<times> 's \<Rightarrow> call_tool_result \<times> 's" where
  "rendered rt failure enc rs =
     (case rs of (Inl e, s) \<Rightarrow> (failure e, s) | (Inr a, s) \<Rightarrow> (render_json rt (enc a), s))"

definition record_write_audit ::
  "('f, 'e, 'o, 'p, 'l) server_context \<Rightarrow> string \<Rightarrow> json \<Rightarrow> audit_outcome \<Rightarrow> nat
     \<Rightarrow> ('e, 'o, 'p, 'l) tool_world \<Rightarrow> ('e, 'o, 'p, 'l) tool_world" where
  "record_write_audit cx tool arguments outcome started w =
     (let rt = cx_runtime cx; t = tw_ticks w in
      w\<lparr>tw_ticks := t + 3,
        tw_audit := record_audit memory_sink
          \<lparr>ae_event_id = new_event_id (ru_hex rt) (ru_epoch_ns rt t),
           ae_at_ms = (ru_epoch_ns rt (t + 1) div 1000000) mod 2 ^ 64,
           ae_session_id = None, ae_tenant = None, ae_actor = None, ae_tool = tool,
           ae_erp_system = cx_erp_system cx, ae_arguments_redacted = arguments, ae_outcome = outcome,
           ae_duration_ms = ((ru_instant_ns rt (t + 2) - started) div 1000000) mod 2 ^ 64\<rparr>
          (tw_audit w)\<rparr>)"

subsection \<open>Audit entries\<close>

definition audit_is_ok :: "audit_outcome \<Rightarrow> bool" where
  "audit_is_ok out = (case out of Audit_Ok _ \<Rightarrow> True | _ \<Rightarrow> False)"

lemma audit_is_ok_simps [simp]:
  "audit_is_ok (Audit_Ok s)" "\<not> audit_is_ok (Audit_Declined s)" "\<not> audit_is_ok (Audit_Denied s)"
  "\<not> audit_is_ok (Audit_Failed c s)"
  by (simp_all add: audit_is_ok_def)

text \<open>Between two worlds the audit log got one entry more: for the tool, with the arguments redacted,
  and of an outcome that satisfies \<open>P\<close>.\<close>

definition audit_added ::
  "string \<Rightarrow> json \<Rightarrow> (audit_outcome \<Rightarrow> bool) \<Rightarrow> ('e, 'o, 'p, 'l) tool_world
     \<Rightarrow> ('e, 'o, 'p, 'l) tool_world \<Rightarrow> bool" where
  "audit_added tool v P w w' \<longleftrightarrow>
     (let e = last (tw_audit w') in
      tw_audit w' \<noteq> [] \<and> butlast (tw_audit w') = tw_audit w \<and> ae_tool e = tool
      \<and> ae_arguments_redacted e = redact v \<and> P (ae_outcome e))"

lemma record_write_audit_simps [simp]:
  "tw_erp (record_write_audit cx tool v out t w) = tw_erp w"
  "tw_oic (record_write_audit cx tool v out t w) = tw_oic w"
  "tw_party (record_write_audit cx tool v out t w) = tw_party w"
  "tw_link (record_write_audit cx tool v out t w) = tw_link w"
  "tw_elicit (record_write_audit cx tool v out t w) = tw_elicit w"
  by (simp_all add: record_write_audit_def Let_def)

lemma record_write_audit_added [simp]:
  "tw_audit w = tw_audit w0 \<Longrightarrow>
     audit_added tool v P w0 (record_write_audit cx tool' v' out t w)
       \<longleftrightarrow> tool' = tool \<and> redact v' = redact v \<and> P out"
  by (auto simp: audit_added_def record_write_audit_def record_audit_def memory_sink_def Let_def)

text \<open>A call refused because its arguments could not be read: an error, and nothing was done.\<close>

definition unread :: "call_tool_result mcp_result \<times> 's \<Rightarrow> 's \<Rightarrow> bool" where
  "unread rw w = (case rw of (Inr r, w') \<Rightarrow> ct_is_error r \<and> w' = w | _ \<Rightarrow> False)"

lemma unread_with_args: "dec v = None \<Longrightarrow> unread (with_args intro st dec act v w) w"
  by (simp add: with_args_def unread_def tool_error_def)

end
