(* ===== verification/Kb_Tools.thy ===== *)
theory Kb_Tools
  imports Server_Context
begin

text \<open>
  The knowledge tools of the server (\<open>apps/oracle-automate-server/src/tools.rs\<close>): the four RAG
  searches, the walk of a document tree, the search of the whole base and the graph tools. Every tool
  is a handler and its descriptor with the schema it advertises. None changes anything but the clock.
\<close>

subsection \<open>Searching\<close>

text \<open>A failed embedding searches without one; \<open>pop\<close> takes the last vector.\<close>

definition embed_query :: "('f, 'e, 'o, 'p, 'l) server_context \<Rightarrow> string \<Rightarrow> 'f list option" where
  "embed_query cx q =
     (case cx_embed cx [q] of Inl _ \<Rightarrow> None | Inr vs \<Rightarrow> if vs = [] then None else Some (last vs))"

definition rag_search_schema :: tool_input_schema where
  "rag_search_schema = schema_from_value (json_obj
     [(''type'', JStr ''object''),
      (''properties'', json_obj
       [(''query'', json_obj
         [(''type'', JStr ''string''),
          (''description'', JStr ''Free-text query'')]),
        (''top_k'', json_obj
         [(''type'', JStr ''integer''),
          (''minimum'', JNat 1),
          (''maximum'', JNat 50),
          (''default'', JNat 5)])]),
      (''required'', enc_strs [''query'']),
      (''additionalProperties'', JBool False)])"

definition rag_hit_line :: "'f runtime \<Rightarrow> 'f search_hit \<Rightarrow> string" where
  "rag_hit_line rt = (\<lambda>(c, s).
     ''- [Hybrid] '' @ ck_title c @ '' ('' @ ru_fixed3 rt s @ '') '' @ em_dash @ '' ''
     @ truncate_text (ck_text c) 160 @ [newline] @ ''  uri: '' @ ck_uri c)"

definition rag_handler :: "string \<Rightarrow> domain \<Rightarrow> ('f, 'e, 'o, 'p, 'l) context_handler" where
  "rag_handler tool dmn cx =
     (let rt = cx_runtime cx in
      with_args (tool @ '': invalid arguments: '') (ru_serde rt tool)
        (dec_text_count_args ''query'' ''top_k'' 5)
        (\<lambda>(q, k) w.
          ((case cx_rag cx \<lparr>rg_text = q, rg_domain = Some dmn, rg_top_k = k\<rparr> (embed_query cx q) of
              Inl e \<Rightarrow> tool_error (tool @ '': '' @ e)
            | Inr hits \<Rightarrow>
                if hits = [] then
                  tool_text (tool @ '': no matches for '' @ [quote_char] @ q @ [quote_char])
                else
                  tool_text (join [newline]
                    ((tool @ '': '' @ show_nat (length hits) @ '' hit(s) for '' @ [quote_char] @ q
                      @ [quote_char]) # map (rag_hit_line rt) hits))), w)))"

definition make_rag_tool :: "string \<Rightarrow> string \<Rightarrow> domain \<Rightarrow> ('f, 'e, 'o, 'p, 'l) context_tool" where
  "make_rag_tool name description dmn cx =
     tool_descriptor_new name (Some description) rag_search_schema (rag_handler name dmn cx)"

text \<open>The domain of \<open>oracle.docs.search\<close>: \<open>None\<close> is refused, \<open>Some None\<close> is every domain.\<close>

definition docs_domain :: "string option \<Rightarrow> domain option option" where
  "docs_domain d =
     (case d of
        None \<Rightarrow> Some None
      | Some s \<Rightarrow>
          if s = ''all'' then Some None
          else if s = ''sap_help'' then Some (Some Oracle_Help)
          else if s = ''abap'' then Some (Some Integration)
          else if s = ''bpmn'' then Some (Some Bpmn)
          else if s = ''leanix'' then Some (Some App_Catalog)
          else None)"

definition docs_hit :: "'f runtime \<Rightarrow> 'f search_hit \<Rightarrow> json" where
  "docs_hit rt = (\<lambda>(c, s). json_obj
     [(''uri'', JStr (ck_uri c)), (''title'', JStr (ck_title c)), (''score'', ru_float rt s),
      (''snippet'', JStr (truncate_text (ck_text c) 200))])"

definition docs_handler :: "('f, 'e, 'o, 'p, 'l) context_handler" where
  "docs_handler cx =
     (let tool = ''oracle.docs.search''; rt = cx_runtime cx in
      with_args (tool @ '': invalid arguments: '') (ru_serde rt tool) dec_docs_args
        (\<lambda>(q, k, d) w.
          ((case docs_domain d of
              None \<Rightarrow> tool_error (tool @ '': unknown domain '' @ quoted (unwrap_or d []))
            | Some dmn \<Rightarrow>
                (case cx_rag cx \<lparr>rg_text = q, rg_domain = dmn, rg_top_k = k\<rparr> (embed_query cx q) of
                   Inl e \<Rightarrow> tool_error (tool @ '': '' @ e)
                 | Inr hits \<Rightarrow> render_json rt (json_obj [(''hits'', JArr (map (docs_hit rt) hits))]))),
           w)))"

definition tool_docs_search ::
  "('f, 'e, 'o, 'p, 'l) context_tool" where
  "tool_docs_search cx =
     tool_descriptor_new ''oracle.docs.search''
       (Some (''Semantic search across the unified SAP knowledge base (Help Portal + ''
             @ ''OIC/custom-code + BPMN + LeanIX). Use this instead of guessing which ''
             @ ''domain holds the answer.''))
       (schema_from_value (json_obj
          [(''type'', JStr ''object''),
           (''properties'', json_obj
            [(''query'', json_obj [(''type'', JStr ''string'')]),
             (''top_k'', json_obj
              [(''type'', JStr ''integer''),
               (''minimum'', JNat 1),
               (''maximum'', JNat 50),
               (''default'', JNat 5)]),
             (''domain'', json_obj
              [(''type'', JStr ''string''),
               (''enum'', enc_strs [''all'', ''sap_help'', ''abap'', ''bpmn'', ''leanix'']),
               (''default'', JStr ''all'')])]),
           (''required'', enc_strs [''query'']),
           (''additionalProperties'', JBool False)]))
       (docs_handler cx)"

subsection \<open>Walking a document\<close>

definition child_stub :: "doc_node \<Rightarrow> json" where
  "child_stub c = json_obj
     [(''path'', JStr (dn_path c)), (''title'', JStr (dn_title c)), (''summary'', JStr (dn_summary c)),
      (''approx_tokens'', JNat (dn_tokens c)), (''child_count'', JNat (length (dn_children c)))]"

fun serialize_node :: "doc_node \<Rightarrow> nat \<Rightarrow> json" where
  "serialize_node (DocNode p d t s a e k cs) depth = json_obj
     [(''path'', JStr p), (''depth'', JNat d), (''title'', JStr t), (''summary'', JStr s),
      (''start_index'', JNat a), (''end_index'', JNat e), (''approx_tokens'', JNat k),
      (''children'', JArr (if depth = 0 then map child_stub cs
                          else map (\<lambda>c. serialize_node c (depth - 1)) cs))]"

definition navigate_handler :: "('f, 'e, 'o, 'p, 'l) context_handler" where
  "navigate_handler cx =
     (let tool = ''oracle.kb.navigate''; rt = cx_runtime cx in
      with_args (tool @ '': invalid arguments: '') (ru_serde rt tool) dec_navigate_args
        (\<lambda>(i, p, depth) w.
          ((case cx_tree cx i of
              Inl e \<Rightarrow> tool_error (tool @ '': '' @ e)
            | Inr None \<Rightarrow> tool_error (tool @ '': document '' @ quoted i @ '' not found'')
            | Inr (Some tree) \<Rightarrow>
                (let path = unwrap_or p [] in
                 case (if path = [] then Some (dt_root tree) else find_node path (dt_root tree)) of
                   None \<Rightarrow> tool_error (tool @ '': path '' @ quoted path
                     @ '' not found in document tree (max_depth='' @ show_nat (dt_max_depth tree)
                     @ '', leaf_count='' @ show_nat (dt_leaf_count tree) @ '')'')
                 | Some node \<Rightarrow> render_json rt (json_obj
                     [(''document_id'', JStr (dt_document_id tree)),
                      (''max_depth'', JNat (dt_max_depth tree)),
                      (''leaf_count'', JNat (dt_leaf_count tree)),
                      (''node'', serialize_node node depth)]))),
           w)))"

definition tool_kb_navigate ::
  "('f, 'e, 'o, 'p, 'l) context_tool" where
  "tool_kb_navigate cx =
     tool_descriptor_new ''oracle.kb.navigate''
       (Some (''Walk the hierarchical document tree (OpenKB + PageIndex pattern) ''
             @ ''section by section. Pass a document_id and an optional dotted path '' @ ''(e.g. ''
             @ [CHR 0x27] @ ''1.2.1'' @ [CHR 0x27]
             @ '') and depth to bound the returned subtree. Use this for ''
             @ ''long SAP Help pages / OIC/custom-code source files when ''
             @ ''similarity-blind retrieval would miss the right section.''))
       (schema_from_value (json_obj
          [(''type'', JStr ''object''),
           (''properties'', json_obj
            [(''document_id'', json_obj
              [(''type'', JStr ''string''),
               (''description'', JStr (''Document id, e.g. '' @ [CHR 0x27] @ ''sap_help:FI/period-close'' @ [CHR 0x27]))]),
             (''path'', json_obj
              [(''type'', JStr ''string''),
               (''description'', JStr (''Optional dotted path, e.g. '' @ [CHR 0x27] @ ''1.2'' @ [CHR 0x27]
                     @ ''. Omit to start at the root.''))]),
             (''depth'', json_obj
              [(''type'', JStr ''integer''),
               (''minimum'', JNat 0),
               (''maximum'', JNat 4),
               (''default'', JNat 1)])]),
           (''required'', enc_strs [''document_id'']),
           (''additionalProperties'', JBool False)]))
       (navigate_handler cx)"

definition rag_tools ::
  "('f, 'e, 'o, 'p, 'l) server_context \<Rightarrow> ('e, 'o, 'p, 'l) tool_world tool_descriptor list" where
  "rag_tools cx =
     [make_rag_tool ''integration.search''
        ''Hybrid search over the OIC integration + custom-code corpus.'' Integration cx,
      make_rag_tool ''bpmn.find_process'' ''Search the Oracle process-model repository.'' Bpmn cx,
      make_rag_tool ''eam.search_apps'' ''Search the application-portfolio fact sheets.'' App_Catalog cx,
      make_rag_tool ''oracle.help.search'' ''Search the Oracle Help Center corpus.'' Oracle_Help cx,
      tool_kb_navigate cx]"

subsection \<open>The graph\<close>

text \<open>The time a query of the graph engine took, in microseconds, between two readings.\<close>

definition elapsed_us ::
  "'f runtime \<Rightarrow> ('e, 'o, 'p, 'l) tool_world \<Rightarrow> nat \<times> ('e, 'o, 'p, 'l) tool_world" where
  "elapsed_us rt w =
     (case read_instant rt w of (t0, w1) \<Rightarrow> (case read_instant rt w1 of (t1, w2) \<Rightarrow>
        (((t1 - t0) div 1000) mod 2 ^ 64, w2)))"

definition graph_answer ::
  "'f runtime \<Rightarrow> (nat \<Rightarrow> json) \<Rightarrow> ('e, 'o, 'p, 'l) tool_world
     \<Rightarrow> call_tool_result \<times> ('e, 'o, 'p, 'l) tool_world" where
  "graph_answer rt response w =
     (case elapsed_us rt w of (us, w') \<Rightarrow> (render_json rt (response us), w'))"

definition multi_hop_handler :: "('f, 'e, 'o, 'p, 'l) context_handler" where
  "multi_hop_handler cx =
     (let tool = ''kb.multi_hop''; rt = cx_runtime cx in
      with_args (tool @ '': invalid arguments: '') (ru_serde rt tool)
        dec_multi_hop_args
        (\<lambda>(q, hops, k, seeds). graph_answer rt (\<lambda>us.
            enc_graph_response (ru_float rt) us
              (engine_multi_hop (cx_float cx) (cx_graph cx) q hops k seeds))))"

definition kb_multi_hop ::
  "('f, 'e, 'o, 'p, 'l) context_tool" where
  "kb_multi_hop cx =
     tool_descriptor_new ''kb.multi_hop''
       (Some (''HippoRAG-style multi-hop traversal (Personalised PageRank) across the ''
             @ ''SAP knowledge graph. Use this for impact / where-used / ''
             @ ''dependency-chain queries. Returns nodes with hop distance from any seed.''))
       (schema_from_value (json_obj
          [(''type'', JStr ''object''),
           (''properties'', json_obj
            [(''query'', json_obj [(''type'', JStr ''string'')]),
             (''max_hops'', json_obj
              [(''type'', JStr ''integer''),
               (''minimum'', JNat 1),
               (''maximum'', JNat 6),
               (''default'', JNat 4)]),
             (''top_k'', json_obj
              [(''type'', JStr ''integer''),
               (''minimum'', JNat 1),
               (''maximum'', JNat 50),
               (''default'', JNat 8)]),
             (''max_seeds'', json_obj
              [(''type'', JStr ''integer''),
               (''minimum'', JNat 1),
               (''maximum'', JNat 10),
               (''default'', JNat 3)])]),
           (''required'', enc_strs [''query'']),
           (''additionalProperties'', JBool False)]))
       (multi_hop_handler cx)"

definition global_query_handler :: "('f, 'e, 'o, 'p, 'l) context_handler" where
  "global_query_handler cx =
     (let tool = ''kb.global_query''; rt = cx_runtime cx in
      with_args (tool @ '': invalid arguments: '') (ru_serde rt tool)
        (dec_text_count_args ''query'' ''top_k'' 3)
        (\<lambda>(q, k). graph_answer rt (\<lambda>us.
            enc_community_response q us (community_query (cx_graph cx) q k))))"

definition kb_global_query ::
  "('f, 'e, 'o, 'p, 'l) context_tool" where
  "kb_global_query cx =
     tool_descriptor_new ''kb.global_query''
       (Some (''Microsoft GraphRAG community-level Q&A. Returns the top communities ''
             @ ''(clusters of related entities) that overlap the query, with their ''
             @ ''members and synthesised summary. Use this for global / analytical / ''
             @ ''cross-domain questions.''))
       (schema_from_value (json_obj
          [(''type'', JStr ''object''),
           (''properties'', json_obj
            [(''query'', json_obj [(''type'', JStr ''string'')]),
             (''top_k'', json_obj
              [(''type'', JStr ''integer''),
               (''minimum'', JNat 1),
               (''maximum'', JNat 10),
               (''default'', JNat 3)])]),
           (''required'', enc_strs [''query'']),
           (''additionalProperties'', JBool False)]))
       (global_query_handler cx)"

definition summarise_handler :: "('f, 'e, 'o, 'p, 'l) context_handler" where
  "summarise_handler cx =
     (let tool = ''kb.summarise''; rt = cx_runtime cx in
      with_args (tool @ '': invalid arguments: '') (ru_serde rt tool)
        dec_summarise_args
        (\<lambda>(l, k). graph_answer rt (\<lambda>us.
            enc_raptor_response l us (raptor_summary (cx_graph cx) l k))))"

definition kb_summarise ::
  "('f, 'e, 'o, 'p, 'l) context_tool" where
  "kb_summarise cx =
     tool_descriptor_new ''kb.summarise''
       (Some (''RAPTOR hierarchical summary at the requested level (0 = leaves, 1 = ''
             @ ''Louvain communities, 2 = SAP module roll-ups). Use this for ''
             @ ''granularity-aware orientation queries.''))
       (schema_from_value (json_obj
          [(''type'', JStr ''object''),
           (''properties'', json_obj
            [(''level'', json_obj
              [(''type'', JStr ''integer''),
               (''minimum'', JNat 0),
               (''maximum'', JNat 2),
               (''default'', JNat 2)]),
             (''top_k'', json_obj
              [(''type'', JStr ''integer''),
               (''minimum'', JNat 1),
               (''maximum'', JNat 50),
               (''default'', JNat 10)])]),
           (''additionalProperties'', JBool False)]))
       (summarise_handler cx)"

definition neighborhood_handler :: "('f, 'e, 'o, 'p, 'l) context_handler" where
  "neighborhood_handler cx =
     (let tool = ''kb.graph_neighborhood''; rt = cx_runtime cx in
      with_args (tool @ '': invalid arguments: '') (ru_serde rt tool)
        dec_neighborhood_args
        (\<lambda>(seeds, hops, k) w.
          if seeds = [] then (tool_error (tool @ '': seeds must not be empty''), w)
          else graph_answer rt (\<lambda>us. enc_graph_response (ru_float rt) us
                 (engine_neighborhood (cx_float cx) (cx_graph cx) seeds hops k)) w))"

definition kb_graph_neighborhood ::
  "('f, 'e, 'o, 'p, 'l) context_tool" where
  "kb_graph_neighborhood cx =
     tool_descriptor_new ''kb.graph_neighborhood''
       (Some (''Multi-hop neighbourhood of an explicit set of entity IDs (e.g. '' @ ''['' @ [CHR 0x27]
             @ ''abap:ZFIN_POST_JE'' @ [CHR 0x27] @ '', '' @ [CHR 0x27]
             @ ''rfc:BAPI_ACC_DOCUMENT_POST'' @ [CHR 0x27] @ '']). PPR-ranked. Use ''
             @ ''after oracle.docs.search or oracle.oic.where_used has identified ''
             @ ''concrete entities.''))
       (schema_from_value (json_obj
          [(''type'', JStr ''object''),
           (''properties'', json_obj
            [(''seeds'', json_obj
              [(''type'', JStr ''array''),
               (''items'', json_obj [(''type'', JStr ''string'')]),
               (''minItems'', JNat 1),
               (''maxItems'', JNat 20)]),
             (''max_hops'', json_obj
              [(''type'', JStr ''integer''),
               (''minimum'', JNat 1),
               (''maximum'', JNat 6),
               (''default'', JNat 4)]),
             (''top_k'', json_obj
              [(''type'', JStr ''integer''),
               (''minimum'', JNat 1),
               (''maximum'', JNat 50),
               (''default'', JNat 8)])]),
           (''required'', enc_strs [''seeds'']),
           (''additionalProperties'', JBool False)]))
       (neighborhood_handler cx)"

definition graph_tools ::
  "('f, 'e, 'o, 'p, 'l) server_context \<Rightarrow> ('e, 'o, 'p, 'l) tool_world tool_descriptor list" where
  "graph_tools cx = [kb_multi_hop cx, kb_global_query cx, kb_summarise cx, kb_graph_neighborhood cx]"

subsection \<open>The walk shows the document\<close>

text \<open>The descendants of a node down to a number of levels, and the paths in a view of it.\<close>

fun levels_below :: "nat \<Rightarrow> doc_node \<Rightarrow> doc_node list" where
  "levels_below 0 n = [n]"
| "levels_below (Suc k) n = n # concat (map (levels_below k) (dn_children n))"

fun view_paths :: "json \<Rightarrow> string list" where
  "view_paths (JObj m) =
     concat (map (\<lambda>(k, v). if k = ''path'' then [unwrap_or (as_str v) []]
                          else if k = ''children'' then view_paths v else []) m)"
| "view_paths (JArr xs) = concat (map view_paths xs)"
| "view_paths v = []"

lemma stub_paths: "view_paths (child_stub c) = [dn_path c]"
  by (simp add: child_stub_def obj_of_def)

lemma serialize_paths: "set (view_paths (serialize_node n d)) = dn_path ` set (levels_below (Suc d) n)"
proof (induction n d rule: serialize_node.induct)
  case (1 p d t s a e k cs depth)
  show ?case
  proof (cases depth)
    case 0
    then show ?thesis by (auto simp: obj_of_def stub_paths)
  next
    case (Suc m)
    have sub: "set (view_paths (serialize_node c m)) = dn_path ` set (levels_below (Suc m) c)"
      if "c \<in> set cs" for c
      using 1 [of c] that Suc by simp
    have "set (view_paths (serialize_node (DocNode p d t s a e k cs) (Suc m)))
        = insert p (\<Union>c\<in>set cs. set (view_paths (serialize_node c m)))"
      by (auto simp: obj_of_def)
    also have "\<dots> = insert p (\<Union>c\<in>set cs. dn_path ` set (levels_below (Suc m) c))"
      using sub by simp
    finally show ?thesis
      unfolding Suc levels_below.simps(2) [of "Suc m"] by (simp add: image_UN del: levels_below.simps)
  qed
qed

definition navigate_args :: "string \<Rightarrow> string \<Rightarrow> nat \<Rightarrow> json" where
  "navigate_args i p d = json_obj [(''document_id'', JStr i), (''path'', JStr p), (''depth'', JNat d)]"

lemma dec_navigate_args: "d < 2 ^ 32 \<Longrightarrow> dec_navigate_args (navigate_args i p d) = Some (i, Some p, d)"
  by (simp add: dec_navigate_args_def navigate_args_def obj_of_def struct_like_def struct_field_def
      opt_field_def default_field_def dec_u32_def)

definition navigate_view :: "document_tree \<Rightarrow> doc_node \<Rightarrow> nat \<Rightarrow> json" where
  "navigate_view tree n d = json_obj
     [(''document_id'', JStr (dt_document_id tree)), (''max_depth'', JNat (dt_max_depth tree)),
      (''leaf_count'', JNat (dt_leaf_count tree)), (''node'', serialize_node n d)]"

lemma navigate_handler_eq:
  "navigate_handler (cx\<lparr>cx_tree := \<lambda>i. Inr (kb_get_document_tree k i)\<rparr>) (navigate_args i p (unat (d :: 32 word))) w =
     (let intro = ''oracle.kb.navigate'' in
      (Ok (case kb_get_document k i of
             None \<Rightarrow> tool_error (intro @ '': document '' @ quoted i @ '' not found'')
           | Some doc \<Rightarrow>
               (let tree = build_document_tree doc in
                case (if p = [] then Some (dt_root tree) else find_node p (dt_root tree)) of
                  None \<Rightarrow> tool_error (intro @ '': path '' @ quoted p
                     @ '' not found in document tree (max_depth='' @ show_nat (dt_max_depth tree)
                     @ '', leaf_count='' @ show_nat (dt_leaf_count tree) @ '')'')
                | Some n \<Rightarrow> render_json (cx_runtime cx) (navigate_view tree n (unat d)))), w))"
proof -
  have "unat d < 2 ^ 32" using unsigned_less [of d, where 'a = nat] by simp
  from dec_navigate_args [OF this] show ?thesis
    by (simp add: navigate_handler_def with_args_def kb_get_document_tree_def navigate_view_def Let_def
        split: option.split)
qed

lemma root_path: "dn_path (dt_root (build_document_tree doc)) = []"
  by (simp add: build_document_tree_def Let_def)

lemma find_by_path:
  "(if p = [] then Some (dt_root (build_document_tree doc)) else find_node p (dt_root (build_document_tree doc)))
     = find_node p (dt_root (build_document_tree doc))"
  using root_path [of doc] by (cases "dt_root (build_document_tree doc)") auto

lemma stored_document: "kb_get_document (insert_document doc k) (dc_id doc) = Some doc"
  by (simp add: kb_get_document_def insert_document_def update_conv')


end
