(* ===== verification/Erp_Tools.thy ===== *)
theory Erp_Tools
  imports Server_Context
begin

text \<open>
  The ERP tools of the server (\<open>apps/oracle-automate-server/src/tools.rs\<close>): identity, health, the
  metadata cache, searching, describing and calling operations, reading tables, parsing a return stack
  and the party tools. Every tool is a handler and its descriptor. Only \<open>oracle.rest.call\<close> can change
  the back end, and audits it when it is asked to commit.
\<close>

subsection \<open>Parties\<close>

text \<open>Without a party client the tool says that it is disabled.\<close>

definition party_search_handler :: "('f, 'e, 'o, 'p, 'l) context_handler" where
  "party_search_handler cx =
     (let tool = ''oracle.party.search''; rt = cx_runtime cx in
      with_args (tool @ '': invalid arguments: '') (ru_serde rt tool)
        (dec_text_count_args ''query'' ''limit'' 10)
        (\<lambda>(q, n) w.
          (case cx_party cx of
             None \<Rightarrow> (tool_error ''oracle.party.search: Oracle Fusion party backend disabled. Set ORACLE_FUSION_BASE_URL and restart the server.'', w)
           | Some hub \<Rightarrow>
               rendered rt (erp_failure tool)
                 (\<lambda>rows. json_obj [(''query'', JStr q), (''count'', JNat (length rows)),
                    (''results'', JArr (map (\<lambda>p. to_value (enc_party p)) rows))])
                 (on_party (py_search hub q (max 1 (min n 100))) w))))"

definition tool_bp_search ::
  "('f, 'e, 'o, 'p, 'l) context_tool" where
  "tool_bp_search cx =
     tool_descriptor_new ''oracle.party.search''
       (Some (''Search Oracle Fusion suppliers (TCA parties) by name. Returns matching ''
             @ ''supplier rows with id, name, supplier number, and status. Requires ''
             @ ''ORACLE_FUSION_BASE_URL.''))
       (schema_from_value (json_obj
          [(''type'', JStr ''object''),
           (''properties'', json_obj
            [(''query'', json_obj
              [(''type'', JStr ''string''),
               (''description'', JStr ''Substring match against the supplier name.'')]),
             (''limit'', json_obj
              [(''type'', JStr ''integer''),
               (''minimum'', JNat 1),
               (''maximum'', JNat 100),
               (''default'', JNat 10)])]),
           (''required'', enc_strs [''query'']),
           (''additionalProperties'', JBool False)]))
       (party_search_handler cx)"

definition party_get_handler :: "('f, 'e, 'o, 'p, 'l) context_handler" where
  "party_get_handler cx =
     (let tool = ''oracle.party.get''; rt = cx_runtime cx in
      with_args (tool @ '': invalid arguments: '') (ru_serde rt tool) (dec_text_arg ''id'')
        (\<lambda>i w.
          (case cx_party cx of
             None \<Rightarrow> (tool_error ''oracle.party.get: Oracle Fusion party backend disabled. Set ORACLE_FUSION_BASE_URL.'', w)
           | Some hub \<Rightarrow> rendered rt (erp_failure tool) enc_party (on_party (py_get hub i) w))))"

definition tool_bp_get ::
  "('f, 'e, 'o, 'p, 'l) context_tool" where
  "tool_bp_get cx =
     tool_descriptor_new ''oracle.party.get''
       (Some (''Fetch a single Oracle Fusion supplier (TCA party) by SupplierId. ''
             @ ''Requires ORACLE_FUSION_BASE_URL.''))
       (schema_from_value (json_obj
          [(''type'', JStr ''object''),
           (''properties'', json_obj
            [(''id'', json_obj
              [(''type'', JStr ''string''),
               (''description'', JStr ''SupplierId (e.g. 300100).'')])]),
           (''required'', enc_strs [''id'']),
           (''additionalProperties'', JBool False)]))
       (party_get_handler cx)"

subsection \<open>The metadata cache\<close>

definition cache_stats_handler :: "('f, 'e, 'o, 'p, 'l) context_handler" where
  "cache_stats_handler cx v w =
     (Ok (render_json (cx_runtime cx)
        (case cx_cache cx of
           None \<Rightarrow> json_obj [(''enabled'', JBool False),
             (''note'', JStr ''REST operation-metadata cache is disabled. Restart the server with --metadata-cache-ttl-secs > 0.'')]
         | Some h \<Rightarrow>
             (case hc_stats h (tw_erp w) of (hits, misses, evictions, entries) \<Rightarrow> json_obj
                [(''enabled'', JBool True), (''hits'', JNat hits), (''misses'', JNat misses),
                 (''entries'', JNat entries), (''evictions'', JNat evictions),
                 (''hit_ratio'', ru_ratio (cx_runtime cx) hits (hits + misses))]))), w)"

definition tool_system_cache_stats ::
  "('f, 'e, 'o, 'p, 'l) context_tool" where
  "tool_system_cache_stats cx =
     tool_descriptor_new ''oracle.system.cache_stats''
       (Some (''Read REST operation-metadata cache statistics (a reference ''
             @ ''REST-metadata-cache design pattern). Returns hits, misses, entries, ''
             @ ''evictions, and hit_ratio. Always read-only '' @ em_dash
             @ '' touches local cache state '' @ ''only, never SAP.''))
       (schema_from_value (json_obj [(''type'', JStr ''object''), (''additionalProperties'', JBool False)]))
       (cache_stats_handler cx)"

definition cache_invalidate_handler :: "('f, 'e, 'o, 'p, 'l) context_handler" where
  "cache_invalidate_handler cx v w =
     (case cx_cache cx of
        None \<Rightarrow>
          (Ok (render_json (cx_runtime cx) (json_obj [(''enabled'', JBool False),
             (''note'', JStr ''REST operation-metadata cache is disabled. Nothing to invalidate.'')])), w)
      | Some h \<Rightarrow>
          (case hc_stats h (tw_erp w) of (_, _, _, entries) \<Rightarrow>
             (Ok (render_json (cx_runtime cx)
                (json_obj [(''ok'', JBool True), (''entries_dropped'', JNat entries)])),
              w\<lparr>tw_erp := hc_invalidate h (tw_erp w)\<rparr>)))"

definition tool_system_cache_invalidate ::
  "('f, 'e, 'o, 'p, 'l) context_tool" where
  "tool_system_cache_invalidate cx =
     tool_descriptor_new ''oracle.system.cache_invalidate''
       (Some (''Drop every entry in the REST operation-metadata cache so the next ''
             @ ''oracle.rest.metadata / bulk_metadata call re-fetches from Oracle. Use ''
             @ ''after a release that changed REST operation signatures. Does not touch ''
             @ ''Oracle state.''))
       (schema_from_value (json_obj [(''type'', JStr ''object''), (''additionalProperties'', JBool False)]))
       (cache_invalidate_handler cx)"

subsection \<open>Health, return stacks, identity\<close>

definition health_handler :: "('f, 'e, 'o, 'p, 'l) context_handler" where
  "health_handler cx v w =
     (Ok (render_json (cx_runtime cx)
        (case ec_pool_status (cx_erp cx) (tw_erp w) of (cap, available) \<Rightarrow> json_obj
           [(''pool'', json_obj [(''cap'', JNat cap), (''available'', JNat available),
                               (''in_use'', JNat (cap - available))]),
            (''read_only_mode'', JBool (cx_read_only cx)),
            (''adt_destination'', oi_redacted (cx_oic cx)),
            (''graph'', json_obj
              [(''nodes'', JNat (gs_node_count (graph_stats_of (ge_graph (cx_graph cx))))),
               (''edges'', JNat (gs_edge_count (graph_stats_of (ge_graph (cx_graph cx))))),
               (''communities'', JNat (length (cs_communities (ge_communities (cx_graph cx)))))]),
            (''protocol_version'', JStr PROTOCOL_VERSION)])), w)"

definition tool_system_health ::
  "('f, 'e, 'o, 'p, 'l) context_tool" where
  "tool_system_health cx =
     tool_descriptor_new ''oracle.system.health''
       (Some (''Operator health snapshot: connection pool, read-only mode, ADT ''
             @ ''destination summary, graph stats. Always read-only.''))
       (schema_from_value (json_obj [(''type'', JStr ''object''), (''additionalProperties'', JBool False)]))
       (health_handler cx)"

definition commit_guidance :: "erp_message list \<Rightarrow> string" where
  "commit_guidance msgs =
     (if has_failure msgs then
        ''At least one message has severity E (error) or A (abort). DO NOT call the EBS commit op. ''
        @ ''Call the EBS rollback op if you'' @ [CHR 0x27] @ ''ve already started writes.''
      else if msgs = [] then
        ''No FND return stack messages found in the supplied value. Either pass the full REST operation ''
        @ ''result or rerun the REST operation to capture the RETURN table.''
      else
        ''All FND return stack messages are non-failure (S/W/I). Safe to call the EBS commit op.'')"

definition parse_result_handler :: "('f, 'e, 'o, 'p, 'l) context_handler" where
  "parse_result_handler cx =
     (let tool = ''oracle.rest.parse_result''; rt = cx_runtime cx in
      with_args (tool @ '': invalid arguments: '') (ru_serde rt tool)
        (\<lambda>v. if struct_like 1 v then struct_field v 0 ''value'' else None)
        (\<lambda>x w.
          (let msgs = parse_erp_messages x in
           (render_json rt (json_obj
              [(''messages'', JArr (map (\<lambda>m. to_value (enc_erp_message m)) msgs)),
               (''any_failure'', JBool (has_failure msgs)),
               (''guidance'', JStr (commit_guidance msgs))]), w))))"

definition tool_bapi_parse_return ::
  "('f, 'e, 'o, 'p, 'l) context_tool" where
  "tool_bapi_parse_return cx =
     tool_descriptor_new ''oracle.rest.parse_result''
       (Some (''Parse a FND return stack array (the standard SAP return contract) and ''
             @ ''surface structured messages. Returns severity, message class, number, ''
             @ ''text, and a guidance string that tells the agent whether it'' @ [CHR 0x27]
             @ ''s safe to '' @ ''commit.''))
       (schema_from_value (json_obj
          [(''type'', JStr ''object''),
           (''properties'', json_obj
            [(''value'', json_obj
              [(''description'', JStr (''The full JSON result from a oracle.rest.call invocation, or a bare FND ''
                     @ ''return stack array.''))])]),
           (''required'', enc_strs [''value'']),
           (''additionalProperties'', JBool False)]))
       (parse_result_handler cx)"

definition system_info_handler :: "('f, 'e, 'o, 'p, 'l) context_handler" where
  "system_info_handler cx v w =
     (case rendered (cx_runtime cx) (erp_failure ''oracle.system.info'') enc_system_info
             (on_erp (ec_system_info (cx_erp cx)) w) of (r, w') \<Rightarrow> (Ok r, w'))"

definition tool_system_info ::
  "('f, 'e, 'o, 'p, 'l) context_tool" where
  "tool_system_info cx =
     tool_descriptor_new ''oracle.system.info''
       (Some (''Retrieve Oracle environment identity (SID, client, release, host). ''
             @ ''Always read-only.''))
       (schema_from_value (json_obj [(''type'', JStr ''object''), (''additionalProperties'', JBool False)]))
       (system_info_handler cx)"

subsection \<open>The catalogue\<close>

definition rest_search_handler :: "('f, 'e, 'o, 'p, 'l) context_handler" where
  "rest_search_handler cx =
     (let tool = ''oracle.rest.search''; rt = cx_runtime cx in
      with_args (tool @ '': invalid arguments: '') (ru_serde rt tool)
        (dec_text_count_args ''query'' ''limit'' 20)
        (\<lambda>(q, n) w. rendered rt (erp_failure tool) enc_search_result
            (on_erp (ec_search (cx_erp cx) q n) w)))"

definition tool_rfc_search ::
  "('f, 'e, 'o, 'p, 'l) context_tool" where
  "tool_rfc_search cx =
     tool_descriptor_new ''oracle.rest.search''
       (Some (''Search the REST operation catalogue by keyword. Returns ranked function ''
             @ ''names with descriptions and read-only flag.''))
       (schema_from_value (json_obj
          [(''type'', JStr ''object''),
           (''properties'', json_obj
            [(''query'', json_obj
              [(''type'', JStr ''string''),
               (''description'', JStr ''Keyword query'')]),
             (''limit'', json_obj
              [(''type'', JStr ''integer''),
               (''minimum'', JNat 1),
               (''maximum'', JNat 100),
               (''default'', JNat 20)])]),
           (''required'', enc_strs [''query'']),
           (''additionalProperties'', JBool False)]))
       (rest_search_handler cx)"

definition rest_metadata_handler :: "('f, 'e, 'o, 'p, 'l) context_handler" where
  "rest_metadata_handler cx =
     (let tool = ''oracle.rest.metadata''; rt = cx_runtime cx in
      with_args (tool @ '': invalid arguments: '') (ru_serde rt tool)
        dec_erp_meta_args
        (\<lambda>(f, l) w. rendered rt (erp_failure tool) enc_operation_meta
            (on_erp (ec_metadata (cx_erp cx) f l) w)))"

definition tool_rfc_metadata ::
  "('f, 'e, 'o, 'p, 'l) context_tool" where
  "tool_rfc_metadata cx =
     tool_descriptor_new ''oracle.rest.metadata''
       (Some (''Get full parameter signature, function group, and read-only flag for an ''
             @ ''REST operation function.''))
       (schema_from_value (json_obj
          [(''type'', JStr ''object''),
           (''properties'', json_obj
            [(''function'', json_obj
              [(''type'', JStr ''string''),
               (''description'', JStr ''REST operation function name (e.g. BAPI_MATERIAL_GET_DETAIL)'')]),
             (''language'', json_obj
              [(''type'', JStr ''string''),
               (''default'', JStr ''EN''),
               (''minLength'', JNat 1),
               (''maxLength'', JNat 2)])]),
           (''required'', enc_strs [''function'']),
           (''additionalProperties'', JBool False)]))
       (rest_metadata_handler cx)"

definition rest_bulk_handler :: "('f, 'e, 'o, 'p, 'l) context_handler" where
  "rest_bulk_handler cx =
     (let tool = ''oracle.rest.bulk_metadata''; rt = cx_runtime cx in
      with_args (tool @ '': invalid arguments: '') (ru_serde rt tool)
        dec_erp_bulk_args
        (\<lambda>(fs, l) w.
          if fs = [] \<or> 100 < length fs then
            (tool_error (tool @ '': provide 1..=100 function names''), w)
          else rendered rt (erp_failure tool) enc_bulk_metadata
                 (on_erp (ec_bulk (cx_erp cx) fs l) w)))"

definition tool_rfc_bulk_metadata ::
  "('f, 'e, 'o, 'p, 'l) context_tool" where
  "tool_rfc_bulk_metadata cx =
     tool_descriptor_new ''oracle.rest.bulk_metadata''
       (Some (''Batch-fetch metadata for up to 100 RFCs in one call. Mirrors ''
             @ ''`bulk_load_metadata` from the Python reference project, avoiding N ''
             @ ''round-trips.''))
       (schema_from_value (json_obj
          [(''type'', JStr ''object''),
           (''properties'', json_obj
            [(''functions'', json_obj
              [(''type'', JStr ''array''),
               (''items'', json_obj [(''type'', JStr ''string'')]),
               (''minItems'', JNat 1),
               (''maxItems'', JNat 100)]),
             (''language'', json_obj [(''type'', JStr ''string''), (''default'', JStr ''EN'')])]),
           (''required'', enc_strs [''functions'']),
           (''additionalProperties'', JBool False)]))
       (rest_bulk_handler cx)"

subsection \<open>Calling an operation\<close>

definition wants_commit :: "json \<Rightarrow> bool" where
  "wants_commit v = unwrap_or (get_bool v ''commit'') False"

text \<open>How a transactional write is audited and answered.\<close>

definition write_audit_outcome :: "write_outcome erp_result \<Rightarrow> audit_outcome" where
  "write_audit_outcome r =
     (case r of
        Inr out \<Rightarrow>
          if wo_committed out then Audit_Ok (wo_function out @ '' committed'')
          else Audit_Failed 0 (wo_function out @ '' not committed (rolled_back=''
                 @ (if wo_rolled_back out then ''true'' else ''false'') @ '')'')
      | Inl (ErpPermissionDenied s) \<Rightarrow> Audit_Denied s
      | Inl e \<Rightarrow> Audit_Failed (word_of_int (erp_code_as_i32 (error_code_of e))) (erp_error_text e))"

definition enc_write_outcome :: "write_outcome \<Rightarrow> json" where
  "enc_write_outcome out = json_obj
     [(''function'', JStr (wo_function out)), (''committed'', JBool (wo_committed out)),
      (''rolled_back'', JBool (wo_rolled_back out)),
      (''messages'', JArr (map (\<lambda>m. to_value (enc_erp_message m)) (wo_messages out))),
      (''result'', wo_result out)]"

definition write_call ::
  "('f, 'e, 'o, 'p, 'l) server_context \<Rightarrow> json \<Rightarrow> erp_call_request \<Rightarrow> ('e, 'o, 'p, 'l) tool_world
     \<Rightarrow> call_tool_result \<times> ('e, 'o, 'p, 'l) tool_world" where
  "write_call cx audit_args request w =
     (let tool = ''oracle.rest.call''; rt = cx_runtime cx in
      case read_instant rt w of (started, w1) \<Rightarrow>
        (case on_erp (execute_write_bapi (ec_call (cx_erp cx)) request (cx_read_only cx)) w1 of
           (r, w2) \<Rightarrow>
             rendered rt (erp_coded_failure tool) enc_write_outcome
               (r, record_write_audit cx tool audit_args (write_audit_outcome r) started w2)))"

definition rest_call_handler :: "('f, 'e, 'o, 'p, 'l) context_handler" where
  "rest_call_handler cx v =
     (let tool = ''oracle.rest.call''; rt = cx_runtime cx in
      with_args (tool @ '': invalid arguments: '') (ru_serde rt tool) dec_erp_call_request
        (\<lambda>request w.
          if wants_commit v then write_call cx v request w
          else rendered rt (erp_coded_failure tool) (\<lambda>x. x)
                 (on_erp (ec_call (cx_erp cx) request (cx_read_only cx)) w)) v)"

definition tool_rfc_call ::
  "('f, 'e, 'o, 'p, 'l) context_tool" where
  "tool_rfc_call cx =
     tool_descriptor_new ''oracle.rest.call''
       (Some (''Execute an REST operation function by name with a parameters object. ''
             @ ''Read-only mode (default) blocks any REST operation not declared safe. ''
             @ ''Set commit=true to run it as a transactional write: the REST operation ''
             @ ''is followed by the EBS commit op on success or the EBS rollback op on a ''
             @ ''FND return stack error (requires --enable-writes). Errors carry ''
             @ ''structured codes (RFC_TIMEOUT, RFC_AUTH_FAILED, etc.).''))
       (schema_from_value (json_obj
          [(''type'', JStr ''object''),
           (''properties'', json_obj
            [(''function'', json_obj
              [(''type'', JStr ''string''),
               (''description'', JStr ''REST operation function name'')]),
             (''parameters'', json_obj
              [(''type'', JStr ''object''),
               (''description'', JStr ''Function parameter object'')]),
             (''timeout_ms'', json_obj
              [(''type'', JStr ''integer''),
               (''minimum'', JNat 100),
               (''maximum'', JNat 600000),
               (''default'', JNat 30000)]),
             (''require_read_only_safe'', json_obj [(''type'', JStr ''boolean''), (''default'', JBool True)]),
             (''commit'', json_obj
              [(''type'', JStr ''boolean''),
               (''default'', JBool False),
               (''description'', JStr (''Run as a transactional write with automatic commit/rollback (requires ''
                     @ ''--enable-writes).''))])]),
           (''required'', enc_strs [''function'']),
           (''additionalProperties'', JBool False)]))
       (rest_call_handler cx)"

subsection \<open>Tables\<close>

definition object_read_handler :: "('f, 'e, 'o, 'p, 'l) context_handler" where
  "object_read_handler cx =
     (let tool = ''oracle.object.read''; rt = cx_runtime cx in
      with_args (tool @ '': invalid arguments: '') (ru_serde rt tool)
        dec_read_table_request
        (\<lambda>request w. rendered rt (erp_coded_failure tool)
            (\<lambda>rows. json_obj [(''rows'', JArr (map enc_table_row rows)), (''count'', JNat (length rows))])
            (on_erp (ec_read_table (cx_erp cx) request) w)))"

definition tool_table_read ::
  "('f, 'e, 'o, 'p, 'l) context_tool" where
  "tool_table_read cx =
     tool_descriptor_new ''oracle.object.read''
       (Some (''Read rows from a SAP table with optional field projection and SQL-like ''
             @ ''WHERE clauses. Hard-capped at 1000 rows to avoid buffer overflow.''))
       (schema_from_value (json_obj
          [(''type'', JStr ''object''),
           (''properties'', json_obj
            [(''table'', json_obj
              [(''type'', JStr ''string''),
               (''description'', JStr ''Table name (e.g. MARA, T001, VBAK)'')]),
             (''fields'', json_obj
              [(''type'', JStr ''array''),
               (''items'', json_obj [(''type'', JStr ''string'')]),
               (''description'', JStr ''Field projection; empty = all fields'')]),
             (''where_conditions'', json_obj
              [(''type'', JStr ''array''),
               (''items'', json_obj [(''type'', JStr ''string'')]),
               (''description'', JStr (''WHERE clauses, e.g. '' @ [quote_char] @ ''WAERS = '' @ [CHR 0x27] @ ''EUR''
                     @ [CHR 0x27] @ [quote_char]))]),
             (''max_rows'', json_obj
              [(''type'', JStr ''integer''),
               (''minimum'', JNat 1),
               (''maximum'', JNat MAX_ROWS_HARD_CAP),
               (''default'', JNat 100)])]),
           (''required'', enc_strs [''table'']),
           (''additionalProperties'', JBool False)]))
       (object_read_handler cx)"

definition object_structure_handler :: "('f, 'e, 'o, 'p, 'l) context_handler" where
  "object_structure_handler cx =
     (let tool = ''oracle.object.structure''; rt = cx_runtime cx in
      with_args (tool @ '': invalid arguments: '') (ru_serde rt tool)
        (dec_text_arg ''table'')
        (\<lambda>t w. rendered rt (erp_failure tool) enc_table_structure
            (on_erp (ec_structure (cx_erp cx) t) w)))"

definition tool_table_structure ::
  "('f, 'e, 'o, 'p, 'l) context_tool" where
  "tool_table_structure cx =
     tool_descriptor_new ''oracle.object.structure''
       (Some (''Get DDIC field metadata for an SAP table or structure (name, type, ''
             @ ''length, key flag).''))
       (schema_from_value (json_obj
          [(''type'', JStr ''object''),
           (''properties'', json_obj [(''table'', json_obj [(''type'', JStr ''string'')])]),
           (''required'', enc_strs [''table'']),
           (''additionalProperties'', JBool False)]))
       (object_structure_handler cx)"

subsection \<open>Writes are audited\<close>

lemma on_erp_keeps [simp]:
  "tw_oic (snd (on_erp f w)) = tw_oic w" "tw_party (snd (on_erp f w)) = tw_party w"
  "tw_audit (snd (on_erp f w)) = tw_audit w" "tw_erp (snd (on_erp f w)) = snd (f (tw_erp w))"
  "fst (on_erp f w) = fst (f (tw_erp w))"
  by (simp_all add: on_erp_def split: prod.split)

lemma rendered_state [simp]: "snd (rendered rt failure enc rs) = snd rs"
  by (simp add: rendered_def split: prod.split sum.split)

lemma write_audit_ok: "audit_is_ok (write_audit_outcome r) \<longleftrightarrow> (\<exists>out. r = Inr out \<and> wo_committed out)"
  by (auto simp: write_audit_outcome_def split: sum.splits erp_error.splits if_splits)

lemma luw_end_committed: "luw_end_of calls r = Committed \<longleftrightarrow> (\<exists>out. r = Inr out \<and> wo_committed out)"
  by (cases r) auto

lemma luw_deterministic: "luw_protocol req calls e \<Longrightarrow> luw_protocol req calls e' \<Longrightarrow> e = e'"
  by (induction rule: luw_protocol.induct; erule luw_protocol.cases)
    (auto simp: commit_req_def rollback_req_def COMMIT_FN_def ROLLBACK_FN_def)

lemma write_call_state:
  "tw_erp (snd (write_call cx v request w))
     = snd (execute_write_bapi (ec_call (cx_erp cx)) request (cx_read_only cx) (tw_erp w))"
  "tw_oic (snd (write_call cx v request w)) = tw_oic w"
  "tw_party (snd (write_call cx v request w)) = tw_party w"
  "audit_added ''oracle.rest.call'' v (\<lambda>out. out = write_audit_outcome
      (fst (execute_write_bapi (ec_call (cx_erp cx)) request (cx_read_only cx) (tw_erp w)))) w
      (snd (write_call cx v request w))"
  by (simp_all add: write_call_def read_instant_def Let_def case_prod_beta)

text \<open>The context whose ERP client logs every call it makes.\<close>

definition logging_context ::
  "'s erp_call \<Rightarrow> ('f, 's \<times> call_log, 'o, 'p, 'l) server_context
     \<Rightarrow> ('f, 's \<times> call_log, 'o, 'p, 'l) server_context" where
  "logging_context call cx = cx\<lparr>cx_erp := (cx_erp cx)\<lparr>ec_call := logged call\<rparr>\<rparr>"

lemma logging_context_simps [simp]:
  "ec_call (cx_erp (logging_context call cx)) = logged call"
  "cx_read_only (logging_context call cx) = cx_read_only cx"
  "cx_runtime (logging_context call cx) = cx_runtime cx"
  by (simp_all add: logging_context_def)

lemma write_call_audits:
  assumes "tw_erp w = (s, [])" and w': "w' = snd (write_call (logging_context call cx) v request w)"
  shows "audit_added ''oracle.rest.call'' v
           (\<lambda>out. audit_is_ok out \<longleftrightarrow> luw_protocol request (snd (tw_erp w')) Committed) w w'
         \<and> (snd (tw_erp w') = [] \<longleftrightarrow> cx_read_only cx \<or> cr_function request \<in> {COMMIT_FN, ROLLBACK_FN})"
proof -
  obtain res s' calls where run: "execute_write_bapi (logged call) request (cx_read_only cx) (s, []) = (res, s', calls)"
    by (metis prod.exhaust)
  note state = write_call_state [where cx = "logging_context call cx" and v = v and request = request and w = w]
  have erp: "tw_erp w' = (s', calls)" using state(1) run assms by simp
  have luw: "luw_protocol request calls (luw_end_of calls res)"
    using run by (rule write_refines_protocol)
  have "audit_is_ok (write_audit_outcome res) \<longleftrightarrow> luw_protocol request calls Committed"
    using luw luw_deterministic [OF luw, of Committed] by (auto simp: write_audit_ok luw_end_committed)
  with state(4) run assms erp have "audit_added ''oracle.rest.call'' v
      (\<lambda>out. audit_is_ok out \<longleftrightarrow> luw_protocol request (snd (tw_erp w')) Committed) w w'"
    by (simp add: audit_added_def Let_def)
  with refused_iff_no_call [OF run] erp show ?thesis by simp
qed

lemma call_without_commit:
  "snd (on_erp (logged call req ro) (w\<lparr>tw_erp := (s, [])\<rparr>))
     = w\<lparr>tw_erp := (snd (call req ro s), [(req, fst (call req ro s))])\<rparr>"
  by (simp add: on_erp_def logged_def case_prod_beta)


end
