(* ===== verification/Oic_Tools.thy ===== *)
theory Oic_Tools
  imports Server_Context
begin

text \<open>
  The artifact tools of the server (\<open>adt_tools\<close> in \<open>apps/oracle-automate-server/src/tools.rs\<close>): ten
  that read and the activation, which is a write and checks the read-only flag again.
\<close>

definition name_schema :: tool_input_schema where
  "name_schema = schema_from_value (json_obj
     [(''type'', JStr ''object''),
      (''properties'', json_obj [(''name'', json_obj
         [(''type'', JStr ''string''), (''description'', JStr ''OIC/custom-code object name'')])]),
      (''required'', enc_strs [''name'']), (''additionalProperties'', JBool False)])"

text \<open>A tool that fetches one thing by name.\<close>

definition fetch_handler ::
  "string \<Rightarrow> (json \<Rightarrow> 'n option) \<Rightarrow> ('a \<Rightarrow> json) \<Rightarrow> ('o oic_client \<Rightarrow> 'n \<Rightarrow> 'o \<Rightarrow> 'a oic_result \<times> 'o)
     \<Rightarrow> ('f, 'e, 'o, 'p, 'l) context_handler" where
  "fetch_handler tool dec enc fetch cx =
     with_args (tool @ '': '') (ru_serde (cx_runtime cx) tool) dec
       (\<lambda>n w. rendered (cx_runtime cx) (oic_failure tool) enc (on_oic (fetch (cx_oic cx) n) w))"

definition integration_handler :: "('f, 'e, 'o, 'p, 'l) context_handler" where
  "integration_handler =
     fetch_handler ''oracle.oic.get_integration'' (dec_text_arg ''name'') enc_program_source oi_get_integration"

definition adt_get_program ::
  "('f, 'e, 'o, 'p, 'l) context_tool" where
  "adt_get_program cx =
     tool_descriptor_new ''oracle.oic.get_integration''
       (Some (''Retrieve OIC/custom-code program source by name via ADT REST. Returns ''
             @ ''source, line count, active flag.''))
       name_schema
       (integration_handler cx)"

definition groovy_handler :: "('f, 'e, 'o, 'p, 'l) context_handler" where
  "groovy_handler =
     fetch_handler ''oracle.oic.get_groovy_script'' (dec_text_arg ''name'') enc_program_source oi_get_groovy_script"

definition adt_get_class ::
  "('f, 'e, 'o, 'p, 'l) context_tool" where
  "adt_get_class cx =
     tool_descriptor_new ''oracle.oic.get_groovy_script''
       (Some ''Retrieve OIC/custom-code class source via ADT.'')
       name_schema
       (groovy_handler cx)"

definition connection_handler :: "('f, 'e, 'o, 'p, 'l) context_handler" where
  "connection_handler =
     fetch_handler ''oracle.oic.get_connection'' (dec_text_arg ''name'') enc_program_source oi_get_connection"

definition adt_get_interface ::
  "('f, 'e, 'o, 'p, 'l) context_tool" where
  "adt_get_interface cx =
     tool_descriptor_new ''oracle.oic.get_connection''
       (Some ''Retrieve OIC/custom-code interface source via ADT.'')
       name_schema
       (connection_handler cx)"

definition lookup_handler :: "('f, 'e, 'o, 'p, 'l) context_handler" where
  "lookup_handler =
     fetch_handler ''oracle.oic.get_lookup'' (dec_text_arg ''name'') enc_program_source oi_get_lookup"

definition adt_get_include ::
  "('f, 'e, 'o, 'p, 'l) context_tool" where
  "adt_get_include cx =
     tool_descriptor_new ''oracle.oic.get_lookup''
       (Some ''Retrieve OIC/custom-code include source via ADT.'')
       name_schema
       (lookup_handler cx)"

definition ess_job_handler :: "('f, 'e, 'o, 'p, 'l) context_handler" where
  "ess_job_handler =
     fetch_handler ''oracle.oic.get_ess_job'' dec_ess_job_args enc_program_source (\<lambda>cl (g, n). oi_get_ess_job cl g n)"

definition adt_get_function_module ::
  "('f, 'e, 'o, 'p, 'l) context_tool" where
  "adt_get_function_module cx =
     tool_descriptor_new ''oracle.oic.get_ess_job''
       (Some (''Retrieve OIC/custom-code function module source. Requires both function ''
             @ ''group and module name (the ADT URL nests them).''))
       (schema_from_value (json_obj
          [(''type'', JStr ''object''),
           (''properties'', json_obj
            [(''group'', json_obj
              [(''type'', JStr ''string''),
               (''description'', JStr ''Function group, e.g. ZFIN_UTIL'')]),
             (''name'', json_obj
              [(''type'', JStr ''string''),
               (''description'', JStr ''Function module name, e.g. Z_FIN_VALIDATE_BUKRS'')])]),
           (''required'', enc_strs [''group'', ''name'']),
           (''additionalProperties'', JBool False)]))
       (ess_job_handler cx)"

definition project_handler :: "('f, 'e, 'o, 'p, 'l) context_handler" where
  "project_handler =
     fetch_handler ''oracle.oic.get_project_contents'' (dec_text_arg ''package'') enc_project_contents oi_get_project_contents"

definition adt_get_package_contents ::
  "('f, 'e, 'o, 'p, 'l) context_tool" where
  "adt_get_package_contents cx =
     tool_descriptor_new ''oracle.oic.get_project_contents''
       (Some (''List the objects under an OIC/custom-code package (programs, classes, ''
             @ ''interfaces, CDS views, ...).''))
       (schema_from_value (json_obj
          [(''type'', JStr ''object''),
           (''properties'', json_obj [(''package'', json_obj [(''type'', JStr ''string'')])]),
           (''required'', enc_strs [''package'']),
           (''additionalProperties'', JBool False)]))
       (project_handler cx)"

definition report_handler :: "('f, 'e, 'o, 'p, 'l) context_handler" where
  "report_handler =
     fetch_handler ''oracle.oic.get_bip_report'' (dec_text_arg ''name'') enc_bip_report oi_get_bip_report"

definition adt_get_cds_view ::
  "('f, 'e, 'o, 'p, 'l) context_tool" where
  "adt_get_cds_view cx =
     tool_descriptor_new ''oracle.oic.get_bip_report''
       (Some ''Retrieve a Core Data Services (CDS) view source via ADT.'')
       name_schema
       (report_handler cx)"

definition oic_search_handler :: "('f, 'e, 'o, 'p, 'l) context_handler" where
  "oic_search_handler cx =
     (let tool = ''oracle.oic.search''; rt = cx_runtime cx in
      with_args (tool @ '': '') (ru_serde rt tool)
        dec_oic_search_args
        (\<lambda>req w. rendered rt (oic_failure tool)
            (\<lambda>hits. json_obj [(''hits'', JArr (map (\<lambda>h. to_value (enc_oic_hit h)) hits))])
            (on_oic (oi_search (cx_oic cx) req) w)))"

definition adt_search ::
  "('f, 'e, 'o, 'p, 'l) context_tool" where
  "adt_search cx =
     tool_descriptor_new ''oracle.oic.search''
       (Some (''Live OIC/custom-code object search via ADT (different from ''
             @ ''integration.search which queries the RAG-indexed corpus). Constrained ''
             @ ''kind enum.''))
       (schema_from_value (json_obj
          [(''type'', JStr ''object''),
           (''properties'', json_obj
            [(''query'', json_obj [(''type'', JStr ''string'')]),
             (''kind'', json_obj
              [(''type'', JStr ''string''),
               (''enum'', enc_strs [''program'', ''class'', ''interface'', ''include'', ''function_group'', ''function_module'', ''table'', ''structure'', ''data_element'', ''domain'', ''package'', ''cds_view'', ''behavior_definition'', ''service_definition'', ''metadata_extension'', ''enhancement_spot'', ''transaction''])]),
             (''max_results'', json_obj
              [(''type'', JStr ''integer''),
               (''minimum'', JNat 1),
               (''maximum'', JNat 100),
               (''default'', JNat 25)])]),
           (''required'', enc_strs [''query'']),
           (''additionalProperties'', JBool False)]))
       (oic_search_handler cx)"

definition where_used_handler :: "('f, 'e, 'o, 'p, 'l) context_handler" where
  "where_used_handler cx =
     (let tool = ''oracle.oic.where_used''; rt = cx_runtime cx in
      with_args (tool @ '': '') (ru_serde rt tool)
        dec_name_kind_args
        (\<lambda>(n, k) w. rendered rt (oic_failure tool)
            (\<lambda>hits. json_obj [(''hits'', JArr (map (\<lambda>h. to_value (enc_where_used_hit h)) hits))])
            (on_oic (oi_where_used (cx_oic cx) \<lparr>wr_name = n, wr_kind = k\<rparr>) w)))"

definition adt_where_used ::
  "('f, 'e, 'o, 'p, 'l) context_tool" where
  "adt_where_used cx =
     tool_descriptor_new ''oracle.oic.where_used''
       (Some (''Impact analysis: list places that use a given OIC/custom-code object. ''
             @ ''Returns object name, kind, location, and usage type (implements / call ''
             @ ''/ include / etc.).''))
       (schema_from_value (json_obj
          [(''type'', JStr ''object''),
           (''properties'', json_obj
            [(''name'', json_obj [(''type'', JStr ''string'')]),
             (''kind'', json_obj
              [(''type'', JStr ''string''),
               (''enum'', enc_strs [''program'', ''class'', ''interface'', ''include'', ''function_group'', ''function_module'', ''table'', ''structure'', ''data_element'', ''domain'', ''package'', ''cds_view''])])]),
           (''required'', enc_strs [''name'', ''kind'']),
           (''additionalProperties'', JBool False)]))
       (where_used_handler cx)"

definition preview_handler :: "('f, 'e, 'o, 'p, 'l) context_handler" where
  "preview_handler cx =
     (let tool = ''oracle.oic.preview_data''; rt = cx_runtime cx in
      with_args (tool @ '': '') (ru_serde rt tool)
        (dec_text_count_args ''table'' ''max_rows'' 100)
        (\<lambda>(t, n) w. rendered rt (oic_failure tool)
            (\<lambda>rows. json_obj [(''rows'', JArr (map enc_table_row rows)), (''count'', JNat (length rows))])
            (on_oic (oi_preview_data (cx_oic cx) t n) w)))"

definition adt_get_table_contents ::
  "('f, 'e, 'o, 'p, 'l) context_tool" where
  "adt_get_table_contents cx =
     tool_descriptor_new ''oracle.oic.preview_data''
       (Some (''Table data via the ADT Data Preview API. Some tables are blocked on SAP ''
             @ ''BTP backends '' @ em_dash
             @ '' error code DataPreviewBlocked tells the agent to fall ''
             @ ''back to oracle.object.read (REST operation).''))
       (schema_from_value (json_obj
          [(''type'', JStr ''object''),
           (''properties'', json_obj
            [(''table'', json_obj [(''type'', JStr ''string'')]),
             (''max_rows'', json_obj
              [(''type'', JStr ''integer''),
               (''minimum'', JNat 1),
               (''maximum'', JNat 1000),
               (''default'', JNat 100)])]),
           (''required'', enc_strs [''table'']),
           (''additionalProperties'', JBool False)]))
       (preview_handler cx)"

definition activate_handler :: "('f, 'e, 'o, 'p, 'l) context_handler" where
  "activate_handler cx =
     (let tool = ''oracle.oic.activate''; rt = cx_runtime cx in
      with_args (tool @ '': '') (ru_serde rt tool)
        dec_name_kind_args
        (\<lambda>(n, k) w. rendered rt (oic_failure tool) enc_activation_outcome
            (on_oic (oi_activate (cx_oic cx) \<lparr>aq_name = n, aq_kind = k\<rparr> (cx_read_only cx)) w)))"

definition adt_activate ::
  "('f, 'e, 'o, 'p, 'l) context_tool" where
  "adt_activate cx =
     with_writes (
       tool_descriptor_new ''oracle.oic.activate''
       (Some (''Activate an Oracle artifact (state-mutating). Hidden in read-only mode ''
             @ ''by the server exposure policy. When exposed, it still re-checks the ''
             @ ''per-request read-only flag.''))
       (schema_from_value (json_obj
          [(''type'', JStr ''object''),
           (''properties'', json_obj
            [(''name'', json_obj [(''type'', JStr ''string'')]),
             (''kind'', json_obj
              [(''type'', JStr ''string''),
               (''enum'', enc_strs [''program'', ''class'', ''interface'', ''function_group'', ''function_module'', ''cds_view''])])]),
           (''required'', enc_strs [''name'', ''kind'']),
           (''additionalProperties'', JBool False)]))
       (activate_handler cx))"

definition adt_tools ::
  "('f, 'e, 'o, 'p, 'l) server_context \<Rightarrow> ('e, 'o, 'p, 'l) tool_world tool_descriptor list" where
  "adt_tools cx =
     [adt_get_program cx, adt_get_class cx, adt_get_interface cx, adt_get_include cx,
      adt_get_function_module cx, adt_get_package_contents cx, adt_get_cds_view cx, adt_search cx,
      adt_where_used cx, adt_get_table_contents cx, adt_activate cx]"

subsection \<open>The kinds that are advertised\<close>

text \<open>The values a tool's schema lists for an argument.\<close>

definition advertised_enum :: "'s tool_descriptor \<Rightarrow> string \<Rightarrow> string list" where
  "advertised_enum d arg =
     (case Option.bind (sch_properties (tl_input_schema (td_tool d))) (jpath [arg, ''enum'']) of
        Some (JArr xs) \<Rightarrow> List.map_filter as_str xs
      | _ \<Rightarrow> [])"

definition sap_kinds :: "string list" where
  "sap_kinds =
     [''program'', ''class'', ''interface'', ''include'', ''function_group'', ''function_module'',
      ''table'', ''structure'', ''data_element'', ''domain'', ''package'', ''cds_view'',
      ''behavior_definition'', ''service_definition'', ''metadata_extension'', ''enhancement_spot'',
      ''transaction'']"

lemma advertised_kinds:
  "advertised_enum (adt_search cx) ''kind'' = sap_kinds"
  "advertised_enum (adt_where_used cx) ''kind'' = take 12 sap_kinds"
  "advertised_enum (adt_activate cx) ''kind''
     = [''program'', ''class'', ''interface'', ''function_group'', ''function_module'', ''cds_view'']"
  by code_simp+

lemma sap_kinds_unreadable: "list_all (\<lambda>s. dec_kind (JStr s) = None) sap_kinds"
  by code_simp

definition search_args :: "string \<Rightarrow> string \<Rightarrow> json" where
  "search_args q k = json_obj [(''query'', JStr q), (''kind'', JStr k)]"

definition name_kind_args :: "string \<Rightarrow> string \<Rightarrow> json" where
  "name_kind_args n k = json_obj [(''name'', JStr n), (''kind'', JStr k)]"

lemma kind_args_unread:
  "dec_kind (JStr k) = None \<Longrightarrow> dec_oic_search_args (search_args q k) = None"
  "dec_kind (JStr k) = None \<Longrightarrow> dec_name_kind_args (name_kind_args n k) = None"
  by (simp_all add: dec_oic_search_args_def dec_name_kind_args_def search_args_def name_kind_args_def
      obj_of_def struct_like_def struct_field_def opt_field_def)

lemma kind_roundtrip: "dec_kind (enc_kind k) = Some k"
  by (cases k) (simp_all add: dec_kind_def enc_kind_def enum_tag_def all_artifact_kinds_def)

lemma kind_args_read:
  "dec_name_kind_args (name_kind_args n (artifact_tag k)) = Some (n, k)"
  using kind_roundtrip [of k]
  by (simp add: dec_name_kind_args_def name_kind_args_def obj_of_def struct_like_def struct_field_def
      enc_kind_def)

text \<open>C35. The schemas of the artifact tools do not describe what the tools read: every one of the 17,
  12 and 6 kinds that \<open>oracle.oic.search\<close>, \<open>where_used\<close> and \<open>activate\<close> advertise is refused as an argument,
  whatever the rest of it, with nothing asked of the artifact surface; the kinds that are read are the
  ones the answers are written with, and none of them is advertised.\<close>

theorem advertised_kinds_are_refused:
  "length (advertised_enum (adt_search cx) ''kind'') = 17
   \<and> length (advertised_enum (adt_where_used cx) ''kind'') = 12
   \<and> length (advertised_enum (adt_activate cx) ''kind'') = 6
   \<and> list_all (\<lambda>k. unread (td_handler (adt_search cx) (search_args q k) w) w)
       (advertised_enum (adt_search cx) ''kind'')
   \<and> list_all (\<lambda>k. unread (td_handler (adt_where_used cx) (name_kind_args n k) w) w)
       (advertised_enum (adt_where_used cx) ''kind'')
   \<and> list_all (\<lambda>k. unread (td_handler (adt_activate cx) (name_kind_args n k) w) w)
       (advertised_enum (adt_activate cx) ''kind'')
   \<and> list_all (\<lambda>k. dec_name_kind_args (name_kind_args n (artifact_tag k)) = Some (n, k)
         \<and> artifact_tag k \<notin> set (advertised_enum (adt_search cx) ''kind'')) all_artifact_kinds"
proof -
  have handlers: "td_handler (adt_search cx) = oic_search_handler cx"
    "td_handler (adt_where_used cx) = where_used_handler cx"
    "td_handler (adt_activate cx) = activate_handler cx"
    by (simp_all add: adt_search_def adt_where_used_def adt_activate_def tool_descriptor_new_def
        with_writes_def)
  have search: "list_all (\<lambda>k. unread (oic_search_handler cx (search_args q k) w) w) sap_kinds"
    using sap_kinds_unreadable
    by (auto simp: list_all_iff oic_search_handler_def Let_def intro!: unread_with_args kind_args_unread)
  have used: "list_all (\<lambda>k. unread (where_used_handler cx (name_kind_args n k) w) w) sap_kinds"
    using sap_kinds_unreadable
    by (auto simp: list_all_iff where_used_handler_def Let_def intro!: unread_with_args kind_args_unread)
  have act: "list_all (\<lambda>k. unread (activate_handler cx (name_kind_args n k) w) w) sap_kinds"
    using sap_kinds_unreadable
    by (auto simp: list_all_iff activate_handler_def Let_def intro!: unread_with_args kind_args_unread)
  have "list_all (\<lambda>k. dec_name_kind_args (name_kind_args n (artifact_tag k)) = Some (n, k)
      \<and> artifact_tag k \<notin> set sap_kinds) all_artifact_kinds"
    using sap_kinds_unreadable kind_roundtrip
    by (fastforce simp: list_all_iff kind_args_read enc_kind_def)
  with search list_all_take [OF used, of 12] act show ?thesis
    by (simp add: handlers advertised_kinds) (simp add: sap_kinds_def)
qed

end
