(* ===== verification/Workflow_Tools.thy ===== *)
theory Workflow_Tools
  imports Server_Context
begin

text \<open>
  The guided workflows of the server (\<open>workflow_tools\<close> in \<open>apps/oracle-automate-server/src/tools.rs\<close>).
  Each reads its hints, asks the user for the values that matter over the elicitation channel, and
  records an audit entry for whatever the user answered. All are writes for the exposure policy; none
  calls the back end.
\<close>

text \<open>A workflow ends by auditing its outcome.\<close>

definition audited ::
  "('f, 'e, 'o, 'p, 'l) server_context \<Rightarrow> string \<Rightarrow> json \<Rightarrow> nat \<Rightarrow> audit_outcome \<Rightarrow> call_tool_result
     \<Rightarrow> ('e, 'o, 'p, 'l) tool_world \<Rightarrow> call_tool_result \<times> ('e, 'o, 'p, 'l) tool_world" where
  "audited cx tool arguments started outcome answer w =
     (answer, record_write_audit cx tool arguments outcome started w)"

text \<open>A workflow notes when it started before it reads its arguments.\<close>

definition workflow_handler ::
  "string \<Rightarrow> (json \<Rightarrow> 'a option)
     \<Rightarrow> (json \<Rightarrow> nat \<Rightarrow> 'a \<Rightarrow> ('e, 'o, 'p, 'l) tool_world
           \<Rightarrow> call_tool_result \<times> ('e, 'o, 'p, 'l) tool_world)
     \<Rightarrow> ('f, 'e, 'o, 'p, 'l) context_handler" where
  "workflow_handler tool dec act cx v w =
     (case read_instant (cx_runtime cx) w of (started, w1) \<Rightarrow>
        with_args (tool @ '': '') (ru_serde (cx_runtime cx) tool) dec (act v started) v w1)"

subsection \<open>Purchase orders\<close>

definition po_schema :: "string option \<Rightarrow> string option \<Rightarrow> json option \<Rightarrow> json" where
  "po_schema vendor material quantity = object_schema
     (obj_of
         [(''vendor'', json_obj
           [(''type'', JStr ''string''),
            (''description'', JStr (''Vendor (LIFNR), e.g. '' @ [CHR 0x27] @ ''V-100100'' @ [CHR 0x27])),
            (''default'', JStr (unwrap_or vendor []))]),
          (''material'', json_obj
           [(''type'', JStr ''string''),
            (''description'', JStr ''Material (MATNR)''),
            (''default'', JStr (unwrap_or material []))]),
          (''quantity'', json_obj
           [(''type'', JStr ''number''),
            (''description'', JStr ''Order quantity''),
            (''default'', unwrap_or quantity (JNum (JFloat ''0.0'')))]),
          (''cost_centre'', json_obj
           [(''type'', JStr ''string''),
            (''description'', JStr (''Cost centre (KOSTL), e.g. '' @ [CHR 0x27] @ ''1000'' @ [CHR 0x27]))]),
          (''company_code'', json_obj
           [(''type'', JStr ''string''),
            (''description'', JStr ''Company code (BUKRS)''),
            (''enum'', enc_strs [''1000'', ''2000'', ''3000'']),
            (''default'', JStr ''1000'')]),
          (''currency'', json_obj
           [(''type'', JStr ''string''),
            (''description'', JStr ''Document currency''),
            (''enum'', enc_strs [''USD'', ''EUR'', ''GBP'', ''JPY'', ''SGD'']),
            (''default'', JStr ''USD'')]),
          (''delivery_date'', json_obj
           [(''type'', JStr ''string''),
            (''description'', JStr ''Requested delivery date (YYYY-MM-DD)'')])])
     [''vendor'', ''material'', ''quantity'', ''cost_centre'', ''company_code'', ''delivery_date'']"

definition po_ask ::
  "('f, 'e, 'o, 'p, 'l) server_context \<Rightarrow> string option \<times> string option \<times> json option
     \<Rightarrow> ('e, 'o, 'p, 'l) tool_world \<Rightarrow> elicitation_result \<times> ('e, 'o, 'p, 'l) tool_world" where
  "po_ask cx = (\<lambda>(vendor, material, quantity). ask_user (cx_link cx)
     ''Confirm purchase-order details before posting. Cost centre + delivery date are mandatory.''
     (po_schema vendor material quantity))"

definition po_flow ::
  "('f, 'e, 'o, 'p, 'l) server_context \<Rightarrow> json \<Rightarrow> nat \<Rightarrow> string option \<times> string option \<times> json option
     \<Rightarrow> ('e, 'o, 'p, 'l) tool_world \<Rightarrow> call_tool_result \<times> ('e, 'o, 'p, 'l) tool_world" where
  "po_flow cx v started hints w =
     (let answer = audited cx ''oracle.workflow.create_purchase_order'' v started in
      case po_ask cx hints w of
        (r, w1) \<Rightarrow>
          (case ei_action r of
             Act_Accept \<Rightarrow>
               answer (Audit_Ok ''purchase order confirmed (mock)'')
                 (tool_text (''Purchase order confirmed (mock execution; no real REST operation fired):''
                    @ [newline, newline] @ ru_pretty (cx_runtime cx) (unwrap_or (ei_content r) (JObj []))
                    @ [newline, newline]
                    @ ''Next step (when enable-writes): oracle.rest.call BAPI_PO_CREATE1.'')) w1
           | Act_Decline \<Rightarrow>
               answer (Audit_Declined ''user declined elicitation'')
                 (tool_text ''Purchase order cancelled by user (declined elicitation).'') w1
           | Act_Cancel \<Rightarrow>
               answer (Audit_Denied ''user aborted or elicitation unavailable'')
                 (tool_error ''Purchase order cancelled (user aborted or elicitation unavailable). No action taken.'')
                 w1))"

definition po_handler :: "('f, 'e, 'o, 'p, 'l) context_handler" where
  "po_handler cx =
     workflow_handler ''oracle.workflow.create_purchase_order'' (dec_po_args (ru_f64 (cx_runtime cx)))
       (po_flow cx) cx"

definition workflow_create_purchase_order ::
  "('f, 'e, 'o, 'p, 'l) context_tool" where
  "workflow_create_purchase_order cx =
     with_writes (
       tool_descriptor_new ''oracle.workflow.create_purchase_order''
       (Some (''Walk the user through a guided purchase-order creation. Mid-execution ''
             @ ''the tool elicits vendor, material, quantity, cost centre, company code, ''
             @ ''currency, and delivery date '' @ em_dash
             @ '' declining the form cancels the operation ''
             @ ''without side-effects. Wires BAPI_PO_CREATE1 in write mode.''))
       (schema_from_value (json_obj
          [(''type'', JStr ''object''),
           (''properties'', json_obj
            [(''vendor'', json_obj
              [(''type'', JStr ''string''),
               (''description'', JStr ''Initial vendor hint'')]),
             (''material'', json_obj
              [(''type'', JStr ''string''),
               (''description'', JStr ''Initial material hint'')]),
             (''quantity'', json_obj
              [(''type'', JStr ''number''),
               (''description'', JStr ''Initial quantity hint'')])]),
           (''additionalProperties'', JBool False)]))
       (po_handler cx))"

subsection \<open>Customer master\<close>

definition cm_pick_schema :: "string option \<Rightarrow> json" where
  "cm_pick_schema customer = object_schema
     (obj_of
         [(''customer'', json_obj
           [(''type'', JStr ''string''),
            (''description'', JStr ''Customer (KUNNR)''),
            (''default'', JStr (unwrap_or customer []))]),
          (''scope'', json_obj
           [(''type'', JStr ''string''),
            (''description'', JStr ''Which view to maintain''),
            (''enum'', enc_strs [''general_data'', ''company_code_data'', ''sales_area_data'']),
            (''default'', JStr ''general_data'')]),
          (''company_code'', json_obj
           [(''type'', JStr ''string''),
            (''description'', JStr ''Company code (only required for company_code_data scope)'')])])
     [''customer'', ''scope'']"

definition cm_fields :: "string \<Rightarrow> json_map" where
  "cm_fields scope =
     (if scope = ''general_data'' then
        obj_of
         [(''name1'', json_obj [(''type'', JStr ''string''), (''description'', JStr ''Name 1'')]),
          (''city'', json_obj [(''type'', JStr ''string''), (''description'', JStr ''City'')]),
          (''country'', json_obj
           [(''type'', JStr ''string''),
            (''description'', JStr ''Country (ISO-2)''),
            (''enum'', enc_strs [''DE'', ''US'', ''GB'', ''JP'', ''SG''])])]
      else if scope = ''company_code_data'' then
        obj_of
         [(''recon_account'', json_obj
           [(''type'', JStr ''string''),
            (''description'', JStr ''Reconciliation account (HKONT), e.g. 140000'')]),
          (''payment_terms'', json_obj
           [(''type'', JStr ''string''),
            (''description'', JStr ''Payment terms (ZTERM)'')]),
          (''dunning_area'', json_obj
           [(''type'', JStr ''string''),
            (''description'', JStr ''Dunning area'')])]
      else if scope = ''sales_area_data'' then
        obj_of
         [(''sales_org'', json_obj
           [(''type'', JStr ''string''),
            (''description'', JStr ''Sales organisation'')]),
          (''distribution_channel'', json_obj
           [(''type'', JStr ''string''),
            (''description'', JStr ''Distribution channel'')]),
          (''division'', json_obj [(''type'', JStr ''string''), (''description'', JStr ''Division'')]),
          (''incoterms'', json_obj
           [(''type'', JStr ''string''),
            (''enum'', enc_strs [''EXW'', ''FCA'', ''CIF'', ''DAP'', ''DDP''])])]
      else [])"

definition cm_confirm ::
  "('f, 'e, 'o, 'p, 'l) server_context \<Rightarrow> json \<Rightarrow> nat \<Rightarrow> string \<Rightarrow> string
     \<Rightarrow> ('e, 'o, 'p, 'l) tool_world \<Rightarrow> call_tool_result \<times> ('e, 'o, 'p, 'l) tool_world" where
  "cm_confirm cx v started customer scope w =
     (let answer = audited cx ''oracle.workflow.maintain_customer_master'' v started in
      case ask_user (cx_link cx)
             (''Enter new values for customer '' @ customer @ '' ('' @ scope
                @ '' view). Leave fields blank to keep current values.'')
             (object_schema (cm_fields scope) []) w of
        (r, w1) \<Rightarrow>
          (case ei_action r of
             Act_Accept \<Rightarrow>
               answer (Audit_Ok (''customer '' @ customer @ '' change confirmed (mock)''))
                 (tool_text (''Customer master change confirmed (mock):'' @ [newline]
                    @ ''  customer: '' @ customer @ [newline] @ ''  scope:    '' @ scope @ [newline]
                    @ ''  changes:'' @ [newline]
                    @ ru_pretty (cx_runtime cx) (unwrap_or (ei_content r) (JObj []))
                    @ [newline, newline]
                    @ ''Next step (when enable-writes): oracle.rest.call BAPI_CUSTOMER_CHANGEFROMDATA.''))
                 w1
           | Act_Decline \<Rightarrow>
               answer (Audit_Declined ''user declined field entry'')
                 (tool_text ''Customer master change declined; no action taken.'') w1
           | Act_Cancel \<Rightarrow>
               answer (Audit_Denied ''cancelled'') (tool_error ''Customer master cancelled.'') w1))"

definition cm_flow ::
  "('f, 'e, 'o, 'p, 'l) server_context \<Rightarrow> json \<Rightarrow> nat \<Rightarrow> string option
     \<Rightarrow> ('e, 'o, 'p, 'l) tool_world \<Rightarrow> call_tool_result \<times> ('e, 'o, 'p, 'l) tool_world" where
  "cm_flow cx v started hint w =
     (case ask_user (cx_link cx) ''Select customer and which data view to maintain.''
             (cm_pick_schema hint) w of
        (pick, w1) \<Rightarrow>
          if ei_action pick \<noteq> Act_Accept then
            audited cx ''oracle.workflow.maintain_customer_master'' v started
              (Audit_Declined ''cancelled at scope selection'')
              (tool_error ''Customer master maintenance cancelled at scope selection.'') w1
          else
            (let picked = unwrap_or (ei_content pick) JNull in
             cm_confirm cx v started (unwrap_or (get_str picked ''customer'') [])
               (unwrap_or (get_str picked ''scope'') ''general_data'') w1))"

definition cm_handler :: "('f, 'e, 'o, 'p, 'l) context_handler" where
  "cm_handler cx =
     workflow_handler ''oracle.workflow.maintain_customer_master'' dec_cm_args (cm_flow cx) cx"

definition workflow_maintain_customer_master ::
  "('f, 'e, 'o, 'p, 'l) context_tool" where
  "workflow_maintain_customer_master cx =
     with_writes (
       tool_descriptor_new ''oracle.workflow.maintain_customer_master''
       (Some (''Two-step elicitation walking the user through a customer master change: ''
             @ ''pick the data view, then fill in the scoped fields. Demonstrates ''
             @ ''*chained* elicitation calls '' @ em_dash
             @ '' each step has its own form and either '' @ ''step can be declined safely.''))
       (schema_from_value (json_obj
          [(''type'', JStr ''object''),
           (''properties'', json_obj
            [(''customer'', json_obj
              [(''type'', JStr ''string''),
               (''description'', JStr ''Customer hint'')])]),
           (''additionalProperties'', JBool False)]))
       (cm_handler cx))"

subsection \<open>Publishing a sandbox\<close>

definition publish_schema :: "string \<Rightarrow> json" where
  "publish_schema initial = object_schema
     (obj_of
         [(''sandbox'', json_obj
           [(''type'', JStr ''string''),
            (''description'', JStr ''Sandbox name to publish, e.g. GT_AR_AUTOINVOICE_FIX''),
            (''default'', JStr initial)]),
          (''target'', json_obj
           [(''type'', JStr ''string''),
            (''description'', JStr ''Publish target''),
            (''enum'', enc_strs [''MAINLINE'', ''QA_POD'', ''PRODUCTION'']),
            (''default'', JStr ''MAINLINE'')]),
          (''publish_dependents'', json_obj
           [(''type'', JStr ''boolean''),
            (''description'', JStr ''Publish dependent sandboxes?''),
            (''default'', JBool False)]),
          (''skip_validation'', json_obj
           [(''type'', JStr ''boolean''),
            (''description'', JStr ''Skip pre-publish validation (dangerous)''),
            (''default'', JBool False)]),
          (''confirmation_phrase'', json_obj
           [(''type'', JStr ''string''),
            (''description'', JStr ''Type the sandbox name again to confirm'')])])
     [''sandbox'', ''target'', ''confirmation_phrase'']"

definition bool_text :: "bool \<Rightarrow> string" where
  "bool_text b = (if b then ''true'' else ''false'')"

text \<open>What is done with an accepted form: the phrase must repeat the name of the sandbox.\<close>

definition publish_accepted ::
  "('f, 'e, 'o, 'p, 'l) server_context \<Rightarrow> json \<Rightarrow> nat \<Rightarrow> json
     \<Rightarrow> ('e, 'o, 'p, 'l) tool_world \<Rightarrow> call_tool_result \<times> ('e, 'o, 'p, 'l) tool_world" where
  "publish_accepted cx v started form w =
     (let answer = audited cx ''oracle.workflow.publish_sandbox'' v started;
          sb = unwrap_or (get_str form ''sandbox'') [];
          phrase = unwrap_or (get_str form ''confirmation_phrase'') [];
          target = unwrap_or (get_str form ''target'') ''MAINLINE''
      in if sb \<noteq> phrase then
           answer (Audit_Denied ''confirmation phrase mismatch'')
             (tool_error (''Confirmation phrase '' @ quoted phrase @ '' does not match sandbox ''
                @ quoted sb @ ''. Publish aborted.'')) w
         else
           answer (Audit_Ok (''sandbox '' @ sb @ '' publish confirmed '' @ right_arrow @ '' '' @ target
                     @ '' (mock)''))
             (tool_text (''Sandbox publish plan confirmed (mock):'' @ [newline]
                @ ''  sandbox:             '' @ sb @ [newline]
                @ ''  target:              '' @ target @ [newline]
                @ ''  publish_dependents:  ''
                @ bool_text (unwrap_or (get_bool form ''publish_dependents'') False) @ [newline]
                @ ''  skip_validation:     ''
                @ bool_text (unwrap_or (get_bool form ''skip_validation'') False) @ [newline, newline]
                @ ''Next step (when enable-writes): fusion.fnd.sandbox.publish (cross-pod ''
                @ ''promotion via an FSM Configuration Package).'')) w)"

definition publish_ask ::
  "('f, 'e, 'o, 'p, 'l) server_context \<Rightarrow> string option
     \<Rightarrow> ('e, 'o, 'p, 'l) tool_world \<Rightarrow> elicitation_result \<times> ('e, 'o, 'p, 'l) tool_world" where
  "publish_ask cx hint = ask_user (cx_link cx)
     (''Publishing a sandbox to the mainline (or a target pod) is irreversible. ''
        @ ''Confirm details and re-enter the sandbox name to proceed.'')
     (publish_schema (unwrap_or hint []))"

definition publish_flow ::
  "('f, 'e, 'o, 'p, 'l) server_context \<Rightarrow> json \<Rightarrow> nat \<Rightarrow> string option
     \<Rightarrow> ('e, 'o, 'p, 'l) tool_world \<Rightarrow> call_tool_result \<times> ('e, 'o, 'p, 'l) tool_world" where
  "publish_flow cx v started hint w =
     (let answer = audited cx ''oracle.workflow.publish_sandbox'' v started in
      case publish_ask cx hint w of
        (r, w1) \<Rightarrow>
          (case ei_action r of
             Act_Accept \<Rightarrow> publish_accepted cx v started (unwrap_or (ei_content r) JNull) w1
           | Act_Decline \<Rightarrow>
               answer (Audit_Declined ''user declined publish'')
                 (tool_text ''Sandbox publish declined; no action taken.'') w1
           | Act_Cancel \<Rightarrow>
               answer (Audit_Denied ''elicitation unavailable'')
                 (tool_error (''Sandbox publish cancelled (client lacks elicitation capability ''
                    @ em_dash @ '' refusing to proceed without confirmation).'')) w1))"

definition publish_handler :: "('f, 'e, 'o, 'p, 'l) context_handler" where
  "publish_handler cx =
     workflow_handler ''oracle.workflow.publish_sandbox'' dec_tr_args (publish_flow cx) cx"

definition workflow_release_transport ::
  "('f, 'e, 'o, 'p, 'l) context_tool" where
  "workflow_release_transport cx =
     with_writes (
       tool_descriptor_new ''oracle.workflow.publish_sandbox''
       (Some (''Publish a configuration sandbox with a confirmation form (the ''
             @ ''change-promotion / transport-release analog). Requires the user to ''
             @ ''re-type the sandbox name and explicitly opt in to dangerous flags ''
             @ ''(skip_validation, publish_dependents). Refuses entirely on clients that ''
             @ ''don'' @ [CHR 0x27] @ ''t advertise the elicitation capability.''))
       (schema_from_value (json_obj
          [(''type'', JStr ''object''),
           (''properties'', json_obj
            [(''sandbox'', json_obj
              [(''type'', JStr ''string''),
               (''description'', JStr ''Initial sandbox-name hint'')])]),
           (''additionalProperties'', JBool False)]))
       (publish_handler cx))"

definition workflow_tools ::
  "('f, 'e, 'o, 'p, 'l) server_context \<Rightarrow> ('e, 'o, 'p, 'l) tool_world tool_descriptor list" where
  "workflow_tools cx =
     [workflow_create_purchase_order cx, workflow_maintain_customer_master cx,
      workflow_release_transport cx]"

subsection \<open>What a workflow leaves behind\<close>

lemma ask_user_keeps [simp]:
  "tw_erp (snd (ask_user l m s w)) = tw_erp w" "tw_oic (snd (ask_user l m s w)) = tw_oic w"
  "tw_party (snd (ask_user l m s w)) = tw_party w" "tw_audit (snd (ask_user l m s w)) = tw_audit w"
  "tw_ticks (snd (ask_user l m s w)) = tw_ticks w"
  by (simp_all add: ask_user_def split: prod.split)

lemma asks_keep [simp]:
  "tw_erp (snd (po_ask cx h w)) = tw_erp w" "tw_oic (snd (po_ask cx h w)) = tw_oic w"
  "tw_party (snd (po_ask cx h w)) = tw_party w" "tw_audit (snd (po_ask cx h w)) = tw_audit w"
  "tw_erp (snd (publish_ask cx g w)) = tw_erp w" "tw_oic (snd (publish_ask cx g w)) = tw_oic w"
  "tw_party (snd (publish_ask cx g w)) = tw_party w" "tw_audit (snd (publish_ask cx g w)) = tw_audit w"
  by (simp_all add: po_ask_def publish_ask_def case_prod_beta)

lemma audited_eq:
  "audited cx tool v t out ans w = (ans, record_write_audit cx tool v out t w)"
  by (simp add: audited_def)

lemma read_instant_eq: "read_instant rt w = (ru_instant_ns rt (tw_ticks w), w\<lparr>tw_ticks := tw_ticks w + 1\<rparr>)"
  by (simp add: read_instant_def)

text \<open>The back ends are as before, and one more entry is in the audit log, for the tool and with the
  arguments redacted; its outcome satisfies \<open>P\<close>.\<close>

definition back_ends_kept :: "('e, 'o, 'p, 'l) tool_world \<Rightarrow> ('e, 'o, 'p, 'l) tool_world \<Rightarrow> bool" where
  "back_ends_kept w w' \<longleftrightarrow> tw_erp w' = tw_erp w \<and> tw_oic w' = tw_oic w \<and> tw_party w' = tw_party w"

lemmas flow_defs = po_flow_def cm_flow_def cm_confirm_def publish_flow_def publish_accepted_def
  audited_eq Let_def case_prod_beta

lemma po_flow_audits:
  "back_ends_kept w (snd (po_flow cx v t h w))
   \<and> audit_added ''oracle.workflow.create_purchase_order'' v
       (\<lambda>out. audit_is_ok out \<longleftrightarrow> ei_action (fst (po_ask cx h w)) = Act_Accept) w (snd (po_flow cx v t h w))"
  by (simp add: flow_defs back_ends_kept_def split: elicitation_action.split)

lemma publish_flow_audits:
  "back_ends_kept w (snd (publish_flow cx v t h w))
   \<and> audit_added ''oracle.workflow.publish_sandbox'' v
       (\<lambda>out. audit_is_ok out \<longleftrightarrow> (let a = fst (publish_ask cx h w); form = unwrap_or (ei_content a) JNull in
          ei_action a = Act_Accept
          \<and> unwrap_or (get_str form ''confirmation_phrase'') [] = unwrap_or (get_str form ''sandbox'') []))
       w (snd (publish_flow cx v t h w))"
  by (auto simp: flow_defs back_ends_kept_def split: elicitation_action.split)

lemma cm_flow_audits:
  "back_ends_kept w (snd (cm_flow cx v t h w))
   \<and> audit_added ''oracle.workflow.maintain_customer_master'' v (\<lambda>out. True) w (snd (cm_flow cx v t h w))"
  by (auto simp: flow_defs back_ends_kept_def split: elicitation_action.split)

lemma workflow_handler_eq:
  "workflow_handler tool dec act cx v w =
     (let w1 = w\<lparr>tw_ticks := tw_ticks w + 1\<rparr> in
      case dec v of
        None \<Rightarrow> (Ok (tool_error (tool @ '': '' @ ru_serde (cx_runtime cx) tool v)), w1)
      | Some a \<Rightarrow> (case act v (ru_instant_ns (cx_runtime cx) (tw_ticks w)) a w1 of (r, w') \<Rightarrow> (Ok r, w')))"
  by (simp add: workflow_handler_def read_instant_eq with_args_def Let_def split: option.split prod.split)

lemma back_ends_kept_tick [simp]: "back_ends_kept (w\<lparr>tw_ticks := n\<rparr>) w' = back_ends_kept w w'"
  by (simp add: back_ends_kept_def)

lemma audit_added_tick [simp]: "audit_added tool v P (w\<lparr>tw_ticks := n\<rparr>) w' = audit_added tool v P w w'"
  by (simp add: audit_added_def)

lemma workflow_audits:
  assumes "\<And>t a w. dec v = Some a \<Longrightarrow>
      back_ends_kept w (snd (act v t a w)) \<and> audit_added tool v (P a w) w (snd (act v t a w))"
  shows "case workflow_handler tool dec act cx v w of (r, w') \<Rightarrow>
      back_ends_kept w w'
      \<and> (case dec v of
           None \<Rightarrow> tw_audit w' = tw_audit w
         | Some a \<Rightarrow> audit_added tool v (P a (w\<lparr>tw_ticks := tw_ticks w + 1\<rparr>)) w w')"
  using assms [where w = "w\<lparr>tw_ticks := tw_ticks w + 1\<rparr>"]
  by (auto simp: workflow_handler_eq Let_def case_prod_beta back_ends_kept_def split: option.split)

text \<open>C3. Publishing a sandbox is confirmed only by a form that repeats its name: the workflow leaves
  every back end as it is, records one entry with redacted arguments when its arguments can be read (and
  none otherwise), and the entry says ok exactly when the user accepted the form and the confirmation
  phrase equals the sandbox's name. A form without either field has them equal, so an accepted empty
  form confirms the publication of a sandbox without a name.\<close>

theorem publish_confirmed_by_repeating_the_name:
  "(case publish_handler cx v w of (r, w') \<Rightarrow>
      back_ends_kept w w'
      \<and> (case dec_tr_args v of
           None \<Rightarrow> tw_audit w' = tw_audit w
         | Some hint \<Rightarrow> audit_added ''oracle.workflow.publish_sandbox'' v
             (\<lambda>out. audit_is_ok out \<longleftrightarrow>
                (let a = fst (publish_ask cx hint (w\<lparr>tw_ticks := tw_ticks w + 1\<rparr>));
                     form = unwrap_or (ei_content a) JNull
                 in ei_action a = Act_Accept
                    \<and> unwrap_or (get_str form ''confirmation_phrase'') []
                       = unwrap_or (get_str form ''sandbox'') [])) w w'))
   \<and> audit_added ''oracle.workflow.publish_sandbox'' v
       (\<lambda>out. out = Audit_Ok (''sandbox  publish confirmed '' @ right_arrow @ '' MAINLINE (mock)''))
       w (snd (publish_accepted cx v t (JObj []) w))"
proof
  show "case publish_handler cx v w of (r, w') \<Rightarrow>
      back_ends_kept w w'
      \<and> (case dec_tr_args v of
           None \<Rightarrow> tw_audit w' = tw_audit w
         | Some hint \<Rightarrow> audit_added ''oracle.workflow.publish_sandbox'' v
             (\<lambda>out. audit_is_ok out \<longleftrightarrow>
                (let a = fst (publish_ask cx hint (w\<lparr>tw_ticks := tw_ticks w + 1\<rparr>));
                     form = unwrap_or (ei_content a) JNull
                 in ei_action a = Act_Accept
                    \<and> unwrap_or (get_str form ''confirmation_phrase'') []
                       = unwrap_or (get_str form ''sandbox'') [])) w w')"
    unfolding publish_handler_def by (rule workflow_audits [OF publish_flow_audits])
qed (simp add: publish_accepted_def audited_eq Let_def get_str_def)

text \<open>With elicitation off every question is answered by declining.\<close>

lemma off_declines:
  "tw_elicit w = Some elicitation_disabled \<Longrightarrow> ei_action (fst (po_ask cx h w)) = Act_Decline"
  "tw_elicit w = Some elicitation_disabled \<Longrightarrow> ei_action (fst (publish_ask cx g w)) = Act_Decline"
  "tw_elicit w = Some elicitation_disabled \<Longrightarrow> ei_action (fst (ask_user l m s w)) = Act_Decline"
  by (simp_all add: po_ask_def publish_ask_def ask_user_def elicit_in_def elicit_def
      elicitation_disabled_def elicitation_new_def case_prod_beta)

text \<open>How a declined invocation shows: the back ends are as before and, when the arguments could be
  read, one entry says that the user declined.\<close>

definition turned_down ::
  "string \<Rightarrow> bool \<Rightarrow> json \<Rightarrow> ('e, 'o, 'p, 'l) tool_world \<Rightarrow> ('e, 'o, 'p, 'l) tool_world \<Rightarrow> bool" where
  "turned_down tool readable v w w' \<longleftrightarrow> back_ends_kept w w'
     \<and> (if readable then
          audit_added tool v (\<lambda>out. case out of Audit_Declined _ \<Rightarrow> True | _ \<Rightarrow> False) w w'
        else tw_audit w' = tw_audit w)"

lemma off_workflow:
  assumes "\<And>t a w. tw_elicit w = Some elicitation_disabled \<Longrightarrow> turned_down tool True v w (snd (act v t a w))"
  shows "turned_down tool (dec v \<noteq> None) v u
           (snd (workflow_handler tool dec act cx v (u\<lparr>tw_elicit := Some elicitation_disabled\<rparr>)))"
  using assms [of "u\<lparr>tw_elicit := Some elicitation_disabled, tw_ticks := tw_ticks u + 1\<rparr>"]
  by (simp add: workflow_handler_eq Let_def case_prod_beta turned_down_def back_ends_kept_def
      audit_added_def split: option.split)

lemma off_flows:
  "tw_elicit w = Some elicitation_disabled \<Longrightarrow>
     turned_down ''oracle.workflow.create_purchase_order'' True v w (snd (po_flow cx v t h w))"
  "tw_elicit w = Some elicitation_disabled \<Longrightarrow>
     turned_down ''oracle.workflow.maintain_customer_master'' True v w (snd (cm_flow cx v t c w))"
  "tw_elicit w = Some elicitation_disabled \<Longrightarrow>
     turned_down ''oracle.workflow.publish_sandbox'' True v w (snd (publish_flow cx v t c w))"
  by (simp_all add: flow_defs off_declines turned_down_def back_ends_kept_def)

text \<open>Without an elicitation channel nothing is confirmed: when the session's handle is disabled,
  each of the three workflows leaves the back ends alone and, once its arguments can be read, records
  exactly one entry, which says that the user declined (the branch for a client without the capability
  is never taken).\<close>

lemma workflows_decline_without_a_channel:
  "let off = w\<lparr>tw_elicit := Some elicitation_disabled\<rparr> in
     turned_down ''oracle.workflow.create_purchase_order''
       (dec_po_args (ru_f64 (cx_runtime cx)) v \<noteq> None) v w (snd (po_handler cx v off))
     \<and> turned_down ''oracle.workflow.maintain_customer_master'' (dec_cm_args v \<noteq> None) v w
         (snd (cm_handler cx v off))
     \<and> turned_down ''oracle.workflow.publish_sandbox'' (dec_tr_args v \<noteq> None) v w
         (snd (publish_handler cx v off))"
  unfolding Let_def po_handler_def cm_handler_def publish_handler_def
  by (intro conjI off_workflow off_flows)
end
