(* ===== verification/Skills.thy ===== *)
theory Skills
  imports Json "HOL-Library.AList"
begin

text \<open>
  Skills (\<open>crates/oracle-automate-skills/src/lib.rs\<close>): prompt templates read from markdown files with a
  front matter in a small subset of YAML. The front-matter parser works on the list of lines; its two
  nested loops are functions that return the lines they leave. Directories are finite trees (no
  cycles of links); a file whose contents cannot be read and a directory that cannot be listed are
  \<open>None\<close>.
\<close>

subsection \<open>Skills and their rendering\<close>

record skill_argument =
  ka_name :: string
  ka_description :: "string option"
  ka_required :: bool

record skill =
  sk_name :: string
  sk_description :: string
  sk_tags :: "string list"
  sk_requires_tools :: "string list"
  sk_arguments :: "skill_argument list"
  sk_body :: string
  sk_source :: "string option"

definition placeholder_of :: "skill_argument \<Rightarrow> string" where
  "placeholder_of a = ''{{'' @ ka_name a @ ''}}''"

definition replacement_of :: "(string \<Rightarrow> string option) \<Rightarrow> skill_argument \<Rightarrow> string" where
  "replacement_of args a =
     (case args (ka_name a) of
        Some v \<Rightarrow> v
      | None \<Rightarrow> if ka_required a then ''<MISSING '' @ ka_name a @ ''>'' else [])"

definition render_skill :: "skill \<Rightarrow> (string \<Rightarrow> string option) \<Rightarrow> string" where
  "render_skill s args =
     foldl (\<lambda>out a. replace_all out (placeholder_of a) (replacement_of args a)) (sk_body s) (sk_arguments s)"

subsection \<open>The registry\<close>

type_synonym skill_registry = "(string \<times> skill) list"

definition registry_insert :: "skill \<Rightarrow> skill_registry \<Rightarrow> skill_registry" where
  "registry_insert s r = AList.update (sk_name s) s r"

definition registry_get :: "skill_registry \<Rightarrow> string \<Rightarrow> skill option" where
  "registry_get r n = map_of r n"

definition registry_skills :: "skill_registry \<Rightarrow> skill list" where
  "registry_skills r = map snd r"

subsection \<open>Parsing a file\<close>

definition split_frontmatter :: "string \<Rightarrow> (string \<times> string) option" where
  "split_frontmatter raw =
     Option.bind (strip_prefix (trim_start raw) ''---'') (\<lambda>rest0.
       (let rest = unwrap_or (strip_prefix rest0 [newline]) rest0 in
        Option.bind (find_str rest (newline # ''---'')) (\<lambda>e.
          (let body = drop (e + 4) rest in
           Some (take e rest, unwrap_or (strip_prefix body [newline]) body)))))"

definition unquote :: "string \<Rightarrow> string" where
  "unquote s = trim_char quote_char (trim s)"

definition parse_inline_list :: "string \<Rightarrow> string list" where
  "parse_inline_list s =
     filter (\<lambda>t. t \<noteq> [])
       (map unquote (split_char (CHR '','')
          (trim_end_char (CHR '']'') (trim_start_char (CHR ''['') (trim s)))))"

text \<open>The description and the flag of an argument: the lines indented by four spaces or two tabs.\<close>

fun parse_argument :: "skill_argument \<Rightarrow> string list \<Rightarrow> skill_argument \<times> string list" where
  "parse_argument a [] = (a, [])"
| "parse_argument a (l # ls) =
     (if \<not> starts_with l ''    '' \<and> \<not> starts_with l [tab_char, tab_char] then (a, l # ls)
      else
        (let t = trim l in
         parse_argument
           (case strip_prefix t ''description:'' of
              Some d \<Rightarrow> a\<lparr>ka_description := Some (unquote d)\<rparr>
            | None \<Rightarrow>
                (case strip_prefix t ''required:'' of
                   Some r \<Rightarrow> a\<lparr>ka_required := (trim r = ''true'')\<rparr>
                 | None \<Rightarrow> a)) ls))"

lemma parse_argument_length: "length (snd (parse_argument a ls)) \<le> length ls"
  by (induction a ls rule: parse_argument.induct) (auto simp: Let_def)

lemma parse_argument_rest: "(x, y) = parse_argument a ls \<Longrightarrow> length y \<le> length ls"
  by (metis parse_argument_length snd_conv)

text \<open>The list of arguments: up to the first line that is neither indented nor empty.\<close>

function parse_arguments :: "string list \<Rightarrow> skill_argument list \<times> string list" where
  "parse_arguments [] = ([], [])"
| "parse_arguments (l # ls) =
     (if \<not> starts_with l '' '' \<and> \<not> starts_with l [tab_char] \<and> l \<noteq> [] then ([], l # ls)
      else
        (case strip_prefix (trim l) ''- name:'' of
           Some after \<Rightarrow>
             (case parse_argument
                     \<lparr>ka_name = unquote after, ka_description = None, ka_required = False\<rparr> ls of
                (a, rest) \<Rightarrow> (case parse_arguments rest of (as, rest') \<Rightarrow> (a # as, rest')))
         | None \<Rightarrow> parse_arguments ls))"
  by pat_completeness auto
termination
  by (relation "measure length") (auto dest: parse_argument_rest)

lemma parse_arguments_length: "length (snd (parse_arguments ls)) \<le> length ls"
  by (induction ls rule: parse_arguments.induct)
    (force split: option.splits prod.splits dest: parse_argument_rest [OF sym])+

lemma parse_arguments_rest: "(x, y) = parse_arguments ls \<Longrightarrow> length y \<le> length ls"
  by (metis parse_arguments_length snd_conv)

text \<open>The fields, from the first line on; a later field replaces an earlier one, arguments are added.\<close>

function parse_fields :: "string list \<Rightarrow> skill \<Rightarrow> skill" where
  "parse_fields [] sk = sk"
| "parse_fields (l # ls) sk =
     (let t = trim_end l in
      if t = [] \<or> starts_with t ''#'' then parse_fields ls sk
      else
        (case strip_prefix t ''name:'' of
           Some rest \<Rightarrow> parse_fields ls (sk\<lparr>sk_name := unquote rest\<rparr>)
         | None \<Rightarrow>
             (case strip_prefix t ''description:'' of
                Some rest \<Rightarrow> parse_fields ls (sk\<lparr>sk_description := unquote rest\<rparr>)
              | None \<Rightarrow>
                  if starts_with t ''tags:'' then
                    parse_fields ls (sk\<lparr>sk_tags := parse_inline_list (trim (trim_start_str ''tags:'' t))\<rparr>)
                  else if starts_with t ''requires_tools:'' then
                    parse_fields ls
                      (sk\<lparr>sk_requires_tools := parse_inline_list (trim (trim_start_str ''requires_tools:'' t))\<rparr>)
                  else if t = ''arguments:'' then
                    (case parse_arguments ls of (as, rest) \<Rightarrow>
                       parse_fields rest (sk\<lparr>sk_arguments := sk_arguments sk @ as\<rparr>))
                  else parse_fields ls sk)))"
  by pat_completeness auto
termination
  by (relation "measure (\<lambda>(ls, sk). length ls)") (auto dest: parse_arguments_rest)

definition blank_skill :: skill where
  "blank_skill = \<lparr>sk_name = [], sk_description = [], sk_tags = [], sk_requires_tools = [],
     sk_arguments = [], sk_body = [], sk_source = None\<rparr>"

definition parse_frontmatter :: "string \<Rightarrow> string + skill" where
  "parse_frontmatter tx =
     (let sk = parse_fields (lines_of tx) blank_skill in
      if sk_name sk = [] then Err ''missing `name:` field''
      else if sk_description sk = [] then Err ''missing `description:` field''
      else Ok sk)"

datatype skill_error = Skill_Io | Skill_Frontmatter string string

text \<open>A file is its path and, when it can be read, its contents.\<close>

definition parse_skill_file :: "string \<Rightarrow> string option \<Rightarrow> skill_error + skill" where
  "parse_skill_file path contents =
     (case contents of
        None \<Rightarrow> Err Skill_Io
      | Some raw \<Rightarrow>
          (case split_frontmatter raw of
             None \<Rightarrow> Err (Skill_Frontmatter path ''missing --- frontmatter'')
           | Some (front, body) \<Rightarrow>
               (case parse_frontmatter front of
                  Err e \<Rightarrow> Err (Skill_Frontmatter path e)
                | Ok sk \<Rightarrow> Ok (sk\<lparr>sk_body := trim body, sk_source := Some path\<rparr>))))"

subsection \<open>Scanning directories\<close>

datatype fs_node = Fs_Gone | Fs_Dir "fs_node list option" | Fs_File string "string option"

definition has_md_extension :: "string \<Rightarrow> bool" where
  "has_md_extension path =
     (let name = last (split_char (CHR ''/'') path) in ends_with name ''.md'' \<and> 3 < length name)"

text \<open>One file; the registry and the number of skills loaded.\<close>

definition load_file :: "string \<Rightarrow> string option \<Rightarrow> skill_registry \<times> nat \<Rightarrow> skill_registry \<times> nat" where
  "load_file path contents = (\<lambda>(r, n).
     if has_md_extension path then
       (case parse_skill_file path contents of
          Ok sk \<Rightarrow> (registry_insert sk r, n + 1)
        | Err _ \<Rightarrow> (r, n))
     else (r, n))"

text \<open>The stack of paths still to visit; its top is the head of the list.\<close>

function scan_stack :: "fs_node list \<Rightarrow> skill_registry \<times> nat \<Rightarrow> skill_registry \<times> nat" where
  "scan_stack [] st = st"
| "scan_stack (Fs_Gone # stack) st = scan_stack stack st"
| "scan_stack (Fs_Dir None # stack) st = scan_stack stack st"
| "scan_stack (Fs_Dir (Some entries) # stack) st = scan_stack (rev entries @ stack) st"
| "scan_stack (Fs_File path contents # stack) st = scan_stack stack (load_file path contents st)"
  by pat_completeness auto
termination
  by (relation "measure (\<lambda>(stack, st). size_list size stack)")
    (auto simp: size_list_conv_sum_list rev_map [symmetric])

definition scan_paths :: "fs_node list \<Rightarrow> skill_registry \<Rightarrow> skill_registry \<times> nat" where
  "scan_paths roots r = foldl (\<lambda>st root. scan_stack [root] st) (r, 0) roots"

subsection \<open>Writing a skill file\<close>

text \<open>A skill file in the documented format.\<close>

definition print_argument :: "skill_argument \<Rightarrow> string list" where
  "print_argument a =
     [''  - name: '' @ ka_name a]
     @ (case ka_description a of Some d \<Rightarrow> [''    description: '' @ d] | None \<Rightarrow> [])
     @ [''    required: '' @ (if ka_required a then ''true'' else ''false'')]"

definition print_list :: "string list \<Rightarrow> string" where
  "print_list xs = ''['' @ join '', '' xs @ '']''"

definition print_fields :: "skill \<Rightarrow> string list" where
  "print_fields sk =
     (''name: '' @ sk_name sk) # (''description: '' @ sk_description sk)
     # (''tags: '' @ print_list (sk_tags sk)) # (''requires_tools: '' @ print_list (sk_requires_tools sk))
     # ''arguments:'' # concat (map print_argument (sk_arguments sk))"

definition print_skill :: "skill \<Rightarrow> string" where
  "print_skill sk =
     ''---'' @ [newline] @ join [newline] (print_fields sk) @ [newline] @ ''---'' @ [newline, newline]
     @ sk_body sk"

text \<open>A text that survives: one line, with no space or quote at either end; an item of a list has no
  comma or bracket either and is not empty.\<close>

definition plain_text :: "string \<Rightarrow> bool" where
  "plain_text s \<longleftrightarrow> newline \<notin> set s \<and> trim s = s \<and> trim_char quote_char s = s"

definition plain_item :: "string \<Rightarrow> bool" where
  "plain_item s \<longleftrightarrow> plain_text s \<and> s \<noteq> [] \<and> CHR '','' \<notin> set s \<and> CHR ''['' \<notin> set s \<and> CHR '']'' \<notin> set s"

definition plain_skill :: "skill \<Rightarrow> bool" where
  "plain_skill sk \<longleftrightarrow>
     plain_text (sk_name sk) \<and> sk_name sk \<noteq> [] \<and> plain_text (sk_description sk)
     \<and> sk_description sk \<noteq> [] \<and> list_all plain_item (sk_tags sk)
     \<and> list_all plain_item (sk_requires_tools sk)
     \<and> list_all (\<lambda>a. plain_text (ka_name a)
           \<and> (case ka_description a of Some d \<Rightarrow> plain_text d | None \<Rightarrow> True)) (sk_arguments sk)
     \<and> trim (sk_body sk) = sk_body sk"

lemma trim_start_id: "trim_start s = s \<longleftrightarrow> s = [] \<or> \<not> is_space_char (hd s)"
  unfolding trim_start_def
proof (cases s)
  case (Cons c cs)
  have "length (dropWhile is_space_char cs) \<le> length cs" by (rule length_dropWhile_le)
  then show "dropWhile is_space_char s = s \<longleftrightarrow> s = [] \<or> \<not> is_space_char (hd s)"
    using Cons by (auto dest: arg_cong [where f = length])
qed simp

lemma trim_end_id: "trim_end s = s \<longleftrightarrow> s = [] \<or> \<not> is_space_char (last s)"
  using trim_start_id [of "rev s"]
  by (simp add: trim_end_def trim_start_def rev_swap hd_rev)

lemma trim_end_suffix: "s \<noteq> [] \<Longrightarrow> \<not> is_space_char (last s) \<Longrightarrow> trim_end (p @ s) = p @ s"
  by (simp add: trim_end_id)

lemma trim_id: "trim s = s \<longleftrightarrow> s = [] \<or> \<not> is_space_char (hd s) \<and> \<not> is_space_char (last s)"
proof
  assume eq: "trim s = s"
  have le: "length (trim_end x) \<le> length x" "length (trim_start x) \<le> length x" for x
    using length_dropWhile_le [of is_space_char "rev x"] length_dropWhile_le [of is_space_char x]
    by (simp_all add: trim_end_def trim_start_def)
  obtain u where u: "s = u @ trim_start s"
    unfolding trim_start_def by (metis takeWhile_dropWhile_id)
  have "length s \<le> length (trim_start s)" using eq le(1) [of "trim_start s"] by (simp add: trim_def)
  with u have "trim_start s = s" by (metis append_self_conv2 le(2) length_append le_antisym add_right_cancel add_0 length_0_conv)
  with eq show "s = [] \<or> \<not> is_space_char (hd s) \<and> \<not> is_space_char (last s)"
    by (metis trim_def trim_start_id trim_end_id)
next
  assume "s = [] \<or> \<not> is_space_char (hd s) \<and> \<not> is_space_char (last s)"
  then show "trim s = s" by (metis trim_def trim_start_id trim_end_id)
qed

lemma trim_space: "trim (CHR '' '' # s) = trim s"
  by (simp add: trim_def trim_start_def is_space_char_def)

lemma unquote_plain: "plain_text s \<Longrightarrow> unquote s = s" "plain_text s \<Longrightarrow> unquote (CHR '' '' # s) = s"
  by (simp_all add: unquote_def plain_text_def trim_space)

lemma trim_keyed:
  "plain_text d \<Longrightarrow> \<not> is_space_char c \<Longrightarrow> \<not> is_space_char e \<Longrightarrow>
     trim (c # k @ e # CHR '' '' # d) = c # k @ e # (if d = [] then [] else CHR '' '' # d)"
proof (cases "d = []")
  case True
  assume "\<not> is_space_char c" "\<not> is_space_char e"
  then show ?thesis using True
    by (simp add: trim_def trim_start_def trim_end_def is_space_char_def [of "CHR '' ''"])
next
  case False
  assume "plain_text d" "\<not> is_space_char c"
  then have "\<not> is_space_char (last d)" using False by (auto simp: plain_text_def trim_id)
  with False \<open>\<not> is_space_char c\<close> have "trim (c # k @ e # CHR '' '' # d) = c # k @ e # CHR '' '' # d"
    unfolding trim_id by simp
  with False show ?thesis by simp
qed

subsection \<open>Lists\<close>

lemma split_comma_list:
  "xs \<noteq> [] \<Longrightarrow> list_all (\<lambda>w. d \<notin> set w) xs \<Longrightarrow> d \<noteq> CHR '' '' \<Longrightarrow>
     split_char d (join [d, CHR '' ''] xs) = hd xs # map ((#) (CHR '' '')) (tl xs)"
proof (induction xs rule: induct_list012)
  case (3 x y ys)
  have "split_char d (join [d, CHR '' ''] (y # ys)) = y # map ((#) (CHR '' '')) ys"
    using 3 by simp
  then have "split_char d (CHR '' '' # join [d, CHR '' ''] (y # ys)) = (CHR '' '' # y) # map ((#) (CHR '' '')) ys"
    using 3 by simp
  then show ?case using 3 by (simp add: split_char_append)
qed (simp_all add: split_char_free)

lemma join_free: "list_all (\<lambda>w. d \<notin> set w) xs \<Longrightarrow> d \<notin> set sep \<Longrightarrow> d \<notin> set (join sep xs)"
  by (induction sep xs rule: join.induct) auto

lemma last_join: "xs \<noteq> [] \<Longrightarrow> list_all (\<lambda>w. w \<noteq> []) xs \<Longrightarrow> join sep xs \<noteq> [] \<and> last (join sep xs) = last (last xs)"
  by (induction sep xs rule: join.induct) auto

lemma brackets_off:
  "list_all plain_item xs \<Longrightarrow>
     trim_end_char (CHR '']'') (trim_start_char (CHR ''['') (print_list xs)) = join '', '' xs"
proof -
  assume ok: "list_all plain_item xs"
  let ?j = "join '', '' xs"
  have "list_all (\<lambda>w. CHR ''['' \<notin> set w) xs" "list_all (\<lambda>w. CHR '']'' \<notin> set w) xs"
    using ok by (auto simp: list_all_iff plain_item_def)
  then have free: "CHR ''['' \<notin> set ?j" "CHR '']'' \<notin> set ?j"
    using join_free [of "CHR ''[''" xs "'', ''"] join_free [of "CHR '']''" xs "'', ''"] by simp_all
  have "trim_start_char (CHR ''['') (print_list xs) = ?j @ [CHR '']'']"
  proof (cases ?j)
    case (Cons c cs)
    then have "c \<noteq> CHR ''[''" using free by auto
    with Cons show ?thesis by (simp add: print_list_def trim_start_char_def)
  qed (simp add: print_list_def trim_start_char_def)
  moreover have "dropWhile (\<lambda>c. c = CHR '']'') (rev ?j) = rev ?j"
    using free(2) by (cases "rev ?j") (auto simp: rev_swap)
  ultimately show ?thesis by (simp add: trim_end_char_def)
qed

lemma trim_print_list: "trim (print_list xs) = print_list xs"
  by (simp add: trim_id print_list_def is_space_char_def)

lemma parse_print_list: "list_all plain_item xs \<Longrightarrow> parse_inline_list (print_list xs) = xs"
proof -
  assume ok: "list_all plain_item xs"
  have items: "map unquote xs = xs" "map (\<lambda>s. unquote (CHR '' '' # s)) xs = xs" "filter (\<lambda>t. t \<noteq> []) xs = xs"
    if "list_all plain_item xs" for xs
    using that by (induction xs) (auto simp: plain_item_def unquote_plain)
  show ?thesis
  proof (cases xs)
    case Nil
    have "parse_inline_list (print_list []) = []" by code_simp
    with Nil show ?thesis by simp
  next
    case (Cons y ys)
    have "list_all (\<lambda>w. CHR '','' \<notin> set w) xs" using ok by (auto simp: list_all_iff plain_item_def)
    then have "split_char (CHR '','') (join '', '' xs) = y # map ((#) (CHR '' '')) ys"
      using Cons split_comma_list [of xs "CHR '',''"] by simp
    then show ?thesis
      using Cons ok items [of ys] brackets_off [OF ok]
      by (simp add: parse_inline_list_def trim_print_list comp_def plain_item_def unquote_plain)
  qed
qed

subsection \<open>Arguments\<close>

lemma keyed_line:
  "plain_text d \<Longrightarrow> trim (''    description: '' @ d) = ''description:'' @ (if d = [] then [] else CHR '' '' # d)"
  "plain_text d \<Longrightarrow> trim (''    required: '' @ d) = ''required:'' @ (if d = [] then [] else CHR '' '' # d)"
  "plain_text d \<Longrightarrow> trim (''  - name: '' @ d) = ''- name:'' @ (if d = [] then [] else CHR '' '' # d)"
  using trim_keyed [of d "CHR ''d''" "CHR '':''" "''escription''"]
    trim_keyed [of d "CHR ''r''" "CHR '':''" "''equired''"]
    trim_keyed [of d "CHR ''-''" "CHR '':''" "'' name''"]
  by (simp_all add: trim_space is_space_char_def)

lemma strip_keyed:
  "strip_prefix (k @ s) k = Some s" by (rule strip_prefix_append)

lemma truth_values: "trim (CHR '' '' # (if b then ''true'' else ''false'')) = ''true'' \<longleftrightarrow> b"
  "plain_text (if b then ''true'' else ''false'')"
  by (cases b; simp add: trim_def trim_start_def trim_end_def is_space_char_def plain_text_def trim_char_def
      trim_start_char_def trim_end_char_def)+

declare parse_argument.simps [simp del]

lemma unquote_rest: "plain_text d \<Longrightarrow> unquote (if d = [] then [] else CHR '' '' # d) = d"
  using unquote_plain [of d] by auto

lemma parse_required:
  "parse_argument a ((''    required: '' @ (if b then ''true'' else ''false'')) # ls)
     = parse_argument (a\<lparr>ka_required := b\<rparr>) ls"
  using keyed_line(2) [OF truth_values(2) [of b]] truth_values(1) [of b]
    strip_keyed [of "''required:''"]
  by (cases b) (simp_all add: strip_prefix_def parse_argument.simps)

lemma parse_description:
  "plain_text d \<Longrightarrow> parse_argument a ((''    description: '' @ d) # ls)
     = parse_argument (a\<lparr>ka_description := Some d\<rparr>) ls"
  using keyed_line(1) [of d] unquote_rest [of d]
  by (simp add: strip_prefix_def parse_argument.simps split: if_splits)

definition argument_ok :: "skill_argument \<Rightarrow> bool" where
  "argument_ok a \<longleftrightarrow> plain_text (ka_name a)
     \<and> (case ka_description a of Some d \<Rightarrow> plain_text d | None \<Rightarrow> True)"

text \<open>The lines of an argument stop before a line that is not indented by four spaces.\<close>

definition stops :: "string list \<Rightarrow> bool" where
  "stops ls \<longleftrightarrow> (case ls of [] \<Rightarrow> True
     | l # _ \<Rightarrow> \<not> starts_with l ''    '' \<and> \<not> starts_with l [tab_char, tab_char])"

lemma parse_argument_stops: "stops ls \<Longrightarrow> parse_argument a ls = (a, ls)"
  by (cases ls) (simp_all add: stops_def parse_argument.simps)

lemma parse_one_argument:
  assumes "argument_ok a" and "stops ls"
  shows "parse_arguments (print_argument a @ ls) = (case parse_arguments ls of (as, rest) \<Rightarrow> (a # as, rest))"
proof -
  let ?a0 = "\<lparr>ka_name = ka_name a, ka_description = None, ka_required = False\<rparr>"
  have name: "strip_prefix (trim (''  - name: '' @ ka_name a)) ''- name:''
      = Some (if ka_name a = [] then [] else CHR '' '' # ka_name a)"
    using keyed_line(3) [of "ka_name a"] assms(1) by (simp add: argument_ok_def strip_prefix_def)
  have rest: "parse_argument ?a0 (tl (print_argument a) @ ls) = (a, ls)"
    using assms parse_required [of _ "ka_required a"] parse_description [of "the (ka_description a)"]
    by (cases a; cases "ka_description a")
      (simp_all add: print_argument_def argument_ok_def parse_argument_stops)
  have eq: "print_argument a @ ls = (''  - name: '' @ ka_name a) # tl (print_argument a) @ ls"
    by (simp add: print_argument_def)
  have "unquote (if ka_name a = [] then [] else CHR '' '' # ka_name a) = ka_name a"
    using unquote_rest assms(1) by (simp add: argument_ok_def)
  with name rest show ?thesis
    unfolding eq parse_arguments.simps by simp
qed

lemma print_argument_stops: "stops (print_argument a @ ls)"
  by (simp add: stops_def print_argument_def)

lemma parse_all_arguments:
  "list_all argument_ok as \<Longrightarrow> parse_arguments (concat (map print_argument as)) = (as, [])"
proof (induction as)
  case (Cons a as)
  have "stops (concat (map print_argument as))"
    by (cases as) (simp add: stops_def, simp add: print_argument_stops)
  with Cons show ?case by (simp add: parse_one_argument)
qed simp

subsection \<open>The whole file\<close>

definition line_ok :: "string \<Rightarrow> bool" where
  "line_ok l \<longleftrightarrow> newline \<notin> set l \<and> CHR 0x0D \<notin> set l \<and> \<not> starts_with l ''---''"

lemma starts_dashes: "starts_with (w @ newline # r) ''---'' = starts_with w ''---''"
  by (cases w; cases "tl w"; cases "tl (tl w)"; auto)

lemma find_end_first:
  "newline \<notin> set w \<Longrightarrow> find_str (w @ newline # r) (newline # p)
     = (if starts_with r p then Some (length w) else map_option (\<lambda>i. i + length w + 1) (find_str r (newline # p)))"
  by (induction w) (auto simp: option.map_comp comp_def)

lemma find_front_end:
  "ls \<noteq> [] \<Longrightarrow> list_all line_ok ls \<Longrightarrow>
     find_str (join [newline] ls @ newline # ''---'' @ r) (newline # ''---'') = Some (length (join [newline] ls))"
proof (induction ls rule: induct_list012)
  case (2 w)
  then show ?case using find_end_first [of w "''---'' @ r" "''---''"] by (simp add: line_ok_def)
next
  case (3 w x ls)
  let ?rest = "join [newline] (x # ls) @ newline # ''---'' @ r"
  have "\<not> starts_with ?rest ''---''"
    using 3 starts_dashes [of x] by (cases ls) (simp_all add: line_ok_def)
  then show ?case
    using 3 find_end_first [of w ?rest "''---''"] by (simp add: line_ok_def)
qed simp

lemma lines_of_join:
  "ls \<noteq> [] \<Longrightarrow> list_all line_ok ls \<Longrightarrow> last ls \<noteq> [] \<Longrightarrow> lines_of (join [newline] ls) = ls"
proof -
  assume ls: "ls \<noteq> []" "list_all line_ok ls" "last ls \<noteq> []"
  have "list_all (\<lambda>w. newline \<notin> set w) ls" using ls(2) by (auto simp: list_all_iff line_ok_def)
  then have "split_char newline (join [newline] ls) = ls" using ls(1) split_char_join by blast
  moreover have "map strip_cr (butlast ls) = butlast ls"
    using ls(2) by (auto simp: list_all_iff line_ok_def strip_cr_def intro!: map_idI dest!: in_set_butlastD)
      (metis last_in_set)
  ultimately show ?thesis using ls(1,3) by (simp add: lines_of_def Let_def)
qed

text \<open>No carriage return either.\<close>

definition printable_skill :: "skill \<Rightarrow> bool" where
  "printable_skill sk \<longleftrightarrow> plain_skill sk \<and> list_all (\<lambda>l. CHR 0x0D \<notin> set l) (print_fields sk)"

lemma print_list_free: "list_all plain_item xs \<Longrightarrow> newline \<notin> set (print_list xs)"
  using join_free [of newline xs "'', ''"]
  by (auto simp: print_list_def list_all_iff plain_item_def plain_text_def)

lemma print_fields_ok: "printable_skill sk \<Longrightarrow> list_all line_ok (print_fields sk)"
proof -
  assume ok: "printable_skill sk"
  then have "list_all line_ok (print_argument a)" if "a \<in> set (sk_arguments sk)" for a
    using that by (auto simp: printable_skill_def plain_skill_def list_all_iff print_argument_def
        print_fields_def line_ok_def plain_text_def split: option.splits)
  then show ?thesis
    using ok print_list_free [of "sk_tags sk"] print_list_free [of "sk_requires_tools sk"]
    by (auto simp: printable_skill_def plain_skill_def list_all_iff print_fields_def line_ok_def
        plain_text_def)
qed

lemma print_fields_last: "last (print_fields sk) \<noteq> []" "print_fields sk \<noteq> []"
proof -
  have arg: "print_argument a \<noteq> [] \<and> last (print_argument a) \<noteq> []" for a
    by (simp add: print_argument_def)
  have "concat (map print_argument as) \<noteq> [] \<Longrightarrow> last (concat (map print_argument as)) \<noteq> []" for as
    by (induction as) (use arg in \<open>auto simp: last_append\<close>)
  then show "last (print_fields sk) \<noteq> []" by (auto simp: print_fields_def last_append)
  show "print_fields sk \<noteq> []" by (simp add: print_fields_def)
qed

lemma plain_last: "plain_text s \<Longrightarrow> s \<noteq> [] \<Longrightarrow> \<not> is_space_char (last s)"
  by (simp add: plain_text_def trim_id)

lemma field_lines:
  "plain_text n \<Longrightarrow> n \<noteq> [] \<Longrightarrow> trim_end (''name: '' @ n) = ''name: '' @ n"
  "plain_text n \<Longrightarrow> n \<noteq> [] \<Longrightarrow> trim_end (''description: '' @ n) = ''description: '' @ n"
  "trim_end (''tags: '' @ print_list xs) = ''tags: '' @ print_list xs"
  "trim_end (''requires_tools: '' @ print_list xs) = ''requires_tools: '' @ print_list xs"
  "trim_end ''arguments:'' = ''arguments:''"
  using trim_end_suffix [OF _ plain_last] trim_end_suffix [of "print_list xs"]
  by (simp_all add: trim_end_id is_space_char_def print_list_def plain_last)

lemma list_values:
  "trim (trim_start_str ''tags:'' (''tags: '' @ print_list xs)) = print_list xs"
  "trim (trim_start_str ''requires_tools:'' (''requires_tools: '' @ print_list xs)) = print_list xs"
  by (simp_all add: trim_start_str.simps trim_space trim_print_list)

declare parse_fields.simps [simp del]

lemma parse_name:
  "plain_text n \<Longrightarrow> n \<noteq> [] \<Longrightarrow>
     parse_fields ((''name: '' @ n) # ls) sk = parse_fields ls (sk\<lparr>sk_name := n\<rparr>)"
  unfolding parse_fields.simps(2) field_lines
  by (simp add: strip_prefix_def unquote_plain)

lemma parse_skill_description:
  "plain_text n \<Longrightarrow> n \<noteq> [] \<Longrightarrow>
     parse_fields ((''description: '' @ n) # ls) sk = parse_fields ls (sk\<lparr>sk_description := n\<rparr>)"
  unfolding parse_fields.simps(2) field_lines
  by (simp add: strip_prefix_def unquote_plain)

lemma parse_tags:
  "list_all plain_item xs \<Longrightarrow>
     parse_fields ((''tags: '' @ print_list xs) # ls) sk = parse_fields ls (sk\<lparr>sk_tags := xs\<rparr>)"
  unfolding parse_fields.simps(2) field_lines Let_def list_values
  by (simp add: strip_prefix_def parse_print_list)

lemma parse_requires:
  "list_all plain_item xs \<Longrightarrow>
     parse_fields ((''requires_tools: '' @ print_list xs) # ls) sk
       = parse_fields ls (sk\<lparr>sk_requires_tools := xs\<rparr>)"
  unfolding parse_fields.simps(2) field_lines Let_def list_values
  by (simp add: strip_prefix_def parse_print_list)

lemma parse_argument_lines:
  "list_all argument_ok as \<Longrightarrow>
     parse_fields (''arguments:'' # concat (map print_argument as)) sk
       = sk\<lparr>sk_arguments := sk_arguments sk @ as\<rparr>"
  unfolding parse_fields.simps(2) field_lines Let_def
  by (simp add: strip_prefix_def parse_all_arguments parse_fields.simps(1))

lemma parse_print_fields:
  assumes "plain_skill sk"
  shows "parse_fields (print_fields sk) blank_skill = sk\<lparr>sk_body := [], sk_source := None\<rparr>"
proof -
  from assms have name: "plain_text (sk_name sk)" "sk_name sk \<noteq> []"
    and desc: "plain_text (sk_description sk)" "sk_description sk \<noteq> []"
    and lists: "list_all plain_item (sk_tags sk)" "list_all plain_item (sk_requires_tools sk)"
    and args: "list_all argument_ok (sk_arguments sk)"
    by (simp_all add: plain_skill_def argument_ok_def [abs_def])
  show ?thesis
    unfolding print_fields_def parse_name [OF name] parse_skill_description [OF desc]
      parse_tags [OF lists(1)] parse_requires [OF lists(2)] parse_argument_lines [OF args]
    by (cases sk) (simp add: blank_skill_def)
qed


definition demo_skill :: skill where
  "demo_skill = \<lparr>sk_name = ''oracle.skill.test'', sk_description = ''A test skill'',
     sk_tags = [''test'', ''demo''], sk_requires_tools = [''oracle.docs.search''],
     sk_arguments = [\<lparr>ka_name = ''company_code'', ka_description = Some ''BUKRS'', ka_required = True\<rparr>,
       \<lparr>ka_name = ''fiscal_period'', ka_description = None, ka_required = False\<rparr>],
     sk_body = ''Investigate period close for {{company_code}}.'', sk_source = None\<rparr>"

lemma demo_printable: "printable_skill demo_skill"
  by code_simp


text \<open>Rendering goes through the arguments one after the other over what the earlier ones gave: a value
  that holds a later placeholder is itself filled in.\<close>

lemma render_fills_values:
  "render_skill (demo_skill\<lparr>sk_body := ''for {{company_code}}''\<rparr>)
     [''company_code'' \<mapsto> ''{{fiscal_period}}'', ''fiscal_period'' \<mapsto> ''2026-M03''] = ''for 2026-M03''"
  by code_simp

end
