(* ===== verification/Server_Surface.thy ===== *)
theory Server_Surface
  imports Kb_Tools Erp_Tools Oic_Tools Workflow_Tools Skills
begin

text \<open>
  What the server offers (\<open>apps/oracle-automate-server/src\<close>): its resources (\<open>resources.rs\<close>), its
  prompts (\<open>prompts.rs\<close>), the completion of prompt arguments (\<open>register_completers\<close> of \<open>lib.rs\<close>) and
  the server built of all of them (\<open>build_server\<close> and \<open>build_instructions\<close> of \<open>main.rs\<close>,
  \<open>build_test_server\<close> of \<open>lib.rs\<close>).
\<close>

subsection \<open>Resources\<close>

type_synonym ('f, 'e, 'o, 'p, 'l) context_resource =
  "('f, 'e, 'o, 'p, 'l) server_context \<Rightarrow> ('e, 'o, 'p, 'l) tool_world resource_descriptor"

definition text_resource :: "string \<Rightarrow> string \<Rightarrow> string \<Rightarrow> resource_contents list" where
  "text_resource uri mime tx =
     [\<lparr>rc_uri = uri, rc_mime_type = Some mime, rc_text = Some tx, rc_blob = None\<rparr>]"

definition json_resource :: "'f runtime \<Rightarrow> string \<Rightarrow> json \<Rightarrow> resource_contents list" where
  "json_resource rt uri v = text_resource uri ''application/json'' (ru_pretty rt v)"

definition resource_of :: "string \<Rightarrow> string \<Rightarrow> string \<Rightarrow> string \<Rightarrow> mcp_resource" where
  "resource_of uri name description mime =
     \<lparr>re_uri = uri, re_name = name, re_description = Some description, re_mime_type = Some mime\<rparr>"

text \<open>A resource that asks the ERP client: its answer as JSON, or its error.\<close>

definition erp_resource ::
  "'f runtime \<Rightarrow> ('a \<Rightarrow> json) \<Rightarrow> ('e \<Rightarrow> 'a erp_result \<times> 'e) \<Rightarrow> ('e, 'o, 'p, 'l) tool_world resource_handler"
where
  "erp_resource rt enc ask uri w =
     (case on_erp ask w of
        (Inl e, w') \<Rightarrow> (Err (McpOther (erp_error_text e)), w')
      | (Inr a, w') \<Rightarrow> (Ok (json_resource rt uri (enc a)), w'))"

definition make_cache_stats :: "('f, 'e, 'o, 'p, 'l) context_resource" where
  "make_cache_stats cx =
     \<lparr>rd_resource = resource_of ''oracle-cache://stats'' ''REST operation-metadata cache stats''
        (''Live hit/miss counters for the REST operation-metadata cache (a reference ''
         @ ''REST-metadata-cache design pattern). JSON.'')
        ''application/json'',
      rd_handler = (\<lambda>uri w.
        case cx_cache cx of
          None \<Rightarrow> (Err (McpOther ''metadata cache disabled''), w)
        | Some h \<Rightarrow>
            (case hc_stats h (tw_erp w) of (hits, misses, evictions, entries) \<Rightarrow>
               (Ok (json_resource (cx_runtime cx) uri (json_obj
                  [(''hits'', JNat hits), (''misses'', JNat misses), (''entries'', JNat entries),
                   (''evictions'', JNat evictions),
                   (''hit_ratio'', ru_ratio (cx_runtime cx) hits (hits + misses))])), w)))\<rparr>"

definition make_adt_destination :: "('f, 'e, 'o, 'p, 'l) context_resource" where
  "make_adt_destination cx =
     \<lparr>rd_resource = resource_of ''oic-connection://info'' ''ADT destination''
        (''Redacted view of the configured Oracle Integration Cloud (OIC) connection (name, base ''
         @ ''URL, client, language, auth type).'')
        ''application/json'',
      rd_handler = (\<lambda>uri w. (Ok (json_resource (cx_runtime cx) uri (oi_redacted (cx_oic cx))), w))\<rparr>"

definition make_system_info :: "('f, 'e, 'o, 'p, 'l) context_resource" where
  "make_system_info cx =
     \<lparr>rd_resource = resource_of ''oracle-erp://info'' ''Oracle environment identity''
        ''Live SID, client, release, host, and identity. JSON.'' ''application/json'',
      rd_handler = erp_resource (cx_runtime cx) enc_system_info (ec_system_info (cx_erp cx))\<rparr>"

definition make_table_structure :: "string \<Rightarrow> ('f, 'e, 'o, 'p, 'l) context_resource" where
  "make_table_structure table cx =
     \<lparr>rd_resource = resource_of (''oracle-object://'' @ table @ ''/structure'')
        (''DDIC structure of '' @ table) (''Field metadata for SAP table '' @ table @ ''.'')
        ''application/json'',
      rd_handler = erp_resource (cx_runtime cx) enc_table_structure (ec_structure (cx_erp cx) table)\<rparr>"

definition make_rfc_meta :: "string \<Rightarrow> ('f, 'e, 'o, 'p, 'l) context_resource" where
  "make_rfc_meta function cx =
     \<lparr>rd_resource = resource_of (''oracle-rest://'' @ function)
        (''REST operation metadata: '' @ function)
        (''Parameter signature and read-only flag for '' @ function @ ''.'') ''application/json'',
      rd_handler =
        erp_resource (cx_runtime cx) enc_operation_meta (ec_metadata (cx_erp cx) function ''EN'')\<rparr>"

definition make_agents_md :: "('f, 'e, 'o, 'p, 'l) context_resource" where
  "make_agents_md cx =
     \<lparr>rd_resource = resource_of ''agents://guardrails'' ''Agent guardrails''
        ''Project-local AGENTS.md, surfaced from disk on server start.'' ''text/markdown'',
      rd_handler = (\<lambda>uri w. (Ok (text_resource uri ''text/markdown'' (unwrap_or (cx_agents_md cx) [])), w))\<rparr>"

definition resource_tables :: "string list" where
  "resource_tables = [''EGP_SYSTEM_ITEMS_B'', ''GL_LEDGERS'', ''DOO_HEADERS_ALL'']"

definition resource_operations :: "string list" where
  "resource_operations =
     [''fusion.system.serverInformation'', ''fusion.scm.itemsV2.get'',
      ''fusion.gl.journalEntries.post'', ''fusion.doo.salesOrdersForOrderHub.post'',
      ''fusion.bip.runReport'', ''fusion.rest.describe'']"

definition all_resources ::
  "('f, 'e, 'o, 'p, 'l) server_context \<Rightarrow> ('e, 'o, 'p, 'l) tool_world resource_descriptor list" where
  "all_resources cx =
     [make_system_info cx]
     @ map (\<lambda>t. make_table_structure t cx) resource_tables
     @ map (\<lambda>f. make_rfc_meta f cx) resource_operations
     @ [make_adt_destination cx]
     @ (if cx_cache cx \<noteq> None then [make_cache_stats cx] else [])
     @ (if cx_agents_md cx \<noteq> None then [make_agents_md cx] else [])"

subsection \<open>Prompts\<close>

definition user_prompt :: "string \<Rightarrow> string \<Rightarrow> get_prompt_result" where
  "user_prompt description body =
     \<lparr>gr_description = Some description,
      gr_messages = [\<lparr>pm_role = Role_User, pm_content = Text_Content body\<rparr>]\<rparr>"

text \<open>The string arguments of a prompt as a map, and one of them with its default.\<close>

definition string_arguments :: "json option \<Rightarrow> string \<Rightarrow> string option" where
  "string_arguments args k = (case args of Some (JObj m) \<Rightarrow> Option.bind (map_of m k) as_str | _ \<Rightarrow> None)"

definition text_argument :: "json option \<Rightarrow> string \<Rightarrow> string \<Rightarrow> string" where
  "text_argument args k d = unwrap_or (get_str (unwrap_or args (JObj [])) k) d"

definition skill_as_prompt :: "skill \<Rightarrow> 's prompt_descriptor" where
  "skill_as_prompt sk =
     \<lparr>pd_prompt = \<lparr>pr_name = sk_name sk, pr_description = Some (sk_description sk),
        pr_arguments = map (\<lambda>a. \<lparr>pa_name = ka_name a, pa_description = ka_description a,
                                 pa_required = ka_required a\<rparr>) (sk_arguments sk)\<rparr>,
      pd_handler = (\<lambda>args s.
        (Ok (user_prompt (sk_description sk) (render_skill sk (string_arguments args))), s))\<rparr>"

definition review_where_used :: "'s prompt_descriptor" where
  "review_where_used =
     \<lparr>pd_prompt = \<lparr>pr_name = ''oracle.review-where-used'',
        pr_description = Some ''Walk the agent through a where-used analysis before changing an Oracle artifact.'',
        pr_arguments =
          [\<lparr>pa_name = ''object'', pa_description = Some ''Object name'', pa_required = True\<rparr>,
           \<lparr>pa_name = ''kind'',
            pa_description = Some ''Artifact kind (integration | groovy_script | connection | ...)'',
            pa_required = False\<rparr>]\<rparr>,
      pd_handler = (\<lambda>args s.
        (let object = text_argument args ''object'' ''<OBJECT>'';
             kind = text_argument args ''kind'' ''Class'' in
         (Ok (user_prompt ''Where-used review before changing or deleting an Oracle artifact.''
            (''Before changing or deleting ''
             @ kind
             @ '' ''
             @ object
             @ '', run oracle.oic.where_used and reason carefully about the impact.'' @ [newline]
             @ [newline]
             @ ''Steps:'' @ [newline]
             @ ''1. Call oracle.oic.where_used with name=''
             @ object
             @ '', kind=''
             @ to_lowercase kind
             @ '' to enumerate every invoker / dependent / reference site.'' @ [newline]
             @ ''2. For each hit, group by ownership (project, package) using ''
             @ ''oracle.oic.get_project_contents on the parent.'' @ [newline]
             @ ''3. Identify which of those dependents are themselves on a hot path (use ''
             @ ''oracle.docs.search to cross-reference business processes).'' @ [newline]
             @ ''4. Produce a 3-section report: Direct dependents, Indirect dependents, Recommended ''
             @ ''pre-change checks (regression tests, sandboxes to coordinate).'' @ [newline]
             @ [newline]
             @ ''Cite every claim by its source URI (oracle-rest://, oracle-object://, or ''
             @ ''oracle-help://).'')), s)))\<rparr>"

definition review_rfc_call :: "(json \<Rightarrow> string) \<Rightarrow> 's prompt_descriptor" where
  "review_rfc_call pretty =
     \<lparr>pd_prompt = \<lparr>pr_name = ''oracle.review-rest-call'',
        pr_description = Some ''Pre-flight review of a proposed oracle.rest.call invocation.'',
        pr_arguments =
          [\<lparr>pa_name = ''function'', pa_description = Some ''REST operation name'', pa_required = True\<rparr>,
           \<lparr>pa_name = ''parameters'', pa_description = Some ''Parameters object'', pa_required = False\<rparr>]\<rparr>,
      pd_handler = (\<lambda>args s.
        (let function = text_argument args ''function'' ''<UNKNOWN>'';
             parameters = unwrap_or (jget (unwrap_or args (JObj [])) ''parameters'') (JObj []) in
         (Ok (user_prompt ''Pre-execution review of a proposed oracle.rest.call''
            (''Review the following proposed Oracle REST call before execution. Confirm it is the ''
             @ ''right function for the user'' @ [CHR 0x27] @ ''s intent, that every required parameter is present and ''
             @ ''well-typed, that the parameter values are realistic for the target environment, and ''
             @ ''that the side-effects are acceptable. Cite the source for each claim.'' @ [newline]
             @ [newline]
             @ ''Function: ''
             @ function
             @ [newline]
             @ ''Parameters:'' @ [newline]
             @ pretty parameters
             @ [newline]
             @ [newline]
             @ ''If safe, summarise what the call will do, the affected tables, and the user-visible ''
             @ ''result. If unsafe, identify the specific risk and propose a safer alternative.'')), s)))\<rparr>"

definition sandbox_impact_analysis :: "'s prompt_descriptor" where
  "sandbox_impact_analysis =
     \<lparr>pd_prompt = \<lparr>pr_name = ''oracle.sandbox-impact-analysis'',
        pr_description = Some ''Multi-tool cross-domain impact analysis before publishing a configuration sandbox.'',
        pr_arguments =
          [\<lparr>pa_name = ''sandbox'', pa_description = Some ''Sandbox name (e.g. GT_AR_AUTOINVOICE_FIX)'',
            pa_required = True\<rparr>,
           \<lparr>pa_name = ''scope'', pa_description = Some ''Target pod (PRODUCTION / QA / DEV)'',
            pa_required = False\<rparr>]\<rparr>,
      pd_handler = (\<lambda>args s.
        (let sandbox = text_argument args ''sandbox'' ''<SANDBOX>'';
             scope = text_argument args ''scope'' ''PRODUCTION'' in
         (Ok (user_prompt ''Cross-domain impact analysis before publishing a configuration sandbox''
            (''Analyse the impact of publishing configuration sandbox ''
             @ sandbox
             @ '' to the ''
             @ scope
             @ '' pod.'' @ [newline]
             @ [newline]
             @ ''Steps:'' @ [newline]
             @ ''1. Use oracle.docs.search to find related Oracle Help Center content for the objects ''
             @ ''the sandbox touches.'' @ [newline]
             @ ''2. Use oracle.oic.where_used / oracle.rest.search to find integrations and REST ''
             @ ''resources that reference the changed artifacts.'' @ [newline]
             @ ''3. Use oracle.object.read on FND_SANDBOXES to enumerate the sandbox'' @ [CHR 0x27] @ ''s contents and ''
             @ ''status.'' @ [newline]
             @ ''4. Use eam.search_apps to enumerate downstream applications in the portfolio.'' @ [newline]
             @ ''5. Produce a 3-section report: Direct impact, Indirect impact, Recommended ''
             @ ''pre-publish checks (validation run, dependent sandboxes, FSM configuration-package ''
             @ ''coordination).'' @ [newline]
             @ [newline]
             @ ''Cite every claim by its source URI.'')), s)))\<rparr>"

definition all_prompts :: "(json \<Rightarrow> string) \<Rightarrow> skill_registry \<Rightarrow> 's prompt_descriptor list" where
  "all_prompts pretty skills =
     [review_rfc_call pretty, sandbox_impact_analysis, review_where_used]
     @ map skill_as_prompt (registry_skills skills)"

subsection \<open>Completion\<close>

definition options_starting :: "string list \<Rightarrow> completer" where
  "options_starting options start typed =
     filter (\<lambda>x. starts_with (to_lowercase x) (to_lowercase start)) options"

definition register_completers :: "'s server_builder \<Rightarrow> 's server_builder" where
  "register_completers b =
     add_completer ''oracle.skill.analytics_migration'' ''target_release''
       (options_starting [''Fusion Analytics Warehouse'', ''Oracle Analytics Cloud'',
          ''Autonomous Data Warehouse'', ''OTBI'', ''BICC extract''])
     (add_completer ''oracle.skill.custom_code_review'' ''kind''
       (options_starting [''integration'', ''groovy_script'', ''connection'', ''bip_report''])
     (add_completer ''oracle.skill.security_sod_audit'' ''scope''
       (options_starting [''user'', ''role'', ''system'']) b))"

subsection \<open>The server\<close>

definition sap_tools ::
  "('f, 'e, 'o, 'p, 'l) server_context \<Rightarrow> ('e, 'o, 'p, 'l) tool_world tool_descriptor list" where
  "sap_tools cx =
     [tool_system_info cx, tool_system_health cx, tool_system_cache_stats cx,
      tool_system_cache_invalidate cx, tool_rfc_search cx, tool_rfc_metadata cx,
      tool_rfc_bulk_metadata cx, tool_rfc_call cx, tool_table_read cx, tool_table_structure cx,
      tool_docs_search cx, tool_bapi_parse_return cx, tool_bp_search cx, tool_bp_get cx]"

definition all_tools ::
  "('f, 'e, 'o, 'p, 'l) server_context \<Rightarrow> ('e, 'o, 'p, 'l) tool_world tool_descriptor list" where
  "all_tools cx = rag_tools cx @ sap_tools cx @ adt_tools cx @ graph_tools cx @ workflow_tools cx"

definition build_instructions :: "string option \<Rightarrow> bool \<Rightarrow> string" where
  "build_instructions agents_md read_only =
     (''Oracle-Automate MCP server (Phase 2 + ADT). Tool groups:'' @ [newline]
      @ ''- RAG search: integration.search, bpmn.find_process, eam.search_apps, ''
      @ ''oracle.help.search, oracle.docs.search.'' @ [newline]
      @ ''- REST operation + tables: oracle.system.info, oracle.system.health, ''
      @ ''oracle.system.cache_stats, oracle.system.cache_invalidate, oracle.rest.search, ''
      @ ''oracle.rest.metadata, oracle.rest.bulk_metadata, oracle.rest.call, ''
      @ ''oracle.object.read, oracle.object.structure.'' @ [newline]
      @ ''- OIC/custom-code ADT (read-only): oracle.oic.get_integration, ''
      @ ''oracle.oic.get_groovy_script, oracle.oic.get_ess_job, oracle.oic.get_connection, ''
      @ ''oracle.oic.get_lookup, oracle.oic.get_project_contents, oracle.oic.get_bip_report, ''
      @ ''oracle.oic.where_used, oracle.oic.search, oracle.oic.preview_data.'' @ [newline]
      @ ''- OIC/custom-code ADT (write): oracle.oic.activate (hidden in read-only mode).'' @ [newline]
      @ ''Resources: oracle-erp://info, oracle-rest://{name}, oracle-object://{name}/structure, ''
      @ ''oic-connection://info, oracle-cache://stats, agents://guardrails.'' @ [newline]
      @ ''Prompts: oracle.review-rest-call, oracle.sandbox-impact-analysis, ''
      @ ''oracle.review-where-used.'' @ [newline])
     @ (if read_only then
          (''Mode: READ-ONLY. Write-side RFCs (e.g. BAPI_SALESORDER_CREATEFROMDAT2, ''
           @ ''BAPI_ACC_DOCUMENT_POST) are blocked. Pass --enable-writes to allow.'' @ [newline])
        else (''Mode: WRITE-ENABLED. Treat every oracle.rest.call invocation as authorised.'' @ [newline]))
     @ (case agents_md of
          Some md \<Rightarrow> [newline] @ ''--- AGENTS.md guardrails ---'' @ [newline] @ md
        | None \<Rightarrow> [])"

definition policy_of :: "bool \<Rightarrow> exposure_policy" where
  "policy_of read_only = (if read_only then Read_Only_Only else Expose_All)"

text \<open>The registrations both builders make, in their order.\<close>

definition register_surface ::
  "('f, 'e, 'o, 'p, 'l) server_context \<Rightarrow> skill_registry \<Rightarrow> ('e, 'o, 'p, 'l) tool_world server_builder
     \<Rightarrow> ('e, 'o, 'p, 'l) tool_world server_builder" where
  "register_surface cx skills b =
     register_completers
       (foldl (\<lambda>b d. add_prompt d b)
         (foldl (\<lambda>b d. add_resource d b)
           (foldl (\<lambda>b d. add_tool d b) b (all_tools cx))
           (all_resources cx))
         (all_prompts (ru_pretty (cx_runtime cx)) skills))"

definition CARGO_PKG_VERSION :: string where "CARGO_PKG_VERSION = ''1.4.0''"

definition build_server ::
  "('f, 'e, 'o, 'p, 'l) server_context \<Rightarrow> string option \<Rightarrow> bool \<Rightarrow> skill_registry
     \<Rightarrow> ('e, 'o, 'p, 'l) tool_world server" where
  "build_server cx agents_md read_only skills =
     build (register_surface cx skills
       (set_instructions (build_instructions agents_md read_only)
         (set_exposure (policy_of read_only)
           (builder_new ''oracle-automate-server'' CARGO_PKG_VERSION))))"

definition build_test_surface ::
  "('f, 'e, 'o, 'p, 'l) server_context \<Rightarrow> ('e, 'o, 'p, 'l) tool_world server" where
  "build_test_surface cx =
     build (register_surface cx []
       (set_instructions ''integration test''
         (set_exposure (policy_of (cx_read_only cx))
           (builder_new ''oracle-automate-test-server'' CARGO_PKG_VERSION))))"


end
