(* ===== verification/Oic_Http.thy ===== *)
theory Oic_Http
  imports Oic_Client
begin

text \<open>
  Destinations and the live artifact client (\<open>destination.rs\<close> and \<open>http.rs\<close> in
  \<open>crates/oracle-automate-adt/src\<close>). Sending a request is \<open>reqwest\<close>'s, the parameter \<open>send\<close> on the
  state of the outside world; reading files and TOML are parameters of the loader. \<open>status_text\<close> is how
  a status code is displayed, \<open>disp\<close> and \<open>pretty\<close> how a JSON value is rendered.
\<close>

subsection \<open>Destinations\<close>

datatype oic_auth =
    Auth_Basic string string
  | Auth_Bearer string
  | Auth_Service_Key string
  | Auth_Certificate string string
  | Auth_Mock

fun auth_type_label :: "oic_auth \<Rightarrow> string" where
  "auth_type_label (Auth_Basic _ _) = ''basic''"
| "auth_type_label (Auth_Bearer _) = ''bearer''"
| "auth_type_label (Auth_Service_Key _) = ''service_key''"
| "auth_type_label (Auth_Certificate _ _) = ''certificate''"
| "auth_type_label Auth_Mock = ''mock''"

definition oic_auth_debug :: "oic_auth \<Rightarrow> string" where
  "oic_auth_debug a = ''OicAuth::'' @ auth_type_label a"

record oic_destination =
  de_name :: string
  de_base_url :: string
  de_client :: string
  de_language :: string
  de_auth :: oic_auth
  de_timeout_ms :: nat

definition default_timeout_ms :: nat where "default_timeout_ms = 30000"

definition mock_destination :: "string \<Rightarrow> oic_destination" where
  "mock_destination name =
     \<lparr>de_name = name, de_base_url = ''https://mock.fa.oraclecloud.com'', de_client = ''100'',
      de_language = ''EN'', de_auth = Auth_Mock, de_timeout_ms = default_timeout_ms\<rparr>"

definition oic_redacted :: "oic_destination \<Rightarrow> json" where
  "oic_redacted d = json_obj
     [(''name'', JStr (de_name d)), (''base_url'', JStr (de_base_url d)),
      (''client'', JStr (de_client d)), (''language'', JStr (de_language d)),
      (''auth_type'', JStr (auth_type_label (de_auth d)))]"

text \<open>The search path of a named destination. A path is joined with a slash;
  an absolute one replaces what it is joined to.\<close>

definition path_join :: "string \<Rightarrow> string \<Rightarrow> string" where
  "path_join a b = (if a = [] \<or> starts_with b ''/'' then b else if last a = CHR ''/'' then a @ b else a @ ''/'' @ b)"

definition build_search_paths :: "string \<Rightarrow> string option \<Rightarrow> string option \<Rightarrow> string list" where
  "build_search_paths name dir_override config_home =
     (let file = name @ ''.toml'' in
      (case dir_override of Some dir \<Rightarrow> [path_join dir file] | None \<Rightarrow> [])
      @ [path_join ''./.oracle-automate/destinations'' file]
      @ (case config_home of
           Some base \<Rightarrow> [path_join (path_join base ''oracle-automate/destinations'') file]
         | None \<Rightarrow> []))"

definition non_empty_env :: "(string \<Rightarrow> string option) \<Rightarrow> string \<Rightarrow> string option" where
  "non_empty_env env k = (case env k of Some s \<Rightarrow> if s = [] then None else Some s | None \<Rightarrow> None)"

definition config_search_paths :: "(string \<Rightarrow> string option) \<Rightarrow> string \<Rightarrow> string list" where
  "config_search_paths env name =
     build_search_paths name (non_empty_env env ''ORACLE_AUTOMATE_DESTINATION_DIR'')
       (case non_empty_env env ''XDG_CONFIG_HOME'' of
          Some h \<Rightarrow> Some h
        | None \<Rightarrow> map_option (\<lambda>h. path_join h ''.config'') (env ''HOME''))"

text \<open>\<open>read_file\<close> reads a file, or says why it cannot; \<open>toml\<close> reads a destination out of its text.\<close>

definition load_from_path ::
  "(string \<Rightarrow> string + string) \<Rightarrow> (string \<Rightarrow> oic_destination option) \<Rightarrow> string \<Rightarrow> string
     \<Rightarrow> oic_destination oic_result" where
  "load_from_path read_file toml path name =
     (case read_file path of
        Inl e \<Rightarrow> Err (OE_Internal (''read destination '' @ path @ '': '' @ e))
      | Inr raw \<Rightarrow>
          (case toml raw of
             None \<Rightarrow> Err (OE_Internal (''destination '' @ path
               @ '' is not valid TOML (syntax error; detail withheld to avoid logging credential lines)''))
           | Some d \<Rightarrow> Ok (d\<lparr>de_name := name\<rparr>)))"

definition load_destination ::
  "(string \<Rightarrow> string option) \<Rightarrow> (string \<Rightarrow> bool) \<Rightarrow> (string \<Rightarrow> string + string)
     \<Rightarrow> (string \<Rightarrow> oic_destination option) \<Rightarrow> string \<Rightarrow> oic_destination oic_result" where
  "load_destination env is_file read_file toml name =
     (case find is_file (config_search_paths env name) of
        Some path \<Rightarrow> load_from_path read_file toml path name
      | None \<Rightarrow> Err (OE_NotFound ''Destination'' name))"

subsection \<open>Requests\<close>

datatype oic_method = OIC_GET | OIC_POST

record oic_request =
  or_method :: oic_method
  or_url :: string
  or_auth :: "oic_auth option"

record oic_response =
  os_status :: nat
  os_body :: "string + json"

type_synonym 'w oic_send = "oic_request \<Rightarrow> 'w \<Rightarrow> (string + oic_response) \<times> 'w"

definition oic_url :: "oic_destination \<Rightarrow> string \<Rightarrow> string" where
  "oic_url d path = trim_end_char (CHR ''/'') (de_base_url d) @ path"

definition authed :: "oic_destination \<Rightarrow> oic_auth option" where
  "authed d =
     (case de_auth d of
        Auth_Basic u p \<Rightarrow> Some (Auth_Basic u p) | Auth_Bearer t \<Rightarrow> Some (Auth_Bearer t) | _ \<Rightarrow> None)"

definition is_success :: "nat \<Rightarrow> bool" where
  "is_success s \<longleftrightarrow> 200 \<le> s \<and> s < 300"

definition transport_err :: "oic_destination \<Rightarrow> string \<Rightarrow> oic_error" where
  "transport_err d e = OE_DestinationDown (de_base_url d) e"

definition get_json ::
  "(nat \<Rightarrow> string) \<Rightarrow> oic_destination \<Rightarrow> 'w oic_send \<Rightarrow> string \<Rightarrow> 'w \<Rightarrow> json oic_result \<times> 'w" where
  "get_json status_text d send path w =
     (let url = oic_url d path in
      case send \<lparr>or_method = OIC_GET, or_url = url, or_auth = authed d\<rparr> w of
        (Inl e, w') \<Rightarrow> (Err (transport_err d e), w')
      | (Inr resp, w') \<Rightarrow>
          (let s = os_status resp in
           (if is_success s then
              (case os_body resp of
                 Inr v \<Rightarrow> Ok v
               | Inl e \<Rightarrow> Err (OE_Internal (''invalid JSON from '' @ url @ '': '' @ e)))
            else if s = 404 then Err (OE_NotFound ''artifact'' path)
            else if s = 401 \<or> s = 403 then Err (OE_AuthFailed (status_text s @ '' on '' @ url))
            else Err (OE_Internal (''unexpected '' @ status_text s @ '' from '' @ url)), w')))"

text \<open>\<open>get(a).or_else(|| get(b))\<close>.\<close>

definition jget_or :: "json \<Rightarrow> string \<Rightarrow> string \<Rightarrow> json option" where
  "jget_or v a b = (case jget v a of Some x \<Rightarrow> Some x | None \<Rightarrow> jget v b)"

fun value_to_text :: "(json \<Rightarrow> string) \<Rightarrow> json \<Rightarrow> string" where
  "value_to_text disp (JStr s) = s"
| "value_to_text disp v = disp v"

definition artifact_of :: "(json \<Rightarrow> string) \<Rightarrow> (json \<Rightarrow> string) \<Rightarrow> artifact_kind \<Rightarrow> string \<Rightarrow> json
     \<Rightarrow> program_source" where
  "artifact_of disp pretty kind name body =
     (let source = (case (case jget body ''code'' of Some x \<Rightarrow> Some x | None \<Rightarrow> jget_or body ''content'' ''source'') of
                      Some v \<Rightarrow> value_to_text disp v | None \<Rightarrow> pretty body)
      in \<lparr>pg_name = name, pg_kind = kind,
          pg_package = Option.bind (jget_or body ''project'' ''package'') as_str,
          pg_description = get_str body ''description'', pg_source = source,
          pg_active = (case get_str body ''status'' of
                         Some s \<Rightarrow> eq_ignore_ascii_case s ''ACTIVATED'' \<or> eq_ignore_ascii_case s ''ACTIVE''
                       | None \<Rightarrow> True),
          pg_line_count = length (lines_of source)\<rparr>)"

definition fetch_artifact ::
  "(nat \<Rightarrow> string) \<Rightarrow> (json \<Rightarrow> string) \<Rightarrow> (json \<Rightarrow> string) \<Rightarrow> oic_destination \<Rightarrow> 'w oic_send
     \<Rightarrow> artifact_kind \<Rightarrow> string \<Rightarrow> 'w \<Rightarrow> program_source oic_result \<times> 'w" where
  "fetch_artifact st disp pretty d send kind name w =
     (case get_json st d send (oic_path kind name) w of
        (r, w') \<Rightarrow> (map_sum id (artifact_of disp pretty kind name) r, w'))"

text \<open>The name of an item of a listing.\<close>

definition item_name :: "json \<Rightarrow> string option" where
  "item_name m = Option.bind (jget_or m ''code'' ''name'') as_str"

definition contents_of :: "string \<Rightarrow> json \<Rightarrow> project_contents" where
  "contents_of package body =
     \<lparr>pk_package = package, pk_description = get_str body ''description'',
      pk_members = (case Option.bind (jget_or body ''integrations'' ''members'') as_array of
        Some arr \<Rightarrow> List.map_filter (\<lambda>m. map_option (\<lambda>n.
            \<lparr>pm_name = n, pm_kind = OA_Integration, pm_description = get_str m ''description''\<rparr>)
            (item_name m)) arr
      | None \<Rightarrow> [])\<rparr>"

definition http_get_project_contents ::
  "(nat \<Rightarrow> string) \<Rightarrow> oic_destination \<Rightarrow> 'w oic_send \<Rightarrow> string \<Rightarrow> 'w \<Rightarrow> project_contents oic_result \<times> 'w" where
  "http_get_project_contents st d send package w =
     (case get_json st d send (oic_path OA_Project package) w of
        (r, w') \<Rightarrow> (map_sum id (contents_of package) r, w'))"

definition report_of :: "(json \<Rightarrow> string) \<Rightarrow> string \<Rightarrow> json \<Rightarrow> bip_report" where
  "report_of disp name body =
     (let source = unwrap_or (map_option (value_to_text disp) (jget_or body ''dataModel'' ''sql'')) []
      in \<lparr>br_name = name, br_source = source,
          br_root_entity = unwrap_or (get_str body ''dataSource'') [], br_annotations = body,
          br_line_count = length (lines_of source)\<rparr>)"

definition http_get_bip_report ::
  "(nat \<Rightarrow> string) \<Rightarrow> (json \<Rightarrow> string) \<Rightarrow> oic_destination \<Rightarrow> 'w oic_send \<Rightarrow> string \<Rightarrow> 'w
     \<Rightarrow> bip_report oic_result \<times> 'w" where
  "http_get_bip_report st disp d send name w =
     (case get_json st d send (oic_path OA_BipReport name) w of
        (r, w') \<Rightarrow> (map_sum id (report_of disp name) r, w'))"

definition search_items :: "oic_search_request \<Rightarrow> json \<Rightarrow> oic_search_hit list" where
  "search_items req body =
     (case Option.bind (jget body ''items'') as_array of
        Some arr \<Rightarrow> List.map_filter (\<lambda>it. map_option (\<lambda>n.
            \<lparr>oh_name = n, oh_kind = unwrap_or (oq_kind req) OA_Integration,
             oh_description = get_str it ''description'', oh_package = get_str it ''project'',
             oh_score = 1\<rparr>) (item_name it)) (take (max (oq_max_results req) 1) arr)
      | None \<Rightarrow> [])"

definition http_oic_search ::
  "(nat \<Rightarrow> string) \<Rightarrow> oic_destination \<Rightarrow> 'w oic_send \<Rightarrow> oic_search_request \<Rightarrow> 'w
     \<Rightarrow> oic_search_hit list oic_result \<times> 'w" where
  "http_oic_search st d send req w =
     (case get_json st d send
        (''/ic/api/integration/v1/integrations?q={name:''
           @ in_quotes (filter (\<lambda>c. c \<noteq> CHR 0x27) (oq_query req)) @ ''}'') w of
        (r, w') \<Rightarrow> (map_sum id (search_items req) r, w'))"

definition usage_resource :: "artifact_kind \<Rightarrow> string" where
  "usage_resource k =
     (case k of OA_Connection \<Rightarrow> ''connections'' | OA_Lookup \<Rightarrow> ''lookups'' | _ \<Rightarrow> ''integrations'')"

definition usage_items :: "json \<Rightarrow> where_used_hit list" where
  "usage_items body =
     (case Option.bind (jget body ''items'') as_array of
        Some arr \<Rightarrow> List.map_filter (\<lambda>it. map_option (\<lambda>n.
            \<lparr>wu_object = n, wu_kind = OA_Integration,
             wu_location = unwrap_or (get_str it ''usage'') ''invoke'', wu_usage = ''invoke''\<rparr>)
            (item_name it)) arr
      | None \<Rightarrow> [])"

text \<open>A request that failed counts as an empty answer here.\<close>

definition http_where_used ::
  "(nat \<Rightarrow> string) \<Rightarrow> oic_destination \<Rightarrow> 'w oic_send \<Rightarrow> where_used_request \<Rightarrow> 'w
     \<Rightarrow> where_used_hit list oic_result \<times> 'w" where
  "http_where_used st d send req w =
     (case get_json st d send
        (''/ic/api/integration/v1/'' @ usage_resource (wr_kind req) @ ''/'' @ wr_name req @ ''/usages'') w of
        (r, w') \<Rightarrow> (Ok (usage_items (case r of Inr v \<Rightarrow> v | Inl _ \<Rightarrow> JNull)), w'))"

definition http_preview_data :: "string \<Rightarrow> nat \<Rightarrow> json_map list oic_result" where
  "http_preview_data table max_rows =
     (if max_rows = 0 \<or> MAX_TABLE_ROWS < max_rows then Err (bad_max_rows max_rows)
      else Err (OE_DataPreviewBlocked (''object '' @ table
        @ '' is not exposed for direct REST preview; use a BI Publisher extract (oracle.bip.runReport)'')))"

definition http_activate ::
  "(nat \<Rightarrow> string) \<Rightarrow> oic_destination \<Rightarrow> 'w oic_send \<Rightarrow> activation_request \<Rightarrow> bool \<Rightarrow> 'w
     \<Rightarrow> activation_outcome oic_result \<times> 'w" where
  "http_activate st d send req read_only w =
     (if read_only then (Err (activation_blocked req), w)
      else
        (case send \<lparr>or_method = OIC_POST,
                   or_url = oic_url d (''/ic/api/integration/v1/integrations/'' @ aq_name req
                     @ ''?integrationInstruction=activate''),
                   or_auth = authed d\<rparr> w of
           (Inl e, w') \<Rightarrow> (Err (transport_err d e), w')
         | (Inr resp, w') \<Rightarrow>
             (let ok = is_success (os_status resp) in
              (Ok \<lparr>ao_name = aq_name req, ao_kind = aq_kind req, ao_activated = ok,
                   ao_messages = [artifact_label (aq_kind req) @ '' '' @ aq_name req @ '' activation ''
                     @ (if ok then ''succeeded'' else ''failed'') @ '' ('' @ st (os_status resp) @ '')'']\<rparr>,
               w'))))"

definition http_oic_client ::
  "(nat \<Rightarrow> string) \<Rightarrow> (json \<Rightarrow> string) \<Rightarrow> (json \<Rightarrow> string) \<Rightarrow> oic_destination \<Rightarrow> 'w oic_send \<Rightarrow> 'w oic_client"
where
  "http_oic_client st disp pretty d send =
     (let fetch = fetch_artifact st disp pretty d send in
      \<lparr>oi_redacted = oic_redacted d,
       oi_get_integration = fetch OA_Integration,
       oi_get_groovy_script = fetch OA_GroovyScript,
       oi_get_connection = fetch OA_Connection,
       oi_get_lookup = fetch OA_Lookup,
       oi_get_ess_job = (\<lambda>_ n. fetch OA_EssJob n),
       oi_get_project_contents = http_get_project_contents st d send,
       oi_get_bip_report = http_get_bip_report st disp d send,
       oi_search = http_oic_search st d send,
       oi_where_used = http_where_used st d send,
       oi_preview_data = (\<lambda>t k w. (http_preview_data t k, w)),
       oi_activate = http_activate st d send\<rparr>)"

subsection \<open>The client keeps its contract\<close>

text \<open>What was sent is logged; a write is a request that is not a GET.\<close>

definition oic_logging :: "'w oic_send \<Rightarrow> ('w \<times> oic_request list) oic_send" where
  "oic_logging send req w = (case send req (fst w) of (r, w') \<Rightarrow> (r, w', snd w @ [req]))"

definition sent_writes :: "'w \<times> oic_request list \<Rightarrow> oic_request list" where
  "sent_writes w = filter (\<lambda>r. or_method r \<noteq> OIC_GET) (snd w)"

lemma get_json_writes [simp]:
  "get_json st d (oic_logging send) path w = (r, w') \<Longrightarrow> sent_writes w' = sent_writes w"
  by (auto simp: get_json_def oic_logging_def sent_writes_def Let_def split: sum.splits prod.splits)

lemma http_reads_write_nothing [simp]:
  "sent_writes (snd (fetch_artifact st disp pretty d (oic_logging send) k n w)) = sent_writes w"
  "sent_writes (snd (http_get_project_contents st d (oic_logging send) n w)) = sent_writes w"
  "sent_writes (snd (http_get_bip_report st disp d (oic_logging send) n w)) = sent_writes w"
  "sent_writes (snd (http_oic_search st d (oic_logging send) q w)) = sent_writes w"
  "sent_writes (snd (http_where_used st d (oic_logging send) u w)) = sent_writes w"
  by (simp_all add: fetch_artifact_def http_get_project_contents_def http_get_bip_report_def
      http_oic_search_def http_where_used_def split: prod.split)

interpretation http_oic: oic_backend "http_oic_client st disp pretty d (oic_logging send)" sent_writes
  for st disp pretty d and send :: "'w oic_send"
  by unfold_locales (simp_all add: http_oic_client_def Let_def http_activate_def)

text \<open>A read-only session at the live artifact surface only reads: whatever operations are asked for,
  activations included, every request sent is a GET; without the flag an activation sends exactly one
  POST, to the integration of the name, whatever kind of artifact was named.\<close>

lemma read_only_oic_session_only_gets:
  "list_all (\<lambda>r. or_method r = OIC_GET)
     (snd (fold (oic_after (http_oic_client st disp pretty d (oic_logging send)) True) ops (w, [])))
   \<and> sent_writes (oic_after (http_oic_client st disp pretty d (oic_logging send)) False
        (Op_Activate \<lparr>aq_name = n, aq_kind = k\<rparr>) (w, []))
      = [\<lparr>or_method = OIC_POST,
          or_url = oic_url d (oic_path OA_Integration n @ ''?integrationInstruction=activate''),
          or_auth = authed d\<rparr>]"
proof
  let ?w = "fold (oic_after (http_oic_client st disp pretty d (oic_logging send)) True) ops (w, [])"
  have "sent_writes ?w = []"
    by (subst http_oic.session_writes) (simp add: sent_writes_def)
  then show "list_all (\<lambda>r. or_method r = OIC_GET) (snd ?w)"
    by (simp add: sent_writes_def filter_empty_conv list_all_iff)
  show "sent_writes (oic_after (http_oic_client st disp pretty d (oic_logging send)) False
        (Op_Activate \<lparr>aq_name = n, aq_kind = k\<rparr>) (w, []))
      = [\<lparr>or_method = OIC_POST,
          or_url = oic_url d (oic_path OA_Integration n @ ''?integrationInstruction=activate''),
          or_auth = authed d\<rparr>]"
    by (simp add: http_oic_client_def Let_def http_activate_def oic_logging_def sent_writes_def
        split: prod.split sum.split)
qed

text \<open>The answer of a server to one request.\<close>

definition answering :: "string + oic_response \<Rightarrow> 'w oic_send" where
  "answering r req w = (r, w)"

text \<open>How a failure of the live surface comes back: an unreachable pod is a transient error, a
  missing artifact, a refused login, an unreadable body and any other status are permanent ones with
  their own codes; but the usages of an artifact are then reported as none, as if it were not used.\<close>

lemma oic_failures_classified:
  "map_sum oic_error_code_of id (fst (get_json st d (answering (Inl e)) path w)) = Inl OC_DestinationDown
   \<and> oic_is_transient (transport_err d e)
   \<and> map_sum oic_error_code_of id (fst (get_json st d (answering (Inr \<lparr>os_status = s, os_body = b\<rparr>)) path w))
      = (if is_success s then (case b of Inr v \<Rightarrow> Inr v | Inl _ \<Rightarrow> Inl OC_Internal)
         else if s = 404 then Inl OC_NotFound
         else if s \<in> {401, 403} then Inl OC_AuthFailed else Inl OC_Internal)
   \<and> fst (http_where_used st d (answering (Inl e)) req w) = Inr []
   \<and> (is_success s \<or> fst (http_where_used st d (answering (Inr \<lparr>os_status = s, os_body = b\<rparr>)) req w) = Inr [])"
  by (auto simp: get_json_def answering_def transport_err_def oic_is_transient_def
      oic_code_is_transient_def http_where_used_def usage_items_def Let_def split: sum.split)

text \<open>Credentials of a destination do not get out: what is shown of a destination depends on the kind
  of its credentials only; a destination file that is not TOML gives an error that does not depend on
  its contents; and the file used is the first of the search path that exists, under the name asked
  for, an override directory coming first.\<close>

lemma destination_secrets_withheld:
  "(let shown = (\<lambda>a. (oic_redacted (d\<lparr>de_auth := a\<rparr>), oic_auth_debug a)) in
      shown (Auth_Basic u p) = shown (Auth_Basic u' p') \<and> shown (Auth_Bearer t) = shown (Auth_Bearer t')
      \<and> shown (Auth_Service_Key t) = shown (Auth_Service_Key t')
      \<and> shown (Auth_Certificate u p) = shown (Auth_Certificate u' p'))
   \<and> load_from_path (\<lambda>_. Inr raw) (\<lambda>_. None) path name
      = load_from_path (\<lambda>_. Inr raw') (\<lambda>_. None) path name
   \<and> load_destination env is_file rf toml name
      = (case filter is_file (config_search_paths env name) of
           [] \<Rightarrow> Err (OE_NotFound ''Destination'' name)
         | path # _ \<Rightarrow> load_from_path rf toml path name)
   \<and> map_sum id de_name (load_from_path (\<lambda>_. Inr raw) (\<lambda>_. Some d) path name) = Inr name
   \<and> hd (build_search_paths name (Some dir) h) = path_join dir (name @ ''.toml'')"
proof -
  have find: "find P xs = (case filter P xs of [] \<Rightarrow> None | x # _ \<Rightarrow> Some x)" for P and xs :: "string list"
    by (induction xs) auto
  show ?thesis
    by (simp add: oic_redacted_def oic_auth_debug_def load_from_path_def load_destination_def find
        build_search_paths_def Let_def split: list.split)
qed

end
