(* ===== verification/Server_Safety.thy ===== *)
theory Server_Safety
  imports Server_Surface Oic_Http
begin

text \<open>
  What a read-only server can do, all its parts together: the messages it is sent
  (\<open>mcp-server/src/server.rs\<close>), its tools, resources and prompts (\<open>apps/oracle-automate-server/src\<close>), the
  live ERP client over the metadata cache over the catalogue, the live artifact client and the party
  client. The contracts of the clients are locales; \<open>live_context\<close> is the context \<open>main.rs\<close> builds
  for a pod.
\<close>

subsection \<open>What serving messages keeps\<close>

definition keeps :: "('s \<Rightarrow> bool) \<Rightarrow> ('s \<Rightarrow> 'r \<times> 's) \<Rightarrow> bool" where
  "keeps good f \<longleftrightarrow> (\<forall>s. good s \<longrightarrow> good (snd (f s)))"

lemma keepsI: "(\<And>s. good s \<Longrightarrow> good (snd (f s))) \<Longrightarrow> keeps good f"
  by (simp add: keeps_def)

lemma keepsD: "keeps good f \<Longrightarrow> f s = (r, s') \<Longrightarrow> good s \<Longrightarrow> good s'"
  unfolding keeps_def by (metis snd_conv)

text \<open>A server is guarded when everything it can run keeps a property of the outside world.\<close>

locale guarded_server =
  fixes srv :: "'s server" and good :: "'s \<Rightarrow> bool"
  assumes tools_keep: "list_all (\<lambda>(_, d). \<forall>v. keeps good (td_handler d v)) (sx_tools srv)"
    and resources_keep: "list_all (\<lambda>(_, d). \<forall>uri. keeps good (rd_handler d uri)) (sx_resources srv)"
    and prompts_keep: "list_all (\<lambda>(_, d). \<forall>a. keeps good (pd_handler d a)) (sx_prompts srv)"
begin

lemma tool_keeps: "map_of (sx_tools srv) n = Some d \<Longrightarrow> keeps good (td_handler d v)"
  using tools_keep by (auto simp: list_all_iff dest!: map_of_SomeD)

lemma resource_keeps: "map_of (sx_resources srv) n = Some d \<Longrightarrow> keeps good (rd_handler d uri)"
  using resources_keep by (auto simp: list_all_iff dest!: map_of_SomeD)

lemma prompt_keeps: "map_of (sx_prompts srv) n = Some d \<Longrightarrow> keeps good (pd_handler d a)"
  using prompts_keep by (auto simp: list_all_iff dest!: map_of_SomeD)

lemma calls_keep:
  assumes "good s" and "sx_tools srv' = sx_tools srv" and "sx_resources srv' = sx_resources srv"
    and "sx_prompts srv' = sx_prompts srv"
  shows "good (snd (handle_tools_call srv' p s))" "good (snd (handle_resources_read srv' uri s))"
    "good (snd (handle_prompts_get srv' g s))"
  using assms keepsD [OF tool_keeps] keepsD [OF resource_keeps] keepsD [OF prompt_keeps]
  by (auto simp: handle_tools_call_def handle_resources_read_def handle_prompts_get_def
      split: option.split prod.split)

lemma handle_method_keeps:
  assumes "good s" and "sx_tools srv' = sx_tools srv" and "sx_resources srv' = sx_resources srv"
    and "sx_prompts srv' = sx_prompts srv" and "handle_method env tx srv' req s = (r, srv'', s')"
  shows "good s' \<and> sx_tools srv'' = sx_tools srv \<and> sx_resources srv'' = sx_resources srv
    \<and> sx_prompts srv'' = sx_prompts srv"
  using assms(1-5) calls_keep [OF assms(1-4)]
  by (auto simp: handle_method_def Let_def case_prod_beta split: if_splits sum.splits)

lemma serve_keeps:
  assumes "good s" and "sx_tools srv' = sx_tools srv" and "sx_resources srv' = sx_resources srv"
    and "sx_prompts srv' = sx_prompts srv"
  shows "good (snd (snd (serve env tx srv' ms s)))"
  using assms
proof (induction ms arbitrary: srv' s)
  case (Cons m ms)
  obtain out srv1 s1 where m: "dispatch_message env tx srv' m s = (out, srv1, s1)"
    by (metis prod.exhaust)
  have "good s1 \<and> sx_tools srv1 = sx_tools srv \<and> sx_resources srv1 = sx_resources srv
      \<and> sx_prompts srv1 = sx_prompts srv"
  proof (cases m)
    case (Msg_Request req)
    obtain r srv2 s2 where h: "handle_method env tx srv' req s = (r, srv2, s2)" by (metis prod.exhaust)
    with m Msg_Request have "srv1 = srv2 \<and> s1 = s2"
      by (cases r) (simp_all add: dispatch_message_def dispatch_def)
    with handle_method_keeps [OF Cons.prems h] show ?thesis by simp
  qed (use m Cons.prems in \<open>simp_all add: dispatch_message_def\<close>)
  with Cons.IH [of s1 srv1] m show ?case by (simp add: case_prod_beta)
qed simp

lemma serving_keeps: "good s \<Longrightarrow> good (snd (snd (serve env tx srv ms s)))"
  by (rule serve_keeps) simp_all

end

subsection \<open>What a registry holds\<close>

lemma fold_registered:
  assumes "\<And>x b. kvs (add x b) = AList.update (key x) x (kvs b)"
    and "list_all (\<lambda>(_, x). P x) (kvs b)" and "list_all P xs"
  shows "list_all (\<lambda>(_, x). P x) (kvs (foldl (\<lambda>b x. add x b) b xs))"
  using assms(2,3)
proof (induction xs arbitrary: b)
  case (Cons x xs)
  show ?case using Cons.prems by (auto intro!: Cons.IH list_all_update simp: assms(1))
qed simp

lemma foldl_keeps: "(\<And>x b. f (g x b) = f b) \<Longrightarrow> f (foldl (\<lambda>b x. g x b) b xs) = f b"
  by (induction xs arbitrary: b) simp_all

lemma folds_keep:
  "sb_tools (foldl (\<lambda>b d. add_resource d b) b rs) = sb_tools b"
  "sb_tools (foldl (\<lambda>b d. add_prompt d b) b ps) = sb_tools b"
  "sb_resources (foldl (\<lambda>b d. add_tool d b) b ts) = sb_resources b"
  "sb_resources (foldl (\<lambda>b d. add_prompt d b) b ps) = sb_resources b"
  "sb_prompts (foldl (\<lambda>b d. add_tool d b) b ts) = sb_prompts b"
  "sb_prompts (foldl (\<lambda>b d. add_resource d b) b rs) = sb_prompts b"
  "sb_exposure (foldl (\<lambda>b d. add_tool d b) b ts) = sb_exposure b"
  "sb_exposure (foldl (\<lambda>b d. add_resource d b) b rs) = sb_exposure b"
  "sb_exposure (foldl (\<lambda>b d. add_prompt d b) b ps) = sb_exposure b"
  by (rule foldl_keeps, simp add: add_tool_def add_resource_def add_prompt_def)+

lemma completers_keep [simp]:
  "sb_tools (register_completers b) = sb_tools b"
  "sb_resources (register_completers b) = sb_resources b"
  "sb_prompts (register_completers b) = sb_prompts b"
  "sb_exposure (register_completers b) = sb_exposure b"
  by (simp_all add: register_completers_def add_completer_def)

lemma surface_registries:
  assumes "list_all (\<lambda>d. is_allowed_by (sb_exposure b) d \<longrightarrow> T d) (all_tools cx)"
    and "list_all R (all_resources cx)" and "list_all P (all_prompts (ru_pretty (cx_runtime cx)) skills)"
    and "sb_tools b = []" and "sb_resources b = []" and "sb_prompts b = []"
  shows "list_all (\<lambda>(_, d). T d) (sx_tools (build (register_surface cx skills b)))"
    "list_all (\<lambda>(_, d). R d) (sx_resources (build (register_surface cx skills b)))"
    "list_all (\<lambda>(_, d). P d) (sx_prompts (build (register_surface cx skills b)))"
proof -
  have "list_all (\<lambda>(_, d). is_allowed_by (sb_exposure b) d \<longrightarrow> T d)
      (sb_tools (foldl (\<lambda>b d. add_tool d b) b (all_tools cx)))"
    by (rule fold_registered [where key = "\<lambda>d. tl_name (td_tool d)", OF _ _ assms(1)])
      (simp_all add: add_tool_def assms(4))
  then show "list_all (\<lambda>(_, d). T d) (sx_tools (build (register_surface cx skills b)))"
    by (auto simp: build_def register_surface_def folds_keep list_all_iff)
  have "list_all (\<lambda>(_, d). R d) (sb_resources (foldl (\<lambda>b d. add_resource d b)
      (foldl (\<lambda>b d. add_tool d b) b (all_tools cx)) (all_resources cx)))"
    by (rule fold_registered [where key = "\<lambda>d. re_uri (rd_resource d)", OF _ _ assms(2)])
      (simp_all add: add_resource_def folds_keep assms(5))
  then show "list_all (\<lambda>(_, d). R d) (sx_resources (build (register_surface cx skills b)))"
    by (simp add: build_def register_surface_def folds_keep)
  have "list_all (\<lambda>(_, d). P d) (sb_prompts (foldl (\<lambda>b d. add_prompt d b)
      (foldl (\<lambda>b d. add_resource d b) (foldl (\<lambda>b d. add_tool d b) b (all_tools cx)) (all_resources cx))
      (all_prompts (ru_pretty (cx_runtime cx)) skills)))"
    by (rule fold_registered [where key = "\<lambda>d. pr_name (pd_prompt d)", OF _ _ assms(3)])
      (simp_all add: add_prompt_def folds_keep assms(6))
  then show "list_all (\<lambda>(_, d). P d) (sx_prompts (build (register_surface cx skills b)))"
    by (simp add: build_def register_surface_def)
qed

subsection \<open>The contract of the clients in read-only mode\<close>

text \<open>An ERP client that keeps \<open>ok\<close> whatever is asked of it in read-only mode.\<close>

locale erp_service =
  fixes cl :: "'e erp_client" and ok :: "'e \<Rightarrow> bool"
  assumes erp_keeps:
    "keeps ok (ec_system_info cl)" "keeps ok (ec_search cl q n)" "keeps ok (ec_metadata cl f l)"
    "keeps ok (ec_bulk cl fs l)" "keeps ok (ec_call cl req True)" "keeps ok (ec_read_table cl rt)"
    "keeps ok (ec_structure cl t)"

locale party_service =
  fixes hub :: "'p party_client" and ok :: "'p \<Rightarrow> bool"
  assumes party_keeps: "keeps ok (py_search hub q n)" "keeps ok (py_get hub i)"

text \<open>The world of a read-only server: nothing was written anywhere, the user was not asked, and the
  audit log records no success.\<close>

definition world_ok ::
  "('e \<Rightarrow> bool) \<Rightarrow> ('o \<Rightarrow> 'x list) \<Rightarrow> ('p \<Rightarrow> bool) \<Rightarrow> 'l \<Rightarrow> ('e, 'o, 'p, 'l) tool_world \<Rightarrow> bool" where
  "world_ok erp_ok writes party_ok lk w \<longleftrightarrow>
     erp_ok (tw_erp w) \<and> writes (tw_oic w) = [] \<and> party_ok (tw_party w) \<and> tw_link w = lk
     \<and> list_all (\<lambda>e. \<not> audit_is_ok (ae_outcome e)) (tw_audit w)"

lemma with_args_keeps: "(\<And>a. keeps good (act a)) \<Longrightarrow> keeps good (with_args intro st dec act v)"
  by (auto simp: keeps_def with_args_def split: option.split prod.split) (metis snd_conv)

lemma answers_keep: "keeps good (\<lambda>w. (f w, w))"
  by (simp add: keeps_def)

lemma rendered_keeps: "keeps good g \<Longrightarrow> keeps good (\<lambda>w. rendered rt failure enc (g w))"
  by (simp add: keeps_def)

lemma keeps_if: "keeps good f \<Longrightarrow> keeps good g \<Longrightarrow> keeps good (\<lambda>w. if b then f w else g w)"
  by (simp add: keeps_def)

lemma on_erp_world:
  "keeps erp_ok f \<Longrightarrow> keeps (world_ok erp_ok writes party_ok lk) (on_erp f)"
  by (auto simp: keeps_def world_ok_def on_erp_def split: prod.split)

lemma on_oic_world:
  "(\<And>s. writes (snd (f s)) = writes s) \<Longrightarrow> keeps (world_ok erp_ok writes party_ok lk) (on_oic f)"
  by (auto simp: keeps_def world_ok_def on_oic_def split: prod.split) (metis snd_conv)

lemma on_party_world:
  "keeps party_ok f \<Longrightarrow> keeps (world_ok erp_ok writes party_ok lk) (on_party f)"
  by (auto simp: keeps_def world_ok_def on_party_def split: prod.split)

lemma graph_answer_world: "keeps (world_ok erp_ok writes party_ok lk) (graph_answer rt response)"
  by (simp add: keeps_def world_ok_def graph_answer_def elapsed_us_def read_instant_def)

lemma erp_resource_keeps:
  "keeps good (on_erp ask) \<Longrightarrow> keeps good (erp_resource rt enc ask uri)"
  by (auto simp: keeps_def erp_resource_def split: prod.split sum.split)

lemmas keep_rules =
  with_args_keeps answers_keep rendered_keeps keeps_if graph_answer_world on_erp_world on_oic_world
  on_party_world

text \<open>The context of a read-only server over such clients.\<close>

locale read_only_context =
  erp_service "cx_erp cx" erp_ok + oic_backend "cx_oic cx" writes
  for cx :: "('f, 'e, 'o, 'p, 'l) server_context" and erp_ok :: "'e \<Rightarrow> bool" and writes :: "'o \<Rightarrow> 'x list" +
  fixes party_ok :: "'p \<Rightarrow> bool" and lk :: 'l
  assumes read_only: "cx_read_only cx"
    and cache_keeps: "cx_cache cx = Some h \<Longrightarrow> erp_ok s \<Longrightarrow> erp_ok (hc_invalidate h s)"
    and hub_keeps: "cx_party cx = Some hub \<Longrightarrow> party_service hub party_ok"
begin

lemma knowledge_tools_keep:
  "list_all (\<lambda>d. \<forall>v. keeps (world_ok erp_ok writes party_ok lk) (td_handler d v))
     (rag_tools cx @ graph_tools cx)"
  unfolding rag_tools_def graph_tools_def make_rag_tool_def tool_kb_navigate_def kb_multi_hop_def
    kb_global_query_def kb_summarise_def kb_graph_neighborhood_def tool_descriptor_new_def
  by (simp add: rag_handler_def navigate_handler_def multi_hop_handler_def global_query_handler_def
      summarise_handler_def neighborhood_handler_def Let_def)
    (intro conjI allI; rule with_args_keeps; auto split: prod.split intro!: keep_rules)

lemma write_call_keeps: "keeps (world_ok erp_ok writes party_ok lk) (write_call cx v request)"
  by (rule keepsI)
    (simp add: write_call_def Let_def read_instant_def on_erp_def execute_write_bapi_def read_only
      write_audit_outcome_def record_write_audit_def record_audit_def memory_sink_def world_ok_def)

lemma erp_tools_keep:
  "list_all (\<lambda>d. \<forall>v. keeps (world_ok erp_ok writes party_ok lk) (td_handler d v)) (sap_tools cx)"
proof -
  have plain: "keeps (world_ok erp_ok writes party_ok lk) (system_info_handler cx v)"
      "keeps (world_ok erp_ok writes party_ok lk) (health_handler cx v)"
      "keeps (world_ok erp_ok writes party_ok lk) (cache_stats_handler cx v)" for v
    using keepsD [OF on_erp_world [OF erp_keeps(1), of writes party_ok lk]]
    by (auto simp: keeps_def system_info_handler_def health_handler_def cache_stats_handler_def
        rendered_def split: prod.split sum.split)
  have invalidate: "keeps (world_ok erp_ok writes party_ok lk) (cache_invalidate_handler cx v)" for v
    by (auto simp: keeps_def cache_invalidate_handler_def world_ok_def cache_keeps
        split: option.split prod.split)
  have call: "keeps (world_ok erp_ok writes party_ok lk) (rest_call_handler cx v)" for v
    unfolding rest_call_handler_def Let_def
    by (rule with_args_keeps) (auto simp: read_only intro!: keep_rules write_call_keeps erp_keeps)
  have hub: "keeps (world_ok erp_ok writes party_ok lk) (party_search_handler cx v)"
      "keeps (world_ok erp_ok writes party_ok lk) (party_get_handler cx v)" for v
    unfolding party_search_handler_def party_get_handler_def Let_def
    by (rule with_args_keeps; cases "cx_party cx";
        auto split: prod.split intro!: keep_rules party_service.party_keeps hub_keeps)+
  have rest: "keeps (world_ok erp_ok writes party_ok lk) (rest_search_handler cx v)"
      "keeps (world_ok erp_ok writes party_ok lk) (rest_metadata_handler cx v)"
      "keeps (world_ok erp_ok writes party_ok lk) (rest_bulk_handler cx v)"
      "keeps (world_ok erp_ok writes party_ok lk) (object_read_handler cx v)"
      "keeps (world_ok erp_ok writes party_ok lk) (object_structure_handler cx v)"
      "keeps (world_ok erp_ok writes party_ok lk) (docs_handler cx v)"
      "keeps (world_ok erp_ok writes party_ok lk) (parse_result_handler cx v)" for v
    unfolding rest_search_handler_def rest_metadata_handler_def rest_bulk_handler_def
      object_read_handler_def object_structure_handler_def docs_handler_def parse_result_handler_def Let_def
    by (rule with_args_keeps; auto split: prod.split intro!: keep_rules erp_keeps)+
  show ?thesis
    unfolding sap_tools_def tool_system_info_def tool_system_health_def tool_system_cache_stats_def
      tool_system_cache_invalidate_def tool_rfc_search_def tool_rfc_metadata_def tool_rfc_bulk_metadata_def
      tool_rfc_call_def tool_table_read_def tool_table_structure_def tool_docs_search_def
      tool_bapi_parse_return_def tool_bp_search_def tool_bp_get_def tool_descriptor_new_def
    by (simp add: plain invalidate call hub rest)
qed

lemma oic_tools_keep:
  "list_all (\<lambda>d. \<forall>v. keeps (world_ok erp_ok writes party_ok lk) (td_handler d v)) (adt_tools cx)"
proof -
  have fetch: "keeps (world_ok erp_ok writes party_ok lk) (fetch_handler tool dec enc get cx v)"
    if "\<And>n s. writes (snd (get (cx_oic cx) n s)) = writes s"
    for tool dec v and enc :: "'a \<Rightarrow> json" and get :: "'o oic_client \<Rightarrow> 'n \<Rightarrow> 'o \<Rightarrow> 'a oic_result \<times> 'o"
    unfolding fetch_handler_def by (rule with_args_keeps) (auto intro!: keep_rules simp: that)
  have rest: "keeps (world_ok erp_ok writes party_ok lk) (oic_search_handler cx v)"
      "keeps (world_ok erp_ok writes party_ok lk) (where_used_handler cx v)"
      "keeps (world_ok erp_ok writes party_ok lk) (preview_handler cx v)"
      "keeps (world_ok erp_ok writes party_ok lk) (activate_handler cx v)" for v
    unfolding oic_search_handler_def where_used_handler_def preview_handler_def activate_handler_def
      Let_def
    by (rule with_args_keeps;
        auto split: prod.split intro!: keep_rules simp: read_only reads activation_refused)+
  show ?thesis
    unfolding adt_tools_def adt_get_program_def adt_get_class_def adt_get_interface_def
      adt_get_include_def adt_get_function_module_def adt_get_package_contents_def adt_get_cds_view_def
      adt_search_def adt_where_used_def adt_get_table_contents_def adt_activate_def with_writes_def
      tool_descriptor_new_def
    by (simp add: rest integration_handler_def groovy_handler_def connection_handler_def lookup_handler_def
        ess_job_handler_def project_handler_def report_handler_def fetch reads split: prod.split)
qed

lemma workflows_hidden:
  "list_all (\<lambda>d. \<not> is_allowed_by Read_Only_Only d) (workflow_tools cx)"
  by (simp add: workflow_tools_def workflow_create_purchase_order_def workflow_maintain_customer_master_def
      workflow_release_transport_def with_writes_def tool_descriptor_new_def is_allowed_by_def)

lemma tools_kept:
  "list_all (\<lambda>d. is_allowed_by Read_Only_Only d \<longrightarrow>
     (\<forall>v. keeps (world_ok erp_ok writes party_ok lk) (td_handler d v))) (all_tools cx)"
  using knowledge_tools_keep erp_tools_keep oic_tools_keep workflows_hidden
  by (auto simp: all_tools_def list_all_iff)

lemma resources_kept:
  "list_all (\<lambda>d. \<forall>uri. keeps (world_ok erp_ok writes party_ok lk) (rd_handler d uri)) (all_resources cx)"
proof -
  have "keeps (world_ok erp_ok writes party_ok lk) (rd_handler (make_cache_stats cx) uri)" for uri
    by (auto simp: make_cache_stats_def keeps_def split: option.split prod.split)
  then show ?thesis
    by (auto simp: all_resources_def make_system_info_def make_table_structure_def make_rfc_meta_def
        make_adt_destination_def make_agents_md_def list_all_iff answers_keep
        intro!: erp_resource_keeps on_erp_world erp_keeps)
qed

lemma prompts_kept:
  "list_all (\<lambda>d. \<forall>a. keeps (world_ok erp_ok writes party_ok lk) (pd_handler d a)) (all_prompts pretty skills)"
  by (auto simp: all_prompts_def review_rfc_call_def sandbox_impact_analysis_def review_where_used_def
      skill_as_prompt_def list_all_iff Let_def answers_keep)

lemma server_guarded:
  "guarded_server (build_server cx md True skills) (world_ok erp_ok writes party_ok lk)"
proof -
  let ?b = "set_instructions (build_instructions md True) (set_exposure (policy_of True)
      (builder_new ''oracle-automate-server'' CARGO_PKG_VERSION))"
  let ?keeps = "keeps (world_ok erp_ok writes party_ok lk)"
  have b: "sb_exposure ?b = Read_Only_Only" "sb_tools ?b = []" "sb_resources ?b = []" "sb_prompts ?b = []"
    by (simp_all add: policy_of_def set_instructions_def set_exposure_def builder_new_def)
  show ?thesis
    unfolding guarded_server_def build_server_def
    by (intro conjI surface_registries [of ?b "\<lambda>d. \<forall>v. ?keeps (td_handler d v)" cx
          "\<lambda>d. \<forall>uri. ?keeps (rd_handler d uri)" "\<lambda>d. \<forall>a. ?keeps (pd_handler d a)" skills])
      (simp_all add: b tools_kept resources_kept prompts_kept)
qed

end

subsection \<open>The context for a pod\<close>

definition only_get :: "http_request \<Rightarrow> bool" where
  "only_get q \<longleftrightarrow> hq_method q = GET \<and> hq_body q = None"

text \<open>The live ERP client over the metadata cache over the catalogue, logging what it sends.\<close>

definition live_erp_client ::
  "fusion_config \<Rightarrow> 'w http_send \<Rightarrow> (json \<Rightarrow> string) \<Rightarrow> erp_operation_meta list \<Rightarrow> nat \<times> nat \<Rightarrow> json
     \<Rightarrow> ('s meta_cache \<times> 'w \<times> http_request list) erp_client" where
  "live_erp_client cfg send disp order pool identity =
     fusion_erp_client cfg (logging_send send)
       (cached_erp_client (mock_erp_client disp order pool (mock_new identity)))"

text \<open>The handle the cache tools get is on the same cache.\<close>

definition live_cache_handle :: "('s meta_cache \<times> 'w) cache_handle" where
  "live_cache_handle =
     \<lparr>hc_stats = (\<lambda>(c, w). hc_stats handle_of_cache c),
      hc_invalidate = (\<lambda>(c, w). (hc_invalidate handle_of_cache c, w))\<rparr>"

definition catalogue_ok :: "json \<Rightarrow> 's meta_cache \<Rightarrow> bool" where
  "catalogue_ok identity c \<longleftrightarrow> cache_ok (mc_functions (mock_new identity)) (\<lambda>_. True) c"

definition live_ok :: "json \<Rightarrow> 's meta_cache \<times> 'w \<times> http_request list \<Rightarrow> bool" where
  "live_ok identity sw \<longleftrightarrow> catalogue_ok identity (fst sw) \<and> list_all only_get (snd (snd sw))"

lemma catalogue_keys: "mc_functions (mock_new identity) f = Some m \<Longrightarrow> om_function m = f"
  by (auto dest: mock_new_functions)

lemma cached_keeps:
  "keeps (catalogue_ok identity) (cache_operation_metadata (mock_meta (mock_new identity)) f l)"
  "keeps (catalogue_ok identity) (cache_bulk_metadata (mock_bulk (mock_new identity)) fs l)"
  "catalogue_ok identity c \<Longrightarrow> catalogue_ok identity (cache_invalidate_all c)"
  using cache_apply_known [where mc = "mock_new identity", OF catalogue_keys, where op = "Get_Meta f l"]
    cache_apply_known [where mc = "mock_new identity", OF catalogue_keys, where op = "Get_Bulk fs l"]
  by (auto simp: keeps_def catalogue_ok_def cache_ok_def cache_invalidate_all_def entries_known_def)

lemma inner_keeps: "keeps (catalogue_ok identity) (on_inner f)"
  by (auto simp: keeps_def on_inner_def catalogue_ok_def cache_ok_def entries_known_def split: prod.split)

lemma on_catalogue_keeps: "keeps (catalogue_ok identity) f \<Longrightarrow> keeps (live_ok identity) (on_catalogue f)"
  by (auto simp: keeps_def live_ok_def on_catalogue_def split: prod.split)

lemma live_call_keeps:
  fixes send :: "'w http_send"
  shows "keeps (live_ok identity)
     (fusion_call cfg (logging_send send) (cache_operation_metadata (mock_meta (mock_new identity))) req True)"
proof (rule keepsI)
  fix sw :: "'s meta_cache \<times> 'w \<times> http_request list"
  assume ok: "live_ok identity sw"
  obtain c w log where sw: "sw = (c, w, log)" by (metis prod.exhaust)
  let ?call = "fusion_call cfg (logging_send send) (cache_operation_metadata (mock_meta (mock_new identity)))"
  have "cache_ok (mc_functions (mock_new identity)) (\<lambda>_. True) (fst (snd (?call req True sw)))"
    by (rule cached_mock.fusion_call_ok [OF _ prod.collapse [symmetric]])
      (use ok in \<open>simp add: live_ok_def catalogue_ok_def\<close>)
  moreover have "list_all only_get (snd (snd (snd (?call req True sw))))"
    using live_session_gets [of "mock_new identity" c identity log cfg send "[req]" w] ok
    by (simp add: sw live_ok_def catalogue_ok_def only_get_def [abs_def] case_prod_beta)
  ultimately show "live_ok identity (snd (?call req True sw))"
    by (simp add: live_ok_def catalogue_ok_def)
qed

lemma live_identity_keeps: "keeps (live_ok identity) (\<lambda>(s, w).
    case fusion_system_info cfg (logging_send send) w of (r, w') \<Rightarrow> (r, s, w'))"
  by (auto simp: keeps_def live_ok_def fusion_system_info_def logging_send_def only_get_def Let_def
      split: prod.split sum.split)

interpretation live_erp: erp_service "live_erp_client cfg send disp order pool identity" "live_ok identity"
  for cfg send disp order pool identity
  by unfold_locales
    (simp_all add: live_erp_client_def fusion_erp_client_def cached_erp_client_def mock_erp_client_def
      live_identity_keeps live_call_keeps on_catalogue_keeps cached_keeps inner_keeps)

lemma fusion_hub_service:
  "party_service (fusion_party_client disp cfg (logging_send send)) (\<lambda>w. list_all only_get (snd w))"
  by unfold_locales
    (auto simp: keeps_def fusion_party_client_def search_parties_def get_party_def logging_send_def
      only_get_def split: prod.split sum.split if_splits)

text \<open>The context \<open>main.rs\<close> builds for a pod with \<open>--destination\<close>, in read-only mode; what is left open is
  taken from another context.\<close>

definition live_context ::
  "fusion_config \<Rightarrow> 'w http_send \<Rightarrow> (json \<Rightarrow> string) \<Rightarrow> erp_operation_meta list \<Rightarrow> nat \<times> nat \<Rightarrow> json
     \<Rightarrow> oic_destination \<Rightarrow> 'v oic_send \<Rightarrow> fusion_config \<Rightarrow> 'u http_send
     \<Rightarrow> ('f, 's meta_cache \<times> 'w \<times> http_request list, 'v \<times> oic_request list, 'u \<times> http_request list, 'l) server_context
     \<Rightarrow> ('f, 's meta_cache \<times> 'w \<times> http_request list, 'v \<times> oic_request list, 'u \<times> http_request list, 'l) server_context"
where
  "live_context cfg send disp order pool identity dest oic_send party_cfg party_send cx =
     cx\<lparr>cx_erp := live_erp_client cfg send disp order pool identity,
        cx_cache := Some live_cache_handle,
        cx_oic := http_oic_client show_nat disp (ru_pretty (cx_runtime cx)) dest (oic_logging oic_send),
        cx_party := Some (fusion_party_client disp party_cfg (logging_send party_send)),
        cx_read_only := True\<rparr>"

interpretation live_server: read_only_context
    "live_context cfg send disp order pool identity dest oic_send party_cfg party_send cx"
    "live_ok identity" sent_writes "\<lambda>w. list_all only_get (snd w)" lk
  for cfg send disp order pool identity dest oic_send party_cfg party_send cx lk
proof -
  let ?cx = "live_context cfg send disp order pool identity dest oic_send party_cfg party_send cx"
  have "erp_service (cx_erp ?cx) (live_ok identity)" "oic_backend (cx_oic ?cx) sent_writes"
    by (simp_all add: live_context_def live_erp.erp_service_axioms http_oic.oic_backend_axioms)
  then show "read_only_context ?cx (live_ok identity) sent_writes (\<lambda>w. list_all only_get (snd w))"
    unfolding read_only_context_def read_only_context_axioms_def
    by (auto simp: live_context_def live_cache_handle_def handle_of_cache_def live_ok_def cached_keeps
        fusion_hub_service)
qed

text \<open>The world at the start: an empty cache, nothing sent and nothing audited.\<close>

definition start_world ::
  "'s \<Rightarrow> nat \<Rightarrow> (nat \<Rightarrow> nat) \<Rightarrow> 'w \<Rightarrow> 'v \<Rightarrow> 'u \<Rightarrow> 'l
     \<Rightarrow> ('s meta_cache \<times> 'w \<times> http_request list, 'v \<times> oic_request list, 'u \<times> http_request list, 'l) tool_world"
where
  "start_world s ttl clock w v u lk =
     \<lparr>tw_erp = (cache_new s ttl clock, w, []), tw_oic = (v, []), tw_party = (u, []), tw_link = lk,
      tw_elicit = None, tw_audit = [], tw_ticks = 0\<rparr>"

text \<open>A read-only server in front of live systems only reads: whatever messages it is sent, whatever
  tools they call with whatever arguments, and whatever the systems answer, every request to the pod and
  to the party service is a GET without a body, every request to the integration service is a GET, the
  user is asked nothing, and no entry of the audit log is of a write that succeeded.\<close>

lemma read_only_server_only_reads:
  "let cx' = live_context cfg send disp order pool identity dest oic_send party_cfg party_send cx;
       w' = snd (snd (serve env tx (build_server cx' md True skills) ms (start_world s ttl clock w v u lk)))
   in list_all only_get (snd (snd (tw_erp w'))) \<and> list_all only_get (snd (tw_party w'))
      \<and> list_all (\<lambda>r. or_method r = OIC_GET) (snd (tw_oic w')) \<and> tw_link w' = lk
      \<and> list_all (\<lambda>e. \<not> audit_is_ok (ae_outcome e)) (tw_audit w')"
proof -
  let ?cx = "live_context cfg send disp order pool identity dest oic_send party_cfg party_send cx"
  let ?ok = "world_ok (live_ok identity) sent_writes (\<lambda>w. list_all only_get (snd w)) lk"
  have "?ok (start_world s ttl clock w v u lk)"
    by (simp add: world_ok_def start_world_def live_ok_def catalogue_ok_def cache_ok_def cache_new_def
        entries_known_def sent_writes_def)
  then have "?ok (snd (snd (serve env tx (build_server ?cx md True skills) ms (start_world s ttl clock w v u lk))))"
    by (rule guarded_server.serving_keeps [OF live_server.server_guarded])
  then show ?thesis
    by (simp add: world_ok_def live_ok_def sent_writes_def filter_empty_conv list_all_iff Let_def)
qed

end
