(* ===== verification/Server_Main.thy ===== *)
theory Server_Main
  imports Server_Safety Credentials Transports
begin

text \<open>
  How the server process starts (\<open>main.rs\<close>, \<open>seed.rs\<close> of \<open>apps/oracle-automate-server/src\<close>): the seeded
  knowledge base, the choice of the embedder, the reranker, the credentials, the ERP, artifact and party
  clients from the command line and the environment, the context made of them, the transport, and the
  recording of the tool calls over HTTP. What reads the network, files and the process environment is a
  parameter.
\<close>

subsection \<open>The seed corpus\<close>

definition with_metadata :: "string \<Rightarrow> string \<Rightarrow> document \<Rightarrow> document" where
  "with_metadata k v d = d\<lparr>dc_metadata := AList.update k v (dc_metadata d)\<rparr>"

definition with_breadcrumbs :: "string list \<Rightarrow> document \<Rightarrow> document" where
  "with_breadcrumbs bs d = d\<lparr>dc_breadcrumbs := bs\<rparr>"

definition seed_journal_import :: "(string \<Rightarrow> string) \<Rightarrow> document" where
  "seed_journal_import hash =
     with_metadata ''type'' ''INTEGRATION''
       (with_metadata ''package'' ''GT_FINANCE_INTEGRATIONS''
       (document_new hash ''integration:KLB/GT_GL_JOURNAL_IMPORT'' Integration ''oic-int://KLB/GT_GL_JOURNAL_IMPORT'' ''GT_GL_JOURNAL_IMPORT''
        (''OIC integration GT_GL_JOURNAL_IMPORT posts GL journals via FBDI. It builds the ''
         @ ''JournalImportTemplate, calls erpintegrations.importBulkData to stage rows into ''
         @ ''GL_INTERFACE, then runs the Journal Import (JournalImportLauncher) ESS job. It ''
         @ ''enriches the ledger from the GT_COMPANY_XREF lookup and skips closed periods checked ''
         @ ''against GL_PERIOD_STATUSES before submission.'')))"

definition seed_receipt_sync :: "(string \<Rightarrow> string) \<Rightarrow> document" where
  "seed_receipt_sync hash =
     with_metadata ''type'' ''INTEGRATION''
       (with_metadata ''package'' ''GT_FINANCE_INTEGRATIONS''
       (document_new hash ''integration:KLB/GT_PO_RECEIPT_SYNC'' Integration ''oic-int://KLB/GT_PO_RECEIPT_SYNC'' ''GT_PO_RECEIPT_SYNC''
        (''OIC integration GT_PO_RECEIPT_SYNC syncs warehouse goods receipts to Fusion ''
         @ ''Receiving. It posts to the receivingReceiptRequests REST resource against a purchase ''
         @ ''order, triggering receipt accounting events in Subledger Accounting (XLA) that later ''
         @ ''transfer to GL_JE_LINES via Create Accounting.'')))"

definition seed_procure_to_pay :: "(string \<Rightarrow> string) \<Rightarrow> document" where
  "seed_procure_to_pay hash =
     with_breadcrumbs [''core'']
       (document_new hash ''bpmn:core/P2P-001'' Bpmn ''process://core/P2P-001'' ''Procure-to-Pay (P2P)''
        (''Oracle Procurement P2P process P2P-001: purchase requisition into PO approval into ''
         @ ''receiving into invoice matching into payment. Process mining shows throughput drops ''
         @ ''18% at PO approval due to approval-hierarchy coverage gaps in the procurement BU.''))"

definition seed_order_to_cash :: "(string \<Rightarrow> string) \<Rightarrow> document" where
  "seed_order_to_cash hash =
     with_breadcrumbs [''core'']
       (document_new hash ''bpmn:core/O2C-002'' Bpmn ''process://core/O2C-002'' ''Order-to-Cash (O2C)''
        (''Oracle Order Management O2C process O2C-002: order capture into availability check ''
         @ ''into fulfillment into billing (AR) into receipt application. Mining shows a 12% ''
         @ ''rework loop between billing and shipping, primarily caused by incomplete ship-to ''
         @ ''addresses on the TCA party.''))"

definition seed_financials :: "(string \<Rightarrow> string) \<Rightarrow> document" where
  "seed_financials hash =
     document_new hash ''app_catalog:FS-12001'' App_Catalog ''appcat://FS-12001'' ''Oracle Financials Cloud''
        (''Application fact sheet for Oracle Financials Cloud (FS-12001). Lifecycle: active. ''
         @ ''Business capabilities: general ledger, payables, receivables, asset accounting, cash ''
         @ ''management. Integrations: GT_GL_JOURNAL_IMPORT, Oracle Integration Cloud, ADW ''
         @ ''reporting. Release: 24D.'')"

definition seed_legacy_billing :: "(string \<Rightarrow> string) \<Rightarrow> document" where
  "seed_legacy_billing hash =
     document_new hash ''app_catalog:FS-08823'' App_Catalog ''appcat://FS-08823'' ''Legacy Billing Engine''
        (''Application fact sheet for Legacy Billing Engine (FS-08823). Lifecycle: phase-out. ''
         @ ''Integrations: GT_LEGACY_BILL_FEED, mainframe. EOL: 2026-09. Replacement: Oracle ''
         @ ''Receivables Cloud (AutoInvoice).'')"

definition seed_period_close :: "(string \<Rightarrow> string) \<Rightarrow> document" where
  "seed_period_close hash =
     with_metadata ''module'' ''GL''
       (with_breadcrumbs [''Financials'', ''General Ledger'']
       (document_new hash ''oracle_help:GL/period-close'' Oracle_Help ''oracle-help://GL/period-close'' ''Period-End Close in Oracle General Ledger''
        (''Oracle Help Center page on GL period-end close: open and close accounting periods via ''
         @ ''Manage Accounting Periods (GL_PERIOD_STATUSES), run revaluation for foreign-currency ''
         @ ''balances, create accounting and transfer subledger entries (XLA_AE_LINES) to ''
         @ ''GL_JE_LINES, run the GL period close program, and review the close monitor and trial ''
         @ ''balance.'')))"

definition seed_receiving :: "(string \<Rightarrow> string) \<Rightarrow> document" where
  "seed_receiving hash =
     with_metadata ''module'' ''INV''
       (with_breadcrumbs [''Supply Chain'', ''Inventory Management'']
       (document_new hash ''oracle_help:INV/receiving'' Oracle_Help ''oracle-help://INV/receiving'' ''Receiving Receipts''
        (''Oracle Help Center page describing receiving receipts (Receiving work area / ''
         @ ''receivingReceiptRequests REST). Receipt routing: standard receipt, inspection ''
         @ ''required, direct delivery. Creates receiving transactions and accrual accounting ''
         @ ''events that flow through Subledger Accounting to the General Ledger.'')))"

definition seed_documents :: "(string \<Rightarrow> string) \<Rightarrow> document list" where
  "seed_documents hash =
     [seed_journal_import hash, seed_receipt_sync hash, seed_procure_to_pay hash,
      seed_order_to_cash hash, seed_financials hash, seed_legacy_billing hash,
      seed_period_close hash, seed_receiving hash]"

text \<open>The chunks get the vectors as far as there are any.\<close>

fun attach_vectors :: "'f chunk list \<Rightarrow> 'f list list \<Rightarrow> 'f chunk list" where
  "attach_vectors (c # cs) (v # vs) = c\<lparr>ck_embedding := Some v\<rparr> # attach_vectors cs vs"
| "attach_vectors cs vs = cs"

fun populate_from ::
  "(string list \<Rightarrow> 'f embed_result) \<Rightarrow> ('f upsert_batch \<Rightarrow> 'b \<Rightarrow> (string + unit) \<times> 'b) \<Rightarrow> document list \<Rightarrow> 'b
     \<Rightarrow> ((pipeline_error + unit) \<times> 'b) option" where
  "populate_from emb up [] k = Some (Ok (), k)"
| "populate_from emb up (doc # docs) k =
     (case chunk_document doc default_chunker of
        None \<Rightarrow> None
      | Some chunks \<Rightarrow>
          if chunks = [] then populate_from emb up docs k
          else
            (case emb (map ck_text chunks) of
               None \<Rightarrow> None
             | Some (Inl e) \<Rightarrow> Some (Err (Embedding e), k)
             | Some (Inr vs) \<Rightarrow>
                 (case up \<lparr>ub_documents = [doc], ub_chunks = attach_vectors chunks vs\<rparr> k of
                    (Inl e, k') \<Rightarrow> Some (Err (PipeStore e), k')
                  | (Inr _, k') \<Rightarrow> populate_from emb up docs k')))"

definition populate_with_embeddings ::
  "(string \<Rightarrow> string) \<Rightarrow> (string list \<Rightarrow> 'f embed_result) \<Rightarrow> ('f upsert_batch \<Rightarrow> 'b \<Rightarrow> (string + unit) \<times> 'b)
     \<Rightarrow> 'b \<Rightarrow> ((pipeline_error + unit) \<times> 'b) option" where
  "populate_with_embeddings hash emb up k = populate_from emb up (seed_documents hash) k"

subsection \<open>Command line and environment\<close>

record cli_args =
  cl_enable_writes :: bool
  cl_pool_size :: nat
  cl_agents_md :: "string option"
  cl_embedding_dim :: nat
  cl_adt_destination :: "string option"
  cl_destination :: "string option"
  cl_transport :: string
  cl_bind :: string
  cl_bearer_token :: "string option"
  cl_allowed_origins :: "string list"
  cl_metadata_cache_ttl_secs :: nat

definition default_cli :: cli_args where
  "default_cli = \<lparr>cl_enable_writes = False, cl_pool_size = 8, cl_agents_md = None, cl_embedding_dim = 256,
     cl_adt_destination = None, cl_destination = None, cl_transport = ''stdio'',
     cl_bind = ''127.0.0.1:3030'', cl_bearer_token = None, cl_allowed_origins = [],
     cl_metadata_cache_ttl_secs = 300\<rparr>"

definition read_only_mode :: "cli_args \<Rightarrow> environment \<Rightarrow> bool" where
  "read_only_mode cli env \<longleftrightarrow>
     \<not> cl_enable_writes cli \<and> env ''ORACLE_AUTOMATE_ENABLE_WRITES'' \<noteq> Some ''1''"

text \<open>The audit sink of the process: a line per entry.\<close>

definition tracing_sink :: "(json \<Rightarrow> string) \<Rightarrow> string list audit_sink" where
  "tracing_sink to_string e out = out @ [to_string (enc_audit_entry e)]"

definition choose_embedder ::
  "'f float_ops \<Rightarrow> (string \<Rightarrow> nat list) \<Rightarrow> (openai_embedder \<Rightarrow> string list \<Rightarrow> 'f embed_result) \<Rightarrow> cli_args
     \<Rightarrow> environment \<Rightarrow> string list \<Rightarrow> 'f embed_result" where
  "choose_embedder fo sha live cli env =
     (case openai_from_env env of
        Some e \<Rightarrow> live e
      | None \<Rightarrow> mock_embed fo sha (cl_embedding_dim cli))"

definition choose_reranker ::
  "'f float_ops \<Rightarrow> (http_reranker_config \<Rightarrow> string \<Rightarrow> string list \<Rightarrow> (nat \<times> 'f) list option) \<Rightarrow> environment
     \<Rightarrow> 'f reranker_fun" where
  "choose_reranker fo endpoint env =
     (case http_reranker_from_env env of
        Some cfg \<Rightarrow> http_rerank fo (endpoint cfg)
      | None \<Rightarrow> mock_rerank fo)"

definition demo_credentials :: credentials where
  "demo_credentials = \<lparr>cd_base_url = ''mock.fa.oraclecloud.com'', cd_instance = ''00'', cd_client = ''100'',
     cd_user = ''DEMO'', cd_password = ''redacted'', cd_language = ''EN'', cd_proxy_url = None,
     cd_source = Src_Static\<rparr>"

definition credential_chain ::
  "(string \<Rightarrow> string + file_creds) \<Rightarrow> (string \<Rightarrow> string option) \<Rightarrow> environment \<Rightarrow> provider list" where
  "credential_chain from_str files env =
     (case file_provider_from_env env of
        Some path \<Rightarrow> [file_fetch from_str files path]
      | None \<Rightarrow> [])
     @ [env_fetch env, static_fetch demo_credentials]"

definition resolve_credentials ::
  "(string \<Rightarrow> string + file_creds) \<Rightarrow> (string \<Rightarrow> string option) \<Rightarrow> environment \<Rightarrow> string + credentials" where
  "resolve_credentials from_str files env =
     (case layered_fetch (credential_chain from_str files env) of
        Inl e \<Rightarrow> Err (''credential resolution failed: '' @ erp_error_text e)
      | Inr None \<Rightarrow> Err ''no credentials available''
      | Inr (Some c) \<Rightarrow> Ok c)"

text \<open>Where the audit entries say they come from.\<close>

definition erp_system_of :: "environment \<Rightarrow> credentials \<Rightarrow> string" where
  "erp_system_of env c =
     unwrap_or (non_empty_env env ''ORACLE_FUSION_BASE_URL'') (cd_base_url c) @ ''/'' @ cd_client c"

definition dirs_config_path :: "environment \<Rightarrow> string \<Rightarrow> string" where
  "dirs_config_path env path =
     (case env ''HOME'' of
        Some home \<Rightarrow> path_join (path_join home ''.config'') path
      | None \<Rightarrow> path)"

definition skill_paths :: "environment \<Rightarrow> string list" where
  "skill_paths env =
     [''./skills'', ''./.oracle-automate/skills'', dirs_config_path env ''oracle-automate/skills'']"

definition agents_md_candidates :: "string option \<Rightarrow> string list" where
  "agents_md_candidates explicit =
     (case explicit of Some p \<Rightarrow> [p] | None \<Rightarrow> [''AGENTS.md'', ''.oracle-automate/AGENTS.md''])"

text \<open>The first candidate that can be read.\<close>

fun first_readable :: "(string \<Rightarrow> string option) \<Rightarrow> string list \<Rightarrow> string option" where
  "first_readable files [] = None"
| "first_readable files (p # ps) =
     (case files p of Some content \<Rightarrow> Some content | None \<Rightarrow> first_readable files ps)"

definition load_agents_md :: "(string \<Rightarrow> string option) \<Rightarrow> string option \<Rightarrow> string option" where
  "load_agents_md files explicit = first_readable files (agents_md_candidates explicit)"

subsection \<open>The clients\<close>

text \<open>The destination asked for: the flag, or else the environment; an empty name is none.\<close>

definition destination_name :: "cli_args \<Rightarrow> environment \<Rightarrow> string option" where
  "destination_name cli env =
     (case (case cl_destination cli of Some d \<Rightarrow> Some d | None \<Rightarrow> env ''ORACLE_AUTOMATE_DESTINATION'') of
        Some n \<Rightarrow> if n = [] then None else Some n
      | None \<Rightarrow> None)"

definition mock_client_for :: "oic_destination \<Rightarrow> 'v oic_client" where
  "mock_client_for d = mock_oic_client (oic_redacted d) mock_oic_new"

text \<open>\<open>connect\<close> builds the HTTP client, which may fail.\<close>

definition build_adt_client ::
  "(oic_destination \<Rightarrow> string + 'v oic_client) \<Rightarrow> (string \<Rightarrow> oic_destination oic_result) \<Rightarrow> cli_args
     \<Rightarrow> environment \<Rightarrow> string + 'v oic_client" where
  "build_adt_client connect load cli env =
     (case destination_name cli env of
        None \<Rightarrow> Ok (mock_client_for (mock_destination (unwrap_or (cl_adt_destination cli) ''default'')))
      | Some name \<Rightarrow>
          (case load name of
             Inl e \<Rightarrow> Err (''ADT destination '' @ quoted name @ '' could not be loaded: '' @ oic_error_text e)
           | Inr d \<Rightarrow>
               if de_auth d = Auth_Mock then Ok (mock_client_for d)
               else (case connect d of
                       Inl e \<Rightarrow> Err (''HttpOicClient init failed: '' @ e)
                     | Inr cl \<Rightarrow> Ok cl)))"

text \<open>An ERP client that does not use the network, on the state of one that does.\<close>

definition offline_erp_client :: "'e erp_client \<Rightarrow> ('e \<times> 'w) erp_client" where
  "offline_erp_client cl =
     \<lparr>ec_system_info = on_catalogue (ec_system_info cl),
      ec_search = (\<lambda>q n. on_catalogue (ec_search cl q n)),
      ec_metadata = (\<lambda>f l. on_catalogue (ec_metadata cl f l)),
      ec_bulk = (\<lambda>fs l. on_catalogue (ec_bulk cl fs l)),
      ec_call = (\<lambda>r ro. on_catalogue (ec_call cl r ro)),
      ec_read_table = (\<lambda>r. on_catalogue (ec_read_table cl r)),
      ec_structure = (\<lambda>t. on_catalogue (ec_structure cl t)),
      ec_pool_status = (\<lambda>sw. ec_pool_status cl (fst sw))\<rparr>"

definition choose_erp_client ::
  "(fusion_config \<Rightarrow> string + 'w http_send) \<Rightarrow> 'e erp_client \<Rightarrow> environment \<Rightarrow> string + ('e \<times> 'w) erp_client" where
  "choose_erp_client connect cached env =
     (case fusion_config_from_env env of
        Some cfg \<Rightarrow>
          (case connect cfg of
             Inl e \<Rightarrow> Err (''Fusion REST client init failed: '' @ e)
           | Inr send \<Rightarrow> Ok (fusion_erp_client cfg send cached))
      | None \<Rightarrow> Ok (offline_erp_client cached))"

text \<open>A party client that cannot be built is left out.\<close>

definition choose_party_client ::
  "(json \<Rightarrow> string) \<Rightarrow> (fusion_config \<Rightarrow> string + 'u http_send) \<Rightarrow> environment \<Rightarrow> 'u party_client option" where
  "choose_party_client disp connect env =
     (case fusion_config_from_env env of
        None \<Rightarrow> None
      | Some cfg \<Rightarrow>
          (case connect cfg of Inl e \<Rightarrow> None | Inr send \<Rightarrow> Some (fusion_party_client disp cfg send)))"

subsection \<open>The process\<close>

text \<open>What the process is given from outside.\<close>

record ('f, 'w, 'v, 'u) outside =
  os_env :: environment
  os_files :: "string \<Rightarrow> string option"
  os_creds :: "string \<Rightarrow> string + file_creds"
  os_load :: "string \<Rightarrow> oic_destination oic_result"
  os_fusion :: "fusion_config \<Rightarrow> string + 'w http_send"
  os_party :: "fusion_config \<Rightarrow> string + 'u http_send"
  os_oic :: "oic_destination \<Rightarrow> string + 'v oic_client"
  os_disp :: "json \<Rightarrow> string"
  os_order :: "erp_operation_meta list"

text \<open>The context; the knowledge services and the clocks are those of \<open>base\<close>.\<close>

definition main_context ::
  "('f, 'w, 'v, 'u) outside \<Rightarrow> cli_args
     \<Rightarrow> ('f, 's meta_cache \<times> 'w, 'v, 'u, 'l) server_context
     \<Rightarrow> string + ('f, 's meta_cache \<times> 'w, 'v, 'u, 'l) server_context" where
  "main_context out cli base =
     (let env = os_env out in
      case resolve_credentials (os_creds out) (os_files out) env of
        Inl e \<Rightarrow> Err e
      | Inr creds \<Rightarrow>
          (let cached = cached_erp_client (mock_erp_client (os_disp out) (os_order out)
                 (cl_pool_size cli, cl_pool_size cli) (mock_new (credentials_redacted creds))) in
           case choose_erp_client (os_fusion out) cached env of
             Inl e \<Rightarrow> Err e
           | Inr erp \<Rightarrow>
               (case build_adt_client (os_oic out) (os_load out) cli env of
                  Inl e \<Rightarrow> Err e
                | Inr oic \<Rightarrow> Ok (base
                    \<lparr>cx_erp := erp, cx_cache := Some live_cache_handle, cx_oic := oic,
                     cx_party := choose_party_client (os_disp out) (os_party out) env,
                     cx_read_only := read_only_mode cli env,
                     cx_agents_md := load_agents_md (os_files out) (cl_agents_md cli),
                     cx_erp_system := Some (erp_system_of env creds)\<rparr>))))"

definition main_server ::
  "('f, 'w, 'v, 'u) outside \<Rightarrow> cli_args
     \<Rightarrow> ('f, 's meta_cache \<times> 'w, 'v, 'u, 'l) server_context \<Rightarrow> skill_registry
     \<Rightarrow> string + ('s meta_cache \<times> 'w, 'v, 'u, 'l) tool_world server" where
  "main_server out cli base skills = map_sum id
     (\<lambda>cx. build_server cx (cx_agents_md cx) (cx_read_only cx) skills) (main_context out cli base)"

text \<open>The transport asked for; \<open>addr\<close> reads a socket address.\<close>

datatype 'a transport_choice = Over_Stdio | Over_Http 'a

definition choose_transport ::
  "(string \<Rightarrow> string + 'a) \<Rightarrow> cli_args \<Rightarrow> string + 'a transport_choice" where
  "choose_transport addr cli =
     (if cl_transport cli = ''stdio'' then Ok Over_Stdio
      else if cl_transport cli = ''http'' then
        (case addr (cl_bind cli) of
           Inl e \<Rightarrow> Err (''invalid --bind '' @ quoted (cl_bind cli) @ '': '' @ e)
         | Inr a \<Rightarrow> Ok (Over_Http a))
      else Err (''unknown --transport '' @ quoted (cl_transport cli) @ '' (expected: stdio | http)''))"

subsection \<open>Recording over HTTP\<close>

definition section_sign :: string where "section_sign = [CHR 0xC2, CHR 0xA7]"

definition server_metrics :: "'f metrics" where
  "server_metrics =
     register_metric ''oracle_rest_calls_total'' Counter
       ''Oracle Fusion REST operation calls dispatched, grouped by function and outcome''
    (register_metric ''oracle_authz_denied_total'' Counter
       ''Tool calls denied by the read-only safety gate, by tool''
    (register_metric ''oracle_pool_in_use'' Gauge ''Oracle connection pool slots currently in use''
    (register_metric ''kb_chunks_total'' Gauge ''Total chunks currently indexed''
    (register_metric ''rag_retrieval_latency_seconds'' Histogram
       (''RAG retrieval latency (paper '' @ section_sign @ ''X-D gate at 0.080s)'')
    (register_metric ''mcp_tool_errors_total'' Counter
       ''Total MCP tool invocations that returned isError=true''
    (register_metric ''mcp_tool_calls_total'' Counter ''Total MCP tool invocations''
    (register_metric ''mcp_tool_latency_seconds'' Histogram
       (''Per-tool call latency in seconds (paper '' @ section_sign @ ''X-D gate at 0.080s)'') metrics_new)))))))"

text \<open>The endpoint that is served: the bound address, the token and the origins of the command line, and the
  metrics of the state behind the dispatch.\<close>

definition main_http_config :: "cli_args \<Rightarrow> 'a \<Rightarrow> ('s \<Rightarrow> string) \<Rightarrow> ('a, 's) http_config" where
  "main_http_config cli addr render =
     \<lparr>hs_bind = addr, hs_bearer_token = cl_bearer_token cli, hs_metrics_renderer = Some render,
      hs_allowed_origins = cl_allowed_origins cli\<rparr>"

text \<open>One message over HTTP: dispatched, and recorded when it calls a tool. \<open>elapsed\<close> is the time it took;
  a panic of the recording is \<open>None\<close>.\<close>

definition http_dispatch ::
  "'f float_ops \<Rightarrow> (json \<Rightarrow> string) \<Rightarrow> (string \<Rightarrow> string option) \<Rightarrow> (json \<Rightarrow> string) \<Rightarrow> 'f \<Rightarrow> 's server
     \<Rightarrow> rpc_message \<Rightarrow> 's \<Rightarrow> 'f metrics \<Rightarrow> (rpc_message option \<times> 's server \<times> 's \<times> 'f metrics) option" where
  "http_dispatch fo to_string env serde_text elapsed srv msg s m =
     (case dispatch_message env serde_text srv msg s of
        (resp, srv', s') \<Rightarrow>
          (case tool_name_of msg of
             None \<Rightarrow> Some (resp, srv', s', m)
           | Some tool \<Rightarrow>
               map_option (\<lambda>m'. (resp, srv', s', m')) (record_call fo to_string tool elapsed resp m)))"

fun http_session ::
  "'f float_ops \<Rightarrow> (json \<Rightarrow> string) \<Rightarrow> (string \<Rightarrow> string option) \<Rightarrow> (json \<Rightarrow> string) \<Rightarrow> 's server
     \<Rightarrow> (rpc_message \<times> 'f) list \<Rightarrow> 's \<Rightarrow> 'f metrics
     \<Rightarrow> (rpc_message option list \<times> 's server \<times> 's \<times> 'f metrics) option" where
  "http_session fo to_string env serde_text srv [] s m = Some ([], srv, s, m)"
| "http_session fo to_string env serde_text srv ((msg, t) # ms) s m =
     Option.bind (http_dispatch fo to_string env serde_text t srv msg s m) (\<lambda>(resp, srv1, s1, m1).
       map_option (\<lambda>(rs, w). (resp # rs, w))
         (http_session fo to_string env serde_text srv1 ms s1 m1))"

subsection \<open>Read-only unless enabled\<close>

text \<open>The process with every outside connection logged.\<close>

definition logged_outside ::
  "'w http_send \<Rightarrow> 'u http_send \<Rightarrow> 'v oic_send \<Rightarrow> ('f, 'w, 'v, 'u) outside
     \<Rightarrow> ('f, 'w \<times> http_request list, 'v \<times> oic_request list, 'u \<times> http_request list) outside" where
  "logged_outside send party_send oic_send out =
     \<lparr>os_env = os_env out, os_files = os_files out, os_creds = os_creds out, os_load = os_load out,
      os_fusion = (\<lambda>cfg. map_sum id (\<lambda>_. logging_send send) (os_fusion out cfg)),
      os_party = (\<lambda>cfg. map_sum id (\<lambda>_. logging_send party_send) (os_party out cfg)),
      os_oic = (\<lambda>d. map_sum id
         (\<lambda>_. http_oic_client show_nat (os_disp out) (os_disp out) d (oic_logging oic_send)) (os_oic out d)),
      os_disp = os_disp out, os_order = os_order out\<rparr>"

lemma logged_outside_simps [simp]:
  "os_env (logged_outside send party_send oic_send out) = os_env out"
  "os_files (logged_outside send party_send oic_send out) = os_files out"
  "os_creds (logged_outside send party_send oic_send out) = os_creds out"
  "os_load (logged_outside send party_send oic_send out) = os_load out"
  "os_disp (logged_outside send party_send oic_send out) = os_disp out"
  "os_order (logged_outside send party_send oic_send out) = os_order out"
  by (simp_all add: logged_outside_def)

abbreviation catalogue_client ::
  "(json \<Rightarrow> string) \<Rightarrow> erp_operation_meta list \<Rightarrow> nat \<times> nat \<Rightarrow> json \<Rightarrow> 's meta_cache erp_client" where
  "catalogue_client disp order pool identity \<equiv>
     cached_erp_client (mock_erp_client disp order pool (mock_new identity))"

text \<open>Offline nothing is sent at all.\<close>

lemma cached_call_keeps: "keeps (catalogue_ok identity) (cache_call (mock_call disp (mock_new identity)) req ro)"
  using cached_mock.call_ok [OF _ prod.collapse [symmetric]]
  by (auto simp: keeps_def catalogue_ok_def)

interpretation offline_erp: erp_service
    "offline_erp_client (catalogue_client disp order pool identity)" "live_ok identity"
  for disp order pool identity
  by unfold_locales
    (simp_all add: offline_erp_client_def cached_erp_client_def mock_erp_client_def on_catalogue_keeps
      cached_keeps inner_keeps cached_call_keeps)

text \<open>A connection that is opened is the logging one.\<close>

lemma case_opened:
  "(case map_sum id g r of Inl e \<Rightarrow> f e | Inr y \<Rightarrow> h y) = (case r of Inl e \<Rightarrow> f e | Inr y \<Rightarrow> h (g y))"
  by (cases r) simp_all

lemma chosen_erp_service:
  assumes "choose_erp_client (os_fusion (logged_outside send party_send oic_send out))
     (catalogue_client disp order pool identity) env = Inr erp"
  shows "erp_service erp (live_ok identity)"
proof (cases "fusion_config_from_env env")
  case None
  then have "erp = offline_erp_client (catalogue_client disp order pool identity)"
    using assms by (simp add: choose_erp_client_def)
  then show ?thesis by (simp only: offline_erp.erp_service_axioms)
next
  case (Some cfg)
  then obtain y where "erp = live_erp_client cfg send disp order pool identity"
    using assms by (simp add: choose_erp_client_def logged_outside_def case_opened live_erp_client_def
        split: sum.splits)
  then show ?thesis by (simp only: live_erp.erp_service_axioms)
qed

interpretation mock_backend: oic_backend "mock_client_for d" sent_writes for d
  by unfold_locales (auto simp: mock_client_for_def mock_oic_client_def mock_activate_def)

lemma build_adt_client_cases:
  assumes "build_adt_client connect load cli env = Inr oic"
  obtains d where "oic = mock_client_for d" | d where "connect d = Inr oic"
  using assms
  by (auto simp: build_adt_client_def simp del: append.simps split: option.splits sum.splits if_splits)

lemma chosen_oic_backend:
  assumes "build_adt_client (os_oic (logged_outside send party_send oic_send out)) load cli env = Inr oic"
  shows "oic_backend oic sent_writes"
  using assms
proof (cases rule: build_adt_client_cases)
  case (1 d)
  then show ?thesis by (simp only: mock_backend.oic_backend_axioms)
next
  case (2 d)
  then have "oic = http_oic_client show_nat (os_disp out) (os_disp out) d (oic_logging oic_send)"
    by (cases "os_oic out d") (simp_all add: logged_outside_def)
  then show ?thesis by (simp only: http_oic.oic_backend_axioms)
qed

lemma chosen_party_service:
  "choose_party_client disp (os_party (logged_outside send party_send oic_send out)) env = Some hub
   \<Longrightarrow> party_service hub (\<lambda>w. list_all only_get (snd w))"
  using fusion_hub_service
  by (auto simp: choose_party_client_def logged_outside_def case_opened split: option.splits sum.splits)

text \<open>What cannot be built is reported by a client that fails.\<close>

lemma is_ok_opened [simp]: "is_ok (map_sum id g r) = is_ok r"
  by (cases r) simp_all

lemma not_is_ok: "r = Inl e \<Longrightarrow> \<not> is_ok r"
  by simp

lemma choose_erp_client_fails:
  "choose_erp_client connect cl env = Inl e \<Longrightarrow> \<exists>cfg. \<not> is_ok (connect cfg)"
  unfolding choose_erp_client_def by (auto split: option.splits sum.splits dest: not_is_ok)

lemma build_adt_client_fails:
  "build_adt_client connect load cli env = Inl e \<Longrightarrow> (\<exists>n. \<not> is_ok (load n)) \<or> (\<exists>d. \<not> is_ok (connect d))"
  unfolding build_adt_client_def by (auto split: option.splits sum.splits if_splits dest: not_is_ok)

lemma main_context_fails:
  assumes "main_context (logged_outside send party_send oic_send out) cli base = Inl e"
  shows "Inl e = resolve_credentials (os_creds out) (os_files out) (os_env out)
    \<or> (\<exists>cfg. \<not> is_ok (os_fusion out cfg)) \<or> (\<exists>n. \<not> is_ok (os_load out n)) \<or> (\<exists>d. \<not> is_ok (os_oic out d))"
proof -
  have opened: "is_ok (os_fusion (logged_outside send party_send oic_send out) cfg) = is_ok (os_fusion out cfg)"
    "is_ok (os_oic (logged_outside send party_send oic_send out) d) = is_ok (os_oic out d)" for cfg d
    by (simp_all add: logged_outside_def)
  show ?thesis
    using assms
    by (auto simp: main_context_def Let_def opened split: sum.splits
        dest!: choose_erp_client_fails build_adt_client_fails)
qed

lemma main_context_read_only:
  assumes "main_context (logged_outside send party_send oic_send out) cli base = Inr cx"
    and "read_only_mode cli (os_env out)"
  shows "\<exists>identity. read_only_context cx (live_ok identity) sent_writes (\<lambda>w. list_all only_get (snd w))"
proof -
  obtain creds erp oic where parts:
    "choose_erp_client (os_fusion (logged_outside send party_send oic_send out))
       (catalogue_client (os_disp out) (os_order out) (cl_pool_size cli, cl_pool_size cli)
          (credentials_redacted creds)) (os_env out) = Inr erp"
    "build_adt_client (os_oic (logged_outside send party_send oic_send out)) (os_load out) cli (os_env out) = Inr oic"
    "cx_erp cx = erp" "cx_oic cx = oic" "cx_cache cx = Some live_cache_handle"
    "cx_party cx = choose_party_client (os_disp out)
       (os_party (logged_outside send party_send oic_send out)) (os_env out)" "cx_read_only cx"
    using assms by (auto simp: main_context_def Let_def split: sum.splits)
  show ?thesis
    unfolding read_only_context_def read_only_context_axioms_def parts(3,4)
    using chosen_erp_service [OF parts(1)] chosen_oic_backend [OF parts(2)] parts(5,7)
    by (intro exI [of _ "credentials_redacted creds"])
      (auto simp: live_cache_handle_def handle_of_cache_def live_ok_def cached_keeps parts(6)
        intro: chosen_party_service)
qed



subsection \<open>What the recording over HTTP shows\<close>

text \<open>The tool calls among the messages of a session, with what each took and its answer.\<close>

definition recorded_calls ::
  "(rpc_message \<times> 'f) list \<Rightarrow> rpc_message option list \<Rightarrow> 'f tool_call_record list" where
  "recorded_calls ms rs = List.map_filter (\<lambda>((msg, t), resp).
     map_option (\<lambda>tool. \<lparr>tc_tool = tool, tc_elapsed = t, tc_response = resp\<rparr>) (tool_name_of msg))
     (zip ms rs)"

lemma series_at_register [simp]: "series_at (register_metric n k h r) key = series_at r key"
  by (simp add: series_at_def register_metric_def)

lemma recorded_at_start: "recorded fo to_string [] server_metrics t"
  by (simp add: recorded_def call_counts ticks_def value_at_def latency_ok_def server_metrics_def)

lemma http_session_recorded:
  assumes "\<forall>t. recorded fo to_string cs m t"
  shows "\<exists>rs srv' s' m'. http_session fo to_string env tx srv ms s m = Some (rs, srv', s', m')
     \<and> serve env tx srv (map fst ms) s = (List.map_filter (\<lambda>r. r) rs, srv', s')
     \<and> length rs = length ms
     \<and> (\<forall>t. recorded fo to_string (cs @ recorded_calls ms rs) m' t)"
  using assms
proof (induction ms arbitrary: srv s m cs)
  case Nil
  then show ?case by (simp add: recorded_calls_def List.map_filter_simps)
next
  case (Cons mt ms)
  obtain msg t where mt: "mt = (msg, t)" by (cases mt)
  obtain resp srv1 s1 where d: "dispatch_message env tx srv msg s = (resp, srv1, s1)"
    by (cases "dispatch_message env tx srv msg s")
  define new where "new = recorded_calls [mt] [resp]"
  obtain m1 where m1: "http_dispatch fo to_string env tx t srv msg s m = Some (resp, srv1, s1, m1)"
      "\<forall>t. recorded fo to_string (cs @ new) m1 t"
    using record_call_recorded [OF Cons.prems, of "\<lparr>tc_tool = the (tool_name_of msg), tc_elapsed = t, tc_response = resp\<rparr>"]
      Cons.prems
    by (cases "tool_name_of msg")
      (auto simp: http_dispatch_def d new_def mt recorded_calls_def List.map_filter_simps)
  obtain rs srv' s' m' where rest: "http_session fo to_string env tx srv1 ms s1 m1 = Some (rs, srv', s', m')"
      "serve env tx srv1 (map fst ms) s1 = (List.map_filter (\<lambda>r. r) rs, srv', s')" "length rs = length ms"
      "\<forall>t. recorded fo to_string ((cs @ new) @ recorded_calls ms rs) m' t"
    using Cons.IH [OF m1(2)] by blast
  have "cs @ recorded_calls (mt # ms) (resp # rs) = (cs @ new) @ recorded_calls ms rs"
    by (cases "tool_name_of msg") (simp_all add: new_def mt recorded_calls_def List.map_filter_simps)
  then show ?case
    using rest m1(1)
    by (intro exI [of _ "resp # rs"]) (simp add: mt d List.map_filter_simps split: option.split)
qed

text \<open>Recording does not disturb serving and misses nothing: over HTTP a session of any messages
  never panics, answers each as the server does without recording, and afterwards the series of every
  tool are exact: the call counter and the latency histogram count the calls of that tool, the error
  counter those answered by an error, and the denial counter those whose answer carries a marker of
  the write gate; denials are among the errors and errors among the calls.\<close>

lemma http_session_is_observed:
  "\<exists>rs srv' s' r. http_session fo to_string env tx srv ms s server_metrics = Some (rs, srv', s', r)
     \<and> serve env tx srv (map fst ms) s = (List.map_filter (\<lambda>r. r) rs, srv', s')
     \<and> length rs = length ms
     \<and> (let cs = recorded_calls ms rs in
        value_at r ''mcp_tool_calls_total'' t = ticks fo (calls_of t cs)
        \<and> value_at r ''mcp_tool_errors_total'' t = ticks fo (errors_of t cs)
        \<and> value_at r ''oracle_authz_denied_total'' t = ticks fo (denials_of to_string t cs)
        \<and> unwrap_or (map_option ms_count (series_at r (tool_key ''mcp_tool_latency_seconds'' t))) 0
            = calls_of t cs
        \<and> denials_of to_string t cs \<le> errors_of t cs \<and> errors_of t cs \<le> calls_of t cs)"
proof -
  obtain rs srv' s' r where session: "http_session fo to_string env tx srv ms s server_metrics = Some (rs, srv', s', r)"
      "serve env tx srv (map fst ms) s = (List.map_filter (\<lambda>r. r) rs, srv', s')" "length rs = length ms"
    and "recorded fo to_string (recorded_calls ms rs) r t"
    using http_session_recorded [OF allI [OF recorded_at_start], of fo to_string env tx srv ms s]
    unfolding append_Nil by blast
  then show ?thesis
    using counts_ordered [of to_string t "recorded_calls ms rs"]
    by (auto simp: recorded_def latency_ok_def Let_def split: option.splits)
qed

subsection \<open>Seeding is ingestion\<close>

lemma attach_vectors_zip:
  "length vs = length cs \<Longrightarrow> attach_vectors cs vs = map (\<lambda>(c, v). c\<lparr>ck_embedding := Some v\<rparr>) (zip cs vs)"
  by (induction cs vs rule: attach_vectors.induct) auto

lemma attach_vectors_append:
  "length us = length cs \<Longrightarrow> attach_vectors (cs @ ds) (us @ vs) = attach_vectors cs us @ attach_vectors ds vs"
  by (induction cs us rule: list_induct2') auto

lemma map_opt_append:
  "map_opt f (xs @ ys) = Option.bind (map_opt f xs) (\<lambda>us. map_option ((@) us) (map_opt f ys))"
proof (induction xs)
  case Nil
  show ?case by (cases "map_opt f ys") simp_all
next
  case (Cons x xs)
  then show ?case by (cases "f x"; cases "map_opt f xs"; cases "map_opt f ys") simp_all
qed

lemma embed_batches_mock:
  "embed_batches (mock_embed fo sha n) bs =
     map_option (\<lambda>vs. Ok (attach_vectors (concat bs) vs))
       (map_opt (\<lambda>t. token_bag_vector fo sha t n) (map ck_text (concat bs)))"
proof (induction bs)
  case (Cons b bs)
  let ?emb = "map_opt (\<lambda>t. token_bag_vector fo sha t n)"
  show ?case
  proof (cases "?emb (map ck_text b)")
    case None
    then show ?thesis by (simp add: mock_embed_def map_opt_append)
  next
    case (Some vs)
    then have "mock_embed fo sha n (map ck_text b) = Some (Ok vs)" and len: "length vs = length b"
      by (auto simp: mock_embed_def dest: length_map_opt)
    then show ?thesis
      by (cases "?emb (map ck_text (concat bs))")
        (simp_all add: Cons.IH Some map_opt_append attach_vectors_append attach_vectors_zip)
  qed
qed simp

text \<open>The seeding loop of the server is the ingestion pipeline, whatever its batch size: with the
  mock embedder, of any dimension, and whatever the store does, seeding panics where ingesting the
  seed documents does, fails with the same error, and leaves the store in the same state.\<close>

lemma seeding_is_ingestion:
  "populate_with_embeddings hash (mock_embed (fo :: 'f float_ops) sha n) up k =
     map_option (\<lambda>(r, k'). (map_sum id (\<lambda>_. ()) r, k'))
       (ingest (mock_embed fo sha n) up (with_batch_size b pipeline_new) (seed_documents hash) k)"
proof -
  have "populate_from (mock_embed fo sha n) up docs k =
     map_option (\<lambda>(r, k'). (map_sum id (\<lambda>_. ()) r, k'))
       (ingest_from (mock_embed fo sha n) up (with_batch_size b pipeline_new) rep docs k)" for rep docs k
  proof (induction docs arbitrary: rep k)
    case (Cons doc docs)
    obtain ch :: "'f chunk list" where ch: "chunk_document doc default_chunker = Some ch"
      using chunk_document_default by blast
    have b: "0 < pc_batch_size (with_batch_size b pipeline_new)" "pc_chunker (with_batch_size b pipeline_new) = default_chunker"
      by (simp_all add: with_batch_size_def pipeline_new_def)
    show ?case
    proof (cases "map_opt (\<lambda>t. token_bag_vector fo sha t n) (map ck_text ch)")
      case None
      then have "mock_embed fo sha n (map ck_text ch) = None" by (simp add: mock_embed_def)
      then show ?thesis
        using None b by (cases "ch = []") (simp_all add: ch embed_batches_mock concat_chunks_of Let_def)
    next
      case (Some vs)
      then have "mock_embed fo sha n (map ck_text ch) = Some (Ok vs)" by (simp add: mock_embed_def)
      then show ?thesis
        using Some b Cons.IH
        by (auto simp: ch embed_batches_mock concat_chunks_of Let_def split: prod.split sum.split)
    qed
  qed simp
  then show ?thesis by (simp add: populate_with_embeddings_def ingest_def)
qed
end
