(* ===== verification/Server_Listing.thy ===== *)
theory Server_Listing
  imports Server_Main "HOL-Library.Multiset"
begin

text \<open>
  What the server of the application lists: the names of its tools and which of them its exposure policy
  hides, for any context and skills.
\<close>

definition read_tool_names :: "string list" where
  "read_tool_names =
     [''integration.search'', ''bpmn.find_process'', ''eam.search_apps'', ''oracle.help.search'',
      ''oracle.kb.navigate'', ''oracle.system.info'', ''oracle.system.health'', ''oracle.system.cache_stats'',
      ''oracle.system.cache_invalidate'', ''oracle.rest.search'', ''oracle.rest.metadata'',
      ''oracle.rest.bulk_metadata'', ''oracle.rest.call'', ''oracle.object.read'', ''oracle.object.structure'',
      ''oracle.docs.search'', ''oracle.rest.parse_result'', ''oracle.party.search'', ''oracle.party.get'',
      ''oracle.oic.get_integration'', ''oracle.oic.get_groovy_script'', ''oracle.oic.get_connection'',
      ''oracle.oic.get_lookup'', ''oracle.oic.get_ess_job'', ''oracle.oic.get_project_contents'',
      ''oracle.oic.get_bip_report'', ''oracle.oic.search'', ''oracle.oic.where_used'', ''oracle.oic.preview_data'',
      ''kb.multi_hop'', ''kb.global_query'', ''kb.summarise'', ''kb.graph_neighborhood'']"

definition write_tool_names :: "string list" where
  "write_tool_names =
     [''oracle.oic.activate'', ''oracle.workflow.create_purchase_order'',
      ''oracle.workflow.maintain_customer_master'', ''oracle.workflow.publish_sandbox'']"

lemma descriptor_fields:
  "tl_name (td_tool (tool_descriptor_new n d s h)) = n" "td_exposure (tool_descriptor_new n d s h) = Exp_Read_Only"
  "tl_name (td_tool (with_writes x)) = tl_name (td_tool x)" "td_exposure (with_writes x) = Exp_Writes"
  by (simp_all add: tool_descriptor_new_def with_writes_def)

lemmas tool_groups = all_tools_def rag_tools_def sap_tools_def adt_tools_def graph_tools_def workflow_tools_def

lemmas tool_defs =
  make_rag_tool_def tool_kb_navigate_def tool_system_info_def tool_system_health_def
  tool_system_cache_stats_def tool_system_cache_invalidate_def tool_rfc_search_def tool_rfc_metadata_def
  tool_rfc_bulk_metadata_def tool_rfc_call_def tool_table_read_def tool_table_structure_def
  tool_docs_search_def tool_bapi_parse_return_def tool_bp_search_def tool_bp_get_def
  adt_get_program_def adt_get_class_def adt_get_interface_def adt_get_include_def
  adt_get_function_module_def adt_get_package_contents_def adt_get_cds_view_def adt_search_def
  adt_where_used_def adt_get_table_contents_def adt_activate_def
  kb_multi_hop_def kb_global_query_def kb_summarise_def kb_graph_neighborhood_def
  workflow_create_purchase_order_def workflow_maintain_customer_master_def workflow_release_transport_def

text \<open>The names and exposures, in the order of registration: the artifact tools end with the one that
  writes, before the tools of the graph.\<close>

lemma all_tools_listed:
  "map (\<lambda>d. (tl_name (td_tool d), td_exposure d)) (all_tools cx) =
     map (\<lambda>n. (n, Exp_Read_Only)) (take 29 read_tool_names)
     @ [(hd write_tool_names, Exp_Writes)]
     @ map (\<lambda>n. (n, Exp_Read_Only)) (drop 29 read_tool_names)
     @ map (\<lambda>n. (n, Exp_Writes)) (tl write_tool_names)"
  unfolding tool_groups tool_defs list.map append.simps descriptor_fields
  by (simp add: read_tool_names_def write_tool_names_def)

lemma tool_counts: "length read_tool_names = 33" "length write_tool_names = 4"
  by (simp_all add: read_tool_names_def write_tool_names_def)

lemma tool_names_distinct: "distinct (read_tool_names @ write_tool_names)"
  by code_simp

lemma all_tools_distinct: "distinct (map (\<lambda>d. tl_name (td_tool d)) (all_tools cx))"
proof -
  have "map (\<lambda>d. tl_name (td_tool d)) (all_tools cx)
      = map fst (map (\<lambda>d. (tl_name (td_tool d), td_exposure d)) (all_tools cx))"
    by simp
  also have "mset \<dots> = mset (read_tool_names @ write_tool_names)"
    unfolding all_tools_listed by (simp add: read_tool_names_def write_tool_names_def)
  finally show ?thesis using tool_names_distinct by (metis mset_eq_imp_distinct_iff)
qed

lemma update_fresh: "k \<notin> fst ` set xs \<Longrightarrow> AList.update k v xs = xs @ [(k, v)]"
  by (induction xs) auto

lemma add_fresh_tools:
  "distinct (map (\<lambda>d. tl_name (td_tool d)) ds) \<Longrightarrow>
     fst ` set (sb_tools b) \<inter> (\<lambda>d. tl_name (td_tool d)) ` set ds = {} \<Longrightarrow>
     sb_tools (foldl (\<lambda>b d. add_tool d b) b ds) = sb_tools b @ map (\<lambda>d. (tl_name (td_tool d), d)) ds"
proof (induction ds arbitrary: b)
  case (Cons d ds)
  have "AList.update (tl_name (td_tool d)) d (sb_tools b) = sb_tools b @ [(tl_name (td_tool d), d)]"
    using Cons.prems(2) by (intro update_fresh) auto
  then show ?case using Cons by (auto simp: add_tool_def)
qed simp

lemma build_server_tools:
  "sx_tools (build_server cx agents_md read_only skills)
     = map (\<lambda>d. (tl_name (td_tool d), d)) (filter (is_allowed_by (policy_of read_only)) (all_tools cx))"
proof -
  let ?b = "set_instructions (build_instructions agents_md read_only)
    (set_exposure (policy_of read_only) (builder_new ''oracle-automate-server'' CARGO_PKG_VERSION))"
  have b: "sb_tools ?b = []" "sb_exposure ?b = policy_of read_only"
    by (simp_all add: set_instructions_def set_exposure_def builder_new_def)
  have "sb_tools (foldl (\<lambda>b d. add_tool d b) ?b (all_tools cx)) = map (\<lambda>d. (tl_name (td_tool d), d)) (all_tools cx)"
    by (subst add_fresh_tools) (simp_all add: b all_tools_distinct)
  then show ?thesis
    by (simp add: build_server_def build_def register_surface_def folds_keep b filter_map comp_def)
qed

lemma allowed_by_policy:
  "is_allowed_by (policy_of read_only) = (\<lambda>d. \<not> read_only \<or> td_exposure d = Exp_Read_Only)"
  by (rule ext) (auto simp: is_allowed_by_def policy_of_def split: tool_exposure.splits)

lemma build_server_names:
  "mset (map fst (sx_tools (build_server cx agents_md read_only skills)))
     = mset (if read_only then read_tool_names else read_tool_names @ write_tool_names)"
proof -
  let ?p = "\<lambda>(n, e). \<not> read_only \<or> e = Exp_Read_Only"
  have "map fst (sx_tools (build_server cx agents_md read_only skills))
      = map fst (filter ?p (map (\<lambda>d. (tl_name (td_tool d), td_exposure d)) (all_tools cx)))"
    by (simp add: build_server_tools filter_map comp_def allowed_by_policy)
  also have "mset \<dots> = mset (if read_only then read_tool_names else read_tool_names @ write_tool_names)"
    unfolding all_tools_listed
    by (simp add: read_tool_names_def write_tool_names_def)
  finally show ?thesis .
qed

text \<open>What the application's server lists, for any context, guardrails and skills: in read-only mode
  exactly the 33 reading tools, and otherwise also the four writing ones, each name once; the tools that are
  missing in read-only mode are the activation of an integration and the three workflows.\<close>

lemma server_lists_its_tools:
  "mset (map fst (sx_tools (build_server cx agents_md read_only skills)))
     = mset (if read_only then read_tool_names else read_tool_names @ write_tool_names)
   \<and> distinct (map fst (sx_tools (build_server cx agents_md read_only skills)))
   \<and> length read_tool_names = 33 \<and> length write_tool_names = 4"
proof -
  have "distinct (if read_only then read_tool_names else read_tool_names @ write_tool_names)"
    using tool_names_distinct by auto
  then have "distinct (map fst (sx_tools (build_server cx agents_md read_only skills)))"
    using build_server_names mset_eq_imp_distinct_iff by blast
  then show ?thesis using build_server_names tool_counts by blast
qed

end
