(* ===== verification/Gateway.thy ===== *)
theory Gateway
  imports Server_Listing Memory Channels Scheduler
begin

text \<open>
  The multi-channel gateway (\<open>apps/oracle-automate-gw/src/main.rs\<close>): a user's message is routed by keywords to
  a skill or a tool of the MCP server, the turn goes into the working memory, and the reply back to the
  channel it came from; scheduled jobs call tools and post what they answer. The server is the other
  end of a link (\<open>Mcp_Client\<close>); files, clocks and the parser of the scheduler's file are parameters.
\<close>

record gateway_cli =
  gw_server :: string
  gw_scheduler_config :: "string option"
  gw_simulate_query :: "string option"

fun channel_debug :: "channel_kind \<Rightarrow> string" where
  "channel_debug Teams = ''Teams''"
| "channel_debug Slack = ''Slack''"
| "channel_debug Telegram = ''Telegram''"
| "channel_debug Whatsapp = ''Whatsapp''"
| "channel_debug Email = ''Email''"
| "channel_debug Cli = ''Cli''"

fun channel_error_text :: "channel_error \<Rightarrow> string" where
  "channel_error_text (Unknown_Channel c) = ''unknown channel: '' @ c"
| "channel_error_text (Adapter_Error e) = ''adapter error: '' @ e"
| "channel_error_text Not_Connected = ''not connected''"

subsection \<open>Picking a skill\<close>

definition mentions :: "string \<Rightarrow> string list \<Rightarrow> bool" where
  "mentions lc ws \<longleftrightarrow> list_ex (contains_str lc) ws"

definition sod_audit_asked :: "string \<Rightarrow> bool" where
  "sod_audit_asked lc \<longleftrightarrow>
     mentions lc [''sod'', ''segregation of duties'', ''authorisation audit'', ''authorization audit'']
     \<and> mentions lc [''audit'', ''review'', ''sod'']"

definition sod_target :: "string \<Rightarrow> string" where
  "sod_target lc =
     to_uppercase (case split_whitespace lc of [] \<Rightarrow> ''*'' | w # ws \<Rightarrow> last (w # ws))"

definition skill_call :: "string \<Rightarrow> (string \<times> string) list \<Rightarrow> (string \<times> json option) option" where
  "skill_call name args = Some (name, Some (json_obj (map (\<lambda>(k, v). (k, JStr v)) args)))"

definition match_skill :: "string \<Rightarrow> (string \<times> json option) option" where
  "match_skill lc =
     (if sod_audit_asked lc then
        skill_call ''oracle.skill.security_sod_audit''
          [(''user_or_role'', sod_target lc), (''scope'', ''user'')]
      else if mentions lc [''analytics'', ''otbi'', ''bicc'', ''oac'', ''bi publisher'']
        \<and> mentions lc [''modernis'', ''moderniz'', ''migrat''] then
        skill_call ''oracle.skill.analytics_migration'' [(''source_object'', ''*'')]
      else if mentions lc [''period close'', ''period-close'']
        \<or> contains_str lc ''closing'' \<and> contains_str lc ''gl'' then
        skill_call ''oracle.skill.period_close_investigation''
          [(''ledger'', ''Gaussian Technologies Primary Ledger'')]
      else if contains_str lc ''code review''
        \<or> contains_str lc ''review'' \<and> mentions lc [''groovy'', ''integration'', ''oic''] then
        skill_call ''oracle.skill.custom_code_review''
          [(''object_name'', ''GT_INVOICE_HOLD_RULE''), (''kind'', ''groovy_script'')]
      else if mentions lc [''rest'', ''service''] \<and> mentions lc [''design'', ''expose'', ''proxy''] then
        skill_call ''oracle.skill.rest_service_design'' [(''service_name'', ''purchaseOrders'')]
      else if contains_str lc ''sandbox'' \<and> mentions lc [''impact'', ''publish'', ''analyse'', ''analyze''] then
        skill_call ''oracle.skill.sandbox_impact_analysis'' [(''sandbox'', ''GT_AR_AUTOINVOICE_FIX'')]
      else if mentions lc [''extensibility'', ''clean core'', ''clean-core''] then
        skill_call ''oracle.skill.extensibility_audit'' [(''project'', ''GT_FINANCE_INTEGRATIONS'')]
      else if mentions lc [''guideline'', ''how should i think'', ''preflight'', ''pre-flight''] then
        skill_call ''oracle.skill.karpathy_guidelines'' [(''task'', ''investigate without a clear scope'')]
      else None)"

text \<open>Without a skill, or when the server does not have it: a tool.\<close>

definition pick_tool :: "string \<Rightarrow> string \<Rightarrow> string \<times> json" where
  "pick_tool lc txt =
     (if mentions lc [''sod'', ''access control''] then
        (''oracle.docs.search'', json_obj
           [(''query'', JStr ''Advanced Access Controls segregation of duties incidents recent''),
            (''top_k'', JNum (JInt 3)), (''domain'', JStr ''all'')])
      else if mentions lc [''impact'', ''where used'', ''depends''] then
        (''kb.multi_hop'', json_obj
           [(''query'', JStr txt), (''top_k'', JNum (JInt 6)), (''max_hops'', JNum (JInt 4))])
      else
        (''oracle.docs.search'', json_obj [(''query'', JStr txt), (''top_k'', JNum (JInt 3))]))"

subsection \<open>A turn of the conversation\<close>

definition content_text :: "tool_content \<Rightarrow> string option" where
  "content_text c = (case c of Text_Content t \<Rightarrow> Some t | _ \<Rightarrow> None)"

definition joined_text :: "string \<Rightarrow> tool_content list \<Rightarrow> string" where
  "joined_text sep cs = join sep (List.map_filter content_text cs)"

definition paragraph_break :: string where "paragraph_break = [newline, newline]"

definition turn_entry :: "string \<Rightarrow> (string \<times> json) list \<Rightarrow> incoming_message \<Rightarrow> nat \<Rightarrow> memory_entry" where
  "turn_entry key fs msg now = entry_with_tenant (im_user_id msg) (entry_new Working key (json_obj fs) now)"

definition append_turn :: "incoming_message \<Rightarrow> memory_entry \<Rightarrow> memory_manager \<Rightarrow> memory_manager" where
  "append_turn msg e m = m\<lparr>mm_working := wm_append (im_conversation_id msg) e (mm_working m)\<rparr>"

definition user_turn :: "incoming_message \<Rightarrow> nat \<Rightarrow> memory_entry" where
  "user_turn msg =
     turn_entry ''user_turn''
       [(''channel'', JStr (channel_debug (im_channel msg))), (''text'', JStr (im_text msg))] msg"

definition agent_turn :: "string \<Rightarrow> string \<Rightarrow> string \<Rightarrow> incoming_message \<Rightarrow> nat \<Rightarrow> memory_entry" where
  "agent_turn kind name payload =
     turn_entry ''agent_turn'' [(kind, JStr name), (''result_chars'', JNum (JInt (int (length payload))))]"

definition reply_address :: "incoming_message \<Rightarrow> string" where
  "reply_address msg = channel_scheme (im_channel msg) @ '':'' @ im_conversation_id msg"

text \<open>The agent's turn is recorded and the reply made; \<open>via\<close> is how it starts.\<close>

definition answer_turn ::
  "string \<Rightarrow> string \<Rightarrow> string \<Rightarrow> string \<Rightarrow> incoming_message \<Rightarrow> nat \<Rightarrow> memory_manager
     \<Rightarrow> outgoing_message \<times> memory_manager" where
  "answer_turn kind via name payload msg now m =
     (let m' = append_turn msg (agent_turn kind name payload msg now) m in
      (\<lparr>og_address = reply_address msg,
        og_text = via @ ''`'' @ name @ ''`.'' @ paragraph_break @ payload @ paragraph_break @ ''Session context: ''
          @ show_nat (length (wm_recent (mm_working m') (im_conversation_id msg) 100)) @ '' working entries.'',
        og_rich = None\<rparr>, m'))"

text \<open>\<open>now\<close> and \<open>later\<close> are the clock readings of the two entries.\<close>

definition gateway_route ::
  "(json \<Rightarrow> string) \<Rightarrow> 'w link \<Rightarrow> nat \<Rightarrow> nat \<Rightarrow> incoming_message \<Rightarrow> memory_manager \<Rightarrow> mcp_client \<Rightarrow> 'w
     \<Rightarrow> outgoing_message mcp_result \<times> memory_manager \<times> mcp_client \<times> 'w" where
  "gateway_route serde_text link now later msg m cl w =
     (let m1 = append_turn msg (user_turn msg now) m;
          lc = to_lowercase (im_text msg);
          by_tool = (\<lambda>cl w. let (tool, args) = pick_tool lc (im_text msg) in
            case call_tool serde_text link tool (Some args) cl w of
              (Err e, cl', w') \<Rightarrow> (Err e, m1, cl', w')
            | (Ok res, cl', w') \<Rightarrow>
                (case answer_turn ''tool'' ''Routed via '' tool
                        (joined_text paragraph_break (ct_content res)) msg later m1 of
                   (out, m2) \<Rightarrow> (Ok out, m2, cl', w')))
      in case match_skill lc of
           None \<Rightarrow> by_tool cl w
         | Some (skill, args) \<Rightarrow>
             (case get_prompt serde_text link skill args cl w of
                (Err e, cl', w') \<Rightarrow> by_tool cl' w'
              | (Ok p, cl', w') \<Rightarrow>
                  (case answer_turn ''skill'' ''Routed via skill '' skill
                          (joined_text paragraph_break (map pm_content (gr_messages p))) msg later m1 of
                     (out, m2) \<Rightarrow> (Ok out, m2, cl', w'))))"

subsection \<open>Scheduled jobs\<close>

text \<open>\<open>GatewayJobExecutor::invoke\<close>, on the client, the server's world and the messages sent; a post that fails
  is ignored.\<close>

definition gateway_invoke ::
  "(json \<Rightarrow> string) \<Rightarrow> 'w link \<Rightarrow> channel_registry
     \<Rightarrow> (mcp_client \<times> 'w \<times> outgoing_message list) executor" where
  "gateway_invoke serde_text link reg job = (\<lambda>(cl, w, sent).
     let args = (if sj_arguments job = JNull then None else Some (sj_arguments job)) in
     case call_tool serde_text link (sj_tool job) args cl w of
       (Err e, cl', w') \<Rightarrow> (Err (''MCP error: '' @ mcp_error_text e), cl', w', sent)
     | (Ok res, cl', w') \<Rightarrow>
         (let summary = joined_text [newline] (ct_content res);
              sent' = (case sj_channel job of
                         Some addr \<Rightarrow> snd (registry_send reg (outgoing_text addr summary) sent)
                       | None \<Rightarrow> sent)
          in (Ok (''['' @ sj_name job @ ''] '' @ show_nat (length summary) @ '' chars''), cl', w', sent')))"

definition report_line :: "schedule_report \<Rightarrow> string" where
  "report_line r = ''[scheduler] '' @ sc_job r @ '' -> '' @ (if sc_ok r then ''ok'' else ''ERR'') @ '' (''
     @ show_nat (sc_duration_ms r) @ '' ms)''"

subsection \<open>The process\<close>

text \<open>The jobs of the scheduler's file, fired once; a file that cannot be read or parsed is passed over.\<close>

definition fire_schedule ::
  "(json \<Rightarrow> string) \<Rightarrow> 'w link \<Rightarrow> (string \<Rightarrow> string option) \<Rightarrow> (string \<Rightarrow> string + scheduled_job list)
     \<Rightarrow> (nat \<Rightarrow> nat \<times> nat) \<Rightarrow> channel_registry \<Rightarrow> string option \<Rightarrow> mcp_client \<times> 'w \<times> outgoing_message list
     \<Rightarrow> string list \<times> mcp_client \<times> 'w \<times> outgoing_message list" where
  "fire_schedule serde_text link files parse clock reg path x =
     (case Option.bind path files of
        None \<Rightarrow> ([], x)
      | Some txt \<Rightarrow>
          (case parse txt of
             Inl e \<Rightarrow> ([], x)
           | Inr jobs \<Rightarrow>
               (case fire_all_now (gateway_invoke serde_text link reg) clock (scheduler_new jobs) x of
                  (reports, sched, x') \<Rightarrow> (map report_line reports, x'))))"

definition simulated_message :: "string \<Rightarrow> nat \<Rightarrow> incoming_message" where
  "simulated_message query now =
     \<lparr>im_channel = Cli, im_user_id = ''demo@example.com'', im_conversation_id = ''default'',
      im_text = query, im_metadata = JNull, im_received_at_ms = now\<rparr>"

definition gateway_rule :: string where
  "gateway_rule = replicate 60 (CHR ''-'')"

definition tax_lines :: "nat \<Rightarrow> outgoing_message \<Rightarrow> string list" where
  "tax_lines total_ms shown =
     [newline # ''[gateway] tax = '' @ show_nat total_ms @ '' ms (target '' @ [CHR 0xE2, CHR 0x89, CHR 0xA4]
        @ '' 50 ms + server P95)'',
      ''[gateway] sent '' @ show_nat (length (og_text shown)) @ '' characters to '' @ og_address shown @ '':'',
      gateway_rule, og_text shown, gateway_rule]"

text \<open>The lines printed, and the error that ends the process, if one does.\<close>

definition gateway_main ::
  "(json \<Rightarrow> string) \<Rightarrow> 'w link \<Rightarrow> 'w outbox \<Rightarrow> (string \<Rightarrow> string option) \<Rightarrow> (string \<Rightarrow> string + scheduled_job list)
     \<Rightarrow> (nat \<Rightarrow> nat \<times> nat) \<Rightarrow> nat \<Rightarrow> nat \<Rightarrow> nat \<Rightarrow> string \<Rightarrow> gateway_cli \<Rightarrow> 'w
     \<Rightarrow> (string + unit) \<times> string list \<times> 'w" where
  "gateway_main serde_text link out files parse clock now later total_ms version cli w =
     (case client_initialize serde_text link out
             \<lparr>ip_name = ''oracle-automate-gw'', ip_version = version\<rparr> no_client_capabilities client_new w of
        (Err e, cl, w1) \<Rightarrow> (Err (mcp_error_text e), [], w1)
      | (Ok init, cl, w1) \<Rightarrow>
          (let reg = register Cli_Channel Map.empty in
           case fire_schedule serde_text link files parse clock reg (gw_scheduler_config cli) (cl, w1, []) of
             (fired, cl2, w2, sent) \<Rightarrow>
               (case gw_simulate_query cli of
                  None \<Rightarrow> (Ok (), fired, w2)
                | Some query \<Rightarrow>
                    (case gateway_route serde_text link now later (simulated_message query now) manager_new cl2 w2 of
                       (Err e, m, cl3, w3) \<Rightarrow> (Err (mcp_error_text e), fired, w3)
                     | (Ok msg, m, cl3, w3) \<Rightarrow>
                         (case registry_send reg msg sent of
                            (Inl e, sent') \<Rightarrow> (Err (channel_error_text e), fired, w3)
                          | (Inr _, sent') \<Rightarrow> (Ok (), fired @ tax_lines total_ms (last sent'), w3))))))"

subsection \<open>What a turn does\<close>

text \<open>A link that records what is sent on it; the two kinds of request the gateway makes.\<close>

definition recording :: "'w link \<Rightarrow> ('w \<times> rpc_message list) link" where
  "recording link m = (\<lambda>(w, sent). case link m w of (r, w') \<Rightarrow> (r, w', sent @ [m]))"

definition tool_request :: "i64 \<Rightarrow> string \<times> json \<Rightarrow> rpc_message" where
  "tool_request i = (\<lambda>(tool, args). Msg_Request (request_new (Id_Number i) METHOD_TOOLS_CALL
     (Some (enc_call_tool_params \<lparr>cp_name = tool, cp_arguments = Some args\<rparr>))))"

definition skill_request :: "i64 \<Rightarrow> string \<times> json option \<Rightarrow> rpc_message" where
  "skill_request i = (\<lambda>(skill, args). Msg_Request (request_new (Id_Number i) METHOD_PROMPTS_GET
     (Some (enc_get_prompt_params \<lparr>gp_name = skill, gp_arguments = args\<rparr>))))"

lemma call_tool_recording:
  "call_tool tc (recording link) tool (Some args) cl (w, sent)
     = (case call_tool tc link tool (Some args) cl w of
          (r, cl', w') \<Rightarrow> (r, cl', w', sent @ [tool_request (mc_next_id cl) (tool, args)]))"
  by (simp add: call_tool_def client_call_def recording_def tool_request_def Let_def
      split: prod.split option.split)

lemma get_prompt_recording:
  "get_prompt tc (recording link) skill args cl (w, sent)
     = (case get_prompt tc link skill args cl w of
          (r, cl', w') \<Rightarrow> (r, cl', w', sent @ [skill_request (mc_next_id cl) (skill, args)]))"
  by (simp add: get_prompt_def client_call_def recording_def skill_request_def Let_def
      split: prod.split option.split)

lemma get_prompt_id:
  "get_prompt tc link skill args cl w = (r, cl', w') \<Longrightarrow> mc_next_id cl' = mc_next_id cl + 1"
  by (auto simp: get_prompt_def client_call_def Let_def split: prod.splits option.splits)

lemma pick_tool_reads: "fst (pick_tool lc txt) \<in> {''oracle.docs.search'', ''kb.multi_hop''}"
  by (simp add: pick_tool_def)

lemma reply_reaches_channel:
  "og_address out = reply_address msg \<Longrightarrow> registry_send reg out sent
     = (case reg (channel_scheme (im_channel msg)) of
          None \<Rightarrow> (Err (Unknown_Channel (channel_scheme (im_channel msg))), sent)
        | Some a \<Rightarrow> adapter_send a out sent)"
  by (simp add: registry_send_def reply_address_def address_scheme_eq [OF scheme_no_colon, simplified] Let_def)

text \<open>The turn as it is recorded: the user's entry, and the agent's for a reply.\<close>

definition turn_recorded ::
  "incoming_message \<Rightarrow> nat \<Rightarrow> memory_manager \<Rightarrow> bool \<Rightarrow> memory_manager \<Rightarrow> bool" where
  "turn_recorded msg now m replied m' \<longleftrightarrow>
     (\<exists>es. m' = m\<lparr>mm_working := foldl wm_apply (mm_working m)
              (map (Wm_Append (im_conversation_id msg)) (user_turn msg now # es))\<rparr>
        \<and> length es = (if replied then 1 else 0)
        \<and> list_all (\<lambda>e. me_key e = ''agent_turn'' \<and> me_tenant e = Some (im_user_id msg)) es)"

lemma user_turn_recorded: "turn_recorded msg now m False (append_turn msg (user_turn msg now) m)"
  by (simp add: turn_recorded_def append_turn_def)

lemma answer_turn_recorded:
  "answer_turn kind via name payload msg later (append_turn msg (user_turn msg now) m) = (out, m2)
     \<Longrightarrow> turn_recorded msg now m True m2 \<and> og_address out = reply_address msg"
  by (auto simp: answer_turn_def Let_def turn_recorded_def append_turn_def agent_turn_def turn_entry_def
      entry_with_tenant_def entry_new_def intro!: exI [of _ "[agent_turn kind name payload msg later]"])

text \<open>C37. A turn at the gateway, whatever the user writes and the server answers: it makes at most two requests
  with consecutive ids, first for the skill the words match, if any, and then, without a skill or when
  the server does not give it, a call of one of two reading tools; it fails only when that call does. The
  working memory of the conversation gets the user's entry first and then, with a reply, the agent's, both
  under the user; nothing else is remembered. A reply is sent by the adapter of the channel the
  message came from.\<close>

theorem gateway_turn:
  "case gateway_route tc (recording link) now later msg m cl (w, []) of (r, m', cl', w', asked) \<Rightarrow>
     (let lc = to_lowercase (im_text msg);
          skills = (case match_skill lc of None \<Rightarrow> [] | Some sk \<Rightarrow> [skill_request (mc_next_id cl) sk]);
          tool = tool_request (mc_next_id cl + of_nat (length skills)) (pick_tool lc (im_text msg))
      in (if is_ok r \<and> skills \<noteq> [] then asked \<in> {skills, skills @ [tool]} else asked = skills @ [tool])
       \<and> fst (pick_tool lc (im_text msg)) \<in> {''oracle.docs.search'', ''kb.multi_hop''}
       \<and> turn_recorded msg now m (is_ok r) m'
       \<and> (case r of Err e \<Rightarrow> True | Ok out \<Rightarrow>
            registry_send reg out sent
              = (case reg (channel_scheme (im_channel msg)) of
                   None \<Rightarrow> (Err (Unknown_Channel (channel_scheme (im_channel msg))), sent)
                 | Some a \<Rightarrow> adapter_send a out sent)))"
proof -
  let ?m1 = "append_turn msg (user_turn msg now) m"
  let ?lc = "to_lowercase (im_text msg)"
  obtain tool args where t: "pick_tool ?lc (im_text msg) = (tool, args)" by (rule prod.exhaust)
  have reads: "tool = ''oracle.docs.search'' \<or> tool = ''kb.multi_hop''"
    using pick_tool_reads [of ?lc "im_text msg"] by (simp add: t)
  show ?thesis
  proof (cases "match_skill ?lc")
    case None
    then show ?thesis
      using reads
      by (auto simp: gateway_route_def Let_def t call_tool_recording user_turn_recorded
          dest!: answer_turn_recorded intro: reply_reaches_channel split: prod.splits sum.splits)
  next
    case (Some sk)
    then show ?thesis
      using reads
      by (cases sk)
        (auto simp: gateway_route_def Let_def t call_tool_recording get_prompt_recording user_turn_recorded
          dest!: answer_turn_recorded get_prompt_id intro: reply_reaches_channel
          split: prod.splits sum.splits)
  qed
qed

text \<open>In front of the application's server the gateway always has an answer: for any message, context, mode and
  skills the turn ends with a reply, and the server's registries and log level are as before.\<close>

lemma gateway_always_answers:
  "case gateway_route tc (server_link env tx) now later msg m cl
          (build_server cx agents_md read_only skills, s) of
     (r, m', cl', srv', s') \<Rightarrow> is_ok r \<and> srv' = build_server cx agents_md read_only skills"
proof -
  let ?srv = "build_server cx agents_md read_only skills"
  let ?lc = "to_lowercase (im_text msg)"
  obtain tool args where t: "pick_tool ?lc (im_text msg) = (tool, args)" by (rule prod.exhaust)
  have "tool \<in> set read_tool_names"
    using pick_tool_reads [of ?lc "im_text msg"] by (auto simp: t read_tool_names_def)
  then have "tool \<in> set (map fst (sx_tools ?srv))"
    unfolding mset_eq_setD [OF build_server_names] by (cases read_only) simp_all
  then obtain d where d: "map_of (sx_tools ?srv) tool = Some d"
    by (metis (no_types, lifting) domD dom_map_of_conv_image_fst list.set_map)
  show ?thesis
    by (auto simp: gateway_route_def Let_def t call_tool_over_server get_prompt_over_server d
        split: prod.splits sum.splits option.splits)
qed

end
