(* ===== verification/Fusion_Pod.thy ===== *)
theory Fusion_Pod
  imports Fusion Transaction
begin

text \<open>
  The stand-in for a Fusion pod (\<open>crates/oracle-automate-fusion-mock/src/lib.rs\<close>), a second program
  of the repository that the live client is run against: its store, its handlers, the guard in front of
  them, and the table of routes. Routing and the extractors are \<open>axum\<close>'s, as its documentation has
  them: a path that no route matches is answered 404 and a method its route lacks 405, a \<open>:id\<close> takes
  one segment of the path that is not empty, a query that repeats a key has its last value, and a body
  that is missing is answered 415. The text of a URL is taken as the path the pod sees. The rendering of
  a JSON value is the parameter \<open>disp\<close>, the text of a transport failure is the parameter \<open>etext\<close>.
  The second half puts the pod behind the client: \<open>pod_send\<close> carries a request of the client there.
\<close>

record pod_config =
  pc_latency_ms :: nat
  pc_require_auth :: bool

definition pod_config_default :: pod_config where
  "pod_config_default = \<lparr>pc_latency_ms = 0, pc_require_auth = True\<rparr>"

record pod_store =
  ps_suppliers :: "json list"
  ps_items :: "json list"
  ps_journal_seq :: nat
  ps_po_seq :: nat

definition seeded_supplier :: "nat \<Rightarrow> string \<Rightarrow> string \<Rightarrow> json" where
  "seeded_supplier i supplier number = json_obj
     [(''SupplierId'', JNat i), (''Supplier'', JStr supplier), (''SupplierNumber'', JStr number),
      (''Status'', JStr ''ACTIVE'')]"

definition seeded_item :: "nat \<Rightarrow> string \<Rightarrow> string \<Rightarrow> json" where
  "seeded_item i number description = json_obj
     [(''ItemId'', JNat i), (''ItemNumber'', JStr number), (''ItemDescription'', JStr description),
      (''OrganizationId'', JNat 204)]"

definition pod_seeded :: pod_store where
  "pod_seeded =
     \<lparr>ps_suppliers =
        [seeded_supplier 300100 ''PT Sumber Daya Komputasi'' ''S-300100'',
         seeded_supplier 300101 ''PT Nusantara Semikonduktor'' ''S-300101'',
         seeded_supplier 300102 ''PT Andalan Cloud Indonesia'' ''S-300102''],
      ps_items =
        [seeded_item 100 ''GT-EDGE-1000'' ''Edge AI Inference Module'',
         seeded_item 101 ''GT-SENS-2000'' ''Industrial IoT Sensor Array''],
      ps_journal_seq = 90000, ps_po_seq = 700000\<rparr>"

definition POD_REST_BASE :: string where "POD_REST_BASE = ''/fscmRestApi/resources/11.13.18.05''"

subsection \<open>Answers\<close>

record pod_request =
  pq_method :: http_method
  pq_path :: string
  pq_query :: "(string \<times> string) list"
  pq_authorized :: bool
  pq_body :: "json option"

definition transport_failure :: "bool \<Rightarrow> bool \<Rightarrow> string \<Rightarrow> http_failure" where
  "transport_failure timeout connect etext =
     \<lparr>hf_timeout = timeout, hf_connect = connect, hf_text = etext\<rparr>"

definition json_answer :: "nat \<Rightarrow> json \<Rightarrow> http_response" where
  "json_answer status v = \<lparr>hp_status = status, hp_body = Inr v\<rparr>"

definition bare_answer :: "string \<Rightarrow> nat \<Rightarrow> http_response" where
  "bare_answer etext status =
     \<lparr>hp_status = status, hp_body = Inl (transport_failure False False etext)\<rparr>"

text \<open>The reason phrases of the two statuses that carry an envelope.\<close>

definition canonical_reason :: "nat \<Rightarrow> string option" where
  "canonical_reason status =
     (if status = 401 then Some ''Unauthorized'' else if status = 404 then Some ''Not Found'' else None)"

definition error_envelope :: "nat \<Rightarrow> string \<Rightarrow> string \<Rightarrow> http_response" where
  "error_envelope status code detail = json_answer status
     (json_obj
       [(''title'', JStr (unwrap_or (canonical_reason status) ''Error'')), (''status'', JNat status),
        (''detail'', JStr detail), (''o:errorCode'', JStr code)])"

definition supplier_missing :: http_response where
  "supplier_missing = error_envelope 404 ''FND-404'' ''Supplier not found''"

definition fusion_healthz :: http_response where
  "fusion_healthz = json_answer 200 (json_obj [(''status'', JStr ''ok''), (''pod'', JStr ''fusion-mock'')])"

definition catalog_root :: http_response where
  "catalog_root = json_answer 200 (json_obj [(''items'', JArr []), (''version'', JStr ''11.13.18.05'')])"

subsection \<open>Handlers\<close>

definition rfind_char :: "string \<Rightarrow> char \<Rightarrow> nat option" where
  "rfind_char s d = map_option (\<lambda>i. length s - Suc i) (find_char (rev s) d)"

text \<open>What stands between the first and the last quote of a string.\<close>

definition quoted_part :: "string \<Rightarrow> string option" where
  "quoted_part q =
     (case (find_char q (CHR 0x27), rfind_char q (CHR 0x27)) of
        (Some i, Some j) \<Rightarrow>
          (let start = i + 1 in if j \<le> start then None else Some (take (j - start) (drop start q)))
      | _ \<Rightarrow> None)"

definition extract_like :: "string \<Rightarrow> string option" where
  "extract_like q = map_option (trim_char (CHR ''%'')) (quoted_part q)"

definition supplier_id_eq :: "(json \<Rightarrow> string) \<Rightarrow> json \<Rightarrow> string \<Rightarrow> bool" where
  "supplier_id_eq disp s i \<longleftrightarrow> map_option disp (jget s ''SupplierId'') = Some i"

definition supplier_named :: "string \<Rightarrow> json \<Rightarrow> bool" where
  "supplier_named needle s \<longleftrightarrow> needle = []
     \<or> unwrap_or (map_option (\<lambda>n. contains_str (to_lowercase n) needle) (get_str s ''Supplier'')) False"

definition suppliers_search :: "(string \<times> string) list \<Rightarrow> pod_store \<Rightarrow> http_response" where
  "suppliers_search params st =
     (let param = (\<lambda>k. map_of (rev params) k);
          limit = unwrap_or (Option.bind (param ''limit'') (parse_unsigned (2 ^ 64))) 25;
          needle = to_lowercase (unwrap_or (Option.bind (param ''q'') extract_like) []);
          items = take limit (filter (supplier_named needle) (ps_suppliers st))
      in json_answer 200 (json_obj
           [(''items'', JArr items), (''count'', JNat (length items)), (''hasMore'', JBool False),
            (''limit'', JNat limit), (''offset'', JNat 0)]))"

definition supplier_get :: "(json \<Rightarrow> string) \<Rightarrow> string \<Rightarrow> pod_store \<Rightarrow> http_response" where
  "supplier_get disp i st =
     (case find (\<lambda>s. supplier_id_eq disp s i) (ps_suppliers st) of
        Some s \<Rightarrow> json_answer 200 s
      | None \<Rightarrow> supplier_missing)"

text \<open>\<open>s["Status"] = status\<close> on the supplier that was found; it has an id, so it is an object.\<close>

fun set_status :: "json option \<Rightarrow> json \<Rightarrow> json" where
  "set_status (Some status) (JObj m) = JObj (obj_insert ''Status'' status m)"
| "set_status _ s = s"

fun patch_first :: "(json \<Rightarrow> bool) \<Rightarrow> (json \<Rightarrow> json) \<Rightarrow> json list \<Rightarrow> json option \<times> json list" where
  "patch_first p f [] = (None, [])"
| "patch_first p f (s # ss) =
     (if p s then (Some (f s), f s # ss)
      else (case patch_first p f ss of (r, ss') \<Rightarrow> (r, s # ss')))"

definition supplier_patch ::
  "(json \<Rightarrow> string) \<Rightarrow> string \<Rightarrow> json \<Rightarrow> pod_store \<Rightarrow> http_response \<times> pod_store" where
  "supplier_patch disp i body st =
     (case patch_first (\<lambda>s. supplier_id_eq disp s i) (set_status (jget body ''Status'')) (ps_suppliers st) of
        (Some s, ss) \<Rightarrow> (json_answer 200 s, st\<lparr>ps_suppliers := ss\<rparr>)
      | (None, ss) \<Rightarrow> (supplier_missing, st))"

definition items_read :: "pod_store \<Rightarrow> http_response" where
  "items_read st = json_answer 200 (json_obj
     [(''items'', JArr (ps_items st)), (''count'', JNat (length (ps_items st))), (''hasMore'', JBool False)])"

definition self_link :: "string \<Rightarrow> nat \<Rightarrow> json" where
  "self_link collection i = JArr [json_obj
     [(''rel'', JStr ''self''), (''href'', JStr (POD_REST_BASE @ ''/'' @ collection @ ''/'' @ show_nat i))]]"

definition journal_post :: "json \<Rightarrow> pod_store \<Rightarrow> http_response \<times> pod_store" where
  "journal_post body st =
     (let i = ps_journal_seq st + 1;
          name = unwrap_or (Option.bind
            (case jget body ''JournalEntryName'' of Some n \<Rightarrow> Some n | None \<Rightarrow> jget body ''JeBatchName'')
            as_str) ''KLB Journal Import''
      in (json_answer 201 (json_obj
            [(''JournalEntryId'', JNat i), (''JeHeaderId'', JNat i), (''JournalEntryName'', JStr name),
             (''Status'', JStr ''POSTED''), (''PostedDate'', JStr ''2026-05-30''),
             (''links'', self_link ''journalEntries'' i)]),
          st\<lparr>ps_journal_seq := i\<rparr>))"

definition po_post :: "json \<Rightarrow> pod_store \<Rightarrow> http_response \<times> pod_store" where
  "po_post body st =
     (let i = ps_po_seq st + 1;
          supplier = unwrap_or (get_str body ''Supplier'') ''PT Sumber Daya Komputasi''
      in (json_answer 201 (json_obj
            [(''POHeaderId'', JNat i), (''OrderNumber'', JStr (''GT-PO-'' @ show_nat i)),
             (''Supplier'', JStr supplier), (''Status'', JStr ''OPEN''),
             (''CurrencyCode'', JStr (unwrap_or (get_str body ''CurrencyCode'') ''IDR'')),
             (''links'', self_link ''purchaseOrders'' i)]),
          st\<lparr>ps_po_seq := i\<rparr>))"

subsection \<open>Routes\<close>

datatype pod_route =
    Catalog_Root | Suppliers | Supplier string | Items_V2 | Journal_Entries | Purchase_Orders

text \<open>The segment a \<open>:name\<close> stands for.\<close>

definition path_segment :: "string \<Rightarrow> string \<Rightarrow> string option" where
  "path_segment start path =
     (case strip_prefix path start of
        Some seg \<Rightarrow> if seg \<noteq> [] \<and> CHR ''/'' \<notin> set seg then Some seg else None
      | None \<Rightarrow> None)"

definition pod_match :: "string \<Rightarrow> pod_route option" where
  "pod_match path =
     (if path = POD_REST_BASE then Some Catalog_Root
      else if path = POD_REST_BASE @ ''/suppliers'' then Some Suppliers
      else if path = POD_REST_BASE @ ''/itemsV2'' then Some Items_V2
      else if path = POD_REST_BASE @ ''/journalEntries'' then Some Journal_Entries
      else if path = POD_REST_BASE @ ''/purchaseOrders'' then Some Purchase_Orders
      else map_option Supplier (path_segment (POD_REST_BASE @ ''/suppliers/'') path))"

definition with_body ::
  "string \<Rightarrow> (json \<Rightarrow> pod_store \<Rightarrow> http_response \<times> pod_store) \<Rightarrow> json option \<Rightarrow> pod_store
     \<Rightarrow> http_response \<times> pod_store" where
  "with_body etext h body st =
     (case body of Some v \<Rightarrow> h v st | None \<Rightarrow> (bare_answer etext 415, st))"

definition pod_handle ::
  "(json \<Rightarrow> string) \<Rightarrow> string \<Rightarrow> pod_request \<Rightarrow> pod_store \<Rightarrow> http_response \<times> pod_store" where
  "pod_handle disp etext q st =
     (case pod_match (pq_path q) of
        None \<Rightarrow> (bare_answer etext 404, st)
      | Some route \<Rightarrow>
          (case (route, pq_method q) of
             (Catalog_Root, GET) \<Rightarrow> (catalog_root, st)
           | (Suppliers, GET) \<Rightarrow> (suppliers_search (pq_query q) st, st)
           | (Supplier i, GET) \<Rightarrow> (supplier_get disp i st, st)
           | (Supplier i, PATCH) \<Rightarrow> with_body etext (supplier_patch disp i) (pq_body q) st
           | (Items_V2, GET) \<Rightarrow> (items_read st, st)
           | (Journal_Entries, POST) \<Rightarrow> with_body etext journal_post (pq_body q) st
           | (Purchase_Orders, POST) \<Rightarrow> with_body etext po_post (pq_body q) st
           | _ \<Rightarrow> (bare_answer etext 405, st)))"

text \<open>The guard: the time it sleeps, then the answer. The store is not reached before it ends.\<close>

definition pod_guard ::
  "pod_config \<Rightarrow> (pod_request \<Rightarrow> 's \<Rightarrow> http_response \<times> 's) \<Rightarrow> pod_request \<Rightarrow> 's
     \<Rightarrow> nat \<times> http_response \<times> 's" where
  "pod_guard cfg handler q st =
     (pc_latency_ms cfg,
      if pc_require_auth cfg \<and> \<not> pq_authorized q
      then (error_envelope 401 ''FND-AUTH-401'' ''Missing Authorization header'', st)
      else handler q st)"

definition pod_serve ::
  "(json \<Rightarrow> string) \<Rightarrow> string \<Rightarrow> pod_config \<Rightarrow> pod_request \<Rightarrow> pod_store
     \<Rightarrow> nat \<times> http_response \<times> pod_store" where
  "pod_serve disp etext cfg q st =
     (if pq_path q = ''/healthz''
      then (0, if pq_method q = GET then fusion_healthz else bare_answer etext 405, st)
      else pod_guard cfg (pod_handle disp etext) q st)"

subsection \<open>The pod behind the client\<close>

text \<open>A request of the client at the pod that listens at \<open>base\<close>: any other address refuses the
  connection, and a pod that sleeps through the client's timeout loses the request with it. The client
  sends its \<open>Authorization\<close> header with every request.\<close>

definition to_pod_request :: "http_request \<Rightarrow> string \<Rightarrow> pod_request" where
  "to_pod_request q path =
     \<lparr>pq_method = hq_method q, pq_path = path, pq_query = hq_query q, pq_authorized = True,
      pq_body = hq_body q\<rparr>"

definition pod_send ::
  "(json \<Rightarrow> string) \<Rightarrow> string \<Rightarrow> pod_config \<Rightarrow> string \<Rightarrow> nat \<Rightarrow> pod_store http_send" where
  "pod_send disp etext pc base timeout_ms q st =
     (case strip_prefix (hq_url q) base of
        None \<Rightarrow> (Inl (transport_failure False True etext), st)
      | Some path \<Rightarrow>
          (case pod_serve disp etext pc (to_pod_request q path) st of
             (waited, resp, st') \<Rightarrow>
               if timeout_ms \<le> waited then (Inl (transport_failure True False etext), st)
               else (Inr resp, st')))"

lemma to_pod_request_simps [simp]:
  "pq_method (to_pod_request q path) = hq_method q" "pq_path (to_pod_request q path) = path"
  "pq_query (to_pod_request q path) = hq_query q" "pq_authorized (to_pod_request q path)"
  "pq_body (to_pod_request q path) = hq_body q"
  by (simp_all add: to_pod_request_def)

lemma pod_send_in_time:
  assumes "hq_url q = base @ path" and "path \<noteq> ''/healthz''" and "pc_latency_ms pc < t"
  shows "pod_send disp etext pc base t q st
    = (Inr (fst (pod_handle disp etext (to_pod_request q path) st)),
       snd (pod_handle disp etext (to_pod_request q path) st))"
  using assms by (simp add: pod_send_def str_simps pod_serve_def pod_guard_def case_prod_beta)

lemma pod_send_too_slow:
  assumes "hq_url q = base @ path" and "path \<noteq> ''/healthz''" and "t \<le> pc_latency_ms pc"
  shows "pod_send disp etext pc base t q st = (Inl (transport_failure True False etext), st)"
  using assms by (simp add: pod_send_def str_simps pod_serve_def pod_guard_def case_prod_beta)

lemma rest_path: "REST_BASE @ p \<noteq> ''/healthz''"
  by (simp add: REST_BASE_def)

lemma pod_base: "POD_REST_BASE = REST_BASE"
  by (simp add: POD_REST_BASE_def REST_BASE_def)

lemma pod_match_simps:
  "pod_match (REST_BASE @ ''/suppliers'') = Some Suppliers"
  "pod_match (REST_BASE @ ''/itemsV2'') = Some Items_V2"
  "pod_match (REST_BASE @ ''/journalEntries'') = Some Journal_Entries"
  "pod_match (REST_BASE @ ''/purchaseOrders'') = Some Purchase_Orders"
  "i \<noteq> [] \<Longrightarrow> CHR ''/'' \<notin> set i \<Longrightarrow> pod_match (REST_BASE @ ''/suppliers/'' @ i) = Some (Supplier i)"
  by (simp_all add: pod_match_def pod_base path_segment_def strip_prefix_append [of "REST_BASE @ ''/suppliers/''", simplified])

lemma supplier_route: "pod_match (REST_BASE @ ''/suppliers/'' @ show_nat i) = Some (Supplier (show_nat i))"
proof -
  have "CHR ''/'' \<notin> set (show_nat i)"
    using show_nat_digits [of i] by (auto simp: list_all_iff is_digit_char_def)
  then show ?thesis by (simp add: pod_match_simps(5) [simplified])
qed

subsection \<open>Looking suppliers up\<close>

text \<open>Every supplier of the store is an object with a numeric id of its own, and the items are the
  seeded ones: what the handlers keep.\<close>

definition has_id :: "json \<Rightarrow> nat \<Rightarrow> bool" where
  "has_id s n \<longleftrightarrow> (\<exists>m. s = JObj m) \<and> jget s ''SupplierId'' = Some (JNat n)"

definition pod_ok :: "pod_store \<Rightarrow> bool" where
  "pod_ok st \<longleftrightarrow> (\<exists>ids. distinct ids \<and> list_all2 has_id (ps_suppliers st) ids)
     \<and> ps_items st = ps_items pod_seeded"

lemma has_id_set_status [simp]: "has_id s n \<Longrightarrow> has_id (set_status status s) n"
  by (cases status) (auto simp: has_id_def)

lemma patch_first_ids:
  "list_all2 has_id ss ids \<Longrightarrow> list_all2 has_id (snd (patch_first p (set_status status) ss)) ids"
proof (induction ss arbitrary: ids)
  case (Cons s ss)
  then obtain n ids' where "ids = n # ids'" "has_id s n" "list_all2 has_id ss ids'"
    by (cases ids) auto
  with Cons.IH show ?case by (simp add: case_prod_beta)
qed simp

lemma pod_ok_seeded: "pod_ok pod_seeded"
  unfolding pod_ok_def
  by (intro conjI exI [of _ "[300100, 300101, 300102]"])
    (simp_all add: pod_seeded_def seeded_supplier_def has_id_def map_of_obj_of)

lemma pod_ok_patch: "pod_ok st \<Longrightarrow> pod_ok (snd (supplier_patch disp i body st))"
  by (auto simp: pod_ok_def supplier_patch_def case_prod_beta split: option.split
      intro: patch_first_ids)

lemma pod_ok_handle: "pod_ok st \<Longrightarrow> pod_ok (snd (pod_handle disp etext q st))"
  using pod_ok_patch
  by (auto simp: pod_handle_def with_body_def journal_post_def po_post_def Let_def
      split: option.split pod_route.split http_method.split)
    (auto simp: pod_ok_def)

lemma quoted_part_between:
  assumes "CHR 0x27 \<notin> set a" and "CHR 0x27 \<notin> set b"
  shows "quoted_part (a @ CHR 0x27 # mid @ CHR 0x27 # b) = (if mid = [] then None else Some mid)"
proof -
  have "find_char (rev (a @ CHR 0x27 # mid @ CHR 0x27 # b)) (CHR 0x27) = Some (length b)"
    using find_char_append [of "CHR 0x27" "rev b" "rev (a @ CHR 0x27 # mid)"] assms(2) by simp
  with assms(1) show ?thesis
    by (simp add: quoted_part_def rfind_char_def find_char_append Let_def)
qed

lemma extract_party_query:
  assumes "CHR ''%'' \<notin> set query"
  shows "extract_like (party_query query) = Some (filter (\<lambda>c. c \<noteq> CHR 0x27) query)"
proof -
  let ?q = "filter (\<lambda>c. c \<noteq> CHR 0x27) query"
  have "party_query query = ''Supplier LIKE '' @ CHR 0x27 # (CHR ''%'' # ?q @ ''%'') @ [CHR 0x27]"
    by (simp add: party_query_def)
  then have "quoted_part (party_query query) = Some (CHR ''%'' # ?q @ ''%'')"
    using quoted_part_between [of "''Supplier LIKE ''" "[]" "CHR ''%'' # ?q @ ''%''"] by simp
  moreover have "CHR ''%'' \<notin> set ?q"
    using assms by auto
  ultimately show ?thesis
    using trim_quoted [of "CHR ''%''" ?q] by (simp add: extract_like_def)
qed

text \<open>What a search asks for: the suppliers whose name holds the query, quotes aside, in any case.\<close>

definition named_like :: "string \<Rightarrow> json \<Rightarrow> bool" where
  "named_like query s \<longleftrightarrow> filter (\<lambda>c. c \<noteq> CHR 0x27) query = []
     \<or> (case get_str s ''Supplier'' of
           Some name \<Rightarrow> contains_str (to_lowercase name) (to_lowercase (filter (\<lambda>c. c \<noteq> CHR 0x27) query))
         | None \<Rightarrow> False)"

lemma supplier_named_like:
  "supplier_named (to_lowercase (filter (\<lambda>c. c \<noteq> CHR 0x27) query)) = named_like query"
proof
  fix s
  show "supplier_named (to_lowercase (filter (\<lambda>c. c \<noteq> CHR 0x27) query)) s = named_like query s"
    by (cases "get_str s ''Supplier''") (auto simp: supplier_named_def named_like_def to_lowercase_def)
qed

lemma suppliers_search_answer:
  assumes "CHR ''%'' \<notin> set query" and "n < 2 ^ 64"
  shows "\<exists>body. suppliers_search [(''q'', party_query query), (''limit'', show_nat n)] st = json_answer 200 body
    \<and> jget body ''items'' = Some (JArr (take n (filter (named_like query) (ps_suppliers st))))"
  unfolding suppliers_search_def Let_def
  by (intro exI conjI, rule refl)
    (simp add: assms [simplified] extract_party_query parse_unsigned_def parse_nat_show_nat map_of_obj_of supplier_named_like)

lemma pod_supplier_found:
  assumes "pod_ok st" and "\<And>n. disp (JNat n) = show_nat n" and "s \<in> set (ps_suppliers st)"
  shows "\<exists>n. party_from_obj disp s = Some p \<longrightarrow> pt_id p = show_nat n
      \<and> supplier_get disp (show_nat n) st = json_answer 200 s"
proof -
  obtain ids where ids: "distinct ids" "list_all2 has_id (ps_suppliers st) ids"
    using assms(1) by (auto simp: pod_ok_def)
  have same: "supplier_id_eq disp s' (show_nat n) \<longleftrightarrow> n' = n" if "has_id s' n'" for s' n n'
    using that assms(2) by (auto simp: supplier_id_eq_def has_id_def)
  have found: "find (\<lambda>s. supplier_id_eq disp s (show_nat n)) ss = Some s"
    if "list_all2 has_id ss is" "distinct is" "s \<in> set ss" "has_id s n" for ss "is" n
    using that
  proof (induction ss "is" rule: list_all2_induct)
    case (Cons s' ss n' ns)
    have "n \<in> set ns" if "s \<in> set ss"
      using that Cons.hyps(2) Cons.prems(3)
      by (force simp: list_all2_conv_all_nth in_set_conv_nth has_id_def)
    with Cons same show ?case by (auto simp: has_id_def)
  qed simp
  obtain n where n: "has_id s n"
    using ids(2) assms(3) by (force simp: list_all2_conv_all_nth in_set_conv_nth)
  then have "supplier_get disp (show_nat n) st = json_answer 200 s"
    using found [OF ids(2,1) assms(3)] by (simp add: supplier_get_def)
  moreover have "pt_id p = show_nat n" if "party_from_obj disp s = Some p"
    using that n assms(2) by (auto simp: party_from_obj_def has_id_def Let_def)
  ultimately show ?thesis by blast
qed

text \<open>Suppliers looked up through the live client at the pod, after whatever the pod has served: a
  search for a text without percent signs returns, in the order of the store and up to the limit, exactly the
  suppliers whose name holds the text in any case, quotes aside, and every party it returns is returned
  again, unchanged, when it is fetched by its id; neither request changes the store.\<close>

lemma suppliers_looked_up:
  assumes "pod_ok st" and "\<And>n. disp (JNat n) = show_nat n" and "fx_base_url cfg = base"
    and "pc_latency_ms pc < fx_timeout_ms cfg" and "CHR ''%'' \<notin> set query" and "n < 2 ^ 64"
  shows "\<exists>found. search_parties disp cfg (pod_send disp etext pc base (fx_timeout_ms cfg)) query n st
        = (Ok found, st)
    \<and> found = List.map_filter (party_from_obj disp) (take n (filter (named_like query) (ps_suppliers st)))
    \<and> (\<forall>p \<in> set found.
         get_party disp cfg (pod_send disp etext pc base (fx_timeout_ms cfg)) (pt_id p) st = (Ok p, st))"
proof -
  let ?send = "pod_send disp etext pc base (fx_timeout_ms cfg)"
  let ?found = "List.map_filter (party_from_obj disp) (take n (filter (named_like query) (ps_suppliers st)))"
  note in_time = pod_send_in_time [OF _ rest_path assms(4), where base = base and st = st]
  have "search_parties disp cfg ?send query n st = (Ok ?found, st)"
    using suppliers_search_answer [OF assms(5,6), of st]
    by (auto simp: search_parties_def assms(3) in_time pod_handle_def pod_match_simps
        json_answer_def parse_parties_def)
  moreover have "get_party disp cfg ?send (pt_id p) st = (Ok p, st)" if p: "p \<in> set ?found" for p
  proof -
    obtain s where s: "s \<in> set (take n (filter (named_like query) (ps_suppliers st)))"
        "party_from_obj disp s = Some p"
      using p by auto
    then have "s \<in> set (ps_suppliers st)"
      using in_set_takeD [OF s(1)] by simp
    then obtain m where m: "pt_id p = show_nat m" "supplier_get disp (show_nat m) st = json_answer 200 s"
      using pod_supplier_found [OF assms(1,2), of s p] s by auto
    with s show ?thesis
      by (simp add: get_party_def assms(3) in_time pod_handle_def supplier_route [simplified] json_answer_def)
  qed
  ultimately show ?thesis by blast
qed

definition sample_disp :: "json \<Rightarrow> string" where
  "sample_disp v = (case v of JNum n \<Rightarrow> num_text n | _ \<Rightarrow> [])"

definition sample_pod_client :: fusion_config where
  "sample_pod_client = fusion_config_new ''http://127.0.0.1:8088/'' (Basic ''demo'' ''demo'')"

lemma sample_pod_client_simps [simp]:
  "fx_base_url sample_pod_client = ''http://127.0.0.1:8088''" "fx_timeout_ms sample_pod_client = 30000"
  by (simp_all add: sample_pod_client_def fusion_config_new_def trim_end_char_def DEFAULT_FUSION_TIMEOUT_MS_def)

lemma seeded_party:
  "map_option pt_name (party_from_obj sample_disp (seeded_supplier i supplier number)) = Some supplier"
  by (simp add: seeded_supplier_def party_from_obj_def map_of_obj_of sample_disp_def Let_def)

lemma seeded_named:
  "named_like ''SUMBER'' (seeded_supplier i supplier number)
    \<longleftrightarrow> contains_str (to_lowercase supplier) (to_lowercase ''SUMBER'')"
  by (simp add: seeded_supplier_def named_like_def get_str_def map_of_obj_of)

lemma seeded_names:
  "contains_str (to_lowercase ''PT Sumber Daya Komputasi'') (to_lowercase ''SUMBER'')"
  "\<not> contains_str (to_lowercase ''PT Nusantara Semikonduktor'') (to_lowercase ''SUMBER'')"
  "\<not> contains_str (to_lowercase ''PT Andalan Cloud Indonesia'') (to_lowercase ''SUMBER'')"
  by code_simp+

lemma sample_search:
  "map pt_name (List.map_filter (party_from_obj sample_disp)
     (take 25 (filter (named_like ''SUMBER'') (ps_suppliers pod_seeded)))) = [''PT Sumber Daya Komputasi'']"
  using seeded_party [of 300100 "''PT Sumber Daya Komputasi''" "''S-300100''"]
  by (auto simp only: pod_seeded_def pod_store.simps filter.simps seeded_named seeded_names if_True if_False
      take_Suc_Cons numeral_eq_Suc take_Nil List.map_filter_simps list.map split: option.splits)

lemma suppliers_looked_up_witness:
  "\<exists>found. search_parties sample_disp sample_pod_client
        (pod_send sample_disp [] pod_config_default ''http://127.0.0.1:8088'' 30000) ''SUMBER'' 25 pod_seeded
      = (Ok found, pod_seeded)
    \<and> map pt_name found = [''PT Sumber Daya Komputasi'']"
proof -
  have rendered: "sample_disp (JNat n) = show_nat n" for n
    by (simp add: sample_disp_def show_int_def)
  have late: "pc_latency_ms pod_config_default < fx_timeout_ms sample_pod_client"
    by (simp add: pod_config_default_def)
  have plain: "CHR ''%'' \<notin> set ''SUMBER''" "25 < (2 :: nat) ^ 64"
    by simp_all
  note found = suppliers_looked_up [OF pod_ok_seeded rendered sample_pod_client_simps(1) late plain,
      unfolded sample_pod_client_simps(2)]
  show ?thesis
    using found [of "[]"] sample_search by metis
qed

subsection \<open>Writes at the pod\<close>

text \<open>A value in which the parser of return stacks finds no row.\<close>

definition quiet :: "json \<Rightarrow> bool" where
  "quiet v \<longleftrightarrow> (\<forall>depth. walk v depth = [])"

lemma quiet_leaf [simp]: "quiet JNull" "quiet (JBool b)" "quiet (JNum n)" "quiet (JStr s)"
  by (simp_all add: quiet_def loop_simps)

lemma quiet_array [simp]: "list_all quiet xs \<Longrightarrow> quiet (JArr xs)"
  by (simp add: quiet_def loop_simps list_all_iff)

lemma values_obj_insert: "snd ` set (obj_insert k v m) \<subseteq> insert v (snd ` set m)"
  by (induction k v m rule: obj_insert.induct) auto

lemma values_obj_of: "snd ` set (obj_of kvs) \<subseteq> snd ` set kvs"
proof -
  have "snd ` set (foldl (\<lambda>m kv. obj_insert (fst kv) (snd kv) m) m kvs) \<subseteq> snd ` set m \<union> snd ` set kvs" for m
  proof (induction kvs arbitrary: m)
    case (Cons kv kvs)
    show ?case
      using Cons [of "obj_insert (fst kv) (snd kv) m"] values_obj_insert [of "fst kv" "snd kv" m] by auto
  qed simp
  from this [of "[]"] show ?thesis by (simp add: obj_of_def)
qed

lemma quiet_object:
  assumes "\<not> looks_like_row (rev kvs)" and "list_all (quiet \<circ> snd) kvs"
  shows "quiet (json_obj kvs)"
proof -
  have "\<not> looks_like_row (obj_of kvs)"
    using assms(1) by (simp add: looks_like_row_def obj_contains_def map_of_obj_of)
  moreover have "quiet x" if "x \<in> snd ` set (obj_of kvs)" for x
  proof -
    from that values_obj_of [of kvs] have "x \<in> snd ` set kvs" by blast
    with assms(2) show ?thesis by (auto simp: list_all_iff)
  qed
  ultimately show ?thesis by (force simp: quiet_def loop_simps)
qed

lemma quiet_no_messages: "quiet v \<Longrightarrow> parse_erp_messages v = []"
  by (simp add: quiet_def parse_erp_messages_def collect_candidates_def List.map_filter_def)

lemmas row_keys = looks_like_row_def obj_contains_def

lemma quiet_items: "list_all quiet (ps_items pod_seeded)"
  by (simp add: pod_seeded_def seeded_item_def quiet_object row_keys)

lemma quiet_self_link [simp]: "quiet (self_link collection i)"
  by (simp add: self_link_def quiet_object row_keys)

text \<open>The body of an answer, as the live client reports it.\<close>

definition answered :: "http_response \<Rightarrow> json" where
  "answered resp = (case hp_body resp of Inr body \<Rightarrow> body | Inl _ \<Rightarrow> JNull)"

lemma answered_simps [simp]:
  "hp_status (json_answer n v) = n" "answered (json_answer n v) = v"
  "hp_status (bare_answer etext n) = n" "answered (bare_answer etext n) = JNull"
  by (simp_all add: json_answer_def bare_answer_def answered_def)

lemma document_answers:
  "hp_status (fst (journal_post body st)) = 201" "quiet (answered (fst (journal_post body st)))"
  "snd (journal_post body st) = st\<lparr>ps_journal_seq := ps_journal_seq st + 1\<rparr>"
  "hp_status (fst (po_post body st)) = 201" "quiet (answered (fst (po_post body st)))"
  "snd (po_post body st) = st\<lparr>ps_po_seq := ps_po_seq st + 1\<rparr>"
  by (simp_all add: journal_post_def po_post_def Let_def quiet_object row_keys)

lemma items_answer:
  "hp_status (items_read st) = 200" "pod_ok st \<Longrightarrow> quiet (answered (items_read st))"
  by (simp_all add: items_read_def pod_ok_def quiet_items quiet_object row_keys)

text \<open>What an operation of the catalogue does to the store, and the status it is answered with.\<close>

definition pod_effect :: "string \<Rightarrow> pod_store \<Rightarrow> pod_store" where
  "pod_effect f st =
     (if f = ''fusion.gl.journalEntries.post'' then st\<lparr>ps_journal_seq := ps_journal_seq st + 1\<rparr>
      else if f = ''fusion.po.purchaseOrders.post'' then st\<lparr>ps_po_seq := ps_po_seq st + 1\<rparr>
      else st)"

definition pod_status :: "string \<Rightarrow> nat" where
  "pod_status f =
     (if f = ''fusion.gl.journalEntries.post'' \<or> f = ''fusion.po.purchaseOrders.post'' then 201
      else if f = ''fusion.scm.itemsV2.get'' then 200
      else if f = ''fusion.poz.suppliers.patch'' then 405
      else 404)"

definition route_fits :: "string \<Rightarrow> bool" where
  "route_fits f =
     (case fusion_dispatch f of (meth, resource) \<Rightarrow>
        (case (pod_match (REST_BASE @ ''/'' @ resource), meth) of
           (Some Items_V2, GET) \<Rightarrow> f = ''fusion.scm.itemsV2.get''
         | (Some Journal_Entries, POST) \<Rightarrow> f = ''fusion.gl.journalEntries.post''
         | (Some Purchase_Orders, POST) \<Rightarrow> f = ''fusion.po.purchaseOrders.post''
         | (Some Suppliers, PATCH) \<Rightarrow> f = ''fusion.poz.suppliers.patch''
         | (None, _) \<Rightarrow> pod_status f = 404
         | _ \<Rightarrow> False))"

lemma catalogue_routes: "list_all route_fits (map om_function seed_functions)"
  by code_simp

lemma write_mode_gate:
  "is_ok (fusion_gate f False (fst (cache_operation_metadata (mock_meta mc) f l c)))"
  by (auto simp: fusion_gate_def cache_operation_metadata_def mock_meta_def mock_operation_metadata_def Let_def
      split: option.split prod.split sum.split)

lemma catalogue_answer:
  assumes "pod_ok st" and "f \<in> set (map om_function seed_functions)" and "fusion_dispatch f = (meth, resource)"
    and "pq_path q = REST_BASE @ ''/'' @ resource" and "pq_method q = meth"
    and "meth = POST \<or> meth = PATCH \<longrightarrow> pq_body q \<noteq> None"
  shows "snd (pod_handle disp etext q st) = pod_effect f st
    \<and> hp_status (fst (pod_handle disp etext q st)) = pod_status f
    \<and> quiet (answered (fst (pod_handle disp etext q st)))"
proof -
  have "route_fits f"
    using catalogue_routes assms(2) by (simp only: list_all_iff)
  note route = this [unfolded route_fits_def assms(3) prod.case]
  show ?thesis
  proof (cases "pod_match (REST_BASE @ ''/'' @ resource)")
    case None
    with route assms(4) show ?thesis
      by (auto simp: pod_handle_def pod_effect_def pod_status_def split: if_splits)
  next
    case (Some r)
    with route assms(4-6) show ?thesis
      by (cases r; cases meth)
        (auto simp: pod_handle_def with_body_def pod_effect_def pod_status_def document_answers
          items_answer assms(1))
  qed
qed

lemma pod_call:
  fixes mc etext pc base c disp
  assumes "pod_ok st" and "cr_function r \<in> set (map om_function seed_functions)"
    and "fx_base_url cfg = base" and "pc_latency_ms pc < fx_timeout_ms cfg"
  defines "send \<equiv> pod_send disp etext pc base (fx_timeout_ms cfg)"
    and "meta \<equiv> cache_operation_metadata (mock_meta mc)"
  shows "\<exists>v c'. fusion_call cfg send meta r False (c, st) = (Ok v, (c', pod_effect (cr_function r) st))
    \<and> quiet v \<and> jget v ''http_status'' = Some (JNat (pod_status (cr_function r)))"
proof -
  let ?f = "cr_function r"
  obtain meth resource where d: "fusion_dispatch ?f = (meth, resource)" by force
  define path where "path = REST_BASE @ ''/'' @ resource"
  let ?h = "pod_handle disp etext (to_pod_request (fusion_request cfg r) path) st"
  have "hq_url (fusion_request cfg r) = base @ path"
    by (simp add: fusion_request_def d path_def assms(3))
  then have sent: "send (fusion_request cfg r) st = (Inr (fst ?h), snd ?h)"
    unfolding send_def path_def by (rule pod_send_in_time [OF _ rest_path assms(4)])
  have answer: "snd ?h = pod_effect ?f st \<and> hp_status (fst ?h) = pod_status ?f
    \<and> quiet (answered (fst ?h))"
    by (rule catalogue_answer [OF assms(1,2) d]) (simp_all add: path_def fusion_request_def d)
  obtain a c' where m: "meta ?f ''EN'' c = (a, c')" by force
  have "is_ok (fusion_gate ?f False a)"
    using write_mode_gate [of ?f mc "''EN''" c] m by (simp add: meta_def)
  then obtain u where "fusion_gate ?f False a = Ok u"
    by (cases "fusion_gate ?f False a") auto
  with m sent answer show ?thesis
    by (auto simp: fusion_call_def map_of_obj_of row_keys answered_def intro!: quiet_object)
qed

text \<open>C14. The write path against the pod: with writes enabled, every business operation of the catalogue that
  the transactional orchestrator runs at the pod is reported as not committed and as rolled back, although the
  pod has carried a journal or purchase order out, answered 201, and keeps it: the pod answers with no
  return stack, the orchestrator then calls the rollback operation, and the live client sends that as a
  \<open>GET\<close> whose 404 it does not tell from a confirmation.\<close>

theorem pod_writes_reported_undone:
  assumes "pod_ok st" and "cr_function req \<in> set (map om_function seed_functions) - {COMMIT_FN, ROLLBACK_FN}"
    and "fx_base_url cfg = base" and "pc_latency_ms pc < fx_timeout_ms cfg"
  shows "\<exists>out c'. execute_write_bapi
        (fusion_call cfg (pod_send disp etext pc base (fx_timeout_ms cfg))
           (cache_operation_metadata (mock_meta mc))) req False (c, st)
      = (Ok out, (c', pod_effect (cr_function req) st))
    \<and> \<not> wo_committed out \<and> wo_rolled_back out
    \<and> jget (wo_result out) ''http_status'' = Some (JNat (pod_status (cr_function req)))"
proof -
  let ?call = "fusion_call cfg (pod_send disp etext pc base (fx_timeout_ms cfg))
    (cache_operation_metadata (mock_meta mc))"
  let ?st = "pod_effect (cr_function req) st"
  obtain v c1 where v: "?call req False (c, st) = (Ok v, (c1, ?st))" "parse_erp_messages v = []"
      "jget v ''http_status'' = Some (JNat (pod_status (cr_function req)))"
    using pod_call [OF assms(1) _ assms(3,4)] assms(2) quiet_no_messages by blast
  have "cr_function rollback_req = ROLLBACK_FN"
    by (simp add: rollback_req_def)
  moreover have "ROLLBACK_FN \<in> set (map om_function seed_functions)"
    by code_simp
  moreover have "pod_ok ?st"
    using assms(1) by (simp add: pod_effect_def pod_ok_def)
  moreover have "pod_effect ROLLBACK_FN ?st = ?st"
    by (simp add: pod_effect_def ROLLBACK_FN_def)
  ultimately obtain v2 c2 where "?call rollback_req False (c1, ?st) = (Ok v2, (c2, ?st))"
      "parse_erp_messages v2 = []"
    using pod_call [OF _ _ assms(3,4), of ?st rollback_req] quiet_no_messages by metis
  then have "do_rollback ?call (c1, ?st) = ((True, []), (c2, ?st))"
    by (simp add: do_rollback_def)
  with v assms(2) show ?thesis
    by (simp add: execute_write_bapi_def Let_def)
qed

definition sample_journal :: erp_call_request where
  "sample_journal = \<lparr>cr_function = ''fusion.gl.journalEntries.post'', cr_parameters = json_obj [],
     cr_timeout_ms = 5000, cr_require_read_only_safe = False\<rparr>"

theorem pod_writes_reported_undone_witness:
  "\<exists>out c' st'. execute_write_bapi
        (fusion_call sample_pod_client (pod_send sample_disp [] pod_config_default ''http://127.0.0.1:8088'' 30000)
           (cache_operation_metadata (mock_meta (mock_new JNull)))) sample_journal False
        (cache_new () 0 (\<lambda>_. 0), pod_seeded)
      = (Ok out, (c', st'))
    \<and> ps_journal_seq st' = ps_journal_seq pod_seeded + 1 \<and> \<not> wo_committed out \<and> wo_rolled_back out"
proof -
  have "cr_function sample_journal \<in> set (map om_function seed_functions) - {COMMIT_FN, ROLLBACK_FN}"
    by code_simp
  from pod_writes_reported_undone [OF pod_ok_seeded this, of sample_pod_client _ pod_config_default
      sample_disp "[]" "mock_new JNull" "cache_new () 0 (\<lambda>_. 0)"]
  show ?thesis
    by (auto simp: pod_config_default_def pod_effect_def sample_journal_def)
qed

end
