(* ===== verification/Oic_Pod.thy ===== *)
theory Oic_Pod
  imports Fusion_Pod Oic_Http
begin

text \<open>
  The stand-in for Oracle Integration Cloud (\<open>crates/oracle-automate-oic-mock/src/lib.rs\<close>), which keeps no
  state: its handlers, guard and table of routes, and the pod behind the live artifact client. Routing is
  \<open>axum\<close>'s, as in \<open>Fusion_Pod\<close>. What becomes of the text of a query between the client's URL and the
  pod's extractor (percent-encoding and form-decoding, by \<open>url\<close> and \<open>serde_urlencoded\<close>) is the parameter
  \<open>decode\<close>; a URL ends at \<open>#\<close>, its query starts at the first \<open>?\<close> and its parameters are separated by \<open>&\<close>.
\<close>

subsection \<open>Answers\<close>

definition oic_answer :: "nat \<Rightarrow> json \<Rightarrow> oic_response" where
  "oic_answer status v = \<lparr>os_status = status, os_body = Inr v\<rparr>"

definition oic_error_envelope :: "nat \<Rightarrow> string \<Rightarrow> string \<Rightarrow> oic_response" where
  "oic_error_envelope status code detail = oic_answer status
     (json_obj
       [(''title'', JStr (unwrap_or (canonical_reason status) ''Error'')), (''status'', JNat status),
        (''detail'', JStr detail), (''o:errorCode'', JStr code)])"

definition oic_healthz :: oic_response where
  "oic_healthz = oic_answer 200 (json_obj [(''status'', JStr ''ok''), (''pod'', JStr ''oic-mock'')])"

definition pod_integration :: "string \<Rightarrow> oic_response" where
  "pod_integration name =
     (if eq_ignore_ascii_case name ''MISSING''
      then oic_error_envelope 404 ''OIC-404'' ''Integration not found''
      else oic_answer 200 (json_obj
        [(''code'', JStr (''<integration name='' @ [quote_char] @ name @ [quote_char] @ '' version=''
            @ [quote_char] @ ''01.00.0000'' @ [quote_char] @ ''/>'')),
         (''description'', JStr ''Gaussian Technologies OIC integration (mock)''),
         (''status'', JStr ''ACTIVATED''), (''project'', JStr ''GT_FINANCE_INTEGRATIONS'')]))"

definition pod_activate :: "string \<Rightarrow> oic_response" where
  "pod_activate name =
     oic_answer 200 (json_obj [(''code'', JStr name), (''status'', JStr ''ACTIVATED'')])"

definition pod_groovy :: "string \<Rightarrow> oic_response" where
  "pod_groovy name = oic_answer 200 (json_obj
     [(''source'', JStr (''// Application Composer Groovy: '' @ name @ [newline]
         @ ''if (InvoiceAmount < 0) { throw new oracle.jbo.ValidationException('' @ [CHR 0x27]
         @ ''Amount must be >= 0'' @ [CHR 0x27] @ '') }'')),
      (''description'', JStr ''Invoice hold rule (mock)''), (''status'', JStr ''ACTIVE''),
      (''package'', JStr ''GT_FINANCE_INTEGRATIONS'')])"

definition dquoted :: "string \<Rightarrow> string" where
  "dquoted s = quote_char # s @ [quote_char]"

definition pod_connection :: "string \<Rightarrow> oic_response" where
  "pod_connection name = oic_answer 200 (json_obj
     [(''content'', JStr (''{'' @ dquoted ''connection'' @ '':'' @ dquoted name @ '','' @ dquoted ''role'' @ '':''
         @ dquoted ''invoke'' @ '','' @ dquoted ''adapter'' @ '':'' @ dquoted ''Oracle ERP Cloud'' @ ''}'')),
      (''description'', JStr ''Fusion ERP REST connection (mock)''), (''status'', JStr ''CONFIGURED''),
      (''package'', JStr ''GT_FINANCE_INTEGRATIONS'')])"

definition pod_lookup :: "string \<Rightarrow> oic_response" where
  "pod_lookup name = oic_answer 200 (json_obj
     [(''content'', JStr (''{'' @ dquoted ''lookup'' @ '':'' @ dquoted name @ '','' @ dquoted ''rows'' @ '':[[''
         @ dquoted ''1000'' @ '','' @ dquoted ''GT-ID'' @ ''],['' @ dquoted ''2000'' @ '','' @ dquoted ''GT-SG''
         @ '']]}'')),
      (''description'', JStr ''Company cross-reference (mock)''), (''status'', JStr ''ACTIVE'')])"

definition pod_project :: "string \<Rightarrow> oic_response" where
  "pod_project name = oic_answer 200 (json_obj
     [(''description'', JStr (''Gaussian Technologies project '' @ name @ '' (mock)'')),
      (''integrations'', JArr
        [json_obj [(''code'', JStr ''GT_GL_JOURNAL_IMPORT''), (''description'', JStr ''GL journal FBDI import'')],
         json_obj [(''code'', JStr ''GT_PO_RECEIPT_SYNC''), (''description'', JStr ''PO receiving sync'')]])])"

definition pod_ess_job :: "string \<Rightarrow> oic_response" where
  "pod_ess_job name = oic_answer 200 (json_obj
     [(''code'', JStr name), (''description'', JStr ''GL Journal Import ESS job (mock)''),
      (''status'', JStr ''SCHEDULED'')])"

definition pod_bip_report :: "string \<Rightarrow> oic_response" where
  "pod_bip_report name = oic_answer 200 (json_obj
     [(''dataModel'', JStr (''SELECT je.je_header_id, je.period_name, je.status FROM GL_JE_LINES je ''
         @ ''WHERE je.ledger_id = :ledgerId'')),
      (''dataSource'', JStr ''ApplicationDB_FSCM''),
      (''description'', JStr (''BI Publisher report '' @ name @ '' (mock)''))])"

definition pod_usages :: "string \<Rightarrow> oic_response" where
  "pod_usages name = oic_answer 200 (json_obj
     [(''items'', JArr
        [json_obj [(''code'', JStr ''GT_GL_JOURNAL_IMPORT''), (''usage'', JStr ''invoke activity importJournals'')],
         json_obj [(''code'', JStr ''GT_PO_RECEIPT_SYNC''), (''usage'', JStr ''invoke activity postReceipt'')]])])"

definition extract_name :: "string \<Rightarrow> string option" where
  "extract_name q = quoted_part q"

definition listed_integration :: "string \<Rightarrow> string \<Rightarrow> json" where
  "listed_integration code description = json_obj
     [(''code'', JStr code), (''description'', JStr description), (''project'', JStr ''GT_FINANCE_INTEGRATIONS'')]"

definition pod_integrations :: "json list" where
  "pod_integrations =
     [listed_integration ''GT_GL_JOURNAL_IMPORT'' ''GL journal FBDI import'',
      listed_integration ''GT_PO_RECEIPT_SYNC'' ''PO receiving sync'',
      listed_integration ''GT_INVOICE_HOLD_RULE'' ''AP invoice hold rule'']"

definition field_holds :: "string \<Rightarrow> json \<Rightarrow> string \<Rightarrow> bool" where
  "field_holds needle i k \<longleftrightarrow> contains_str (to_lowercase (unwrap_or (get_str i k) [])) needle"

definition integration_matches :: "string \<Rightarrow> json \<Rightarrow> bool" where
  "integration_matches needle i \<longleftrightarrow>
     needle = [] \<or> field_holds needle i ''code'' \<or> field_holds needle i ''description''"

definition pod_search :: "(string \<times> string) list \<Rightarrow> oic_response" where
  "pod_search params =
     (let needle = to_lowercase (unwrap_or (Option.bind (map_of (rev params) ''q'') extract_name) [])
      in oic_answer 200 (json_obj [(''items'', JArr (filter (integration_matches needle) pod_integrations))]))"

subsection \<open>Routes\<close>

datatype oic_route =
    Oic_Search | Oic_Integration string | Oic_Groovy string | Oic_Usages string | Oic_Connection string
  | Oic_Lookup string | Oic_Project string | Oic_Ess_Job string | Oic_Bip_Report string

definition segment_between :: "string \<Rightarrow> string \<Rightarrow> string \<Rightarrow> string option" where
  "segment_between start finish path = Option.bind (strip_suffix path finish) (path_segment start)"

definition INTEGRATION_BASE :: string where "INTEGRATION_BASE = ''/ic/api/integration/v1/''"

definition oic_routes :: "((string \<Rightarrow> oic_route) \<times> string \<times> string) list" where
  "oic_routes =
     [(Oic_Integration, INTEGRATION_BASE @ ''integrations/'', []),
      (Oic_Groovy, INTEGRATION_BASE @ ''integrations/'', ''/groovy''),
      (Oic_Usages, INTEGRATION_BASE @ ''integrations/'', ''/usages''),
      (Oic_Connection, INTEGRATION_BASE @ ''connections/'', []),
      (Oic_Usages, INTEGRATION_BASE @ ''connections/'', ''/usages''),
      (Oic_Lookup, INTEGRATION_BASE @ ''lookups/'', []),
      (Oic_Usages, INTEGRATION_BASE @ ''lookups/'', ''/usages''),
      (Oic_Project, INTEGRATION_BASE @ ''projects/'', []),
      (Oic_Ess_Job, ''/fscmRestApi/resources/11.13.18.05/erpintegrations/'', []),
      (Oic_Bip_Report, ''/xmlpserver/services/rest/v1/reports/'', [])]"

definition oic_match :: "string \<Rightarrow> oic_route option" where
  "oic_match path =
     (if path = INTEGRATION_BASE @ ''integrations'' then Some Oic_Search
      else (case List.map_filter (\<lambda>(c, start, finish). map_option c (segment_between start finish path)) oic_routes of
              route # _ \<Rightarrow> Some route
            | [] \<Rightarrow> None))"

definition oic_bare :: "string \<Rightarrow> nat \<Rightarrow> oic_response" where
  "oic_bare etext status = \<lparr>os_status = status, os_body = Inl etext\<rparr>"

fun get_route :: "oic_route \<Rightarrow> (string \<times> string) list \<Rightarrow> oic_response" where
  "get_route Oic_Search params = pod_search params"
| "get_route (Oic_Integration n) params = pod_integration n"
| "get_route (Oic_Groovy n) params = pod_groovy n"
| "get_route (Oic_Usages n) params = pod_usages n"
| "get_route (Oic_Connection n) params = pod_connection n"
| "get_route (Oic_Lookup n) params = pod_lookup n"
| "get_route (Oic_Project n) params = pod_project n"
| "get_route (Oic_Ess_Job n) params = pod_ess_job n"
| "get_route (Oic_Bip_Report n) params = pod_bip_report n"

definition oic_handle :: "string \<Rightarrow> oic_method \<Rightarrow> string \<Rightarrow> (string \<times> string) list \<Rightarrow> oic_response" where
  "oic_handle etext meth path params =
     (case oic_match path of
        None \<Rightarrow> oic_bare etext 404
      | Some route \<Rightarrow>
          (case (route, meth) of
             (Oic_Integration n, OIC_POST) \<Rightarrow> pod_activate n
           | (_, OIC_POST) \<Rightarrow> oic_bare etext 405
           | (_, OIC_GET) \<Rightarrow> get_route route params))"

definition oic_guard :: "pod_config \<Rightarrow> bool \<Rightarrow> oic_response \<Rightarrow> nat \<times> oic_response" where
  "oic_guard cfg authorized inner =
     (pc_latency_ms cfg,
      if pc_require_auth cfg \<and> \<not> authorized
      then oic_error_envelope 401 ''OIC-AUTH-401'' ''Missing Authorization header'' else inner)"

definition oic_serve ::
  "string \<Rightarrow> pod_config \<Rightarrow> oic_method \<Rightarrow> bool \<Rightarrow> string \<Rightarrow> (string \<times> string) list \<Rightarrow> nat \<times> oic_response" where
  "oic_serve etext cfg meth authorized path params =
     (if path = ''/healthz'' then (0, if meth = OIC_GET then oic_healthz else oic_bare etext 405)
      else oic_guard cfg authorized (oic_handle etext meth path params))"

subsection \<open>The pod behind the client\<close>

definition query_params :: "(string \<Rightarrow> string) \<Rightarrow> string \<Rightarrow> (string \<times> string) list" where
  "query_params decode query =
     map (\<lambda>kv. case split_once (CHR ''='') kv of
            Some (k, v) \<Rightarrow> (decode k, decode v) | None \<Rightarrow> (decode kv, []))
       (filter (\<lambda>kv. kv \<noteq> []) (split_char (CHR ''&'') query))"

definition split_url :: "(string \<Rightarrow> string) \<Rightarrow> string \<Rightarrow> string \<times> (string \<times> string) list" where
  "split_url decode url =
     (let located = takeWhile (\<lambda>c. c \<noteq> CHR ''#'') url
      in case split_once (CHR ''?'') located of
           Some (path, query) \<Rightarrow> (path, query_params decode query)
         | None \<Rightarrow> (located, []))"

definition oic_pod_send ::
  "(string \<Rightarrow> string) \<Rightarrow> string \<Rightarrow> pod_config \<Rightarrow> string \<Rightarrow> nat \<Rightarrow> 'w oic_send" where
  "oic_pod_send decode etext cfg base timeout_ms req w =
     (case strip_prefix (or_url req) base of
        None \<Rightarrow> (Inl etext, w)
      | Some rest \<Rightarrow>
          (case split_url decode rest of
             (path, params) \<Rightarrow>
               (case oic_serve etext cfg (or_method req) (or_auth req \<noteq> None) path params of
                  (waited, resp) \<Rightarrow>
                    if timeout_ms \<le> waited then (Inl etext, w) else (Inr resp, w))))"

subsection \<open>Searching the pod\<close>

lemma quoted_part_None:
  assumes "count_list s (CHR 0x27) \<le> 1"
  shows "quoted_part s = None"
proof (cases "CHR 0x27 \<in> set s")
  case True
  then obtain a b where s: "s = a @ CHR 0x27 # b" "CHR 0x27 \<notin> set a"
    by (meson split_list_first)
  with assms have "CHR 0x27 \<notin> set b"
    by (simp add: count_list_0_iff)
  then have "find_char (rev s) (CHR 0x27) = Some (length b)"
    using find_char_append [of "CHR 0x27" "rev b" "rev a"] s by simp
  with s show ?thesis
    by (simp add: quoted_part_def rfind_char_def find_char_append Let_def)
qed (simp add: quoted_part_def find_char_free)

lemma piece_counts: "w \<in> set (split_char d s) \<Longrightarrow> count_list w c \<le> count_list s c"
proof (induction d s arbitrary: w rule: split_char.induct)
  case (2 d e s)
  then show ?case by (cases "split_char d s") (auto split: if_splits intro: le_SucI)
qed simp

lemma piece_letters: "w \<in> set (split_char d s) \<Longrightarrow> set w \<subseteq> set s"
  using piece_counts [of w d s] by (metis bot_nat_0.extremum_uniqueI count_list_0_iff subsetI)

lemma split_once_parts: "split_once d s = Some (a, b) \<Longrightarrow> s = a @ d # b"
proof (induction s arbitrary: a)
  case (Cons c s)
  then show ?case
    by (cases "find_char s d") (auto simp: split_once_def split: if_splits)
qed (simp add: split_once_def)

text \<open>A query that names no percent sign and no plus is decoded to itself.\<close>

definition decodes_plain :: "(string \<Rightarrow> string) \<Rightarrow> bool" where
  "decodes_plain decode \<longleftrightarrow> (\<forall>s. CHR ''%'' \<notin> set s \<and> CHR ''+'' \<notin> set s \<longrightarrow> decode s = s)"

lemma query_values:
  assumes "decodes_plain decode" and "CHR ''%'' \<notin> set query" "CHR ''+'' \<notin> set query"
    and "\<forall>kv \<in> set (split_char (CHR ''&'') query). count_list kv (CHR 0x27) \<le> 1"
    and "(k, v) \<in> set (query_params decode query)"
  shows "quoted_part v = None"
proof -
  obtain kv where kv: "kv \<in> set (split_char (CHR ''&'') query)"
    and v: "(k, v) = (case split_once (CHR ''='') kv of
        Some (k, v) \<Rightarrow> (decode k, decode v) | None \<Rightarrow> (decode kv, []))"
    using assms(5) by (auto simp: query_params_def)
  have plain: "CHR ''%'' \<notin> set kv" "CHR ''+'' \<notin> set kv" and few: "count_list kv (CHR 0x27) \<le> 1"
    using piece_letters [OF kv] assms(2-4) kv by auto
  show ?thesis
  proof (cases "split_once (CHR ''='') kv")
    case None
    with v show ?thesis by (simp add: quoted_part_None)
  next
    case (Some ab)
    then obtain a b where ab: "split_once (CHR ''='') kv = Some (a, b)" by (cases ab) auto
    then have kv: "kv = a @ CHR ''='' # b" by (rule split_once_parts)
    with plain have "decode b = b"
      using assms(1) by (auto simp: decodes_plain_def)
    with v ab few kv show ?thesis
      by (intro quoted_part_None) simp
  qed
qed

definition cut_short :: "string \<Rightarrow> bool" where
  "cut_short q \<longleftrightarrow> CHR ''&'' \<in> set q \<or> CHR ''#'' \<in> set q"

definition search_start :: string where "search_start = ''q={name:''"

lemma search_start_letters [simp]:
  "CHR 0x27 \<notin> set search_start" "CHR ''&'' \<notin> set search_start" "CHR ''#'' \<notin> set search_start"
  "CHR ''%'' \<notin> set search_start" "CHR ''+'' \<notin> set search_start" "count_list search_start (CHR 0x27) = 0"
  "search_start \<noteq> []"
  by (simp_all add: search_start_def)

lemma located_query:
  assumes "decodes_plain decode" and "CHR ''#'' \<notin> set path" "CHR ''?'' \<notin> set path"
  shows "split_url decode (path @ CHR ''?'' # query)
    = (path, query_params decode (takeWhile (\<lambda>c. c \<noteq> CHR ''#'') query))"
proof -
  have "takeWhile (\<lambda>c. c \<noteq> CHR ''#'') (path @ CHR ''?'' # query)
      = path @ CHR ''?'' # takeWhile (\<lambda>c. c \<noteq> CHR ''#'') query"
    using assms(2) by (subst takeWhile_append2) auto
  then show ?thesis
    using assms(3) by (simp add: split_url_def split_once_append)
qed

lemma cut_query_pieces:
  assumes "CHR 0x27 \<notin> set q" and "cut_short q"
    and "kv \<in> set (split_char (CHR ''&'') (takeWhile (\<lambda>c. c \<noteq> CHR ''#'') (search_start @ in_quotes q @ ''}'')))"
  shows "count_list kv (CHR 0x27) \<le> 1"
proof -
  let ?h = "CHR 0x27" and ?a = "CHR ''&''" and ?x = "CHR ''#''"
  have cut: "takeWhile (\<lambda>c. c \<noteq> ?x) (search_start @ in_quotes q @ ''}'')
      = search_start @ ?h # takeWhile (\<lambda>c. c \<noteq> ?x) (q @ ?h # ''}'')"
    by (subst takeWhile_append2) (auto simp: in_quotes_def)
  show ?thesis
  proof (cases "?x \<in> set q")
    case True
    then have "takeWhile (\<lambda>c. c \<noteq> ?x) (q @ ?h # ''}'') = takeWhile (\<lambda>c. c \<noteq> ?x) q"
      by (simp add: takeWhile_append1)
    moreover have "count_list (takeWhile (\<lambda>c. c \<noteq> ?x) q) ?h = 0"
      using assms(1) by (metis count_notin set_takeWhileD)
    ultimately show ?thesis
      using piece_counts [OF assms(3), of ?h] unfolding cut by simp
  next
    case False
    then have whole: "takeWhile (\<lambda>c. c \<noteq> ?x) (q @ ?h # ''}'') = q @ ?h # ''}''"
      by (subst takeWhile_append2) auto
    from False assms(2) obtain a b where q: "q = a @ ?a # b" "?a \<notin> set a"
      by (metis cut_short_def split_list_first)
    then have pieces: "split_char ?a (search_start @ ?h # q @ ?h # ''}'')
        = (search_start @ ?h # a) # split_char ?a (b @ ?h # ''}'')"
      using split_char_append [of ?a "search_start @ ?h # a" "b @ ?h # ''}''"] by simp
    then consider "kv = search_start @ ?h # a" | "kv \<in> set (split_char ?a (b @ ?h # ''}''))"
      using assms(3) unfolding cut whole pieces by auto
    then show ?thesis
    proof cases
      case 1
      with q assms(1) show ?thesis by simp
    next
      case 2
      with piece_counts [OF this, of ?h] q assms(1) show ?thesis by simp
    qed
  qed
qed

lemma not_in_takeWhile: "c \<notin> set s \<Longrightarrow> c \<notin> set (takeWhile P s)"
  by (meson set_takeWhileD)

lemma one_param:
  assumes "split_char (CHR ''&'') query = [query]" and "split_once (CHR ''='') query = Some (k, v)" and "query \<noteq> []"
  shows "query_params decode query = [(decode k, decode v)]"
  using assms by (simp add: query_params_def)

lemma search_needle:
  assumes "decodes_plain decode" and "CHR 0x27 \<notin> set q" and "CHR ''%'' \<notin> set q" "CHR ''+'' \<notin> set q"
  shows "Option.bind (map_of (rev (query_params decode
      (takeWhile (\<lambda>c. c \<noteq> CHR ''#'') (search_start @ in_quotes q @ ''}'')))) ''q'') extract_name
    = (if cut_short q \<or> q = [] then None else Some q)"
proof (cases "cut_short q")
  case True
  let ?Q = "takeWhile (\<lambda>c. c \<noteq> CHR ''#'') (search_start @ in_quotes q @ ''}'')"
  have "CHR ''%'' \<notin> set ?Q" "CHR ''+'' \<notin> set ?Q"
    using assms(3,4) by (intro not_in_takeWhile, simp add: in_quotes_def)+
  then have "quoted_part v = None" if "(k, v) \<in> set (query_params decode ?Q)" for k v
    using query_values [OF assms(1) _ _ _ that] cut_query_pieces [OF assms(2) True] by blast
  moreover have "(''q'', v) \<in> set (query_params decode ?Q)" if "map_of (rev (query_params decode ?Q)) ''q'' = Some v" for v
    using map_of_SomeD [OF that] by simp
  ultimately show ?thesis
    using True by (cases "map_of (rev (query_params decode ?Q)) ''q''") (auto simp: extract_name_def)
next
  case False
  let ?v = "''{name:'' @ in_quotes q @ ''}''"
  let ?Q = "search_start @ in_quotes q @ ''}''"
  have whole: "takeWhile (\<lambda>c. c \<noteq> CHR ''#'') ?Q = ?Q"
    using False by (subst takeWhile_eq_all_conv) (auto simp: cut_short_def in_quotes_def search_start_def)
  have "split_char (CHR ''&'') ?Q = [?Q]"
    using False by (intro split_char_free) (simp add: cut_short_def in_quotes_def)
  moreover have "split_once (CHR ''='') ?Q = Some (''q'', ?v)"
    using split_once_append [of "CHR ''=''" "''q''" ?v] by (simp add: search_start_def)
  ultimately have "query_params decode ?Q = [(decode ''q'', decode ?v)]"
    by (rule one_param) simp
  moreover have "decode ''q'' = ''q''" "decode ?v = ?v"
    using assms unfolding decodes_plain_def by (simp_all add: in_quotes_def)
  ultimately have params: "map_of (rev (query_params decode ?Q)) ''q'' = Some ?v"
    by (simp only: rev_singleton_conv list.map rev.simps append_Nil map_of.simps fun_upd_same fst_conv snd_conv)
  have "quoted_part ?v = (if q = [] then None else Some q)"
    using quoted_part_between [of "''{name:''" "''}''" q] by (simp add: in_quotes_def)
  with False show ?thesis
    by (simp only: whole params extract_name_def Option.bind.simps if_False simp_thms)
qed

text \<open>What the pod lists, and the hit the client makes of an entry.\<close>

definition pod_listing :: "(string \<times> string) list" where
  "pod_listing =
     [(''GT_GL_JOURNAL_IMPORT'', ''GL journal FBDI import''), (''GT_PO_RECEIPT_SYNC'', ''PO receiving sync''),
      (''GT_INVOICE_HOLD_RULE'', ''AP invoice hold rule'')]"

definition listed_hit :: "oic_search_request \<Rightarrow> string \<times> string \<Rightarrow> oic_search_hit" where
  "listed_hit req e =
     \<lparr>oh_name = fst e, oh_kind = unwrap_or (oq_kind req) OA_Integration, oh_description = Some (snd e),
      oh_package = Some ''GT_FINANCE_INTEGRATIONS'', oh_score = 1\<rparr>"

definition entry_holds :: "string \<Rightarrow> string \<times> string \<Rightarrow> bool" where
  "entry_holds q e \<longleftrightarrow> contains_str (to_lowercase (fst e)) (to_lowercase q)
     \<or> contains_str (to_lowercase (snd e)) (to_lowercase q)"

lemma pod_integrations_listing: "pod_integrations = map (\<lambda>e. listed_integration (fst e) (snd e)) pod_listing"
  by (simp add: pod_integrations_def pod_listing_def)

lemma contains_empty [simp]: "contains_str s []"
  by (cases s) simp_all

lemma listed_matches:
  "integration_matches (to_lowercase q) (listed_integration (fst e) (snd e)) \<longleftrightarrow> entry_holds q e"
  by (auto simp: integration_matches_def field_holds_def listed_integration_def get_str_def map_of_obj_of
      entry_holds_def to_lowercase_def)

lemma all_match: "integration_matches [] i" "entry_holds [] e"
  by (simp_all add: integration_matches_def entry_holds_def to_lowercase_def)

lemma filter_listing:
  "filter (integration_matches (to_lowercase q)) pod_integrations
    = map (\<lambda>e. listed_integration (fst e) (snd e)) (filter (entry_holds q) pod_listing)"
  by (simp only: pod_integrations_listing filter_map comp_def listed_matches)

lemma search_items_listing:
  "search_items req (json_obj [(''items'', JArr (map (\<lambda>e. listed_integration (fst e) (snd e)) es))])
    = map (listed_hit req) (take (max (oq_max_results req) 1) es)"
proof -
  have "List.map_filter (\<lambda>it. map_option (\<lambda>n.
            \<lparr>oh_name = n, oh_kind = unwrap_or (oq_kind req) OA_Integration,
             oh_description = get_str it ''description'', oh_package = get_str it ''project'',
             oh_score = 1\<rparr>) (item_name it)) (map (\<lambda>e. listed_integration (fst e) (snd e)) es)
      = map (listed_hit req) es" for es
    by (induction es) (simp_all add: List.map_filter_simps listed_integration_def item_name_def jget_or_def
        get_str_def map_of_obj_of listed_hit_def)
  then show ?thesis
    by (simp add: search_items_def map_of_obj_of take_map)
qed

lemma cut_short_unquoted [simp]: "cut_short (filter (\<lambda>c. c \<noteq> CHR 0x27) q) = cut_short q"
  by (auto simp: cut_short_def)

text \<open>A search for integrations through the live artifact client at the pod, for a text without percent
  and plus signs: it finds the listed integrations whose code or description holds the text, quotes aside, in
  any case, in their order and up to the requested number; but a text with an ampersand or a number sign cuts
  the client's unescaped URL short, and the search then finds every integration instead.\<close>

lemma search_finds_listed:
  assumes "decodes_plain decode" and "CHR ''%'' \<notin> set (oq_query req)" "CHR ''+'' \<notin> set (oq_query req)"
    and "authed d \<noteq> None" and "pc_latency_ms cfg < de_timeout_ms d"
    and "base = trim_end_char (CHR ''/'') (de_base_url d)"
  shows "http_oic_search st d (oic_pod_send decode etext cfg base (de_timeout_ms d)) req w
    = (Ok (map (listed_hit req) (take (max (oq_max_results req) 1)
        (filter (\<lambda>e. cut_short (oq_query req) \<or> entry_holds (filter (\<lambda>c. c \<noteq> CHR 0x27) (oq_query req)) e)
          pod_listing))), w)"
proof -
  let ?q = "filter (\<lambda>c. c \<noteq> CHR 0x27) (oq_query req)"
  let ?path = "''/ic/api/integration/v1/integrations''"
  let ?query = "search_start @ in_quotes ?q @ ''}''"
  let ?params = "query_params decode (takeWhile (\<lambda>c. c \<noteq> CHR ''#'') ?query)"
  let ?es = "filter (\<lambda>e. cut_short (oq_query req) \<or> entry_holds ?q e) pod_listing"
  have url: "''/ic/api/integration/v1/integrations?q={name:'' @ in_quotes ?q @ ''}'' = ?path @ CHR ''?'' # ?query"
    by (simp add: search_start_def)
  have split: "split_url decode (?path @ CHR ''?'' # ?query) = (?path, ?params)"
    by (rule located_query [OF assms(1)]) simp_all
  have "Option.bind (map_of (rev ?params) ''q'') extract_name = (if cut_short ?q \<or> ?q = [] then None else Some ?q)"
    by (rule search_needle [OF assms(1)]) (use assms(2,3) in auto)
  then have "pod_search ?params = oic_answer 200 (json_obj
      [(''items'', JArr (map (\<lambda>e. listed_integration (fst e) (snd e)) ?es))])"
    using filter_listing [of "[]"] filter_listing [of ?q]
    by (auto simp: pod_search_def to_lowercase_def all_match)
  moreover have "oic_match ?path = Some Oic_Search" "?path \<noteq> ''/healthz''"
    by (simp_all add: oic_match_def INTEGRATION_BASE_def)
  ultimately have "oic_pod_send decode etext cfg base (de_timeout_ms d)
        \<lparr>or_method = OIC_GET, or_url = base @ (?path @ CHR ''?'' # ?query), or_auth = authed d\<rparr> w
      = (Inr (oic_answer 200 (json_obj
          [(''items'', JArr (map (\<lambda>e. listed_integration (fst e) (snd e)) ?es))])), w)"
    unfolding oic_pod_send_def oic_request.simps strip_prefix_append option.case split prod.case
    using assms(4,5) by (simp add: oic_serve_def oic_guard_def oic_handle_def)
  then show ?thesis
    unfolding http_oic_search_def get_json_def oic_url_def Let_def url assms(6) [symmetric]
    by (simp add: oic_answer_def is_success_def search_items_listing)
qed

definition sample_oic_pod :: oic_destination where
  "sample_oic_pod = \<lparr>de_name = ''mock-oic'', de_base_url = ''http://127.0.0.1:8089'', de_client = ''100'',
     de_language = ''EN'', de_auth = Auth_Basic ''demo'' ''demo'', de_timeout_ms = default_timeout_ms\<rparr>"

definition sample_search_text :: oic_search_request where
  "sample_search_text = \<lparr>oq_query = ''R&D'', oq_kind = None, oq_max_results = 10\<rparr>"

lemma search_finds_listed_witness:
  "map_sum id (map oh_name) (fst (http_oic_search (\<lambda>_. []) sample_oic_pod
      (oic_pod_send id [] pod_config_default ''http://127.0.0.1:8089'' default_timeout_ms) sample_search_text ()))
    = Inr (map fst pod_listing)"
proof -
  have plain: "decodes_plain id"
      "CHR ''%'' \<notin> set (oq_query sample_search_text)" "CHR ''+'' \<notin> set (oq_query sample_search_text)"
    by (simp_all add: decodes_plain_def sample_search_text_def)
  have logged_in: "authed sample_oic_pod \<noteq> None"
    by (simp add: authed_def sample_oic_pod_def)
  have late: "pc_latency_ms pod_config_default < de_timeout_ms sample_oic_pod"
    by (simp add: pod_config_default_def sample_oic_pod_def default_timeout_ms_def)
  have base: "''http://127.0.0.1:8089'' = trim_end_char (CHR ''/'') (de_base_url sample_oic_pod)"
    by (simp add: sample_oic_pod_def trim_end_char_def)
  note run = search_finds_listed [OF plain logged_in late base, of "\<lambda>_. []" "[]" "()"]
  have cut: "cut_short (oq_query sample_search_text) = True"
    by (simp add: cut_short_def sample_search_text_def)
  have timeout: "de_timeout_ms sample_oic_pod = default_timeout_ms"
    by (simp add: sample_oic_pod_def)
  have taken: "take (max (oq_max_results sample_search_text) 1) pod_listing = pod_listing"
    by (simp add: sample_search_text_def pod_listing_def)
  have everything: "filter (\<lambda>e. True) es = es" for es :: "(string \<times> string) list"
    by simp
  have names: "map oh_name (map (listed_hit r) es) = map fst es" for r es
    by (simp add: listed_hit_def comp_def)
  show ?thesis
    using run by (simp only: cut timeout everything taken names simp_thms map_sum.simps fst_conv)
qed

end
