(* ===== verification/Hex.thy ===== *)
theory Hex
  imports Prelude "HOL-Library.Word"
begin

text \<open>
  Bytes in hexadecimal, as \<open>format!("{:02x}")\<close> and \<open>hex::encode\<close> write them: two lower-case digits each.
\<close>

definition hex_digit :: "nat \<Rightarrow> char" where
  "hex_digit n = (if n < 10 then char_of (48 + n) else char_of (87 + n))"

definition hex2 :: "8 word \<Rightarrow> string" where
  "hex2 b = [hex_digit (unat b div 16), hex_digit (unat b mod 16)]"

definition hex_bytes :: "8 word list \<Rightarrow> string" where
  "hex_bytes bs = concat (map hex2 bs)"

lemma hex_digits:
  "hex_digit 5 = CHR ''5''" "hex_digit 8 = CHR ''8''" "hex_digit 9 = CHR ''9''" "hex_digit 10 = CHR ''a''"
  "hex_digit 11 = CHR ''b''"
  by code_simp+

end
