(* ===== verification/Qdrant.thy ===== *)
theory Qdrant
  imports Ingest Json_Rpc Hex
begin

unbundle bit_operations_syntax

text \<open>
  The store over the Qdrant service (\<open>crates/oracle-automate-kb/src/qdrant.rs\<close>): one collection per domain,
  points that carry a chunk as their payload, and the search that reads chunks back out of payloads. The
  service is the parameter \<open>send\<close> on the state of the outside world; SHA-256 is the parameter \<open>sha\<close>, which
  gives 32 bytes; \<open>num\<close> and \<open>read_num\<close> are how \<open>serde\<close> writes and reads an \<open>f32\<close>, and \<open>bad_shape\<close> is what it
  says of an answer it cannot read. The order in which the hash map of a batch's domains is gone through is
  the parameter \<open>order\<close>. The documents of a batch are kept beside the service, in the store itself.
\<close>

datatype store_error = Store_Not_Found string | Store_Backend string | Store_Serde string

fun store_error_text :: "store_error \<Rightarrow> string" where
  "store_error_text (Store_Not_Found s) = ''not found: '' @ s"
| "store_error_text (Store_Backend s) = ''backend error: '' @ s"
| "store_error_text (Store_Serde s) = ''serde: '' @ s"

type_synonym 'a store_result = "store_error + 'a"

datatype q_method = Q_GET | Q_PUT | Q_POST

record q_request =
  qq_method :: q_method
  qq_url :: string
  qq_body :: "json option"

record q_response =
  qr_status :: nat
  qr_text :: string
  qr_json :: "string + json"

type_synonym 'w q_send = "q_request \<Rightarrow> 'w \<Rightarrow> (string + q_response) \<times> 'w"

definition q_success :: "q_response \<Rightarrow> bool" where
  "q_success r \<longleftrightarrow> 200 \<le> qr_status r \<and> qr_status r < 300"

record qdrant =
  qd_base_url :: string
  qd_dim :: nat
  qd_documents :: "(string \<times> document) list"

definition qdrant_new :: "string \<Rightarrow> nat \<Rightarrow> qdrant" where
  "qdrant_new base_url dim =
     \<lparr>qd_base_url = trim_end_char (CHR ''/'') base_url, qd_dim = dim, qd_documents = []\<rparr>"

definition all_domains :: "domain list" where
  "all_domains = [Oracle_Help, Integration, Bpmn, App_Catalog]"

definition collection_url :: "qdrant \<Rightarrow> domain \<Rightarrow> string" where
  "collection_url q d = qd_base_url q @ ''/collections/'' @ domain_collection d"

definition upsert_url :: "qdrant \<Rightarrow> domain \<Rightarrow> string" where
  "upsert_url q d = collection_url q d @ ''/points?wait=true''"

definition search_url :: "qdrant \<Rightarrow> domain \<Rightarrow> string" where
  "search_url q d = collection_url q d @ ''/points/search''"

definition req_err :: "string \<Rightarrow> store_error" where
  "req_err e = Store_Backend (''qdrant http: '' @ e)"

subsection \<open>Collections\<close>

definition ensure_collection :: "qdrant \<Rightarrow> 'w q_send \<Rightarrow> domain \<Rightarrow> 'w \<Rightarrow> unit store_result \<times> 'w" where
  "ensure_collection q send d w =
     (let url = collection_url q d in
      case send \<lparr>qq_method = Q_GET, qq_url = url, qq_body = None\<rparr> w of
        (Inl e, w1) \<Rightarrow> (Err (req_err e), w1)
      | (Inr r, w1) \<Rightarrow>
          if q_success r then (Ok (), w1)
          else
            (case send \<lparr>qq_method = Q_PUT, qq_url = url, qq_body = Some (json_obj
                        [(''vectors'', json_obj
                           [(''size'', JNat (qd_dim q)), (''distance'', JStr ''Cosine'')])])\<rparr> w1 of
               (Inl e, w2) \<Rightarrow> (Err (req_err e), w2)
             | (Inr r2, w2) \<Rightarrow>
                 (if q_success r2 then Ok ()
                  else Err (Store_Backend (''create '' @ domain_collection d @ '': '' @ qr_text r2)), w2)))"

fun ensure_each :: "qdrant \<Rightarrow> 'w q_send \<Rightarrow> domain list \<Rightarrow> 'w \<Rightarrow> unit store_result \<times> 'w" where
  "ensure_each q send [] w = (Ok (), w)"
| "ensure_each q send (d # ds) w =
     (case ensure_collection q send d w of
        (Inl e, w') \<Rightarrow> (Err e, w') | (Inr _, w') \<Rightarrow> ensure_each q send ds w')"

definition ensure_collections :: "qdrant \<Rightarrow> 'w q_send \<Rightarrow> 'w \<Rightarrow> unit store_result \<times> 'w" where
  "ensure_collections q send w = ensure_each q send all_domains w"

subsection \<open>Points\<close>

definition uuid_bytes :: "8 word list \<Rightarrow> 8 word list" where
  "uuid_bytes bytes =
     (let b = take 16 bytes
      in b[6 := (b ! 6 AND 0x0f) OR 0x50, 8 := (b ! 8 AND 0x3f) OR 0x80])"

definition uuid_for :: "(string \<Rightarrow> 8 word list) \<Rightarrow> string \<Rightarrow> string" where
  "uuid_for sha chunk_id =
     (let b = uuid_bytes (sha chunk_id)
      in hex_bytes (take 4 b) @ ''-'' @ hex_bytes (take 2 (drop 4 b)) @ ''-'' @ hex_bytes (take 2 (drop 6 b))
         @ ''-'' @ hex_bytes (take 2 (drop 8 b)) @ ''-'' @ hex_bytes (take 6 (drop 10 b)))"

definition payload_of :: "'f chunk \<Rightarrow> json" where
  "payload_of c = json_obj
     [(''chunk_id'', JStr (ck_id c)), (''document_id'', JStr (ck_document_id c)),
      (''ordinal'', JNat (ck_ordinal c)), (''text'', JStr (ck_text c)), (''title'', JStr (ck_title c)),
      (''uri'', JStr (ck_uri c)), (''breadcrumbs'', JArr (map JStr (ck_breadcrumbs c)))]"

definition point_of ::
  "('f \<Rightarrow> json) \<Rightarrow> (string \<Rightarrow> 8 word list) \<Rightarrow> 'f chunk \<Rightarrow> 'f list \<Rightarrow> json" where
  "point_of num sha c embedding = json_obj
     [(''id'', JStr (uuid_for sha (ck_id c))), (''vector'', JArr (map num embedding)),
      (''payload'', payload_of c)]"

definition chunk_from_payload :: "domain \<Rightarrow> json \<Rightarrow> 'f chunk option" where
  "chunk_from_payload d v =
     Option.bind (get_str v ''chunk_id'') (\<lambda>i.
     Option.bind (get_str v ''document_id'') (\<lambda>doc.
     Option.bind (get_str v ''text'') (\<lambda>txt.
       Some \<lparr>ck_id = i, ck_document_id = doc, ck_domain = d,
             ck_ordinal = unwrap_or (get_u64 v ''ordinal'') 0 mod 2 ^ 32, ck_text = txt,
             ck_embedding = None,
             ck_breadcrumbs = unwrap_or (map_option (List.map_filter as_str)
               (Option.bind (jget v ''breadcrumbs'') as_array)) [],
             ck_title = unwrap_or (get_str v ''title'') [],
             ck_uri = unwrap_or (get_str v ''uri'') []\<rparr>)))"

subsection \<open>Upserts\<close>

definition push_group ::
  "'f chunk \<Rightarrow> (domain \<times> 'f chunk list) list \<Rightarrow> (domain \<times> 'f chunk list) list" where
  "push_group c g = AList.update (ck_domain c) (unwrap_or (map_of g (ck_domain c)) [] @ [c]) g"

definition by_domain :: "'f chunk list \<Rightarrow> (domain \<times> 'f chunk list) list" where
  "by_domain cs = foldl (\<lambda>g c. push_group c g) [] cs"

fun points_of ::
  "('f \<Rightarrow> json) \<Rightarrow> (string \<Rightarrow> 8 word list) \<Rightarrow> nat \<Rightarrow> 'f chunk list \<Rightarrow> json list store_result" where
  "points_of num sha dim [] = Ok []"
| "points_of num sha dim (c # cs) =
     (case ck_embedding c of
        None \<Rightarrow> Err (Store_Backend (''chunk '' @ ck_id c @ '' missing embedding''))
      | Some e \<Rightarrow>
          if length e \<noteq> dim then
            Err (Store_Backend (''chunk '' @ ck_id c @ '' embedding dim '' @ show_nat (length e)
              @ '' != configured '' @ show_nat dim))
          else map_sum id ((#) (point_of num sha c e)) (points_of num sha dim cs))"

definition upsert_request :: "qdrant \<Rightarrow> domain \<Rightarrow> json list \<Rightarrow> q_request" where
  "upsert_request q d points =
     \<lparr>qq_method = Q_PUT, qq_url = upsert_url q d, qq_body = Some (json_obj [(''points'', JArr points)])\<rparr>"

fun put_groups ::
  "('f \<Rightarrow> json) \<Rightarrow> (string \<Rightarrow> 8 word list) \<Rightarrow> qdrant \<Rightarrow> 'w q_send \<Rightarrow> (domain \<times> 'f chunk list) list \<Rightarrow> 'w
     \<Rightarrow> unit store_result \<times> 'w" where
  "put_groups num sha q send [] w = (Ok (), w)"
| "put_groups num sha q send ((d, cs) # gs) w =
     (case points_of num sha (qd_dim q) cs of
        Inl e \<Rightarrow> (Err e, w)
      | Inr points \<Rightarrow>
          (case send (upsert_request q d points) w of
             (Inl e, w') \<Rightarrow> (Err (req_err e), w')
           | (Inr r, w') \<Rightarrow>
               if q_success r then put_groups num sha q send gs w'
               else (Err (Store_Backend (''upsert '' @ domain_collection d @ '': '' @ qr_text r)), w')))"

definition stash_documents :: "document list \<Rightarrow> qdrant \<Rightarrow> qdrant" where
  "stash_documents ds q =
     q\<lparr>qd_documents := foldl (\<lambda>m d. AList.update (dc_id d) d m) (qd_documents q) ds\<rparr>"

definition qdrant_upsert ::
  "('f \<Rightarrow> json) \<Rightarrow> (string \<Rightarrow> 8 word list)
     \<Rightarrow> ((domain \<times> 'f chunk list) list \<Rightarrow> (domain \<times> 'f chunk list) list) \<Rightarrow> 'w q_send
     \<Rightarrow> 'f upsert_batch \<Rightarrow> qdrant \<times> 'w \<Rightarrow> unit store_result \<times> qdrant \<times> 'w" where
  "qdrant_upsert num sha order send batch qw =
     (let q = stash_documents (ub_documents batch) (fst qw) in
      case put_groups num sha q send (order (by_domain (ub_chunks batch))) (snd qw) of
        (res, w') \<Rightarrow> (res, (q, w')))"

definition qdrant_get_document :: "qdrant \<Rightarrow> string \<Rightarrow> document option" where
  "qdrant_get_document q i = map_of (qd_documents q) i"

subsection \<open>Searches\<close>

record 'f q_hit =
  qh_id :: json
  qh_score :: 'f
  qh_payload :: json

definition dec_hit :: "(json \<Rightarrow> 'f option) \<Rightarrow> json \<Rightarrow> 'f q_hit option" where
  "dec_hit read_num v =
     (if struct_like 3 v then
        Option.bind (struct_field v 0 ''id'') (\<lambda>i.
        Option.bind (Option.bind (struct_field v 1 ''score'') read_num) (\<lambda>s.
        Option.bind (struct_field v 2 ''payload'') (\<lambda>p.
          Some \<lparr>qh_id = i, qh_score = s, qh_payload = p\<rparr>)))
      else None)"

definition dec_search_response :: "(json \<Rightarrow> 'f option) \<Rightarrow> json \<Rightarrow> 'f q_hit list option" where
  "dec_search_response read_num v =
     (if struct_like 1 v
      then Option.bind (Option.bind (struct_field v 0 ''result'') as_array) (map_opt (dec_hit read_num))
      else None)"

definition response_hits ::
  "(json \<Rightarrow> 'f option) \<Rightarrow> string \<Rightarrow> domain \<Rightarrow> q_response \<Rightarrow> 'f search_hit list store_result" where
  "response_hits read_num bad_shape d r =
     (case qr_json r of
        Inl e \<Rightarrow> Err (req_err e)
      | Inr v \<Rightarrow>
          (case dec_search_response read_num v of
             None \<Rightarrow> Err (req_err bad_shape)
           | Some hs \<Rightarrow>
               (case map_opt (\<lambda>h. map_option (\<lambda>c. (c, qh_score h)) (chunk_from_payload d (qh_payload h))) hs of
                  None \<Rightarrow> Err (Store_Backend ''malformed qdrant payload'')
                | Some hits \<Rightarrow> Ok hits)))"

definition search_request :: "('f \<Rightarrow> json) \<Rightarrow> qdrant \<Rightarrow> 'f list \<Rightarrow> nat \<Rightarrow> domain \<Rightarrow> q_request" where
  "search_request num q embedding top_k d =
     \<lparr>qq_method = Q_POST, qq_url = search_url q d, qq_body = Some (json_obj
        [(''vector'', JArr (map num embedding)), (''limit'', JNat top_k), (''with_payload'', JBool True)])\<rparr>"

text \<open>A collection that answers with a failure is passed over.\<close>

fun search_each ::
  "('f \<Rightarrow> json) \<Rightarrow> (json \<Rightarrow> 'f option) \<Rightarrow> string \<Rightarrow> qdrant \<Rightarrow> 'w q_send \<Rightarrow> 'f list \<Rightarrow> nat \<Rightarrow> domain list
     \<Rightarrow> 'f search_hit list \<Rightarrow> 'w \<Rightarrow> 'f search_hit list store_result \<times> 'w" where
  "search_each num read_num bad_shape q send embedding top_k [] acc w = (Ok acc, w)"
| "search_each num read_num bad_shape q send embedding top_k (d # ds) acc w =
     (case send (search_request num q embedding top_k d) w of
        (Inl e, w') \<Rightarrow> (Err (req_err e), w')
      | (Inr r, w') \<Rightarrow>
          if q_success r then
            (case response_hits read_num bad_shape d r of
               Inl e \<Rightarrow> (Err e, w')
             | Inr hits \<Rightarrow> search_each num read_num bad_shape q send embedding top_k ds (acc @ hits) w')
          else search_each num read_num bad_shape q send embedding top_k ds acc w')"

definition search_targets :: "'f search_query \<Rightarrow> domain list" where
  "search_targets query = (if sq_domains query = [] then all_domains else sq_domains query)"

definition qdrant_search ::
  "'f float_ops \<Rightarrow> ('f \<Rightarrow> json) \<Rightarrow> (json \<Rightarrow> 'f option) \<Rightarrow> string \<Rightarrow> qdrant \<Rightarrow> 'w q_send
     \<Rightarrow> 'f search_query \<Rightarrow> 'w \<Rightarrow> 'f search_hit list store_result \<times> 'w" where
  "qdrant_search fo num read_num bad_shape q send query w =
     (case sq_embedding query of
        None \<Rightarrow> (Err (Store_Backend ''qdrant search requires an embedding''), w)
      | Some embedding \<Rightarrow>
          (case search_each num read_num bad_shape q send embedding (sq_top_k query) (search_targets query) [] w of
             (res, w') \<Rightarrow>
               (map_sum id (\<lambda>hits. take (sq_top_k query) (sort_desc (fl_lt fo) snd hits)) res, w')))"

text \<open>The count: collections that answer with a failure, or without a count, count for nothing.\<close>

fun count_each :: "qdrant \<Rightarrow> 'w q_send \<Rightarrow> domain list \<Rightarrow> nat \<Rightarrow> 'w \<Rightarrow> nat store_result \<times> 'w" where
  "count_each q send [] n w = (Ok n, w)"
| "count_each q send (d # ds) n w =
     (case send \<lparr>qq_method = Q_GET, qq_url = collection_url q d, qq_body = None\<rparr> w of
        (Inl e, w') \<Rightarrow> (Err (req_err e), w')
      | (Inr r, w') \<Rightarrow>
          if q_success r then
            (case qr_json r of
               Inl e \<Rightarrow> (Err (req_err e), w')
             | Inr v \<Rightarrow>
                 count_each q send ds
                   (n + unwrap_or (Option.bind (Option.bind (jget v ''result'')
                      (\<lambda>res. jget res ''points_count'')) as_u64) 0) w')
          else count_each q send ds n w')"

definition qdrant_chunk_count :: "qdrant \<Rightarrow> 'w q_send \<Rightarrow> 'w \<Rightarrow> nat store_result \<times> 'w" where
  "qdrant_chunk_count q send w = count_each q send all_domains 0 w"

subsection \<open>What is stored comes back\<close>

lemma map_filter_strings: "List.map_filter as_str (map JStr ss) = ss"
  by (induction ss) (simp_all add: List.map_filter_simps)

lemma payload_roundtrip:
  assumes "ck_ordinal c < 2 ^ 32"
  shows "chunk_from_payload (ck_domain c) (payload_of c) = Some (c\<lparr>ck_embedding := None\<rparr>)"
  using assms
  by (simp add: chunk_from_payload_def payload_of_def get_str_def get_u64_def map_of_obj_of map_filter_strings)

text \<open>A hit as the service returns it, and a service whose collections hold chunks of \<open>S\<close>: whatever it
  answers a search of a collection with, when it answers with success, is a list of points it holds.\<close>

definition hit_json :: "('f \<Rightarrow> json) \<Rightarrow> 'f chunk \<times> 'f \<times> json \<Rightarrow> json" where
  "hit_json num h = (case h of (c, s, i) \<Rightarrow>
     json_obj [(''id'', i), (''score'', num s), (''payload'', payload_of c)])"

definition serves_points :: "('f \<Rightarrow> json) \<Rightarrow> qdrant \<Rightarrow> 'f chunk set \<Rightarrow> 'w q_send \<Rightarrow> bool" where
  "serves_points num q S send \<longleftrightarrow>
     (\<forall>d e k w. \<exists>r w'. send (search_request num q e k d) w = (Inr r, w')
        \<and> (q_success r \<longrightarrow> (\<exists>hs. qr_json r = Inr (json_obj [(''result'', JArr (map (hit_json num) hs))])
              \<and> (\<forall>(c, s, i) \<in> set hs. c \<in> S \<and> ck_domain c = d))))"

lemma dec_hit_json:
  assumes "\<And>s. read_num (num s) = Some s"
  shows "dec_hit read_num (hit_json num (c, s, i)) = Some \<lparr>qh_id = i, qh_score = s, qh_payload = payload_of c\<rparr>"
  by (simp add: hit_json_def dec_hit_def struct_like_def struct_field_def map_of_obj_of assms)

lemma map_opt_all: "(\<And>x. x \<in> set xs \<Longrightarrow> f x = Some (g x)) \<Longrightarrow> map_opt f xs = Some (map g xs)"
  by (induction xs) simp_all

definition hit_of :: "'f chunk \<times> 'f \<times> json \<Rightarrow> 'f search_hit" where
  "hit_of h = (case h of (c, s, i) \<Rightarrow> (c\<lparr>ck_embedding := None\<rparr>, s))"

lemma response_hits_served:
  assumes num: "\<And>s. read_num (num s) = Some s"
    and r: "qr_json r = Inr (json_obj [(''result'', JArr (map (hit_json num) hs))])"
    and hs: "\<forall>(c, s, i) \<in> set hs. ck_domain c = d \<and> ck_ordinal c < 2 ^ 32"
  shows "response_hits read_num bad_shape d r = Ok (map hit_of hs)"
proof -
  let ?hit = "\<lambda>(c, s, i). \<lparr>qh_id = i, qh_score = s, qh_payload = payload_of c\<rparr>"
  have "map_opt (dec_hit read_num) (map (hit_json num) hs) = Some (map ?hit hs)"
    using dec_hit_json [of read_num num] num by (induction hs) (auto simp: split_beta)
  then have "dec_search_response read_num (json_obj [(''result'', JArr (map (hit_json num) hs))]) = Some (map ?hit hs)"
    by (simp add: dec_search_response_def struct_like_def struct_field_def map_of_obj_of)
  moreover have "map_opt (\<lambda>h. map_option (\<lambda>c. (c, qh_score h)) (chunk_from_payload d (qh_payload h))) (map ?hit hs)
      = Some (map hit_of hs)"
    using hs by (induction hs) (auto simp: hit_of_def payload_roundtrip [simplified])
  ultimately show ?thesis by (simp add: response_hits_def r)
qed

lemma search_each_served:
  assumes "\<And>s. read_num (num s) = Some s" and "serves_points num q S send" and "\<forall>c \<in> S. ck_ordinal c < 2 ^ 32"
    and "\<forall>(c, s) \<in> set acc. \<exists>c0 \<in> S. c = c0\<lparr>ck_embedding := None\<rparr> \<and> ck_domain c \<in> D" and "set ds \<subseteq> D"
  shows "\<exists>hits w'. search_each num read_num bad_shape q send e k ds acc w = (Ok hits, w')
    \<and> (\<forall>(c, s) \<in> set hits. \<exists>c0 \<in> S. c = c0\<lparr>ck_embedding := None\<rparr> \<and> ck_domain c \<in> D)"
  using assms(4,5)
proof (induction ds arbitrary: acc w)
  case (Cons d ds)
  obtain r w' where r: "send (search_request num q e k d) w = (Inr r, w')"
    and served: "q_success r \<longrightarrow> (\<exists>hs. qr_json r = Inr (json_obj [(''result'', JArr (map (hit_json num) hs))])
              \<and> (\<forall>(c, s, i) \<in> set hs. c \<in> S \<and> ck_domain c = d))"
    using assms(2) unfolding serves_points_def by blast
  show ?case
  proof (cases "q_success r")
    case False
    with Cons r show ?thesis by simp
  next
    case True
    then obtain hs where hs: "qr_json r = Inr (json_obj [(''result'', JArr (map (hit_json num) hs))])"
        "\<forall>(c, s, i) \<in> set hs. c \<in> S \<and> ck_domain c = d"
      using served by blast
    then have "response_hits read_num bad_shape d r = Ok (map hit_of hs)"
      using assms(3) by (intro response_hits_served [where num = num]) (auto simp: assms(1))
    moreover have "\<forall>(c, s) \<in> set (acc @ map hit_of hs). \<exists>c0 \<in> S. c = c0\<lparr>ck_embedding := None\<rparr> \<and> ck_domain c \<in> D"
      using Cons.prems hs(2) by (auto simp: hit_of_def)
    ultimately show ?thesis
      using Cons.IH [of "acc @ map hit_of hs" w'] Cons.prems r True by simp
  qed
qed simp


subsection \<open>What an upsert sends\<close>

lemma push_group_mset:
  "mset (concat (map snd (push_group c g))) = add_mset c (mset (concat (map snd g)))"
  unfolding push_group_def by (induction g) auto

lemma by_domain_mset: "mset (concat (map snd (by_domain cs))) = mset cs"
proof -
  have "mset (concat (map snd (foldl (\<lambda>g c. push_group c g) g cs))) = mset (concat (map snd g)) + mset cs" for g
    by (induction cs arbitrary: g) (simp_all add: push_group_mset)
  from this [of "[]"] show ?thesis by (simp add: by_domain_def)
qed

definition grouped :: "(domain \<times> 'f chunk list) list \<Rightarrow> bool" where
  "grouped g \<longleftrightarrow> (\<forall>(d, cs) \<in> set g. \<forall>c \<in> set cs. ck_domain c = d)"

lemma grouped_push:
  assumes "grouped g"
  shows "grouped (push_group c g)"
proof -
  have "ck_domain c' = ck_domain c" if "c' \<in> set (unwrap_or (map_of g (ck_domain c)) [])" for c'
    using that assms by (cases "map_of g (ck_domain c)") (auto simp: grouped_def dest!: map_of_SomeD)
  moreover have "set (AList.update k v g) \<subseteq> insert (k, v) (set g)" for k :: domain and v :: "'a chunk list"
    by (induction g) auto
  ultimately show ?thesis
    using assms unfolding grouped_def push_group_def by fastforce
qed

lemma grouped_by_domain: "grouped (by_domain cs)"
proof -
  have "grouped g \<Longrightarrow> grouped (foldl (\<lambda>g c. push_group c g) g cs)" for g
    by (induction cs arbitrary: g) (simp_all add: grouped_push)
  from this [of "[]"] show ?thesis by (simp add: by_domain_def grouped_def)
qed

definition has_vector :: "nat \<Rightarrow> 'f chunk \<Rightarrow> bool" where
  "has_vector dim c \<longleftrightarrow> map_option length (ck_embedding c) = Some dim"

definition whole_point :: "('f \<Rightarrow> json) \<Rightarrow> (string \<Rightarrow> 8 word list) \<Rightarrow> 'f chunk \<Rightarrow> json" where
  "whole_point num sha c = point_of num sha c (the (ck_embedding c))"

lemma points_of_all:
  "list_all (has_vector dim) cs \<Longrightarrow> points_of num sha dim cs = Ok (map (whole_point num sha) cs)"
  by (induction cs) (auto simp: has_vector_def whole_point_def)

lemma points_of_bad: "\<not> list_all (has_vector dim) cs \<Longrightarrow> \<exists>e. points_of num sha dim cs = Err e"
  by (induction cs) (auto simp: has_vector_def split: option.split)

definition q_logging :: "'w q_send \<Rightarrow> ('w \<times> q_request list) q_send" where
  "q_logging send req w = (case send req (fst w) of (r, w') \<Rightarrow> (r, w', snd w @ [req]))"

definition always_succeeds :: "'w q_send \<Rightarrow> bool" where
  "always_succeeds send \<longleftrightarrow> (\<forall>req w. \<exists>r w'. send req w = (Inr r, w') \<and> q_success r)"

lemma put_groups_logged:
  assumes "always_succeeds send"
  shows "\<exists>res w'. put_groups num sha q (q_logging send) gs (w, log) = (res, (w',
      log @ map (\<lambda>(d, cs). upsert_request q d (map (whole_point num sha) cs))
        (takeWhile (\<lambda>(d, cs). list_all (has_vector (qd_dim q)) cs) gs)))
    \<and> (is_ok res \<longleftrightarrow> list_all (\<lambda>(d, cs). list_all (has_vector (qd_dim q)) cs) gs)"
proof (induction gs arbitrary: w log)
  case (Cons g gs)
  obtain d cs where g: "g = (d, cs)" by force
  show ?case
  proof (cases "list_all (has_vector (qd_dim q)) cs")
    case False
    then obtain e where "points_of num sha (qd_dim q) cs = Err e"
      using points_of_bad by blast
    with False show ?thesis by (simp add: g)
  next
    case True
    then have points: "points_of num sha (qd_dim q) cs = Ok (map (whole_point num sha) cs)"
      by (rule points_of_all)
    obtain r w' where "send (upsert_request q d (map (whole_point num sha) cs)) w = (Inr r, w')" "q_success r"
      using assms unfolding always_succeeds_def by blast
    with True points Cons.IH [of w' "log @ [upsert_request q d (map (whole_point num sha) cs)]"] show ?thesis
      by (auto simp: g q_logging_def)
  qed
qed simp

text \<open>The points a session of requests stored, each with the URL it was sent to.\<close>

definition sent_points :: "q_request list \<Rightarrow> (string \<times> json) list" where
  "sent_points reqs = concat (map (\<lambda>r.
     case Option.bind (Option.bind (qq_body r) (\<lambda>b. jget b ''points'')) as_array of
       Some ps \<Rightarrow> map (Pair (qq_url r)) ps | None \<Rightarrow> []) reqs)"

lemma sent_points_upserts:
  "sent_points (map (\<lambda>(d, cs). upsert_request q d (map f cs)) gs)
    = concat (map (\<lambda>(d, cs). map (\<lambda>c. (upsert_url q d, f c)) cs) gs)"
  unfolding sent_points_def by (induction gs) (auto simp: upsert_request_def map_of_obj_of)

lemma grouped_points:
  "grouped gs \<Longrightarrow> concat (map (\<lambda>(d, cs). map (\<lambda>c. (upsert_url q d, f c)) cs) gs)
    = map (\<lambda>c. (upsert_url q (ck_domain c), f c)) (concat (map snd gs))"
  by (induction gs) (auto simp: grouped_def)

lemma stashed_lookup:
  "map_of (foldl (\<lambda>m d. AList.update (dc_id d) d m) m ds) i
    = (case find (\<lambda>d. dc_id d = i) (rev ds) of Some d \<Rightarrow> Some d | None \<Rightarrow> map_of m i)"
  by (induction ds arbitrary: m)
    (auto simp: find_append update_conv' split: option.split)


subsection \<open>Point ids\<close>

lemma version_nibble: "unat (((b :: 8 word) AND 0x0f) OR 0x50) div 16 = 5"
proof -
  have "drop_bit 4 ((b AND 0x0f) OR 0x50) = (5 :: 8 word)"
    by (rule bit_word_eqI) (auto simp: bit_simps)
  then have "drop_bit 4 (unat ((b AND 0x0f) OR 0x50)) = 5"
    by (simp flip: unat_drop_bit_eq)
  then show ?thesis by (simp add: drop_bit_eq_div)
qed

lemma variant_nibble: "unat (((b :: 8 word) AND 0x3f) OR 0x80) div 16 \<in> {8, 9, 10, 11}"
proof -
  have "drop_bit 6 ((b AND 0x3f) OR 0x80) = (2 :: 8 word)"
    by (rule bit_word_eqI) (auto simp: bit_simps)
  then have "drop_bit 6 (unat ((b AND 0x3f) OR 0x80)) = 2"
    by (simp flip: unat_drop_bit_eq)
  then have "unat ((b AND 0x3f) OR 0x80) div 64 = 2"
    by (simp add: drop_bit_eq_div)
  then have "128 \<le> unat ((b AND 0x3f) OR 0x80) \<and> unat ((b AND 0x3f) OR 0x80) < 192"
    by linarith
  then show ?thesis by (simp add: insert_iff) linarith
qed

lemma sixteen: "16 \<le> length bs \<Longrightarrow>
  \<exists>b0 b1 b2 b3 b4 b5 b6 b7 b8 b9 b10 b11 b12 b13 b14 b15.
    take 16 bs = [b0, b1, b2, b3, b4, b5, b6, b7, b8, b9, b10, b11, b12, b13, b14, b15]"
proof -
  assume "16 \<le> length bs"
  then have "length (take 16 bs) = 16" by simp
  then show ?thesis
    by (simp only: length_Suc_conv numeral_eq_Suc pred_numeral_simps BitM.simps length_0_conv) blast
qed

text \<open>A point id has the shape of a version 5 UUID: five groups of hexadecimal digits, with the version
  and the variant where a UUID has them.\<close>

lemma uuid_shape:
  assumes "16 \<le> length (sha i)"
  shows "length (uuid_for sha i) = 36 \<and> map ((!) (uuid_for sha i)) [8, 13, 18, 23] = ''----''
    \<and> uuid_for sha i ! 14 = CHR ''5'' \<and> uuid_for sha i ! 19 \<in> set ''89ab''"
proof -
  obtain b0 b1 b2 b3 b4 b5 b6 b7 b8 b9 b10 b11 b12 b13 b14 b15
    where b: "take 16 (sha i) = [b0, b1, b2, b3, b4, b5, b6, b7, b8, b9, b10, b11, b12, b13, b14, b15]"
    using sixteen [OF assms] by blast
  have "hex_digit (unat ((b6 AND 0x0f) OR 0x50) div 16) = CHR ''5''"
    by (simp only: version_nibble hex_digits)
  moreover have "hex_digit (unat ((b8 AND 0x3f) OR 0x80) div 16) \<in> set ''89ab''"
    using variant_nibble [of b8] by (auto simp: hex_digits)
  ultimately show ?thesis
    by (simp add: uuid_for_def uuid_bytes_def b Let_def hex_bytes_def hex2_def)
qed

subsection \<open>A service that serves\<close>

text \<open>A service that holds one point, in one collection, and fails on the others; and one that accepts
  everything.\<close>

definition num_int :: "int \<Rightarrow> json" where "num_int i = JNum (JInt i)"

fun read_int :: "json \<Rightarrow> int option" where
  "read_int (JNum (JInt i)) = Some i"
| "read_int _ = None"

definition sample_qdrant :: qdrant where "sample_qdrant = qdrant_new ''http://localhost:6333/'' 1"

definition one_point :: "int chunk \<Rightarrow> unit q_send" where
  "one_point c req w =
     (Inr (if qq_url req = search_url sample_qdrant (ck_domain c)
           then \<lparr>qr_status = 200, qr_text = [],
                 qr_json = Inr (json_obj [(''result'', JArr [hit_json num_int (c, 5, JStr ''id'')])])\<rparr>
           else \<lparr>qr_status = 404, qr_text = [], qr_json = Inl []\<rparr>), w)"

lemma domain_collection_inject: "domain_collection d = domain_collection d' \<longleftrightarrow> d = d'"
  by (cases d; cases d') simp_all

lemma one_point_serves: "serves_points num_int sample_qdrant {c} (one_point c)"
proof -
  have "search_url q d = search_url q d' \<longleftrightarrow> d = d'" for q d d'
    by (simp add: search_url_def collection_url_def domain_collection_inject)
  then show ?thesis
    by (auto simp: serves_points_def one_point_def search_request_def q_success_def
        intro!: exI [of _ "[(c, 5, JStr ''id'')]"])
qed



end
