(* ===== verification/Crawler.thy ===== *)
theory Crawler
  imports Kb_Store Hex
begin

text \<open>
  The help portal crawler (\<open>crates/oracle-automate-ingest/src/crawler.rs\<close>). HTML is \<open>scraper\<close>'s: a parsed
  document is opaque, \<open>select\<close> gives the elements a CSS selector picks in it, or nothing for a selector that
  is not one. SHA-256 in hexadecimal is the parameter \<open>hash\<close>, its bytes are \<open>sha\<close>, and \<open>url_path\<close> is the
  path of a URL, when \<open>url\<close> can parse it. A directory to crawl is a finite tree of what the file system
  answers for its entries; fetching a URL is the parameter \<open>send\<close>.
\<close>

datatype crawl_error = Crawl_Io string | Crawl_Http string | Crawl_Parse string

fun crawl_error_text :: "crawl_error \<Rightarrow> string" where
  "crawl_error_text (Crawl_Io e) = ''io: '' @ e"
| "crawl_error_text (Crawl_Http e) = ''http: '' @ e"
| "crawl_error_text (Crawl_Parse e) = ''parse: '' @ e"

record parsed_page =
  pp_title :: string
  pp_breadcrumbs :: "string list"
  pp_body :: string
  pp_module :: "string option"

subsection \<open>Pages\<close>

record html_element =
  he_text :: "string list"
  he_attr :: "string \<Rightarrow> string option"

type_synonym 'd html_select = "'d \<Rightarrow> string \<Rightarrow> html_element list option"

definition element_text :: "html_element \<Rightarrow> string" where
  "element_text el = join '' '' (he_text el)"

fun pick_text :: "'d html_select \<Rightarrow> 'd \<Rightarrow> string list \<Rightarrow> string option" where
  "pick_text select doc [] = None"
| "pick_text select doc (sel # sels) =
     (case select doc sel of
        Some (el # _) \<Rightarrow>
          (let trimmed = trim (element_text el)
           in if trimmed \<noteq> [] then Some trimmed else pick_text select doc sels)
      | _ \<Rightarrow> pick_text select doc sels)"

definition collect_text :: "'d html_select \<Rightarrow> 'd \<Rightarrow> string \<Rightarrow> string list" where
  "collect_text select doc sel =
     (case select doc sel of None \<Rightarrow> [] | Some els \<Rightarrow> map element_text els)"

definition pick_meta :: "'d html_select \<Rightarrow> 'd \<Rightarrow> string \<Rightarrow> string option" where
  "pick_meta select doc name =
     (case select doc (''meta[name='' @ [CHR 0x22] @ name @ [CHR 0x22] @ '']'') of
        Some (el # _) \<Rightarrow> he_attr el ''content''
      | _ \<Rightarrow> None)"

definition title_selectors :: "string list" where "title_selectors = [''h1'', ''title'']"

definition body_selectors :: "string list" where
  "body_selectors = [''main'', ''article'', ''.content'', ''#content'', ''body'']"

definition parse_help_portal_html ::
  "(string \<Rightarrow> 'd) \<Rightarrow> 'd html_select \<Rightarrow> string \<Rightarrow> crawl_error + parsed_page" where
  "parse_help_portal_html parse_document select raw =
     (let doc = parse_document raw;
          title = trim (unwrap_or (pick_text select doc title_selectors) [])
      in if title = [] then Err (Crawl_Parse ''missing title'')
         else
           (let breadcrumbs = filter (\<lambda>s. s \<noteq> []) (map trim
                  (collect_text select doc ''nav.breadcrumb a, .breadcrumb li, [data-breadcrumb] a''));
                body = join '' '' (split_whitespace (unwrap_or (pick_text select doc body_selectors) []))
            in if body = [] then Err (Crawl_Parse ''empty body'')
               else Ok \<lparr>pp_title = title, pp_breadcrumbs = breadcrumbs, pp_body = body,
                        pp_module = pick_meta select doc ''module''\<rparr>))"

text \<open>The document made of a page.\<close>

definition page_document ::
  "(string \<Rightarrow> string) \<Rightarrow> string \<Rightarrow> domain \<Rightarrow> string \<Rightarrow> parsed_page \<Rightarrow> document" where
  "page_document hash i d uri page =
     (document_new hash i d uri (pp_title page) (pp_body page))
       \<lparr>dc_breadcrumbs := pp_breadcrumbs page,
        dc_metadata := (case pp_module page of Some m \<Rightarrow> [(''module'', m)] | None \<Rightarrow> [])\<rparr>"

subsection \<open>Directories\<close>

definition file_name :: "string \<Rightarrow> string" where
  "file_name path = last (split_char (CHR ''/'') path)"

definition has_html_extension :: "string \<Rightarrow> bool" where
  "has_html_extension path \<longleftrightarrow> ends_with (file_name path) ''.html'' \<and> 5 < length (file_name path)"

text \<open>\<open>file_stem\<close> of a path with that extension.\<close>

definition html_stem :: "string \<Rightarrow> string" where
  "html_stem path = take (length (file_name path) - 5) (file_name path)"

definition crawl_file ::
  "(string \<Rightarrow> string) \<Rightarrow> (string \<Rightarrow> crawl_error + parsed_page) \<Rightarrow> domain \<Rightarrow> string \<Rightarrow> string + string
     \<Rightarrow> crawl_error + document" where
  "crawl_file hash parse d path contents =
     (case contents of
        Inl e \<Rightarrow> Err (Crawl_Io e)
      | Inr raw \<Rightarrow>
          map_sum id (page_document hash (domain_collection d @ '':'' @ html_stem path) d (''file://'' @ path))
            (parse raw))"

text \<open>What the file system answers for a path: no metadata, a directory with its entries or the error of
  reading them, or a file with its contents.\<close>

datatype crawl_node = Cn_Gone string | Cn_Dir "string + crawl_node list" | Cn_File string "string + string"

text \<open>The stack of paths still to visit; its top is the head of the list.\<close>

function crawl_stack ::
  "(string \<Rightarrow> string + string \<Rightarrow> 'e + 'doc) \<Rightarrow> crawl_node list \<Rightarrow> 'doc list
     \<Rightarrow> crawl_error + 'doc list" where
  "crawl_stack reader [] docs = Ok docs"
| "crawl_stack reader (Cn_Gone e # stack) docs = Err (Crawl_Io e)"
| "crawl_stack reader (Cn_Dir (Inl e) # stack) docs = Err (Crawl_Io e)"
| "crawl_stack reader (Cn_Dir (Inr entries) # stack) docs = crawl_stack reader (rev entries @ stack) docs"
| "crawl_stack reader (Cn_File path contents # stack) docs =
     crawl_stack reader stack
       (if has_html_extension path then
          (case reader path contents of Inr d \<Rightarrow> docs @ [d] | Inl _ \<Rightarrow> docs)
        else docs)"
  by pat_completeness auto
termination
  by (relation "measure (\<lambda>(reader, stack, docs). size_list size stack)")
    (auto simp: size_list_conv_sum_list rev_map [symmetric])

definition crawl_directory ::
  "(string \<Rightarrow> string) \<Rightarrow> (string \<Rightarrow> crawl_error + parsed_page) \<Rightarrow> domain \<Rightarrow> crawl_node
     \<Rightarrow> crawl_error + document list" where
  "crawl_directory hash parse d root =
     crawl_stack (crawl_file hash parse d) [root] []"

subsection \<open>URLs\<close>

record page_response =
  pr_status :: nat
  pr_etag :: "string option"
  pr_body :: "string + string"

definition sha_short :: "(string \<Rightarrow> 8 word list) \<Rightarrow> string \<Rightarrow> string" where
  "sha_short sha s = hex_bytes (take 8 (sha s))"

definition derive_id_from_url ::
  "(string \<Rightarrow> 8 word list) \<Rightarrow> (string \<Rightarrow> string option) \<Rightarrow> string \<Rightarrow> domain \<Rightarrow> string" where
  "derive_id_from_url sha url_path url d =
     domain_collection d @ '':''
     @ (case url_path url of
          Some path \<Rightarrow> replace_all (trim_start_char (CHR ''/'') path) ''/'' ''_''
        | None \<Rightarrow> sha_short sha url)"

text \<open>\<open>send\<close> gets a URL with the \<open>If-None-Match\<close> header, if any; \<open>status_text\<close> is how a status is displayed.\<close>

definition fetch_url ::
  "(string \<Rightarrow> string) \<Rightarrow> (string \<Rightarrow> 8 word list) \<Rightarrow> (string \<Rightarrow> string option) \<Rightarrow> (nat \<Rightarrow> string)
     \<Rightarrow> (string \<Rightarrow> crawl_error + parsed_page) \<Rightarrow> domain
     \<Rightarrow> (string \<Rightarrow> string option \<Rightarrow> 'w \<Rightarrow> (string + page_response) \<times> 'w) \<Rightarrow> string \<Rightarrow> string option \<Rightarrow> 'w
     \<Rightarrow> (crawl_error + (document \<times> string option) option) \<times> 'w" where
  "fetch_url hash sha url_path status_text parse d send url previous_etag w =
     (case send url previous_etag w of
        (Inl e, w') \<Rightarrow> (Err (Crawl_Http e), w')
      | (Inr resp, w') \<Rightarrow>
          (if pr_status resp = 304 then Ok None
           else if \<not> (200 \<le> pr_status resp \<and> pr_status resp < 300) then
             Err (Crawl_Http (url @ '' -> '' @ status_text (pr_status resp)))
           else
             (case pr_body resp of
                Inl e \<Rightarrow> Err (Crawl_Http e)
              | Inr body \<Rightarrow>
                  (case parse body of
                     Inl e \<Rightarrow> Err e
                   | Inr page \<Rightarrow>
                       Ok (Some ((page_document hash (derive_id_from_url sha url_path url d) d url page)
                                   \<lparr>dc_etag := pr_etag resp\<rparr>, pr_etag resp)))), w'))"

subsection \<open>What a crawl returns\<close>

text \<open>What there is to visit below a node, in the order in which the stack visits it: the last entry of a
  directory first.\<close>

function visit_order :: "crawl_node \<Rightarrow> (string + string \<times> (string + string)) list" where
  "visit_order (Cn_Gone e) = [Inl e]"
| "visit_order (Cn_Dir (Inl e)) = [Inl e]"
| "visit_order (Cn_Dir (Inr entries)) = concat (map visit_order (rev entries))"
| "visit_order (Cn_File path contents) = [Inr (path, contents)]"
  by pat_completeness auto
termination
  by (relation "measure size") (auto simp: less_Suc_eq_le intro: le_SucI size_list_estimation')

definition first_error :: "('e + 'a) list \<Rightarrow> 'e option" where
  "first_error vs = (case List.map_filter (\<lambda>v. case v of Inl e \<Rightarrow> Some e | Inr _ \<Rightarrow> None) vs of
     e # _ \<Rightarrow> Some e | [] \<Rightarrow> None)"

definition oks :: "('e + 'a) list \<Rightarrow> 'a list" where
  "oks vs = List.map_filter (\<lambda>v. case v of Inr a \<Rightarrow> Some a | Inl _ \<Rightarrow> None) vs"

lemma first_error_simps [simp]:
  "first_error [] = None" "first_error (Inl e # vs) = Some e" "first_error (Inr a # vs) = first_error vs"
  by (simp_all add: first_error_def List.map_filter_simps)

lemma oks_simps [simp]: "oks [] = []" "oks (Inr a # vs) = a # oks vs" "oks (Inl e # vs) = oks vs"
  by (simp_all add: oks_def List.map_filter_simps)

text \<open>The document of a file that is visited, if it has one.\<close>

definition page_of ::
  "(string \<Rightarrow> string + string \<Rightarrow> 'e + 'doc) \<Rightarrow> string \<times> (string + string) \<Rightarrow> 'doc option" where
  "page_of reader f =
     (if has_html_extension (fst f)
      then (case reader (fst f) (snd f) of Inr doc \<Rightarrow> Some doc | Inl _ \<Rightarrow> None) else None)"

lemma crawl_stack_visits:
  "crawl_stack reader stack docs = (let vs = concat (map visit_order stack) in
     case first_error vs of
       Some e \<Rightarrow> Err (Crawl_Io e)
     | None \<Rightarrow> Ok (docs @ List.map_filter (page_of reader) (oks vs)))"
  by (induction reader stack docs rule: crawl_stack.induct)
    (auto simp: Let_def List.map_filter_simps page_of_def split: sum.split option.split)

lemma page_of_id:
  assumes "page_of (crawl_file hash parse d) f = Some doc"
  shows "dc_id doc = domain_collection d @ '':'' @ html_stem (fst f)"
  using assms
  by (auto simp: page_of_def crawl_file_def page_document_def document_new_def map_sum_def
      split: if_splits sum.splits option.splits)


end
