(* ===== verification/Ingest_App.thy ===== *)
theory Ingest_App
  imports Qdrant Crawler
begin

text \<open>
  The ingestion program (\<open>apps/oracle-automate-ingest/src/main.rs\<close>): choose an embedder and a store, crawl a
  directory, run the pipeline, and try a query. Parameters: \<open>mock\<close> and \<open>openai\<close> make an embedding client
  of their settings, \<open>env\<close> is the environment, \<open>debug\<close> how a string is shown with \<open>{:?}\<close> and \<open>show_score\<close> how a
  score is shown with three digits, \<open>vals\<close> the order in which the in-memory store goes through its chunks.
  The program's answer is what it prints and how it ends; \<open>None\<close> is a panic.
\<close>

datatype backend = Be_Memory | Be_Qdrant

datatype embedder_kind = Em_Mock | Em_Openai

record ingest_cli =
  ig_input_dir :: string
  ig_backend :: backend
  ig_qdrant_url :: string
  ig_embedder :: embedder_kind
  ig_embedding_dim :: nat
  ig_openai_base_url :: string
  ig_openai_api_key :: "string option"
  ig_openai_model :: string
  ig_verify_query :: "string option"

definition default_ingest_cli :: "string \<Rightarrow> ingest_cli" where
  "default_ingest_cli input_dir =
     \<lparr>ig_input_dir = input_dir, ig_backend = Be_Memory, ig_qdrant_url = ''http://localhost:6333'',
      ig_embedder = Em_Mock, ig_embedding_dim = 256, ig_openai_base_url = ''https://api.openai.com/v1'',
      ig_openai_api_key = None, ig_openai_model = ''text-embedding-3-large'', ig_verify_query = None\<rparr>"

fun backend_debug :: "backend \<Rightarrow> string" where
  "backend_debug Be_Memory = ''Memory''"
| "backend_debug Be_Qdrant = ''Qdrant''"

fun embedder_debug :: "embedder_kind \<Rightarrow> string" where
  "embedder_debug Em_Mock = ''Mock''"
| "embedder_debug Em_Openai = ''Openai''"

datatype ingest_failure =
    Setup_Failed string | Store_Failed store_error | Crawl_Failed crawl_error
  | Pipeline_Failed pipeline_error | Embed_Failed embedding_error

subsection \<open>Choices\<close>

definition ingest_embedder ::
  "(nat \<Rightarrow> 'e) \<Rightarrow> (openai_embedder \<Rightarrow> 'e) \<Rightarrow> (string \<Rightarrow> string option) \<Rightarrow> ingest_cli \<Rightarrow> ingest_failure + 'e" where
  "ingest_embedder mock openai env cli =
     (case ig_embedder cli of
        Em_Mock \<Rightarrow> Ok (mock (ig_embedding_dim cli))
      | Em_Openai \<Rightarrow>
          (case (case ig_openai_api_key cli of Some k \<Rightarrow> Some k | None \<Rightarrow> env ''OPENAI_API_KEY'') of
             None \<Rightarrow> Err (Setup_Failed ''openai embedder requires --openai-api-key or $OPENAI_API_KEY'')
           | Some key \<Rightarrow>
               Ok (openai (openai_new (ig_openai_base_url cli) key (ig_openai_model cli) (ig_embedding_dim cli)))))"

datatype 'f knowledge_store = Memory_Store "'f kb" | Qdrant_Store qdrant

definition open_store ::
  "'w q_send \<Rightarrow> ingest_cli \<Rightarrow> 'w \<Rightarrow> (ingest_failure + 'f knowledge_store) \<times> 'w" where
  "open_store send cli w =
     (case ig_backend cli of
        Be_Memory \<Rightarrow> (Ok (Memory_Store kb_new), w)
      | Be_Qdrant \<Rightarrow>
          (let q = qdrant_new (ig_qdrant_url cli) (ig_embedding_dim cli)
           in case ensure_collections q send w of
                (Inl e, w') \<Rightarrow> (Err (Store_Failed e), w')
              | (Inr _, w') \<Rightarrow> (Ok (Qdrant_Store q), w')))"

text \<open>The operations of the store that was chosen.\<close>

fun store_upsert ::
  "(string \<Rightarrow> string) \<Rightarrow> ('f \<Rightarrow> json) \<Rightarrow> (string \<Rightarrow> 8 word list)
     \<Rightarrow> ((domain \<times> 'f chunk list) list \<Rightarrow> (domain \<times> 'f chunk list) list) \<Rightarrow> 'w q_send
     \<Rightarrow> 'f upsert_batch \<Rightarrow> 'f knowledge_store \<times> 'w \<Rightarrow> (string + unit) \<times> 'f knowledge_store \<times> 'w" where
  "store_upsert hash num sha order send batch (Memory_Store k, w) =
     (Ok (), (Memory_Store (kb_upsert hash batch k), w))"
| "store_upsert hash num sha order send batch (Qdrant_Store q, w) =
     (case qdrant_upsert num sha order send batch (q, w) of
        (res, (q', w')) \<Rightarrow> (map_sum store_error_text id res, (Qdrant_Store q', w')))"

fun store_count :: "'w q_send \<Rightarrow> 'f knowledge_store \<Rightarrow> 'w \<Rightarrow> nat store_result \<times> 'w" where
  "store_count send (Memory_Store k) w = (Ok (kb_chunk_count k), w)"
| "store_count send (Qdrant_Store q) w = qdrant_chunk_count q send w"

fun store_search ::
  "'f float_ops \<Rightarrow> ('f kb \<Rightarrow> 'f chunk list) \<Rightarrow> ('f \<Rightarrow> json) \<Rightarrow> (json \<Rightarrow> 'f option) \<Rightarrow> string \<Rightarrow> 'w q_send
     \<Rightarrow> 'f search_query \<Rightarrow> 'f knowledge_store \<Rightarrow> 'w \<Rightarrow> 'f search_hit list store_result \<times> 'w" where
  "store_search fo vals num read_num bad_shape send query (Memory_Store k) w = (Ok (kb_search fo (vals k) query), w)"
| "store_search fo vals num read_num bad_shape send query (Qdrant_Store q) w =
     qdrant_search fo num read_num bad_shape q send query w"

subsection \<open>The program\<close>

definition dots :: string where "dots = [CHR 0xE2, CHR 0x80, CHR 0xA6]"

definition cut_text :: "string \<Rightarrow> nat \<Rightarrow> string" where
  "cut_text s n =
     (if length (utf8_chars s) \<le> n then s else concat (take n (utf8_chars s)) @ dots)"

definition hit_line :: "('f \<Rightarrow> string) \<Rightarrow> 'f search_hit \<Rightarrow> string" where
  "hit_line show_score h =
     ''  - ['' @ show_score (snd h) @ ''] '' @ ck_title (fst h) @ '' :: '' @ cut_text (ck_text (fst h)) 120"

definition backend_line :: "ingest_cli \<Rightarrow> string" where
  "backend_line cli = right_arrow @ '' Backend: '' @ backend_debug (ig_backend cli) @ ''  Embedder: ''
     @ embedder_debug (ig_embedder cli) @ '' (dim='' @ show_nat (ig_embedding_dim cli) @ '')''"

definition crawl_line :: "nat \<Rightarrow> string \<Rightarrow> string" where
  "crawl_line n dir = right_arrow @ '' Crawled '' @ show_nat n @ '' document(s) from '' @ dir"

definition ingested_line :: "ingestion_report \<Rightarrow> string" where
  "ingested_line r = right_arrow @ '' Ingested '' @ show_nat (ir_documents r) @ '' document(s), ''
     @ show_nat (ir_chunks r) @ '' chunk(s)''"

definition count_line :: "nat \<Rightarrow> string" where
  "count_line n = right_arrow @ '' KB now holds '' @ show_nat n @ '' chunk(s)''"

text \<open>The query after the run.\<close>

definition verify_query ::
  "(string list \<Rightarrow> 'f embed_result)
     \<Rightarrow> ('f search_query \<Rightarrow> 'f knowledge_store \<Rightarrow> 'w \<Rightarrow> 'f search_hit list store_result \<times> 'w)
     \<Rightarrow> (string \<Rightarrow> string) \<Rightarrow> ('f \<Rightarrow> string) \<Rightarrow> string \<Rightarrow> 'f knowledge_store \<Rightarrow> 'w
     \<Rightarrow> ((ingest_failure + string list) \<times> 'w) option" where
  "verify_query emb search debug show_score query store w =
     (case emb [query] of
        None \<Rightarrow> None
      | Some (Inl e) \<Rightarrow> Some (Err (Embed_Failed e), w)
      | Some (Inr []) \<Rightarrow> None
      | Some (Inr (v # _)) \<Rightarrow>
          (case search (with_embedding v (query_text query 5)) store w of
             (Inl e, w') \<Rightarrow> Some (Err (Store_Failed e), w')
           | (Inr hits, w') \<Rightarrow>
               Some (Ok (([newline] @ ''== verify_query = '' @ debug query @ '' ('' @ show_nat (length hits)
                  @ '' hit(s))'') # map (hit_line show_score) hits), w')))"

text \<open>The run on an open store, and the whole program.\<close>

definition ingest_run ::
  "(string list \<Rightarrow> 'f embed_result)
     \<Rightarrow> ('f upsert_batch \<Rightarrow> 'f knowledge_store \<times> 'w \<Rightarrow> (string + unit) \<times> 'f knowledge_store \<times> 'w)
     \<Rightarrow> ('f knowledge_store \<Rightarrow> 'w \<Rightarrow> nat store_result \<times> 'w)
     \<Rightarrow> (string \<Rightarrow> 'f knowledge_store \<Rightarrow> 'w \<Rightarrow> ((ingest_failure + string list) \<times> 'w) option)
     \<Rightarrow> (crawl_error + document list) \<Rightarrow> ingest_cli \<Rightarrow> 'f knowledge_store \<times> 'w
     \<Rightarrow> (string list \<times> (ingest_failure + unit) \<times> 'f knowledge_store \<times> 'w) option" where
  "ingest_run emb up size_of verify crawled cli sw =
     (let out = [backend_line cli] in
      case crawled of
        Inl e \<Rightarrow> Some (out, Err (Crawl_Failed e), sw)
      | Inr documents \<Rightarrow>
          (let out = out @ [crawl_line (length documents) (ig_input_dir cli)] in
           case ingest emb up pipeline_new documents sw of
             None \<Rightarrow> None
           | Some (Inl e, sw1) \<Rightarrow> Some (out, Err (Pipeline_Failed e), sw1)
           | Some (Inr report, (store, w1)) \<Rightarrow>
               (let out = out @ [ingested_line report] in
                case size_of store w1 of
                  (Inl e, w2) \<Rightarrow> Some (out, Err (Store_Failed e), (store, w2))
                | (Inr n, w2) \<Rightarrow>
                    (let out = out @ [count_line n] in
                     case ig_verify_query cli of
                       None \<Rightarrow> Some (out, Ok (), (store, w2))
                     | Some query \<Rightarrow>
                         (case verify query store w2 of
                            None \<Rightarrow> None
                          | Some (Inl e, w3) \<Rightarrow> Some (out, Err e, (store, w3))
                          | Some (Inr lines, w3) \<Rightarrow> Some (out @ lines, Ok (), (store, w3)))))))"

definition ingest_main ::
  "'f float_ops \<Rightarrow> (string \<Rightarrow> string) \<Rightarrow> (string \<Rightarrow> nat list) \<Rightarrow> (string \<Rightarrow> 8 word list)
     \<Rightarrow> (openai_embedder \<Rightarrow> string list \<Rightarrow> 'f embed_result) \<Rightarrow> (string \<Rightarrow> string option)
     \<Rightarrow> (string \<Rightarrow> crawl_error + parsed_page) \<Rightarrow> (string \<Rightarrow> crawl_node)
     \<Rightarrow> ('f \<Rightarrow> json) \<Rightarrow> (json \<Rightarrow> 'f option) \<Rightarrow> string
     \<Rightarrow> ((domain \<times> 'f chunk list) list \<Rightarrow> (domain \<times> 'f chunk list) list) \<Rightarrow> ('f kb \<Rightarrow> 'f chunk list)
     \<Rightarrow> 'w q_send \<Rightarrow> (string \<Rightarrow> string) \<Rightarrow> ('f \<Rightarrow> string) \<Rightarrow> ingest_cli \<Rightarrow> 'w
     \<Rightarrow> (string list \<times> (ingest_failure + unit) \<times> 'f knowledge_store option \<times> 'w) option" where
  "ingest_main fo hash sha sha_bytes openai env parse files num read_num bad_shape order vals send debug show_score cli w =
     (case ingest_embedder (mock_embed fo sha) openai env cli of
        Inl e \<Rightarrow> Some ([], Err e, None, w)
      | Inr emb \<Rightarrow>
          (case open_store send cli w of
             (Inl e, w1) \<Rightarrow> Some ([], Err e, None, w1)
           | (Inr store, w1) \<Rightarrow>
               map_option (\<lambda>(out, res, store', w2). (out, res, Some store', w2))
                 (ingest_run emb (store_upsert hash num sha_bytes order send) (store_count send)
                    (verify_query emb (store_search fo vals num read_num bad_shape send) debug show_score)
                    (crawl_directory hash parse Oracle_Help (files (ig_input_dir cli))) cli (store, w1))))"

subsection \<open>A run on the in-memory store\<close>

text \<open>Behind the pipeline the in-memory store is the knowledge base itself.\<close>

lemma ingest_memory:
  "ingest_from emb (store_upsert hash num sha order send) cfg r docs (Memory_Store k, w)
    = map_option (\<lambda>(res, k'). (res, (Memory_Store k', w))) (ingest_from emb (kb_upsert_op hash) cfg r docs k)"
proof (induction docs arbitrary: r k)
  case (Cons doc docs)
  then show ?case
    by (simp add: kb_upsert_op_def Let_def split: option.split sum.split)
qed simp

lemma upsert_all_documents:
  "map_of (kb_documents (upsert_all hash es k)) i
    = (case find (\<lambda>d. dc_id d = i) (rev (map fst es)) of Some d \<Rightarrow> Some d | None \<Rightarrow> map_of (kb_documents k) i)"
proof (induction es arbitrary: k)
  case (Cons e es)
  obtain d cs where e: "e = (d, cs)" by force
  let ?k = "kb_upsert hash \<lparr>ub_documents = [d], ub_chunks = cs\<rparr> k"
  have "map_of (kb_documents ?k) i = (if dc_id d = i then Some d else map_of (kb_documents k) i)"
    by (simp add: kb_upsert_def insert_document_def update_conv')
  moreover have "upsert_all hash ((d, cs) # es) k = upsert_all hash es ?k"
    by (simp add: upsert_all_def)
  ultimately show ?case
    by (simp add: e Cons.IH find_append split: option.split)
qed (simp add: upsert_all_def)

text \<open>The documents of a directory that can be read.\<close>

definition crawled_pages ::
  "(string \<Rightarrow> string) \<Rightarrow> (string \<Rightarrow> crawl_error + parsed_page) \<Rightarrow> domain \<Rightarrow> crawl_node \<Rightarrow> document list" where
  "crawled_pages hash parse d root = List.map_filter (page_of (crawl_file hash parse d)) (oks (visit_order root))"


text \<open>Two directories with a page of the same name: one document is left.\<close>

definition twin_pages :: crawl_node where
  "twin_pages = Cn_Dir (Inr [Cn_Dir (Inr [Cn_File ''/gl/index.html'' (Inr ''gl'')]),
     Cn_Dir (Inr [Cn_File ''/ap/index.html'' (Inr ''ap'')])])"

definition plain_page :: "string \<Rightarrow> crawl_error + parsed_page" where
  "plain_page raw = Ok \<lparr>pp_title = ''t'', pp_breadcrumbs = [], pp_body = raw, pp_module = None\<rparr>"


end
