(* ===== verification/Latency.thy ===== *)
theory Latency
  imports Float_Ops
begin

text \<open>
  The latency of a query by layers (\<open>LatencyBreakdown\<close> of \<open>oracle-automate-rag/src/lib.rs\<close>), and the
  percentile by rank that the console and the benchmark read off sorted samples.
\<close>

record latency_breakdown =
  lb_dense_us :: nat
  lb_sparse_us :: nat
  lb_fusion_us :: nat
  lb_rerank_us :: nat
  lb_total_us :: nat

text \<open>What \<open>hybrid_search\<close> reports of its times in microseconds: the one call of the store counts half as
  dense and half as sparse, at least one each.\<close>

definition search_latency :: "nat \<Rightarrow> nat \<Rightarrow> nat \<Rightarrow> nat \<Rightarrow> latency_breakdown" where
  "search_latency store_us fusion_us rerank_us total_us =
     (let dense_us = max (store_us div 2) 1; sparse_us = max dense_us 1
      in \<lparr>lb_dense_us = dense_us, lb_sparse_us = sparse_us, lb_fusion_us = fusion_us, lb_rerank_us = rerank_us,
          lb_total_us = total_us\<rparr>)"

text \<open>\<open>{:>w}\<close>: right-aligned in a field of a width.\<close>

definition pad_left :: "nat \<Rightarrow> string \<Rightarrow> string" where
  "pad_left w s = replicate (w - length (utf8_chars s)) (CHR '' '') @ s"

text \<open>The rank \<open>(len as f64 * q) as usize\<close>, where \<open>trunc\<close> is the cast, and the sample at a rank, the last
  one for ranks past the end.\<close>

definition rank_at :: "'f float_ops \<Rightarrow> ('f \<Rightarrow> nat) \<Rightarrow> string \<Rightarrow> nat \<Rightarrow> nat" where
  "rank_at fo trunc q n = trunc (fl_mul fo (fl_of_nat fo n) (fl_lit fo q))"

definition percentile_of :: "(nat \<Rightarrow> nat) \<Rightarrow> nat list \<Rightarrow> nat" where
  "percentile_of rank samples =
     (let v = sort samples in v ! min (rank (length v)) (length v - 1))"

lemma length_filter_sort: "length (filter P (sort xs)) = length (filter P xs)"
  by (metis filter_sort length_sort)

lemma sorted_below: "sorted v \<Longrightarrow> r < length v \<Longrightarrow> r + 1 \<le> length (filter (\<lambda>x. x \<le> v ! r) v)"
proof -
  assume v: "sorted v" "r < length v"
  have "filter (\<lambda>x. x \<le> v ! r) (take (Suc r) v) = take (Suc r) v"
    using v by (auto simp: filter_id_conv in_set_conv_nth sorted_iff_nth_mono)
  then have "length (filter (\<lambda>x. x \<le> v ! r) (take (Suc r) v @ drop (Suc r) v)) \<ge> Suc r"
    using v(2) by (simp del: append_take_drop_id)
  then show ?thesis by simp
qed

lemma sorted_above: "sorted v \<Longrightarrow> r < length v \<Longrightarrow> length v - r \<le> length (filter (\<lambda>x. v ! r \<le> x) v)"
proof -
  assume v: "sorted v" "r < length v"
  have "filter (\<lambda>x. v ! r \<le> x) (drop r v) = drop r v"
    using v by (auto simp: filter_id_conv in_set_conv_nth sorted_iff_nth_mono)
  then have "length (filter (\<lambda>x. v ! r \<le> x) (take r v @ drop r v)) \<ge> length v - r"
    by (simp del: append_take_drop_id)
  then show ?thesis by simp
qed

text \<open>A percentile is a sample; at rank \<open>r\<close>, more than \<open>r\<close> samples are not above it and all but \<open>r\<close> are not
  below it.\<close>

lemma percentile_of_rank:
  assumes "samples \<noteq> []" and "r = min (rank (length samples)) (length samples - 1)"
  shows "percentile_of rank samples \<in> set samples
    \<and> r < length (filter (\<lambda>x. x \<le> percentile_of rank samples) samples)
    \<and> length samples - r \<le> length (filter (\<lambda>x. percentile_of rank samples \<le> x) samples)"
proof -
  have r: "r < length (sort samples)"
    using assms by (simp add: min_less_iff_disj)
  have p: "percentile_of rank samples = sort samples ! r"
    by (simp add: percentile_of_def assms(2))
  show ?thesis
    using sorted_below [of "sort samples" r] sorted_above [of "sort samples" r] r nth_mem [OF r]
    by (simp add: p length_filter_sort)
qed

lemma percentile_of_le_iff:
  assumes "samples \<noteq> []" and "r = min (rank (length samples)) (length samples - 1)"
  shows "percentile_of rank samples \<le> g \<longleftrightarrow> r < length (filter (\<lambda>x. x \<le> g) samples)"
proof
  let ?p = "percentile_of rank samples"
  assume p: "?p \<le> g"
  have "length (filter (\<lambda>x. x \<le> ?p) samples) = length (filter (\<lambda>x. x \<le> ?p) (filter (\<lambda>x. x \<le> g) samples))"
    by (rule arg_cong [where f = length]) (use p in \<open>auto intro!: filter_cong\<close>)
  also have "\<dots> \<le> length (filter (\<lambda>x. x \<le> g) samples)" by (rule length_filter_le)
  finally show "r < length (filter (\<lambda>x. x \<le> g) samples)"
    using percentile_of_rank [where rank = rank, OF assms] by linarith
next
  let ?p = "percentile_of rank samples"
  assume few: "r < length (filter (\<lambda>x. x \<le> g) samples)"
  show "?p \<le> g"
  proof (rule ccontr)
    assume "\<not> ?p \<le> g"
    then have "length (filter (\<lambda>x. ?p \<le> x) samples) = length (filter (\<lambda>x. ?p \<le> x) (filter (\<lambda>x. \<not> x \<le> g) samples))"
      by (intro arg_cong [where f = length]) (auto intro!: filter_cong)
    also have "\<dots> \<le> length (filter (\<lambda>x. \<not> x \<le> g) samples)" by (rule length_filter_le)
    finally have "length samples - r \<le> length (filter (\<lambda>x. \<not> x \<le> g) samples)"
      using percentile_of_rank [where rank = rank, OF assms] by linarith
    then show False
      using few sum_length_filter_compl [of "\<lambda>x. x \<le> g" samples] by linarith
  qed
qed

lemma percentile_of_mono:
  assumes "samples \<noteq> []" and "rank (length samples) \<le> rank' (length samples)"
  shows "percentile_of rank samples \<le> percentile_of rank' samples"
  unfolding percentile_of_def Let_def
  by (rule sorted_nth_mono) (use assms in \<open>auto simp: min_def not_le Suc_le_eq intro: le_less_trans\<close>)

end
