(* ===== verification/Console.thy ===== *)
theory Console
  imports Memory Latency Hex
begin

text \<open>
  The operator console (\<open>apps/oracle-automate-tui\<close>): its state with the single entry \<open>observe\<close>
  (\<open>app.rs\<close>), the synthetic feed that drives it (\<open>traffic.rs\<close>), the keys and the event loop (\<open>main.rs\<close>).
  Drawing on the terminal is the parameter \<open>draw\<close>, which may fail; \<open>Instant::now\<close> is an argument. The
  floats are a \<open>float_ops\<close> record, \<open>trunc\<close> is the cast of a float to an unsigned integer.
\<close>

subsection \<open>State\<close>

record tool_stat =
  ts_name :: string
  ts_invocations :: nat
  ts_errors :: nat
  ts_samples_us :: "nat list"
  ts_last_breakdown :: "latency_breakdown option"

definition tool_stat_new :: "string \<Rightarrow> tool_stat" where
  "tool_stat_new name =
     \<lparr>ts_name = name, ts_invocations = 0, ts_errors = 0, ts_samples_us = [], ts_last_breakdown = None\<rparr>"

text \<open>A full ring loses its oldest sample first.\<close>

definition ring_push :: "nat \<Rightarrow> 'a \<Rightarrow> 'a list \<Rightarrow> 'a list" where
  "ring_push cap x q = (if length q = cap then tl q else q) @ [x]"

definition tool_stat_record :: "nat \<Rightarrow> bool \<Rightarrow> latency_breakdown option \<Rightarrow> tool_stat \<Rightarrow> tool_stat" where
  "tool_stat_record latency_us failed breakdown s =
     s\<lparr>ts_invocations := ts_invocations s + 1,
       ts_errors := ts_errors s + (if failed then 1 else 0),
       ts_samples_us := ring_push 120 latency_us (ts_samples_us s),
       ts_last_breakdown := (if breakdown \<noteq> None then breakdown else ts_last_breakdown s)\<rparr>"

definition tool_stat_percentile :: "(nat \<Rightarrow> nat) \<Rightarrow> tool_stat \<Rightarrow> nat" where
  "tool_stat_percentile rank s =
     (if ts_samples_us s = [] then 0 else percentile_of rank (ts_samples_us s))"

record session_row =
  sr_id :: string
  sr_client :: string
  sr_protocol :: string
  sr_tools_called :: nat
  sr_last_activity :: nat

datatype console_level = Lvl_Info | Lvl_Warn | Lvl_Error

record log_entry =
  le_at :: nat
  le_level :: console_level
  le_source :: string
  le_message :: string

datatype 'f traffic_event =
    Tool_Call string nat bool "latency_breakdown option"
  | Session_Open string string string
  | Session_Close string
  | Log_Line console_level string string
  | Kb_Stat string nat 'f
  | Cache_Stat nat nat nat 'f

record 'f cache_snapshot =
  cs_hits :: nat
  cs_misses :: nat
  cs_entries :: nat
  cs_hit_ratio :: 'f

record 'f app =
  ap_current_tab :: nat
  ap_scroll :: "(nat \<times> nat) list"
  ap_tools :: "(string \<times> tool_stat) list"
  ap_sessions :: "(string \<times> session_row) list"
  ap_logs :: "log_entry list"
  ap_kb_collections :: "(string \<times> nat \<times> 'f) list"
  ap_cache :: "'f cache_snapshot"
  ap_started_at :: nat

definition cache_snapshot_default :: "'f float_ops \<Rightarrow> 'f cache_snapshot" where
  "cache_snapshot_default fo =
     \<lparr>cs_hits = 0, cs_misses = 0, cs_entries = 0, cs_hit_ratio = fl_of_nat fo 0\<rparr>"

definition app_new :: "'f float_ops \<Rightarrow> nat \<Rightarrow> 'f app" where
  "app_new fo now =
     \<lparr>ap_current_tab = 0, ap_scroll = [], ap_tools = [], ap_sessions = [], ap_logs = [],
      ap_kb_collections = [], ap_cache = cache_snapshot_default fo, ap_started_at = now\<rparr>"

definition set_tab :: "nat \<Rightarrow> 'f app \<Rightarrow> 'f app" where
  "set_tab n a = (if n < 5 then a\<lparr>ap_current_tab := n\<rparr> else a)"

definition next_tab :: "'f app \<Rightarrow> 'f app" where
  "next_tab a = a\<lparr>ap_current_tab := (ap_current_tab a + 1) mod 5\<rparr>"

definition prev_tab :: "'f app \<Rightarrow> 'f app" where
  "prev_tab a = a\<lparr>ap_current_tab := (ap_current_tab a + 4) mod 5\<rparr>"

definition scroll_entry :: "(nat \<Rightarrow> nat) \<Rightarrow> 'f app \<Rightarrow> 'f app" where
  "scroll_entry f a =
     (let v = unwrap_or (map_of (ap_scroll a) (ap_current_tab a)) 0
      in a\<lparr>ap_scroll := AList.update (ap_current_tab a) (f v) (ap_scroll a)\<rparr>)"

text \<open>The offsets are \<open>u16\<close>; both steps saturate.\<close>

definition scroll_down :: "'f app \<Rightarrow> 'f app" where
  "scroll_down a = scroll_entry (\<lambda>v. min (v + 1) (2 ^ 16 - 1)) a"

definition scroll_up :: "'f app \<Rightarrow> 'f app" where
  "scroll_up a = scroll_entry (\<lambda>v. v - 1) a"

fun observe :: "nat \<Rightarrow> 'f traffic_event \<Rightarrow> 'f app \<Rightarrow> 'f app" where
  "observe now (Tool_Call name latency_us failed breakdown) a =
     (let stat = unwrap_or (map_of (ap_tools a) name) (tool_stat_new name)
      in a\<lparr>ap_tools := AList.update name (tool_stat_record latency_us failed breakdown stat) (ap_tools a)\<rparr>)"
| "observe now (Session_Open i client protocol) a =
     a\<lparr>ap_sessions := AList.update i
         \<lparr>sr_id = i, sr_client = client, sr_protocol = protocol, sr_tools_called = 0, sr_last_activity = now\<rparr>
         (ap_sessions a)\<rparr>"
| "observe now (Session_Close i) a = a\<lparr>ap_sessions := AList.delete i (ap_sessions a)\<rparr>"
| "observe now (Log_Line level source message) a =
     a\<lparr>ap_logs := ring_push 200
         \<lparr>le_at = now, le_level = level, le_source = source, le_message = message\<rparr> (ap_logs a)\<rparr>"
| "observe now (Kb_Stat collection points staleness) a =
     a\<lparr>ap_kb_collections := AList.update collection (points, staleness) (ap_kb_collections a)\<rparr>"
| "observe now (Cache_Stat hits misses entries ratio) a =
     a\<lparr>ap_cache := \<lparr>cs_hits = hits, cs_misses = misses, cs_entries = entries, cs_hit_ratio = ratio\<rparr>\<rparr>"

definition app_uptime :: "nat \<Rightarrow> 'f app \<Rightarrow> nat" where
  "app_uptime now a = now - ap_started_at a"

subsection \<open>The synthetic feed\<close>

definition feed_tools :: "string list" where
  "feed_tools =
     [''oracle.docs.search'', ''oracle.help.search'', ''integration.search'', ''oracle.rest.search'',
      ''oracle.rest.metadata'', ''oracle.system.info'', ''oracle.object.read'', ''oracle.object.structure'',
      ''oracle.oic.get_groovy_script'', ''oracle.oic.get_integration'', ''oracle.oic.where_used'']"

record synthetic =
  sy_tick :: nat
  sy_sessions :: "string list"

definition synthetic_new :: synthetic where
  "synthetic_new = \<lparr>sy_tick = 0, sy_sessions = []\<rparr>"

definition hex4 :: "nat \<Rightarrow> string" where
  "hex4 n = map (\<lambda>d. hex_digit (n div d mod 16)) [16 ^ 3, 16 ^ 2, 16, 1]"

definition feed_session_id :: "nat \<Rightarrow> string" where
  "feed_session_id t = ''S-'' @ hex4 (t mod 65536)"

definition fl_min :: "'f float_ops \<Rightarrow> 'f \<Rightarrow> 'f \<Rightarrow> 'f" where
  "fl_min fo a b = (if fl_lt fo b a then b else a)"

definition feed_cache :: "'f float_ops \<Rightarrow> ('f \<Rightarrow> nat) \<Rightarrow> nat \<Rightarrow> 'f traffic_event" where
  "feed_cache fo trunc t =
     (let total = max t 1;
          hits = trunc (fl_min fo (fl_mul fo (fl_of_nat fo total) (fl_lit fo ''0.85'')) (fl_of_nat fo (t - 8)));
          misses = total - hits;
          hit_ratio = (if total = 0 then fl_lit fo ''0.0'' else fl_div fo (fl_of_nat fo hits) (fl_of_nat fo total))
      in Cache_Stat hits misses (min (16 + t mod 12) 28) hit_ratio)"

definition micro :: string where "micro = [CHR 0xCE, CHR 0xBC]"

definition feed_log :: "nat \<Rightarrow> 'f traffic_event" where
  "feed_log t =
     (if t mod 200 = 0
      then Log_Line Lvl_Warn ''rag'' (''reranker latency spike: 380'' @ micro @ ''s (P95 ceiling 350'' @ micro @ ''s)'')
      else Log_Line Lvl_Info ''kb'' (''upsert batch ok ('' @ show_nat (24 + t mod 8) @ '' chunks)''))"

definition feed_call :: "nat \<Rightarrow> 'f traffic_event" where
  "feed_call t =
     (let name = feed_tools ! (t mod length feed_tools);
          base = (if starts_with name ''oracle.oic.'' \<or> starts_with name ''oracle.rest''
                     \<or> starts_with name ''oracle.object''
                  then 200 + t mod 800 else 100 + t mod 150);
          breakdown = (if contains_str name ''search'' \<or> name = ''oracle.docs.search''
            then Some \<lparr>lb_dense_us = 30 + t mod 20, lb_sparse_us = 30 + t mod 20, lb_fusion_us = 2,
                       lb_rerank_us = 50 + t mod 30, lb_total_us = base\<rparr>
            else None)
      in Tool_Call name base (t mod 197 = 0) breakdown)"

definition remove_nth :: "nat \<Rightarrow> 'a list \<Rightarrow> 'a list" where
  "remove_nth i xs = take i xs @ drop (Suc i) xs"

definition synthetic_tick ::
  "'f float_ops \<Rightarrow> ('f \<Rightarrow> nat) \<Rightarrow> synthetic \<Rightarrow> 'f traffic_event option \<times> synthetic" where
  "synthetic_tick fo trunc s =
     (let t = sy_tick s + 1; s = s\<lparr>sy_tick := t\<rparr>; phase = t mod 23 in
      if phase = 0 then
        (let i = feed_session_id t
         in (Some (Session_Open i ''claude-code'' ''2025-06-18''), s\<lparr>sy_sessions := sy_sessions s @ [i]\<rparr>))
      else if phase = 5 \<and> sy_sessions s \<noteq> [] then
        (let k = t mod length (sy_sessions s)
         in (Some (Session_Close (sy_sessions s ! k)), s\<lparr>sy_sessions := remove_nth k (sy_sessions s)\<rparr>))
      else if phase = 7 then (Some (Kb_Stat ''sap_help'' (12400 + t mod 100) (fl_lit fo ''1.2'')), s)
      else if phase = 11 then (Some (Kb_Stat ''abap'' (84300 + t mod 100) (fl_lit fo ''0.4'')), s)
      else if phase = 13 then (Some (Kb_Stat ''bpmn'' (1120 + t mod 10) (fl_lit fo ''3.1'')), s)
      else if phase = 17 then (Some (Kb_Stat ''leanix'' (2980 + t mod 10) (fl_lit fo ''0.9'')), s)
      else if phase = 3 then (Some (feed_cache fo trunc t), s)
      else if phase = 19 then (Some (feed_log t), s)
      else (Some (feed_call t), s))"

subsection \<open>Keys and the event loop\<close>

datatype key_code =
  Key_Char char | Key_Esc | Key_Right | Key_Tab | Key_Left | Key_Back_Tab | Key_Down | Key_Up | Key_Other

text \<open>The application after a key, or nothing for the keys that end the loop.\<close>

definition press_key :: "key_code \<Rightarrow> 'f app \<Rightarrow> 'f app option" where
  "press_key k a =
     (if k = Key_Char (CHR ''q'') \<or> k = Key_Esc then None
      else Some
        (if k = Key_Char (CHR ''1'') then set_tab 0 a
         else if k = Key_Char (CHR ''2'') then set_tab 1 a
         else if k = Key_Char (CHR ''3'') then set_tab 2 a
         else if k = Key_Char (CHR ''4'') then set_tab 3 a
         else if k = Key_Char (CHR ''5'') then set_tab 4 a
         else if k = Key_Right \<or> k = Key_Tab then next_tab a
         else if k = Key_Left \<or> k = Key_Back_Tab then prev_tab a
         else if k = Key_Char (CHR ''j'') \<or> k = Key_Down then scroll_down a
         else if k = Key_Char (CHR ''k'') \<or> k = Key_Up then scroll_up a
         else a))"

text \<open>What the loop selects: a tick of the interval, a key that is pressed, any other terminal event, the
  failure or the end of the event stream.\<close>

datatype console_input = In_Tick | In_Key key_code | In_Other | In_Failed string | In_Ended

text \<open>One pass of the loop after the drawing: the state, and how the loop ends if it does.\<close>

fun console_step ::
  "('s \<Rightarrow> 'f traffic_event option \<times> 's) \<Rightarrow> nat \<Rightarrow> console_input \<Rightarrow> 'f app \<times> 's
     \<Rightarrow> ('f app \<times> 's) \<times> (string + unit) option" where
  "console_step feed now In_Tick (a, s) =
     (case feed s of
        (Some ev, s') \<Rightarrow> ((observe now ev a, s'), None)
      | (None, s') \<Rightarrow> ((a, s'), None))"
| "console_step feed now (In_Key k) (a, s) =
     (case press_key k a of Some a' \<Rightarrow> ((a', s), None) | None \<Rightarrow> ((a, s), Some (Ok ())))"
| "console_step feed now In_Other (a, s) = ((a, s), None)"
| "console_step feed now (In_Failed e) (a, s) = ((a, s), Some (Err e))"
| "console_step feed now In_Ended (a, s) = ((a, s), Some (Ok ()))"

text \<open>The loop over the inputs, each with its time; it has no result while it still waits for one.\<close>

fun console_loop ::
  "('f app \<Rightarrow> string option) \<Rightarrow> ('s \<Rightarrow> 'f traffic_event option \<times> 's) \<Rightarrow> (nat \<times> console_input) list
     \<Rightarrow> 'f app \<times> 's \<Rightarrow> ('f app \<times> 's) \<times> (string + unit) option" where
  "console_loop draw feed inputs st =
     (case draw (fst st) of
        Some e \<Rightarrow> (st, Some (Err e))
      | None \<Rightarrow>
          (case inputs of
             [] \<Rightarrow> (st, None)
           | (now, i) # inputs' \<Rightarrow>
               (case console_step feed now i st of
                  (st', Some res) \<Rightarrow> (st', Some res)
                | (st', None) \<Rightarrow> console_loop draw feed inputs' st')))"

declare console_loop.simps [simp del]

subsection \<open>What the console shows\<close>

text \<open>The specification: everything shown is a function of the events observed so far, with their times.\<close>

definition latest :: "('e \<Rightarrow> 'a option) \<Rightarrow> 'e list \<Rightarrow> 'a option" where
  "latest f es = (case rev (List.map_filter f es) of [] \<Rightarrow> None | x # _ \<Rightarrow> Some x)"

fun call_of :: "string \<Rightarrow> nat \<times> 'f traffic_event \<Rightarrow> (nat \<times> bool \<times> latency_breakdown option) option" where
  "call_of name (_, Tool_Call n latency failed b) = (if n = name then Some (latency, failed, b) else None)"
| "call_of name _ = None"

definition stat_of :: "string \<Rightarrow> (nat \<times> bool \<times> latency_breakdown option) list \<Rightarrow> tool_stat" where
  "stat_of name cs =
     \<lparr>ts_name = name, ts_invocations = length cs, ts_errors = length (filter (\<lambda>(_, failed, _). failed) cs),
      ts_samples_us = last_n 120 (map fst cs), ts_last_breakdown = latest (\<lambda>(_, _, b). b) cs\<rparr>"

definition tool_shown :: "string \<Rightarrow> (nat \<times> 'f traffic_event) list \<Rightarrow> tool_stat option" where
  "tool_shown name es =
     (let cs = List.map_filter (call_of name) es in if cs = [] then None else Some (stat_of name cs))"

fun session_event :: "string \<Rightarrow> nat \<times> 'f traffic_event \<Rightarrow> session_row option option" where
  "session_event i (now, Session_Open j client protocol) =
     (if j = i then Some (Some
        \<lparr>sr_id = i, sr_client = client, sr_protocol = protocol, sr_tools_called = 0, sr_last_activity = now\<rparr>)
      else None)"
| "session_event i (_, Session_Close j) = (if j = i then Some None else None)"
| "session_event i _ = None"

definition session_shown :: "string \<Rightarrow> (nat \<times> 'f traffic_event) list \<Rightarrow> session_row option" where
  "session_shown i es = Option.bind (latest (session_event i) es) id"

fun log_of :: "nat \<times> 'f traffic_event \<Rightarrow> log_entry option" where
  "log_of (now, Log_Line level source message) =
     Some \<lparr>le_at = now, le_level = level, le_source = source, le_message = message\<rparr>"
| "log_of _ = None"

fun kb_of :: "string \<Rightarrow> nat \<times> 'f traffic_event \<Rightarrow> (nat \<times> 'f) option" where
  "kb_of c (_, Kb_Stat collection points staleness) = (if collection = c then Some (points, staleness) else None)"
| "kb_of c _ = None"

fun cache_of :: "nat \<times> 'f traffic_event \<Rightarrow> 'f cache_snapshot option" where
  "cache_of (_, Cache_Stat hits misses entries ratio) =
     Some \<lparr>cs_hits = hits, cs_misses = misses, cs_entries = entries, cs_hit_ratio = ratio\<rparr>"
| "cache_of _ = None"

definition console_shows :: "'f float_ops \<Rightarrow> 'f app \<Rightarrow> (nat \<times> 'f traffic_event) list \<Rightarrow> bool" where
  "console_shows fo a es \<longleftrightarrow>
     (\<forall>name. map_of (ap_tools a) name = tool_shown name es)
   \<and> (\<forall>i. map_of (ap_sessions a) i = session_shown i es)
   \<and> ap_logs a = last_n 200 (List.map_filter log_of es)
   \<and> (\<forall>c. map_of (ap_kb_collections a) c = latest (kb_of c) es)
   \<and> ap_cache a = unwrap_or (latest cache_of es) (cache_snapshot_default fo)"

text \<open>Maps hold a key once, the tab is one of the five and the offsets fit their type.\<close>

definition app_ok :: "'f app \<Rightarrow> bool" where
  "app_ok a \<longleftrightarrow> distinct (map fst (ap_tools a)) \<and> distinct (map fst (ap_sessions a))
     \<and> distinct (map fst (ap_kb_collections a)) \<and> ap_current_tab a < 5
     \<and> list_all (\<lambda>(_, v). v < 2 ^ 16) (ap_scroll a)"

lemma latest_Nil [simp]: "latest f [] = None"
  by (simp add: latest_def)

lemma latest_snoc [simp]: "latest f (es @ [e]) = (case f e of None \<Rightarrow> latest f es | Some x \<Rightarrow> Some x)"
  by (simp add: latest_def map_filter_append map_filter_Cons split: option.split)

lemma ring_push_last_n: "0 < n \<Longrightarrow> ring_push n x (last_n n xs) = last_n n (xs @ [x])"
  by (simp add: ring_push_def last_n_snoc)

lemma stat_of_Nil: "stat_of name [] = tool_stat_new name"
  by (simp add: stat_of_def tool_stat_new_def)

lemma stat_of_snoc:
  "stat_of name (cs @ [(latency, failed, b)]) = tool_stat_record latency failed b (stat_of name cs)"
  by (cases b) (simp_all add: stat_of_def tool_stat_record_def ring_push_last_n)

lemma tool_shown_snoc:
  "tool_shown name (es @ [(now, ev)]) = (case call_of name (now, ev) of
      None \<Rightarrow> tool_shown name es
    | Some (latency, failed, b) \<Rightarrow>
        Some (tool_stat_record latency failed b (unwrap_or (tool_shown name es) (tool_stat_new name))))"
  by (auto simp: tool_shown_def Let_def map_filter_append map_filter_Cons stat_of_snoc stat_of_Nil
      stat_of_snoc [of name "[]", simplified] split: option.split)

lemma observe_shows:
  assumes "console_shows fo a es"
  shows "console_shows fo (observe now ev a) (es @ [(now, ev)])"
  using assms
  by (cases ev)
    (auto simp: console_shows_def Let_def tool_shown_snoc session_shown_def map_filter_append map_filter_Cons
      ring_push_last_n update_conv' delete_conv')

lemma observe_ok: "app_ok a \<Longrightarrow> app_ok (observe now ev a)"
  by (cases ev) (auto simp: app_ok_def Let_def distinct_update distinct_delete)

lemma app_new_shows: "console_shows fo (app_new fo now) [] \<and> app_ok (app_new fo now)"
  by (simp add: console_shows_def app_new_def tool_shown_def session_shown_def app_ok_def)

text \<open>Keys change the tab and the offsets only.\<close>

lemma scroll_entry_ok:
  assumes "app_ok a" and "\<And>v. v < 2 ^ 16 \<Longrightarrow> f v < 2 ^ 16"
  shows "app_ok (scroll_entry f a)"
proof -
  have "unwrap_or (map_of (ap_scroll a) k) 0 < 2 ^ 16" for k
  proof (cases "map_of (ap_scroll a) k")
    case (Some v)
    with assms(1) show ?thesis by (auto simp: app_ok_def list_all_iff dest: map_of_SomeD)
  qed simp
  then have "f (unwrap_or (map_of (ap_scroll a) k) 0) < 2 ^ 16" for k
    using assms(2) by blast
  then show ?thesis
    using assms(1) by (simp add: scroll_entry_def app_ok_def Let_def list_all_alist_update)
qed

lemma press_key_cases:
  assumes "press_key k a = Some a'"
  obtains "a' = a" | n where "a' = set_tab n a" | "a' = next_tab a" | "a' = prev_tab a"
    | "a' = scroll_down a" | "a' = scroll_up a"
  using assms that unfolding press_key_def by (simp split: if_split_asm; blast)

lemma press_key_ok:
  assumes k: "press_key k a = Some a'" and a: "app_ok a"
  shows "app_ok a'"
proof -
  have "app_ok (scroll_up a)" "app_ok (scroll_down a)"
    unfolding scroll_up_def scroll_down_def by (intro scroll_entry_ok [OF a]; simp)+
  moreover have "app_ok (next_tab a)" "app_ok (prev_tab a)" "\<And>n. app_ok (set_tab n a)"
    using a by (auto simp: app_ok_def next_tab_def prev_tab_def set_tab_def)
  ultimately show ?thesis
    using a by (cases rule: press_key_cases [OF k]) simp_all
qed

lemmas key_effect_defs = set_tab_def next_tab_def prev_tab_def scroll_down_def scroll_up_def scroll_entry_def Let_def

lemma press_key_shows:
  assumes k: "press_key k a = Some a'"
  shows "console_shows fo a' es = console_shows fo a es"
  by (cases rule: press_key_cases [OF k]) (simp_all add: console_shows_def key_effect_defs)

text \<open>The events a feed gives at the ticks among the inputs.\<close>

fun feed_events ::
  "('s \<Rightarrow> 'f traffic_event option \<times> 's) \<Rightarrow> (nat \<times> console_input) list \<Rightarrow> 's \<Rightarrow> (nat \<times> 'f traffic_event) list" where
  "feed_events feed [] s = []"
| "feed_events feed ((now, i) # inputs) s =
     (if i = In_Tick then
        (case feed s of (ev, s') \<Rightarrow>
           (case ev of Some e \<Rightarrow> [(now, e)] | None \<Rightarrow> []) @ feed_events feed inputs s')
      else feed_events feed inputs s)"

definition loop_shows ::
  "'f float_ops \<Rightarrow> ('s \<Rightarrow> 'f traffic_event option \<times> 's) \<Rightarrow> (nat \<times> 'f traffic_event) list
     \<Rightarrow> (nat \<times> console_input) list \<Rightarrow> 's \<Rightarrow> 'f app \<Rightarrow> (string + unit) option \<Rightarrow> bool" where
  "loop_shows fo feed es inputs s a res \<longleftrightarrow>
     (\<exists>seen rest. inputs = seen @ rest \<and> (case res of None \<Rightarrow> rest = [] | Some _ \<Rightarrow> True)
        \<and> console_shows fo a (es @ feed_events feed seen s) \<and> app_ok a)"

lemma loop_shows_now:
  "console_shows fo a es \<Longrightarrow> app_ok a \<Longrightarrow> (case res of None \<Rightarrow> inputs = [] | Some _ \<Rightarrow> True)
     \<Longrightarrow> loop_shows fo feed es inputs s a res"
  unfolding loop_shows_def by (intro exI [of _ "[]"] exI [of _ inputs]) simp

lemma loop_shows_later:
  assumes "loop_shows fo feed (es @ feed_events feed [(now, i)] s) inputs s' a res"
    and "s' = (if i = In_Tick then snd (feed s) else s)"
  shows "loop_shows fo feed es ((now, i) # inputs) s a res"
proof -
  obtain seen rest where *: "inputs = seen @ rest" "case res of None \<Rightarrow> rest = [] | Some _ \<Rightarrow> True"
      "console_shows fo a (es @ feed_events feed [(now, i)] s @ feed_events feed seen s')" "app_ok a"
    using assms(1) unfolding loop_shows_def by auto
  show ?thesis
    unfolding loop_shows_def
    by (intro exI [of _ "(now, i) # seen"] exI [of _ rest]) (use * assms(2) in \<open>auto simp: case_prod_beta split: if_splits\<close>)
qed

lemma console_loop_shows:
  assumes "console_shows fo a es" and "app_ok a"
  shows "case console_loop draw feed inputs (a, s) of ((a', s'), res) \<Rightarrow> loop_shows fo feed es inputs s a' res"
  using assms
proof (induction inputs arbitrary: a s es)
  case Nil
  then show ?case
    by (subst console_loop.simps) (auto intro: loop_shows_now split: option.split)
next
  case (Cons x inputs)
  obtain now i where x: "x = (now, i)" by force
  show ?case
  proof (cases "draw a")
    case (Some e)
    then show ?thesis
      using Cons.prems by (subst console_loop.simps) (auto intro: loop_shows_now)
  next
    case None
    obtain a1 s1 res where step: "console_step feed now i (a, s) = ((a1, s1), res)"
      by (metis prod.exhaust)
    have s1: "s1 = (if i = In_Tick then snd (feed s) else s)"
      and shown: "console_shows fo a1 (es @ feed_events feed [(now, i)] s) \<and> app_ok a1"
      using step Cons.prems press_key_ok press_key_shows observe_ok observe_shows
      by (cases i; fastforce split: prod.splits option.splits)+
    show ?thesis
    proof (cases res)
      case (Some r)
      then have "loop_shows fo feed es (x # inputs) s a1 (Some r)"
        unfolding x by (intro loop_shows_later [OF loop_shows_now]) (use shown s1 in auto)
      then show ?thesis
        using None step Some x by (subst console_loop.simps) simp
    next
      case going: None
      have "case console_loop draw feed inputs (a1, s1) of ((a', s'), res) \<Rightarrow>
          loop_shows fo feed (es @ feed_events feed [(now, i)] s) inputs s1 a' res"
        by (rule Cons.IH) (use shown in auto)
      then have "case console_loop draw feed inputs (a1, s1) of ((a', s'), res) \<Rightarrow>
          loop_shows fo feed es (x # inputs) s a' res"
        unfolding x using s1 by (auto intro: loop_shows_later split: prod.splits)
      then show ?thesis
        using None step going x by (subst console_loop.simps) simp
    qed
  qed
qed

text \<open>The synthetic feed has at most one session open: from each of its ticks that are multiples of 23, until
  the fifth tick after it. The console shows just that one.\<close>

definition open_session :: "nat \<Rightarrow> string list" where
  "open_session n = (if 23 \<le> n \<and> n mod 23 < 5 then [feed_session_id (n - n mod 23)] else [])"

lemma open_session_step:
  "open_session (Suc n) = (if Suc n mod 23 = 0 then [feed_session_id (Suc n)]
     else if Suc n mod 23 = 5 then [] else open_session n)"
proof -
  consider "n mod 23 = 22" "Suc n mod 23 = 0" | "n mod 23 < 22" "Suc n mod 23 = Suc (n mod 23)"
    by (cases "n mod 23 = 22") (auto simp: mod_Suc intro: le_neq_implies_less)
  then show ?thesis
  proof cases
    case 1
    then have "23 \<le> Suc n" by (metis Suc_not_Zero mod_less not_le)
    with 1 show ?thesis by (simp add: open_session_def)
  next
    case 2
    then have "Suc n \<noteq> 23" by auto
    then have "23 \<le> Suc n \<longleftrightarrow> 23 \<le> n" by linarith
    moreover have "Suc n - Suc (n mod 23) = n - n mod 23" by simp
    ultimately show ?thesis using 2 by (simp add: open_session_def)
  qed
qed

lemma open_session_phases:
  "Suc n mod 23 = 0 \<Longrightarrow> open_session n = []"
  "open_session n = [] \<or> (\<exists>i. open_session n = [i])"
  by (auto simp: open_session_def mod_Suc split: if_splits)

lemma synthetic_tick_session:
  assumes "s = \<lparr>sy_tick = n, sy_sessions = open_session n\<rparr>" and "map fst (ap_sessions a) = open_session n"
  shows "case synthetic_tick fo trunc s of (ev, s') \<Rightarrow>
      s' = \<lparr>sy_tick = Suc n, sy_sessions = open_session (Suc n)\<rparr>
    \<and> (\<exists>e. ev = Some e \<and> map fst (ap_sessions (observe now e a)) = open_session (Suc n))"
proof -
  consider "Suc n mod 23 = 0" | i where "Suc n mod 23 = 5" "open_session n = [i]"
    | "Suc n mod 23 = 5" "open_session n = []" | "Suc n mod 23 \<noteq> 0" "Suc n mod 23 \<noteq> 5"
    using open_session_phases(2) by blast
  then show ?thesis
  proof cases
    case 1
    with assms open_session_phases(1) [OF 1] show ?thesis
      by (simp add: synthetic_tick_def Let_def open_session_step)
  next
    case 2
    then obtain row where "ap_sessions a = [(i, row)]"
      using assms(2) by auto
    with 2 assms(1) show ?thesis
      by (simp add: synthetic_tick_def Let_def open_session_step remove_nth_def)
  next
    case 3
    with assms show ?thesis
      by (simp add: synthetic_tick_def Let_def open_session_step feed_call_def)
  next
    case 4
    with assms show ?thesis
      by (simp add: synthetic_tick_def Let_def open_session_step feed_call_def feed_cache_def feed_log_def)
  qed
qed

lemma console_loop_inv:
  assumes "P st" and "\<And>now i st. P st \<Longrightarrow> P (fst (console_step feed now i st))"
  shows "P (fst (console_loop draw feed inputs st))"
  using assms(1)
proof (induction inputs arbitrary: st)
  case Nil
  then show ?case by (subst console_loop.simps) (simp split: option.split)
next
  case (Cons x inputs)
  obtain now i where x: "x = (now, i)" by force
  obtain st' res where step: "console_step feed now i st = (st', res)" by (metis prod.exhaust)
  then have "P st'" using assms(2) [OF Cons.prems, of now i] by simp
  then show ?case
    using Cons.prems Cons.IH [of st'] step x
    by (subst console_loop.simps) (simp split: option.split)
qed

definition feed_shown :: "'f app \<times> synthetic \<Rightarrow> bool" where
  "feed_shown st \<longleftrightarrow> sy_sessions (snd st) = open_session (sy_tick (snd st))
     \<and> map fst (ap_sessions (fst st)) = open_session (sy_tick (snd st))"

lemma feed_shown_step:
  assumes "feed_shown st"
  shows "feed_shown (fst (console_step (synthetic_tick fo trunc) now i st))"
proof -
  obtain a s where st: "st = (a, s)" by force
  with assms have s: "s = \<lparr>sy_tick = sy_tick s, sy_sessions = open_session (sy_tick s)\<rparr>"
      "map fst (ap_sessions a) = open_session (sy_tick s)"
    by (simp_all add: feed_shown_def)
  have key: "map fst (ap_sessions a') = map fst (ap_sessions a)" if "press_key k a = Some a'" for k a'
    by (cases rule: press_key_cases [OF that]) (simp_all add: key_effect_defs)
  show ?thesis
  proof (cases i)
    case In_Tick
    then show ?thesis
      using synthetic_tick_session [OF s, where fo = fo and trunc = trunc and now = now] by (auto simp: st feed_shown_def split: prod.splits)
  next
    case (In_Key k)
    then show ?thesis
      using assms key by (auto simp: st feed_shown_def split: option.split)
  qed (use assms st in simp_all)
qed

lemma feed_shows_one_session:
  "case console_loop draw (synthetic_tick fo trunc) inputs (app_new fo t0, synthetic_new) of ((a, s), res) \<Rightarrow>
     map fst (ap_sessions a) = open_session (sy_tick s)"
proof -
  have "feed_shown (app_new fo t0, synthetic_new)"
    by (simp add: feed_shown_def app_new_def synthetic_new_def open_session_def)
  then have "feed_shown (fst (console_loop draw (synthetic_tick fo trunc) inputs (app_new fo t0, synthetic_new)))"
    by (rule console_loop_inv) (rule feed_shown_step)
  then show ?thesis
    by (simp add: feed_shown_def case_prod_beta)
qed

text \<open>C19. Whatever feed drives the console and whatever the keys, the ticks and the clock: when the loop
  waits or has ended, what it shows is a function of the events of the feed at the ticks it has seen, all of
  them while it waits: the calls and errors of every tool are counted, with its last 120 latencies and its
  latest breakdown, a session is shown from its opening to its closing, with no call ever counted for it, the
  last 200 log lines and the latest statistics of every collection and of the cache; the tab is one of the five
  and the offsets fit their type.\<close>

theorem console_shows_history:
  "case console_loop draw feed inputs (app_new fo t0, s0) of ((a, s), res) \<Rightarrow>
     \<exists>seen rest. inputs = seen @ rest \<and> (case res of None \<Rightarrow> rest = [] | Some _ \<Rightarrow> True)
       \<and> console_shows fo a (feed_events feed seen s0) \<and> app_ok a"
proof -
  obtain a s res where *: "console_loop draw feed inputs (app_new fo t0, s0) = ((a, s), res)"
    by (metis prod.exhaust)
  have "loop_shows fo feed [] inputs s0 a res"
    using console_loop_shows [where fo = fo and a = "app_new fo t0" and es = "[]" and draw = draw and feed = feed
        and inputs = inputs and s = s0] app_new_shows [of fo t0] *
    by simp
  with * show ?thesis by (simp add: loop_shows_def)
qed

end
