(* ===== verification/Console_View.thy ===== *)
theory Console_View
  imports Console
begin

text \<open>
  What the console draws (\<open>apps/oracle-automate-tui\<close>: \<open>ui.rs\<close>, \<open>tabs/\<close>): the tab bar, the rows of the
  five tabs and the status bar, as text with its colour. The layout of widgets and the styles of headings are
  the library's. The orders in which the hash maps are gone through are arguments, \<open>show1\<close> and \<open>show2\<close> show a
  float with one and with two digits, \<open>trunc\<close> casts one to an unsigned integer.
\<close>

datatype colour = Green | Yellow | Red | Gray | White | Dark_Gray | Cyan | Black | Default

type_synonym span = "string \<times> colour"

definition raw :: "string \<Rightarrow> span" where "raw s = (s, Default)"

definition secs :: "nat \<Rightarrow> nat" where "secs nanos = nanos div 10 ^ 9"

subsection \<open>Bars\<close>

definition tab_names :: "string list" where
  "tab_names = [''Sessions'', ''Tools'', ''KB'', ''RAG'', ''Logs'']"

definition tab_titles :: "span list list" where
  "tab_titles = map (\<lambda>(i, name). [('' '' @ show_nat (i + 1) @ '' '', Dark_Gray), (name, White)])
     (enumerate 0 tab_names)"

definition en_dash :: string where "en_dash = [CHR 0xE2, CHR 0x80, CHR 0x93]"

definition status_bar :: "nat \<Rightarrow> tool_stat list \<Rightarrow> 'f app \<Rightarrow> span list" where
  "status_bar now tools a =
     [('' Oracle-Automate '', Black),
      raw (''  up '' @ pad_left 3 (show_nat (secs (app_uptime now a)))
        @ ''s | sessions '' @ pad_left 2 (show_nat (length (ap_sessions a)))
        @ '' | calls '' @ pad_left 5 (show_nat (sum_list (map ts_invocations tools)))
        @ '' | errors '' @ pad_left 3 (show_nat (sum_list (map ts_errors tools))) @ '' | ''),
      (''[1'' @ en_dash @ ''5] tabs  [j/k] scroll  [q] quit'', Dark_Gray)]"

subsection \<open>Sessions\<close>

definition session_cells :: "nat \<Rightarrow> session_row \<Rightarrow> span list" where
  "session_cells now s = map raw
     [sr_id s, sr_client s, sr_protocol s, show_nat (sr_tools_called s),
      show_nat (secs (now - sr_last_activity s)) @ ''s'']"

definition or_notice :: "string \<Rightarrow> span list list \<Rightarrow> span list list" where
  "or_notice notice rows = (if rows = [] then [[(notice, Dark_Gray)]] else rows)"

definition session_rows :: "nat \<Rightarrow> session_row list \<Rightarrow> span list list" where
  "session_rows now sessions = or_notice ''(no active sessions)'' (map (session_cells now) sessions)"

subsection \<open>Tools\<close>

definition error_percent :: "'f float_ops \<Rightarrow> tool_stat \<Rightarrow> 'f" where
  "error_percent fo t =
     (if 0 < ts_invocations t
      then fl_mul fo (fl_div fo (fl_of_nat fo (ts_errors t)) (fl_of_nat fo (ts_invocations t))) (fl_lit fo ''100.0'')
      else fl_lit fo ''0.0'')"

definition error_colour :: "'f float_ops \<Rightarrow> 'f \<Rightarrow> colour" where
  "error_colour fo pct =
     (if fl_lt fo (fl_lit fo ''1.0'') pct then Red
      else if fl_lt fo (fl_lit fo ''0.0'') pct then Yellow else Green)"

definition tool_cells ::
  "'f float_ops \<Rightarrow> ('f \<Rightarrow> nat) \<Rightarrow> ('f \<Rightarrow> string) \<Rightarrow> tool_stat \<Rightarrow> span list" where
  "tool_cells fo trunc show1 t =
     (let pct = error_percent fo t;
          at = (\<lambda>q. pad_left 5 (show_nat (tool_stat_percentile (rank_at fo trunc q) t)))
      in [raw (ts_name t), raw (show_nat (ts_invocations t)),
          (at ''0.50'', Gray), (at ''0.95'', White), (at ''0.99'', Dark_Gray),
          (pad_left 5 (show1 pct) @ ''%'', error_colour fo pct)])"

definition tool_rows ::
  "'f float_ops \<Rightarrow> ('f \<Rightarrow> nat) \<Rightarrow> ('f \<Rightarrow> string) \<Rightarrow> tool_stat list \<Rightarrow> span list list" where
  "tool_rows fo trunc show1 tools = map (tool_cells fo trunc show1) (sort_desc (<) ts_invocations tools)"

subsection \<open>Knowledge base\<close>

definition stale_colour :: "'f float_ops \<Rightarrow> 'f \<Rightarrow> colour" where
  "stale_colour fo staleness =
     (if fl_lt fo (fl_lit fo ''5.0'') staleness then Red
      else if fl_lt fo (fl_lit fo ''2.0'') staleness then Yellow else Green)"

definition collection_cells :: "'f float_ops \<Rightarrow> ('f \<Rightarrow> string) \<Rightarrow> string \<times> nat \<times> 'f \<Rightarrow> span list" where
  "collection_cells fo show1 c =
     (case c of (name, points, staleness) \<Rightarrow>
        [raw name, raw (pad_left 9 (show_nat points)),
         (pad_left 4 (show1 staleness) @ ''%'', stale_colour fo staleness),
         (if fl_lt fo (fl_lit fo ''5.0'') staleness then ''warning'' else ''ok'', stale_colour fo staleness)])"

definition collection_rows ::
  "'f float_ops \<Rightarrow> ('f \<Rightarrow> string) \<Rightarrow> (string \<times> nat \<times> 'f) list \<Rightarrow> span list list" where
  "collection_rows fo show1 cs = or_notice ''(no KB stats yet)'' (map (collection_cells fo show1) cs)"

text \<open>\<open>x >= y\<close> on floats, none of them a NaN.\<close>

definition ratio_colour :: "'f float_ops \<Rightarrow> 'f \<Rightarrow> colour" where
  "ratio_colour fo ratio =
     (if \<not> fl_lt fo ratio (fl_lit fo ''0.8'') then Green
      else if \<not> fl_lt fo ratio (fl_lit fo ''0.5'') then Yellow else Red)"

definition cache_line :: "'f float_ops \<Rightarrow> ('f \<Rightarrow> string) \<Rightarrow> 'f cache_snapshot \<Rightarrow> span list" where
  "cache_line fo show2 c =
     [(''REST metadata cache '', Cyan),
      raw (''hits='' @ show_nat (cs_hits c) @ '' misses='' @ show_nat (cs_misses c)
        @ '' entries='' @ show_nat (cs_entries c) @ '' ratio=''),
      (show2 (cs_hit_ratio c), ratio_colour fo (cs_hit_ratio c))]"

subsection \<open>Retrieval\<close>

text \<open>\<open>max_by_key\<close> on the total: the last of the greatest.\<close>

fun slower :: "latency_breakdown option \<Rightarrow> latency_breakdown \<Rightarrow> latency_breakdown option" where
  "slower None b = Some b"
| "slower (Some c) b = Some (if lb_total_us c \<le> lb_total_us b then b else c)"

definition slowest :: "latency_breakdown list \<Rightarrow> latency_breakdown option" where
  "slowest bs = foldl slower None bs"

definition breakdowns :: "tool_stat list \<Rightarrow> latency_breakdown list" where
  "breakdowns tools = List.map_filter ts_last_breakdown tools"

definition BUDGET_US :: nat where "BUDGET_US = 80000"

definition budget_percent :: "'f float_ops \<Rightarrow> ('f \<Rightarrow> nat) \<Rightarrow> nat \<Rightarrow> nat" where
  "budget_percent fo trunc tot =
     min (trunc (fl_min fo (fl_mul fo (fl_div fo (fl_of_nat fo tot) (fl_of_nat fo BUDGET_US)) (fl_lit fo ''100.0''))
       (fl_lit fo ''100.0''))) (2 ^ 16 - 1)"

definition gauge_colour :: "nat \<Rightarrow> colour" where
  "gauge_colour pct = (if pct < 40 then Green else if pct < 80 then Yellow else Red)"

definition no_latency :: latency_breakdown where
  "no_latency = \<lparr>lb_dense_us = 0, lb_sparse_us = 0, lb_fusion_us = 0, lb_rerank_us = 0, lb_total_us = 0\<rparr>"

definition latency_gauge :: "'f float_ops \<Rightarrow> ('f \<Rightarrow> nat) \<Rightarrow> tool_stat list \<Rightarrow> span" where
  "latency_gauge fo trunc tools =
     (let tot = lb_total_us (unwrap_or (slowest (breakdowns tools)) no_latency);
          pct = budget_percent fo trunc tot
      in (pad_left 5 (show_nat tot) @ '' '' @ micro @ ''s / '' @ show_nat (BUDGET_US div 1000)
            @ '' ms gate ('' @ show_nat pct @ ''%)'', gauge_colour pct))"

definition layer_line :: "tool_stat list \<Rightarrow> span" where
  "layer_line tools =
     (let b = unwrap_or (slowest (breakdowns tools)) no_latency;
          us = (\<lambda>w n. pad_left w (show_nat n) @ '' '' @ micro @ ''s'')
      in raw (''dense '' @ us 5 (lb_dense_us b) @ ''   |   sparse '' @ us 5 (lb_sparse_us b)
           @ ''   |   fusion '' @ us 4 (lb_fusion_us b) @ ''   |   rerank '' @ us 5 (lb_rerank_us b)))"

definition total_colour :: "nat \<Rightarrow> colour" where
  "total_colour tot = (if 80000 < tot then Red else if 40000 < tot then Yellow else Green)"

definition breakdown_cells :: "tool_stat \<Rightarrow> span list option" where
  "breakdown_cells t =
     map_option (\<lambda>b.
        [raw (ts_name t), raw (pad_left 5 (show_nat (lb_dense_us b))), raw (pad_left 5 (show_nat (lb_sparse_us b))),
         raw (pad_left 4 (show_nat (lb_fusion_us b))), raw (pad_left 5 (show_nat (lb_rerank_us b))),
         (pad_left 5 (show_nat (lb_total_us b)), total_colour (lb_total_us b))])
       (ts_last_breakdown t)"

definition breakdown_rows :: "tool_stat list \<Rightarrow> span list list" where
  "breakdown_rows tools = or_notice ''(no RAG tool traffic yet)'' (List.map_filter breakdown_cells tools)"

subsection \<open>Logs\<close>

fun level_label :: "console_level \<Rightarrow> span" where
  "level_label Lvl_Info = (''INFO '', Green)"
| "level_label Lvl_Warn = (''WARN '', Yellow)"
| "level_label Lvl_Error = (''ERROR'', Red)"

definition log_line :: "nat \<Rightarrow> log_entry \<Rightarrow> span list" where
  "log_line now l =
     [(pad_left 3 (show_nat (secs (now - le_at l))) @ ''s '', Dark_Gray), level_label (le_level l), raw '' '',
      (''['' @ le_source l @ '']'', Cyan), raw '' '', raw (le_message l)]"

text \<open>The newest lines, as many as fit between the borders of an area of the given height.\<close>

definition log_lines :: "nat \<Rightarrow> nat \<Rightarrow> 'f app \<Rightarrow> span list list" where
  "log_lines now height a = map (log_line now) (take (height - 2) (rev (ap_logs a)))"

subsection \<open>The screen\<close>

record 'f map_orders =
  mo_tools :: "(string \<times> tool_stat) list \<Rightarrow> tool_stat list"
  mo_sessions :: "(string \<times> session_row) list \<Rightarrow> session_row list"
  mo_collections :: "(string \<times> nat \<times> 'f) list \<Rightarrow> (string \<times> nat \<times> 'f) list"

record 'f formats =
  fm_ops :: "'f float_ops"
  fm_trunc :: "'f \<Rightarrow> nat"
  fm_show1 :: "'f \<Rightarrow> string"
  fm_show2 :: "'f \<Rightarrow> string"

definition screen_body :: "'f formats \<Rightarrow> 'f map_orders \<Rightarrow> nat \<Rightarrow> nat \<Rightarrow> 'f app \<Rightarrow> span list list" where
  "screen_body fm mo now height a =
     (let tools = mo_tools mo (ap_tools a) in
      if ap_current_tab a = 0 then session_rows now (mo_sessions mo (ap_sessions a))
      else if ap_current_tab a = 1 then tool_rows (fm_ops fm) (fm_trunc fm) (fm_show1 fm) tools
      else if ap_current_tab a = 2 then
        collection_rows (fm_ops fm) (fm_show1 fm) (mo_collections mo (ap_kb_collections a))
          @ [cache_line (fm_ops fm) (fm_show2 fm) (ap_cache a)]
      else if ap_current_tab a = 3 then
        [[latency_gauge (fm_ops fm) (fm_trunc fm) tools], [layer_line tools]] @ breakdown_rows tools
      else if ap_current_tab a = 4 then log_lines now height a
      else [])"

definition screen ::
  "'f formats \<Rightarrow> 'f map_orders \<Rightarrow> nat \<Rightarrow> nat \<Rightarrow> 'f app \<Rightarrow> span list list \<times> nat \<times> span list list \<times> span list" where
  "screen fm mo now height a =
     (tab_titles, ap_current_tab a, screen_body fm mo now height a,
      status_bar now (mo_tools mo (ap_tools a)) a)"

subsection \<open>What the screen tells\<close>

text \<open>The keys for scrolling change nothing on the screen: no tab reads the offsets.\<close>

lemma scrolling_shows_nothing:
  "screen fm mo now height (scroll_down a) = screen fm mo now height a"
  "screen fm mo now height (scroll_up a) = screen fm mo now height a"
  by (simp_all add: screen_def screen_body_def status_bar_def log_lines_def app_uptime_def key_effect_defs)

lemma slowest_greatest:
  "case slowest bs of None \<Rightarrow> bs = []
     | Some b \<Rightarrow> b \<in> set bs \<and> (\<forall>x \<in> set bs. lb_total_us x \<le> lb_total_us b)"
proof (induction bs rule: rev_induct)
  case (snoc c bs)
  then show ?case
    by (cases "slowest bs") (auto simp: slowest_def intro: order_trans)
qed (simp add: slowest_def)

text \<open>The gauge of the budget shows the slowest of the last breakdowns of the tools, neither the latest of
  them nor a percentile.\<close>

lemma gauge_shows_slowest:
  assumes "breakdowns tools \<noteq> []"
  obtains b where "slowest (breakdowns tools) = Some b" and "b \<in> set (breakdowns tools)"
    and "\<forall>x \<in> set (breakdowns tools). lb_total_us x \<le> lb_total_us b"
  using slowest_greatest [of "breakdowns tools"] assms that by (auto split: option.splits)

text \<open>The tools are listed with the most called first, each once.\<close>

lemma tool_rows_sorted:
  "\<exists>ts. mset ts = mset tools \<and> sorted_wrt (\<lambda>s t. ts_invocations t \<le> ts_invocations s) ts
     \<and> tool_rows fo trunc show1 tools = map (tool_cells fo trunc show1) ts"
proof (intro exI conjI)
  show "mset (sort_desc (<) ts_invocations tools) = mset tools" by simp
  have "strict_weak ((<) :: nat \<Rightarrow> nat \<Rightarrow> bool)" by (auto simp: strict_weak_def)
  then show "sorted_wrt (\<lambda>s t. ts_invocations t \<le> ts_invocations s) (sort_desc (<) ts_invocations tools)"
    using sort_desc_sorted [of "(<)" ts_invocations tools] by (simp add: not_less)
qed (simp add: tool_rows_def)

end
