(* ===== verification/Bench.thy ===== *)
theory Bench
  imports Latency Retrieval Crawler Ingest Graph_Community
begin

text \<open>
  The benchmark (\<open>apps/oracle-automate-bench/src/main.rs\<close>): crawl and ingest a corpus, run a workload through
  the hybrid search and through the graph, and pass or fail a gate on the 95th percentile. What the clock
  measures is an argument: \<open>clock i\<close> is the time of query \<open>i\<close> in microseconds with the breakdown of its
  answer, \<open>gclock i\<close> that of graph query \<open>i\<close>, \<open>wall\<close> and \<open>gwall\<close> are the nanoseconds of all of them. The
  answers themselves are not looked at. The result is what is printed and how the program ends; \<open>None\<close> is a
  panic.
\<close>

record bench_cli =
  bn_input_dir :: string
  bn_n :: nat
  bn_embedding_dim :: nat
  bn_no_rerank :: bool
  bn_no_contextual_enrichment :: bool
  bn_top_k :: nat
  bn_gate_p95_ms :: nat
  bn_graph :: bool
  bn_graph_gate_p95_ms :: nat

definition default_bench_cli :: bench_cli where
  "default_bench_cli =
     \<lparr>bn_input_dir = ''./docs/sample-help-corpus'', bn_n = 1000, bn_embedding_dim = 256, bn_no_rerank = False,
      bn_no_contextual_enrichment = False, bn_top_k = 5, bn_gate_p95_ms = 80, bn_graph = False,
      bn_graph_gate_p95_ms = 400\<rparr>"

datatype 'e bench_failure =
    Bench_Crawl crawl_error | Bench_Pipeline pipeline_error | Bench_Embed embedding_error
  | Bench_Search 'e | Bench_Gate string

subsection \<open>Workloads\<close>

definition graph_workload_queries :: "string list" where
  "graph_workload_queries =
     [''impact of changing BAPI_ACC_DOCUMENT_POST'', ''where is FAGLFLEXA used'', ''callers of ZFIN_POST_JE'',
      ''downstream from ZIF_FIN_POSTABLE'', ''trace from period_close to LeanIX applications'',
      ''what depends on table T001B'', ''objects that touch goods movement'', ''what does the O2C process call'',
      ''from ZMM_GRN_CHECK to material master'', ''Oracle Fusion Cloud ERP Finance dependencies'']"

definition workload_queries :: "string list" where
  "workload_queries =
     [''period close foreign currency revaluation'', ''open and close posting periods T001B'',
      ''goods movement type 101 receipt'', ''MIGO transaction reverse posting'',
      ''VF01 billing document creation invoice'', ''billing pricing procedure KONP KONV'',
      ''payroll wage type PA0008 PA0014'', ''PC00_M99_CALC payroll cluster B2'',
      ''BAPI_ACC_DOCUMENT_POST journal entry'', ''FAGLFLEXA BSEG reconciliation'',
      ''material master MARA MTART'', ''ATC quality scan OIC/custom-code test cockpit'',
      ''what is the difference between FB60 and FB70'', ''MIGO movement types 122 return delivery'',
      ''general ledger account determination posting'', ''company code customising T001 currency'']"

text \<open>The loop over the queries.\<close>

fun run_queries ::
  "(string list \<Rightarrow> 'f embed_result) \<Rightarrow> (string \<Rightarrow> 'f list option \<Rightarrow> 'e + 'r) \<Rightarrow> nat list
     \<Rightarrow> ('e bench_failure + unit) option" where
  "run_queries emb search [] = Some (Ok ())"
| "run_queries emb search (i # is) =
     (let query = workload_queries ! (i mod length workload_queries) in
      case emb [query] of
        None \<Rightarrow> None
      | Some (Inl e) \<Rightarrow> Some (Err (Bench_Embed e))
      | Some (Inr vs) \<Rightarrow>
          (case search query (case vs of [] \<Rightarrow> None | v # _ \<Rightarrow> Some v) of
             Inl e \<Rightarrow> Some (Err (Bench_Search e))
           | Inr _ \<Rightarrow> run_queries emb search is))"

subsection \<open>Reports\<close>

text \<open>The floats of the report: \<open>bf_secs\<close> are the seconds of a number of nanoseconds, \<open>bf_show d\<close> shows a float
  with \<open>d\<close> digits.\<close>

record 'f bench_floats =
  bf_ops :: "'f float_ops"
  bf_trunc :: "'f \<Rightarrow> nat"
  bf_secs :: "nat \<Rightarrow> 'f"
  bf_show :: "nat \<Rightarrow> 'f \<Rightarrow> string"

definition percentile_us :: "'f bench_floats \<Rightarrow> string \<Rightarrow> nat list \<Rightarrow> nat" where
  "percentile_us bf q samples = percentile_of (rank_at (bf_ops bf) (bf_trunc bf) q) samples"

definition millis :: "'f bench_floats \<Rightarrow> nat \<Rightarrow> 'f" where
  "millis bf us = fl_div (bf_ops bf) (fl_of_nat (bf_ops bf) us) (fl_lit (bf_ops bf) ''1000.0'')"

definition micro_sign :: string where "micro_sign = [CHR 0xC2, CHR 0xB5]"

definition stat_line :: "'f bench_floats \<Rightarrow> string \<Rightarrow> nat \<Rightarrow> nat \<Rightarrow> string" where
  "stat_line bf label w us =
     label @ pad_left w (show_nat us) @ '' '' @ micro_sign @ ''s   ('' @ bf_show bf 3 (millis bf us) @ '' ms)''"

definition rate_line :: "'f bench_floats \<Rightarrow> string \<Rightarrow> nat \<Rightarrow> nat \<Rightarrow> string" where
  "rate_line bf what n wall =
     newline # ''== '' @ what @ '' over '' @ show_nat n @ '' queries ('' @ bf_show bf 2 (bf_secs bf wall)
       @ ''s wall, '' @ bf_show bf 0 (fl_div (bf_ops bf) (fl_of_nat (bf_ops bf) n) (bf_secs bf wall)) @ '' q/s)''"

definition mean_of :: "nat list \<Rightarrow> nat" where
  "mean_of samples = sum_list samples div length samples"

definition layer_mean_line :: "string \<Rightarrow> (latency_breakdown \<Rightarrow> nat) \<Rightarrow> latency_breakdown list \<Rightarrow> string" where
  "layer_mean_line label f layers = label @ pad_left 5 (show_nat (mean_of (map f layers))) @ '' '' @ micro_sign @ ''s''"

text \<open>The division by the number of samples panics when there are none.\<close>

definition latency_report ::
  "'f bench_floats \<Rightarrow> bench_cli \<Rightarrow> (nat \<times> latency_breakdown) list \<Rightarrow> nat \<Rightarrow> string list option" where
  "latency_report bf cli measured wall =
     (let samples = map fst measured; layers = map snd measured;
          p = (\<lambda>q. percentile_us bf q samples)
      in if samples = [] then None
         else Some
           [rate_line bf ''Latency'' (length samples) wall,
            ''  Reranker:    '' @ (if bn_no_rerank cli then ''off'' else ''MockReranker''),
            ''  Enrichment:  '' @ (if bn_no_contextual_enrichment cli then ''off'' else ''on''),
            stat_line bf ''  P50 (median): '' 7 (p ''0.50''), stat_line bf ''  P95:          '' 7 (p ''0.95''),
            stat_line bf ''  P99:          '' 7 (p ''0.99''),
            stat_line bf ''  Max:          '' 7 (last (sort samples)),
            stat_line bf ''  Mean:         '' 7 (mean_of samples),
            newline # ''  Layer breakdown (mean):'',
            layer_mean_line ''    dense  : '' lb_dense_us layers, layer_mean_line ''    sparse : '' lb_sparse_us layers,
            layer_mean_line ''    fusion : '' lb_fusion_us layers, layer_mean_line ''    rerank : '' lb_rerank_us layers])"

definition graph_report :: "'f bench_floats \<Rightarrow> nat list \<Rightarrow> nat \<Rightarrow> string list option" where
  "graph_report bf samples wall =
     (let p = (\<lambda>q. percentile_us bf q samples)
      in if samples = [] then None
         else Some
           [rate_line bf ''Multi-hop latency'' (length samples) wall,
            stat_line bf ''  P50: '' 7 (p ''0.50''), stat_line bf ''  P95: '' 7 (p ''0.95''),
            stat_line bf ''  P99: '' 7 (p ''0.99''), stat_line bf ''  Max: '' 7 (last (sort samples)),
            stat_line bf ''  Mean: '' 5 (mean_of samples)])"

text \<open>\<open>p95_ms <= gate\<close> on floats, none of them a NaN.\<close>

definition gate_passed :: "'f bench_floats \<Rightarrow> nat \<Rightarrow> nat list \<Rightarrow> bool" where
  "gate_passed bf gate samples \<longleftrightarrow>
     \<not> fl_lt (bf_ops bf) (fl_of_nat (bf_ops bf) gate) (millis bf (percentile_us bf ''0.95'' samples))"

definition gate_line :: "'f bench_floats \<Rightarrow> string \<Rightarrow> nat \<Rightarrow> nat list \<Rightarrow> string" where
  "gate_line bf phase gate samples =
     (let p95 = bf_show bf 3 (millis bf (percentile_us bf ''0.95'' samples));
          limit = bf_show bf 0 (fl_of_nat (bf_ops bf) gate)
      in newline #
         (if gate_passed bf gate samples
          then [CHR 0xE2, CHR 0x9C, CHR 0x93] @ '' Phase '' @ phase @ '' ACCEPTANCE GATE PASSED: P95 = '' @ p95
                 @ '' ms '' @ [CHR 0xE2, CHR 0x89, CHR 0xA4] @ '' '' @ limit @ '' ms''
          else [CHR 0xE2, CHR 0x9C, CHR 0x97] @ '' Phase '' @ phase @ '' ACCEPTANCE GATE FAILED: P95 = '' @ p95
                 @ '' ms > '' @ limit @ '' ms''))"

subsection \<open>The program\<close>

definition bench_chunker :: "bench_cli \<Rightarrow> chunker_config" where
  "bench_chunker cli =
     (if bn_no_contextual_enrichment cli then default_chunker\<lparr>cc_contextual_enrichment := False\<rparr>
      else default_chunker)"

definition bench_engine :: "'f float_ops \<Rightarrow> bench_cli \<Rightarrow> 'f rag_engine" where
  "bench_engine fo cli =
     (if bn_no_rerank cli then rag_engine_new fo else with_reranker (mock_rerank fo) (rag_engine_new fo))"

definition bench_search ::
  "'f float_ops \<Rightarrow> ((string \<times> 'f search_hit) list \<Rightarrow> (string \<times> 'f search_hit) list) \<Rightarrow> bench_cli
     \<Rightarrow> 'f chunk list \<Rightarrow> string \<Rightarrow> 'f list option \<Rightarrow> 'e + 'f search_response" where
  "bench_search fo ord cli vals query qv =
     rag_hybrid_search fo ord (\<lambda>sq. Ok (kb_hybrid_search fo vals sq)) (bench_engine fo cli)
       \<lparr>rg_text = query, rg_domain = None, rg_top_k = bn_top_k cli\<rparr> qv"

text \<open>The part over the graph: the gate's line, the shape of the graph, the report and the verdict.\<close>

definition graph_bench ::
  "'f bench_floats \<Rightarrow> bench_cli \<Rightarrow> nat list \<Rightarrow> nat \<Rightarrow> (string list \<times> ('e bench_failure + unit)) option" where
  "graph_bench bf cli gsamples gwall =
     (case engine_new (bf_ops bf) (with_demo_corpus (bf_ops bf)) of
        None \<Rightarrow> None
      | Some ge \<Rightarrow>
          (let gate = bn_graph_gate_p95_ms cli;
               out =
                 [newline # right_arrow @ '' Phase 5A graph bench: HippoRAG multi-hop P95 < '' @ show_nat gate @ '' ms gate'',
                  right_arrow @ '' Graph: '' @ show_nat (gs_node_count (graph_stats_of (ge_graph ge))) @ '' nodes, ''
                    @ show_nat (gs_edge_count (graph_stats_of (ge_graph ge))) @ '' edges, ''
                    @ show_nat (length (cs_communities (ge_communities ge))) @ '' communities'']
           in map_option
                (\<lambda>report. (out @ report @ [gate_line bf ''5A'' gate gsamples],
                   if gate_passed bf gate gsamples then Ok () else Err (Bench_Gate ''graph P95 gate failed'')))
                (graph_report bf gsamples gwall)))"

definition bench_main ::
  "'f bench_floats \<Rightarrow> (string \<Rightarrow> string) \<Rightarrow> (string \<Rightarrow> nat list)
     \<Rightarrow> ((string \<times> 'f search_hit) list \<Rightarrow> (string \<times> 'f search_hit) list) \<Rightarrow> ('f kb \<Rightarrow> 'f chunk list)
     \<Rightarrow> (string \<Rightarrow> crawl_error + parsed_page) \<Rightarrow> (string \<Rightarrow> crawl_node)
     \<Rightarrow> (nat \<Rightarrow> nat \<times> latency_breakdown) \<Rightarrow> nat \<Rightarrow> (nat \<Rightarrow> nat) \<Rightarrow> nat \<Rightarrow> bench_cli
     \<Rightarrow> (string list \<times> ('e bench_failure + unit)) option" where
  "bench_main bf hash sha ord vals parse files clock wall gclock gwall cli =
     (let fo = bf_ops bf; n = bn_n cli; emb = mock_embed fo sha (bn_embedding_dim cli) in
      case crawl_directory hash parse Oracle_Help (files (bn_input_dir cli)) of
        Inl e \<Rightarrow> Some ([], Err (Bench_Crawl e))
      | Inr docs \<Rightarrow>
          (let out = [right_arrow @ '' Ingesting '' @ show_nat (length docs) @ '' document(s) from '' @ bn_input_dir cli] in
           case ingest emb (kb_upsert_op hash) (with_chunker (bench_chunker cli) pipeline_new) docs kb_new of
             None \<Rightarrow> None
           | Some (Inl e, k) \<Rightarrow> Some (out, Err (Bench_Pipeline e))
           | Some (Inr report, k) \<Rightarrow>
               (let out = out @
                  [right_arrow @ '' '' @ show_nat (ir_documents report) @ '' document(s), ''
                     @ show_nat (ir_chunks report) @ '' chunk(s) indexed'',
                   newline # right_arrow @ '' Running '' @ show_nat n @ '' queries ...'']
                in case run_queries emb (bench_search fo ord cli (vals k)) [0..<n] of
                     None \<Rightarrow> None
                   | Some (Inl e) \<Rightarrow> Some (out, Err e)
                   | Some (Inr _) \<Rightarrow>
                       (let measured = map clock [0..<n]; samples = map fst measured in
                        case latency_report bf cli measured wall of
                          None \<Rightarrow> None
                        | Some report \<Rightarrow>
                            (let out = out @ report @ [gate_line bf ''3'' (bn_gate_p95_ms cli) samples] in
                             if \<not> gate_passed bf (bn_gate_p95_ms cli) samples
                             then Some (out, Err (Bench_Gate ''P95 gate failed''))
                             else if bn_graph cli
                             then map_option (\<lambda>(gout, res). (out @ gout, res))
                                    (graph_bench bf cli (map gclock [0..<n]) gwall)
                             else Some (out, Ok ()))))))"

subsection \<open>What the gate decides\<close>

text \<open>Arithmetic that is exact where the gate looks: at the rank of the percentile and at the comparison.\<close>

definition exact :: "'f bench_floats \<Rightarrow> bool" where
  "exact bf \<longleftrightarrow> (\<forall>n. rank_at (bf_ops bf) (bf_trunc bf) ''0.95'' n = 95 * n div 100)
     \<and> (\<forall>gate us. fl_lt (bf_ops bf) (fl_of_nat (bf_ops bf) gate) (millis bf us) \<longleftrightarrow> 1000 * gate < us)"

lemma gate_passed_iff:
  assumes "exact bf" and "samples \<noteq> []"
  shows "gate_passed bf gate samples
    \<longleftrightarrow> 95 * length samples < 100 * length (filter (\<lambda>us. us \<le> 1000 * gate) samples)"
proof -
  let ?r = "95 * length samples div 100"
  have "0 < length samples" using assms(2) by simp
  then have r: "?r \<le> length samples - 1" by linarith
  have "gate_passed bf gate samples \<longleftrightarrow> percentile_us bf ''0.95'' samples \<le> 1000 * gate"
    using assms(1) by (simp add: gate_passed_def exact_def not_less)
  also have "\<dots> \<longleftrightarrow> ?r < length (filter (\<lambda>us. us \<le> 1000 * gate) samples)"
    unfolding percentile_us_def
    by (rule percentile_of_le_iff [OF assms(2)]) (use assms(1) r in \<open>simp add: exact_def\<close>)
  also have "\<dots> \<longleftrightarrow> 95 * length samples < 100 * length (filter (\<lambda>us. us \<le> 1000 * gate) samples)"
    by linarith
  finally show ?thesis .
qed

lemma bench_chunks_total: "\<exists>cs. chunk_document doc (bench_chunker cli) = Some cs"
  using split_text_total [of 1600 "trim (dc_body doc)" 200]
  by (auto simp: chunk_document_def bench_chunker_def default_chunker_def Let_def)

lemma bench_ingest_total:
  assumes "0 < pc_batch_size cfg" and "pc_chunker cfg = bench_chunker cli"
  shows "\<exists>r' k'. ingest_from (mock_embed (fo :: 'f float_ops) sha (Suc d)) (kb_upsert_op hash) cfg r docs k = Some (Ok r', k')"
proof (induction docs arbitrary: r k)
  case (Cons doc docs)
  obtain cs :: "'f chunk list" where cs: "chunk_document doc (bench_chunker cli) = Some cs"
    using bench_chunks_total by blast
  obtain es where es: "embed_batches (mock_embed fo sha (Suc d)) (chunks_of (pc_batch_size cfg) cs) = Some (Ok es)"
    using embed_batches_mock_ok by blast
  show ?case
    using Cons.IH cs es assms by (simp add: kb_upsert_op_def Let_def)
qed simp

lemma bench_queries_total:
  "run_queries (mock_embed fo sha (Suc d)) (bench_search fo ord cli vals) is = Some (Ok ())"
proof (induction "is")
  case (Cons i "is")
  obtain vs where "mock_embed fo sha (Suc d) [workload_queries ! (i mod length workload_queries)] = Some (Ok vs)"
    using mock_client.embed_returns mock_embed_ok by (metis option.exhaust sum.exhaust)
  with Cons.IH show ?case
    by (simp add: bench_search_def rag_hybrid_search_def Let_def split: prod.split)
qed simp

lemma demo_graph_ok: "graph_ok (with_demo_corpus fo)"
proof -
  have "graph_ok (foldl (\<lambda>g e. add_entity e g) g es)" if "graph_ok g" for g :: "'a graph" and es
    using that by (induction es arbitrary: g) (simp_all add: graph_ok_entity)
  moreover have "graph_ok (snd (foldl (\<lambda>st e. add_unseen e st) st es))" if "graph_ok (snd st)"
    for st :: "(string \<times> string \<times> edge_kind) list \<times> 'a graph" and es
    using that by (induction es arbitrary: st) (auto simp: add_unseen_def graph_ok_edge Let_def split: prod.split)
  ultimately show ?thesis
    by (simp add: with_demo_corpus_def seed_def graph_ok_new)
qed

lemma demo_engine: "\<exists>ge. engine_new fo (with_demo_corpus fo) = Some ge"
proof -
  have "closed_graph (with_demo_corpus fo)"
    using demo_corpus_closed [of fo] by (simp add: closed_graph_def)
  then obtain cs where "detect_communities fo (with_demo_corpus fo) = Some cs"
    using detect_unweighted [OF demo_graph_ok [of fo], of fo] detect_weighted [OF demo_graph_ok [of fo], of fo] by blast
  then show ?thesis by (simp add: engine_new_def)
qed


text \<open>The arithmetic of the reals is exact, and a benchmark of one slow query fails there.\<close>

definition real_bench :: "real bench_floats" where
  "real_bench =
     \<lparr>bf_ops = real_ops (\<lambda>s. if s = ''0.95'' then 19 / 20 else if s = ''1000.0'' then 1000 else 0),
      bf_trunc = (\<lambda>x. nat \<lfloor>x\<rfloor>), bf_secs = (\<lambda>n. real n / 10 ^ 9), bf_show = (\<lambda>d x. [])\<rparr>"

lemma exact_real: "exact real_bench"
proof -
  have "nat \<lfloor>real n * (19 / 20)\<rfloor> = 95 * n div 100" for n
  proof -
    have "real n * (19 / 20) = real (95 * n) / real 100" by simp
    then have "\<lfloor>real n * (19 / 20)\<rfloor> = int (95 * n div 100)"
      by (simp only: floor_divide_of_nat_eq)
    then show ?thesis by simp
  qed
  moreover have "real gate < real us / 1000 \<longleftrightarrow> 1000 * gate < us" for gate us :: nat
  proof -
    have "real gate < real us / 1000 \<longleftrightarrow> real (1000 * gate) < real us" by (simp add: field_simps)
    then show ?thesis by (simp only: of_nat_less_iff)
  qed
  ultimately show ?thesis
    by (simp add: exact_def real_bench_def rank_at_def millis_def) (simp add: real_ops_def)
qed

definition no_layers :: latency_breakdown where
  "no_layers = \<lparr>lb_dense_us = 0, lb_sparse_us = 0, lb_fusion_us = 0, lb_rerank_us = 0, lb_total_us = 0\<rparr>"


text \<open>Without queries the report divides by zero.\<close>

lemma bench_without_queries_panics:
  assumes "bn_n cli = 0" and "0 < bn_embedding_dim cli"
    and "crawl_directory hash parse Oracle_Help (files (bn_input_dir cli)) = Ok docs"
  shows "bench_main bf hash sha ord vals parse files clock wall gclock gwall cli
    = (None :: (string list \<times> ('e bench_failure + unit)) option)"
proof -
  obtain d where d: "bn_embedding_dim cli = Suc d" using assms(2) by (cases "bn_embedding_dim cli") auto
  obtain r k where "ingest (mock_embed (bf_ops bf) sha (Suc d)) (kb_upsert_op hash)
      (with_chunker (bench_chunker cli) pipeline_new) docs kb_new = Some (Ok r, k)"
    using bench_ingest_total [where cfg = "with_chunker (bench_chunker cli) pipeline_new" and cli = cli
        and fo = "bf_ops bf" and sha = sha and d = d and hash = hash and docs = docs and k = kb_new
        and r = "\<lparr>ir_documents = 0, ir_chunks = 0\<rparr>"]
    by (auto simp: ingest_def with_chunker_def pipeline_new_def)
  then show ?thesis
    using assms(1,3) by (simp add: bench_main_def Let_def d latency_report_def)
qed

end
