(* ===== verification/Sample_Server.thy ===== *)
theory Sample_Server
  imports Mcp_Client Server_Surface
begin

text \<open>
  The sample server (\<open>apps/sample-server/src/main.rs\<close>): two tools on the framework, and what a client that
  talks to it over the wire gets. How \<open>serde\<close> reads an \<open>f64\<close> is the parameter \<open>read_f64\<close>, addition is
  \<open>add\<close>, the display of a sum is \<open>show_f64\<close>, and \<open>serde_text\<close> is the message of an argument error.
\<close>

definition dec_echo_args :: "json \<Rightarrow> string option" where
  "dec_echo_args v =
     (if struct_like 1 v then Option.bind (struct_field v 0 ''text'') as_str else None)"

definition echo_handler :: "(json \<Rightarrow> string) \<Rightarrow> 's tool_handler" where
  "echo_handler serde_text v s =
     (case dec_echo_args v of
        None \<Rightarrow> (Ok (tool_error (''invalid arguments: '' @ serde_text v)), s)
      | Some tx \<Rightarrow> (Ok (tool_text tx), s))"

definition echo_tool :: "(json \<Rightarrow> string) \<Rightarrow> 's tool_descriptor" where
  "echo_tool serde_text =
     tool_descriptor_new ''echo'' (Some ''Echo text back'')
       (schema_from_value (json_obj
          [(''type'', JStr ''object''),
           (''properties'', json_obj [(''text'', json_obj [(''type'', JStr ''string'')])]),
           (''required'', JArr [JStr ''text''])]))
       (echo_handler serde_text)"

definition dec_add_args :: "(json \<Rightarrow> 'f option) \<Rightarrow> json \<Rightarrow> ('f \<times> 'f) option" where
  "dec_add_args read_f64 v =
     (if struct_like 2 v then
        Option.bind (Option.bind (struct_field v 0 ''a'') read_f64) (\<lambda>a.
        Option.bind (Option.bind (struct_field v 1 ''b'') read_f64) (\<lambda>b. Some (a, b)))
      else None)"

definition add_handler ::
  "(json \<Rightarrow> 'f option) \<Rightarrow> ('f \<Rightarrow> 'f \<Rightarrow> 'f) \<Rightarrow> ('f \<Rightarrow> string) \<Rightarrow> (json \<Rightarrow> string) \<Rightarrow> 's tool_handler" where
  "add_handler read_f64 add show_f64 serde_text v s =
     (case dec_add_args read_f64 v of
        None \<Rightarrow> (Ok (tool_error (''invalid arguments: '' @ serde_text v)), s)
      | Some (a, b) \<Rightarrow> (Ok (tool_text (show_f64 (add a b))), s))"

definition add_numbers_tool ::
  "(json \<Rightarrow> 'f option) \<Rightarrow> ('f \<Rightarrow> 'f \<Rightarrow> 'f) \<Rightarrow> ('f \<Rightarrow> string) \<Rightarrow> (json \<Rightarrow> string) \<Rightarrow> 's tool_descriptor" where
  "add_numbers_tool read_f64 add show_f64 serde_text =
     tool_descriptor_new ''add'' (Some ''Add two numbers'')
       (schema_from_value (json_obj
          [(''type'', JStr ''object''),
           (''properties'', json_obj
              [(''a'', json_obj [(''type'', JStr ''number'')]), (''b'', json_obj [(''type'', JStr ''number'')])]),
           (''required'', JArr [JStr ''a'', JStr ''b''])]))
       (add_handler read_f64 add show_f64 serde_text)"

definition sample_server ::
  "(json \<Rightarrow> 'f option) \<Rightarrow> ('f \<Rightarrow> 'f \<Rightarrow> 'f) \<Rightarrow> ('f \<Rightarrow> string) \<Rightarrow> (json \<Rightarrow> string) \<Rightarrow> (json \<Rightarrow> string) \<Rightarrow> 's server" where
  "sample_server read_f64 add show_f64 echo_text add_text =
     build
       (add_tool (add_numbers_tool read_f64 add show_f64 add_text)
         (add_tool (echo_tool echo_text)
           (set_instructions ''Sample server with two demonstration tools: echo and add.''
             (builder_new ''sample-server'' CARGO_PKG_VERSION))))"

subsection \<open>What a client gets\<close>

lemma sample_server_tools:
  "sx_tools (sample_server read_f64 add show_f64 echo_text add_text)
    = [(''echo'', echo_tool echo_text), (''add'', add_numbers_tool read_f64 add show_f64 add_text)]"
  by (simp add: sample_server_def build_def add_tool_def set_instructions_def builder_new_def echo_tool_def
      add_numbers_tool_def tool_descriptor_new_def is_allowed_by_def)

text \<open>Over the wire the echo tool gives back any text and the other adds; arguments that cannot be read are an
  error result with the message of the reader, and any other tool is a protocol error.\<close>

lemma sample_server_answers:
  assumes "a \<noteq> Some JNull"
  shows "fst (call_tool tc (server_link env tx) name a cl (sample_server read_f64 add show_f64 echo_text add_text, s))
    = (let v = unwrap_or a (JObj []) in
       if name = ''echo'' then
         Ok (case dec_echo_args v of Some t \<Rightarrow> tool_text t | None \<Rightarrow> tool_error (''invalid arguments: '' @ echo_text v))
       else if name = ''add'' then
         Ok (case dec_add_args read_f64 v of
               Some (x, y) \<Rightarrow> tool_text (show_f64 (add x y))
             | None \<Rightarrow> tool_error (''invalid arguments: '' @ add_text v))
       else Err (McpProtocol (- 32202) (''unknown tool '' @ quoted name)))"
proof -
  have "null_as_none a = a"
    using assms by (cases a) (auto simp: null_as_none_Some)
  then show ?thesis
    by (simp add: call_tool_over_server sample_server_tools echo_tool_def add_numbers_tool_def
        tool_descriptor_new_def echo_handler_def add_handler_def Let_def split: option.split prod.split)
qed

end
