(* ===== verification/Sample_Client.thy ===== *)
theory Sample_Client
  imports Sample_Server Workflow_Tools
begin

text \<open>
  The sample client (\<open>apps/sample-client/src/main.rs\<close>): call specifications, the ways to answer an
  elicitation, and a run against a server over a link. Parameters: \<open>json_text\<close> reads JSON text or says why
  not, \<open>disp\<close> displays a value, \<open>parse_f64\<close> is the JSON number of a text that is a float, and \<open>show_content\<close>
  is the debug form of content that is not text. A terminal is the lines that will be read from it and the
  lines written to its error stream. The server is spawned from outside: \<open>spawn\<close> says whether it could be.
\<close>

record client_cli =
  sc_server :: string
  sc_server_args :: "string list"
  sc_call :: "string option"
  sc_then :: "string option"
  sc_list :: bool
  sc_read_resource :: "string option"
  sc_get_prompt :: "string option"
  sc_elicit :: string

definition default_client_cli :: client_cli where
  "default_client_cli =
     \<lparr>sc_server = ''target/debug/oracle-automate-server'', sc_server_args = [], sc_call = None, sc_then = None,
      sc_list = False, sc_read_resource = None, sc_get_prompt = None, sc_elicit = ''decline''\<rparr>"

datatype sample_failure = Sample_Text string | Sample_Mcp mcp_error

subsection \<open>Call specifications\<close>

text \<open>The pairs of the form \<open>k=v,k=v\<close>: a value that is not JSON is taken as a string.\<close>

definition spec_value :: "(string \<Rightarrow> string + json) \<Rightarrow> string \<Rightarrow> json" where
  "spec_value json_text v = (case json_text v of Inr j \<Rightarrow> j | Inl _ \<Rightarrow> JStr v)"

fun spec_pairs :: "(string \<Rightarrow> string + json) \<Rightarrow> string list \<Rightarrow> json_map \<Rightarrow> string + json_map" where
  "spec_pairs json_text [] obj = Ok obj"
| "spec_pairs json_text (pair # pairs) obj =
     (case split_once (CHR ''='') pair of
        None \<Rightarrow> Err (''invalid pair '' @ [CHR 0x27] @ pair @ [CHR 0x27] @ ''; expected key=value or use JSON form'')
      | Some (k, v) \<Rightarrow> spec_pairs json_text pairs (obj_insert k (spec_value json_text v) obj))"

definition parse_call_spec :: "(string \<Rightarrow> string + json) \<Rightarrow> string \<Rightarrow> string + (string \<times> json)" where
  "parse_call_spec json_text spec =
     (let (name, rest) = unwrap_or (split_once (CHR ''='') spec) (spec, []) in
      if rest = [] then Ok (name, JObj [])
      else
        (let trimmed = trim rest in
         if starts_with trimmed ''{'' then
           (case json_text trimmed of
              Inl e \<Rightarrow> Err (''invalid JSON for tool '' @ [CHR 0x27] @ name @ [CHR 0x27] @ '': '' @ e)
            | Inr v \<Rightarrow> Ok (name, v))
         else map_sum id (\<lambda>obj. (name, JObj obj)) (spec_pairs json_text (split_char (CHR '','') rest) [])))"

subsection \<open>Elicitation\<close>

record terminal =
  tm_stdin :: "(string + string) list"
  tm_stderr :: "string list"

definition eprint :: "string list \<Rightarrow> terminal \<Rightarrow> terminal" where
  "eprint lines t = t\<lparr>tm_stderr := tm_stderr t @ lines\<rparr>"

text \<open>\<open>read_line\<close>: past the end it gives an empty line, and it may fail.\<close>

definition read_stdin :: "terminal \<Rightarrow> (string + string) \<times> terminal" where
  "read_stdin t =
     (case tm_stdin t of [] \<Rightarrow> (Ok [], t) | l # ls \<Rightarrow> (l, t\<lparr>tm_stdin := ls\<rparr>))"

definition field_type :: "json \<Rightarrow> string" where
  "field_type spec = unwrap_or (get_str spec ''type'') ''string''"

definition default_value :: "json \<Rightarrow> json" where
  "default_value spec =
     (case jget spec ''default'' of
        Some d \<Rightarrow> d
      | None \<Rightarrow>
          (let typ = field_type spec in
           if typ = ''number'' \<or> typ = ''integer'' then JNat 0
           else if typ = ''boolean'' then JBool False
           else if typ = ''array'' then JArr []
           else if typ = ''object'' then JObj []
           else JStr []))"

definition schema_properties :: "json \<Rightarrow> json_map option" where
  "schema_properties schema = Option.bind (jget schema ''properties'') as_object"

definition synthesise_defaults :: "json \<Rightarrow> json" where
  "synthesise_defaults schema =
     (case schema_properties schema of
        None \<Rightarrow> JObj []
      | Some props \<Rightarrow> JObj (foldl (\<lambda>out (name, spec). obj_insert name (default_value spec) out) [] props))"

definition accept_defaults :: "(json \<Rightarrow> string) \<Rightarrow> terminal delegate" where
  "accept_defaults disp p t =
     (let content = synthesise_defaults (el_schema p)
      in (\<lparr>ei_action = Act_Accept, ei_content = Some content\<rparr>,
          eprint [''[elicit:accept] '' @ el_message p, ''[elicit:accept] -> '' @ disp content] t))"

definition seeded_delegate :: "(json \<Rightarrow> string) \<Rightarrow> json \<Rightarrow> terminal delegate" where
  "seeded_delegate disp content p t =
     (\<lparr>ei_action = Act_Accept, ei_content = Some content\<rparr>,
      eprint [''[elicit:seed] '' @ el_message p, ''[elicit:seed] -> '' @ disp content] t)"

definition required_fields :: "json \<Rightarrow> string list" where
  "required_fields schema =
     unwrap_or (map_option (List.map_filter as_str) (Option.bind (jget schema ''required'') as_array)) []"

definition field_prompt :: "(json \<Rightarrow> string) \<Rightarrow> bool \<Rightarrow> string \<Rightarrow> json \<Rightarrow> string" where
  "field_prompt disp req name spec =
     ''  '' @ name @ '' ('' @ field_type spec @ (if req then '', required'' else [])
       @ (case jget spec ''default'' of Some d \<Rightarrow> '', default '' @ disp d | None \<Rightarrow> [])
       @ (case Option.bind (jget spec ''enum'') as_array of Some e \<Rightarrow> '', enum '' @ disp (JArr e) | None \<Rightarrow> [])
       @ '') '' @ unwrap_or (get_str spec ''description'') []
       @ (case jget spec ''default'' of Some d \<Rightarrow> '' ['' @ disp d @ '']'' | None \<Rightarrow> []) @ '': ''"

text \<open>What a line typed for a field stands for; nothing for an empty line without a default.\<close>

definition typed_value :: "(string \<Rightarrow> json option) \<Rightarrow> json \<Rightarrow> string \<Rightarrow> json option" where
  "typed_value parse_f64 spec line =
     (let trimmed = trim line; typ = field_type spec in
      if trimmed = [] then jget spec ''default''
      else if typ = ''number'' \<or> typ = ''integer'' then
        Some (case parse_f64 trimmed of Some n \<Rightarrow> n | None \<Rightarrow> JStr trimmed)
      else if typ = ''boolean'' then
        Some (JBool (to_lowercase trimmed \<in> {''true'', ''y'', ''yes'', ''1''}))
      else Some (JStr trimmed))"

fun ask_fields ::
  "(json \<Rightarrow> string) \<Rightarrow> (string \<Rightarrow> json option) \<Rightarrow> string list \<Rightarrow> json_map \<Rightarrow> json_map \<Rightarrow> terminal
     \<Rightarrow> json_map \<times> terminal" where
  "ask_fields disp parse_f64 req [] out t = (out, t)"
| "ask_fields disp parse_f64 req ((name, spec) # props) out t =
     (case read_stdin (eprint [field_prompt disp (name \<in> set req) name spec] t) of
        (Inl e, t') \<Rightarrow> (out, t')
      | (Inr line, t') \<Rightarrow>
          ask_fields disp parse_f64 req props
            (case typed_value parse_f64 spec line of Some v \<Rightarrow> obj_insert name v out | None \<Rightarrow> out) t')"

definition stdin_delegate :: "(json \<Rightarrow> string) \<Rightarrow> (string \<Rightarrow> json option) \<Rightarrow> terminal delegate" where
  "stdin_delegate disp parse_f64 p t =
     (let t1 = eprint [newline # ''=== elicitation ==='', el_message p] t;
          (out, t2) = ask_fields disp parse_f64 (required_fields (el_schema p))
                        (unwrap_or (schema_properties (el_schema p)) []) [] t1
      in (\<lparr>ei_action = Act_Accept, ei_content = Some (JObj out)\<rparr>,
          eprint [''=== submitting ==='' @ [newline]] t2))"

definition build_delegate ::
  "(string \<Rightarrow> string + json) \<Rightarrow> (json \<Rightarrow> string) \<Rightarrow> (string \<Rightarrow> json option) \<Rightarrow> string
     \<Rightarrow> string + terminal delegate" where
  "build_delegate json_text disp parse_f64 spec =
     (if spec = ''decline'' then Ok decline_all
      else if spec = ''accept'' then Ok (accept_defaults disp)
      else if spec = ''stdin'' then Ok (stdin_delegate disp parse_f64)
      else
        (case strip_prefix spec ''seed:'' of
           Some j \<Rightarrow>
             (case json_text j of
                Inl e \<Rightarrow> Err (''--elicit seed must be JSON: '' @ e)
              | Inr v \<Rightarrow> Ok (seeded_delegate disp v))
         | None \<Rightarrow> Err ''--elicit expected one of: decline | accept | stdin | seed:<json>''))"

subsection \<open>A run\<close>

text \<open>A part of a run prints lines and may end it with a failure; \<open>and_step\<close> runs one part after another.\<close>

type_synonym 'w sample_step =
  "mcp_client \<times> 'w \<Rightarrow> string list \<times> (sample_failure + unit) \<times> mcp_client \<times> 'w"

definition skip_step :: "'w sample_step" where "skip_step st = ([], Ok (), st)"

definition and_step :: "'w sample_step \<Rightarrow> 'w sample_step \<Rightarrow> 'w sample_step" where
  "and_step p q st =
     (case p st of
        (out, Inl e, st') \<Rightarrow> (out, Err e, st')
      | (out, Inr _, st') \<Rightarrow> (case q st' of (out', res) \<Rightarrow> (out @ out', res)))"

text \<open>A call: the lines before it, and those of its answer.\<close>

definition on_call ::
  "string list \<Rightarrow> (mcp_client \<Rightarrow> 'w \<Rightarrow> 'r mcp_result \<times> mcp_client \<times> 'w) \<Rightarrow> ('r \<Rightarrow> string list)
     \<Rightarrow> 'w sample_step" where
  "on_call before call lines = (\<lambda>(cl, w).
     case call cl w of
       (Inl e, st) \<Rightarrow> (before, Err (Sample_Mcp e), st)
     | (Inr r, st) \<Rightarrow> (before @ lines r, Ok (), st))"

definition connect_lines :: "initialize_result \<Rightarrow> string list" where
  "connect_lines r =
     (''== Connected to '' @ ip_name (ir_server_info r) @ '' v'' @ ip_version (ir_server_info r)
        @ '' (protocol '' @ ir_protocol_version r @ '')'')
     # (case ir_instructions r of Some i \<Rightarrow> [''Server: '' @ i @ [newline]] | None \<Rightarrow> [])"

definition tool_line :: "mcp_tool \<Rightarrow> string" where
  "tool_line t = ''  - '' @ tl_name t
     @ (case tl_description t of Some d \<Rightarrow> '' '' @ em_dash @ '' '' @ d | None \<Rightarrow> [])"

definition tools_lines :: "mcp_tool list \<times> string option \<Rightarrow> string list" where
  "tools_lines = (\<lambda>(ts, _). (''== Tools ('' @ show_nat (length ts) @ '')'') # map tool_line ts @ [[]])"

definition resources_lines :: "mcp_resource list \<times> string option \<Rightarrow> string list" where
  "resources_lines = (\<lambda>(rs, _). (''== Resources ('' @ show_nat (length rs) @ '')'')
     # map (\<lambda>r. ''  - '' @ re_uri r @ '' ('' @ re_name r @ '')'') rs @ [[]])"

definition prompts_lines :: "mcp_prompt list \<times> string option \<Rightarrow> string list" where
  "prompts_lines = (\<lambda>(ps, _). (''== Prompts ('' @ show_nat (length ps) @ '')'')
     # map (\<lambda>p. ''  - '' @ pr_name p @ '' '' @ em_dash @ '' '' @ unwrap_or (pr_description p) []) ps @ [[]])"

definition list_step :: "(json \<Rightarrow> string) \<Rightarrow> 'w link \<Rightarrow> 'w sample_step" where
  "list_step serde_text link =
     and_step (on_call [] (list_resources serde_text link) resources_lines)
       (on_call [] (list_prompts serde_text link) prompts_lines)"

definition read_step :: "(json \<Rightarrow> string) \<Rightarrow> 'w link \<Rightarrow> string \<Rightarrow> 'w sample_step" where
  "read_step serde_text link uri =
     on_call [''== Reading resource '' @ uri] (read_resource serde_text link uri)
       (\<lambda>cs. List.map_filter rc_text cs @ [[]])"

definition prompt_text :: "prompt_message \<Rightarrow> string option" where
  "prompt_text m = (case pm_content m of Text_Content tx \<Rightarrow> Some (newline # tx) | _ \<Rightarrow> None)"

definition prompt_step ::
  "(string \<Rightarrow> string + json) \<Rightarrow> (json \<Rightarrow> string) \<Rightarrow> 'w link \<Rightarrow> string \<Rightarrow> 'w sample_step" where
  "prompt_step json_text serde_text link spec st =
     (case parse_call_spec json_text spec of
        Inl e \<Rightarrow> ([], Err (Sample_Text e), st)
      | Inr (name, args) \<Rightarrow>
          on_call [''== Prompt '' @ name]
            (get_prompt serde_text link name (if args = JObj [] then None else Some args))
            (\<lambda>r. (case gr_description r of Some d \<Rightarrow> [''Description: '' @ d] | None \<Rightarrow> [])
                 @ List.map_filter prompt_text (gr_messages r) @ [[]]) st)"

definition content_line :: "(tool_content \<Rightarrow> string) \<Rightarrow> tool_content \<Rightarrow> string" where
  "content_line show_content c =
     (case c of Text_Content tx \<Rightarrow> tx | _ \<Rightarrow> ''<non-text content: '' @ show_content c @ ''>'')"

definition invoke_step ::
  "(string \<Rightarrow> string + json) \<Rightarrow> (json \<Rightarrow> string) \<Rightarrow> (tool_content \<Rightarrow> string) \<Rightarrow> (json \<Rightarrow> string) \<Rightarrow> 'w link
     \<Rightarrow> string \<Rightarrow> 'w sample_step" where
  "invoke_step json_text disp show_content serde_text link spec st =
     (case parse_call_spec json_text spec of
        Inl e \<Rightarrow> ([], Err (Sample_Text e), st)
      | Inr (name, args) \<Rightarrow>
          on_call [''== Calling '' @ name @ '' with '' @ disp args] (call_tool serde_text link name (Some args))
            (\<lambda>r. map (content_line show_content) (ct_content r)
                 @ (if ct_is_error r then [''(tool reported error)''] else []) @ [[]]) st)"

definition client_capabilities_of :: "client_cli \<Rightarrow> client_capabilities" where
  "client_capabilities_of cli =
     (if sc_elicit cli = ''decline'' then no_client_capabilities else with_elicitation no_client_capabilities)"

definition option_step :: "('a \<Rightarrow> 'w sample_step) \<Rightarrow> 'a option \<Rightarrow> 'w sample_step" where
  "option_step p x = (case x of Some a \<Rightarrow> p a | None \<Rightarrow> skip_step)"

definition client_steps ::
  "(string \<Rightarrow> string + json) \<Rightarrow> (json \<Rightarrow> string) \<Rightarrow> (tool_content \<Rightarrow> string) \<Rightarrow> (json \<Rightarrow> string) \<Rightarrow> 'w link
     \<Rightarrow> 'w outbox \<Rightarrow> client_cli \<Rightarrow> 'w sample_step list" where
  "client_steps json_text disp show_content serde_text link ob cli =
     [on_call [] (client_initialize serde_text link ob
          \<lparr>ip_name = ''sample-client'', ip_version = CARGO_PKG_VERSION\<rparr> (client_capabilities_of cli)) connect_lines,
      on_call [] (list_tools serde_text link) tools_lines,
      (if sc_list cli then list_step serde_text link else skip_step),
      option_step (read_step serde_text link) (sc_read_resource cli),
      option_step (prompt_step json_text serde_text link) (sc_get_prompt cli),
      option_step (invoke_step json_text disp show_content serde_text link) (sc_call cli),
      option_step (invoke_step json_text disp show_content serde_text link) (sc_then cli)]"

text \<open>The whole run. The link is the one with the delegate that was built.\<close>

definition client_main ::
  "(string \<Rightarrow> string + json) \<Rightarrow> (json \<Rightarrow> string) \<Rightarrow> (string \<Rightarrow> json option) \<Rightarrow> (tool_content \<Rightarrow> string)
     \<Rightarrow> (json \<Rightarrow> string) \<Rightarrow> (string \<Rightarrow> string list \<Rightarrow> string + unit) \<Rightarrow> (terminal delegate \<Rightarrow> 'w link)
     \<Rightarrow> 'w outbox \<Rightarrow> client_cli \<Rightarrow> 'w \<Rightarrow> string list \<times> (sample_failure + unit) \<times> 'w" where
  "client_main json_text disp parse_f64 show_content serde_text spawn link ob cli w =
     (case spawn (sc_server cli) (sc_server_args cli) of
        Inl e \<Rightarrow>
          ([], Err (Sample_Text (''failed to spawn '' @ [CHR 0x27] @ sc_server cli @ [CHR 0x27] @ '': '' @ e)), w)
      | Inr _ \<Rightarrow>
          (case build_delegate json_text disp parse_f64 (sc_elicit cli) of
             Inl e \<Rightarrow> ([], Err (Sample_Text e), w)
           | Inr d \<Rightarrow>
               (case foldr and_step (client_steps json_text disp show_content serde_text (link d) ob cli) skip_step
                       (client_new, w) of
                  (out, res, _, w') \<Rightarrow> (out, res, w'))))"

subsection \<open>What a specification stands for\<close>

definition print_pairs :: "(string \<times> string) list \<Rightarrow> string" where
  "print_pairs kvs = join '','' (map (\<lambda>(k, v). k @ ''='' @ v) kvs)"

text \<open>A name and a value without the separators they would be split at.\<close>

definition plain_pair :: "string \<times> string \<Rightarrow> bool" where
  "plain_pair = (\<lambda>(k, v). CHR ''='' \<notin> set k \<and> CHR '','' \<notin> set k \<and> CHR '','' \<notin> set v)"

lemma spec_pairs_print:
  "list_all plain_pair kvs \<Longrightarrow>
     spec_pairs json_text (map (\<lambda>(k, v). k @ ''='' @ v) kvs) m
       = Ok (foldl (\<lambda>m (k, v). obj_insert k (spec_value json_text v) m) m kvs)"
  by (induction kvs arbitrary: m) (auto simp: plain_pair_def split_once_append)

text \<open>The three forms of a specification are read as what they say.\<close>

lemma call_spec_roundtrip:
  assumes "CHR ''='' \<notin> set name"
  shows "parse_call_spec json_text name = Ok (name, JObj [])"
    and "starts_with (trim tx) ''{'' \<Longrightarrow> json_text (trim tx) = Ok v
      \<Longrightarrow> parse_call_spec json_text (name @ ''='' @ tx) = Ok (name, v)"
    and "kvs \<noteq> [] \<Longrightarrow> list_all plain_pair kvs \<Longrightarrow> \<not> starts_with (trim (print_pairs kvs)) ''{''
      \<Longrightarrow> parse_call_spec json_text (name @ ''='' @ print_pairs kvs)
        = Ok (name, json_obj (map (\<lambda>(k, v). (k, spec_value json_text v)) kvs))"
proof -
  show "parse_call_spec json_text name = Ok (name, JObj [])"
    using assms by (simp add: parse_call_spec_def split_once_def find_char_free)
next
  assume tx: "starts_with (trim tx) ''{''" "json_text (trim tx) = Ok v"
  then have "tx \<noteq> []" by (auto simp: trim_def trim_start_def trim_end_def)
  with tx show "parse_call_spec json_text (name @ ''='' @ tx) = Ok (name, v)"
    using split_once_append [OF assms, of tx] by (simp add: parse_call_spec_def)
next
  assume kvs: "kvs \<noteq> []" "list_all plain_pair kvs" "\<not> starts_with (trim (print_pairs kvs)) ''{''"
  have free: "list_all (\<lambda>w. CHR '','' \<notin> set w) (map (\<lambda>(k, v). k @ ''='' @ v) kvs)"
    using kvs(2) by (auto simp: list_all_iff plain_pair_def)
  have pieces: "split_char (CHR '','') (print_pairs kvs) = map (\<lambda>(k, v). k @ ''='' @ v) kvs"
    unfolding print_pairs_def by (rule split_char_join [OF _ free]) (simp add: kvs(1))
  then have ne: "print_pairs kvs \<noteq> []"
    using kvs(1) by (cases kvs) (auto simp: print_pairs_def)
  have "foldl (\<lambda>m (k, v). obj_insert k (f v) m) m kvs
      = foldl (\<lambda>m kv. obj_insert (fst kv) (snd kv) m) m (map (\<lambda>(k, v). (k, f v)) kvs)" for f :: "string \<Rightarrow> json" and m
    by (induction kvs arbitrary: m) auto
  then show "parse_call_spec json_text (name @ ''='' @ print_pairs kvs)
      = Ok (name, json_obj (map (\<lambda>(k, v). (k, spec_value json_text v)) kvs))"
    using split_once_append [OF assms, of "print_pairs kvs"] kvs ne pieces spec_pairs_print [OF kvs(2)]
    by (simp add: parse_call_spec_def obj_of_def)
qed

subsection \<open>Accepting with defaults\<close>

lemma synthesised_field:
  "jget (synthesise_defaults schema) k
     = Option.bind (schema_properties schema) (\<lambda>props. map_option default_value (map_of (rev props) k))"
proof -
  have "map_of (foldl (\<lambda>out (name, spec). obj_insert name (default_value spec) out) m props) k
      = (case map_of (rev props) k of Some spec \<Rightarrow> Some (default_value spec) | None \<Rightarrow> map_of m k)" for m props
    by (induction props arbitrary: m) (auto simp: map_add_def split: option.split)
  then show ?thesis
    by (simp add: synthesise_defaults_def split: option.split)
qed

lemma elicit_accepts:
  assumes "eh_enabled h"
  shows "fst (elicit (client_link (accept_defaults disp)) msg schema h t)
    = \<lparr>ei_action = Act_Accept, ei_content = Some (synthesise_defaults schema)\<rparr>"
  using assms
  by (simp add: elicit_def client_link_def handle_server_request_def null_as_none_Some over_wire_success
      parse_response_def Let_def accept_defaults_def synthesise_defaults_def del: message_to_value.simps
      split: prod.split option.split)

lemma obj_field: "map_of (rev (obj_of kvs)) = map_of (rev kvs)"
  using map_of_inject_set [of "rev (obj_of kvs)" "obj_of kvs"] obj_of_distinct [of kvs]
  by (simp add: map_of_obj_of rev_map [symmetric])

text \<open>The form the client accepts: the sandbox is the hint, and the phrase that has no default is empty.\<close>

lemma publish_defaults:
  "get_str (synthesise_defaults (publish_schema x)) ''sandbox'' = Some x"
  "get_str (synthesise_defaults (publish_schema x)) ''confirmation_phrase'' = Some []"
  "get_str (synthesise_defaults (publish_schema x)) ''target'' = Some ''MAINLINE''"
proof -
  have props: "schema_properties (publish_schema x) = Some (obj_of kvs)"
    if "publish_schema x = object_schema (obj_of kvs) req" for kvs req
    by (simp add: that schema_properties_def object_schema_def map_of_obj_of)
  note field = synthesised_field [of "publish_schema x", unfolded props [OF publish_schema_def] bind.simps obj_field]
  show "get_str (synthesise_defaults (publish_schema x)) ''sandbox'' = Some x"
    "get_str (synthesise_defaults (publish_schema x)) ''confirmation_phrase'' = Some []"
    "get_str (synthesise_defaults (publish_schema x)) ''target'' = Some ''MAINLINE''"
    unfolding get_str_def field
    by (simp_all add: default_value_def map_of_obj_of field_type_def get_str_def)
qed

lemma publish_ask_accepted:
  assumes "cx_link cx = client_link (accept_defaults disp)" and "tw_elicit w = Some h" and "eh_enabled h"
  shows "fst (publish_ask cx hint w)
    = \<lparr>ei_action = Act_Accept, ei_content = Some (synthesise_defaults (publish_schema (unwrap_or hint [])))\<rparr>"
  using elicit_accepts [OF assms(3), of disp _ "publish_schema (unwrap_or hint [])" "tw_link w"] assms(1,2)
  by (simp add: publish_ask_def ask_user_def elicit_in_def split: prod.split) (metis fst_conv)

text \<open>C20. A client that accepts every form with its defaults, over the wire against the publishing workflow with
  elicitation on: without a hint the workflow audits the publication of a sandbox without a name to the mainline
  as confirmed, because the phrase that was left empty equals the empty name; with any hint it is refused, as the
  phrase does not repeat the name. The back ends are left alone.\<close>

theorem accepting_client_publishes_nameless:
  assumes "cx_link cx = client_link (accept_defaults disp)" and "tw_elicit w = Some h" and "eh_enabled h"
    and "dec_tr_args v = Some hint"
  shows "case publish_handler cx v w of (r, w') \<Rightarrow>
      back_ends_kept w w'
      \<and> audit_added ''oracle.workflow.publish_sandbox'' v
          (\<lambda>out. out = (if unwrap_or hint [] = []
             then Audit_Ok (''sandbox  publish confirmed '' @ right_arrow @ '' MAINLINE (mock)'')
             else Audit_Denied ''confirmation phrase mismatch'')) w w'"
proof -
  let ?w1 = "w\<lparr>tw_ticks := Suc (tw_ticks w)\<rparr>"
  let ?form = "synthesise_defaults (publish_schema (unwrap_or hint []))"
  obtain w2 where ask: "publish_ask cx hint ?w1 = (\<lparr>ei_action = Act_Accept, ei_content = Some ?form\<rparr>, w2)"
    using publish_ask_accepted [OF assms(1), of ?w1 h hint] assms(2,3)
    by (metis prod.exhaust_sel tool_world.ext_inject tool_world.surjective tool_world.update_convs(7))
  have kept: "tw_erp w2 = tw_erp w" "tw_oic w2 = tw_oic w" "tw_party w2 = tw_party w" "tw_audit w2 = tw_audit w"
    using asks_keep(5-8) [of cx hint ?w1] by (simp_all add: ask del: asks_keep)
  show ?thesis
    using kept assms(4)
    by (simp add: publish_handler_def workflow_handler_def read_instant_eq with_args_def publish_flow_def ask
        publish_accepted_def audited_eq Let_def publish_defaults back_ends_kept_def)
qed

text \<open>A context over the offline clients, its elicitation channel the accepting client.\<close>

definition sample_runtime :: "int runtime" where
  "sample_runtime =
     \<lparr>ru_pretty = (\<lambda>_. []), ru_serde = (\<lambda>_ _. []), ru_float = (\<lambda>i. JNum (JInt i)), ru_fixed3 = show_int,
      ru_f64 = JNum, ru_ratio = (\<lambda>a b. JNull), ru_hex = show_nat, ru_instant_ns = id, ru_epoch_ns = id\<rparr>"

definition sample_context :: "(int, unit, unit, unit, terminal) server_context" where
  "sample_context =
     \<lparr>cx_runtime = sample_runtime, cx_float = int_ops, cx_rag = (\<lambda>_ _. Ok []), cx_tree = (\<lambda>_. Ok None),
      cx_graph = \<lparr>ge_graph = graph_new, ge_communities = \<lparr>cs_communities = [], cs_membership = []\<rparr>, ge_raptor = []\<rparr>,
      cx_embed = (\<lambda>_. Ok []), cx_erp = mock_erp_client (\<lambda>_. []) [] (0, 0) (mock_new JNull), cx_cache = None,
      cx_oic = mock_oic_client JNull mock_oic_new, cx_party = None,
      cx_link = client_link (accept_defaults (\<lambda>_. [])), cx_read_only = False, cx_agents_md = None,
      cx_erp_system = None\<rparr>"

definition sample_tool_world :: "(unit, unit, unit, terminal) tool_world" where
  "sample_tool_world =
     \<lparr>tw_erp = (), tw_oic = (), tw_party = (), tw_link = \<lparr>tm_stdin = [], tm_stderr = []\<rparr>,
      tw_elicit = Some (elicitation_new True), tw_audit = [], tw_ticks = 0\<rparr>"

lemma accepting_client_publishes_nameless_witness:
  "case publish_handler sample_context (JObj []) sample_tool_world of (r, w') \<Rightarrow>
     audit_added ''oracle.workflow.publish_sandbox'' (JObj [])
       (\<lambda>out. out = Audit_Ok (''sandbox  publish confirmed '' @ right_arrow @ '' MAINLINE (mock)''))
       sample_tool_world w'"
  using accepting_client_publishes_nameless [of sample_context "\<lambda>_. []" sample_tool_world "elicitation_new True"
      "JObj []" None]
  by (simp add: sample_context_def sample_tool_world_def elicitation_new_def dec_tr_args_def struct_like_def
      struct_field_def opt_field_def split: prod.splits)

subsection \<open>Against the sample server\<close>

text \<open>One tool called with a specification against the sample server over the wire: it prints the call, the text
  of the answer and, for an error result, that it was one.\<close>

lemma echo_printed:
  assumes "parse_call_spec json_text spec = Ok (''echo'', v)" and "dec_echo_args v = Some tx"
  shows "\<exists>cl' w'. invoke_step json_text disp show_content tc (server_link env tf) spec
      (cl, (sample_server read_f64 add show_f64 echo_text add_text, s))
    = ([''== Calling echo with '' @ disp v, tx, []], Ok (), (cl', w'))"
proof -
  have "v \<noteq> JNull" using assms(2) by (auto simp: dec_echo_args_def struct_like_def)
  then have "fst (call_tool tc (server_link env tf) ''echo'' (Some v) cl
      (sample_server read_f64 add show_f64 echo_text add_text, s)) = Ok (tool_text tx)"
    using sample_server_answers [where a = "Some v" and name = "''echo''"] assms(2) by simp
  then show ?thesis
    using assms(1)
    by (auto simp: invoke_step_def on_call_def content_line_def tool_text_def split: prod.split)
qed

end
