(* ===== verification/Client_Tasks.thy ===== *)
theory Client_Tasks
  imports Mcp_Client Stdio_Server
begin

text \<open>
  The tasks behind a client (\<open>Client::spawn_stdio\<close>, \<open>spawn_with_halves\<close> and \<open>spawn_with_delegate\<close> of
  \<open>crates/mcp-client/src/lib.rs\<close>): who can still write to the server, when the tasks end, and what the server
  at the other end of the pipes has to do for that. Bytes of the server arrive in any pieces. The writer
  half is dropped with its task, which closes the server's input. \<open>patient\<close> says that the server ends, and
  closes its output, only after its input was closed, as a server does that serves until the end of its input.
\<close>

record ('w, 's) client_tasks =
  ct_owned :: bool
  ct_input :: string
  ct_server_open :: bool
  ct_reading :: bool
  ct_handlers :: "rpc_request list"
  ct_replies :: "rpc_response list"
  ct_outbox :: "rpc_message list"
  ct_writing :: bool
  ct_writer :: "'w stdio_writer"
  ct_calls :: corr
  ct_world :: 's

definition client_tasks_new :: "'w \<Rightarrow> 's \<Rightarrow> ('w, 's) client_tasks" where
  "client_tasks_new w s =
     (case into_parts (stdio_new [] w) of (input, writer) \<Rightarrow>
        \<lparr>ct_owned = True, ct_input = input, ct_server_open = True, ct_reading = True, ct_handlers = [],
         ct_replies = [], ct_outbox = [], ct_writing = True, ct_writer = writer, ct_calls = corr_new 1,
         ct_world = s\<rparr>)"

subsection \<open>The tasks over split halves\<close>

text \<open>The outbox is gone with the writer; a message sent then is dropped.\<close>

definition send_outbox :: "rpc_message \<Rightarrow> ('w, 's, 'm) client_tasks_scheme \<Rightarrow> ('w, 's, 'm) client_tasks_scheme" where
  "send_outbox m st = (if ct_writing st then st\<lparr>ct_outbox := ct_outbox st @ [m]\<rparr> else st)"

definition client_take :: "rpc_message \<Rightarrow> ('w, 's, 'm) client_tasks_scheme \<Rightarrow> ('w, 's, 'm) client_tasks_scheme" where
  "client_take m st =
     (case m of
        Msg_Response r \<Rightarrow> st\<lparr>ct_calls := snd (deliver_response r (ct_calls st))\<rparr>
      | Msg_Notification n \<Rightarrow> st
      | Msg_Request req \<Rightarrow> st\<lparr>ct_handlers := ct_handlers st @ [req]\<rparr>)"

definition end_reader :: "('w, 's, 'm) client_tasks_scheme \<Rightarrow> ('w, 's, 'm) client_tasks_scheme" where
  "end_reader st = st\<lparr>ct_reading := False, ct_calls := reader_exit Client_Side (ct_calls st)\<rparr>"

text \<open>A line is read: the end of the input, or one that is not a message, ends the reader.\<close>

definition client_read ::
  "(('w, 's, 'm) client_tasks_scheme \<Rightarrow> ('w, 's, 'm) client_tasks_scheme) \<Rightarrow> (string \<Rightarrow> string + json) \<Rightarrow> (json \<Rightarrow> string)
     \<Rightarrow> ('w, 's, 'm) client_tasks_scheme \<Rightarrow> ('w, 's, 'm) client_tasks_scheme" where
  "client_read finish from_slice unreadable st =
     (case read_line (ct_input st) of
        (Inl e, rest) \<Rightarrow> finish (st\<lparr>ct_input := rest\<rparr>)
      | (Inr line, rest) \<Rightarrow>
          if line = [] then finish st
          else if trim line = [] then st\<lparr>ct_input := rest\<rparr>
          else (case message_from_json from_slice unreadable (trim line) of
                  Inl e \<Rightarrow> finish (st\<lparr>ct_input := rest\<rparr>)
                | Inr m \<Rightarrow> client_take m (st\<lparr>ct_input := rest\<rparr>)))"

text \<open>The task of a request of the server answers it, and then sends the answer.\<close>

definition client_answer :: "'s delegate \<Rightarrow> nat \<Rightarrow> ('w, 's, 'm) client_tasks_scheme \<Rightarrow> ('w, 's, 'm) client_tasks_scheme" where
  "client_answer delegate i st =
     (case handle_server_request delegate (ct_handlers st ! i) (ct_world st) of
        (resp, s) \<Rightarrow>
          st\<lparr>ct_handlers := drop_nth i (ct_handlers st), ct_replies := ct_replies st @ [resp], ct_world := s\<rparr>)"

definition client_reply :: "nat \<Rightarrow> ('w, 's, 'm) client_tasks_scheme \<Rightarrow> ('w, 's, 'm) client_tasks_scheme" where
  "client_reply i st =
     send_outbox (Msg_Response (ct_replies st ! i)) (st\<lparr>ct_replies := drop_nth i (ct_replies st)\<rparr>)"

definition end_client_writer :: "('w, 's, 'm) client_tasks_scheme \<Rightarrow> ('w, 's, 'm) client_tasks_scheme" where
  "end_client_writer st =
     st\<lparr>ct_writing := False, ct_outbox := [], ct_calls := (ct_calls st)\<lparr>co_outbox_open := False\<rparr>\<rparr>"

definition client_write ::
  "(json \<Rightarrow> string) \<Rightarrow> 'w byte_sink \<Rightarrow> ('w, 's, 'm) client_tasks_scheme \<Rightarrow> ('w, 's, 'm) client_tasks_scheme" where
  "client_write to_vec sink st =
     (case writer_send to_vec sink (hd (ct_outbox st)) (ct_writer st) of
        (Inl e, wr) \<Rightarrow> end_client_writer (st\<lparr>ct_writer := wr\<rparr>)
      | (Inr _, wr) \<Rightarrow> st\<lparr>ct_outbox := tl (ct_outbox st), ct_writer := wr\<rparr>)"

text \<open>Who holds a sender of the outbox: the client, the reader task for the tasks it starts, and these.\<close>

definition outbox_senders :: "('w, 's, 'm) client_tasks_scheme \<Rightarrow> nat" where
  "outbox_senders st = (if ct_owned st then 1 else 0) + (if ct_reading st then 1 else 0)
     + length (ct_handlers st) + length (ct_replies st)"

text \<open>The client can be dropped when no call borrows it.\<close>

definition no_call_runs :: "('w, 's, 'm) client_tasks_scheme \<Rightarrow> bool" where
  "no_call_runs st \<longleftrightarrow> (\<forall>i. co_calls (ct_calls st) i \<notin> {Some Allocated, Some Registered, Some Waiting})"

definition outbox_room :: "('w, 's, 'm) client_tasks_scheme \<Rightarrow> bool" where
  "outbox_room st \<longleftrightarrow> (ct_writing st \<longrightarrow> length (ct_outbox st) < channel_capacity)"

datatype client_event =
    C_Read | C_Answer nat | C_Reply nat | C_Call corr_event | C_Request int rpc_request
  | C_Notify rpc_notification | C_Drop | C_Write | C_Writer_End | C_Arrive string | C_Close | C_Poll nat

inductive client_step ::
  "'s delegate \<Rightarrow> (json \<Rightarrow> string) \<Rightarrow> (string \<Rightarrow> string + json) \<Rightarrow> (json \<Rightarrow> string) \<Rightarrow> 'w byte_sink \<Rightarrow> bool
     \<Rightarrow> ('w, 's) client_tasks \<Rightarrow> client_event \<Rightarrow> ('w, 's) client_tasks \<Rightarrow> bool"
  for delegate to_vec from_slice unreadable sink patient where
  read: "ct_reading st \<Longrightarrow> newline \<in> set (ct_input st) \<or> \<not> ct_server_open st \<Longrightarrow>
     client_step delegate to_vec from_slice unreadable sink patient st C_Read
       (client_read end_reader from_slice unreadable st)"
| answer: "i < length (ct_handlers st) \<Longrightarrow>
     client_step delegate to_vec from_slice unreadable sink patient st (C_Answer i) (client_answer delegate i st)"
| reply: "i < length (ct_replies st) \<Longrightarrow> outbox_room st \<Longrightarrow>
     client_step delegate to_vec from_slice unreadable sink patient st (C_Reply i) (client_reply i st)"
| call: "ct_owned st \<Longrightarrow> ev = Ev_Alloc \<or> (\<exists>i. ev = Ev_Register i \<or> ev = Ev_Wake i) \<Longrightarrow>
     corr_step Client_Side (ct_calls st) ev c \<Longrightarrow>
     client_step delegate to_vec from_slice unreadable sink patient st (C_Call ev) (st\<lparr>ct_calls := c\<rparr>)"
| request: "ct_owned st \<Longrightarrow> outbox_room st \<Longrightarrow> corr_step Client_Side (ct_calls st) (Ev_Send i) c \<Longrightarrow>
     client_step delegate to_vec from_slice unreadable sink patient st (C_Request i req)
       (send_outbox (Msg_Request req) (st\<lparr>ct_calls := c\<rparr>))"
| notify: "ct_owned st \<Longrightarrow> outbox_room st \<Longrightarrow>
     client_step delegate to_vec from_slice unreadable sink patient st (C_Notify n)
       (send_outbox (Msg_Notification n) st)"
| drop: "ct_owned st \<Longrightarrow> no_call_runs st \<Longrightarrow>
     client_step delegate to_vec from_slice unreadable sink patient st C_Drop (st\<lparr>ct_owned := False\<rparr>)"
| flush: "ct_writing st \<Longrightarrow> ct_outbox st \<noteq> [] \<Longrightarrow>
     client_step delegate to_vec from_slice unreadable sink patient st C_Write (client_write to_vec sink st)"
| writer_end: "ct_writing st \<Longrightarrow> ct_outbox st = [] \<Longrightarrow> outbox_senders st = 0 \<Longrightarrow>
     client_step delegate to_vec from_slice unreadable sink patient st C_Writer_End (end_client_writer st)"
| arrive: "ct_server_open st \<Longrightarrow>
     client_step delegate to_vec from_slice unreadable sink patient st (C_Arrive bytes)
       (st\<lparr>ct_input := ct_input st @ bytes\<rparr>)"
| close: "ct_server_open st \<Longrightarrow> patient \<longrightarrow> \<not> ct_writing st \<Longrightarrow>
     client_step delegate to_vec from_slice unreadable sink patient st C_Close (st\<lparr>ct_server_open := False\<rparr>)"

inductive_cases client_stepE: "client_step delegate to_vec from_slice unreadable sink patient st ev st'"

subsection \<open>The single task over a whole transport\<close>

text \<open>\<open>spawn_with_delegate\<close>: one task selects between the outbox, which goes first, and the next message. The
  bytes a receive has taken are in its line; when a message is sent instead, the receive is dropped and
  starts again with an empty line.\<close>

record ('w, 's) single_task = "('w, 's) client_tasks" +
  sg_line :: string

definition single_task_new :: "'w \<Rightarrow> 's \<Rightarrow> ('w, 's) single_task" where
  "single_task_new w s = client_tasks.extend (client_tasks_new w s) (single_task.fields [])"

definition end_single :: "('w, 's) single_task \<Rightarrow> ('w, 's) single_task" where
  "end_single st = end_reader (end_client_writer st)"

definition single_send :: "(json \<Rightarrow> string) \<Rightarrow> 'w byte_sink \<Rightarrow> ('w, 's) single_task \<Rightarrow> ('w, 's) single_task" where
  "single_send to_vec sink st =
     (case writer_send to_vec sink (hd (ct_outbox st)) (ct_writer st) of
        (Inl e, wr) \<Rightarrow> end_single (st\<lparr>ct_writer := wr\<rparr>)
      | (Inr _, wr) \<Rightarrow> st\<lparr>ct_outbox := tl (ct_outbox st), ct_writer := wr, sg_line := []\<rparr>)"

definition single_poll :: "nat \<Rightarrow> ('w, 's) single_task \<Rightarrow> ('w, 's) single_task" where
  "single_poll k st = st\<lparr>sg_line := sg_line st @ take k (ct_input st), ct_input := drop k (ct_input st)\<rparr>"

definition single_recv ::
  "(string \<Rightarrow> string + json) \<Rightarrow> (json \<Rightarrow> string) \<Rightarrow> ('w, 's) single_task \<Rightarrow> ('w, 's) single_task" where
  "single_recv from_slice unreadable st =
     client_read end_single from_slice unreadable (st\<lparr>ct_input := sg_line st @ ct_input st, sg_line := []\<rparr>)"

inductive single_step ::
  "'s delegate \<Rightarrow> (json \<Rightarrow> string) \<Rightarrow> (string \<Rightarrow> string + json) \<Rightarrow> (json \<Rightarrow> string) \<Rightarrow> 'w byte_sink
     \<Rightarrow> ('w, 's) single_task \<Rightarrow> client_event \<Rightarrow> ('w, 's) single_task \<Rightarrow> bool"
  for delegate to_vec from_slice unreadable sink where
  s_write: "ct_writing st \<Longrightarrow> ct_outbox st \<noteq> [] \<Longrightarrow>
     single_step delegate to_vec from_slice unreadable sink st C_Write (single_send to_vec sink st)"
| s_poll: "ct_reading st \<Longrightarrow> ct_outbox st = [] \<Longrightarrow> newline \<notin> set (take k (ct_input st)) \<Longrightarrow>
     single_step delegate to_vec from_slice unreadable sink st (C_Poll k) (single_poll k st)"
| s_read: "ct_reading st \<Longrightarrow> ct_outbox st = [] \<Longrightarrow> newline \<in> set (ct_input st) \<or> \<not> ct_server_open st \<Longrightarrow>
     single_step delegate to_vec from_slice unreadable sink st C_Read (single_recv from_slice unreadable st)"
| s_answer: "i < length (ct_handlers st) \<Longrightarrow>
     single_step delegate to_vec from_slice unreadable sink st (C_Answer i) (client_answer delegate i st)"
| s_reply: "i < length (ct_replies st) \<Longrightarrow> outbox_room st \<Longrightarrow>
     single_step delegate to_vec from_slice unreadable sink st (C_Reply i) (client_reply i st)"
| s_call: "ct_owned st \<Longrightarrow> ev = Ev_Alloc \<or> (\<exists>i. ev = Ev_Register i \<or> ev = Ev_Wake i) \<Longrightarrow>
     corr_step Client_Side (ct_calls st) ev c \<Longrightarrow>
     single_step delegate to_vec from_slice unreadable sink st (C_Call ev) (st\<lparr>ct_calls := c\<rparr>)"
| s_request: "ct_owned st \<Longrightarrow> outbox_room st \<Longrightarrow> corr_step Client_Side (ct_calls st) (Ev_Send i) c \<Longrightarrow>
     single_step delegate to_vec from_slice unreadable sink st (C_Request i req)
       (send_outbox (Msg_Request req) (st\<lparr>ct_calls := c\<rparr>))"
| s_notify: "ct_owned st \<Longrightarrow> outbox_room st \<Longrightarrow>
     single_step delegate to_vec from_slice unreadable sink st (C_Notify n) (send_outbox (Msg_Notification n) st)"
| s_drop: "ct_owned st \<Longrightarrow> no_call_runs st \<Longrightarrow>
     single_step delegate to_vec from_slice unreadable sink st C_Drop (st\<lparr>ct_owned := False\<rparr>)"
| s_arrive: "ct_server_open st \<Longrightarrow>
     single_step delegate to_vec from_slice unreadable sink st (C_Arrive bytes)
       (st\<lparr>ct_input := ct_input st @ bytes\<rparr>)"
| s_close: "ct_server_open st \<Longrightarrow>
     single_step delegate to_vec from_slice unreadable sink st C_Close (st\<lparr>ct_server_open := False\<rparr>)"

text \<open>A message sent while a line has arrived in part loses that part: the rest of the line is then not a
  message, the task ends, and every waiting call is dropped although its answer has come whole.\<close>

lemma single_task_loses_half_a_line:
  assumes "ct_owned st" "ct_reading st" "ct_writing st" "ct_outbox st = []" "sg_line st = []"
    and "\<not> sw_closed (ct_writer st)"
    and "ct_input st = t1 @ t2 @ [newline]" "newline \<notin> set t1" "line_text t2" "from_slice t2 = Inl e"
  shows "\<exists>st'. run (single_step delegate to_vec from_slice unreadable pipe_sink) st
        [C_Poll (length t1), C_Notify n, C_Write, C_Read] st'
      \<and> \<not> ct_reading st' \<and> \<not> ct_writing st' \<and> co_pending (ct_calls st') = {}"
proof -
  let ?step = "single_step delegate to_vec from_slice unreadable pipe_sink"
  define st1 where "st1 = single_poll (length t1) st"
  define st2 where "st2 = send_outbox (Msg_Notification n) st1"
  define st3 where "st3 = single_send to_vec pipe_sink st2"
  define st4 where "st4 = single_recv from_slice unreadable st3"
  have s1: "?step st (C_Poll (length t1)) st1"
    unfolding st1_def by (rule single_step.s_poll) (use assms in auto)
  have f1: "ct_owned st1" "ct_reading st1" "ct_writing st1" "ct_outbox st1 = []" "ct_input st1 = t2 @ [newline]"
    "\<not> sw_closed (ct_writer st1)"
    using assms by (simp_all add: st1_def single_poll_def)
  have s2: "?step st1 (C_Notify n) st2"
    unfolding st2_def by (rule single_step.s_notify) (use f1 in \<open>simp_all add: outbox_room_def channel_capacity_def\<close>)
  have f2: "ct_reading st2" "ct_writing st2" "ct_outbox st2 = [Msg_Notification n]" "ct_input st2 = t2 @ [newline]"
    "\<not> sw_closed (ct_writer st2)"
    using f1 by (simp_all add: st2_def send_outbox_def)
  have s3: "?step st2 C_Write st3"
    unfolding st3_def by (rule single_step.s_write) (use f2 in simp_all)
  have f3: "ct_reading st3" "ct_outbox st3 = []" "ct_input st3 = t2 @ [newline]" "sg_line st3 = []"
    using f2 by (simp_all add: st3_def single_send_def writer_send_frame)
  have s4: "?step st3 C_Read st4"
    unfolding st4_def by (rule single_step.s_read) (use f3 in simp_all)
  have "\<not> ct_reading st4 \<and> \<not> ct_writing st4 \<and> co_pending (ct_calls st4) = {}"
    using assms(9,10) f3 read_line_newline [of t2 "[]"]
    by (simp add: st4_def single_recv_def client_read_def line_text_def trim_line message_from_json_def
        end_single_def end_reader_def end_client_writer_def reader_exit_def)
  then show ?thesis
    using s1 s2 s3 s4 by (auto simp: run_cons_iff intro!: exI)
qed

subsection \<open>Who ends first\<close>

definition good_line :: "(json \<Rightarrow> string) \<Rightarrow> (string \<Rightarrow> string + json) \<Rightarrow> string \<Rightarrow> bool" where
  "good_line to_vec from_slice l \<longleftrightarrow>
     blank_line l \<or> (\<exists>m. l = to_vec (message_to_value m) \<and> readable to_vec from_slice m)"

fun arrivals :: "client_event list \<Rightarrow> string" where
  "arrivals [] = []"
| "arrivals (C_Arrive bytes # es) = bytes @ arrivals es"
| "arrivals (_ # es) = arrivals es"

text \<open>Both tasks run, and what has come and will come is good lines, the last one perhaps in part.\<close>

definition both_run ::
  "(json \<Rightarrow> string) \<Rightarrow> (string \<Rightarrow> string + json) \<Rightarrow> string \<Rightarrow> (string, 's) client_tasks \<Rightarrow> bool" where
  "both_run to_vec from_slice later st \<longleftrightarrow>
     ct_reading st \<and> ct_writing st \<and> ct_server_open st \<and> \<not> sw_closed (ct_writer st)
     \<and> (\<exists>ls more. list_all (good_line to_vec from_slice) ls \<and> ct_input st @ later @ more = end_lines ls)"

lemma good_line_no_newline: "good_line to_vec from_slice l \<Longrightarrow> newline \<notin> set l"
  by (auto simp: good_line_def blank_line_def readable_def line_text_def)

lemma first_line_arrived:
  assumes "newline \<in> set xs" and "xs @ ys = l @ newline # zs" and "newline \<notin> set l"
  obtains rest where "xs = l @ newline # rest" and "rest @ ys = zs"
proof -
  obtain us where "xs = l @ us \<and> us @ ys = newline # zs \<or> xs @ us = l \<and> ys = us @ newline # zs"
    using assms(2) by (auto simp: append_eq_append_conv2)
  then show thesis
    using assms(1,3) that by (cases us) auto
qed

lemma good_line_read:
  assumes "good_line to_vec from_slice l" and "ct_input st = l @ newline # rest"
  shows "\<exists>st'. client_read finish from_slice unreadable st = st'
      \<and> ct_input st' = rest \<and> ct_reading st' = ct_reading st \<and> ct_writing st' = ct_writing st
      \<and> ct_server_open st' = ct_server_open st \<and> ct_writer st' = ct_writer st"
  using assms(1) unfolding good_line_def
proof (elim disjE exE conjE)
  assume b: "blank_line l"
  then have "read_line (ct_input st) = (Ok (l @ [newline]), rest)"
    using assms(2) by (simp add: blank_line_def read_line_newline valid_utf8_blank)
  then show ?thesis using b by (simp add: client_read_def trim_blank blank_line_def)
next
  fix m assume m: "l = to_vec (message_to_value m)" "readable to_vec from_slice m"
  then have l: "line_text l" "from_slice l = Inr (message_to_value m)" by (simp_all add: readable_def)
  then have "read_line (ct_input st) = (Ok (l @ [newline]), rest)"
    using assms(2) by (simp add: line_text_def read_line_newline)
  moreover have "message_from_json from_slice unreadable l = Ok (normal_message m)"
    using l by (simp add: message_from_json_def)
  ultimately show ?thesis
    using l by (auto simp: client_read_def trim_line line_text_def client_take_def split: rpc_message.split)
qed

lemma both_run_step:
  assumes run: "both_run to_vec from_slice (arrivals (e # es)) st"
    and step: "client_step delegate to_vec from_slice unreadable pipe_sink True st e st'"
  shows "both_run to_vec from_slice (arrivals es) st'"
proof -
  obtain ls more where ls: "list_all (good_line to_vec from_slice) ls"
      "ct_input st @ arrivals (e # es) @ more = end_lines ls"
    using run by (auto simp: both_run_def)
  have st: "ct_reading st" "ct_writing st" "ct_server_open st" "\<not> sw_closed (ct_writer st)"
    using run by (simp_all add: both_run_def)
  note keep = both_run_def send_outbox_def client_answer_def client_reply_def
  from step show ?thesis
  proof cases
    case read
    then have nl: "newline \<in> set (ct_input st)" using st by simp
    then obtain l ls' where l: "ls = l # ls'" using ls(2) by (cases ls) (auto simp: end_lines_def)
    then have "ct_input st @ arrivals es @ more = l @ newline # end_lines ls'"
      using ls(2) read by (simp add: end_lines_def)
    moreover have good: "good_line to_vec from_slice l" using ls(1) l by simp
    ultimately obtain rest where rest: "ct_input st = l @ newline # rest" "rest @ arrivals es @ more = end_lines ls'"
      by (rule first_line_arrived [OF nl _ good_line_no_newline])
    from good_line_read [OF good rest(1), of end_reader unreadable] show ?thesis
      using st rest(2) ls(1) l read by (auto simp: both_run_def)
  next
    case writer_end
    then show ?thesis using st by (simp add: outbox_senders_def)
  next
    case flush
    then show ?thesis using st ls by (auto simp: both_run_def client_write_def writer_send_frame)
  qed (use st ls in \<open>auto simp: keep split: prod.split\<close>)
qed

lemma both_run_run:
  "both_run to_vec from_slice (arrivals es) st \<Longrightarrow>
     run (client_step delegate to_vec from_slice unreadable pipe_sink True) st es st' \<Longrightarrow> both_run to_vec from_slice [] st'"
proof (induction es arbitrary: st)
  case (Cons e es)
  then show ?case using both_run_step by (fastforce simp: run_cons_iff)
qed simp

text \<open>C21. Whatever interleaves, the tasks behind a client never end, even after the client was dropped, while
  the server is one that serves until the end of its input and writes readable lines: the reader task
  holds a sender of the outbox, so the writer goes on and the server's input stays open, so the server
  does not end and the reader goes on.\<close>

theorem client_outlives_its_owner:
  assumes "list_all (good_line to_vec from_slice) ls"
    and "run (client_step delegate to_vec from_slice unreadable pipe_sink True) (client_tasks_new [] s) es st"
    and "prefix (arrivals es) (end_lines ls)"
  shows "ct_reading st \<and> ct_writing st \<and> ct_server_open st"
proof -
  have "both_run to_vec from_slice (arrivals es) (client_tasks_new [] s)"
    using assms(1,3) by (auto simp: both_run_def client_tasks_new_def into_parts_def stdio_new_def prefix_def)
  then have "both_run to_vec from_slice [] st" using both_run_run assms(2) by blast
  then show ?thesis by (simp add: both_run_def)
qed

lemma client_outlives_its_owner_witness:
  "\<exists>st. run (client_step decline_all (\<lambda>_. []) (\<lambda>_. Inl []) (\<lambda>_. []) pipe_sink True)
        (client_tasks_new [] ()) [C_Arrive [newline], C_Drop, C_Read] st
     \<and> \<not> ct_owned st \<and> ct_reading st \<and> ct_writing st"
proof -
  let ?step = "client_step decline_all (\<lambda>_. []) (\<lambda>_. Inl []) (\<lambda>_. []) pipe_sink True"
  let ?st = "client_tasks_new ([] :: string) ()"
  let ?st1 = "?st\<lparr>ct_input := ct_input ?st @ [newline]\<rparr>"
  let ?st2 = "?st1\<lparr>ct_owned := False\<rparr>"
  let ?st3 = "client_read end_reader (\<lambda>_. Inl []) (\<lambda>_. []) ?st2"
  have new: "ct_owned ?st" "ct_server_open ?st" "ct_reading ?st" "ct_input ?st = []" "co_calls (ct_calls ?st) i = None" for i
    by (simp_all add: client_tasks_new_def into_parts_def stdio_new_def corr_new_def)
  have arrive: "?step ?st (C_Arrive [newline]) ?st1" by (rule client_step.arrive) (simp add: new)
  have drop: "?step ?st1 C_Drop ?st2" by (rule client_step.drop) (simp_all add: new no_call_runs_def)
  have read: "?step ?st2 C_Read ?st3" by (rule client_step.read) (simp_all add: new)
  have run: "run ?step ?st [C_Arrive [newline], C_Drop, C_Read] ?st3"
    unfolding run_cons_iff using arrive drop read run.run_nil [where step = ?step] by blast
  have blank: "list_all (good_line (\<lambda>_. []) (\<lambda>_. Inl [])) [[]]" by (simp add: good_line_def blank_line_def)
  have pre: "prefix (arrivals [C_Arrive [newline], C_Drop, C_Read]) (end_lines [[]])" by (simp add: end_lines_def)
  have "\<not> ct_owned ?st3"
    by (simp add: client_read_def read_line_def new valid_utf8_def trim_def trim_start_def trim_end_def is_space_char_def)
  then show ?thesis
    using client_outlives_its_owner [OF blank run pre] run by blast
qed

text \<open>Once the server closes its output, the tasks of a dropped client can end, with everything written.\<close>

definition tasks_left :: "('w, 's) client_tasks \<Rightarrow> nat" where
  "tasks_left st = 4 * length (ct_input st) + 3 * length (ct_handlers st) + 2 * length (ct_replies st)
     + length (ct_outbox st) + (if ct_reading st then 1 else 0) + (if ct_writing st then 1 else 0)"

definition left_alone :: "(string, 's) client_tasks \<Rightarrow> bool" where
  "left_alone st \<longleftrightarrow> \<not> ct_owned st \<and> \<not> ct_server_open st \<and> \<not> sw_closed (ct_writer st)
     \<and> (\<not> ct_writing st \<longrightarrow> ct_outbox st = [])"

lemma client_read_left:
  assumes "left_alone st" and "ct_reading st"
  shows "left_alone (client_read end_reader from_slice unreadable st)
    \<and> tasks_left (client_read end_reader from_slice unreadable st) < tasks_left st"
proof -
  obtain line rest where l: "take_line (ct_input st) = (line, rest)" by (cases "take_line (ct_input st)")
  have "ct_input st \<noteq> [] \<Longrightarrow> length rest < length (ct_input st)" "line = [] \<longleftrightarrow> ct_input st = []"
    using take_line_rest [of "ct_input st"] take_line_empty [of "ct_input st"] l by auto
  then show ?thesis
    using assms l
    by (cases "ct_input st = []")
      (auto simp: client_read_def read_line_def left_alone_def tasks_left_def end_reader_def client_take_def valid_utf8_def
        split: sum.split rpc_message.split)
qed

lemma tasks_progress:
  assumes "left_alone st" and "ct_reading st \<or> ct_writing st \<or> ct_handlers st \<noteq> [] \<or> ct_replies st \<noteq> []"
  shows "\<exists>ev st'. client_step delegate to_vec from_slice unreadable pipe_sink patient st ev st'
    \<and> left_alone st' \<and> tasks_left st' < tasks_left st"
proof -
  let ?step = "client_step delegate to_vec from_slice unreadable pipe_sink patient st"
  consider (out) "ct_writing st" "ct_outbox st \<noteq> []" | (replies) "ct_outbox st = []" "ct_replies st \<noteq> []"
    | (handlers) "ct_handlers st \<noteq> []" | (reading) "ct_reading st"
    | (ending) "ct_writing st" "ct_outbox st = []" "ct_replies st = []" "ct_handlers st = []" "\<not> ct_reading st"
    using assms by (auto simp: left_alone_def)
  then show ?thesis
  proof cases
    case out
    then have "?step C_Write (client_write to_vec pipe_sink st)" by (rule client_step.flush)
    moreover have "left_alone (client_write to_vec pipe_sink st) \<and> tasks_left (client_write to_vec pipe_sink st) < tasks_left st"
      using out assms(1) by (cases "ct_outbox st") (simp_all add: client_write_def left_alone_def writer_send_frame tasks_left_def)
    ultimately show ?thesis by blast
  next
    case replies
    then have "?step (C_Reply 0) (client_reply 0 st)"
      by (intro client_step.reply) (simp_all add: outbox_room_def channel_capacity_def)
    moreover have "left_alone (client_reply 0 st) \<and> tasks_left (client_reply 0 st) < tasks_left st"
      using replies assms(1) length_drop_nth [of 0 "ct_replies st"]
      by (auto simp: client_reply_def send_outbox_def left_alone_def tasks_left_def)
    ultimately show ?thesis by blast
  next
    case handlers
    then have "?step (C_Answer 0) (client_answer delegate 0 st)" by (intro client_step.answer) simp
    moreover have "left_alone (client_answer delegate 0 st) \<and> tasks_left (client_answer delegate 0 st) < tasks_left st"
      using handlers assms(1) length_drop_nth [of 0 "ct_handlers st"]
      by (auto simp: client_answer_def left_alone_def tasks_left_def split: prod.split)
    ultimately show ?thesis by blast
  next
    case reading
    then have "?step C_Read (client_read end_reader from_slice unreadable st)"
      using assms(1) by (intro client_step.read) (simp_all add: left_alone_def)
    then show ?thesis using client_read_left [OF assms(1) reading] by blast
  next
    case ending
    then have "?step C_Writer_End (end_client_writer st)"
      using assms(1) by (intro client_step.writer_end) (simp_all add: outbox_senders_def left_alone_def)
    moreover have "left_alone (end_client_writer st) \<and> tasks_left (end_client_writer st) < tasks_left st"
      using ending assms(1) by (simp add: end_client_writer_def left_alone_def tasks_left_def)
    ultimately show ?thesis by blast
  qed
qed

lemma left_alone_tasks_end:
  assumes "left_alone st"
  shows "\<exists>es st'. run (client_step delegate to_vec from_slice unreadable pipe_sink patient) st es st'
    \<and> \<not> ct_reading st' \<and> \<not> ct_writing st' \<and> ct_handlers st' = [] \<and> ct_replies st' = []"
  using measure_run [where P = left_alone and f = tasks_left and s = st
      and step = "client_step delegate to_vec from_slice unreadable pipe_sink patient"
      and Q = "\<lambda>st'. \<not> ct_reading st' \<and> \<not> ct_writing st' \<and> ct_handlers st' = [] \<and> ct_replies st' = []"]
    tasks_progress assms
  by blast

end
