(* ===== verification/Schedule_Config.thy ===== *)
theory Schedule_Config
  imports Scheduler Protocol
begin

text \<open>
  The configuration of the scheduler (\<open>Scheduler::parse_config\<close> of \<open>crates/oracle-automate-scheduler/src/lib.rs\<close>):
  the jobs as \<open>serde\<close> reads and writes them. Reading TOML text into a table is the parameter \<open>toml\<close>, and
  \<open>bad_shape\<close> is the text of the error for a table that is not a configuration.
\<close>

fun enc_schedule :: "schedule \<Rightarrow> json" where
  "enc_schedule (Every_N_Seconds secs) = json_obj [(''kind'', JStr ''every_n_seconds''), (''secs'', JNat secs)]"
| "enc_schedule (Every_N_Minutes mins) = json_obj [(''kind'', JStr ''every_n_minutes''), (''mins'', JNat mins)]"
| "enc_schedule (Hourly minute) = json_obj [(''kind'', JStr ''hourly''), (''minute'', JNat minute)]"
| "enc_schedule (Daily hour minute) =
     json_obj [(''kind'', JStr ''daily''), (''hour'', JNat hour), (''minute'', JNat minute)]"
| "enc_schedule (Weekly weekday hour minute) =
     json_obj [(''kind'', JStr ''weekly''), (''weekday'', JNat weekday), (''hour'', JNat hour), (''minute'', JNat minute)]"
| "enc_schedule (Quarterly day hour minute) =
     json_obj [(''kind'', JStr ''quarterly''), (''day'', JNat day), (''hour'', JNat hour), (''minute'', JNat minute)]"

text \<open>The tag is the field \<open>kind\<close>, or the first element.\<close>

definition kind_tagged :: "json \<Rightarrow> (string \<times> json) option" where
  "kind_tagged v =
     (case v of
        JObj m \<Rightarrow> map_option (\<lambda>t. (t, JObj m)) (str_field (map_of m ''kind''))
      | JArr (t # xs) \<Rightarrow> map_option (\<lambda>t. (t, JArr xs)) (as_str t)
      | _ \<Rightarrow> None)"

definition dec_numbers1 :: "(nat \<Rightarrow> 'a) \<Rightarrow> (json \<Rightarrow> nat option) \<Rightarrow> string \<Rightarrow> json \<Rightarrow> 'a option" where
  "dec_numbers1 c d k v = (if struct_like 1 v then map_option c (Option.bind (struct_field v 0 k) d) else None)"

definition dec_numbers2 :: "(nat \<Rightarrow> nat \<Rightarrow> 'a) \<Rightarrow> string \<Rightarrow> string \<Rightarrow> json \<Rightarrow> 'a option" where
  "dec_numbers2 c k1 k2 v =
     (if struct_like 2 v then
        Option.bind (Option.bind (struct_field v 0 k1) dec_u32) (\<lambda>a.
        map_option (c a) (Option.bind (struct_field v 1 k2) dec_u32))
      else None)"

definition dec_numbers3 :: "(nat \<Rightarrow> nat \<Rightarrow> nat \<Rightarrow> 'a) \<Rightarrow> string \<Rightarrow> string \<Rightarrow> string \<Rightarrow> json \<Rightarrow> 'a option" where
  "dec_numbers3 c k1 k2 k3 v =
     (if struct_like 3 v then
        Option.bind (Option.bind (struct_field v 0 k1) dec_u32) (\<lambda>a.
        Option.bind (Option.bind (struct_field v 1 k2) dec_u32) (\<lambda>b.
        map_option (c a b) (Option.bind (struct_field v 2 k3) dec_u32)))
      else None)"

definition dec_schedule :: "json \<Rightarrow> schedule option" where
  "dec_schedule v =
     Option.bind (kind_tagged v) (\<lambda>(t, w).
       if t = ''every_n_seconds'' then dec_numbers1 Every_N_Seconds as_u64 ''secs'' w
       else if t = ''every_n_minutes'' then dec_numbers1 Every_N_Minutes as_u64 ''mins'' w
       else if t = ''hourly'' then dec_numbers1 Hourly dec_u32 ''minute'' w
       else if t = ''daily'' then dec_numbers2 Daily ''hour'' ''minute'' w
       else if t = ''weekly'' then dec_numbers3 Weekly ''weekday'' ''hour'' ''minute'' w
       else if t = ''quarterly'' then dec_numbers3 Quarterly ''day'' ''hour'' ''minute'' w
       else None)"

definition enc_job :: "scheduled_job \<Rightarrow> json" where
  "enc_job j = json_obj
     [(''name'', JStr (sj_name j)), (''schedule'', enc_schedule (sj_schedule j)), (''tool'', JStr (sj_tool j)),
      (''arguments'', sj_arguments j),
      (''channel'', (case sj_channel j of Some c \<Rightarrow> JStr c | None \<Rightarrow> JNull)), (''enabled'', JBool (sj_enabled j))]"

definition dec_job :: "json \<Rightarrow> scheduled_job option" where
  "dec_job v =
     (if struct_like 6 v then
        Option.bind (str_field (struct_field v 0 ''name'')) (\<lambda>n.
        Option.bind (Option.bind (struct_field v 1 ''schedule'') dec_schedule) (\<lambda>s.
        Option.bind (str_field (struct_field v 2 ''tool'')) (\<lambda>t.
        Option.bind (default_field JNull Some (struct_field v 3 ''arguments'')) (\<lambda>a.
        Option.bind (opt_field as_str (struct_field v 4 ''channel'')) (\<lambda>c.
        Option.bind (default_field True as_bool (struct_field v 5 ''enabled'')) (\<lambda>e.
          Some \<lparr>sj_name = n, sj_schedule = s, sj_tool = t, sj_arguments = a, sj_channel = c, sj_enabled = e\<rparr>))))))
      else None)"

definition dec_config :: "json \<Rightarrow> scheduled_job list option" where
  "dec_config v =
     (if struct_like 1 v then default_field [] (dec_list dec_job) (struct_field v 0 ''jobs'') else None)"

definition parse_config ::
  "(string \<Rightarrow> string + json) \<Rightarrow> (json \<Rightarrow> string) \<Rightarrow> string \<Rightarrow> string + scheduled_job list" where
  "parse_config toml bad_shape toml_text =
     (case toml toml_text of
        Inl e \<Rightarrow> Err e
      | Inr v \<Rightarrow> (case dec_config v of Some jobs \<Rightarrow> Ok jobs | None \<Rightarrow> Err (bad_shape v)))"

text \<open>\<open>stats\<close> and \<open>jobs\<close> read the scheduler.\<close>

definition scheduler_stats_now :: "scheduler \<Rightarrow> scheduler_stats" where
  "scheduler_stats_now sched = sd_stats sched"

definition scheduler_jobs :: "scheduler \<Rightarrow> scheduled_job list" where
  "scheduler_jobs sched = sd_jobs sched"

subsection \<open>What a configuration says\<close>

text \<open>The numbers of a schedule are \<open>u64\<close> and \<open>u32\<close>.\<close>

fun schedule_fits :: "schedule \<Rightarrow> bool" where
  "schedule_fits (Every_N_Seconds n) = (n < 2 ^ 64)"
| "schedule_fits (Every_N_Minutes n) = (n < 2 ^ 64)"
| "schedule_fits (Hourly m) = (m < 2 ^ 32)"
| "schedule_fits (Daily h m) = (h < 2 ^ 32 \<and> m < 2 ^ 32)"
| "schedule_fits (Weekly d h m) = (d < 2 ^ 32 \<and> h < 2 ^ 32 \<and> m < 2 ^ 32)"
| "schedule_fits (Quarterly d h m) = (d < 2 ^ 32 \<and> h < 2 ^ 32 \<and> m < 2 ^ 32)"

lemma as_u64_JNat: "n < 2 ^ 64 \<Longrightarrow> as_u64 (JNat n) = Some n"
  by simp

lemma schedule_roundtrip: "schedule_fits s \<Longrightarrow> dec_schedule (enc_schedule s) = Some s"
  by (cases s)
    (simp_all add: dec_schedule_def kind_tagged_def map_of_obj_of dec_numbers1_def dec_numbers2_def dec_numbers3_def
      codec_simps dec_u32_JNat [simplified])

text \<open>A job is read back as it was written, and a configuration of written jobs is parsed as these jobs.\<close>

lemma job_roundtrip: "schedule_fits (sj_schedule j) \<Longrightarrow> dec_job (enc_job j) = Some j"
  by (cases "sj_channel j")
    (simp_all add: dec_job_def enc_job_def codec_simps schedule_roundtrip default_field_def opt_field_def)

lemma config_roundtrip:
  assumes "list_all (\<lambda>j. schedule_fits (sj_schedule j)) jobs"
    and "toml tx = Ok (json_obj [(''jobs'', JArr (map enc_job jobs))])"
  shows "parse_config toml bad_shape tx = Ok jobs"
proof -
  have "read_all dec_job (map enc_job jobs) = Some jobs"
    using assms(1) by (induction jobs) (simp_all add: job_roundtrip)
  then show ?thesis
    using assms(2) by (simp add: parse_config_def dec_config_def codec_simps default_field_def dec_list_def)
qed

text \<open>Without jobs the configuration is empty; a job without the optional fields is enabled, has no channel
  and null arguments.\<close>

lemma config_defaults:
  "dec_config (JObj []) = Some []"
  "schedule_fits s \<Longrightarrow>
     dec_job (json_obj [(''name'', JStr n), (''schedule'', enc_schedule s), (''tool'', JStr t)])
       = Some \<lparr>sj_name = n, sj_schedule = s, sj_tool = t, sj_arguments = JNull, sj_channel = None, sj_enabled = True\<rparr>"
  by (simp_all add: dec_config_def dec_job_def codec_simps schedule_roundtrip default_field_def opt_field_def
      struct_field_def)

end
