(* ===== verification/Store_Defaults.thy ===== *)
theory Store_Defaults
  imports Qdrant Retrieval Doc_Tree
begin

text \<open>
  The methods a knowledge store has by default (trait \<open>KnowledgeStore\<close> of \<open>crates/oracle-automate-kb/src/store.rs\<close>),
  which the Qdrant store keeps: a hybrid search is its search with no second ranking, the tree of a document
  is built from the document, and there are no counters. What the retrieval pipeline is over such a store.
\<close>

definition default_hybrid_search ::
  "('f search_query \<Rightarrow> 'w \<Rightarrow> 'f search_hit list store_result \<times> 'w) \<Rightarrow> 'f search_query \<Rightarrow> 'w
     \<Rightarrow> ('f search_hit list \<times> 'f search_hit list) store_result \<times> 'w" where
  "default_hybrid_search search query w =
     (case search query w of (res, w') \<Rightarrow> (map_sum id (\<lambda>dense. (dense, [])) res, w'))"

definition default_document_tree ::
  "(string \<Rightarrow> 'w \<Rightarrow> document option store_result \<times> 'w) \<Rightarrow> string \<Rightarrow> 'w
     \<Rightarrow> document_tree option store_result \<times> 'w" where
  "default_document_tree get i w =
     (case get i w of (res, w') \<Rightarrow> (map_sum id (map_option build_document_tree) res, w'))"

definition default_upsert_stats :: upsert_stats where
  "default_upsert_stats = \<lparr>us_chunks_written = 0, us_chunks_dedup_skipped = 0, us_documents_written = 0\<rparr>"

subsection \<open>Fusing one ranking\<close>

lemma desc_unique:
  assumes "mset S = mset L" and "desc_by lt key S" and "sorted_wrt (\<lambda>x y. lt (key y) (key x)) L"
  shows "S = L"
  using assms
proof (induction L arbitrary: S)
  case (Cons x L)
  obtain y S' where S: "S = y # S'" using Cons.prems(1) by (cases S) auto
  have "y = x"
  proof (rule ccontr)
    assume "y \<noteq> x"
    moreover have "set S = set (x # L)" using Cons.prems(1) by (metis set_mset_mset)
    ultimately have "x \<in> set S'" "y \<in> set L" by (auto simp: S)
    then show False using Cons.prems(2,3) by (auto simp: S)
  qed
  then show ?case using Cons S by auto
qed simp

lemma rrf_fold_one:
  assumes "distinct (hit_ids hs)" and "fst ` set acc \<inter> set (hit_ids hs) = {}"
  shows "foldl (rrf_add fo k) acc (enumerate i hs)
    = acc @ map (\<lambda>(j, c, s). (ck_id c, c, rrf_contribution fo k j)) (enumerate i hs)"
  using assms
proof (induction hs arbitrary: acc i)
  case (Cons h hs)
  obtain c s where h: "h = (c, s)" by fastforce
  have c: "ck_id c \<notin> fst ` set acc" "ck_id c \<notin> set (hit_ids hs)" "distinct (hit_ids hs)"
    "fst ` set acc \<inter> set (hit_ids hs) = {}"
    using Cons.prems by (auto simp: h hit_ids_def)
  have "map_of acc (ck_id c) = None" using c(1) by (simp add: map_of_eq_None_iff)
  moreover have "AList.update v x acc = acc @ [(v, x)]" if "v \<notin> fst ` set acc" for v and x :: "'a search_hit"
    using that by (induction acc) auto
  ultimately have "rrf_add fo k acc (i, h) = acc @ [(ck_id c, c, rrf_contribution fo k i)]"
    using c(1) by (simp add: rrf_add_def h)
  then show ?case using Cons.IH [of "acc @ [(ck_id c, c, rrf_contribution fo k i)]" "Suc i"] c by (simp add: h)
qed simp

text \<open>One ranking is kept as it is, with the reciprocal ranks as scores, when these decrease.\<close>

lemma fusion_of_one_ranking:
  assumes "\<And>xs. mset (ord xs) = mset xs" and "strict_weak (fl_lt fo)" and "distinct (hit_ids dense)"
    and "\<And>i j. i < j \<Longrightarrow> j < length dense \<Longrightarrow> fl_lt fo (rrf_contribution fo k j) (rrf_contribution fo k i)"
  shows "reciprocal_rank_fusion fo ord dense [] k cap
    = take cap (map (\<lambda>(i, c, s). (c, rrf_contribution fo k i)) (enumerate 0 dense))"
proof -
  let ?L = "map (\<lambda>(i, c, s). (c, rrf_contribution fo k i)) (enumerate 0 dense)"
  let ?S = "sort_desc (fl_lt fo) snd (map snd (ord (rrf_scores fo k dense [])))"
  have "rrf_scores fo k dense [] = map (\<lambda>(j, c, s). (ck_id c, c, rrf_contribution fo k j)) (enumerate 0 dense)"
    using rrf_fold_one [OF assms(3), of "[]"] by (simp add: rrf_scores_def)
  then have "map snd (rrf_scores fo k dense []) = ?L" by (simp add: case_prod_beta comp_def)
  then have "mset ?S = mset ?L" using assms(1) by (metis mset_map mset_sort_desc)
  moreover have "desc_by (fl_lt fo) snd ?S" by (rule sort_desc_sorted [OF assms(2)])
  moreover have "sorted_wrt (\<lambda>x y. fl_lt fo (snd y) (snd x)) ?L"
    using assms(4) by (auto simp: sorted_wrt_iff_nth_less nth_enumerate_eq split: prod.splits)
  ultimately have "?S = ?L" by (rule desc_unique)
  then show ?thesis by (simp add: reciprocal_rank_fusion_def)
qed

subsection \<open>Retrieval over the Qdrant store\<close>

definition qdrant_hybrid_search ::
  "'f float_ops \<Rightarrow> ('f \<Rightarrow> json) \<Rightarrow> (json \<Rightarrow> 'f option) \<Rightarrow> string \<Rightarrow> qdrant \<Rightarrow> 'w q_send \<Rightarrow> 'f search_query \<Rightarrow> 'w
     \<Rightarrow> ('f search_hit list \<times> 'f search_hit list) store_result \<times> 'w" where
  "qdrant_hybrid_search fo num read_num bad_shape qd send =
     default_hybrid_search (qdrant_search fo num read_num bad_shape qd send)"

text \<open>Without an embedding every search fails. With one, and without a reranker, the pipeline answers the
  hits of the store in their order, up to the pool and the number asked for, and reports no sparse candidate
  and no overlap: words of the query that the text of a chunk holds do not count.\<close>

lemma qdrant_retrieval_needs_embedding:
  "rag_hybrid_search fo ord (\<lambda>query. fst (qdrant_hybrid_search fo num read_num bad_shape qd send query w)) e q None
     = Err (Store_Backend ''qdrant search requires an embedding'')"
proof -
  have "sq_embedding (store_query e q None) = None"
    by (simp add: store_query_def query_text_def with_domain_def Let_def split: option.split)
  then show ?thesis
    by (simp add: rag_hybrid_search_def qdrant_hybrid_search_def default_hybrid_search_def qdrant_search_def)
qed

lemma qdrant_retrieval_is_dense:
  assumes "re_reranker e = None"
    and hyps: "\<And>xs. mset (ord xs) = mset xs" "strict_weak (fl_lt fo)" "distinct (hit_ids dense)"
      "\<And>i j. i < j \<Longrightarrow> j < length dense
        \<Longrightarrow> fl_lt fo (rrf_contribution fo (re_rrf_k e) j) (rrf_contribution fo (re_rrf_k e) i)"
    and "fst (qdrant_search fo num read_num bad_shape qd send (store_query e q (Some v)) w) = Ok dense"
  shows "\<exists>resp. rag_hybrid_search fo ord (\<lambda>query. fst (qdrant_hybrid_search fo num read_num bad_shape qd send query w))
          e q (Some v) = Ok resp
        \<and> sr_hits resp = map hit_view_of (take (rg_top_k q) (take (re_candidate_pool e)
            (map (\<lambda>(i, c, s). (c, rrf_contribution fo (re_rrf_k e) i)) (enumerate 0 dense))))
        \<and> rd_sparse_candidates (sr_diagnostics resp) = 0 \<and> rd_rrf_overlap (sr_diagnostics resp) = 0"
proof -
  have "fst (qdrant_hybrid_search fo num read_num bad_shape qd send (store_query e q (Some v)) w) = Ok (dense, [])"
    using assms(6) by (simp add: qdrant_hybrid_search_def default_hybrid_search_def case_prod_beta)
  then show ?thesis
    by (simp add: rag_hybrid_search_def assms(1) fusion_of_one_ranking [OF hyps] rank_overlap_def Let_def)
qed

end
