(* ===== verification/Spec2Isabelle.thy ===== *)
theory Spec2Isabelle
  imports Transaction Circuit_Breaker Fusion Pool Credentials Memory Scheduler Channels
    Crawl_Policy Ingest Mcp_Client Graph_Community Retrieval Observability Stdio_Server Gateway
    Oic_Pod Ingest_App Console_View Bench Sample_Client
    Client_Tasks Schedule_Config Store_Defaults
begin

text \<open>
  A verification development for Oracle-Automate, an agent runtime that serves an Oracle ERP over the
  model context protocol. It models the Rust crates that carry its own logic: the protocol with its
  server and client, the ERP access layer, agent memory, scheduling and channels, the knowledge store,
  the knowledge graph and retrieval, the ingestion, the audit log and metrics, the skills, the artifact
  client, and the server application with its tools, resources and prompts over all of them.

  \<^bold>\<open>Conventions.\<close> A string is its UTF-8 bytes (a character is a byte), and letter case,
  alphanumerics and white space are those of ASCII. A \<open>Result\<close> is a sum (\<open>Err\<close> is \<open>Inl\<close>, \<open>Ok\<close> is
  \<open>Inr\<close>), a panic is \<open>None\<close>. A \<open>serde_json\<close> object is an association list sorted by key, as
  \<open>serde_json::Map\<close> is. A \<open>HashMap\<close> is a partial function or an association list without duplicate
  keys; where its iteration order shows, that order is an argument. An \<open>Instant\<close> or a \<open>Duration\<close> is a
  number of nanoseconds. A lock protects one atomic operation; where the code drops it in between
  (circuit breaker, pool, rate limiter), the operations are steps that interleave. The \<open>f32\<close>
  operations of the scores are a record of functions without laws but for the order of the sort.
  HTTP, SHA-256, decoding of JSON text, the process environment and the file system are parameters.
  Counters and sizes are natural numbers; casts to a width that the code writes are \<open>mod\<close>.

  \<^bold>\<open>Theories.\<close>
  \<^item> \<open>Prelude\<close>: results, characters and the string functions of the standard library with their
    laws; \<open>Systems\<close>: reachability over a step relation and the invariant rule; \<open>Json\<close>: JSON values;
    \<open>Float_Ops\<close>: the float record and the stable descending sort.
  \<^item> \<open>Erp_Error\<close>, \<open>Erp_Types\<close>, \<open>Erp_Catalog\<close>, \<open>Erp_Client\<close> (\<open>oracle-automate-erp\<close>: \<open>error.rs\<close>,
    \<open>client.rs\<close>): errors, requests and metadata, the seeded catalogue, the mock client; the locale
    \<open>erp_backend\<close> is the contract of the \<open>ErpClient\<close> trait that callers rely on, interpreted by the
    mock, by the cache over it and by the live client.
  \<^item> \<open>Retry\<close>, \<open>Circuit_Breaker\<close> (\<open>retry.rs\<close>): the backoff loop refines "the first final outcome";
    the breaker as sequential calls and as a step relation with its invariant.
  \<^item> \<open>Erp_Result\<close>, \<open>Transaction\<close> (\<open>erp_result.rs\<close>, \<open>transaction.rs\<close>): the return stack and the write
    orchestrator: commit exactly on confirmation, roll back otherwise.
  \<^item> \<open>Metadata_Cache\<close>, \<open>Pool\<close>, \<open>Credentials\<close>, \<open>Fusion\<close> (the files of the same names): transparency
    and accounting of the cache, the permit bound, the provider chain, the read-only gate.
  \<^item> \<open>Memory\<close>, \<open>Scheduler\<close>, \<open>Schedule_Config\<close>, \<open>Channels\<close> (the crates of these names): the ring refines the
    history, tenant-filtered look-up, cadences, the configuration and its round trip, routing.
  \<^item> \<open>Kb_Store\<close>, \<open>Doc_Tree\<close> (\<open>oracle-automate-kb\<close>): the in-memory store and its searches; the
    document tree with the builder's raw pointers as addresses.
  \<^item> \<open>Chunker\<close>, \<open>Crawl_Policy\<close>, \<open>Ingest\<close> (\<open>oracle-automate-ingest\<close>): chunking and the block filter,
    rate limiter and robots files, embedders and the pipeline; the locale \<open>embedding_client\<close> is what
    the pipeline needs of an embedder, interpreted by the mock embedder.
  \<^item> \<open>Json_Rpc\<close>, \<open>Protocol\<close> (\<open>mcp-core\<close>): the messages and the structures of the protocol with the
    JSON that \<open>serde\<close> derives for them, and their round trips.
  \<^item> \<open>Mcp_Server\<close> (\<open>mcp-server\<close>: \<open>registry.rs\<close>, \<open>server.rs\<close>): builder, exposure policy, every method, the
    serial loop; the tool surface and that write handlers cannot run under the read-only policy.
  \<^item> \<open>Correlation\<close> (\<open>mcp-client\<close>, \<open>elicit.rs\<close>): the calls, the table of waiters, reader and writer as a
    step relation; answers match, who is released at shutdown and who is not.
  \<^item> \<open>Mcp_Client\<close> (\<open>mcp-client\<close>, \<open>elicit.rs\<close>): the client's calls over a link, elicitation, and the
    composition of client and server over the JSON on the wire.
  \<^item> \<open>Client_Tasks\<close> (\<open>mcp-client\<close>): the tasks behind a client over split halves and over a whole transport, as
    step relations: the tasks of a dropped client wait for the server to end, which waits for them.
  \<^item> \<open>Graph_Store\<close>, \<open>Graph_Rank\<close>, \<open>Graph_Community\<close> (\<open>oracle-automate-graph\<close>, \<open>graph_layer.rs\<close>): the
    graph and its corpus, personalised PageRank over float operations (what concerns mass is proved in
    exact arithmetic, \<open>real_ops\<close>), hop counts as distances, communities, the summary tree, the engine.
  \<^item> \<open>Retrieval\<close> (\<open>oracle-automate-rag\<close>): rank fusion, rerankers, the hybrid search; the locale \<open>reranker\<close>
    is what the pipeline needs of a reranker, interpreted by the mock and by the managed one.
  \<^item> \<open>Observability\<close> (\<open>oracle-automate-observability\<close>, the server's \<open>metrics.rs\<close>): redaction and sinks, the
    metrics registry and its text form, what is recorded of tool calls.
  \<^item> \<open>Skills\<close> (\<open>oracle-automate-skills\<close>): prompt templates, the parser of their front matter and its round
    trip, the scan of directories.
  \<^item> \<open>Oic_Client\<close>, \<open>Oic_Http\<close> (\<open>oracle-automate-adt\<close>): the artifact client, its mock with the fixtures, the
    live client and its destinations; the locale \<open>oic_backend\<close> is the contract of the trait (reads write
    nothing, read-only activations are refused), interpreted by the mock and by the live client.
  \<^item> \<open>Tool_Data\<close>, \<open>Server_Context\<close> (the server's \<open>tools.rs\<close>, \<open>context.rs\<close>): the JSON the tools read and write;
    the client traits as records of operations, and the world a tool runs in: the state of the ERP
    client, the outside worlds, the elicitation handle, the audit log and the clock.
  \<^item> \<open>Kb_Tools\<close>, \<open>Erp_Tools\<close>, \<open>Oic_Tools\<close>, \<open>Workflow_Tools\<close> (\<open>tools.rs\<close>): every tool, as a handler on that world
    and a descriptor with the schema it advertises.
  \<^item> \<open>Server_Surface\<close> (\<open>resources.rs\<close>, \<open>prompts.rs\<close>, \<open>lib.rs\<close>, \<open>main.rs\<close>): resources, prompts, completion and the
    server built of everything. \<open>Server_Safety\<close>: what serving any messages keeps (\<open>guarded_server\<close>), the
    contract of a read-only context (\<open>read_only_context\<close>), interpreted by the context for a pod.
    \<open>Server_Main\<close> (\<open>main.rs\<close>, \<open>seed.rs\<close>): the process from its command line and environment to the server,
    live or offline, the seeding, and the recording of the calls over HTTP.
  \<^item> \<open>Transports\<close> (\<open>mcp-transport\<close>): line-delimited JSON over byte streams and the HTTP endpoint;
    \<open>Stdio_Server\<close>: the tasks of \<open>run_stdio\<close> and their channels as a step relation.
  \<^item> \<open>Server_Listing\<close>: the names of the tools the application lists. \<open>Gateway\<close>
    (\<open>oracle-automate-gw\<close>): the routing of a user's message to a skill or a tool, its memory, its
    reply and the scheduled jobs, over a client and its link to a server.
  \<^item> \<open>Hex\<close>, \<open>Qdrant\<close> (\<open>qdrant.rs\<close>), \<open>Crawler\<close> (\<open>crawler.rs\<close>), \<open>Ingest_App\<close> (\<open>oracle-automate-ingest\<close>, the
    program): the store over the Qdrant service and what of a chunk
    survives in a point (\<open>Store_Defaults\<close>: the
    default methods it keeps, and that retrieval over it is dense only), the walk of a directory of pages,
    and the program that joins crawler, pipeline and store.
  \<^item> \<open>Fusion_Pod\<close>, \<open>Oic_Pod\<close> (\<open>oracle-automate-fusion-mock\<close>, \<open>oracle-automate-oic-mock\<close>): the stand-ins for
    the two pods, and each of them behind the live client: what searches find and what becomes of writes.
  \<^item> \<open>Latency\<close>, \<open>Console\<close>, \<open>Console_View\<close> (\<open>oracle-automate-tui\<close>): percentiles by rank; the operator console
    with its feed, keys and loop, whose state is a function of the events observed; what its tabs show.
  \<^item> \<open>Bench\<close> (\<open>oracle-automate-bench\<close>): the acceptance benchmark over crawler, pipeline, retrieval and graph,
    and when it passes. \<open>Sample_Server\<close>, \<open>Sample_Client\<close> (\<open>sample-server\<close>, \<open>sample-client\<close>): the example
    programs over the wire, call specifications and the ways to answer an elicitation.

  \<^bold>\<open>Termination.\<close> The loops recurse structurally or on a measure (attempts left, bytes left, depth of a
  JSON value); the passes of community detection and the iterations of PageRank count down from the
  bounds the code has (eight, and \<open>max_iterations\<close>).

  \<^bold>\<open>Not modelled.\<close> The widgets, layout and styles of the terminal, which are a library's; listening sockets,
  the spawning of processes, the schedule loop of the runtime, tracing output and the warning about the
  permissions of credential files; \<open>oracle-automate-connectors\<close>, which declares traits that nothing implements.
\<close>

end
